(* ===== verification/Sloga_Prelude.thy ===== *)
theory Sloga_Prelude
  imports
    Main
    "HOL-Library.Word"
    "HOL-Library.AList"
    "HOL-Library.Char_ord"
    "HOL-Library.List_Lexorder"
    "HOL-Library.Product_Lexorder"
    "HOL-Library.Option_ord"
begin

text \<open>
  What every component of the development shares: the errors a request may end with
  (the variants of \<open>ErrorType\<close> the modelled code raises, plus a panic), the effect type
  in which stateful handlers are written, the 64-bit integer operations of the standard
  library the code calls, and lemmas on association lists, which stand for the hash maps
  of the reference database.

  A handler is a function from a state to a result and a state. The state is kept when
  the result is an error: Rust's \<open>?\<close> returns early and undoes nothing, so what a handler
  wrote before it failed stays written.
\<close>

named_theorems eff_simps \<open>unfolding equations of the effect combinators\<close>
named_theorems keeps_intros \<open>introduction rules for invariants kept by a handler\<close>
named_theorems table_simps \<open>lookup equations of the row tables\<close>

section \<open>Errors\<close>

datatype error =
    NotFound
  | InternalError
  | DatabaseError string string
  | PaymentsDisabled
  | CipherSalesClosed
  | CipherRegionUnavailable
  | PaymentPending
  | CipherTierInvalid
  | CipherSoldOut
  | PaymentProviderError
  | ProtDisabled
  | ProtSalesClosed
  | ProtRegionUnavailable
  | ProtNotEligible
  | ProtPackInvalid
  | ProtWalletCap int
  | IsBot
  | InsufficientProt int int
  | ProtIdempotencyConflict
  | FailedValidation string
  | MissingPermission string
  | CannotGiveMissingPermissions
  | InvalidOperation
  | InvalidProperty
  | PollClosed
  | NotElevated
  | TooManyRoles nat
  | NotOwner
  | SeatCapReached nat
  | SeatListNamesRemovedUsers "string list"
  | FeatureDisabled string
  | ProtectedChannelResecuring string
  | NotSeated
  | DeviceCapReached nat
  | MlsCallFull nat
  | Panic string

section \<open>Effects\<close>

type_synonym ('s, 'a) eff = "'s \<Rightarrow> (error + 'a) \<times> 's"

definition okE :: "'a \<Rightarrow> ('s, 'a) eff" where
  "okE a = (\<lambda>s. (Inr a, s))"

definition errE :: "error \<Rightarrow> ('s, 'a) eff" where
  "errE e = (\<lambda>s. (Inl e, s))"

definition bindE :: "('s, 'a) eff \<Rightarrow> ('a \<Rightarrow> ('s, 'b) eff) \<Rightarrow> ('s, 'b) eff" where
  "bindE m f = (\<lambda>s. case m s of (Inl e, s') \<Rightarrow> (Inl e, s') | (Inr a, s') \<Rightarrow> f a s')"

definition thenE :: "('s, 'a) eff \<Rightarrow> ('s, 'b) eff \<Rightarrow> ('s, 'b) eff" where
  "thenE m k = bindE m (\<lambda>_. k)"

text \<open>\<open>match m\<close>: the caller looks at the error of \<open>m\<close>; a panic unwinds past the match.\<close>

fun is_panic :: "error \<Rightarrow> bool" where
  "is_panic (Panic _) = True"
| "is_panic _ = False"

fun caught :: "error + 'a \<Rightarrow> error + (error + 'a)" where
  "caught (Inr a) = Inr (Inr a)"
| "caught (Inl e) = (if is_panic e then Inl e else Inr (Inl e))"

definition tryE :: "('s, 'a) eff \<Rightarrow> ('s, error + 'a) eff" where
  "tryE m = (\<lambda>s. case m s of (r, s') \<Rightarrow> (caught r, s'))"

definition getE :: "('s, 's) eff" where
  "getE = (\<lambda>s. (Inr s, s))"

definition modE :: "('s \<Rightarrow> 's) \<Rightarrow> ('s, unit) eff" where
  "modE f = (\<lambda>s. (Inr (), f s))"

definition resE :: "error + 'a \<Rightarrow> ('s, 'a) eff" where
  "resE r = (\<lambda>s. (r, s))"

definition whenE :: "bool \<Rightarrow> ('s, unit) eff \<Rightarrow> ('s, unit) eff" where
  "whenE b m = (if b then m else okE ())"

text \<open>\<open>for x in xs\<close>: the body runs on each element in turn, and an error leaves the loop.\<close>

primrec forE :: "('a \<Rightarrow> ('s, unit) eff) \<Rightarrow> 'a list \<Rightarrow> ('s, unit) eff" where
  "forE f [] = okE ()"
| "forE f (x # xs) = thenE (f x) (forE f xs)"

text \<open>\<open>for _ in 0..n\<close> around a compare-and-swap: the body answers \<open>Some\<close> to return and
  \<open>None\<close> to try again; after \<open>n\<close> tries the loop ends with what follows it.\<close>

primrec retryE :: "nat \<Rightarrow> ('s, 'a option) eff \<Rightarrow> ('s, 'a) eff \<Rightarrow> ('s, 'a) eff" where
  "retryE 0 body after = after"
| "retryE (Suc n) body after =
     bindE body (\<lambda>r. case r of Some a \<Rightarrow> okE a | None \<Rightarrow> retryE n body after)"

lemma okE_run [eff_simps]: "okE a s = (Inr a, s)" by (simp add: okE_def)
lemma errE_run [eff_simps]: "errE e s = (Inl e, s)" by (simp add: errE_def)
lemma getE_run [eff_simps]: "getE s = (Inr s, s)" by (simp add: getE_def)
lemma modE_run [eff_simps]: "modE f s = (Inr (), f s)" by (simp add: modE_def)
lemma resE_run [eff_simps]: "resE r s = (r, s)" by (simp add: resE_def)

lemma tryE_run [eff_simps]: "tryE m s = (caught (fst (m s)), snd (m s))"
  by (simp add: tryE_def split: prod.splits)

lemma bindE_run [eff_simps]:
  "bindE m f s = (case m s of (Inl e, s') \<Rightarrow> (Inl e, s') | (Inr a, s') \<Rightarrow> f a s')"
  by (simp add: bindE_def)

lemma thenE_run [eff_simps]:
  "thenE m k s = (case m s of (Inl e, s') \<Rightarrow> (Inl e, s') | (Inr a, s') \<Rightarrow> k s')"
  by (simp add: thenE_def bindE_def)

lemma whenE_run [eff_simps]: "whenE b m s = (if b then m s else (Inr (), s))"
  by (simp add: whenE_def okE_def)

lemma bindE_okE [simp]: "bindE (okE a) f = f a"
  by (rule ext) (simp add: eff_simps)

lemma bindE_errE [simp]: "bindE (errE e) f = errE e"
  by (rule ext) (simp add: eff_simps)

lemma bindE_okE_right [simp]: "bindE m okE = m"
  by (rule ext) (simp add: eff_simps split: prod.splits sum.splits)

lemma bindE_assoc: "bindE (bindE m f) g = bindE m (\<lambda>a. bindE (f a) g)"
  by (rule ext) (simp add: eff_simps split: prod.splits sum.splits)

section \<open>Invariants of handlers\<close>

text \<open>\<open>keeps I m\<close>: whatever \<open>m\<close> returns, an error included, the state it leaves satisfies
  \<open>I\<close> when the state it started in did. \<open>ensures P m Q\<close> also speaks of the result.\<close>

definition keeps :: "('s \<Rightarrow> bool) \<Rightarrow> ('s, 'a) eff \<Rightarrow> bool" where
  "keeps I m \<longleftrightarrow> (\<forall>s. I s \<longrightarrow> I (snd (m s)))"

definition ensures :: "('s \<Rightarrow> bool) \<Rightarrow> ('s, 'a) eff \<Rightarrow> (error + 'a \<Rightarrow> 's \<Rightarrow> bool) \<Rightarrow> bool" where
  "ensures P m Q \<longleftrightarrow> (\<forall>s. P s \<longrightarrow> Q (fst (m s)) (snd (m s)))"

lemma keepsI: "(\<And>s. I s \<Longrightarrow> I (snd (m s))) \<Longrightarrow> keeps I m"
  by (simp add: keeps_def)

lemma keepsD: "keeps I m \<Longrightarrow> I s \<Longrightarrow> I (snd (m s))"
  by (simp add: keeps_def)

lemma keepsE_run: "keeps I m \<Longrightarrow> I s \<Longrightarrow> m s = (r, s') \<Longrightarrow> I s'"
  using keepsD by fastforce

lemma keeps_okE [keeps_intros]: "keeps I (okE a)" by (simp add: keeps_def eff_simps)
lemma keeps_errE [keeps_intros]: "keeps I (errE e)" by (simp add: keeps_def eff_simps)
lemma keeps_getE [keeps_intros]: "keeps I getE" by (simp add: keeps_def eff_simps)
lemma keeps_resE [keeps_intros]: "keeps I (resE r)" by (simp add: keeps_def eff_simps)

lemma keeps_bindE [keeps_intros]:
  "\<lbrakk>keeps I m; \<And>a. keeps I (f a)\<rbrakk> \<Longrightarrow> keeps I (bindE m f)"
  by (fastforce simp: keeps_def eff_simps split: prod.splits sum.splits)

lemma keeps_thenE [keeps_intros]:
  "\<lbrakk>keeps I m; keeps I k\<rbrakk> \<Longrightarrow> keeps I (thenE m k)"
  by (simp add: thenE_def keeps_bindE)

lemma keeps_tryE [keeps_intros]: "keeps I m \<Longrightarrow> keeps I (tryE m)"
  by (simp add: keeps_def eff_simps)

lemma keeps_whenE [keeps_intros]: "keeps I m \<Longrightarrow> keeps I (whenE b m)"
  by (simp add: keeps_def eff_simps)

lemma keeps_if [keeps_intros]: "\<lbrakk>keeps I m; keeps I k\<rbrakk> \<Longrightarrow> keeps I (if b then m else k)"
  by simp

lemma keeps_case_option [keeps_intros]:
  "\<lbrakk>keeps I m; \<And>x. keeps I (f x)\<rbrakk> \<Longrightarrow> keeps I (case v of None \<Rightarrow> m | Some x \<Rightarrow> f x)"
  by (simp split: option.split)

lemma keeps_case_sum [keeps_intros]:
  "\<lbrakk>\<And>x. keeps I (f x); \<And>x. keeps I (g x)\<rbrakk> \<Longrightarrow> keeps I (case v of Inl x \<Rightarrow> f x | Inr x \<Rightarrow> g x)"
  by (simp split: sum.split)

lemma keeps_case_prod [keeps_intros]:
  "(\<And>x y. keeps I (f x y)) \<Longrightarrow> keeps I (case v of (x, y) \<Rightarrow> f x y)"
  by (simp split: prod.split)

lemma keeps_modE: "(\<And>s. I s \<Longrightarrow> I (f s)) \<Longrightarrow> keeps I (modE f)"
  by (simp add: keeps_def eff_simps)

lemma keeps_forE [keeps_intros]: "(\<And>x. keeps I (f x)) \<Longrightarrow> keeps I (forE f xs)"
  by (induction xs) (simp_all add: keeps_intros)

lemma keeps_retryE [keeps_intros]:
  "\<lbrakk>keeps I body; keeps I after\<rbrakk> \<Longrightarrow> keeps I (retryE n body after)"
  by (induction n) (auto intro!: keeps_bindE keeps_okE split: option.split)

lemma ensures_run: "ensures P m Q \<Longrightarrow> P s \<Longrightarrow> m s = (r, s') \<Longrightarrow> Q r s'"
  unfolding ensures_def by (metis fst_conv snd_conv)

section \<open>Signed 64-bit integers\<close>

text \<open>An \<open>i64\<close> is an \<open>int\<close>; each operation says what it does at the ends of the range.\<close>

definition i64_min :: int where "i64_min = - 9223372036854775808"
definition i64_max :: int where "i64_max = 9223372036854775807"

definition is_i64 :: "int \<Rightarrow> bool" where
  "is_i64 x \<longleftrightarrow> i64_min \<le> x \<and> x \<le> i64_max"

definition clamp_i64 :: "int \<Rightarrow> int" where
  "clamp_i64 x = (if x < i64_min then i64_min else if i64_max < x then i64_max else x)"

definition saturating_add :: "int \<Rightarrow> int \<Rightarrow> int" where
  "saturating_add a b = clamp_i64 (a + b)"

definition saturating_sub :: "int \<Rightarrow> int \<Rightarrow> int" where
  "saturating_sub a b = clamp_i64 (a - b)"

definition saturating_mul :: "int \<Rightarrow> int \<Rightarrow> int" where
  "saturating_mul a b = clamp_i64 (a * b)"

definition checked_i64 :: "int \<Rightarrow> int option" where
  "checked_i64 x = (if is_i64 x then Some x else None)"

text \<open>The plain operators of a release build wrap around.\<close>

definition wrap_i64 :: "int \<Rightarrow> int" where
  "wrap_i64 x = (x - i64_min) mod 18446744073709551616 + i64_min"

lemmas i64_defs = is_i64_def clamp_i64_def i64_min_def i64_max_def

lemma is_i64_clamp [simp]: "is_i64 (clamp_i64 x)"
  by (simp add: i64_defs)

lemma clamp_i64_id [simp]: "is_i64 x \<Longrightarrow> clamp_i64 x = x"
  by (simp add: i64_defs)

lemma wrap_i64_id [simp]: "is_i64 x \<Longrightarrow> wrap_i64 x = x"
  by (simp add: i64_defs wrap_i64_def)

lemma is_i64_wrap [simp]: "is_i64 (wrap_i64 x)"
proof -
  have "0 \<le> (x - i64_min) mod 18446744073709551616"
    and "(x - i64_min) mod 18446744073709551616 < 18446744073709551616"
    by simp_all
  then show ?thesis by (simp add: wrap_i64_def i64_defs)
qed

lemma is_i64_saturating [simp]:
  "is_i64 (saturating_add a b)" "is_i64 (saturating_sub a b)" "is_i64 (saturating_mul a b)"
  by (simp_all add: saturating_add_def saturating_sub_def saturating_mul_def)

lemma saturating_add_exact: "is_i64 (a + b) \<Longrightarrow> saturating_add a b = a + b"
  by (simp add: saturating_add_def)

lemma saturating_sub_exact: "is_i64 (a - b) \<Longrightarrow> saturating_sub a b = a - b"
  by (simp add: saturating_sub_def)

lemma saturating_sub_le_iff:
  "is_i64 a \<Longrightarrow> is_i64 b \<Longrightarrow> 0 \<le> c \<Longrightarrow> c < i64_max \<Longrightarrow> saturating_sub a b \<le> c \<longleftrightarrow> a - b \<le> c"
  by (auto simp: saturating_sub_def i64_defs)

section \<open>Checked 64-bit counters\<close>

text \<open>\<open>u64::checked_add(1)\<close>: there is no next value after the largest one.\<close>

definition checked_succ :: "64 word \<Rightarrow> (64 word) option" where
  "checked_succ v = (if v = - 1 then None else Some (v + 1))"

lemma checked_succ_unat: "checked_succ v = Some w \<Longrightarrow> unat w = unat v + 1"
proof -
  assume "checked_succ v = Some w"
  then have "v \<noteq> - 1" and w: "w = v + 1" by (auto simp: checked_succ_def split: if_splits)
  then have "1 + v \<noteq> 0" using minus_equation_iff [of v 1] add_eq_0_iff [of v 1]
    by (metis add.commute)
  then show ?thesis using w unatSuc [of v] by (simp add: add.commute)
qed

lemma checked_succ_less: "checked_succ v = Some w \<Longrightarrow> v < w"
  using checked_succ_unat by (force simp: word_less_nat_alt)

section \<open>Row tables\<close>

text \<open>
  A collection of the reference database is a hash map from identifiers to rows. It is an
  association list here, read with \<open>map_of\<close>, written with \<open>AList.update\<close> and
  \<open>AList.delete\<close>; \<open>keyed key t\<close> says that the keys are distinct and that each row carries
  the key it is stored under.
\<close>

type_synonym ('k, 'r) table = "('k \<times> 'r) list"

definition keyed :: "('r \<Rightarrow> 'k) \<Rightarrow> ('k, 'r) table \<Rightarrow> bool" where
  "keyed key t \<longleftrightarrow> distinct (map fst t) \<and> (\<forall>(k, r) \<in> set t. key r = k)"

definition rows :: "('k, 'r) table \<Rightarrow> 'r list" where
  "rows t = map snd t"

lemma keyed_Nil [simp]: "keyed key []"
  by (simp add: keyed_def)

lemma keyed_update [intro]: "keyed key t \<Longrightarrow> key r = k \<Longrightarrow> keyed key (AList.update k r t)"
proof -
  assume t: "keyed key t" and k: "key r = k"
  have "set (AList.update k r t) \<subseteq> insert (k, r) (set t)"
  proof (induction t)
    case (Cons p t) then show ?case by (cases p) auto
  qed simp
  then show ?thesis using t k
    by (auto simp: keyed_def distinct_update)
qed

lemma keyed_delete [intro]: "keyed key t \<Longrightarrow> keyed key (AList.delete k t)"
proof -
  assume "keyed key t"
  moreover have "set (AList.delete k t) \<subseteq> set t" by (auto simp: AList.delete_eq)
  ultimately show ?thesis by (auto simp: keyed_def distinct_delete)
qed

lemma keyed_rows_iff: "keyed key t \<Longrightarrow> r \<in> set (rows t) \<longleftrightarrow> map_of t (key r) = Some r"
  unfolding keyed_def rows_def by (force dest: map_of_SomeD)

lemma keyed_lookup_key: "keyed key t \<Longrightarrow> map_of t k = Some r \<Longrightarrow> key r = k"
  unfolding keyed_def by (auto dest: map_of_SomeD)

lemma map_of_update [table_simps]:
  "map_of (AList.update k r t) k' = (if k' = k then Some r else map_of t k')"
  by (simp add: update_conv')

lemma map_of_delete [table_simps]:
  "map_of (AList.delete k t) k' = (if k' = k then None else map_of t k')"
  by (simp add: delete_conv')

lemma rows_lookup: "map_of t k = Some r \<Longrightarrow> r \<in> set (rows t)"
  unfolding rows_def by (force dest: map_of_SomeD)

lemma rows_update: "set (rows (AList.update k r t)) \<subseteq> insert r (set (rows t))"
proof (induction t)
  case (Cons p t) then show ?case by (cases p) (auto simp: rows_def)
qed (simp add: rows_def)

lemma find_Some_P: "List.find P xs = Some x \<Longrightarrow> P x \<and> x \<in> set xs"
  by (auto simp: find_Some_iff)

lemma keyed_find_key:
  "keyed key t \<Longrightarrow> List.find P (rows t) = Some r \<Longrightarrow> map_of t (key r) = Some r"
  by (auto dest: find_Some_P simp: keyed_rows_iff)

text \<open>\<open>Vec::truncate\<close> with a Mongo limit: 0 is no limit, a negative value its magnitude.\<close>

definition mongo_limit :: "int \<Rightarrow> 'a list \<Rightarrow> 'a list" where
  "mongo_limit limit xs = (if limit \<noteq> 0 then take (nat \<bar>limit\<bar>) xs else xs)"

lemma find_None_ex: "List.find P xs = None \<longleftrightarrow> \<not> (\<exists>x\<in>set xs. P x)"
  by (auto simp: find_None_iff)

text \<open>Inserting the elements of a list one by one: the last one with a key wins.\<close>

lemma foldl_update_lookup:
  assumes "\<And>x y. x \<in> set xs \<Longrightarrow> y \<in> set xs \<Longrightarrow> key x = key y \<Longrightarrow> val x = val y"
  shows "map_of (foldl (\<lambda>acc x. AList.update (key x) (val x) acc) [] xs) i =
    map_option val (List.find (\<lambda>x. key x = i) xs)"
proof -
  have "map_of (foldl (\<lambda>acc x. AList.update (key x) (val x) acc) acc xs) i =
      (case List.find (\<lambda>x. key x = i) xs of Some x \<Rightarrow> Some (val x) | None \<Rightarrow> map_of acc i)" for acc
    using assms
  proof (induction xs arbitrary: acc)
    case (Cons y xs)
    then have IH: "map_of (foldl (\<lambda>acc x. AList.update (key x) (val x) acc) acc' xs) i =
        (case List.find (\<lambda>x. key x = i) xs of Some x \<Rightarrow> Some (val x) | None \<Rightarrow> map_of acc' i)" for acc'
      by auto
    show ?case
    proof (cases "List.find (\<lambda>x. key x = i) xs")
      case (Some w)
      then have "w \<in> set xs" "key w = i" by (auto dest: find_Some_P)
      then show ?thesis using Some IH Cons.prems [of y w] by (auto simp: map_of_update)
    qed (simp add: IH map_of_update)
  qed simp
  then show ?thesis by (simp split: option.split)
qed

lemma find_distinct_key:
  "inj_on key (set xs) \<Longrightarrow> x \<in> set xs \<Longrightarrow> List.find (\<lambda>y. key y = key x) xs = Some x"
  by (induction xs) (auto simp: inj_on_def)

section \<open>Option helpers\<close>

definition is_some_and :: "('a \<Rightarrow> bool) \<Rightarrow> 'a option \<Rightarrow> bool" where
  "is_some_and P v = (case v of Some x \<Rightarrow> P x | None \<Rightarrow> False)"

lemma is_some_and_simps [simp]: "is_some_and P None = False" "is_some_and P (Some x) = P x"
  by (simp_all add: is_some_and_def)

lemma is_some_and_iff: "is_some_and P v \<longleftrightarrow> (\<exists>x. v = Some x \<and> P x)"
  by (cases v) simp_all

end
