(* ===== verification/Payment_Catalog.thy ===== *)
theory Payment_Catalog
  imports Sloga_Text
begin

text \<open>
  The products and their prices (\<open>crates/core/models/src/v0/payments.rs\<close>,
  \<open>crates/core/payments/src/catalog.rs\<close>) and the settings a sale runs on
  (\<open>crates/core/payments/src/settings.rs\<close> with the sections of
  \<open>crates/core/config/src/lib.rs\<close> they read). The RFC 3339 parser of the \<open>chrono\<close> crate
  is an argument of the settings.
\<close>

section \<open>Products\<close>

datatype cipher_tier = T99 | T149 | T299

datatype sku =
    CipherNew cipher_tier
  | CipherUpgrade cipher_tier cipher_tier
  | ProtPack string int int
  | ProtExact int

datatype product_family = CipherFamily | ProtFamily

record user_cipher =
  uc_number :: nat
  uc_tier :: cipher_tier

datatype cipher_return_to = Web | Shell

fun family :: "sku \<Rightarrow> product_family" where
  "family (CipherNew _) = CipherFamily"
| "family (CipherUpgrade _ _) = CipherFamily"
| "family (ProtPack _ _ _) = ProtFamily"
| "family (ProtExact _) = ProtFamily"

section \<open>Prices\<close>

definition CIPHER_CAP_MAX :: nat where
  "CIPHER_CAP_MAX = 1000"

fun tier_cents :: "cipher_tier \<Rightarrow> int" where
  "tier_cents T99 = 9900"
| "tier_cents T149 = 14900"
| "tier_cents T299 = 29900"

fun tier_prot :: "cipher_tier \<Rightarrow> int" where
  "tier_prot T99 = 16500"
| "tier_prot T149 = 33000"
| "tier_prot T299 = 75000"

fun tier_rank :: "cipher_tier \<Rightarrow> nat" where
  "tier_rank T99 = 1"
| "tier_rank T149 = 2"
| "tier_rank T299 = 3"

fun tier_label :: "cipher_tier \<Rightarrow> string" where
  "tier_label T99 = ''$99''"
| "tier_label T149 = ''$149''"
| "tier_label T299 = ''$299''"

definition prot_cents :: "int \<Rightarrow> error + int" where
  "prot_cents cents = (if cents \<le> 0 then Inl ProtPackInvalid else Inr cents)"

fun sku_cents :: "sku \<Rightarrow> error + int" where
  "sku_cents (ProtPack _ _ cents) = prot_cents cents"
| "sku_cents (ProtExact prot) = prot_cents prot"
| "sku_cents (CipherNew tier) =
     (let cents = tier_cents tier in if cents \<le> 0 then Inl CipherTierInvalid else Inr cents)"
| "sku_cents (CipherUpgrade from to) =
     (let cents = tier_cents to - tier_cents from
      in if cents \<le> 0 then Inl CipherTierInvalid else Inr cents)"

text \<open>The loop of \<open>prot_label\<close>: a comma before every digit but the first whose distance to
  the end is a multiple of three.\<close>

fun group_digits :: "nat \<Rightarrow> string \<Rightarrow> string" where
  "group_digits i [] = []"
| "group_digits i (d # ds) =
     (if i > 0 \<and> Suc (length ds) mod 3 = 0 then '','' else []) @ d # group_digits (Suc i) ds"

definition prot_label :: "int \<Rightarrow> string" where
  "prot_label prot =
     (if prot < 0 then ''-'' else []) @ group_digits 0 (decimal (nat \<bar>prot\<bar>))"

fun sku_product_name :: "sku \<Rightarrow> string" where
  "sku_product_name (CipherNew tier) = ''Cipher founding supporter ('' @ tier_label tier @ '')''"
| "sku_product_name (CipherUpgrade from to) =
     ''Cipher upgrade ('' @ tier_label from @ '' to '' @ tier_label to @ '')''"
| "sku_product_name (ProtPack _ prot _) = prot_label prot @ '' Prot''"
| "sku_product_name (ProtExact prot) = prot_label prot @ '' Prot''"

fun sku_prot :: "sku \<Rightarrow> int option" where
  "sku_prot (CipherNew _) = None"
| "sku_prot (CipherUpgrade _ _) = None"
| "sku_prot (ProtPack _ prot _) = Some prot"
| "sku_prot (ProtExact prot) = Some prot"

definition TERMS_ACCEPTANCE_MESSAGE :: string where
  "TERMS_ACCEPTANCE_MESSAGE =
     ''I agree to the [Terms of Service](https://sloga.gg/legal/terms.html). My Cipher badge is supplied as soon as my payment goes through, and I can ask for a full refund within 14 days.''"

definition PROT_TERMS_ACCEPTANCE_MESSAGE :: string where
  "PROT_TERMS_ACCEPTANCE_MESSAGE =
     ''I agree to the [Terms of Service](https://sloga.gg/legal/terms.html). My Prot is supplied as soon as my payment goes through, and it is non-refundable except where the law requires.''"

definition CIPHER_TAX_CODE :: string where
  "CIPHER_TAX_CODE = ''txcd_10000000''"

definition PROT_TAX_CODE :: string where
  "PROT_TAX_CODE = ''txcd_10000000''"

definition sku_consent_message :: "sku \<Rightarrow> string" where
  "sku_consent_message s =
     (case family s of
        CipherFamily \<Rightarrow> TERMS_ACCEPTANCE_MESSAGE
      | ProtFamily \<Rightarrow> PROT_TERMS_ACCEPTANCE_MESSAGE)"

definition sku_tax_code :: "sku \<Rightarrow> string" where
  "sku_tax_code s = (case family s of CipherFamily \<Rightarrow> CIPHER_TAX_CODE | ProtFamily \<Rightarrow> PROT_TAX_CODE)"

definition quote :: "cipher_tier option \<Rightarrow> cipher_tier \<Rightarrow> error + sku" where
  "quote current wanted =
     (case current of
        None \<Rightarrow> Inr (CipherNew wanted)
      | Some from \<Rightarrow>
          if tier_rank wanted > tier_rank from then Inr (CipherUpgrade from wanted)
          else Inl CipherTierInvalid)"

fun sku_cipher_tier :: "sku \<Rightarrow> cipher_tier option" where
  "sku_cipher_tier (CipherNew tier) = Some tier"
| "sku_cipher_tier (CipherUpgrade _ to) = Some to"
| "sku_cipher_tier (ProtPack _ _ _) = None"
| "sku_cipher_tier (ProtExact _) = None"

section \<open>Configuration\<close>

record prot_pack_config =
  pack_id :: string
  pack_cents :: int
  pack_prot :: int

record feature_payments =
  fp_enabled :: bool
  fp_cipher_sales_open :: bool
  fp_cipher_cap :: nat
  fp_cipher_sales_close_at :: string
  fp_cipher_blocked_countries :: "string list"
  fp_prot_sales_open :: bool
  fp_prot_packs :: "prot_pack_config list"
  fp_prot_exact_min_cents :: int
  fp_prot_exact_max_cents :: int
  fp_prot_blocked_countries :: "string list"
  fp_prot_success_url :: string
  fp_prot_cancel_url :: string
  fp_prot_shell_return_url :: string

record api_stripe =
  st_secret_key :: string
  st_webhook_secret :: string
  st_expect_livemode :: bool
  st_success_url_web :: string
  st_cancel_url_web :: string
  st_success_url_shell :: string
  st_cancel_url_shell :: string
  st_tolerance_secs :: nat
  st_automatic_tax :: bool

record prot_tier_costs =
  ptc_t10 :: int
  ptc_t25 :: int
  ptc_t50 :: int
  ptc_t100 :: int

record protection_features =
  pf_enabled :: bool
  pf_self_serve_enabled :: bool
  pf_burn_enabled :: bool
  pf_deletion_enabled :: bool
  pf_cipher_grants_enabled :: bool
  pf_channel_daily_cost :: prot_tier_costs
  pf_server_daily_cost :: prot_tier_costs
  pf_grace_days :: nat
  pf_freeze_days :: nat
  pf_final_warning_day :: nat
  pf_warn_days :: "nat list"
  pf_min_reactivation_days :: nat
  pf_launch_goal_deadline_days :: nat
  pf_launch_window_days :: nat
  pf_launch_seat_window_days :: nat
  pf_min_contribution :: int
  pf_min_launch_goal_days :: nat
  pf_withdraw_cutoff_hours :: nat
  pf_contribute_hold_hours :: nat
  pf_wallet_cap :: int

definition CIPHER_BLOCKED_COUNTRIES_DEFAULT :: "string list" where
  "CIPHER_BLOCKED_COUNTRIES_DEFAULT =
     [''AT'', ''BE'', ''BG'', ''HR'', ''CY'', ''CZ'', ''DK'', ''EE'', ''FI'', ''FR'', ''DE'', ''GR'',
      ''HU'', ''IE'', ''IT'', ''LV'', ''LT'', ''LU'', ''MT'', ''NL'', ''PL'', ''PT'', ''RO'', ''SK'',
      ''SI'', ''ES'', ''SE'', ''GB'']"

definition PROT_BLOCKED_COUNTRIES_DEFAULT :: "string list" where
  "PROT_BLOCKED_COUNTRIES_DEFAULT =
     [''AT'', ''BE'', ''BG'', ''HR'', ''CY'', ''CZ'', ''DK'', ''EE'', ''FI'', ''FR'', ''DE'', ''GR'',
      ''HU'', ''IE'', ''IT'', ''LV'', ''LT'', ''LU'', ''MT'', ''NL'', ''PL'', ''PT'', ''RO'', ''SK'',
      ''SI'', ''ES'', ''SE'', ''GB'', ''NO'', ''IS'', ''LI'']"

definition pack_new :: "string \<Rightarrow> int \<Rightarrow> int \<Rightarrow> prot_pack_config" where
  "pack_new i cents prot = \<lparr>pack_id = i, pack_cents = cents, pack_prot = prot\<rparr>"

definition default_feature_payments :: feature_payments where
  "default_feature_payments =
     \<lparr>fp_enabled = False, fp_cipher_sales_open = False, fp_cipher_cap = 1000,
      fp_cipher_sales_close_at = '''',
      fp_cipher_blocked_countries = CIPHER_BLOCKED_COUNTRIES_DEFAULT,
      fp_prot_sales_open = False,
      fp_prot_packs = [pack_new ''p5'' 500 500, pack_new ''p10'' 1000 1000,
        pack_new ''p25'' 2500 2600, pack_new ''p50'' 5000 5300, pack_new ''p100'' 10000 11000],
      fp_prot_exact_min_cents = 50, fp_prot_exact_max_cents = 50000,
      fp_prot_blocked_countries = PROT_BLOCKED_COUNTRIES_DEFAULT,
      fp_prot_success_url = ''https://app.sloga.gg/settings?prot=success'',
      fp_prot_cancel_url = ''https://app.sloga.gg/settings?prot=cancel'',
      fp_prot_shell_return_url = ''https://sloga.gg/prot/thanks/''\<rparr>"

definition default_protection_features :: protection_features where
  "default_protection_features =
     \<lparr>pf_enabled = False, pf_self_serve_enabled = False, pf_burn_enabled = False,
      pf_deletion_enabled = False, pf_cipher_grants_enabled = False,
      pf_channel_daily_cost = \<lparr>ptc_t10 = 40, ptc_t25 = 90, ptc_t50 = 160, ptc_t100 = 280\<rparr>,
      pf_server_daily_cost = \<lparr>ptc_t10 = 60, ptc_t25 = 135, ptc_t50 = 240, ptc_t100 = 420\<rparr>,
      pf_grace_days = 5, pf_freeze_days = 25, pf_final_warning_day = 20, pf_warn_days = [7, 3, 1],
      pf_min_reactivation_days = 1, pf_launch_goal_deadline_days = 30, pf_launch_window_days = 7,
      pf_launch_seat_window_days = 7, pf_min_contribution = 50, pf_min_launch_goal_days = 30,
      pf_withdraw_cutoff_hours = 48, pf_contribute_hold_hours = 72, pf_wallet_cap = 100000\<rparr>"

section \<open>Payments settings\<close>

record payments_settings =
  set_enabled :: bool
  set_sales_open :: bool
  set_cap :: nat
  set_close_at_ms :: "int option"
  set_expect_livemode :: bool
  set_tolerance_secs :: nat
  set_automatic_tax :: bool
  set_blocked_countries :: "string list"
  set_secret_key :: string
  set_webhook_secret :: string
  set_success_url_web :: string
  set_cancel_url_web :: string
  set_success_url_shell :: string
  set_cancel_url_shell :: string

definition ascii_upper :: "char \<Rightarrow> bool" where
  "ascii_upper c \<longleftrightarrow> 65 \<le> (of_char c :: nat) \<and> (of_char c :: nat) \<le> 90"

definition to_ascii_lower :: "char \<Rightarrow> char" where
  "to_ascii_lower c = (if ascii_upper c then char_of ((of_char c :: nat) + 32) else c)"

definition eq_ignore_ascii_case :: "string \<Rightarrow> string \<Rightarrow> bool" where
  "eq_ignore_ascii_case a b \<longleftrightarrow> map to_ascii_lower a = map to_ascii_lower b"

definition is_country_code :: "string \<Rightarrow> bool" where
  "is_country_code code \<longleftrightarrow> length code = 2 \<and> list_all ascii_upper code"

text \<open>White space at the ends is refused; the characters are those \<open>str::trim\<close> drops among
  the single-byte ones.\<close>

definition is_white :: "char \<Rightarrow> bool" where
  "is_white c \<longleftrightarrow> (of_char c :: nat) \<in> {9, 10, 11, 12, 13, 32}"

definition trim :: "string \<Rightarrow> string" where
  "trim s = rev (dropWhile is_white (rev (dropWhile is_white s)))"

definition parse_close_at :: "(string \<Rightarrow> int option) \<Rightarrow> string \<Rightarrow> string + int option" where
  "parse_close_at parse_from_rfc3339 raw =
     (if raw = [] then Inr None
      else if trim raw \<noteq> raw then Inl (raw @ '' has surrounding whitespace'')
      else (case parse_from_rfc3339 raw of
              Some at \<Rightarrow> Inr (Some at)
            | None \<Rightarrow> Inl (raw @ '' is not an RFC 3339 date-time'')))"

definition settings_from_parts ::
    "(string \<Rightarrow> int option) \<Rightarrow> feature_payments \<Rightarrow> api_stripe \<Rightarrow> error + payments_settings" where
  "settings_from_parts parse_from_rfc3339 payments stripe =
     (let cap = fp_cipher_cap payments in
      if cap = 0 \<or> cap > CIPHER_CAP_MAX then Inl InternalError
      else (case parse_close_at parse_from_rfc3339 (fp_cipher_sales_close_at payments) of
        Inl _ \<Rightarrow> Inl InternalError
      | Inr close_at_ms \<Rightarrow>
          (case List.find (\<lambda>code. \<not> is_country_code code) (fp_cipher_blocked_countries payments) of
             Some bad \<Rightarrow> Inl InternalError
           | None \<Rightarrow>
               Inr \<lparr>set_enabled = fp_enabled payments,
                    set_sales_open = fp_cipher_sales_open payments,
                    set_cap = cap,
                    set_close_at_ms = close_at_ms,
                    set_expect_livemode = st_expect_livemode stripe,
                    set_tolerance_secs = st_tolerance_secs stripe,
                    set_automatic_tax = st_automatic_tax stripe,
                    set_blocked_countries = fp_cipher_blocked_countries payments,
                    set_secret_key = st_secret_key stripe,
                    set_webhook_secret = st_webhook_secret stripe,
                    set_success_url_web = st_success_url_web stripe,
                    set_cancel_url_web = st_cancel_url_web stripe,
                    set_success_url_shell = st_success_url_shell stripe,
                    set_cancel_url_shell = st_cancel_url_shell stripe\<rparr>)))"

definition for_settlement :: "(string \<Rightarrow> int option) \<Rightarrow> api_stripe \<Rightarrow> error + payments_settings" where
  "for_settlement parse stripe = settings_from_parts parse default_feature_payments stripe"

definition sales_open_at :: "payments_settings \<Rightarrow> int \<Rightarrow> bool" where
  "sales_open_at s at_ms \<longleftrightarrow>
     set_enabled s \<and> set_sales_open s
     \<and> (case set_close_at_ms s of None \<Rightarrow> True | Some close \<Rightarrow> at_ms < close)"

definition region_blocked :: "payments_settings \<Rightarrow> string \<Rightarrow> bool" where
  "region_blocked s country \<longleftrightarrow>
     list_ex (\<lambda>blocked. eq_ignore_ascii_case blocked country) (set_blocked_countries s)"

section \<open>Prot sale settings\<close>

definition PROT_MIN_CENTS :: int where "PROT_MIN_CENTS = 50"
definition PROT_MAX_CENTS :: int where "PROT_MAX_CENTS = 1000000"

record prot_sales_settings =
  prot_enabled :: bool
  prot_cipher_grants_enabled :: bool
  prot_wallet_cap :: int
  prot_contribute_hold_hours :: nat
  prot_sales_open :: bool
  prot_packs :: "prot_pack_config list"
  prot_exact_min_cents :: int
  prot_exact_max_cents :: int
  prot_blocked_countries :: "string list"
  prot_success_url :: string
  prot_cancel_url :: string
  prot_shell_return_url :: string

definition prot_unchecked :: "feature_payments \<Rightarrow> protection_features \<Rightarrow> prot_sales_settings" where
  "prot_unchecked payments protection =
     \<lparr>prot_enabled = pf_enabled protection,
      prot_cipher_grants_enabled = pf_cipher_grants_enabled protection,
      prot_wallet_cap = pf_wallet_cap protection,
      prot_contribute_hold_hours = pf_contribute_hold_hours protection,
      prot_sales_open = fp_prot_sales_open payments,
      prot_packs = fp_prot_packs payments,
      prot_exact_min_cents = fp_prot_exact_min_cents payments,
      prot_exact_max_cents = fp_prot_exact_max_cents payments,
      prot_blocked_countries = fp_prot_blocked_countries payments,
      prot_success_url = fp_prot_success_url payments,
      prot_cancel_url = fp_prot_cancel_url payments,
      prot_shell_return_url = fp_prot_shell_return_url payments\<rparr>"

definition is_pack_id :: "string \<Rightarrow> bool" where
  "is_pack_id i \<longleftrightarrow>
     (case i of [] \<Rightarrow> False | c # digits \<Rightarrow> c = CHR ''p'' \<and> digits \<noteq> [] \<and> list_all ascii_digit digits)"

text \<open>The loop over the packs; \<open>seen\<close> are the ids of the packs before this one.\<close>

fun packs_ok :: "int \<Rightarrow> string list \<Rightarrow> prot_pack_config list \<Rightarrow> bool" where
  "packs_ok mx seen [] = True"
| "packs_ok mx seen (p # ps) =
     (is_pack_id (pack_id p) \<and> pack_id p \<notin> set seen
      \<and> PROT_MIN_CENTS \<le> pack_cents p \<and> pack_cents p \<le> mx \<and> \<not> pack_prot p < pack_cents p
      \<and> packs_ok mx (seen @ [pack_id p]) ps)"

definition starts_with :: "string \<Rightarrow> string \<Rightarrow> bool" where
  "starts_with s prefix \<longleftrightarrow> take (length prefix) s = prefix"

definition prot_from_parts :: "feature_payments \<Rightarrow> protection_features \<Rightarrow> error + prot_sales_settings" where
  "prot_from_parts payments protection =
     (let mn = fp_prot_exact_min_cents payments; mx = fp_prot_exact_max_cents payments in
      if \<not> (PROT_MIN_CENTS \<le> mn \<and> mn \<le> mx) \<or> mx > PROT_MAX_CENTS then Inl InternalError
      else if \<not> packs_ok mx [] (fp_prot_packs payments) then Inl InternalError
      else if pf_wallet_cap protection < 1 then Inl InternalError
      else if list_ex (\<lambda>code. \<not> is_country_code code) (fp_prot_blocked_countries payments)
        then Inl InternalError
      else if list_ex (\<lambda>url. \<not> starts_with url ''https://'')
          [fp_prot_success_url payments, fp_prot_cancel_url payments, fp_prot_shell_return_url payments]
        then Inl InternalError
      else Inr (prot_unchecked payments protection))"

definition prot_closed :: prot_sales_settings where
  "prot_closed =
     (prot_unchecked default_feature_payments default_protection_features)
       \<lparr>prot_sales_open := False, prot_cipher_grants_enabled := False\<rparr>"

definition load_or_closed :: "feature_payments \<Rightarrow> protection_features \<Rightarrow> prot_sales_settings" where
  "load_or_closed payments protection =
     (case prot_from_parts payments protection of Inr ps \<Rightarrow> ps | Inl _ \<Rightarrow> prot_closed)"

definition checkout_open :: "prot_sales_settings \<Rightarrow> payments_settings \<Rightarrow> bool" where
  "checkout_open ps s \<longleftrightarrow> set_enabled s \<and> prot_enabled ps \<and> prot_sales_open ps"

definition grants_active :: "prot_sales_settings \<Rightarrow> bool" where
  "grants_active ps \<longleftrightarrow> prot_enabled ps \<and> prot_cipher_grants_enabled ps"

definition prot_region_blocked :: "prot_sales_settings \<Rightarrow> string \<Rightarrow> bool" where
  "prot_region_blocked ps country \<longleftrightarrow>
     list_ex (\<lambda>blocked. eq_ignore_ascii_case blocked country) (prot_blocked_countries ps)"

definition find_pack :: "prot_sales_settings \<Rightarrow> string \<Rightarrow> prot_pack_config option" where
  "find_pack ps i = List.find (\<lambda>pack. pack_id pack = i) (prot_packs ps)"

text \<open>The hours are a \<open>u32\<close>, so the product is within \<open>i64\<close>.\<close>

definition hold_ms :: "prot_sales_settings \<Rightarrow> int" where
  "hold_ms ps = int (prot_contribute_hold_hours ps) * 3600000"

datatype prot_choice = PackChoice string | ExactCents int

definition quote_prot :: "prot_sales_settings \<Rightarrow> prot_choice \<Rightarrow> error + sku" where
  "quote_prot ps choice =
     (case choice of
        PackChoice i \<Rightarrow>
          (case find_pack ps i of
             Some pack \<Rightarrow> Inr (ProtPack (pack_id pack) (pack_prot pack) (pack_cents pack))
           | None \<Rightarrow> Inl ProtPackInvalid)
      | ExactCents cents \<Rightarrow>
          if prot_exact_min_cents ps \<le> cents \<and> cents \<le> prot_exact_max_cents ps
          then Inr (ProtExact cents)
          else Inl ProtPackInvalid)"

section \<open>Prices are positive and upgrades cost the difference\<close>

lemma tier_rank_less: "tier_rank a < tier_rank b \<longleftrightarrow> tier_cents a < tier_cents b"
  by (cases a; cases b) simp_all

lemma tier_cents_pos: "0 < tier_cents t"
  by (cases t) simp_all

lemma tier_prot_pos: "0 < tier_prot t"
  by (cases t) simp_all

text \<open>What checkout quotes for a membership is what the buyer's tier rises to, and its
  price is the difference between what the wanted tier and the held tier cost, always
  positive; asking for the held tier or a lower one is refused.\<close>

theorem quote_price:
  "(case quote current wanted of
      Inr s \<Rightarrow> sku_cipher_tier s = Some wanted
        \<and> sku_cents s = Inr (tier_cents wanted - (case current of None \<Rightarrow> 0 | Some t \<Rightarrow> tier_cents t))
        \<and> tier_cents wanted > (case current of None \<Rightarrow> 0 | Some t \<Rightarrow> tier_cents t)
    | Inl e \<Rightarrow> e = CipherTierInvalid
        \<and> (case current of None \<Rightarrow> False | Some t \<Rightarrow> tier_rank wanted \<le> tier_rank t))"
  using tier_cents_pos [of wanted] tier_rank_less [of "the current" wanted]
  by (auto simp: quote_def Let_def split: option.split)

lemma packs_ok_member:
  "packs_ok mx seen ps \<Longrightarrow> p \<in> set ps
   \<Longrightarrow> PROT_MIN_CENTS \<le> pack_cents p \<and> pack_cents p \<le> mx \<and> pack_cents p \<le> pack_prot p"
  by (induction ps arbitrary: seen) auto

lemma prot_from_parts_bounds:
  assumes "prot_from_parts payments protection = Inr ps"
  shows "ps = prot_unchecked payments protection"
    and "PROT_MIN_CENTS \<le> prot_exact_min_cents ps" "prot_exact_max_cents ps \<le> PROT_MAX_CENTS"
    and "packs_ok (prot_exact_max_cents ps) [] (prot_packs ps)"
    and "1 \<le> prot_wallet_cap ps"
  using assms by (auto simp: prot_from_parts_def prot_unchecked_def Let_def split: if_splits)

text \<open>Under settings that passed the checks, every Prot order that can be quoted is
  charged between 50 cents and 10,000 dollars and credits at least one Prot per cent; what
  it charges and credits is stamped on the order.\<close>

theorem quoted_prot_bounds:
  assumes "prot_from_parts payments protection = Inr ps" and "quote_prot ps choice = Inr s"
  shows "\<exists>cents prot. sku_cents s = Inr cents \<and> sku_prot s = Some prot
    \<and> 50 \<le> cents \<and> cents \<le> 1000000 \<and> cents \<le> prot"
proof (cases choice)
  case (PackChoice i)
  then obtain pack where "find_pack ps i = Some pack"
      and s: "s = ProtPack (pack_id pack) (pack_prot pack) (pack_cents pack)"
    using assms(2) by (auto simp: quote_prot_def split: option.splits)
  then have "pack \<in> set (prot_packs ps)" by (auto simp: find_pack_def dest: find_Some_P)
  from packs_ok_member [OF prot_from_parts_bounds(4) [OF assms(1)] this]
    prot_from_parts_bounds(2,3) [OF assms(1)]
  show ?thesis by (simp add: s prot_cents_def PROT_MIN_CENTS_def PROT_MAX_CENTS_def)
next
  case (ExactCents c)
  then show ?thesis
    using assms(2) prot_from_parts_bounds(2,3) [OF assms(1)]
    by (auto simp: quote_prot_def prot_cents_def PROT_MIN_CENTS_def PROT_MAX_CENTS_def split: if_splits)
qed

theorem quoted_prot_bounds_witness:
  "\<exists>cents prot. sku_cents (ProtPack ''p25'' 2600 2500) = Inr cents
    \<and> sku_prot (ProtPack ''p25'' 2600 2500) = Some prot \<and> 50 \<le> cents \<and> cents \<le> 1000000 \<and> cents \<le> prot"
  by (rule quoted_prot_bounds [of default_feature_payments default_protection_features
        "prot_unchecked default_feature_payments default_protection_features" "PackChoice ''p25''"])
    code_simp+

section \<open>Labels\<close>

lemma digit_char_comma: "d < 10 \<Longrightarrow> digit_char d \<noteq> CHR '',''"
proof
  assume "d < 10" "digit_char d = CHR '',''"
  then have "(of_char (digit_char d) :: nat) = 44" by simp
  with \<open>d < 10\<close> show False by (simp add: digit_char_def of_char_of)
qed

lemma decimal_no_comma: "CHR '','' \<notin> set (decimal n)"
proof (induction n rule: decimal.induct)
  case (1 n)
  then show ?case
    using digit_char_comma [of n] digit_char_comma [of "n mod 10"]
    by (subst decimal.simps) (auto dest: sym)
qed

lemma group_digits_filter:
  "CHR '','' \<notin> set ds \<Longrightarrow> filter (\<lambda>c. c \<noteq> CHR '','') (group_digits i ds) = ds"
  by (induction i ds rule: group_digits.induct) auto

text \<open>The label of a Prot amount on the payment page is the amount: with the commas
  taken out it reads back as the same number, sign included.\<close>

theorem prot_label_roundtrip:
  "filter (\<lambda>c. c \<noteq> CHR '','') (prot_label prot)
     = (if prot < 0 then ''-'' else []) @ decimal (nat \<bar>prot\<bar>)
   \<and> read_digits (decimal (nat \<bar>prot\<bar>)) = nat \<bar>prot\<bar>"
  by (simp add: prot_label_def group_digits_filter decimal_no_comma read_decimal)

section \<open>Settings\<close>

text \<open>The settings are accepted exactly when the cap is within the seeded table, the
  close date is absent or an instant, and every blocked country is a code; the accepted
  settings sell nothing unless the switch is on.\<close>

theorem settings_checked:
  "(\<exists>s. settings_from_parts parse payments stripe = Inr s
      \<and> set_cap s = fp_cipher_cap payments
      \<and> set_blocked_countries s = fp_cipher_blocked_countries payments
      \<and> (sales_open_at s t \<longrightarrow> fp_enabled payments \<and> fp_cipher_sales_open payments))
   \<longleftrightarrow> 1 \<le> fp_cipher_cap payments \<and> fp_cipher_cap payments \<le> 1000
     \<and> (fp_cipher_sales_close_at payments = []
        \<or> trim (fp_cipher_sales_close_at payments) = fp_cipher_sales_close_at payments
          \<and> parse (fp_cipher_sales_close_at payments) \<noteq> None)
     \<and> list_all is_country_code (fp_cipher_blocked_countries payments)"
  by (auto simp: settings_from_parts_def parse_close_at_def Let_def CIPHER_CAP_MAX_def
      sales_open_at_def list_all_iff find_None_iff find_Some_iff
      split: if_splits option.splits sum.splits)

theorem settings_checked_witness:
  "(\<exists>s. settings_from_parts (\<lambda>_. None) default_feature_payments undefined = Inr s
      \<and> set_cap s = 1000
      \<and> set_blocked_countries s = CIPHER_BLOCKED_COUNTRIES_DEFAULT
      \<and> (sales_open_at s 0 \<longrightarrow> False))"
  using settings_checked [of "\<lambda>_. None" default_feature_payments undefined 0]
  by (simp add: default_feature_payments_def CIPHER_BLOCKED_COUNTRIES_DEFAULT_def is_country_code_def
      ascii_upper_def)

end
