(* ===== verification/Payment_Orders.thy ===== *)
theory Payment_Orders
  imports Payment_Catalog
begin

text \<open>
  Payment orders: the row (\<open>crates/core/database/src/models/payment_orders/model.rs\<close>) and
  the reference implementation of the collection (\<open>payment_orders/ops/reference.rs\<close>), whose
  every operation runs while the map's mutex is held and so is one atomic step.

  The collection is shared by every worker (webhook handlers, checkout requests, the
  reconcile sweep). Two mechanisms keep them apart: a lease that only its holder's token can
  release, and a version that every write moves. Both are proved here for arbitrary
  interleavings of the collection's operations.
\<close>

section \<open>Rows\<close>

datatype payment_provider = Stripe

datatype order_state =
  Creating | Pending | SessionFailed | Paid | Fulfilled | Expired | Refunded | Voided

datatype void_reason =
    VoidSoldOut | VoidStale | VoidSalesClosed | VoidDisputeOpen | VoidAccountDeleted
  | VoidAmountMismatch | VoidReversed | VoidReleasePending | VoidRegionUnavailable

datatype reversal_pending = PendingRefund | PendingDisputeLost

record payment_order =
  po_id :: string
  po_user_id :: "string option"
  po_provider :: payment_provider
  po_sku :: sku
  po_amount_cents :: int
  po_currency :: string
  po_checkout_session_id :: "string option"
  po_checkout_url :: "string option"
  po_session_expires_at :: "int option"
  po_payment_intent_id :: "string option"
  po_state :: order_state
  po_void_reason :: "void_reason option"
  po_region_blocked_country :: "string option"
  po_reversal_pending :: "reversal_pending option"
  po_refund_settling_since :: "int option"
  po_open_disputes :: "string list"
  po_lease_until :: "int option"
  po_version :: "64 word"
  po_created_at :: int
  po_paid_at :: "int option"
  po_fulfilled_at :: "int option"
  po_reversed_at :: "int option"

type_synonym orders = "(string, payment_order) table"

section \<open>Operations\<close>

definition lease_free :: "payment_order \<Rightarrow> int \<Rightarrow> bool" where
  "lease_free row now = (case po_lease_until row of None \<Rightarrow> True | Some until \<Rightarrow> until < now)"

definition sort_oldest_first :: "payment_order list \<Rightarrow> payment_order list" where
  "sort_oldest_first = sort_key (\<lambda>row. (po_created_at row, po_id row))"

definition provider_id_taken :: "orders \<Rightarrow> payment_order \<Rightarrow> bool" where
  "provider_id_taken t o' \<longleftrightarrow>
     list_ex (\<lambda>row. po_id row \<noteq> po_id o'
         \<and> (po_checkout_session_id o' \<noteq> None
              \<and> po_checkout_session_id row = po_checkout_session_id o'
            \<or> po_payment_intent_id o' \<noteq> None
              \<and> po_payment_intent_id row = po_payment_intent_id o'))
       (rows t)"

definition insert_payment_order :: "payment_order \<Rightarrow> (orders, unit) eff" where
  "insert_payment_order o' = (\<lambda>t.
     if map_of t (po_id o') \<noteq> None \<or> provider_id_taken t o'
     then (Inl (DatabaseError ''insert'' ''payment_order''), t)
     else (Inr (), AList.update (po_id o') o' t))"

definition fetch_payment_order :: "string \<Rightarrow> (orders, payment_order option) eff" where
  "fetch_payment_order i = (\<lambda>t. (Inr (map_of t i), t))"

definition fetch_payment_order_by_session :: "string \<Rightarrow> (orders, payment_order option) eff" where
  "fetch_payment_order_by_session s = (\<lambda>t.
     (Inr (List.find (\<lambda>row. po_checkout_session_id row = Some s) (rows t)), t))"

definition fetch_payment_order_by_intent :: "string \<Rightarrow> (orders, payment_order option) eff" where
  "fetch_payment_order_by_intent pi = (\<lambda>t.
     (Inr (List.find (\<lambda>row. po_payment_intent_id row = Some pi) (rows t)), t))"

definition fetch_payment_orders_by_user ::
    "string \<Rightarrow> order_state list \<Rightarrow> (orders, payment_order list) eff" where
  "fetch_payment_orders_by_user u states = (\<lambda>t.
     (Inr (sort_oldest_first
        (filter (\<lambda>row. po_user_id row = Some u \<and> po_state row \<in> set states) (rows t))), t))"

definition fetch_payment_orders_by_state ::
    "order_state list \<Rightarrow> int \<Rightarrow> int \<Rightarrow> (orders, payment_order list) eff" where
  "fetch_payment_orders_by_state states before limit = (\<lambda>t.
     (Inr (mongo_limit limit (sort_oldest_first
        (filter (\<lambda>row. po_state row \<in> set states \<and> po_created_at row < before) (rows t)))), t))"

definition fetch_payment_orders_reversal_pending ::
    "order_state list \<Rightarrow> int \<Rightarrow> int \<Rightarrow> (orders, payment_order list) eff" where
  "fetch_payment_orders_reversal_pending states now limit = (\<lambda>t.
     (Inr (mongo_limit limit (sort_oldest_first
        (filter (\<lambda>row. po_state row \<in> set states \<and> po_reversal_pending row \<noteq> None
           \<and> lease_free row now) (rows t)))), t))"

definition fetch_payment_orders_disputed ::
    "order_state list \<Rightarrow> int \<Rightarrow> int \<Rightarrow> (orders, payment_order list) eff" where
  "fetch_payment_orders_disputed states now limit = (\<lambda>t.
     (Inr (mongo_limit limit (sort_oldest_first
        (filter (\<lambda>row. po_state row \<in> set states \<and> po_open_disputes row \<noteq> []
           \<and> lease_free row now) (rows t)))), t))"

definition fetch_payment_orders_refund_settling ::
    "int \<Rightarrow> int \<Rightarrow> (orders, payment_order list) eff" where
  "fetch_payment_orders_refund_settling now limit = (\<lambda>t.
     (Inr (mongo_limit limit (sort_oldest_first
        (filter (\<lambda>row. po_refund_settling_since row \<noteq> None \<and> po_payment_intent_id row \<noteq> None
           \<and> lease_free row now) (rows t)))), t))"

definition acquire_payment_order_lease ::
    "string \<Rightarrow> int \<Rightarrow> int \<Rightarrow> (orders, payment_order option) eff" where
  "acquire_payment_order_lease i now until = (\<lambda>t.
     case map_of t i of
       Some row \<Rightarrow>
         if lease_free row now then
           (case checked_succ (po_version row) of
              None \<Rightarrow> (Inl (DatabaseError ''update'' ''payment_order''), t)
            | Some v \<Rightarrow>
                (let row' = row\<lparr>po_version := v, po_lease_until := Some until\<rparr>
                 in (Inr (Some row'), AList.update i row' t)))
         else (Inr None, t)
     | None \<Rightarrow> (Inr None, t))"

definition release_payment_order_lease :: "string \<Rightarrow> int \<Rightarrow> (orders, unit) eff" where
  "release_payment_order_lease i until = (\<lambda>t.
     case map_of t i of
       Some row \<Rightarrow>
         if po_lease_until row = Some until
         then (Inr (), AList.update i (row\<lparr>po_lease_until := None\<rparr>) t)
         else (Inr (), t)
     | None \<Rightarrow> (Inr (), t))"

definition update_payment_order_if_state ::
    "payment_order \<Rightarrow> order_state \<Rightarrow> (orders, bool) eff" where
  "update_payment_order_if_state o' expected = (\<lambda>t.
     case checked_succ (po_version o') of
       None \<Rightarrow> (Inl (DatabaseError ''replace'' ''payment_order''), t)
     | Some v \<Rightarrow>
         if \<not> is_some_and (\<lambda>row. po_state row = expected \<and> po_version row = po_version o'
               \<and> po_lease_until row = po_lease_until o' \<and> po_user_id row = po_user_id o')
              (map_of t (po_id o'))
         then (Inr False, t)
         else if provider_id_taken t o'
         then (Inl (DatabaseError ''replace'' ''payment_order''), t)
         else (Inr True, AList.update (po_id o') (o'\<lparr>po_version := v\<rparr>) t))"

text \<open>The loop over the map's values stops at the first version that cannot be bumped; the
  rows before it stay unlinked.\<close>

fun unlink_rows :: "string \<Rightarrow> orders \<Rightarrow> (error + unit) \<times> orders" where
  "unlink_rows u [] = (Inr (), [])"
| "unlink_rows u ((k, row) # t) =
     (if po_user_id row = Some u then
        (case checked_succ (po_version row) of
           None \<Rightarrow> (Inl (DatabaseError ''update'' ''payment_order''), (k, row) # t)
         | Some v \<Rightarrow>
             (case unlink_rows u t of
                (r, t') \<Rightarrow> (r, (k, row\<lparr>po_version := v, po_user_id := None\<rparr>) # t')))
      else (case unlink_rows u t of (r, t') \<Rightarrow> (r, (k, row) # t')))"

definition unlink_payment_orders_by_user :: "string \<Rightarrow> (orders, unit) eff" where
  "unlink_payment_orders_by_user u = unlink_rows u"

section \<open>The collection as a transition system\<close>

text \<open>One operation of any worker.\<close>

inductive order_op :: "orders \<Rightarrow> orders \<Rightarrow> bool" where
  op_insert: "insert_payment_order o' t = (r, t') \<Longrightarrow> order_op t t'"
| op_acquire: "acquire_payment_order_lease i now until t = (r, t') \<Longrightarrow> order_op t t'"
| op_release: "release_payment_order_lease i until t = (r, t') \<Longrightarrow> order_op t t'"
| op_update: "update_payment_order_if_state o' expected t = (r, t') \<Longrightarrow> order_op t t'"
| op_unlink: "unlink_payment_orders_by_user u t = (r, t') \<Longrightarrow> order_op t t'"

inductive_cases order_opE: "order_op t t'"

lemma unlink_lookup:
  "unlink_rows u t = (r, t') \<Longrightarrow>
   (map_of t i = None \<longrightarrow> map_of t' i = None) \<and>
   (\<forall>row. map_of t i = Some row \<longrightarrow>
      map_of t' i = Some row
      \<or> (po_user_id row = Some u \<and> (\<exists>v. checked_succ (po_version row) = Some v
           \<and> map_of t' i = Some (row\<lparr>po_version := v, po_user_id := None\<rparr>))))"
  by (induction u t arbitrary: r t' rule: unlink_rows.induct)
    (auto split: if_splits option.splits prod.splits)

lemma unlink_keys: "unlink_rows u t = (r, t') \<Longrightarrow> map fst t' = map fst t"
  by (induction u t arbitrary: r t' rule: unlink_rows.induct)
    (auto split: if_splits option.splits prod.splits)

lemma unlink_ids: "unlink_rows u t = (r, t') \<Longrightarrow> map (po_id \<circ> snd) t' = map (po_id \<circ> snd) t"
  by (induction u t arbitrary: r t' rule: unlink_rows.induct)
    (auto split: if_splits option.splits prod.splits)

section \<open>Well-formedness\<close>

text \<open>The partial unique indexes: no two orders share a checkout session or a payment
  intent.\<close>

definition provider_ids_unique :: "orders \<Rightarrow> bool" where
  "provider_ids_unique t \<longleftrightarrow>
     (\<forall>i j a b. map_of t i = Some a \<longrightarrow> map_of t j = Some b \<longrightarrow> i \<noteq> j \<longrightarrow>
        (po_checkout_session_id a = None \<or> po_checkout_session_id a \<noteq> po_checkout_session_id b)
        \<and> (po_payment_intent_id a = None \<or> po_payment_intent_id a \<noteq> po_payment_intent_id b))"

definition orders_ok :: "orders \<Rightarrow> bool" where
  "orders_ok t \<longleftrightarrow> keyed po_id t \<and> provider_ids_unique t"

lemma provider_id_taken_lookup:
  assumes "keyed po_id t"
  shows "provider_id_taken t o' \<longleftrightarrow>
    (\<exists>i row. map_of t i = Some row \<and> i \<noteq> po_id o'
       \<and> (po_checkout_session_id o' \<noteq> None \<and> po_checkout_session_id row = po_checkout_session_id o'
          \<or> po_payment_intent_id o' \<noteq> None \<and> po_payment_intent_id row = po_payment_intent_id o'))"
proof -
  have "row \<in> set (rows t) \<longleftrightarrow> map_of t (po_id row) = Some row" for row
    using assms by (rule keyed_rows_iff)
  moreover have "po_id row = i" if "map_of t i = Some row" for i row
    using assms that by (rule keyed_lookup_key)
  ultimately show ?thesis unfolding provider_id_taken_def list_ex_iff by blast
qed

text \<open>A write that keeps the provider ids of the row it replaces keeps the indexes.\<close>

lemma orders_ok_same_ids:
  assumes "orders_ok t" "map_of t i = Some row" "po_id row' = po_id row"
    "po_checkout_session_id row' = po_checkout_session_id row"
    "po_payment_intent_id row' = po_payment_intent_id row"
  shows "orders_ok (AList.update i row' t)"
proof -
  have "po_id row = i" using assms(1,2) by (auto simp: orders_ok_def dest: keyed_lookup_key)
  then have "keyed po_id (AList.update i row' t)"
    using assms(1,3) by (auto simp: orders_ok_def)
  moreover have "provider_ids_unique (AList.update i row' t)"
    using assms(1,2,4,5) unfolding orders_ok_def provider_ids_unique_def
    by (simp add: map_of_update)
  ultimately show ?thesis by (simp add: orders_ok_def)
qed

lemma orders_ok_put:
  assumes "orders_ok t" "\<not> provider_id_taken t o'"
    "po_id row = po_id o'" "po_checkout_session_id row = po_checkout_session_id o'"
    "po_payment_intent_id row = po_payment_intent_id o'"
  shows "orders_ok (AList.update (po_id o') row t)"
proof -
  have k: "keyed po_id t" using assms(1) by (simp add: orders_ok_def)
  then have "keyed po_id (AList.update (po_id o') row t)" using assms(3) by auto
  moreover have "provider_ids_unique (AList.update (po_id o') row t)"
    using assms(1,2,4,5) unfolding orders_ok_def provider_ids_unique_def provider_id_taken_lookup [OF k]
    by (simp add: map_of_update) metis
  ultimately show ?thesis by (simp add: orders_ok_def)
qed

lemma orders_ok_unlink: "unlink_rows u t = (r, t') \<Longrightarrow> orders_ok t \<Longrightarrow> orders_ok t'"
proof -
  assume run: "unlink_rows u t = (r, t')" and ok: "orders_ok t"
  have "map fst t = map (po_id \<circ> snd) t"
    using ok by (auto simp: orders_ok_def keyed_def)
  then have "map fst t' = map (po_id \<circ> snd) t'"
    using unlink_keys [OF run] unlink_ids [OF run] by simp
  moreover have "distinct (map fst t')"
    using ok unlink_keys [OF run] by (simp add: orders_ok_def keyed_def)
  ultimately have "keyed po_id t'" by (auto simp: keyed_def)
  moreover have "provider_ids_unique t'"
    unfolding provider_ids_unique_def
  proof (intro allI impI)
    fix i j a b assume ab: "map_of t' i = Some a" "map_of t' j = Some b" "i \<noteq> j"
    have old: "\<exists>a'. map_of t k = Some a' \<and> po_checkout_session_id a' = po_checkout_session_id c
        \<and> po_payment_intent_id a' = po_payment_intent_id c" if "map_of t' k = Some c" for k c
      using unlink_lookup [OF run, of k] that by (cases "map_of t k") auto
    show "(po_checkout_session_id a = None \<or> po_checkout_session_id a \<noteq> po_checkout_session_id b)
        \<and> (po_payment_intent_id a = None \<or> po_payment_intent_id a \<noteq> po_payment_intent_id b)"
      using ok old [OF ab(1)] old [OF ab(2)] ab(3) unfolding orders_ok_def provider_ids_unique_def
      by metis
  qed
  ultimately show ?thesis by (simp add: orders_ok_def)
qed

lemma orders_ok_op: "order_op t t' \<Longrightarrow> orders_ok t \<Longrightarrow> orders_ok t'"
proof (induction rule: order_op.induct)
  case (op_acquire i now until t r t')
  then show ?case
    by (auto simp: acquire_payment_order_lease_def Let_def intro: orders_ok_same_ids
        split: option.splits if_splits)
next
  case (op_release i until t r t')
  then show ?case
    by (auto simp: release_payment_order_lease_def intro: orders_ok_same_ids
        split: option.splits if_splits)
qed (auto simp: insert_payment_order_def update_payment_order_if_state_def
    unlink_payment_orders_by_user_def intro: orders_ok_put orders_ok_unlink
    split: option.splits if_splits)

section \<open>Versions and leases\<close>

text \<open>
  The contract of a store whose rows carry a version: no operation removes a row, and one
  that changes it either moves its version or makes a change that is allowed without.
  Whoever holds a copy of a row can rely on the version alone to know whether the row moved
  on, however many operations of other workers ran in between.
\<close>

locale versioned_store =
  fixes lookup :: "'t \<Rightarrow> string \<Rightarrow> 'row option"
    and version :: "'row \<Rightarrow> 64 word"
    and touched :: "'row \<Rightarrow> 'row \<Rightarrow> bool"
    and op :: "'t \<Rightarrow> 't \<Rightarrow> bool"
  assumes touched_refl: "touched r r"
    and touched_trans: "touched r r' \<Longrightarrow> touched r' r'' \<Longrightarrow> touched r r''"
    and op_row: "op t t' \<Longrightarrow> lookup t i = Some r \<Longrightarrow>
      \<exists>r'. lookup t' i = Some r' \<and> (version r < version r' \<or> version r' = version r \<and> touched r r')"
begin

lemma ops_row:
  "op\<^sup>*\<^sup>* t t' \<Longrightarrow> lookup t i = Some r \<Longrightarrow>
   \<exists>r'. lookup t' i = Some r' \<and> (version r < version r' \<or> version r' = version r \<and> touched r r')"
proof (induction rule: rtranclp_induct)
  case base
  then show ?case using touched_refl by blast
next
  case (step t' t'')
  then obtain r' where r': "lookup t' i = Some r'"
      "version r < version r' \<or> version r' = version r \<and> touched r r'" by blast
  from op_row [OF step.hyps(2) r'(1)] obtain r'' where "lookup t'' i = Some r''"
      "version r' < version r'' \<or> version r'' = version r' \<and> touched r' r''" by blast
  with r'(2) show ?case using touched_trans [of r r' r''] by auto
qed

lemma ops_moved:
  assumes "op\<^sup>*\<^sup>* t t'" "lookup t i = Some r" "version s < version r" "lookup t' i = Some r'"
  shows "version r' \<noteq> version s"
  using ops_row [OF assms(1,2)] assms(3,4) by (auto dest: order.strict_trans)

end

definition lease_dropped :: "payment_order \<Rightarrow> payment_order \<Rightarrow> bool" where
  "lease_dropped r r' \<longleftrightarrow> r' = r \<or> r' = r\<lparr>po_lease_until := None\<rparr>"

text \<open>What each operation leaves under an id.\<close>

lemma acquire_lookup:
  "map_of (snd (acquire_payment_order_lease i now until t)) j =
     (case map_of t j of
        None \<Rightarrow> None
      | Some row \<Rightarrow>
          if j = i \<and> lease_free row now
          then (case checked_succ (po_version row) of
                  Some v \<Rightarrow> Some (row\<lparr>po_version := v, po_lease_until := Some until\<rparr>)
                | None \<Rightarrow> Some row)
          else Some row)"
  by (cases "j = i") (simp_all add: acquire_payment_order_lease_def Let_def map_of_update split: option.split)

lemma release_lookup:
  "map_of (snd (release_payment_order_lease i until t)) j =
     (case map_of t j of
        None \<Rightarrow> None
      | Some row \<Rightarrow>
          if j = i \<and> po_lease_until row = Some until then Some (row\<lparr>po_lease_until := None\<rparr>)
          else Some row)"
  by (cases "j = i") (simp_all add: release_payment_order_lease_def map_of_update split: option.split)

lemma acquire_result:
  assumes "acquire_payment_order_lease i now until t = (Inr (Some row), t')"
  shows "map_of t' i = Some row \<and> po_lease_until row = Some until
    \<and> (\<exists>old. map_of t i = Some old \<and> lease_free old now \<and> po_version old < po_version row
        \<and> row = old\<lparr>po_version := po_version row, po_lease_until := Some until\<rparr>)"
proof (cases "map_of t i")
  case (Some old)
  then show ?thesis using assms checked_succ_less [of "po_version old"]
    by (cases "checked_succ (po_version old)")
      (auto simp: acquire_payment_order_lease_def Let_def map_of_update split: if_splits)
qed (use assms in \<open>simp add: acquire_payment_order_lease_def\<close>)

definition update_applies :: "payment_order \<Rightarrow> order_state \<Rightarrow> orders \<Rightarrow> bool" where
  "update_applies o' expected t \<longleftrightarrow>
     checked_succ (po_version o') \<noteq> None
     \<and> is_some_and (\<lambda>row. po_state row = expected \<and> po_version row = po_version o'
         \<and> po_lease_until row = po_lease_until o' \<and> po_user_id row = po_user_id o')
         (map_of t (po_id o'))
     \<and> \<not> provider_id_taken t o'"

lemma update_success:
  "fst (update_payment_order_if_state o' expected t) = Inr True \<longleftrightarrow> update_applies o' expected t"
  by (simp add: update_payment_order_if_state_def update_applies_def split: option.split)

lemma update_result:
  "snd (update_payment_order_if_state o' expected t) =
     (if update_applies o' expected t
      then AList.update (po_id o') (o'\<lparr>po_version := po_version o' + 1\<rparr>) t else t)"
  by (simp add: update_payment_order_if_state_def update_applies_def checked_succ_def split: option.split)

lemma insert_lookup:
  "map_of t j = Some row \<Longrightarrow> map_of (snd (insert_payment_order o' t)) j = Some row"
  by (auto simp: insert_payment_order_def map_of_update)

lemma unlink_cases:
  assumes "map_of t j = Some row"
  shows "map_of (snd (unlink_payment_orders_by_user u t)) j = Some row
    \<or> po_user_id row = Some u \<and> (\<exists>v. checked_succ (po_version row) = Some v
      \<and> map_of (snd (unlink_payment_orders_by_user u t)) j
        = Some (row\<lparr>po_version := v, po_user_id := None\<rparr>))"
  using unlink_lookup [of u t _ _ j] assms
  by (cases "unlink_rows u t") (auto simp: unlink_payment_orders_by_user_def)

lemma update_applies_row:
  "update_applies o' expected t \<Longrightarrow> map_of t (po_id o') = Some row \<Longrightarrow>
   po_state row = expected \<and> po_version row = po_version o'
   \<and> po_lease_until row = po_lease_until o' \<and> po_user_id row = po_user_id o'
   \<and> po_version o' < po_version o' + 1"
  using checked_succ_less [of "po_version o'"]
  by (auto simp: update_applies_def checked_succ_def split: if_splits)

lemma order_op_row:
  assumes "order_op t t'" "map_of t i = Some r"
  shows "\<exists>r'. map_of t' i = Some r'
    \<and> (po_version r < po_version r' \<or> po_version r' = po_version r \<and> lease_dropped r r')"
  using assms(1)
proof cases
  case (op_insert o' x)
  then show ?thesis using insert_lookup [OF assms(2), of o'] by (simp add: lease_dropped_def)
next
  case (op_acquire i' now until x)
  then show ?thesis using acquire_lookup [of i' now until t i] assms(2) checked_succ_less
    by (auto simp: lease_dropped_def split: option.splits if_splits)
next
  case (op_release i' until x)
  then show ?thesis using release_lookup [of i' until t i] assms(2)
    by (auto simp: lease_dropped_def split: if_splits)
next
  case (op_update o' expected x)
  then show ?thesis
    using update_result [of o' expected t] update_applies_row [of o' expected t r] assms(2)
    by (cases "update_applies o' expected t \<and> i = po_id o'")
      (auto simp: lease_dropped_def map_of_update split: if_splits)
next
  case (op_unlink u x)
  then show ?thesis using unlink_cases [OF assms(2), of u] checked_succ_less
    by (auto simp: lease_dropped_def)
qed

interpretation ov: versioned_store map_of po_version lease_dropped order_op
  by unfold_locales (auto simp: lease_dropped_def intro: order_op_row [unfolded lease_dropped_def])

section \<open>Properties\<close>

text \<open>The unique indexes hold at every moment: starting from a well-formed collection,
  whatever operations any workers run in any order, every order is stored under its own id
  and no two orders share a checkout session or a payment intent.\<close>

theorem orders_always_ok:
  assumes "order_op\<^sup>*\<^sup>* t t'" and "orders_ok t"
  shows "orders_ok t'"
  using assms by (induction rule: rtranclp_induct) (auto intro: orders_ok_op)

definition ex_order :: payment_order where
  "ex_order = \<lparr>po_id = ''o1'', po_user_id = Some ''u'', po_provider = Stripe,
     po_sku = CipherNew T99, po_amount_cents = 9900, po_currency = ''usd'',
     po_checkout_session_id = Some ''cs1'', po_checkout_url = Some ''https://x'',
     po_session_expires_at = Some 2000, po_payment_intent_id = None, po_state = Pending,
     po_void_reason = None, po_region_blocked_country = None, po_reversal_pending = None,
     po_refund_settling_since = None, po_open_disputes = [], po_lease_until = None,
     po_version = 0, po_created_at = 0, po_paid_at = None, po_fulfilled_at = None,
     po_reversed_at = None\<rparr>"

theorem orders_always_ok_witness: "orders_ok [(''o1'', ex_order)]"
proof -
  have "insert_payment_order ex_order [] = (Inr (), [(''o1'', ex_order)])"
    by (simp add: insert_payment_order_def ex_order_def provider_id_taken_def rows_def)
  then have "order_op\<^sup>*\<^sup>* [] [(''o1'', ex_order)]" by (auto intro: op_insert)
  moreover have "orders_ok []" by (simp add: orders_ok_def provider_ids_unique_def)
  ultimately show ?thesis by (rule orders_always_ok)
qed

text \<open>C4: no update is lost. A conditional write of a copy of an order (its version and its lease as
  they were read) succeeds only if the stored row is still exactly the row that was read:
  whatever inserts, leases taken or given back, conditional writes and unlinks any workers ran since,
  none of them has changed the row. Then the copy, one version on, is all that changes.\<close>

theorem no_lost_update:
  assumes "map_of t i = Some row" and "order_op\<^sup>*\<^sup>* t t'"
    and "po_id o' = i" and "po_version o' = po_version row" and "po_lease_until o' = po_lease_until row"
    and "update_payment_order_if_state o' expected t' = (Inr True, t'')"
  shows "map_of t' i = Some row \<and> po_state row = expected \<and> po_user_id row = po_user_id o'
    \<and> t'' = AList.update i (o'\<lparr>po_version := po_version row + 1\<rparr>) t'"
proof -
  have ap: "update_applies o' expected t'"
    and t'': "t'' = AList.update i (o'\<lparr>po_version := po_version row + 1\<rparr>) t'"
    using assms(3,4,6) update_success [of o' expected t'] update_result [of o' expected t'] by simp_all
  obtain row' where row': "map_of t' i = Some row'"
    and moved: "po_version row < po_version row' \<or> po_version row' = po_version row \<and> lease_dropped row row'"
    using ov.ops_row [OF assms(2,1)] by blast
  note same = update_applies_row [OF ap, unfolded assms(3), OF row']
  then have "lease_dropped row row'" and "po_lease_until row' = po_lease_until row"
    using moved assms(4,5) by auto
  then have "row' = row" by (auto simp: lease_dropped_def)
  then show ?thesis using row' same t'' by simp
qed

theorem no_lost_update_witness:
  "map_of [(''o1'', ex_order), (''o2'', ex_order\<lparr>po_id := ''o2'', po_checkout_session_id := None\<rparr>)] ''o1'' = Some ex_order
   \<and> po_state ex_order = Pending"
proof -
  let ?o2 = "ex_order\<lparr>po_id := ''o2'', po_checkout_session_id := None\<rparr>"
  let ?t = "[(''o1'', ex_order)]" and ?t' = "[(''o1'', ex_order), (''o2'', ?o2)]"
  have "insert_payment_order ?o2 ?t = (Inr (), ?t')"
    by (simp add: insert_payment_order_def ex_order_def provider_id_taken_def rows_def)
  then have "order_op\<^sup>*\<^sup>* ?t ?t'" by (auto intro: op_insert)
  moreover have "update_payment_order_if_state (ex_order\<lparr>po_state := Paid\<rparr>) Pending ?t'
      = (Inr True, AList.update ''o1'' (ex_order\<lparr>po_state := Paid, po_version := 1\<rparr>) ?t')"
    by (simp add: update_payment_order_if_state_def ex_order_def checked_succ_def provider_id_taken_def rows_def)
  ultimately show ?thesis
    using no_lost_update [of ?t "''o1''" ex_order ?t' "ex_order\<lparr>po_state := Paid\<rparr>" Pending]
    by (simp add: ex_order_def)
qed

lemma ex_acquire:
  "acquire_payment_order_lease ''o1'' 0 60 [(''o1'', ex_order)] =
   (Inr (Some (ex_order\<lparr>po_version := 1, po_lease_until := Some 60\<rparr>)),
    [(''o1'', ex_order\<lparr>po_version := 1, po_lease_until := Some 60\<rparr>)])"
  by (simp add: acquire_payment_order_lease_def ex_order_def lease_free_def checked_succ_def Let_def)

text \<open>Operations that leave a lease alone: anything but a release with its token or an
  acquire after it has run out.\<close>

inductive respects_lease :: "string \<Rightarrow> int \<Rightarrow> orders \<Rightarrow> orders \<Rightarrow> bool" for i until where
  rl_insert: "insert_payment_order o' t = (r, t') \<Longrightarrow> respects_lease i until t t'"
| rl_acquire: "acquire_payment_order_lease j now u t = (r, t') \<Longrightarrow> j \<noteq> i \<or> now \<le> until
    \<Longrightarrow> respects_lease i until t t'"
| rl_release: "release_payment_order_lease j u t = (r, t') \<Longrightarrow> j \<noteq> i \<or> u \<noteq> until
    \<Longrightarrow> respects_lease i until t t'"
| rl_update: "update_payment_order_if_state o' expected t = (r, t') \<Longrightarrow> respects_lease i until t t'"
| rl_unlink: "unlink_payment_orders_by_user u t = (r, t') \<Longrightarrow> respects_lease i until t t'"

lemma lease_kept:
  assumes "respects_lease i until t t'" "map_of t i = Some row" "po_lease_until row = Some until"
  shows "\<exists>row'. map_of t' i = Some row' \<and> po_lease_until row' = Some until"
  using assms(1)
proof cases
  case (rl_insert o' r)
  then show ?thesis using insert_lookup [OF assms(2), of o'] assms(3) by simp
next
  case (rl_acquire j now u r)
  then show ?thesis using acquire_lookup [of j now u t i] assms(2,3)
    by (auto simp: lease_free_def split: if_splits)
next
  case (rl_release j u r)
  then show ?thesis using release_lookup [of j u t i] assms(2,3) by (auto split: if_splits)
next
  case (rl_update o' expected r)
  then show ?thesis
    using update_result [of o' expected t] update_applies_row [of o' expected t row] assms(2,3)
    by (cases "update_applies o' expected t \<and> i = po_id o'") (auto simp: map_of_update split: if_splits)
next
  case (rl_unlink u r)
  then show ?thesis using unlink_cases [OF assms(2), of u] assms(3) by auto
qed

text \<open>C18: a lease is exclusive: from the moment a worker takes it until it runs out, no
  other worker takes the same order's lease, unless its own token released it; whatever else
  the workers do to the collection meanwhile, updates of the order included.\<close>

theorem lease_exclusive:
  assumes "acquire_payment_order_lease i now until t0 = (Inr (Some row), t1)"
    and "(respects_lease i until)\<^sup>*\<^sup>* t1 t2" and "now' \<le> until"
  shows "acquire_payment_order_lease i now' until' t2 = (Inr None, t2)"
proof -
  from assms(1) have "map_of t1 i = Some row" "po_lease_until row = Some until"
    using acquire_result [of i now until t0 row t1] by auto
  with assms(2) have "\<exists>row'. map_of t2 i = Some row' \<and> po_lease_until row' = Some until"
  proof (induction rule: rtranclp_induct)
    case (step t' t'')
    then show ?case using lease_kept by blast
  qed blast
  then show ?thesis using assms(3)
    by (auto simp: acquire_payment_order_lease_def lease_free_def)
qed

theorem lease_exclusive_witness:
  "acquire_payment_order_lease ''o1'' 60 900
     [(''o1'', ex_order\<lparr>po_version := 1, po_lease_until := Some 60\<rparr>)]
   = (Inr None, [(''o1'', ex_order\<lparr>po_version := 1, po_lease_until := Some 60\<rparr>)])"
  by (rule lease_exclusive [OF ex_acquire]) simp_all

text \<open>A worker whose lease was taken over writes nothing: once another worker has taken
  the order's lease, a write of a copy read before that is refused and changes nothing.\<close>

theorem taken_over_holder_fenced:
  assumes "map_of t0 i = Some copy" and "po_id o' = i" and "po_version o' = po_version copy"
    and "acquire_payment_order_lease i now until t0 = (Inr (Some row), t1)"
    and "order_op\<^sup>*\<^sup>* t1 t2"
  shows "snd (update_payment_order_if_state o' expected t2) = t2
    \<and> fst (update_payment_order_if_state o' expected t2) \<noteq> Inr True"
proof -
  have t1: "map_of t1 i = Some row" and less: "po_version o' < po_version row"
    using acquire_result [OF assms(4)] assms(1,3) by auto
  have "\<not> update_applies o' expected t2"
    using ov.ops_moved [OF assms(5) t1 less] assms(2) by (auto simp: update_applies_def is_some_and_iff)
  then show ?thesis by (simp add: update_success update_result)
qed

theorem taken_over_holder_fenced_witness:
  "snd (update_payment_order_if_state ex_order Pending
      [(''o1'', ex_order\<lparr>po_version := 1, po_lease_until := Some 60\<rparr>)])
     = [(''o1'', ex_order\<lparr>po_version := 1, po_lease_until := Some 60\<rparr>)]
   \<and> fst (update_payment_order_if_state ex_order Pending
      [(''o1'', ex_order\<lparr>po_version := 1, po_lease_until := Some 60\<rparr>)]) \<noteq> Inr True"
  by (rule taken_over_holder_fenced [OF _ _ _ ex_acquire, of ex_order]) (simp_all, simp_all add: ex_order_def)

end
