(* ===== verification/Cipher_Memberships.thy ===== *)
theory Cipher_Memberships
  imports Payment_Orders
begin

text \<open>
  Cipher memberships (\<open>crates/core/database/src/models/cipher_memberships\<close>): the row with
  its public badge, and the reference implementation of the collection. Rows are keyed by
  user; the unique index on the number is mirrored by the checks of the two writes.
\<close>

section \<open>Rows\<close>

datatype cipher_revoke_reason = RevokeRefund | RevokeDisputeLost | RevokeAdmin

record cipher_membership =
  cm_user_id :: string
  cm_number :: nat
  cm_tier :: cipher_tier
  cm_prot_grant :: int
  cm_orders :: "string list"
  cm_disputed_orders :: "string list"
  cm_granted_at :: int
  cm_revoked_at :: "int option"
  cm_revoke_reason :: "cipher_revoke_reason option"
  cm_prot_posted_at :: "int option"
  cm_version :: "64 word"

type_synonym memberships = "(string, cipher_membership) table"

definition is_active :: "cipher_membership \<Rightarrow> bool" where
  "is_active m \<longleftrightarrow> cm_revoked_at m = None"

definition public_badge :: "cipher_membership \<Rightarrow> user_cipher option" where
  "public_badge m =
     (if is_active m \<and> cm_disputed_orders m = []
      then Some \<lparr>uc_number = cm_number m, uc_tier = cm_tier m\<rparr> else None)"

section \<open>Operations\<close>

definition insert_cipher_membership :: "cipher_membership \<Rightarrow> (memberships, bool) eff" where
  "insert_cipher_membership m = (\<lambda>t.
     if map_of t (cm_user_id m) \<noteq> None then (Inr False, t)
     else if list_ex (\<lambda>row. cm_number row = cm_number m) (rows t)
       then (Inl (DatabaseError ''insert'' ''cipher_membership''), t)
     else (Inr True, AList.update (cm_user_id m) m t))"

definition fetch_cipher_membership :: "string \<Rightarrow> (memberships, cipher_membership option) eff" where
  "fetch_cipher_membership u = (\<lambda>t. (Inr (map_of t u), t))"

definition fetch_cipher_membership_by_number ::
    "nat \<Rightarrow> (memberships, cipher_membership option) eff" where
  "fetch_cipher_membership_by_number n = (\<lambda>t.
     (Inr (List.find (\<lambda>row. cm_number row = n) (rows t)), t))"

definition update_cipher_membership_if_version ::
    "cipher_membership \<Rightarrow> 64 word \<Rightarrow> (memberships, bool) eff" where
  "update_cipher_membership_if_version m expected = (\<lambda>t.
     case checked_succ expected of
       None \<Rightarrow> (Inl (DatabaseError ''replace'' ''cipher_membership''), t)
     | Some v \<Rightarrow>
         if \<not> is_some_and (\<lambda>row. cm_version row = expected) (map_of t (cm_user_id m))
         then (Inr False, t)
         else if list_ex (\<lambda>row. cm_user_id row \<noteq> cm_user_id m \<and> cm_number row = cm_number m) (rows t)
         then (Inl (DatabaseError ''replace'' ''cipher_membership''), t)
         else (Inr True, AList.update (cm_user_id m) (m\<lparr>cm_version := v\<rparr>) t))"

definition delete_cipher_membership :: "string \<Rightarrow> (memberships, unit) eff" where
  "delete_cipher_membership u = (\<lambda>t. (Inr (), AList.delete u t))"

definition delete_cipher_membership_if_version :: "string \<Rightarrow> 64 word \<Rightarrow> (memberships, bool) eff" where
  "delete_cipher_membership_if_version u expected = (\<lambda>t.
     if \<not> is_some_and (\<lambda>row. cm_version row = expected) (map_of t u) then (Inr False, t)
     else (Inr True, AList.delete u t))"

definition MEMBERSHIPS_PAGE_MAX :: int where
  "MEMBERSHIPS_PAGE_MAX = 500"

definition fetch_cipher_memberships_page ::
    "string option \<Rightarrow> int \<Rightarrow> (memberships, cipher_membership list) eff" where
  "fetch_cipher_memberships_page after limit = (\<lambda>t.
     if \<not> (1 \<le> limit \<and> limit \<le> MEMBERSHIPS_PAGE_MAX) then (Inl InternalError, t)
     else (Inr (take (nat limit) (sort_key cm_user_id
             (filter (\<lambda>row. case after of None \<Rightarrow> True | Some a \<Rightarrow> cm_user_id row > a) (rows t)))), t))"

definition bump_cipher_membership_version_locked ::
    "string \<Rightarrow> 64 word \<Rightarrow> memberships \<Rightarrow> bool \<times> memberships" where
  "bump_cipher_membership_version_locked u expected t =
     (case map_of t u of
        Some row \<Rightarrow>
          if cm_version row = expected then
            (case checked_succ expected of
               Some v \<Rightarrow> (True, AList.update u (row\<lparr>cm_version := v\<rparr>) t)
             | None \<Rightarrow> (False, t))
          else (False, t)
      | None \<Rightarrow> (False, t))"

section \<open>The unique index on the number\<close>

definition memberships_ok :: "memberships \<Rightarrow> bool" where
  "memberships_ok t \<longleftrightarrow> keyed cm_user_id t
     \<and> (\<forall>u v a b. map_of t u = Some a \<longrightarrow> map_of t v = Some b \<longrightarrow> u \<noteq> v \<longrightarrow> cm_number a \<noteq> cm_number b)"

lemma memberships_ok_Nil [simp]: "memberships_ok []"
  by (simp add: memberships_ok_def)

lemma number_unused:
  assumes "keyed cm_user_id t" "\<not> list_ex (\<lambda>row. cm_user_id row \<noteq> u \<and> cm_number row = n) (rows t)"
    "map_of t v = Some row" "v \<noteq> u"
  shows "cm_number row \<noteq> n"
  using assms keyed_lookup_key [OF assms(1,3)] by (auto simp: list_ex_iff keyed_rows_iff)

lemma memberships_ok_put:
  assumes "memberships_ok t" "cm_user_id m' = u"
    and "\<And>v row. map_of t v = Some row \<Longrightarrow> v \<noteq> u \<Longrightarrow> cm_number row \<noteq> cm_number m'"
  shows "memberships_ok (AList.update u m' t)"
proof -
  have "keyed cm_user_id (AList.update u m' t)" using assms(1,2) by (auto simp: memberships_ok_def)
  moreover have "cm_number a \<noteq> cm_number b"
    if "map_of (AList.update u m' t) p = Some a" "map_of (AList.update u m' t) q = Some b" "p \<noteq> q" for p q a b
    using assms(1) assms(3) [of q b] assms(3) [of p a] that
    by (cases "p = u"; cases "q = u") (auto simp: memberships_ok_def map_of_update)
  ultimately show ?thesis by (simp add: memberships_ok_def)
qed

lemma memberships_ok_delete: "memberships_ok t \<Longrightarrow> memberships_ok (AList.delete u t)"
  using keyed_delete [of cm_user_id t u] by (auto simp: memberships_ok_def table_simps split: if_splits)

lemma insert_membership_ok:
  "memberships_ok t \<Longrightarrow> memberships_ok (snd (insert_cipher_membership m t))"
proof -
  assume ok: "memberships_ok t"
  then have k: "keyed cm_user_id t" by (simp add: memberships_ok_def)
  have "cm_number row \<noteq> cm_number m"
    if "\<not> list_ex (\<lambda>row. cm_number row = cm_number m) (rows t)" "map_of t v = Some row" for v row
    using that rows_lookup [of t v row] by (auto simp: list_ex_iff)
  then show ?thesis
    using ok by (auto simp: insert_cipher_membership_def intro!: memberships_ok_put)
qed

lemma update_membership_ok:
  "memberships_ok t \<Longrightarrow> memberships_ok (snd (update_cipher_membership_if_version m expected t))"
proof -
  assume ok: "memberships_ok t"
  then have "keyed cm_user_id t" by (simp add: memberships_ok_def)
  then show ?thesis using ok
    by (auto simp: update_cipher_membership_if_version_def dest: number_unused
        intro!: memberships_ok_put split: option.split)
qed

lemma bump_membership_ok:
  "memberships_ok t \<Longrightarrow> memberships_ok (snd (bump_cipher_membership_version_locked u expected t))"
proof -
  assume ok: "memberships_ok t"
  have key: "cm_user_id row = u" if "map_of t u = Some row" for row
    using ok that by (auto simp: memberships_ok_def dest: keyed_lookup_key)
  have uniq: "cm_number row' \<noteq> cm_number row"
    if "map_of t u = Some row" "map_of t v = Some row'" "v \<noteq> u" for v row row'
    using ok that unfolding memberships_ok_def by metis
  show ?thesis
    using ok key uniq by (auto simp: bump_cipher_membership_version_locked_def
        intro!: memberships_ok_put split: option.split)
qed

inductive membership_op :: "memberships \<Rightarrow> memberships \<Rightarrow> bool" where
  mo_insert: "insert_cipher_membership m t = (r, t') \<Longrightarrow> membership_op t t'"
| mo_update: "update_cipher_membership_if_version m expected t = (r, t') \<Longrightarrow> membership_op t t'"
| mo_delete: "delete_cipher_membership u t = (r, t') \<Longrightarrow> membership_op t t'"
| mo_delete_if: "delete_cipher_membership_if_version u expected t = (r, t') \<Longrightarrow> membership_op t t'"
| mo_bump: "bump_cipher_membership_version_locked u expected t = (b, t') \<Longrightarrow> membership_op t t'"

lemma membership_op_ok: "membership_op t t' \<Longrightarrow> memberships_ok t \<Longrightarrow> memberships_ok t'"
proof (induction rule: membership_op.induct)
  case (mo_insert m t r t')
  then show ?case using insert_membership_ok [of t m] by simp
next
  case (mo_update m expected t r t')
  then show ?case using update_membership_ok [of t m expected] by simp
next
  case (mo_bump u expected t b t')
  then show ?case using bump_membership_ok [of t u expected] by simp
qed (auto simp: delete_cipher_membership_def delete_cipher_membership_if_version_def
    memberships_ok_delete split: if_splits)

section \<open>Properties\<close>

definition ex_membership :: cipher_membership where
  "ex_membership = \<lparr>cm_user_id = ''u'', cm_number = 7, cm_tier = T99, cm_prot_grant = 16500,
     cm_orders = [''o1''], cm_disputed_orders = [], cm_granted_at = 5, cm_revoked_at = None,
     cm_revoke_reason = None, cm_prot_posted_at = None, cm_version = 0\<rparr>"

definition ex_membership2 :: cipher_membership where
  "ex_membership2 = ex_membership\<lparr>cm_user_id := ''v'', cm_number := 8\<rparr>"

text \<open>No two members ever show the same number, whatever inserts, compare-and-swap
  updates and deletes run in whatever order: the publicly shown badges of two different users
  carry different numbers.\<close>

theorem badges_never_shared:
  assumes "membership_op\<^sup>*\<^sup>* t t'" and "memberships_ok t" and "u \<noteq> v"
    and "map_of t' u = Some a" and "map_of t' v = Some b"
    and "public_badge a = Some x" and "public_badge b = Some y"
  shows "uc_number x \<noteq> uc_number y"
proof -
  have "memberships_ok t'"
    using assms(1,2) by (induction rule: rtranclp_induct) (auto intro: membership_op_ok)
  moreover have "uc_number x = cm_number a" "uc_number y = cm_number b"
    using assms(6,7) by (auto simp: public_badge_def split: if_splits)
  ultimately show ?thesis using assms(3-5) unfolding memberships_ok_def by metis
qed

theorem badges_never_shared_witness:
  "uc_number (the (public_badge ex_membership)) \<noteq> uc_number (the (public_badge ex_membership2))"
proof (rule badges_never_shared [where t = "[]" and u = "''u''" and v = "''v''"])
  let ?t' = "[(''u'', ex_membership), (''v'', ex_membership2)]"
  have "insert_cipher_membership ex_membership [] = (Inr True, [(''u'', ex_membership)])"
    "insert_cipher_membership ex_membership2 [(''u'', ex_membership)] = (Inr True, ?t')"
    by (simp_all add: insert_cipher_membership_def ex_membership_def ex_membership2_def rows_def)
  then show "membership_op\<^sup>*\<^sup>* [] ?t'"
    using mo_insert rtranclp.rtrancl_into_rtrancl r_into_rtranclp by metis
  show "public_badge ex_membership = Some (the (public_badge ex_membership))"
    "public_badge ex_membership2 = Some (the (public_badge ex_membership2))"
    by (simp_all add: public_badge_def ex_membership_def ex_membership2_def is_active_def)
qed simp_all

lemma update_membership_success:
  "fst (update_cipher_membership_if_version m expected t) = Inr True \<Longrightarrow>
   (\<exists>v. checked_succ expected = Some v
      \<and> snd (update_cipher_membership_if_version m expected t)
        = AList.update (cm_user_id m) (m\<lparr>cm_version := v\<rparr>) t)"
  by (auto simp: update_cipher_membership_if_version_def split: option.splits if_splits)

end
