(* ===== verification/Prot_Ledger.thy ===== *)
theory Prot_Ledger
  imports Cipher_Memberships
begin

text \<open>
  The Prot ledger (\<open>crates/core/database/src/models/prot\<close>): append-only double-entry rows,
  account balances, and the reference implementation's operations, each of which runs under
  the locks of the maps it touches and so is one atomic step.

  Two crates the code calls are arguments of the operations: SHA-256 (\<open>sha256\<close>, from bytes
  to lowercase hex) and the ULID generator (\<open>ulid\<close>, the n-th id it hands out; the state
  counts how many were).
\<close>

section \<open>Data\<close>

datatype prot_entry_kind =
    KPurchase | KCipherFounding | KCipherUpgrade | KContribution | KTierUpgrade | KPledgeHold
  | KPledgeCapture | KPledgeReturn | KPledgeWithdraw | KLaunchReturn | KBurn | KSettlement
  | KWriteOff | KClawback | KClawbackHold | KForfeit | KForfeitHold | KForfeitTank | KAdminAdjust

fun kind_as_str :: "prot_entry_kind \<Rightarrow> string" where
  "kind_as_str KPurchase = ''Purchase''"
| "kind_as_str KCipherFounding = ''CipherFounding''"
| "kind_as_str KCipherUpgrade = ''CipherUpgrade''"
| "kind_as_str KContribution = ''Contribution''"
| "kind_as_str KTierUpgrade = ''TierUpgrade''"
| "kind_as_str KPledgeHold = ''PledgeHold''"
| "kind_as_str KPledgeCapture = ''PledgeCapture''"
| "kind_as_str KPledgeReturn = ''PledgeReturn''"
| "kind_as_str KPledgeWithdraw = ''PledgeWithdraw''"
| "kind_as_str KLaunchReturn = ''LaunchReturn''"
| "kind_as_str KBurn = ''Burn''"
| "kind_as_str KSettlement = ''Settlement''"
| "kind_as_str KWriteOff = ''WriteOff''"
| "kind_as_str KClawback = ''Clawback''"
| "kind_as_str KClawbackHold = ''ClawbackHold''"
| "kind_as_str KForfeit = ''Forfeit''"
| "kind_as_str KForfeitHold = ''ForfeitHold''"
| "kind_as_str KForfeitTank = ''ForfeitTank''"
| "kind_as_str KAdminAdjust = ''AdminAdjust''"

record prot_account =
  pa_id :: string
  pa_balance :: int
  pa_version :: "64 word"
  pa_updated_at :: int

record prot_ref =
  pr_order_id :: "string option"
  pr_tank_id :: "string option"
  pr_goal_id :: "string option"
  pr_pledge_id :: "string option"
  pr_day :: "string option"
  pr_membership_number :: "nat option"
  pr_membership_order_id :: "string option"

definition default_prot_ref :: prot_ref where
  "default_prot_ref = \<lparr>pr_order_id = None, pr_tank_id = None, pr_goal_id = None,
     pr_pledge_id = None, pr_day = None, pr_membership_number = None, pr_membership_order_id = None\<rparr>"

record prot_ledger_entry =
  pl_id :: string
  pl_key :: string
  pl_kind :: prot_entry_kind
  pl_debit :: string
  pl_credit :: string
  pl_amount :: int
  pl_requested :: "int option"
  pl_shortfall :: "int option"
  pl_actor :: string
  pl_reference :: prot_ref
  pl_payload_hash :: string
  pl_reason :: "string option"
  pl_created_at :: int

datatype prot_amount = Exact int | UpTo int | All

record prot_posting =
  pp_key :: string
  pp_kind :: prot_entry_kind
  pp_debit :: string
  pp_credit :: string
  pp_amount :: prot_amount
  pp_debit_floor :: int
  pp_actor :: string
  pp_reference :: prot_ref
  pp_reason :: "string option"
  pp_created_at :: int

datatype prot_apply_outcome = Applied prot_ledger_entry | AlreadyApplied prot_ledger_entry

fun outcome_entry :: "prot_apply_outcome \<Rightarrow> prot_ledger_entry" where
  "outcome_entry (Applied e) = e"
| "outcome_entry (AlreadyApplied e) = e"

datatype cipher_prot_sync = SyncNothing | SyncPosted prot_apply_outcome | SyncOverPosted int int

section \<open>Names and keys\<close>

definition PROT_SYS_ISSUED :: string where "PROT_SYS_ISSUED = ''sys:issued''"
definition PROT_SYS_CLAWED :: string where "PROT_SYS_CLAWED = ''sys:clawed''"
definition PROT_SYS_FORFEITED :: string where "PROT_SYS_FORFEITED = ''sys:forfeited''"
definition PROT_SYS_ADJUST :: string where "PROT_SYS_ADJUST = ''sys:adjust''"
definition PROT_ACTOR_PAYMENTS :: string where "PROT_ACTOR_PAYMENTS = ''sys:payments''"
definition PROT_ACTOR_CIPHER :: string where "PROT_ACTOR_CIPHER = ''sys:cipher''"
definition PROT_ACTOR_DELETION :: string where "PROT_ACTOR_DELETION = ''sys:account-deletion''"

definition prot_user_account :: "string \<Rightarrow> string" where
  "prot_user_account u = ''user:'' @ u"

definition is_prot_system_account :: "string \<Rightarrow> bool" where
  "is_prot_system_account i = starts_with i ''sys:''"

definition prot_key_purchase :: "string \<Rightarrow> string" where
  "prot_key_purchase i = ''purchase:'' @ i"

definition prot_key_cipher_founding :: "string \<Rightarrow> nat \<Rightarrow> string \<Rightarrow> string" where
  "prot_key_cipher_founding u number base = ''cipher-founding:'' @ u @ '':'' @ decimal number @ '':'' @ base"

definition prot_key_cipher_upgrade :: "string \<Rightarrow> nat \<Rightarrow> string \<Rightarrow> nat \<Rightarrow> string" where
  "prot_key_cipher_upgrade u number base seq =
     ''cipher-upgrade:'' @ u @ '':'' @ decimal number @ '':'' @ base @ '':'' @ decimal seq"

definition prot_key_clawback :: "string \<Rightarrow> string" where
  "prot_key_clawback i = ''clawback:'' @ i"

definition prot_key_forfeit :: "string \<Rightarrow> nat \<Rightarrow> string" where
  "prot_key_forfeit u n = ''forfeit:'' @ u @ '':'' @ decimal n"

definition prot_key_admin :: "string \<Rightarrow> string \<Rightarrow> string" where
  "prot_key_admin admin nonce = ''admin:'' @ admin @ '':'' @ nonce"

definition show_int :: "int \<Rightarrow> string" where
  "show_int n = (if n < 0 then ''-'' else []) @ decimal (nat \<bar>n\<bar>)"

definition or_empty :: "string option \<Rightarrow> string" where
  "or_empty v = (case v of Some s \<Rightarrow> s | None \<Rightarrow> [])"

definition newline :: char where "newline = char_of (10 :: nat)"

fun join_lines :: "string list \<Rightarrow> string" where
  "join_lines [] = []"
| "join_lines [l] = l"
| "join_lines (l # ls) = l @ newline # join_lines ls"

definition payload_lines :: "prot_posting \<Rightarrow> string list" where
  "payload_lines p =
     (let r = pp_reference p;
          amount = (case pp_amount p of
              Exact n \<Rightarrow> ''exact:'' @ show_int n | UpTo n \<Rightarrow> ''upto:'' @ show_int n | All \<Rightarrow> ''all'')
      in [''prot-posting/v1'',
          ''kind='' @ kind_as_str (pp_kind p),
          ''currency=Prot'',
          ''debit='' @ pp_debit p,
          ''credit='' @ pp_credit p,
          ''amount='' @ amount,
          ''ref.order_id='' @ or_empty (pr_order_id r),
          ''ref.tank_id='' @ or_empty (pr_tank_id r),
          ''ref.goal_id='' @ or_empty (pr_goal_id r),
          ''ref.pledge_id='' @ or_empty (pr_pledge_id r),
          ''ref.day='' @ or_empty (pr_day r),
          ''ref.membership_number=''
             @ (case pr_membership_number r of Some n \<Rightarrow> decimal n | None \<Rightarrow> []),
          ''ref.membership_order_id='' @ or_empty (pr_membership_order_id r)])"

definition prot_payload_hash :: "(string \<Rightarrow> string) \<Rightarrow> prot_posting \<Rightarrow> string" where
  "prot_payload_hash sha256 p = sha256 (join_lines (payload_lines p))"

section \<open>Cipher targets\<close>

definition cipher_prot_target :: "cipher_membership \<Rightarrow> int" where
  "cipher_prot_target m = (if is_active m then cm_prot_grant m else 0)"

definition is_grant :: "prot_ledger_entry \<Rightarrow> bool" where
  "is_grant row \<longleftrightarrow> pl_kind row = KCipherFounding \<or> pl_kind row = KCipherUpgrade"

definition posted_step :: "int \<Rightarrow> prot_ledger_entry \<Rightarrow> int" where
  "posted_step posted row =
     (if is_grant row then saturating_add posted (pl_amount row)
      else if pl_kind row = KClawback
      then saturating_sub posted (case pl_requested row of Some n \<Rightarrow> n | None \<Rightarrow> pl_amount row)
      else posted)"

definition cipher_prot_posted :: "prot_ledger_entry list \<Rightarrow> int" where
  "cipher_prot_posted rs = foldl posted_step 0 rs"

definition cipher_prot_grant_count :: "prot_ledger_entry list \<Rightarrow> nat" where
  "cipher_prot_grant_count rs = length (filter is_grant rs)"

definition cipher_prot_shortfall :: "prot_ledger_entry list \<Rightarrow> int" where
  "cipher_prot_shortfall rs =
     foldl (\<lambda>total row. saturating_add total (case pl_shortfall row of Some n \<Rightarrow> n | None \<Rightarrow> 0)) 0
       (filter (\<lambda>row. pl_kind row = KClawback) rs)"

section \<open>Validation and resolution\<close>

definition PROT_STATE_RETRIES :: nat where "PROT_STATE_RETRIES = 5"
definition PROT_KEY_MAX_BYTES :: nat where "PROT_KEY_MAX_BYTES = 255"

definition is_valid_prot_side :: "string \<Rightarrow> bool" where
  "is_valid_prot_side i \<longleftrightarrow>
     list_ex (\<lambda>prefix. starts_with i prefix \<and> length prefix < length i)
       [''sys:'', ''user:'', ''tank:'', ''hold:'']"

definition hashed_fields :: "prot_posting \<Rightarrow> string list" where
  "hashed_fields p =
     (let r = pp_reference p
      in List.map_filter id
           [Some (pp_debit p), Some (pp_credit p), pr_order_id r, pr_tank_id r, pr_goal_id r,
            pr_pledge_id r, pr_day r, pr_membership_order_id r])"

definition validate_prot_posting :: "prot_posting \<Rightarrow> error + unit" where
  "validate_prot_posting p =
     (if pp_key p = [] \<or> length (pp_key p) > PROT_KEY_MAX_BYTES then Inl InternalError
      else if newline \<in> set (pp_key p) then Inl InternalError
      else if pp_debit p = pp_credit p then Inl InternalError
      else if \<not> is_valid_prot_side (pp_debit p) \<or> \<not> is_valid_prot_side (pp_credit p)
        then Inl InternalError
      else if list_ex (\<lambda>v. newline \<in> set v) (hashed_fields p) then Inl InternalError
      else if (case pp_amount p of
                 Exact n \<Rightarrow> n \<le> 0
               | UpTo n \<Rightarrow> n \<le> 0 \<or> \<not> (pp_kind p = KClawback \<or> pp_kind p = KClawbackHold)
               | All \<Rightarrow> \<not> (pp_kind p = KForfeit \<or> pp_kind p = KForfeitHold \<or> pp_kind p = KForfeitTank))
        then Inl InternalError
      else if (case pp_amount p of Exact _ \<Rightarrow> False | _ \<Rightarrow> True) \<and> is_prot_system_account (pp_debit p)
        then Inl InternalError
      else Inr ())"

record prot_resolved =
  rs_amount :: int
  rs_requested :: "int option"
  rs_shortfall :: "int option"
  rs_available :: int
  rs_required :: int

definition resolve_prot_amount :: "prot_posting \<Rightarrow> int \<Rightarrow> error + prot_resolved" where
  "resolve_prot_amount p debit_balance =
     (let system = is_prot_system_account (pp_debit p);
          available = (if system then 0 else max (saturating_sub debit_balance (pp_debit_floor p)) 0);
          moved = (case pp_amount p of
              Exact n \<Rightarrow>
                if \<not> system \<and> n > available then Inl (InsufficientProt n available)
                else Inr (n, None, None)
            | UpTo n \<Rightarrow> (let amount = min n available in Inr (amount, Some n, Some (n - amount)))
            | All \<Rightarrow> Inr (available, None, None))
      in case moved of
           Inl e \<Rightarrow> Inl e
         | Inr (amount, requested, shortfall) \<Rightarrow>
             (case checked_i64 (pp_debit_floor p + amount) of
                None \<Rightarrow> Inl InternalError
              | Some required \<Rightarrow>
                  Inr \<lparr>rs_amount = amount, rs_requested = requested, rs_shortfall = shortfall,
                       rs_available = available, rs_required = required\<rparr>))"

definition build_prot_entry :: "string \<Rightarrow> prot_posting \<Rightarrow> prot_resolved \<Rightarrow> string \<Rightarrow> prot_ledger_entry" where
  "build_prot_entry new_id p resolved payload_hash =
     \<lparr>pl_id = new_id, pl_key = pp_key p, pl_kind = pp_kind p, pl_debit = pp_debit p,
      pl_credit = pp_credit p, pl_amount = rs_amount resolved,
      pl_requested = rs_requested resolved, pl_shortfall = rs_shortfall resolved,
      pl_actor = pp_actor p, pl_reference = pp_reference p, pl_payload_hash = payload_hash,
      pl_reason = pp_reason p, pl_created_at = pp_created_at p\<rparr>"

definition duplicate_outcome :: "string \<Rightarrow> prot_ledger_entry option \<Rightarrow> error + prot_apply_outcome" where
  "duplicate_outcome payload_hash stored =
     (case stored of
        Some e \<Rightarrow>
          if pl_payload_hash e = payload_hash then Inr (AlreadyApplied e) else Inl ProtIdempotencyConflict
      | None \<Rightarrow> Inl (DatabaseError ''find_one'' ''prot_ledger''))"

definition cipher_base :: "cipher_membership \<Rightarrow> string option" where
  "cipher_base m = (case cm_orders m of [] \<Rightarrow> None | b # _ \<Rightarrow> Some b)"

definition is_older_incarnation :: "string \<Rightarrow> string \<Rightarrow> bool" where
  "is_older_incarnation order_id base \<longleftrightarrow> order_id < base"

datatype cipher_sync_plan = PlanDone cipher_prot_sync | PlanPost prot_posting

definition cipher_ref :: "string option \<Rightarrow> cipher_membership \<Rightarrow> string \<Rightarrow> prot_ref" where
  "cipher_ref order_id m base = default_prot_ref
     \<lparr>pr_order_id := order_id, pr_membership_number := Some (cm_number m),
      pr_membership_order_id := Some base\<rparr>"

definition plan_cipher_sync ::
    "string \<Rightarrow> cipher_membership \<Rightarrow> string \<Rightarrow> prot_ledger_entry list \<Rightarrow> int \<Rightarrow> cipher_sync_plan" where
  "plan_cipher_sync u m base rs now =
     (let posted = cipher_prot_posted rs; target = cipher_prot_target m in
      if \<not> is_active m \<or> cm_disputed_orders m \<noteq> [] \<or> posted \<ge> target
      then PlanDone (if posted > target then SyncOverPosted posted target else SyncNothing)
      else
        let seq = cipher_prot_grant_count rs in
        PlanPost
          \<lparr>pp_key = (if seq = 0 then prot_key_cipher_founding u (cm_number m) base
                     else prot_key_cipher_upgrade u (cm_number m) base seq),
           pp_kind = (if seq = 0 then KCipherFounding else KCipherUpgrade),
           pp_debit = PROT_SYS_ISSUED, pp_credit = prot_user_account u,
           pp_amount = Exact (wrap_i64 (target - posted)), pp_debit_floor = 0,
           pp_actor = PROT_ACTOR_CIPHER,
           pp_reference = cipher_ref (if cm_orders m = [] then None else Some (last (cm_orders m))) m base,
           pp_reason = None, pp_created_at = now\<rparr>)"

definition plan_cipher_clawback ::
    "string \<Rightarrow> string \<Rightarrow> cipher_membership \<Rightarrow> string \<Rightarrow> prot_ledger_entry list \<Rightarrow> int
     \<Rightarrow> prot_posting option" where
  "plan_cipher_clawback u order_id m base rs now =
     (let posted = cipher_prot_posted rs; target = cipher_prot_target m in
      if posted \<le> target then None
      else Some
        \<lparr>pp_key = prot_key_clawback order_id, pp_kind = KClawback,
         pp_debit = prot_user_account u, pp_credit = PROT_SYS_CLAWED,
         pp_amount = UpTo (wrap_i64 (posted - target)), pp_debit_floor = 0,
         pp_actor = PROT_ACTOR_PAYMENTS,
         pp_reference = cipher_ref (Some order_id) m base,
         pp_reason = None, pp_created_at = now\<rparr>)"

definition forfeit_posting :: "string \<Rightarrow> nat \<Rightarrow> int \<Rightarrow> prot_posting" where
  "forfeit_posting u n now =
     \<lparr>pp_key = prot_key_forfeit u n, pp_kind = KForfeit,
      pp_debit = prot_user_account u, pp_credit = PROT_SYS_FORFEITED, pp_amount = All,
      pp_debit_floor = 0, pp_actor = PROT_ACTOR_DELETION, pp_reference = default_prot_ref,
      pp_reason = None, pp_created_at = now\<rparr>"

section \<open>The reference implementation\<close>

record ledger_state =
  ls_memberships :: memberships
  ls_ledger :: "(string, prot_ledger_entry) table"
  ls_accounts :: "(string, prot_account) table"
  ls_ulids :: nat

record prepared_posting =
  prep_entry :: prot_ledger_entry
  prep_debit_balance :: "int option"
  prep_credit_balance :: "int option"

datatype prepared = Duplicate prot_ledger_entry | New prepared_posting

definition balance_of :: "(string, prot_account) table \<Rightarrow> string \<Rightarrow> int" where
  "balance_of accounts i = (case map_of accounts i of Some a \<Rightarrow> pa_balance a | None \<Rightarrow> 0)"

definition prepare_locked ::
    "(nat \<Rightarrow> string) \<Rightarrow> ledger_state \<Rightarrow> prot_posting \<Rightarrow> string \<Rightarrow> error + prepared" where
  "prepare_locked ulid st p payload_hash =
     (case map_of (ls_ledger st) (pp_key p) of
        Some stored \<Rightarrow> Inr (Duplicate stored)
      | None \<Rightarrow>
          (case resolve_prot_amount p (balance_of (ls_accounts st) (pp_debit p)) of
             Inl e \<Rightarrow> Inl e
           | Inr resolved \<Rightarrow>
               let debit_system = is_prot_system_account (pp_debit p);
                   credit_system = is_prot_system_account (pp_credit p);
                   debit_sum = balance_of (ls_accounts st) (pp_debit p) - rs_amount resolved;
                   credit_sum = balance_of (ls_accounts st) (pp_credit p) + rs_amount resolved
               in if \<not> debit_system \<and> \<not> is_i64 debit_sum then Inl InternalError
                  else if \<not> credit_system \<and> \<not> is_i64 credit_sum then Inl InternalError
                  else if rs_amount resolved > 0 \<and> \<not> debit_system \<and> debit_sum < pp_debit_floor p
                    then Inl (InsufficientProt (rs_amount resolved) (rs_available resolved))
                  else Inr (New \<lparr>prep_entry = build_prot_entry (ulid (ls_ulids st)) p resolved payload_hash,
                                 prep_debit_balance = (if debit_system then None else Some debit_sum),
                                 prep_credit_balance = (if credit_system then None else Some credit_sum)\<rparr>)))"

text \<open>\<open>account.version\<close> saturates.\<close>

definition set_balance ::
    "int \<Rightarrow> string \<Rightarrow> int option \<Rightarrow> (string, prot_account) table \<Rightarrow> (string, prot_account) table" where
  "set_balance created_at i balance accounts =
     (case balance of
        None \<Rightarrow> accounts
      | Some b \<Rightarrow>
          (let a = (case map_of accounts i of
                 Some a \<Rightarrow> a
               | None \<Rightarrow> \<lparr>pa_id = i, pa_balance = 0, pa_version = 0, pa_updated_at = created_at\<rparr>)
           in AList.update i
                (a\<lparr>pa_balance := b,
                   pa_version := (if pa_version a = - 1 then - 1 else pa_version a + 1),
                   pa_updated_at := created_at\<rparr>) accounts))"

definition commit_locked :: "prepared_posting \<Rightarrow> ledger_state \<Rightarrow> prot_ledger_entry \<times> ledger_state" where
  "commit_locked prep st =
     (let e = prep_entry prep;
          at = pl_created_at e
      in (e, st\<lparr>ls_accounts := set_balance at (pl_credit e) (prep_credit_balance prep)
                  (set_balance at (pl_debit e) (prep_debit_balance prep) (ls_accounts st)),
                ls_ledger := AList.update (pl_key e) e (ls_ledger st),
                ls_ulids := Suc (ls_ulids st)\<rparr>))"

definition membership_rows :: "(string, prot_ledger_entry) table \<Rightarrow> string \<Rightarrow> prot_ledger_entry list" where
  "membership_rows ledger base =
     sort_key pl_id
       (filter (\<lambda>row. pr_membership_order_id (pl_reference row) = Some base) (rows ledger))"

text \<open>Steps shared by the posting and the forfeit pass: decide a duplicate, else write.\<close>

definition apply_prepared :: "string \<Rightarrow> error + prepared \<Rightarrow> (ledger_state, prot_apply_outcome) eff" where
  "apply_prepared payload_hash prep = (\<lambda>st.
     case prep of
       Inl e \<Rightarrow> (Inl e, st)
     | Inr (Duplicate stored) \<Rightarrow> (duplicate_outcome payload_hash (Some stored), st)
     | Inr (New prepared) \<Rightarrow> (case commit_locked prepared st of (e, st') \<Rightarrow> (Inr (Applied e), st')))"

definition apply_prot_posting ::
    "(string \<Rightarrow> string) \<Rightarrow> (nat \<Rightarrow> string) \<Rightarrow> prot_posting \<Rightarrow> (ledger_state, prot_apply_outcome) eff" where
  "apply_prot_posting sha256 ulid p =
     bindE (resE (validate_prot_posting p)) (\<lambda>_ st.
       apply_prepared (prot_payload_hash sha256 p)
         (prepare_locked ulid st p (prot_payload_hash sha256 p)) st)"

definition fetch_prot_account :: "string \<Rightarrow> (ledger_state, prot_account option) eff" where
  "fetch_prot_account i = (\<lambda>st. (Inr (map_of (ls_accounts st) i), st))"

definition fetch_prot_entry_by_key :: "string \<Rightarrow> (ledger_state, prot_ledger_entry option) eff" where
  "fetch_prot_entry_by_key k = (\<lambda>st. (Inr (map_of (ls_ledger st) k), st))"

definition fetch_prot_entries_by_account ::
    "string \<Rightarrow> string option \<Rightarrow> int \<Rightarrow> (ledger_state, prot_ledger_entry list) eff" where
  "fetch_prot_entries_by_account i before limit = (\<lambda>st.
     (Inr (take (nat (min (max limit 1) 100)) (rev (sort_key pl_id
        (rev (filter (\<lambda>row. case before of None \<Rightarrow> True | Some b \<Rightarrow> pl_id row < b)
          (filter (\<lambda>row. pl_debit row = i \<or> pl_credit row = i) (rows (ls_ledger st)))))))), st))"

definition fetch_prot_entries_by_order :: "string \<Rightarrow> (ledger_state, prot_ledger_entry list) eff" where
  "fetch_prot_entries_by_order i = (\<lambda>st.
     (Inr (sort_key pl_id (filter (\<lambda>row. pr_order_id (pl_reference row) = Some i) (rows (ls_ledger st)))), st))"

definition fetch_prot_entries_by_membership :: "string \<Rightarrow> (ledger_state, prot_ledger_entry list) eff" where
  "fetch_prot_entries_by_membership base = (\<lambda>st. (Inr (membership_rows (ls_ledger st) base), st))"

definition sum_prot_credits_since ::
    "string \<Rightarrow> prot_entry_kind list \<Rightarrow> int \<Rightarrow> (ledger_state, int) eff" where
  "sum_prot_credits_since i kinds since = (\<lambda>st.
     (Inr (foldl (\<lambda>total row. saturating_add total (pl_amount row)) 0
        (filter (\<lambda>row. pl_credit row = i \<and> pl_kind row \<in> set kinds \<and> pl_created_at row \<ge> since)
          (rows (ls_ledger st)))), st))"

text \<open>The version of the membership moves before the ledger is written; a miss changes
  nothing.\<close>

definition bump_and_commit ::
    "string \<Rightarrow> 64 word \<Rightarrow> prepared_posting \<Rightarrow> (ledger_state, prot_apply_outcome) eff" where
  "bump_and_commit u version prep = (\<lambda>st.
     case bump_cipher_membership_version_locked u version (ls_memberships st) of
       (False, _) \<Rightarrow> (Inl (DatabaseError ''transaction'' ''prot_ledger''), st)
     | (True, ms) \<Rightarrow>
         (case commit_locked prep (st\<lparr>ls_memberships := ms\<rparr>) of (e, st') \<Rightarrow> (Inr (Applied e), st')))"

definition sync_cipher_prot ::
    "(string \<Rightarrow> string) \<Rightarrow> (nat \<Rightarrow> string) \<Rightarrow> string \<Rightarrow> int \<Rightarrow> (ledger_state, cipher_prot_sync) eff" where
  "sync_cipher_prot sha256 ulid u now = (\<lambda>st.
     case map_of (ls_memberships st) u of
       None \<Rightarrow> (Inr SyncNothing, st)
     | Some m \<Rightarrow>
         (case cipher_base m of
            None \<Rightarrow> (Inr SyncNothing, st)
          | Some base \<Rightarrow>
              (case plan_cipher_sync u m base (membership_rows (ls_ledger st) base) now of
                 PlanDone sync \<Rightarrow> (Inr sync, st)
               | PlanPost p \<Rightarrow>
                   (case validate_prot_posting p of
                      Inl e \<Rightarrow> (Inl e, st)
                    | Inr _ \<Rightarrow>
                        let payload_hash = prot_payload_hash sha256 p in
                        (case prepare_locked ulid st p payload_hash of
                           Inl e \<Rightarrow> (Inl e, st)
                         | Inr (Duplicate stored) \<Rightarrow>
                             if pl_payload_hash stored = payload_hash
                             then (Inr (SyncPosted (AlreadyApplied stored)), st)
                             else (Inl (DatabaseError ''transaction'' ''prot_ledger''), st)
                         | Inr (New prep) \<Rightarrow>
                             (case bump_and_commit u (cm_version m) prep st of
                                (Inl e, st') \<Rightarrow> (Inl e, st')
                              | (Inr outcome, st') \<Rightarrow> (Inr (SyncPosted outcome), st')))))))"

definition clawback_cipher_prot ::
    "(string \<Rightarrow> string) \<Rightarrow> (nat \<Rightarrow> string) \<Rightarrow> string \<Rightarrow> string \<Rightarrow> int
     \<Rightarrow> (ledger_state, prot_apply_outcome option) eff" where
  "clawback_cipher_prot sha256 ulid u order_id now = (\<lambda>st.
     case map_of (ls_ledger st) (prot_key_clawback order_id) of
       Some stored \<Rightarrow> (Inr (Some (AlreadyApplied stored)), st)
     | None \<Rightarrow>
         (case map_of (ls_memberships st) u of
            None \<Rightarrow> (Inr None, st)
          | Some m \<Rightarrow>
              (case cipher_base m of
                 None \<Rightarrow> (Inr None, st)
               | Some base \<Rightarrow>
                   if is_older_incarnation order_id base then (Inr None, st)
                   else
                     (case plan_cipher_clawback u order_id m base
                             (membership_rows (ls_ledger st) base) now of
                        None \<Rightarrow> (Inr None, st)
                      | Some p \<Rightarrow>
                          (case validate_prot_posting p of
                             Inl e \<Rightarrow> (Inl e, st)
                           | Inr _ \<Rightarrow>
                               (case prepare_locked ulid st p (prot_payload_hash sha256 p) of
                                  Inl e \<Rightarrow> (Inl e, st)
                                | Inr (Duplicate stored) \<Rightarrow> (Inr (Some (AlreadyApplied stored)), st)
                                | Inr (New prep) \<Rightarrow>
                                    (case bump_and_commit u (cm_version m) prep st of
                                       (Inl e, st') \<Rightarrow> (Inl e, st')
                                     | (Inr outcome, st') \<Rightarrow> (Inr (Some outcome), st'))))))))"

definition prot_forfeit_pass ::
    "(string \<Rightarrow> string) \<Rightarrow> (nat \<Rightarrow> string) \<Rightarrow> string \<Rightarrow> int \<Rightarrow> (ledger_state, prot_apply_outcome) eff" where
  "prot_forfeit_pass sha256 ulid u now = (\<lambda>st.
     let wallet = prot_user_account u;
         passes = length (filter (\<lambda>row. pl_kind row = KForfeit \<and> pl_debit row = wallet) (rows (ls_ledger st)));
         p = forfeit_posting u (passes + 1) now
     in case validate_prot_posting p of
          Inl e \<Rightarrow> (Inl e, st)
        | Inr _ \<Rightarrow>
            apply_prepared (prot_payload_hash sha256 p)
              (prepare_locked ulid st p (prot_payload_hash sha256 p)) st)"

text \<open>The pass loop; \<open>pass\<close> and \<open>balance\<close> are separate steps, between which other
  workers may run.\<close>

definition run_forfeit_passes ::
    "('s, prot_apply_outcome) eff \<Rightarrow> ('s, int) eff \<Rightarrow> ('s, prot_apply_outcome option) eff" where
  "run_forfeit_passes pass balance =
     bindE balance (\<lambda>b.
     if b \<le> 0 then okE None
     else retryE PROT_STATE_RETRIES
       (bindE pass (\<lambda>outcome.
        case outcome of
          Applied _ \<Rightarrow> okE (Some (Some outcome))
        | AlreadyApplied _ \<Rightarrow>
            bindE balance (\<lambda>b. if b \<le> 0 then okE (Some (Some outcome)) else okE None)))
       (errE InternalError))"

definition wallet_balance :: "string \<Rightarrow> (ledger_state, int) eff" where
  "wallet_balance u =
     bindE (fetch_prot_account (prot_user_account u))
       (\<lambda>a. okE (case a of Some a \<Rightarrow> pa_balance a | None \<Rightarrow> 0))"

definition forfeit_prot_wallet ::
    "(string \<Rightarrow> string) \<Rightarrow> (nat \<Rightarrow> string) \<Rightarrow> string \<Rightarrow> int
     \<Rightarrow> (ledger_state, prot_apply_outcome option) eff" where
  "forfeit_prot_wallet sha256 ulid u now =
     run_forfeit_passes (prot_forfeit_pass sha256 ulid u now) (wallet_balance u)"

section \<open>Double entry\<close>

text \<open>What the ledger rows say an account holds.\<close>

definition entry_flow :: "string \<Rightarrow> prot_ledger_entry \<Rightarrow> int" where
  "entry_flow a e = (if pl_credit e = a then pl_amount e else 0) - (if pl_debit e = a then pl_amount e else 0)"

definition account_flow :: "(string, prot_ledger_entry) table \<Rightarrow> string \<Rightarrow> int" where
  "account_flow ledger a = sum_list (map (entry_flow a) (rows ledger))"

text \<open>Every row under its key moves a non-negative amount between two accounts, and every
  account's balance is what the rows say.\<close>

definition ledger_ok :: "ledger_state \<Rightarrow> bool" where
  "ledger_ok st \<longleftrightarrow> keyed pl_key (ls_ledger st)
     \<and> (\<forall>k e. map_of (ls_ledger st) k = Some e \<longrightarrow> 0 \<le> pl_amount e \<and> pl_debit e \<noteq> pl_credit e)
     \<and> (\<forall>a. \<not> is_prot_system_account a \<longrightarrow> balance_of (ls_accounts st) a = account_flow (ls_ledger st) a)"

lemma rows_update_new: "map_of t k = None \<Longrightarrow> rows (AList.update k r t) = rows t @ [r]"
  by (induction t) (auto simp: rows_def)

lemma balance_of_set:
  "balance_of (set_balance at i b accounts) a = (case b of Some v \<Rightarrow> if a = i then v else balance_of accounts a
     | None \<Rightarrow> balance_of accounts a)"
  by (simp add: set_balance_def balance_of_def Let_def map_of_update split: option.split)

lemma validate_facts:
  assumes "validate_prot_posting p = Inr u"
  shows "pp_debit p \<noteq> pp_credit p"
    and "pp_amount p = Exact n \<Longrightarrow> 0 < n" "pp_amount p = UpTo n \<Longrightarrow> 0 < n"
    and "pp_amount p \<noteq> Exact n' \<Longrightarrow> (\<forall>n. pp_amount p \<noteq> Exact n) \<Longrightarrow> \<not> is_prot_system_account (pp_debit p)"
  using assms
  by (auto simp: validate_prot_posting_def split: if_splits prot_amount.splits)

lemma resolve_facts:
  assumes "resolve_prot_amount p b = Inr r" "validate_prot_posting p = Inr u"
  shows "0 \<le> rs_amount r"
    and "\<not> is_prot_system_account (pp_debit p) \<Longrightarrow> rs_amount r \<le> max (saturating_sub b (pp_debit_floor p)) 0"
    and "case pp_amount p of
        Exact n \<Rightarrow> rs_amount r = n \<and> rs_requested r = None
      | UpTo n \<Rightarrow> rs_requested r = Some n \<and> rs_shortfall r = Some (n - rs_amount r)
          \<and> rs_amount r = min n (max (saturating_sub b (pp_debit_floor p)) 0)
      | All \<Rightarrow> rs_amount r = max (saturating_sub b (pp_debit_floor p)) 0"
  using assms validate_facts [OF assms(2)]
  by (auto simp: resolve_prot_amount_def Let_def split: prot_amount.splits if_splits option.splits sum.splits)

text \<open>What a new posting that passed the checks looks like.\<close>

lemma prepare_new:
  assumes "prepare_locked ulid st p h = Inr (New prep)" "validate_prot_posting p = Inr u"
  obtains r where "map_of (ls_ledger st) (pp_key p) = None"
    "resolve_prot_amount p (balance_of (ls_accounts st) (pp_debit p)) = Inr r"
    "prep = \<lparr>prep_entry = build_prot_entry (ulid (ls_ulids st)) p r h,
       prep_debit_balance = (if is_prot_system_account (pp_debit p) then None
         else Some (balance_of (ls_accounts st) (pp_debit p) - rs_amount r)),
       prep_credit_balance = (if is_prot_system_account (pp_credit p) then None
         else Some (balance_of (ls_accounts st) (pp_credit p) + rs_amount r))\<rparr>"
    "rs_amount r > 0 \<Longrightarrow> \<not> is_prot_system_account (pp_debit p) \<Longrightarrow>
       pp_debit_floor p \<le> balance_of (ls_accounts st) (pp_debit p) - rs_amount r"
  using assms(1)
  by (auto simp: prepare_locked_def Let_def split: option.splits sum.splits if_splits)

lemma commit_ledger_ok:
  assumes ok: "ledger_ok st" and prep: "prepare_locked ulid st p h = Inr (New prep)"
    and v: "validate_prot_posting p = Inr u"
    and same: "ls_ledger st' = ls_ledger st" "ls_accounts st' = ls_accounts st"
  shows "ledger_ok (snd (commit_locked prep st'))"
proof -
  obtain r where fresh: "map_of (ls_ledger st) (pp_key p) = None"
      and r: "resolve_prot_amount p (balance_of (ls_accounts st) (pp_debit p)) = Inr r"
      and prep_eq: "prep = \<lparr>prep_entry = build_prot_entry (ulid (ls_ulids st)) p r h,
       prep_debit_balance = (if is_prot_system_account (pp_debit p) then None
         else Some (balance_of (ls_accounts st) (pp_debit p) - rs_amount r)),
       prep_credit_balance = (if is_prot_system_account (pp_credit p) then None
         else Some (balance_of (ls_accounts st) (pp_credit p) + rs_amount r))\<rparr>"
    using prepare_new [OF prep v] by metis
  let ?e = "build_prot_entry (ulid (ls_ulids st)) p r h"
  have e: "pl_key ?e = pp_key p" "pl_debit ?e = pp_debit p" "pl_credit ?e = pp_credit p"
      "pl_amount ?e = rs_amount r"
    by (simp_all add: build_prot_entry_def)
  have ne: "pp_debit p \<noteq> pp_credit p" using validate_facts(1) [OF v] .
  have pos: "0 \<le> rs_amount r" using resolve_facts(1) [OF r v] .
  have k: "keyed pl_key (ls_ledger st)" using ok by (simp add: ledger_ok_def)
  let ?st = "snd (commit_locked prep st')"
  have led: "ls_ledger ?st = AList.update (pp_key p) ?e (ls_ledger st)"
    by (simp add: commit_locked_def Let_def prep_eq same e)
  have bal: "balance_of (ls_accounts ?st) a = balance_of (ls_accounts st) a + entry_flow a ?e"
    if "\<not> is_prot_system_account a" for a
    using ne that by (auto simp: commit_locked_def Let_def prep_eq same balance_of_set entry_flow_def e)
  have flow: "account_flow (ls_ledger ?st) a = account_flow (ls_ledger st) a + entry_flow a ?e" for a
    by (simp add: led account_flow_def rows_update_new [OF fresh])
  have "keyed pl_key (ls_ledger ?st)" unfolding led using k e(1) by (intro keyed_update) auto
  then show ?thesis
    using ok bal flow pos ne unfolding ledger_ok_def by (auto simp: led map_of_update e)
qed

text \<open>Every operation changes the ledger and the balances by at most one posting that passed
  the checks; \<open>lo\<close> bounds the floor it was made with.\<close>

definition posts :: "int \<Rightarrow> ledger_state \<Rightarrow> ledger_state \<Rightarrow> bool" where
  "posts lo st st' \<longleftrightarrow>
     (\<exists>ulid p h prep ms. validate_prot_posting p = Inr () \<and> lo \<le> pp_debit_floor p
        \<and> prepare_locked ulid st p h = Inr (New prep)
        \<and> st' = snd (commit_locked prep (st\<lparr>ls_memberships := ms\<rparr>)))"

lemma postsI:
  assumes "validate_prot_posting p = Inr ()" "lo \<le> pp_debit_floor p"
    "prepare_locked ulid st p h = Inr (New prep)" "commit_locked prep (st\<lparr>ls_memberships := ms\<rparr>) = (e, st')"
  shows "posts lo st st'"
  unfolding posts_def using assms by (metis snd_conv)

lemma posts_ledger_ok: "posts lo st st' \<Longrightarrow> ledger_ok st \<Longrightarrow> ledger_ok st'"
  unfolding posts_def using commit_ledger_ok by fastforce

lemma apply_prepared_effect:
  assumes "validate_prot_posting p = Inr ()" "lo \<le> pp_debit_floor p"
  shows "snd (apply_prepared h (prepare_locked ulid st p h) st) = st
    \<or> posts lo st (snd (apply_prepared h (prepare_locked ulid st p h) st))"
proof (cases "prepare_locked ulid st p h")
  case (Inr prep)
  show ?thesis
  proof (cases prep)
    case (New x)
    obtain e st' where run: "commit_locked x st = (e, st')" by fastforce
    then have "commit_locked x (st\<lparr>ls_memberships := ls_memberships st\<rparr>) = (e, st')" by simp
    moreover have "prepare_locked ulid st p h = Inr (New x)" using New Inr by simp
    ultimately have "posts lo st st'" using assms postsI by blast
    then show ?thesis by (simp add: apply_prepared_def Inr New run)
  qed (simp add: apply_prepared_def Inr)
qed (simp add: apply_prepared_def)

lemma bump_and_commit_effect:
  assumes "validate_prot_posting p = Inr ()" "lo \<le> pp_debit_floor p"
    "prepare_locked ulid st p h = Inr (New prep)"
  shows "snd (bump_and_commit u v prep st) = st \<or> posts lo st (snd (bump_and_commit u v prep st))"
proof (cases "bump_cipher_membership_version_locked u v (ls_memberships st)")
  case (Pair b ms)
  obtain e st' where run: "commit_locked prep (st\<lparr>ls_memberships := ms\<rparr>) = (e, st')" by fastforce
  with assms have "posts lo st st'" by (rule postsI)
  then show ?thesis by (cases b) (simp_all add: bump_and_commit_def Pair run)
qed

lemma bump_and_commit_run:
  assumes "bump_and_commit u v prep st = (r, st')" "prepare_locked ulid st p h = Inr (New prep)"
    "validate_prot_posting p = Inr ()" "lo \<le> pp_debit_floor p"
  shows "st' = st \<or> posts lo st st'"
  using bump_and_commit_effect [OF assms(3,4,2), of u v] assms(1) by simp

lemma apply_effect:
  assumes "lo \<le> pp_debit_floor p"
  shows "snd (apply_prot_posting sha256 ulid p st) = st \<or> posts lo st (snd (apply_prot_posting sha256 ulid p st))"
  using apply_prepared_effect [OF _ assms, of "prot_payload_hash sha256 p" ulid st]
  by (cases "validate_prot_posting p") (simp_all add: apply_prot_posting_def eff_simps)

lemma forfeit_pass_effect:
  "snd (prot_forfeit_pass sha256 ulid u now st) = st \<or> posts 0 st (snd (prot_forfeit_pass sha256 ulid u now st))"
proof -
  have fl: "0 \<le> pp_debit_floor (forfeit_posting u n now)" for n by (simp add: forfeit_posting_def)
  show ?thesis
    using apply_prepared_effect [OF _ fl]
    by (auto simp: prot_forfeit_pass_def Let_def split: sum.split)
qed

lemma sync_effect:
  "snd (sync_cipher_prot sha256 ulid u now st) = st \<or> posts 0 st (snd (sync_cipher_prot sha256 ulid u now st))"
proof -
  have fl: "0 \<le> pp_debit_floor p" if "plan_cipher_sync u m base rs now = PlanPost p" for m base rs p
    using that by (auto simp: plan_cipher_sync_def Let_def split: if_splits)
  show ?thesis
    by (auto simp: sync_cipher_prot_def Let_def
        split: option.split cipher_sync_plan.split sum.split prepared.split prod.split
        dest!: bump_and_commit_run [where lo = 0] intro: fl)
qed

lemma clawback_effect:
  "snd (clawback_cipher_prot sha256 ulid u i now st) = st
   \<or> posts 0 st (snd (clawback_cipher_prot sha256 ulid u i now st))"
proof -
  have fl: "0 \<le> pp_debit_floor p" if "plan_cipher_clawback u i m base rs now = Some p" for m base rs p
    using that by (auto simp: plan_cipher_clawback_def Let_def split: if_splits)
  show ?thesis
    by (auto simp: clawback_cipher_prot_def Let_def
        split: option.split sum.split prepared.split prod.split
        dest!: bump_and_commit_run [where lo = 0] intro: fl)
qed

text \<open>One ledger operation of any worker, postings with a floor of at least \<open>lo\<close>.\<close>

inductive ledger_op :: "int \<Rightarrow> ledger_state \<Rightarrow> ledger_state \<Rightarrow> bool" for lo where
  lo_apply: "lo \<le> pp_debit_floor p \<Longrightarrow> apply_prot_posting sha256 ulid p st = (r, st') \<Longrightarrow> ledger_op lo st st'"
| lo_sync: "lo \<le> 0 \<Longrightarrow> sync_cipher_prot sha256 ulid u now st = (r, st') \<Longrightarrow> ledger_op lo st st'"
| lo_clawback: "lo \<le> 0 \<Longrightarrow> clawback_cipher_prot sha256 ulid u i now st = (r, st') \<Longrightarrow> ledger_op lo st st'"
| lo_forfeit: "lo \<le> 0 \<Longrightarrow> prot_forfeit_pass sha256 ulid u now st = (r, st') \<Longrightarrow> ledger_op lo st st'"
| lo_memberships: "membership_op (ls_memberships st) ms \<Longrightarrow> ledger_op lo st (st\<lparr>ls_memberships := ms\<rparr>)"

lemma posts_weaken: "posts lo st st' \<Longrightarrow> lo' \<le> lo \<Longrightarrow> posts lo' st st'"
  unfolding posts_def by (elim exE conjE) (intro exI conjI, assumption, erule (1) order_trans, assumption+)

lemma ledger_op_effect:
  "ledger_op lo st st' \<Longrightarrow>
   ls_ledger st' = ls_ledger st \<and> ls_accounts st' = ls_accounts st \<or> posts lo st st'"
proof (induction rule: ledger_op.induct)
  case (lo_apply p sha256 ulid st r st')
  then show ?case using apply_effect [of lo p sha256 ulid st] by auto
next
  case (lo_sync sha256 ulid u now st r st')
  then show ?case using sync_effect [of sha256 ulid u now st] by (auto intro: posts_weaken)
next
  case (lo_clawback sha256 ulid u i now st r st')
  then show ?case using clawback_effect [of sha256 ulid u i now st] by (auto intro: posts_weaken)
next
  case (lo_forfeit sha256 ulid u now st r st')
  then show ?case using forfeit_pass_effect [of sha256 ulid u now st] by (auto intro: posts_weaken)
qed simp

lemma ledger_op_ok: "ledger_op lo st st' \<Longrightarrow> ledger_ok st \<Longrightarrow> ledger_ok st'"
  using ledger_op_effect [of lo st st'] posts_ledger_ok [of lo st st'] by (auto simp: ledger_ok_def)

lemma ledger_ops_ok: "(ledger_op lo)\<^sup>*\<^sup>* st st' \<Longrightarrow> ledger_ok st \<Longrightarrow> ledger_ok st'"
  by (induction rule: rtranclp_induct) (auto intro: ledger_op_ok)

lemma posts_row:
  assumes "posts lo st st'" "map_of (ls_ledger st) k = Some e"
  shows "map_of (ls_ledger st') k = Some e"
proof -
  from assms(1) obtain ulid p h prep ms where
    p: "validate_prot_posting p = Inr ()" "prepare_locked ulid st p h = Inr (New prep)"
      and st': "st' = snd (commit_locked prep (st\<lparr>ls_memberships := ms\<rparr>))"
    unfolding posts_def by metis
  from p(2,1) show ?thesis
    by (rule prepare_new) (use assms(2) in \<open>auto simp: st' commit_locked_def Let_def map_of_update build_prot_entry_def\<close>)
qed

lemma posts_balance:
  assumes "posts lo st st'" "\<not> is_prot_system_account a" "lo \<le> 0"
  shows "min lo (balance_of (ls_accounts st) a) \<le> balance_of (ls_accounts st') a"
proof -
  from assms(1) obtain ulid p h prep ms where
    p: "validate_prot_posting p = Inr ()" "lo \<le> pp_debit_floor p"
       "prepare_locked ulid st p h = Inr (New prep)"
      and st': "st' = snd (commit_locked prep (st\<lparr>ls_memberships := ms\<rparr>))"
    unfolding posts_def by metis
  from p(3,1) show ?thesis
  proof (rule prepare_new)
    fix r
    assume r: "resolve_prot_amount p (balance_of (ls_accounts st) (pp_debit p)) = Inr r"
      and prep: "prep = \<lparr>prep_entry = build_prot_entry (ulid (ls_ulids st)) p r h,
         prep_debit_balance = (if is_prot_system_account (pp_debit p) then None
           else Some (balance_of (ls_accounts st) (pp_debit p) - rs_amount r)),
         prep_credit_balance = (if is_prot_system_account (pp_credit p) then None
           else Some (balance_of (ls_accounts st) (pp_credit p) + rs_amount r))\<rparr>"
      and fl: "rs_amount r > 0 \<Longrightarrow> \<not> is_prot_system_account (pp_debit p) \<Longrightarrow>
         pp_debit_floor p \<le> balance_of (ls_accounts st) (pp_debit p) - rs_amount r"
    have "0 \<le> rs_amount r" using resolve_facts(1) [OF r p(1)] .
    then show ?thesis
      using assms(2) p(2) fl validate_facts(1) [OF p(1)]
      by (cases "rs_amount r = 0")
        (auto simp: st' commit_locked_def Let_def prep balance_of_set build_prot_entry_def)
  qed
qed

lemma ledger_op_balance:
  "ledger_op lo st st' \<Longrightarrow> \<not> is_prot_system_account a \<Longrightarrow> lo \<le> 0 \<Longrightarrow>
   min lo (balance_of (ls_accounts st) a) \<le> balance_of (ls_accounts st') a"
  using ledger_op_effect [of lo st st'] posts_balance [of lo st st' a] by auto

lemma ledger_op_row:
  "ledger_op lo st st' \<Longrightarrow> map_of (ls_ledger st) k = Some e \<Longrightarrow> map_of (ls_ledger st') k = Some e"
  using ledger_op_effect [of lo st st'] posts_row [of lo st st' k e] by auto

end
