(* ===== verification/Prot_Ledger_Props.thy ===== *)
theory Prot_Ledger_Props
  imports Prot_Ledger "HOL-Library.Multiset"
begin

text \<open>
  What the Prot ledger guarantees under any interleaving of its operations: balances are
  the sums of the rows, wallets are never overdrawn, a posting is applied once per key, and
  the two Cipher syncs bring what was posted for a membership to its target.
\<close>

section \<open>Concrete data for the witnesses\<close>

definition empty_ledger :: ledger_state where
  "empty_ledger = \<lparr>ls_memberships = [], ls_ledger = [], ls_accounts = [], ls_ulids = 0\<rparr>"

lemma empty_ledger_ok: "ledger_ok empty_ledger"
  by (simp add: ledger_ok_def empty_ledger_def balance_of_def account_flow_def rows_def)

definition ex_posting :: prot_posting where
  "ex_posting = \<lparr>pp_key = ''purchase:o1'', pp_kind = KPurchase, pp_debit = PROT_SYS_ISSUED,
     pp_credit = prot_user_account ''u'', pp_amount = Exact 2600, pp_debit_floor = 0,
     pp_actor = PROT_ACTOR_PAYMENTS, pp_reference = default_prot_ref\<lparr>pr_order_id := Some ''o1''\<rparr>,
     pp_reason = None, pp_created_at = 5\<rparr>"

definition ex_sha :: "string \<Rightarrow> string" where "ex_sha s = s"
definition ex_ulid :: "nat \<Rightarrow> string" where "ex_ulid n = decimal n"

definition ex_ledger :: ledger_state where
  "ex_ledger = snd (apply_prot_posting ex_sha ex_ulid ex_posting empty_ledger)"

lemma ex_ledger_ops: "(ledger_op 0)\<^sup>*\<^sup>* empty_ledger ex_ledger"
proof -
  obtain r where "apply_prot_posting ex_sha ex_ulid ex_posting empty_ledger = (r, ex_ledger)"
    by (cases "apply_prot_posting ex_sha ex_ulid ex_posting empty_ledger") (simp add: ex_ledger_def)
  moreover have "0 \<le> pp_debit_floor ex_posting" by (simp add: ex_posting_def)
  ultimately show ?thesis by (auto intro: lo_apply)
qed

section \<open>Conservation\<close>

text \<open>C5: Prot is conserved: starting from an empty ledger, whatever postings, Cipher syncs,
  clawbacks and forfeits run in whatever order, every account holds exactly what the ledger
  rows credited to it less what they debited from it.\<close>

theorem ledger_conserves:
  assumes "(ledger_op lo)\<^sup>*\<^sup>* empty_ledger st" and "\<not> is_prot_system_account a"
  shows "balance_of (ls_accounts st) a =
    (\<Sum>e\<leftarrow>rows (ls_ledger st). if pl_credit e = a then pl_amount e else 0)
    - (\<Sum>e\<leftarrow>rows (ls_ledger st). if pl_debit e = a then pl_amount e else 0)"
proof -
  have "balance_of (ls_accounts st) a = account_flow (ls_ledger st) a"
    using ledger_ops_ok [OF assms(1) empty_ledger_ok] assms(2) by (simp add: ledger_ok_def)
  then show ?thesis
    by (simp add: account_flow_def entry_flow_def [abs_def] sum_list_subtractf)
qed

theorem ledger_conserves_witness:
  "balance_of (ls_accounts ex_ledger) (prot_user_account ''u'') = 2600
   \<and> (\<Sum>e\<leftarrow>rows (ls_ledger ex_ledger). if pl_credit e = prot_user_account ''u'' then pl_amount e else 0)
     - (\<Sum>e\<leftarrow>rows (ls_ledger ex_ledger). if pl_debit e = prot_user_account ''u'' then pl_amount e else 0) = 2600"
proof -
  have "\<not> is_prot_system_account (prot_user_account ''u'')" by code_simp
  note ledger_conserves [OF ex_ledger_ops this]
  moreover have "balance_of (ls_accounts ex_ledger) (prot_user_account ''u'') = 2600" by code_simp
  ultimately show ?thesis by simp
qed

text \<open>Nobody spends Prot they do not have: as long as every posting asks for a floor of 0
  or more, no account other than a system side ever goes below zero.\<close>

theorem wallets_never_negative:
  assumes "(ledger_op 0)\<^sup>*\<^sup>* empty_ledger st" and "\<not> is_prot_system_account a"
  shows "0 \<le> balance_of (ls_accounts st) a"
  using assms(1)
proof (induction rule: rtranclp_induct)
  case (step st st')
  then show ?case using ledger_op_balance [of 0 st st' a] assms(2) by simp
qed (simp add: empty_ledger_def balance_of_def)

theorem wallets_never_negative_witness:
  "0 \<le> balance_of (ls_accounts ex_ledger) (prot_user_account ''u'')"
  by (rule wallets_never_negative [OF ex_ledger_ops]) code_simp

section \<open>Idempotency\<close>

lemma ledger_ops_row:
  "(ledger_op lo)\<^sup>*\<^sup>* st st' \<Longrightarrow> map_of (ls_ledger st) k = Some e \<Longrightarrow> map_of (ls_ledger st') k = Some e"
  by (induction rule: rtranclp_induct) (auto intro: ledger_op_row)

lemma apply_stored:
  assumes "apply_prot_posting sha256 ulid p st = (Inr outcome, st')"
  shows "map_of (ls_ledger st') (pp_key p) = Some (outcome_entry outcome)
    \<and> pl_payload_hash (outcome_entry outcome) = prot_payload_hash sha256 p"
proof -
  have v: "validate_prot_posting p = Inr ()"
    using assms by (cases "validate_prot_posting p") (simp_all add: apply_prot_posting_def eff_simps)
  let ?h = "prot_payload_hash sha256 p"
  have run: "apply_prepared ?h (prepare_locked ulid st p ?h) st = (Inr outcome, st')"
    using assms v by (simp add: apply_prot_posting_def eff_simps)
  then obtain x where x: "prepare_locked ulid st p ?h = Inr x"
    by (auto simp: apply_prepared_def split: sum.splits)
  show ?thesis
  proof (cases x)
    case (Duplicate e)
    then have "map_of (ls_ledger st) (pp_key p) = Some e"
      using x by (auto simp: prepare_locked_def Let_def split: option.splits sum.splits if_splits)
    then show ?thesis using run x Duplicate
      by (auto simp: apply_prepared_def duplicate_outcome_def split: if_splits)
  next
    case (New prep)
    from prepare_new [OF x [unfolded New] v] obtain r where
      "prep_entry prep = build_prot_entry (ulid (ls_ulids st)) p r ?h" by (metis prepared_posting.select_convs(1))
    then show ?thesis using run x New
      by (auto simp: apply_prepared_def commit_locked_def Let_def map_of_update build_prot_entry_def)
  qed
qed

text \<open>C26: a posting is applied once per key: after a posting succeeded, a repeat of it (the
  same key and the same content, whatever its actor, reason or time) finds the stored row and
  changes nothing, and a different posting under the same key is refused and changes nothing,
  whatever ran in between and whatever the balances are now.\<close>

theorem posting_idempotent:
  assumes "apply_prot_posting sha256 ulid p st0 = (Inr outcome, st1)"
    and "(ledger_op lo)\<^sup>*\<^sup>* st1 st2"
    and "pp_key p' = pp_key p" and "validate_prot_posting p' = Inr ()"
  shows "apply_prot_posting sha256 ulid p' st2 =
    (if prot_payload_hash sha256 p' = prot_payload_hash sha256 p
     then Inr (AlreadyApplied (outcome_entry outcome)) else Inl ProtIdempotencyConflict, st2)"
proof -
  have "map_of (ls_ledger st2) (pp_key p') = Some (outcome_entry outcome)"
    using apply_stored [OF assms(1)] ledger_ops_row [OF assms(2)] assms(3) by auto
  then have "prepare_locked ulid st2 p' h = Inr (Duplicate (outcome_entry outcome))" for h
    by (simp add: prepare_locked_def)
  then show ?thesis
    using apply_stored [OF assms(1)] assms(4)
    by (auto simp: apply_prot_posting_def eff_simps apply_prepared_def duplicate_outcome_def)
qed

theorem posting_idempotent_witness:
  "apply_prot_posting ex_sha ex_ulid (ex_posting\<lparr>pp_amount := Exact 9\<rparr>) ex_ledger
   = (Inl ProtIdempotencyConflict, ex_ledger)"
proof -
  obtain e where run: "apply_prot_posting ex_sha ex_ulid ex_posting empty_ledger = (Inr (Applied e), ex_ledger)"
  proof -
    have "case fst (apply_prot_posting ex_sha ex_ulid ex_posting empty_ledger) of
        Inr (Applied e) \<Rightarrow> True | _ \<Rightarrow> False" by code_simp
    then show thesis
      using that by (auto simp: ex_ledger_def prod_eq_iff split: sum.splits prot_apply_outcome.splits)
  qed
  have "validate_prot_posting (ex_posting\<lparr>pp_amount := Exact 9\<rparr>) = Inr ()" by code_simp
  moreover have "prot_payload_hash ex_sha (ex_posting\<lparr>pp_amount := Exact 9\<rparr>)
      \<noteq> prot_payload_hash ex_sha ex_posting" by code_simp
  ultimately show ?thesis
    using posting_idempotent [OF run rtranclp.rtrancl_refl, of "ex_posting\<lparr>pp_amount := Exact 9\<rparr>"]
    by (simp add: ex_posting_def)
qed

section \<open>Settling a membership\<close>

text \<open>What a row counts towards the Prot posted for its membership.\<close>

definition contribution :: "prot_ledger_entry \<Rightarrow> int" where
  "contribution row =
     (if is_grant row then pl_amount row
      else if pl_kind row = KClawback
      then - (case pl_requested row of Some n \<Rightarrow> n | None \<Rightarrow> pl_amount row)
      else 0)"

lemma posted_sum:
  "\<bar>x\<bar> + sum_list (map (\<lambda>r. \<bar>contribution r\<bar>) rs) \<le> i64_max
   \<Longrightarrow> foldl posted_step x rs = x + sum_list (map contribution rs)"
proof (induction rs arbitrary: x)
  case (Cons r rs)
  have nn: "0 \<le> sum_list (map (\<lambda>r. \<bar>contribution r\<bar>) rs)" by (intro sum_list_nonneg) auto
  then have i: "is_i64 (x + contribution r)" and x: "is_i64 x"
    using Cons.prems by (auto simp: i64_defs)
  have "posted_step x r = x + contribution r"
    using i x by (auto simp: posted_step_def contribution_def saturating_add_def saturating_sub_def)
  moreover have "\<bar>x + contribution r\<bar> + sum_list (map (\<lambda>r. \<bar>contribution r\<bar>) rs) \<le> i64_max"
    using Cons.prems by simp
  ultimately show ?case using Cons.IH by simp
qed simp

text \<open>The Prot that ever moved for a membership is far from the ends of \<open>i64\<close>.\<close>

definition small_history :: "(string, prot_ledger_entry) table \<Rightarrow> string \<Rightarrow> bool" where
  "small_history ledger base \<longleftrightarrow>
     sum_list (map (\<lambda>r. \<bar>contribution r\<bar>)
       (filter (\<lambda>row. pr_membership_order_id (pl_reference row) = Some base) (rows ledger))) \<le> 2 ^ 61"

lemma sum_list_sort: "sum_list (map (f :: 'a \<Rightarrow> int) (sort_key k xs)) = sum_list (map f xs)"
proof -
  have "sum_mset (image_mset f (mset (sort_key k xs))) = sum_mset (image_mset f (mset xs))"
    by (simp only: mset_sort)
  then show ?thesis by (simp only: sum_mset_sum_list flip: mset_map)
qed

lemma posted_rows:
  assumes "sum_list (map (\<lambda>r. \<bar>contribution r\<bar>)
       (filter (\<lambda>row. pr_membership_order_id (pl_reference row) = Some base) (rows ledger))) \<le> i64_max"
  shows "cipher_prot_posted (membership_rows ledger base) =
    sum_list (map contribution
      (filter (\<lambda>row. pr_membership_order_id (pl_reference row) = Some base) (rows ledger)))"
  unfolding cipher_prot_posted_def membership_rows_def
  using assms posted_sum [of 0 "sort_key pl_id (filter (\<lambda>row. pr_membership_order_id (pl_reference row) = Some base) (rows ledger))"]
  by (simp add: sum_list_sort)

lemma abs_sum_list: "\<bar>sum_list (map f xs)\<bar> \<le> sum_list (map (\<lambda>x. \<bar>f x :: int\<bar>) xs)"
  by (induction xs) auto

lemma posted_small:
  "small_history ledger base \<Longrightarrow> \<bar>cipher_prot_posted (membership_rows ledger base)\<bar> \<le> 2 ^ 61"
  using posted_rows [of base ledger] abs_sum_list [of contribution
      "filter (\<lambda>row. pr_membership_order_id (pl_reference row) = Some base) (rows ledger)"]
  by (simp add: small_history_def i64_max_def)

text \<open>A new row of the membership adds its contribution.\<close>

lemma posted_append:
  assumes "small_history ledger base" "map_of ledger (pl_key e) = None"
    "pr_membership_order_id (pl_reference e) = Some base" "\<bar>contribution e\<bar> \<le> 2 ^ 62"
  shows "cipher_prot_posted (membership_rows (AList.update (pl_key e) e ledger) base) =
    cipher_prot_posted (membership_rows ledger base) + contribution e"
  using assms posted_rows [of base ledger] posted_rows [of base "AList.update (pl_key e) e ledger"]
  by (simp add: rows_update_new small_history_def i64_max_def)

lemma bump_and_commit_success:
  assumes "bump_and_commit u v prep st = (Inr outcome, st')"
  shows "outcome = Applied (prep_entry prep)
    \<and> ls_ledger st' = AList.update (pl_key (prep_entry prep)) (prep_entry prep) (ls_ledger st)"
  using assms
  by (auto simp: bump_and_commit_def commit_locked_def Let_def split: prod.splits bool.splits)

lemma plan_never_posted: "plan_cipher_sync u m base rs now \<noteq> PlanDone (SyncPosted x)"
  by (simp add: plan_cipher_sync_def Let_def)

lemma target_bounds:
  "0 \<le> cm_prot_grant m \<Longrightarrow> cm_prot_grant m < 2 ^ 32 \<Longrightarrow>
   0 \<le> cipher_prot_target m \<and> cipher_prot_target m < 2 ^ 32"
  by (simp add: cipher_prot_target_def)

text \<open>C37: A Cipher sync settles the membership: when it posts, the rows of the membership's
  incarnation add up to exactly the grant of the active, undisputed membership.\<close>

theorem sync_reaches_target:
  assumes "sync_cipher_prot sha256 ulid u now st = (Inr (SyncPosted (Applied e)), st')"
    and "map_of (ls_memberships st) u = Some m" and "cipher_base m = Some base"
    and "small_history (ls_ledger st) base"
    and "0 \<le> cm_prot_grant m" and "cm_prot_grant m < 2 ^ 32"
  shows "is_active m \<and> cm_disputed_orders m = []
    \<and> cipher_prot_posted (membership_rows (ls_ledger st') base) = cm_prot_grant m"
proof -
  let ?rs = "membership_rows (ls_ledger st) base"
  obtain p where plan: "plan_cipher_sync u m base ?rs now = PlanPost p"
      and v: "validate_prot_posting p = Inr ()"
    using assms(1-3) plan_never_posted by (auto simp: sync_cipher_prot_def Let_def
        split: cipher_sync_plan.splits sum.splits)
  let ?h = "prot_payload_hash sha256 p"
  obtain prep where prep: "prepare_locked ulid st p ?h = Inr (New prep)"
      and run: "bump_and_commit u (cm_version m) prep st = (Inr (Applied e), st')"
    using assms(1-3) plan v by (auto simp: sync_cipher_prot_def Let_def
        split: sum.splits prepared.splits if_splits prod.splits)
  from prep v obtain r where fresh: "map_of (ls_ledger st) (pp_key p) = None"
      and r: "resolve_prot_amount p (balance_of (ls_accounts st) (pp_debit p)) = Inr r"
      and pe: "prep_entry prep = build_prot_entry (ulid (ls_ulids st)) p r ?h"
    by (rule prepare_new) (metis prepared_posting.select_convs(1))
  have e: "e = prep_entry prep" and led: "ls_ledger st' = AList.update (pl_key e) e (ls_ledger st)"
    using bump_and_commit_success [OF run] by auto
  have act: "is_active m" "cm_disputed_orders m = []" "cipher_prot_posted ?rs < cipher_prot_target m"
      and p: "pp_amount p = Exact (wrap_i64 (cipher_prot_target m - cipher_prot_posted ?rs))"
        "pp_kind p = KCipherFounding \<or> pp_kind p = KCipherUpgrade"
        "pr_membership_order_id (pp_reference p) = Some base"
    using plan by (auto simp: plan_cipher_sync_def Let_def cipher_ref_def split: if_splits)
  have small: "\<bar>cipher_prot_posted ?rs\<bar> \<le> 2 ^ 61" using posted_small [OF assms(4)] .
  then have "is_i64 (cipher_prot_target m - cipher_prot_posted ?rs)"
    using target_bounds [OF assms(5,6)] by (auto simp: i64_defs)
  then have amount: "rs_amount r = cipher_prot_target m - cipher_prot_posted ?rs"
    using resolve_facts(3) [OF r v] p(1) by simp
  have "contribution e = cipher_prot_target m - cipher_prot_posted ?rs"
    using p(2) by (auto simp: e pe contribution_def is_grant_def build_prot_entry_def amount)
  then show ?thesis
    using posted_append [OF assms(4), of e] fresh p(3) small target_bounds [OF assms(5,6)] act
    by (simp add: led e pe build_prot_entry_def cipher_prot_target_def abs_le_iff)
qed


definition ex_member :: cipher_membership where
  "ex_member = ex_membership\<lparr>cm_prot_grant := 165\<rparr>"

definition ex_member_ledger :: ledger_state where
  "ex_member_ledger = empty_ledger\<lparr>ls_memberships := [(''u'', ex_member)]\<rparr>"

definition ex_synced :: ledger_state where
  "ex_synced = snd (sync_cipher_prot ex_sha ex_ulid ''u'' 5 ex_member_ledger)"

text \<open>Reading a successful outcome off an evaluated run.\<close>

lemma sync_run_applied:
  "(case fst x of Inr (SyncPosted (Applied e)) \<Rightarrow> True | _ \<Rightarrow> False) \<Longrightarrow>
   \<exists>e. x = (Inr (SyncPosted (Applied e)), snd x)"
  by (cases x) (simp split: sum.splits cipher_prot_sync.splits prot_apply_outcome.splits)

lemma clawback_run_applied:
  "(case fst x of Inr (Some (Applied e)) \<Rightarrow> True | _ \<Rightarrow> False) \<Longrightarrow>
   \<exists>e. x = (Inr (Some (Applied e)), snd x)"
  by (cases x) (simp split: sum.splits option.splits prot_apply_outcome.splits)

lemma ex_synced_run:
  "\<exists>e. sync_cipher_prot ex_sha ex_ulid ''u'' 5 ex_member_ledger
     = (Inr (SyncPosted (Applied e)), ex_synced)"
  unfolding ex_synced_def by (rule sync_run_applied) code_simp

theorem sync_reaches_target_witness:
  "is_active ex_member \<and> cm_disputed_orders ex_member = []
   \<and> cipher_prot_posted (membership_rows (ls_ledger ex_synced) ''o1'') = cm_prot_grant ex_member"
proof -
  obtain e where run: "sync_cipher_prot ex_sha ex_ulid ''u'' 5 ex_member_ledger
      = (Inr (SyncPosted (Applied e)), ex_synced)"
    using ex_synced_run by blast
  show ?thesis
    by (rule sync_reaches_target [OF run])
      (simp_all add: ex_member_ledger_def ex_member_def ex_membership_def cipher_base_def small_history_def
        rows_def empty_ledger_def)
qed

text \<open>C30: A clawback settles a reversed order: the row it writes asks for exactly what was
  posted above the membership's target, moves all of it or all the wallet holds, records the
  rest as a shortfall, and leaves the membership's posted Prot at its target.\<close>

theorem clawback_settles:
  assumes "clawback_cipher_prot sha256 ulid u i now st = (Inr (Some (Applied e)), st')"
    and "map_of (ls_memberships st) u = Some m" and "cipher_base m = Some base"
    and "small_history (ls_ledger st) base"
    and "0 \<le> cm_prot_grant m" and "cm_prot_grant m < 2 ^ 32"
    and "0 \<le> balance_of (ls_accounts st) (prot_user_account u)"
    and "balance_of (ls_accounts st) (prot_user_account u) \<le> i64_max"
    and "excess = cipher_prot_posted (membership_rows (ls_ledger st) base) - cipher_prot_target m"
  shows "0 < excess
    \<and> pl_amount e = min excess (balance_of (ls_accounts st) (prot_user_account u))
    \<and> pl_requested e = Some excess \<and> pl_shortfall e = Some (excess - pl_amount e)
    \<and> cipher_prot_posted (membership_rows (ls_ledger st') base) = cipher_prot_target m"
proof -
  let ?rs = "membership_rows (ls_ledger st) base"
  let ?b = "balance_of (ls_accounts st) (prot_user_account u)"
  obtain p prep where plan: "plan_cipher_clawback u i m base ?rs now = Some p"
      and v: "validate_prot_posting p = Inr ()"
      and prep: "prepare_locked ulid st p (prot_payload_hash sha256 p) = Inr (New prep)"
      and run: "bump_and_commit u (cm_version m) prep st = (Inr (Applied e), st')"
    using assms(1-3) by (auto simp: clawback_cipher_prot_def Let_def
        split: sum.splits option.splits prepared.splits if_splits prod.splits)
  from prep v obtain r where fresh: "map_of (ls_ledger st) (pp_key p) = None"
      and r: "resolve_prot_amount p (balance_of (ls_accounts st) (pp_debit p)) = Inr r"
      and pe: "prep_entry prep = build_prot_entry (ulid (ls_ulids st)) p r (prot_payload_hash sha256 p)"
    by (rule prepare_new) (metis prepared_posting.select_convs(1))
  have e: "e = prep_entry prep" and led: "ls_ledger st' = AList.update (pl_key e) e (ls_ledger st)"
    using bump_and_commit_success [OF run] by auto
  have pos: "0 < excess"
      and p: "pp_amount p = UpTo (wrap_i64 excess)" "pp_kind p = KClawback" "pp_debit_floor p = 0"
        "pp_debit p = prot_user_account u" "pr_membership_order_id (pp_reference p) = Some base"
    using plan assms(9) by (auto simp: plan_cipher_clawback_def Let_def cipher_ref_def split: if_splits)
  have small: "\<bar>cipher_prot_posted ?rs\<bar> \<le> 2 ^ 61" using posted_small [OF assms(4)] .
  then have le: "excess \<le> 2 ^ 61 + 2 ^ 32" using target_bounds [OF assms(5,6)] assms(9) by auto
  then have ex: "is_i64 excess" using pos by (auto simp: i64_defs)
  have b: "max (saturating_sub ?b 0) 0 = ?b"
    using assms(7,8) by (simp add: saturating_sub_exact i64_defs)
  have rs: "rs_amount r = min excess ?b" "rs_requested r = Some excess" "rs_shortfall r = Some (excess - rs_amount r)"
    using resolve_facts(3) [OF r v] p ex b by auto
  have "contribution e = - excess"
    using p(2) rs(2) by (simp add: e pe contribution_def is_grant_def build_prot_entry_def)
  then show ?thesis
    using posted_append [OF assms(4), of e] fresh p(5) rs pos le assms(9)
    by (simp add: led e pe build_prot_entry_def)
qed

definition ex_revoked_ledger :: ledger_state where
  "ex_revoked_ledger =
     ex_synced\<lparr>ls_memberships := [(''u'', ex_member\<lparr>cm_revoked_at := Some 6\<rparr>)]\<rparr>"

lemma ex_revoked_small: "small_history (ls_ledger ex_revoked_ledger) ''o1''"
  by code_simp

theorem clawback_settles_witness:
  "cipher_prot_posted (membership_rows
     (ls_ledger (snd (clawback_cipher_prot ex_sha ex_ulid ''u'' ''o1'' 7 ex_revoked_ledger))) ''o1'') = 0"
proof -
  let ?run = "clawback_cipher_prot ex_sha ex_ulid ''u'' ''o1'' 7 ex_revoked_ledger"
  let ?m = "ex_member\<lparr>cm_revoked_at := Some 6\<rparr>"
  have "\<exists>e. ?run = (Inr (Some (Applied e)), snd ?run)" by (rule clawback_run_applied) code_simp
  then obtain e where run: "?run = (Inr (Some (Applied e)), snd ?run)" ..
  have m: "map_of (ls_memberships ex_revoked_ledger) ''u'' = Some ?m"
    by (simp add: ex_revoked_ledger_def)
  have bal: "0 \<le> balance_of (ls_accounts ex_revoked_ledger) (prot_user_account ''u'')"
    "balance_of (ls_accounts ex_revoked_ledger) (prot_user_account ''u'') \<le> i64_max"
    by code_simp+
  have "cipher_prot_target ?m = 0" by code_simp
  with clawback_settles [OF run m _ ex_revoked_small _ _ bal refl] show ?thesis
    by (simp add: cipher_base_def ex_member_def ex_membership_def)
qed

section \<open>Forfeiting a wallet\<close>

definition forfeit_passes :: "string \<Rightarrow> ledger_state \<Rightarrow> nat" where
  "forfeit_passes u st = length (filter (\<lambda>row. pl_kind row = KForfeit \<and> pl_debit row = prot_user_account u)
     (rows (ls_ledger st)))"

lemma user_account_not_system: "\<not> is_prot_system_account (prot_user_account u)"
  by (simp add: is_prot_system_account_def prot_user_account_def starts_with_def)

lemma forfeited_system: "is_prot_system_account PROT_SYS_FORFEITED"
  by code_simp

lemma forfeit_pass_applies:
  assumes n: "n = forfeit_passes u st + 1"
    and v: "validate_prot_posting (forfeit_posting u n now) = Inr ()"
    and fresh: "map_of (ls_ledger st) (prot_key_forfeit u n) = None"
    and b: "0 \<le> balance_of (ls_accounts st) (prot_user_account u)"
      "balance_of (ls_accounts st) (prot_user_account u) \<le> i64_max"
  shows "\<exists>e st'. prot_forfeit_pass sha256 ulid u now st = (Inr (Applied e), st')
    \<and> pl_amount e = balance_of (ls_accounts st) (prot_user_account u)
    \<and> balance_of (ls_accounts st') (prot_user_account u) = 0"
proof -
  let ?p = "forfeit_posting u n now"
  let ?b = "balance_of (ls_accounts st) (prot_user_account u)"
  let ?r = "\<lparr>rs_amount = ?b, rs_requested = None, rs_shortfall = None, rs_available = ?b, rs_required = ?b\<rparr>"
  have pp: "pp_debit ?p = prot_user_account u" "pp_credit ?p = PROT_SYS_FORFEITED" "pp_amount ?p = All"
      "pp_debit_floor ?p = 0" "pp_key ?p = prot_key_forfeit u n"
    by (simp_all add: forfeit_posting_def)
  have i: "is_i64 ?b" using b by (simp add: i64_defs)
  have r: "resolve_prot_amount ?p ?b = Inr ?r"
    using b i by (simp add: resolve_prot_amount_def pp user_account_not_system saturating_sub_def
        checked_i64_def Let_def)
  have z: "is_i64 0" by (simp add: i64_defs)
  let ?prep = "\<lparr>prep_entry = build_prot_entry (ulid (ls_ulids st)) ?p ?r (prot_payload_hash sha256 ?p),
     prep_debit_balance = Some 0, prep_credit_balance = None\<rparr>"
  have "prepare_locked ulid st ?p (prot_payload_hash sha256 ?p) = Inr (New ?prep)"
    using fresh by (simp add: prepare_locked_def pp r z Let_def user_account_not_system forfeited_system)
  then have "prot_forfeit_pass sha256 ulid u now st
      = (Inr (Applied (fst (commit_locked ?prep st))), snd (commit_locked ?prep st))"
    using v unfolding prot_forfeit_pass_def forfeit_passes_def [symmetric] Let_def n [symmetric]
    by (simp add: apply_prepared_def split: prod.split)
  then show ?thesis
    by (simp add: commit_locked_def Let_def balance_of_set build_prot_entry_def pp)
qed

text \<open>Deleting an account forfeits its whole wallet: the forfeit answers, and afterwards the
  wallet holds nothing, whatever postings built it up.\<close>

theorem forfeit_empties_wallet:
  assumes "(ledger_op 0)\<^sup>*\<^sup>* empty_ledger st"
    and "balance_of (ls_accounts st) (prot_user_account u) \<le> i64_max"
    and "validate_prot_posting (forfeit_posting u (forfeit_passes u st + 1) now) = Inr ()"
    and "map_of (ls_ledger st) (prot_key_forfeit u (forfeit_passes u st + 1)) = None"
  shows "\<exists>outcome st'. forfeit_prot_wallet sha256 ulid u now st = (Inr outcome, st')
    \<and> balance_of (ls_accounts st') (prot_user_account u) = 0"
proof -
  let ?b = "balance_of (ls_accounts st) (prot_user_account u)"
  have nn: "0 \<le> ?b"
    using assms(1)
  proof (induction rule: rtranclp_induct)
    case (step st st')
    then show ?case using ledger_op_balance [of 0 st st' "prot_user_account u"] user_account_not_system by auto
  qed (simp add: empty_ledger_def balance_of_def)
  have bal: "wallet_balance u st = (Inr ?b, st)"
    by (simp add: wallet_balance_def fetch_prot_account_def eff_simps balance_of_def)
  obtain e st' where "prot_forfeit_pass sha256 ulid u now st = (Inr (Applied e), st')"
      "balance_of (ls_accounts st') (prot_user_account u) = 0"
    using forfeit_pass_applies [OF refl assms(3,4) nn assms(2)] by blast
  then show ?thesis
    using nn by (cases "?b = 0")
      (simp_all add: forfeit_prot_wallet_def run_forfeit_passes_def eff_simps bal PROT_STATE_RETRIES_def
        numeral_eq_Suc)
qed

theorem forfeit_empties_wallet_witness:
  "\<exists>outcome st'. forfeit_prot_wallet ex_sha ex_ulid ''u'' 9 ex_ledger = (Inr outcome, st')
    \<and> balance_of (ls_accounts st') (prot_user_account ''u'') = 0"
proof (rule forfeit_empties_wallet [OF ex_ledger_ops])
  show "balance_of (ls_accounts ex_ledger) (prot_user_account ''u'') \<le> i64_max" by code_simp
  have n: "forfeit_passes ''u'' ex_ledger = 0" by code_simp
  show "validate_prot_posting (forfeit_posting ''u'' (forfeit_passes ''u'' ex_ledger + 1) 9) = Inr ()"
    unfolding n by code_simp
  show "map_of (ls_ledger ex_ledger) (prot_key_forfeit ''u'' (forfeit_passes ''u'' ex_ledger + 1)) = None"
    unfolding n by code_simp
qed

end
