(* ===== verification/Payment_Events.thy ===== *)
theory Payment_Events
  imports Sloga_Prelude
begin

text \<open>
  The record of provider events (\<open>crates/core/database/src/models/payment_events\<close>): a
  webhook delivery is stored once by its id, and its handling state and attempt count are
  moved with every outcome.
\<close>

datatype payment_event_state = EventReceived | EventProcessed | EventIgnored | EventFailed

record payment_event =
  pe_id :: string
  pe_event_type :: string
  pe_livemode :: bool
  pe_received_at :: int
  pe_state :: payment_event_state
  pe_attempts :: nat
  pe_last_error :: "string option"

type_synonym events = "(string, payment_event) table"

definition u32_max :: nat where
  "u32_max = 4294967295"

definition insert_payment_event_if_absent :: "payment_event \<Rightarrow> (events, bool) eff" where
  "insert_payment_event_if_absent e = (\<lambda>t.
     if map_of t (pe_id e) \<noteq> None then (Inr False, t)
     else (Inr True, AList.update (pe_id e) e t))"

definition fetch_payment_event :: "string \<Rightarrow> (events, payment_event option) eff" where
  "fetch_payment_event i = (\<lambda>t. (Inr (map_of t i), t))"

text \<open>\<open>attempts\<close> is a \<open>u32\<close> that saturates.\<close>

definition set_payment_event_state ::
    "string \<Rightarrow> payment_event_state \<Rightarrow> string option \<Rightarrow> (events, unit) eff" where
  "set_payment_event_state i st last_error = (\<lambda>t.
     case map_of t i of
       Some row \<Rightarrow>
         (Inr (), AList.update i (row\<lparr>pe_state := st, pe_attempts := min (pe_attempts row + 1) u32_max,
            pe_last_error := last_error\<rparr>) t)
     | None \<Rightarrow> (Inl NotFound, t))"

definition oldest_first :: "payment_event list \<Rightarrow> int \<Rightarrow> payment_event list" where
  "oldest_first evs limit = mongo_limit limit (sort_key (\<lambda>e. (pe_received_at e, pe_id e)) evs)"

definition fetch_failed_payment_events :: "nat \<Rightarrow> int \<Rightarrow> (events, payment_event list) eff" where
  "fetch_failed_payment_events max_attempts limit = (\<lambda>t.
     (Inr (oldest_first
        (filter (\<lambda>row. pe_state row = EventFailed \<and> pe_attempts row < max_attempts) (rows t)) limit), t))"

definition fetch_payment_events_by_state ::
    "payment_event_state \<Rightarrow> int \<Rightarrow> int \<Rightarrow> (events, payment_event list) eff" where
  "fetch_payment_events_by_state st before limit = (\<lambda>t.
     (Inr (oldest_first
        (filter (\<lambda>row. pe_state row = st \<and> pe_received_at row < before) (rows t)) limit), t))"

inductive event_op :: "events \<Rightarrow> events \<Rightarrow> bool" where
  eo_insert: "insert_payment_event_if_absent e t = (r, t') \<Longrightarrow> event_op t t'"
| eo_set: "set_payment_event_state i st err t = (r, t') \<Longrightarrow> event_op t t'"

lemma event_op_row:
  "event_op t t' \<Longrightarrow> map_of t i = Some row \<Longrightarrow>
   \<exists>row'. map_of t' i = Some row'
     \<and> pe_event_type row' = pe_event_type row \<and> pe_livemode row' = pe_livemode row
     \<and> pe_received_at row' = pe_received_at row"
proof (induction rule: event_op.induct)
  case (eo_insert e t r t')
  then show ?case
    by (auto simp: insert_payment_event_if_absent_def map_of_update split: if_splits)
next
  case (eo_set j st err t r t')
  then show ?case
    by (cases "j = i") (auto simp: set_payment_event_state_def map_of_update split: option.splits)
qed

lemma events_persist:
  "event_op\<^sup>*\<^sup>* t t' \<Longrightarrow> map_of t i = Some row \<Longrightarrow> \<exists>row'. map_of t' i = Some row'"
proof (induction arbitrary: row rule: rtranclp_induct)
  case (step y z)
  then show ?case by (meson event_op_row)
qed simp

definition ex_event :: payment_event where
  "ex_event = \<lparr>pe_id = ''evt_1'', pe_event_type = ''checkout.session.completed'', pe_livemode = True,
     pe_received_at = 1, pe_state = EventReceived, pe_attempts = 0, pe_last_error = None\<rparr>"

text \<open>A provider event is recorded once: after any delivery of an event id was stored, every
  later delivery of that id is told it is a duplicate and changes nothing, however the event
  was handled in between.\<close>

theorem event_recorded_once:
  assumes "insert_payment_event_if_absent e1 t0 = (Inr b, t1)" and "event_op\<^sup>*\<^sup>* t1 t2"
    and "pe_id e2 = pe_id e1"
  shows "insert_payment_event_if_absent e2 t2 = (Inr False, t2)"
proof -
  obtain row where "map_of t1 (pe_id e1) = Some row"
    using assms(1) by (auto simp: insert_payment_event_if_absent_def map_of_update split: if_splits)
  from events_persist [OF assms(2) this] show ?thesis
    using assms(3) by (auto simp: insert_payment_event_if_absent_def)
qed

theorem event_recorded_once_witness:
  "insert_payment_event_if_absent (ex_event\<lparr>pe_received_at := 9\<rparr>) [(''evt_1'', ex_event)]
   = (Inr False, [(''evt_1'', ex_event)])"
  by (rule event_recorded_once [of ex_event "[]" True, OF _ rtranclp.rtrancl_refl])
    (simp_all add: insert_payment_event_if_absent_def ex_event_def)

end
