(* ===== verification/Cipher_Numbers.thy ===== *)
theory Cipher_Numbers
  imports Sloga_Prelude
begin

text \<open>
  The table of sellable Cipher numbers (\<open>crates/core/database/src/models/cipher_numbers\<close>):
  the row and the reference implementation. A number is claimed by the order that holds it
  and goes back to the pool only by a release.
\<close>

section \<open>Rows and operations\<close>

record cipher_number =
  cn_number :: nat
  cn_order_id :: "string option"
  cn_release_pending_at :: "int option"

type_synonym numbers = "(nat, cipher_number) table"

definition number_of_order :: "string \<Rightarrow> numbers \<Rightarrow> cipher_number option" where
  "number_of_order i t = List.find (\<lambda>row. cn_order_id row = Some i) (rows t)"

text \<open>\<open>Iterator::min\<close>.\<close>

definition min_of :: "nat list \<Rightarrow> nat option" where
  "min_of ns = (case ns of [] \<Rightarrow> None | n # ns' \<Rightarrow> Some (foldl min n ns'))"

definition free_numbers :: "nat \<Rightarrow> numbers \<Rightarrow> nat list" where
  "free_numbers cap t =
     map cn_number (filter (\<lambda>row. cn_number row \<le> cap \<and> cn_order_id row = None) (rows t))"

definition claim_cipher_number :: "string \<Rightarrow> nat \<Rightarrow> (numbers, nat option) eff" where
  "claim_cipher_number i cap = (\<lambda>t.
     if cap = 0 then (Inl (DatabaseError ''claim (cipher_cap is 0)'' ''cipher_numbers''), t)
     else (case number_of_order i t of
       Some row \<Rightarrow> (Inr (Some (cn_number row)), t)
     | None \<Rightarrow>
         (case min_of (free_numbers cap t) of
            None \<Rightarrow> (Inr None, t)
          | Some number \<Rightarrow>
              (case map_of t number of
                 None \<Rightarrow> (Inl (Panic ''claimed number was just read from this map''), t)
               | Some row \<Rightarrow>
                   (Inr (Some number), AList.update number (row\<lparr>cn_order_id := Some i\<rparr>) t)))))"

definition fetch_cipher_number_by_order :: "string \<Rightarrow> (numbers, nat option) eff" where
  "fetch_cipher_number_by_order i = (\<lambda>t. (Inr (map_option cn_number (number_of_order i t)), t))"

definition fetch_cipher_number_row_by_order :: "string \<Rightarrow> (numbers, cipher_number option) eff" where
  "fetch_cipher_number_row_by_order i = (\<lambda>t. (Inr (number_of_order i t), t))"

definition mark_cipher_number_release :: "string \<Rightarrow> int \<Rightarrow> (numbers, bool) eff" where
  "mark_cipher_number_release i at = (\<lambda>t.
     case number_of_order i t of
       Some row \<Rightarrow>
         (Inr True, AList.update (cn_number row)
            (row\<lparr>cn_release_pending_at :=
               (case cn_release_pending_at row of Some a \<Rightarrow> Some a | None \<Rightarrow> Some at)\<rparr>) t)
     | None \<Rightarrow> (Inr False, t))"

definition cancel_cipher_number_release :: "string \<Rightarrow> (numbers, bool) eff" where
  "cancel_cipher_number_release i = (\<lambda>t.
     case number_of_order i t of
       Some row \<Rightarrow>
         (Inr (cn_release_pending_at row \<noteq> None),
          AList.update (cn_number row) (row\<lparr>cn_release_pending_at := None\<rparr>) t)
     | None \<Rightarrow> (Inr False, t))"

definition release_cipher_number :: "string \<Rightarrow> (numbers, bool) eff" where
  "release_cipher_number i = (\<lambda>t.
     case number_of_order i t of
       Some row \<Rightarrow>
         (Inr True, AList.update (cn_number row)
            (row\<lparr>cn_order_id := None, cn_release_pending_at := None\<rparr>) t)
     | None \<Rightarrow> (Inr False, t))"

definition fetch_cipher_numbers_release_pending :: "int \<Rightarrow> (numbers, cipher_number list) eff" where
  "fetch_cipher_numbers_release_pending limit = (\<lambda>t.
     (Inr (take (nat (max limit 0))
        (sort_key (\<lambda>row. (cn_release_pending_at row, cn_number row))
          (filter (\<lambda>row. cn_order_id row \<noteq> None \<and> cn_release_pending_at row \<noteq> None) (rows t)))), t))"

definition count_to_u32 :: "nat \<Rightarrow> error + nat" where
  "count_to_u32 n = (if n < 2 ^ 32 then Inr n else Inl (DatabaseError ''count'' ''cipher_numbers''))"

definition count_claimed_cipher_numbers :: "(numbers, nat) eff" where
  "count_claimed_cipher_numbers = (\<lambda>t.
     (count_to_u32 (length (filter (\<lambda>row. cn_order_id row \<noteq> None) (rows t))), t))"

definition count_cipher_numbers :: "(numbers, nat) eff" where
  "count_cipher_numbers = (\<lambda>t. (count_to_u32 (length t), t))"

definition seed_cipher_numbers :: "nat \<Rightarrow> (numbers, unit) eff" where
  "seed_cipher_numbers cap = (\<lambda>t.
     (Inr (), foldl (\<lambda>t n. if map_of t n = None
        then AList.update n \<lparr>cn_number = n, cn_order_id = None, cn_release_pending_at = None\<rparr> t
        else t) t [1..<Suc cap]))"

section \<open>Well-formedness\<close>

text \<open>Rows are stored under their number and no order holds two of them.\<close>

definition numbers_ok :: "numbers \<Rightarrow> bool" where
  "numbers_ok t \<longleftrightarrow> keyed cn_number t
     \<and> (\<forall>n m a b. map_of t n = Some a \<longrightarrow> map_of t m = Some b \<longrightarrow> n \<noteq> m \<longrightarrow>
          cn_order_id a = None \<or> cn_order_id a \<noteq> cn_order_id b)"

lemma numbers_ok_Nil: "numbers_ok []"
  by (simp add: numbers_ok_def)

text \<open>The order that holds a number.\<close>

definition holder :: "numbers \<Rightarrow> nat \<Rightarrow> string option" where
  "holder t n = Option.bind (map_of t n) cn_order_id"

lemma min_of_None [simp]: "min_of ns = None \<longleftrightarrow> ns = []"
  by (simp add: min_of_def split: list.split)

lemma min_of_Nil [simp]: "min_of [] = None"
  by (simp add: min_of_def)

lemma min_of_Some: "min_of ns = Some n \<Longrightarrow> n \<in> set ns \<and> (\<forall>m \<in> set ns. n \<le> m)"
proof -
  assume "min_of ns = Some n"
  then obtain k ks where "ns = k # ks" "n = fold min ks k"
    by (auto simp: min_of_def foldl_conv_fold min.commute split: list.splits)
  then have "n = Min (set ns)" "ns \<noteq> []" by (simp_all add: Min.set_eq_fold del: set_simps)
  then show ?thesis by simp
qed

lemma number_of_order_Some:
  "numbers_ok t \<Longrightarrow> number_of_order i t = Some row \<longleftrightarrow>
     map_of t (cn_number row) = Some row \<and> cn_order_id row = Some i"
proof -
  assume ok: "numbers_ok t"
  then have k: "keyed cn_number t" by (simp add: numbers_ok_def)
  show ?thesis
  proof
    assume "number_of_order i t = Some row"
    then show "map_of t (cn_number row) = Some row \<and> cn_order_id row = Some i"
      using k by (auto simp: number_of_order_def dest: keyed_find_key find_Some_P)
  next
    assume row: "map_of t (cn_number row) = Some row \<and> cn_order_id row = Some i"
    then have "row \<in> set (rows t)" using k by (simp add: keyed_rows_iff)
    then obtain row' where row': "number_of_order i t = Some row'"
      using row unfolding number_of_order_def by (cases "List.find (\<lambda>r. cn_order_id r = Some i) (rows t)")
        (auto simp: find_None_ex)
    then have "map_of t (cn_number row') = Some row'" "cn_order_id row' = Some i"
      using k by (auto simp: number_of_order_def dest: keyed_find_key find_Some_P)
    with ok row have "cn_number row' = cn_number row"
      unfolding numbers_ok_def by (metis option.distinct(1))
    then show "number_of_order i t = Some row"
      using row row' \<open>map_of t (cn_number row') = Some row'\<close> by simp
  qed
qed

lemma number_of_order_None:
  "numbers_ok t \<Longrightarrow> number_of_order i t = None \<longleftrightarrow> (\<forall>n. holder t n \<noteq> Some i)"
proof -
  assume ok: "numbers_ok t"
  then have key: "map_of t n = Some row \<Longrightarrow> cn_number row = n" for n row
    by (auto simp: numbers_ok_def dest: keyed_lookup_key)
  have "number_of_order i t \<noteq> None \<longleftrightarrow> (\<exists>row. map_of t (cn_number row) = Some row \<and> cn_order_id row = Some i)"
    using number_of_order_Some [OF ok] by (metis not_None_eq)
  also have "\<dots> \<longleftrightarrow> (\<exists>n. holder t n = Some i)"
    using key by (auto simp: holder_def bind_eq_Some_conv)
  finally show ?thesis by auto
qed

lemma numbers_ok_put:
  assumes "numbers_ok t" "map_of t n = Some row" "cn_number row' = n"
    and "cn_order_id row' = None \<or> (\<forall>m. m \<noteq> n \<longrightarrow> holder t m \<noteq> cn_order_id row')"
  shows "numbers_ok (AList.update n row' t)"
proof -
  have "keyed cn_number (AList.update n row' t)" using assms(1,3) by (auto simp: numbers_ok_def)
  moreover have "cn_order_id a = None \<or> cn_order_id a \<noteq> cn_order_id b"
    if "map_of (AList.update n row' t) p = Some a" "map_of (AList.update n row' t) q = Some b" "p \<noteq> q"
    for p q a b
    using assms(1,4) that
    by (cases "p = n"; cases "q = n") (auto simp: numbers_ok_def map_of_update holder_def)
  ultimately show ?thesis by (simp add: numbers_ok_def)
qed

text \<open>A row that is found and rewritten with the same order keeps every holder.\<close>

lemma rewrite_row:
  assumes "numbers_ok t" "number_of_order i t = Some row" "cn_number row' = cn_number row"
    "cn_order_id row' = Some i \<or> cn_order_id row' = None"
  shows "numbers_ok (AList.update (cn_number row) row' t)"
    and "holder (AList.update (cn_number row) row' t) n =
      (if n = cn_number row then cn_order_id row' else holder t n)"
proof -
  have row: "map_of t (cn_number row) = Some row" "cn_order_id row = Some i"
    using assms(1,2) number_of_order_Some by auto
  have "holder t m \<noteq> Some i" if "m \<noteq> cn_number row" for m
    using assms(1) row that unfolding numbers_ok_def holder_def bind_eq_Some_conv
    by (metis option.distinct(1))
  then show "numbers_ok (AList.update (cn_number row) row' t)"
    using assms row by (intro numbers_ok_put) auto
  show "holder (AList.update (cn_number row) row' t) n =
      (if n = cn_number row then cn_order_id row' else holder t n)"
    by (simp add: holder_def map_of_update)
qed

text \<open>Seeding adds free rows only.\<close>

definition seed_row :: "numbers \<Rightarrow> nat \<Rightarrow> numbers" where
  "seed_row t n = (if map_of t n = None
     then AList.update n \<lparr>cn_number = n, cn_order_id = None, cn_release_pending_at = None\<rparr> t else t)"

lemma seed_row_ok: "numbers_ok t \<Longrightarrow> numbers_ok (seed_row t n)"
proof -
  assume ok: "numbers_ok t"
  show ?thesis
  proof (cases "map_of t n")
    case None
    let ?r = "\<lparr>cn_number = n, cn_order_id = None, cn_release_pending_at = None\<rparr>"
    have "keyed cn_number (AList.update n ?r t)" using ok by (auto simp: numbers_ok_def)
    then show ?thesis using ok None by (auto simp: seed_row_def numbers_ok_def map_of_update)
  qed (use ok in \<open>simp add: seed_row_def\<close>)
qed

lemma seed_row_holder: "holder (seed_row t n) m = holder t m"
  by (simp add: seed_row_def holder_def map_of_update)

lemma seed_fold: "seed_cipher_numbers cap t = (Inr (), foldl seed_row t [1..<Suc cap])"
  by (simp add: seed_cipher_numbers_def seed_row_def [abs_def])

lemma seed_ok: "numbers_ok t \<Longrightarrow> numbers_ok (foldl seed_row t ns)"
  by (induction ns arbitrary: t) (simp_all add: seed_row_ok)

lemma seed_holder: "holder (foldl seed_row t ns) m = holder t m"
  by (induction ns arbitrary: t) (simp_all add: seed_row_holder)

section \<open>Claiming\<close>

text \<open>The four outcomes of a claim.\<close>

lemma claim_cases:
  assumes ok: "numbers_ok t" and cap: "0 < cap"
  obtains (resume) row where "number_of_order i t = Some row"
      "claim_cipher_number i cap t = (Inr (Some (cn_number row)), t)"
  | (sold_out) "number_of_order i t = None" "free_numbers cap t = []"
      "claim_cipher_number i cap t = (Inr None, t)"
  | (fresh) n row where "number_of_order i t = None" "min_of (free_numbers cap t) = Some n"
      "map_of t n = Some row" "cn_order_id row = None" "n \<le> cap"
      "claim_cipher_number i cap t = (Inr (Some n), AList.update n (row\<lparr>cn_order_id := Some i\<rparr>) t)"
proof (cases "number_of_order i t")
  case (Some row)
  then show ?thesis using cap that(1) by (simp add: claim_cipher_number_def)
next
  case None
  show ?thesis
  proof (cases "min_of (free_numbers cap t)")
    case None
    then show ?thesis using cap \<open>number_of_order i t = None\<close> that(2)
      by (simp add: claim_cipher_number_def)
  next
    case (Some n)
    then have "n \<in> set (free_numbers cap t)" by (auto dest: min_of_Some)
    then obtain row where "row \<in> set (rows t)" "cn_number row = n" "cn_number row \<le> cap" "cn_order_id row = None"
      by (auto simp: free_numbers_def)
    moreover from this ok have "map_of t n = Some row" by (auto simp: numbers_ok_def keyed_rows_iff)
    ultimately show ?thesis using cap \<open>number_of_order i t = None\<close> Some that(3)
      by (simp add: claim_cipher_number_def)
  qed
qed

lemma free_numbers_iff:
  "numbers_ok t \<Longrightarrow> n \<in> set (free_numbers cap t) \<longleftrightarrow> n \<le> cap \<and> map_of t n \<noteq> None \<and> holder t n = None"
proof -
  assume "numbers_ok t"
  then have k: "keyed cn_number t" by (simp add: numbers_ok_def)
  have "n \<in> set (free_numbers cap t) \<longleftrightarrow>
      (\<exists>row. map_of t n = Some row \<and> cn_number row = n \<and> n \<le> cap \<and> cn_order_id row = None)"
    unfolding free_numbers_def using keyed_rows_iff [OF k] by (auto simp: image_iff)
  also have "\<dots> \<longleftrightarrow> n \<le> cap \<and> map_of t n \<noteq> None \<and> holder t n = None"
    using keyed_lookup_key [OF k, of n] by (auto simp: holder_def)
  finally show ?thesis .
qed

lemma claim_fresh_ok:
  assumes ok: "numbers_ok t" and "number_of_order i t = None" "map_of t n = Some row" "cn_order_id row = None"
  shows "numbers_ok (AList.update n (row\<lparr>cn_order_id := Some i\<rparr>) t)"
proof -
  have "cn_number row = n" using ok assms(3) by (auto simp: numbers_ok_def dest: keyed_lookup_key)
  then show ?thesis using assms number_of_order_None [OF ok] by (intro numbers_ok_put) auto
qed

lemma claim_holder:
  assumes ok: "numbers_ok t" and "claim_cipher_number i cap t = (Inr (Some n), t')"
  shows "holder t' n = Some i \<and> (\<forall>m j. holder t m = Some j \<longrightarrow> holder t' m = Some j)"
proof -
  have "0 < cap" using assms(2) by (cases cap) (simp_all add: claim_cipher_number_def)
  with ok show ?thesis
  proof (cases rule: claim_cases [of t cap i])
    case (resume row)
    then show ?thesis using assms(2) number_of_order_Some [OF ok] by (auto simp: holder_def)
  next
    case (fresh m row)
    then show ?thesis using assms(2) by (auto simp: holder_def map_of_update)
  qed (use assms(2) in simp)
qed

lemma claim_keeps_holders:
  assumes "numbers_ok t" "holder t n = Some j"
  shows "holder (snd (claim_cipher_number i cap t)) n = Some j"
proof (cases "cap = 0")
  case False
  then have "0 < cap" by simp
  with assms(1) show ?thesis
    by (cases rule: claim_cases [of t cap i]) (use assms(2) in \<open>auto simp: holder_def map_of_update\<close>)
qed (use assms(2) in \<open>simp add: claim_cipher_number_def\<close>)

section \<open>All operations\<close>

inductive number_op :: "numbers \<Rightarrow> numbers \<Rightarrow> bool" where
  no_claim: "claim_cipher_number i cap t = (r, t') \<Longrightarrow> number_op t t'"
| no_mark: "mark_cipher_number_release i at t = (r, t') \<Longrightarrow> number_op t t'"
| no_cancel: "cancel_cipher_number_release i t = (r, t') \<Longrightarrow> number_op t t'"
| no_release: "release_cipher_number i t = (r, t') \<Longrightarrow> number_op t t'"
| no_seed: "seed_cipher_numbers cap t = (r, t') \<Longrightarrow> number_op t t'"

lemma claim_ok: "numbers_ok t \<Longrightarrow> numbers_ok (snd (claim_cipher_number i cap t))"
proof (cases "cap = 0")
  case False
  assume ok: "numbers_ok t"
  from False have "0 < cap" by simp
  with ok show ?thesis
    by (rule claim_cases [of t cap i]) (simp_all add: claim_fresh_ok ok)
qed (simp add: claim_cipher_number_def)

lemma number_op_ok: "number_op t t' \<Longrightarrow> numbers_ok t \<Longrightarrow> numbers_ok t'"
proof (induction rule: number_op.induct)
  case (no_claim i cap t r t')
  then show ?case using claim_ok [of t i cap] by simp
next
  case (no_mark i at t r t')
  then show ?case
    by (auto simp: mark_cipher_number_release_def number_of_order_Some intro!: rewrite_row(1)
        split: option.splits)
next
  case (no_cancel i t r t')
  then show ?case
    by (auto simp: cancel_cipher_number_release_def number_of_order_Some intro!: rewrite_row(1)
        split: option.splits)
next
  case (no_release i t r t')
  then show ?case
    by (auto simp: release_cipher_number_def intro!: rewrite_row(1) split: option.splits)
next
  case (no_seed cap t r t')
  then show ?case by (auto simp: seed_fold seed_ok)
qed

section \<open>Properties\<close>

definition ex_numbers :: numbers where
  "ex_numbers = snd (seed_cipher_numbers 3 [])"

lemma ex_numbers_ok: "numbers_ok ex_numbers"
  by (simp add: ex_numbers_def seed_fold seed_ok [of "[]"] numbers_ok_Nil)

text \<open>A claim hands out the lowest free number up to the cap, keeps the number an order
  already has, and says sold out exactly when no number up to the cap is free; it changes
  the holder of no other number, and a cap of 0 is an error, never "sold out".\<close>

theorem claim_cipher_number_spec:
  assumes ok: "numbers_ok t"
  shows "case claim_cipher_number i cap t of
     (Inl e, t') \<Rightarrow> cap = 0 \<and> t' = t
   | (Inr None, t') \<Rightarrow> t' = t \<and> (\<forall>n. holder t n \<noteq> Some i)
       \<and> (\<forall>n. n \<le> cap \<and> map_of t n \<noteq> None \<longrightarrow> holder t n \<noteq> None)
   | (Inr (Some n), t') \<Rightarrow>
       holder t' n = Some i \<and> (\<forall>m. m \<noteq> n \<longrightarrow> holder t' m = holder t m)
       \<and> (holder t n = Some i \<and> t' = t
          \<or> (\<forall>m. holder t m \<noteq> Some i) \<and> n \<le> cap \<and> holder t n = None
            \<and> (\<forall>m < n. map_of t m \<noteq> None \<longrightarrow> holder t m \<noteq> None))"
proof (cases "cap = 0")
  case False
  then have "0 < cap" by simp
  with ok show ?thesis
  proof (cases rule: claim_cases [of t cap i])
    case (resume row)
    then have "holder t (cn_number row) = Some i"
      using number_of_order_Some [OF ok] by (simp add: holder_def)
    then show ?thesis using resume by simp
  next
    case sold_out
    have "\<forall>n. n \<le> cap \<and> map_of t n \<noteq> None \<longrightarrow> holder t n \<noteq> None"
    proof (intro allI impI)
      fix n assume "n \<le> cap \<and> map_of t n \<noteq> None"
      then show "holder t n \<noteq> None" using free_numbers_iff [OF ok, of n cap] sold_out(2) by auto
    qed
    then show ?thesis using number_of_order_None [OF ok, of i] sold_out by simp
  next
    case (fresh n row)
    then have "n \<in> set (free_numbers cap t)" and least: "\<forall>m \<in> set (free_numbers cap t). n \<le> m"
      by (auto dest: min_of_Some)
    then have "holder t n = None" "n \<le> cap" using free_numbers_iff [OF ok] by auto
    moreover have "holder t m \<noteq> None" if "m < n" "map_of t m \<noteq> None" for m
      using least free_numbers_iff [OF ok, of m cap] that \<open>n \<le> cap\<close> by auto
    ultimately show ?thesis
      using fresh number_of_order_None [OF ok] by (simp add: holder_def map_of_update)
  qed
qed (simp add: claim_cipher_number_def)

theorem claim_cipher_number_spec_witness:
  "case claim_cipher_number ''a'' 3 ex_numbers of
     (Inr (Some n), t') \<Rightarrow> holder t' n = Some ''a'' | _ \<Rightarrow> False"
  using claim_cipher_number_spec [OF ex_numbers_ok, of 3 "''a''"]
  by (auto simp: holder_def ex_numbers_def seed_cipher_numbers_def upt_rec claim_cipher_number_def
      number_of_order_def rows_def free_numbers_def min_of_def)

text \<open>No order ever holds two Cipher numbers (a number's row names at most one order), so
  orders and claimed numbers correspond one to one, whatever claims, releases and seedings run
  in whatever order.\<close>

theorem numbers_never_shared:
  assumes "number_op\<^sup>*\<^sup>* t t'" and "numbers_ok t"
    and "holder t' n = Some i" and "holder t' m = Some i"
  shows "n = m"
proof -
  have "numbers_ok t'"
    using assms(1,2) by (induction rule: rtranclp_induct) (auto intro: number_op_ok)
  then show ?thesis using assms(3,4) unfolding numbers_ok_def holder_def bind_eq_Some_conv
    by (metis option.distinct(1))
qed

theorem numbers_never_shared_witness: "(1 :: nat) = 1"
proof (rule numbers_never_shared)
  show "number_op\<^sup>*\<^sup>* ex_numbers (snd (claim_cipher_number ''a'' 3 ex_numbers))"
    by (rule r_into_rtranclp, rule no_claim [of "''a''" 3 _ "Inr (Some 1)"])
      (simp add: ex_numbers_def seed_cipher_numbers_def upt_rec claim_cipher_number_def
        number_of_order_def rows_def free_numbers_def min_of_def)
  show "numbers_ok ex_numbers" by (rule ex_numbers_ok)
  show "holder (snd (claim_cipher_number ''a'' 3 ex_numbers)) 1 = Some ''a''"
    by (simp add: ex_numbers_def seed_cipher_numbers_def upt_rec claim_cipher_number_def
        number_of_order_def rows_def free_numbers_def min_of_def holder_def)
  then show "holder (snd (claim_cipher_number ''a'' 3 ex_numbers)) 1 = Some ''a''" .
qed

text \<open>Operations by which an order keeps its number: anything but its own release.\<close>

inductive keeps_claim :: "string \<Rightarrow> numbers \<Rightarrow> numbers \<Rightarrow> bool" for i where
  kc_claim: "claim_cipher_number j cap t = (r, t') \<Longrightarrow> keeps_claim i t t'"
| kc_mark: "mark_cipher_number_release j at t = (r, t') \<Longrightarrow> keeps_claim i t t'"
| kc_cancel: "cancel_cipher_number_release j t = (r, t') \<Longrightarrow> keeps_claim i t t'"
| kc_release: "release_cipher_number j t = (r, t') \<Longrightarrow> j \<noteq> i \<Longrightarrow> keeps_claim i t t'"
| kc_seed: "seed_cipher_numbers cap t = (r, t') \<Longrightarrow> keeps_claim i t t'"

lemma keeps_claim_op: "keeps_claim i t t' \<Longrightarrow> number_op t t'"
  by (induction rule: keeps_claim.induct) (auto intro: number_op.intros)

lemma keeps_claim_holder:
  assumes "keeps_claim i t t'" "numbers_ok t" "holder t n = Some i"
  shows "holder t' n = Some i"
  using assms(1)
proof cases
  case (kc_claim j cap r)
  then show ?thesis
    using claim_keeps_holders [OF assms(2,3), of j cap] by simp
next
  case (kc_mark j at r)
  then show ?thesis using assms(2,3)
    by (auto simp: mark_cipher_number_release_def number_of_order_Some holder_def map_of_update
        split: option.splits)
next
  case (kc_cancel j r)
  then show ?thesis using assms(2,3)
    by (auto simp: cancel_cipher_number_release_def number_of_order_Some holder_def map_of_update
        split: option.splits)
next
  case (kc_release j r)
  then show ?thesis using assms(2,3)
    by (auto simp: release_cipher_number_def number_of_order_Some holder_def map_of_update
        split: option.splits)
next
  case (kc_seed cap r)
  then show ?thesis using assms(3) by (auto simp: seed_fold seed_holder)
qed

text \<open>Fulfilment can be retried: an order that claimed a number gets the same number
  again on every later claim, as long as its number was not released, whatever the other
  orders do and whatever the cap has become.\<close>

theorem claim_resumes:
  assumes "numbers_ok t0" and "claim_cipher_number i cap t0 = (Inr (Some n), t1)"
    and "(keeps_claim i)\<^sup>*\<^sup>* t1 t2" and "0 < cap'"
  shows "claim_cipher_number i cap' t2 = (Inr (Some n), t2)"
proof -
  have "numbers_ok t1" using claim_ok [OF assms(1), of i cap] assms(2) by simp
  have "holder t1 n = Some i" using claim_holder [OF assms(1,2)] by simp
  from assms(3) \<open>numbers_ok t1\<close> this have "numbers_ok t2 \<and> holder t2 n = Some i"
    by (induction rule: rtranclp_induct) (auto dest: keeps_claim_op number_op_ok keeps_claim_holder)
  then obtain row where "map_of t2 n = Some row" "cn_order_id row = Some i" and ok: "numbers_ok t2"
    by (auto simp: holder_def bind_eq_Some_conv)
  moreover from this have "cn_number row = n" by (auto simp: numbers_ok_def dest: keyed_lookup_key)
  ultimately have "number_of_order i t2 = Some row" using number_of_order_Some [OF ok] by simp
  then show ?thesis using \<open>cn_number row = n\<close> assms(4) by (simp add: claim_cipher_number_def)
qed

theorem claim_resumes_witness:
  "claim_cipher_number ''a'' 1 (snd (claim_cipher_number ''a'' 3 ex_numbers))
   = (Inr (Some 1), snd (claim_cipher_number ''a'' 3 ex_numbers))"
  by (rule claim_resumes [OF ex_numbers_ok, of "''a''" 3 1 "snd (claim_cipher_number ''a'' 3 ex_numbers)"])
    (simp_all add: ex_numbers_def seed_cipher_numbers_def upt_rec claim_cipher_number_def
      number_of_order_def rows_def free_numbers_def min_of_def)

end
