(* ===== verification/Stripe_Types.thy ===== *)
theory Stripe_Types
  imports Payment_Catalog
begin

text \<open>
  What the payment engine sees of Stripe (\<open>crates/core/payments/src/stripe\<close>): the decoded
  event envelope and the objects (\<open>event.rs\<close>, \<open>client.rs\<close>), the operations of the
  \<open>StripeApi\<close> trait as a record of functions over an abstract provider state, and the
  webhook signature check (\<open>signature.rs\<close>).

  A string is the list of its UTF-8 bytes. JSON text is decoded by the \<open>serde_json\<close> crate;
  the model starts at the decoded value. HMAC-SHA256 is an argument of the signature check:
  a function from the key and the message to the bytes of the code.
\<close>

section \<open>JSON values\<close>

datatype json =
    JNull | JBool bool | JInt int | JFloat string | JString string
  | JArray "json list" | JObject "(string \<times> json) list"

fun json_get :: "json \<Rightarrow> string \<Rightarrow> json option" where
  "json_get (JObject fs) key = map_of fs key"
| "json_get _ key = None"

fun is_object :: "json \<Rightarrow> bool" where
  "is_object (JObject _) = True"
| "is_object _ = False"

definition as_str :: "json \<Rightarrow> string option" where
  "as_str v = (case v of JString s \<Rightarrow> Some s | _ \<Rightarrow> None)"

definition obj_str :: "json \<Rightarrow> string \<Rightarrow> string option" where
  "obj_str o' key = Option.bind (json_get o' key) as_str"

definition obj_i64 :: "json \<Rightarrow> string \<Rightarrow> int option" where
  "obj_i64 o' key =
     Option.bind (json_get o' key) (\<lambda>v. case v of JInt n \<Rightarrow> checked_i64 n | _ \<Rightarrow> None)"

definition obj_bool :: "json \<Rightarrow> string \<Rightarrow> bool option" where
  "obj_bool o' key = Option.bind (json_get o' key) (\<lambda>v. case v of JBool b \<Rightarrow> Some b | _ \<Rightarrow> None)"

definition non_empty :: "string option \<Rightarrow> string option" where
  "non_empty v = Option.bind v (\<lambda>s. if s = [] then None else Some s)"

definition obj_expandable_id :: "json \<Rightarrow> string \<Rightarrow> string option" where
  "obj_expandable_id o' key =
     non_empty (Option.bind (json_get o' key) (\<lambda>v. case v of
         JString s \<Rightarrow> Some s
       | JObject fs \<Rightarrow> obj_str (JObject fs) ''id''
       | _ \<Rightarrow> None))"

definition obj_metadata_order_id :: "json \<Rightarrow> string option" where
  "obj_metadata_order_id o' =
     non_empty (Option.bind (json_get o' ''metadata'') (\<lambda>metadata. obj_str metadata ''order_id''))"

definition obj_billing_country :: "json \<Rightarrow> string option" where
  "obj_billing_country o' =
     non_empty (Option.bind (Option.bind (json_get o' ''customer_details'') (\<lambda>details. json_get details ''address''))
       (\<lambda>address. obj_str address ''country''))"

section \<open>Objects\<close>

datatype stripe_error =
    Transport string
  | Api nat "string option" "string option" string
  | Decode string

record checkout_session_params =
  csp_order_id :: string
  csp_user_id :: string
  csp_amount_cents :: int
  csp_currency :: string
  csp_product_name :: string
  csp_success_url :: string
  csp_cancel_url :: string
  csp_expires_at_secs :: int
  csp_automatic_tax :: bool
  csp_consent_message :: string
  csp_tax_code :: string

record checkout_session =
  cs_id :: string
  cs_url :: "string option"
  cs_status :: "string option"
  cs_payment_status :: "string option"
  cs_payment_intent :: "string option"
  cs_amount_total :: "int option"
  cs_currency :: "string option"
  cs_livemode :: bool
  cs_client_reference_id :: "string option"
  cs_metadata_order_id :: "string option"
  cs_expires_at :: "int option"
  cs_billing_country :: "string option"

record payment_intent =
  pi_id :: string
  pi_livemode :: bool
  pi_amount :: "int option"
  pi_currency :: "string option"
  pi_status :: "string option"
  pi_metadata_order_id :: "string option"

record payment_charge =
  ch_payment_intent :: string
  ch_method :: "string option"
  ch_card_country :: "string option"

record refund =
  rf_id :: string
  rf_status :: "string option"
  rf_amount :: "int option"
  rf_payment_intent :: "string option"
  rf_created :: "int option"

record dispute =
  dp_id :: string
  dp_status :: "string option"
  dp_payment_intent :: "string option"

record stripe_event =
  ev_id :: string
  ev_type :: string
  ev_livemode :: bool
  ev_created :: int
  ev_object :: json

section \<open>Decoding\<close>

definition MAX_ID_LEN :: nat where "MAX_ID_LEN = 255"

definition ascii_alphanumeric :: "char \<Rightarrow> bool" where
  "ascii_alphanumeric c \<longleftrightarrow> ascii_upper c \<or> ascii_digit c
     \<or> 97 \<le> (of_char c :: nat) \<and> (of_char c :: nat) \<le> 122"

definition is_valid_stripe_id :: "string \<Rightarrow> bool" where
  "is_valid_stripe_id i \<longleftrightarrow> i \<noteq> [] \<and> length i \<le> MAX_ID_LEN
     \<and> list_all (\<lambda>b. ascii_alphanumeric b \<or> b = CHR ''_'') i"

definition expect_object :: "json \<Rightarrow> string \<Rightarrow> stripe_error + unit" where
  "expect_object value kind =
     (if \<not> is_object value then Inl (Decode ''response is not a JSON object'')
      else (case json_get value ''object'' of
              None \<Rightarrow> Inr ()
            | Some object \<Rightarrow>
                if as_str object = Some kind then Inr ()
                else Inl (Decode (''expected a '' @ kind @ '' object''))))"

definition required_id :: "json \<Rightarrow> stripe_error + string" where
  "required_id value =
     (case obj_str value ''id'' of
        Some i \<Rightarrow> if is_valid_stripe_id i then Inr i else Inl (Decode ''object has no valid id'')
      | None \<Rightarrow> Inl (Decode ''object has no valid id''))"

definition required_livemode :: "json \<Rightarrow> stripe_error + bool" where
  "required_livemode value =
     (case obj_bool value ''livemode'' of
        Some b \<Rightarrow> Inr b | None \<Rightarrow> Inl (Decode ''object has no livemode''))"

text \<open>\<open>?\<close> on a decoding step.\<close>

definition session_from_stripe_json :: "json \<Rightarrow> stripe_error + checkout_session" where
  "session_from_stripe_json value =
     andR (expect_object value ''checkout.session'') (\<lambda>_.
     andR (required_id value) (\<lambda>i.
     andR (required_livemode value) (\<lambda>livemode.
     Inr \<lparr>cs_id = i, cs_url = obj_str value ''url'', cs_status = obj_str value ''status'',
          cs_payment_status = obj_str value ''payment_status'',
          cs_payment_intent = obj_expandable_id value ''payment_intent'',
          cs_amount_total = obj_i64 value ''amount_total'', cs_currency = obj_str value ''currency'',
          cs_livemode = livemode, cs_client_reference_id = obj_str value ''client_reference_id'',
          cs_metadata_order_id = obj_metadata_order_id value,
          cs_expires_at = obj_i64 value ''expires_at'',
          cs_billing_country = obj_billing_country value\<rparr>)))"

definition intent_from_stripe_json :: "json \<Rightarrow> stripe_error + payment_intent" where
  "intent_from_stripe_json value =
     andR (expect_object value ''payment_intent'') (\<lambda>_.
     andR (required_id value) (\<lambda>i.
     andR (required_livemode value) (\<lambda>livemode.
     Inr \<lparr>pi_id = i, pi_livemode = livemode, pi_amount = obj_i64 value ''amount'',
          pi_currency = obj_str value ''currency'', pi_status = obj_str value ''status'',
          pi_metadata_order_id = obj_metadata_order_id value\<rparr>)))"

definition charge_method :: "json \<Rightarrow> string option" where
  "charge_method charge =
     Option.bind (json_get charge ''payment_method_details'') (\<lambda>d. obj_str d ''type'')"

definition charge_card_country :: "json \<Rightarrow> string option" where
  "charge_card_country charge =
     (case charge_method charge of
        Some kind \<Rightarrow>
          if kind = ''card'' \<or> kind = ''link'' then
            non_empty (Option.bind (Option.bind (json_get charge ''payment_method_details'')
              (\<lambda>d. json_get d kind)) (\<lambda>paid_by. obj_str paid_by ''country''))
          else None
      | None \<Rightarrow> None)"

definition charge_from_stripe_json :: "json \<Rightarrow> stripe_error + payment_charge" where
  "charge_from_stripe_json value =
     andR (expect_object value ''payment_intent'') (\<lambda>_.
     andR (required_id value) (\<lambda>pi.
     let found = (\<lambda>charge.
           andR (expect_object charge ''charge'') (\<lambda>_.
           if is_some_and (\<lambda>i. i \<noteq> pi) (obj_expandable_id charge ''payment_intent'')
           then Inl (Decode ''latest_charge belongs to another payment intent'')
           else Inr \<lparr>ch_payment_intent = pi, ch_method = charge_method charge,
                     ch_card_country = charge_card_country charge\<rparr>))
     in case json_get value ''latest_charge'' of
          None \<Rightarrow> Inr \<lparr>ch_payment_intent = pi, ch_method = None, ch_card_country = None\<rparr>
        | Some JNull \<Rightarrow> Inr \<lparr>ch_payment_intent = pi, ch_method = None, ch_card_country = None\<rparr>
        | Some (JObject fs) \<Rightarrow> found (JObject fs)
        | Some _ \<Rightarrow> Inl (Decode ''latest_charge is not expanded'')))"

definition refund_from_stripe_json :: "json \<Rightarrow> stripe_error + refund" where
  "refund_from_stripe_json value =
     andR (expect_object value ''refund'') (\<lambda>_.
     andR (required_id value) (\<lambda>i.
     Inr \<lparr>rf_id = i, rf_status = obj_str value ''status'', rf_amount = obj_i64 value ''amount'',
          rf_payment_intent = obj_expandable_id value ''payment_intent'',
          rf_created = obj_i64 value ''created''\<rparr>))"

primrec collectR :: "('a \<Rightarrow> 'e + 'b) \<Rightarrow> 'a list \<Rightarrow> 'e + 'b list" where
  "collectR f [] = Inr []"
| "collectR f (x # xs) = andR (f x) (\<lambda>y. andR (collectR f xs) (\<lambda>ys. Inr (y # ys)))"

definition refunds_from_stripe_json :: "json \<Rightarrow> string \<Rightarrow> stripe_error + refund list" where
  "refunds_from_stripe_json value pi =
     andR (expect_object value ''list'') (\<lambda>_.
     if obj_bool value ''has_more'' \<noteq> Some False
     then Inl (Decode ''refund list does not fit one page'')
     else (case json_get value ''data'' of
        Some (JArray data) \<Rightarrow>
          andR (collectR refund_from_stripe_json data) (\<lambda>refunds.
          if list_ex (\<lambda>r. rf_payment_intent r \<noteq> Some pi) refunds
          then Inl (Decode ''refund list names another payment'')
          else Inr refunds)
      | _ \<Rightarrow> Inl (Decode ''refund list has no data'')))"

definition dispute_from_stripe_json :: "json \<Rightarrow> stripe_error + dispute" where
  "dispute_from_stripe_json value =
     andR (expect_object value ''dispute'') (\<lambda>_.
     andR (required_id value) (\<lambda>i.
     Inr \<lparr>dp_id = i, dp_status = obj_str value ''status'',
          dp_payment_intent = obj_expandable_id value ''payment_intent''\<rparr>))"

definition event_from_value :: "json \<Rightarrow> stripe_error + stripe_event" where
  "event_from_value value =
     (if \<not> is_object value then Inl (Decode ''event is not a JSON object'')
      else if is_some_and (\<lambda>kind. as_str kind \<noteq> Some ''event'') (json_get value ''object'')
        then Inl (Decode ''not an event object'')
      else (case obj_str value ''id'' of
        None \<Rightarrow> Inl (Decode ''event has no id'')
      | Some i \<Rightarrow>
          if \<not> is_valid_stripe_id i then Inl (Decode ''event id is malformed'')
          else (case non_empty (obj_str value ''type'') of
            None \<Rightarrow> Inl (Decode ''event has no type'')
          | Some ty \<Rightarrow>
              (case obj_bool value ''livemode'' of
                 None \<Rightarrow> Inl (Decode ''event has no livemode'')
               | Some livemode \<Rightarrow>
                   (case obj_i64 value ''created'' of
                      None \<Rightarrow> Inl (Decode ''event has no created time'')
                    | Some created \<Rightarrow>
                        (case Option.bind (json_get value ''data'') (\<lambda>data. json_get data ''object'') of
                           Some (JObject fs) \<Rightarrow>
                             Inr \<lparr>ev_id = i, ev_type = ty, ev_livemode = livemode,
                                  ev_created = created, ev_object = JObject fs\<rparr>
                         | _ \<Rightarrow> Inl (Decode ''event has no data.object'')))))))"

section \<open>The operations the engine calls\<close>

text \<open>The trait \<open>StripeApi\<close>: each call reads and may change the provider's state.\<close>

record 'p stripe_api =
  api_create_checkout_session ::
    "checkout_session_params \<Rightarrow> string \<Rightarrow> 'p \<Rightarrow> (stripe_error + checkout_session) \<times> 'p"
  api_get_checkout_session :: "string \<Rightarrow> 'p \<Rightarrow> (stripe_error + checkout_session) \<times> 'p"
  api_get_payment_intent :: "string \<Rightarrow> 'p \<Rightarrow> (stripe_error + payment_intent) \<times> 'p"
  api_get_payment_charge :: "string \<Rightarrow> 'p \<Rightarrow> (stripe_error + payment_charge) \<times> 'p"
  api_get_event :: "string \<Rightarrow> 'p \<Rightarrow> (stripe_error + stripe_event) \<times> 'p"
  api_create_refund :: "string \<Rightarrow> string \<Rightarrow> 'p \<Rightarrow> (stripe_error + refund) \<times> 'p"
  api_get_dispute :: "string \<Rightarrow> 'p \<Rightarrow> (stripe_error + dispute) \<times> 'p"
  api_list_refunds :: "string \<Rightarrow> 'p \<Rightarrow> (stripe_error + refund list) \<times> 'p"

section \<open>Webhook signatures\<close>

datatype signature_error = EmptySecret | Malformed | Stale | NoMatch

record parsed_header =
  ph_t_raw :: string
  ph_t :: int
  ph_v1 :: "string list"

definition split_once :: "char \<Rightarrow> string \<Rightarrow> (string \<times> string) option" where
  "split_once c s =
     (case dropWhile (\<lambda>x. x \<noteq> c) s of
        [] \<Rightarrow> None | _ # rest \<Rightarrow> Some (takeWhile (\<lambda>x. x \<noteq> c) s, rest))"

text \<open>The loop over the parts of the header: the one \<open>t\<close> and every \<open>v1\<close> seen so far.\<close>

fun header_parts :: "string list \<Rightarrow> string option \<Rightarrow> string list
    \<Rightarrow> signature_error + (string option \<times> string list)" where
  "header_parts [] t v1 = Inr (t, v1)"
| "header_parts (part # parts) t v1 =
     (case split_once CHR ''='' part of
        None \<Rightarrow> header_parts parts t v1
      | Some (key, value) \<Rightarrow>
          if trim key = ''t'' then
            (case t of Some _ \<Rightarrow> Inl Malformed | None \<Rightarrow> header_parts parts (Some (trim value)) v1)
          else if trim key = ''v1'' then header_parts parts t (v1 @ [trim value])
          else header_parts parts t v1)"

definition digits_value :: "string \<Rightarrow> int" where
  "digits_value s = foldl (\<lambda>n c. n * 10 + (int (of_char c) - 48)) 0 s"

definition parse_header :: "string \<Rightarrow> signature_error + parsed_header" where
  "parse_header header =
     (case header_parts (split_on CHR '','' header) None [] of
        Inl e \<Rightarrow> Inl e
      | Inr (None, v1) \<Rightarrow> Inl Malformed
      | Inr (Some t_raw, v1) \<Rightarrow>
          if v1 = [] then Inl Malformed
          else if t_raw = [] \<or> \<not> list_all ascii_digit t_raw then Inl Malformed
          else (case checked_i64 (digits_value t_raw) of
                  None \<Rightarrow> Inl Malformed
                | Some t \<Rightarrow> Inr \<lparr>ph_t_raw = t_raw, ph_t = t, ph_v1 = v1\<rparr>))"

definition to_lower_hex :: "8 word list \<Rightarrow> string" where
  "to_lower_hex bytes =
     concat (map (\<lambda>b. [hex_digit (unat b div 16), hex_digit (unat b mod 16)]) bytes)"

definition compute_v1 :: "(string \<Rightarrow> string \<Rightarrow> 8 word list) \<Rightarrow> string \<Rightarrow> string \<Rightarrow> string \<Rightarrow> string" where
  "compute_v1 hmac secret t_raw payload = to_lower_hex (hmac secret (t_raw @ ''.'' @ payload))"

definition verify :: "(string \<Rightarrow> string \<Rightarrow> 8 word list) \<Rightarrow> string \<Rightarrow> string \<Rightarrow> string \<Rightarrow> int \<Rightarrow> nat
    \<Rightarrow> signature_error + unit" where
  "verify hmac header payload secret now_secs tolerance_secs =
     (if secret = [] then Inl EmptySecret
      else (case parse_header header of
        Inl e \<Rightarrow> Inl e
      | Inr parsed \<Rightarrow>
          if \<bar>now_secs - ph_t parsed\<bar> > int tolerance_secs then Inl Stale
          else
            let expected = compute_v1 hmac secret (ph_t_raw parsed) payload;
                matched = foldl (\<lambda>m candidate.
                  if length candidate = length expected then m \<or> candidate = expected else m)
                  False (ph_v1 parsed)
            in if matched then Inr () else Inl NoMatch))"

definition sign_for_tests :: "(string \<Rightarrow> string \<Rightarrow> 8 word list) \<Rightarrow> string \<Rightarrow> string \<Rightarrow> nat \<Rightarrow> string" where
  "sign_for_tests hmac payload secret t =
     ''t='' @ decimal t @ '',v1='' @ compute_v1 hmac secret (decimal t) payload"

section \<open>The signature check accepts what Stripe signed\<close>

lemma trim_plain: "list_all (\<lambda>c. \<not> is_white c) s \<Longrightarrow> trim s = s"
proof -
  assume "list_all (\<lambda>c. \<not> is_white c) s"
  then have "dropWhile is_white s = s" "dropWhile is_white (rev s) = rev s"
    by (cases s, simp_all) (cases s rule: rev_cases, simp_all)
  then show ?thesis by (simp add: trim_def)
qed

lemma matched_fold:
  "foldl (\<lambda>m candidate. (length candidate = length expected \<longrightarrow> m \<or> candidate = expected)
       \<and> (length candidate \<noteq> length expected \<longrightarrow> m)) b cs
   \<longleftrightarrow> b \<or> expected \<in> set cs"
  by (induction cs arbitrary: b) auto

definition plain_char :: "char \<Rightarrow> bool" where
  "plain_char c \<longleftrightarrow> 48 \<le> (of_char c :: nat)"

lemma plain_not_white: "plain_char c \<Longrightarrow> \<not> is_white c"
  by (auto simp: plain_char_def is_white_def)

lemma plain_not_comma: "plain_char c \<Longrightarrow> c \<noteq> CHR '',''"
  by (auto simp: plain_char_def)

lemma digits_value_read: "list_all ascii_digit s \<Longrightarrow> digits_value s = int (read_digits s)"
proof -
  have "list_all ascii_digit s \<Longrightarrow>
      foldl (\<lambda>n c. n * 10 + (int (of_char c) - 48)) (int k) s
      = int (foldl (\<lambda>n c. 10 * n + ((of_char c :: nat) - 48)) k s)" for k
  proof (induction s arbitrary: k)
    case (Cons c s)
    have "48 \<le> (of_char c :: nat)" using Cons.prems by (simp add: ascii_digit_def)
    then have eq: "int k * 10 + (int (of_char c) - 48) = int (10 * k + ((of_char c :: nat) - 48))"
      by (simp add: of_nat_diff)
    show ?case unfolding foldl_Cons eq by (rule Cons.IH) (use Cons.prems in simp)
  qed simp
  from this [of 0] show "list_all ascii_digit s \<Longrightarrow> digits_value s = int (read_digits s)"
    by (simp add: digits_value_def read_digits_def)
qed

lemma digits_plain: "list_all ascii_digit s \<Longrightarrow> list_all plain_char s"
  by (auto simp: list_all_iff ascii_digit_def plain_char_def)

lemma hex_digit_plain: "n < 16 \<Longrightarrow> plain_char (hex_digit n)"
proof -
  assume "n < 16"
  moreover have "list_all plain_char ''0123456789abcdef''" by (simp add: plain_char_def)
  ultimately show ?thesis unfolding hex_digit_def by (simp only: list_all_length) simp
qed

lemma hex_plain: "list_all plain_char (to_lower_hex bytes)"
proof -
  have "unat b div 16 < 16" for b :: "8 word"
  proof -
    have "unat b < 256" using unsigned_less [of b] by simp
    then show ?thesis by simp
  qed
  then show ?thesis
    by (auto simp: to_lower_hex_def list_all_iff intro: hex_digit_plain)
qed

text \<open>The values a header has for a key, in order: of its parts between commas, those with a \<open>=\<close>, with
  the white space around key and value left out.\<close>

definition header_values :: "string \<Rightarrow> string list \<Rightarrow> string list" where
  "header_values key parts =
     map (trim \<circ> snd) (filter (\<lambda>(k, v). trim k = key) (List.map_filter (split_once CHR ''='') parts))"

lemma header_values_simps [simp]:
  "header_values key [] = []"
  "header_values key (part # parts) =
     (case split_once CHR ''='' part of
        Some (k, v) \<Rightarrow> if trim k = key then trim v # header_values key parts else header_values key parts
      | None \<Rightarrow> header_values key parts)"
  by (simp_all add: header_values_def List.map_filter_simps split: option.split)

lemma header_parts_iff:
  "header_parts parts t v1 = Inr (t', vs) \<longleftrightarrow>
   vs = v1 @ header_values ''v1'' parts
   \<and> (case t of Some x \<Rightarrow> header_values ''t'' parts = [] \<and> t' = Some x
      | None \<Rightarrow> header_values ''t'' parts = [] \<and> t' = None \<or> (\<exists>x. header_values ''t'' parts = [x] \<and> t' = Some x))"
  by (induction parts t v1 rule: header_parts.induct) (auto split: option.splits)

lemma digits_value_i64:
  "list_all ascii_digit x \<Longrightarrow> checked_i64 (digits_value x) = (if int (read_digits x) \<le> i64_max then Some (int (read_digits x)) else None)"
  by (simp add: digits_value_read checked_i64_def i64_defs)

lemma parse_header_iff:
  "parse_header header = Inr p \<longleftrightarrow>
   (\<exists>x. header_values ''t'' (split_on CHR '','' header) = [x] \<and> x \<noteq> [] \<and> list_all ascii_digit x \<and> int (read_digits x) \<le> i64_max
     \<and> header_values ''v1'' (split_on CHR '','' header) \<noteq> []
     \<and> p = \<lparr>ph_t_raw = x, ph_t = int (read_digits x), ph_v1 = header_values ''v1'' (split_on CHR '','' header)\<rparr>)"
proof (cases "header_parts (split_on CHR '','' header) None []")
  case (Inl e)
  then have "\<nexists>x. header_values ''t'' (split_on CHR '','' header) = [x]"
    using header_parts_iff [of "split_on CHR '','' header" None "[]"] by force
  then show ?thesis using Inl by (auto simp: parse_header_def)
next
  case (Inr tv)
  obtain t vs where tv: "tv = (t, vs)" by (cases tv)
  note h = Inr [unfolded tv, unfolded header_parts_iff]
  show ?thesis
  proof (cases t)
    case None
    then show ?thesis using Inr tv h by (auto simp: parse_header_def)
  next
    case (Some x)
    then show ?thesis using Inr tv h by (auto simp: parse_header_def digits_value_i64 split: option.splits if_splits)
  qed
qed

text \<open>C29: a delivery is accepted exactly when a secret is configured and, of the parts of the header
  between commas, exactly one has the key \<open>t\<close>, its value is a number in ASCII digits that fits an
  \<open>i64\<close> and lies within the tolerance of now in either direction, and one with the key \<open>v1\<close> is the
  lowercase hex of the code, under the secret, of that value as sent, a dot and the payload. Other
  keys, in particular \<open>v0\<close>, play no part.\<close>

theorem signature_accepts_iff:
  "verify hmac header payload secret now tolerance = Inr () \<longleftrightarrow>
   secret \<noteq> [] \<and> (\<exists>t. header_values ''t'' (split_on CHR '','' header) = [t]
     \<and> t \<noteq> [] \<and> list_all ascii_digit t \<and> int (read_digits t) \<le> i64_max
     \<and> \<bar>now - int (read_digits t)\<bar> \<le> int tolerance
     \<and> to_lower_hex (hmac secret (t @ ''.'' @ payload)) \<in> set (header_values ''v1'' (split_on CHR '','' header)))"
proof -
  have "verify hmac header payload secret now tolerance = Inr () \<longleftrightarrow>
    secret \<noteq> [] \<and> (\<exists>p. parse_header header = Inr p \<and> \<bar>now - ph_t p\<bar> \<le> int tolerance
     \<and> compute_v1 hmac secret (ph_t_raw p) payload \<in> set (ph_v1 p))"
    by (auto simp: verify_def Let_def matched_fold split: sum.split)
  then show ?thesis by (auto simp: parse_header_iff compute_v1_def)
qed

text \<open>A header built the way Stripe builds it verifies at any moment within the tolerance
  of its time, whatever the payload, the secret and the code function are.\<close>

theorem signature_roundtrip:
  assumes "secret \<noteq> []" and "int t \<le> i64_max" and "\<bar>now - int t\<bar> \<le> int tolerance"
  shows "verify hmac (sign_for_tests hmac payload secret t) payload secret now tolerance = Inr ()"
proof -
  let ?d = "decimal t" and ?h = "compute_v1 hmac secret (decimal t) payload"
  have plain: "list_all plain_char ?d" "list_all plain_char ?h"
    using digits_plain [OF decimal_digits] hex_plain by (auto simp: compute_v1_def)
  have comma: "CHR '','' \<notin> set (''t='' @ ?d)" "CHR '','' \<notin> set (''v1='' @ ?h)"
    using plain plain_not_comma by (auto simp: list_all_iff)
  have plain_trim: "trim x = x" if "list_all plain_char x" for x
    using that plain_not_white by (intro trim_plain) (auto simp: list_all_iff)
  have trims: "trim ?d = ?d" "trim ?h = ?h" "trim ''t'' = ''t''" "trim ''v1'' = ''v1''"
    using plain by (auto intro!: plain_trim) (simp_all add: plain_char_def)
  have "split_on CHR '','' (sign_for_tests hmac payload secret t) = [''t='' @ ?d, ''v1='' @ ?h]"
    using split_on_append [OF comma(1), of "''v1='' @ ?h"] split_on_none [OF comma(2)]
    by (simp add: sign_for_tests_def)
  then have parts: "header_parts (split_on CHR '','' (sign_for_tests hmac payload secret t)) None []
      = Inr (Some ?d, [?h])"
    by (simp add: split_once_def trims)
  have "digits_value ?d = int t" using digits_value_read [OF decimal_digits] by (simp add: read_decimal)
  then have "parse_header (sign_for_tests hmac payload secret t)
      = Inr \<lparr>ph_t_raw = ?d, ph_t = int t, ph_v1 = [?h]\<rparr>"
    using assms(2) by (simp add: parse_header_def parts decimal_not_Nil decimal_digits checked_i64_def i64_defs)
  then show ?thesis using assms(1,3) by (simp add: verify_def Let_def)
qed

theorem signature_roundtrip_witness:
  "verify (\<lambda>k m. [1, 255]) (sign_for_tests (\<lambda>k m. [1, 255]) ''{}'' ''whsec'' 17) ''{}'' ''whsec'' 20 300 = Inr ()"
  by (rule signature_roundtrip) (simp_all add: i64_max_def)

end
