(* ===== verification/Engine_Base.thy ===== *)
theory Engine_Base
  imports Payment_Events Cipher_Numbers Prot_Ledger Stripe_Types
begin

unbundle bit_operations_syntax

text \<open>
  The ground the payment engine stands on (\<open>crates/core/payments/src/engine.rs\<close>): the state
  it runs in, the lease protocol around an order, and the helpers its operations share.

  The engine's state is the database, the provider and what other workers do. One database
  call is one atomic step; \<open>w_others\<close> lists what the other workers do to the database before
  each of this worker's coming steps (nothing, once the list is used up), so a statement about
  every world is a statement about every interleaving. \<open>w_steps\<close> keeps the steps this worker
  made (the database before and after each) and \<open>w_calls\<close> its calls to Stripe with the database
  at the time; both are only for the properties.

  What the engine takes from other crates is in \<open>pay_env\<close>: SHA-256 and the ULID generator,
  Stripe, and the two sections of the configuration that Prot sales read.
\<close>

section \<open>State\<close>

text \<open>The fields of \<open>User\<close> that payments read or write.\<close>

record buyer =
  bu_id :: string
  bu_bot :: bool
  bu_flags :: "32 word option"
  bu_cipher :: "user_cipher option"

record pay_db =
  pd_orders :: orders
  pd_numbers :: numbers
  pd_events :: events
  pd_ledger :: ledger_state
  pd_users :: "(string, buyer) table"

datatype stripe_call =
    CallCreateSession checkout_session_params string
  | CallGetSession string
  | CallGetIntent string
  | CallGetCharge string
  | CallGetEvent string
  | CallRefund string string
  | CallGetDispute string
  | CallListRefunds string

record 'p world =
  w_db :: pay_db
  w_provider :: 'p
  w_others :: "(pay_db \<Rightarrow> pay_db) list"
  w_steps :: "(pay_db \<times> pay_db) list"
  w_calls :: "(stripe_call \<times> pay_db) list"
  w_published :: "(string \<times> int \<times> 64 word) list"

record 'p pay_env =
  en_sha256 :: "string \<Rightarrow> string"
  en_ulid :: "nat \<Rightarrow> string"
  en_stripe :: "'p stripe_api"
  en_features :: feature_payments
  en_protection :: protection_features

type_synonym ('p, 'a) act = "('p world, 'a) eff"

definition on_orders :: "(orders, 'a) eff \<Rightarrow> (pay_db, 'a) eff" where
  "on_orders m = (\<lambda>d. case m (pd_orders d) of (r, t) \<Rightarrow> (r, d\<lparr>pd_orders := t\<rparr>))"

definition on_numbers :: "(numbers, 'a) eff \<Rightarrow> (pay_db, 'a) eff" where
  "on_numbers m = (\<lambda>d. case m (pd_numbers d) of (r, t) \<Rightarrow> (r, d\<lparr>pd_numbers := t\<rparr>))"

definition on_events :: "(events, 'a) eff \<Rightarrow> (pay_db, 'a) eff" where
  "on_events m = (\<lambda>d. case m (pd_events d) of (r, t) \<Rightarrow> (r, d\<lparr>pd_events := t\<rparr>))"

definition on_ledger :: "(ledger_state, 'a) eff \<Rightarrow> (pay_db, 'a) eff" where
  "on_ledger m = (\<lambda>d. case m (pd_ledger d) of (r, t) \<Rightarrow> (r, d\<lparr>pd_ledger := t\<rparr>))"

definition on_memberships :: "(memberships, 'a) eff \<Rightarrow> (pay_db, 'a) eff" where
  "on_memberships m = on_ledger (\<lambda>st.
     case m (ls_memberships st) of (r, t) \<Rightarrow> (r, st\<lparr>ls_memberships := t\<rparr>))"

definition on_users :: "((string, buyer) table, 'a) eff \<Rightarrow> (pay_db, 'a) eff" where
  "on_users m = (\<lambda>d. case m (pd_users d) of (r, t) \<Rightarrow> (r, d\<lparr>pd_users := t\<rparr>))"

text \<open>One database call: the others first, then this worker's step.\<close>

definition others_run :: "'p world \<Rightarrow> pay_db" where
  "others_run w = (case w_others w of [] \<Rightarrow> w_db w | f # _ \<Rightarrow> f (w_db w))"

definition dbE :: "(pay_db, 'a) eff \<Rightarrow> ('p, 'a) act" where
  "dbE op = (\<lambda>w.
     case op (others_run w) of (r, d) \<Rightarrow>
       (r, w\<lparr>w_db := d, w_others := tl (w_others w),
             w_steps := w_steps w @ [(others_run w, d)]\<rparr>))"

definition stripeE :: "stripe_call \<Rightarrow> ('p \<Rightarrow> (stripe_error + 'a) \<times> 'p) \<Rightarrow> ('p, stripe_error + 'a) act" where
  "stripeE c f = (\<lambda>w.
     case f (w_provider w) of (r, p) \<Rightarrow>
       (Inr r, w\<lparr>w_provider := p, w_calls := w_calls w @ [(c, w_db w)]\<rparr>))"

definition create_refund :: "'p pay_env \<Rightarrow> string \<Rightarrow> string \<Rightarrow> ('p, stripe_error + refund) act" where
  "create_refund env pi key = stripeE (CallRefund pi key) (api_create_refund (en_stripe env) pi key)"

definition get_checkout_session :: "'p pay_env \<Rightarrow> string \<Rightarrow> ('p, stripe_error + checkout_session) act" where
  "get_checkout_session env i = stripeE (CallGetSession i) (api_get_checkout_session (en_stripe env) i)"

definition get_payment_intent :: "'p pay_env \<Rightarrow> string \<Rightarrow> ('p, stripe_error + payment_intent) act" where
  "get_payment_intent env i = stripeE (CallGetIntent i) (api_get_payment_intent (en_stripe env) i)"

definition get_payment_charge :: "'p pay_env \<Rightarrow> string \<Rightarrow> ('p, stripe_error + payment_charge) act" where
  "get_payment_charge env i = stripeE (CallGetCharge i) (api_get_payment_charge (en_stripe env) i)"

definition get_dispute :: "'p pay_env \<Rightarrow> string \<Rightarrow> ('p, stripe_error + dispute) act" where
  "get_dispute env i = stripeE (CallGetDispute i) (api_get_dispute (en_stripe env) i)"

definition list_refunds :: "'p pay_env \<Rightarrow> string \<Rightarrow> ('p, stripe_error + refund list) act" where
  "list_refunds env i = stripeE (CallListRefunds i) (api_list_refunds (en_stripe env) i)"

section \<open>Constants and outcomes\<close>

definition LEASE_MS :: int where "LEASE_MS = 120000"
definition SESSION_TTL_SECS :: int where "SESSION_TTL_SECS = 35 * 60"
definition REFUND_RELEASE_WINDOW_MS :: int where "REFUND_RELEASE_WINDOW_MS = 14 * 24 * 3600 * 1000"
definition REFUND_GRACE_MS :: int where "REFUND_GRACE_MS = 3 * 24 * 3600 * 1000"
definition MEMBERSHIP_RETRIES :: nat where "MEMBERSHIP_RETRIES = 5"
definition BADGE_SYNC_RETRIES :: nat where "BADGE_SYNC_RETRIES = 5"
definition CREATING_BLOCKS_MS :: int where "CREATING_BLOCKS_MS = 2 * 60 * 1000"
definition CHARGE_ALREADY_REFUNDED :: string where "CHARGE_ALREADY_REFUNDED = ''charge_already_refunded''"
definition CARD_COUNTRY_WAIT_MS :: int where "CARD_COUNTRY_WAIT_MS = 30 * 60 * 1000"
definition REGION_REFUSAL_MS :: int where "REGION_REFUSAL_MS = 30 * 24 * 3600 * 1000"

datatype refund_status = RefundSucceeded | RefundPending | RefundFailed

record refund_facts =
  rfa_refunded_at_ms :: int
  rfa_full :: bool
  rfa_status :: refund_status

datatype fulfil_outcome =
    FFulfilled | FAlreadyFulfilled | FLeaseHeld | FVoided void_reason | FVoidDeferred void_reason
  | FNotPaid | FIgnored

datatype reverse_kind = KindRefund | KindDisputeOpened | KindDisputeWon | KindDisputeLost

datatype reverse_outcome = RApplied | RRecordedPending | RNoOp | RBusy

section \<open>Leases\<close>

record leased =
  le_order :: payment_order
  le_until :: int

type_synonym ('p, 'a) lact = "(leased \<times> 'p world, 'a) eff"

text \<open>A step that does not touch the lease, and the leased copy of the order.\<close>

definition liftL :: "('p, 'a) act \<Rightarrow> ('p, 'a) lact" where
  "liftL m = (\<lambda>(l, w). case m w of (r, w') \<Rightarrow> (r, (l, w')))"

definition orderL :: "('p, payment_order) lact" where
  "orderL = (\<lambda>(l, w). (Inr (le_order l), (l, w)))"

definition acquire :: "string \<Rightarrow> int \<Rightarrow> ('p, leased option) act" where
  "acquire order_id now_ms =
     (let until = saturating_add now_ms LEASE_MS in
      bindE (dbE (on_orders (acquire_payment_order_lease order_id now_ms until))) (\<lambda>r.
      case r of
        Some order \<Rightarrow> okE (Some \<lparr>le_order = order, le_until = until\<rparr>)
      | None \<Rightarrow>
          bindE (dbE (on_orders (fetch_payment_order order_id))) (\<lambda>found.
          case found of Some _ \<Rightarrow> okE None | None \<Rightarrow> errE NotFound)))"

definition release :: "leased \<Rightarrow> ('p, unit) act" where
  "release l =
     bindE (tryE (dbE (on_orders (release_payment_order_lease (po_id (le_order l)) (le_until l)))))
       (\<lambda>_. okE ())"

definition write_order :: "(payment_order \<Rightarrow> payment_order) \<Rightarrow> ('p, unit) lact" where
  "write_order change = (\<lambda>(l, w).
     let expected = po_state (le_order l);
         next = change (le_order l)
     in case dbE (on_orders (update_payment_order_if_state next expected)) w of
          (Inl e, w') \<Rightarrow> (Inl e, (l, w'))
        | (Inr True, w') \<Rightarrow>
            (Inr (), (l\<lparr>le_order := next\<lparr>po_version := po_version next + 1\<rparr>\<rparr>, w'))
        | (Inr False, w') \<Rightarrow>
            (case dbE (on_orders (fetch_payment_order (po_id next))) w' of
               (_, w'') \<Rightarrow> (Inl InternalError, (l, w''))))"

text \<open>The pattern every operation on one order follows: acquire, work, release whatever the
  work came to.\<close>

definition with_lease :: "string \<Rightarrow> int \<Rightarrow> 'a \<Rightarrow> ('p, 'a) lact \<Rightarrow> ('p, 'a) act" where
  "with_lease order_id now_ms busy body =
     bindE (acquire order_id now_ms) (\<lambda>r.
     case r of
       None \<Rightarrow> okE busy
     | Some l \<Rightarrow> (\<lambda>w.
         case body (l, w) of
           (res, (l', w')) \<Rightarrow> (res, snd (release l' w'))))"

section \<open>Refunds\<close>

definition void_key :: "string \<Rightarrow> string" where
  "void_key order_id = ''void-'' @ order_id"

definition release_upgrade_key :: "string \<Rightarrow> string" where
  "release_upgrade_key order_id = ''release-upgrade-'' @ order_id"

datatype refund_asked = AskDone | AskAlreadyRefunded | AskUnsettled string string | AskRefused string string

definition asked_of :: "refund \<Rightarrow> refund_asked" where
  "asked_of r =
     (case rf_status r of
        Some status \<Rightarrow>
          if status = ''failed'' \<or> status = ''canceled'' then AskRefused (rf_id r) status
          else if status = ''succeeded'' then AskDone
          else AskUnsettled (rf_id r) status
      | None \<Rightarrow> AskUnsettled (rf_id r) ''of unknown status'')"

definition ask_refund :: "'p pay_env \<Rightarrow> string \<Rightarrow> string \<Rightarrow> ('p, refund_asked) act" where
  "ask_refund env pi key =
     bindE (create_refund env pi key) (\<lambda>r.
     case r of
       Inr refund \<Rightarrow> okE (asked_of refund)
     | Inl (Api status (Some code) kind message) \<Rightarrow>
         if code = CHARGE_ALREADY_REFUNDED then okE AskAlreadyRefunded else errE PaymentProviderError
     | Inl err \<Rightarrow> errE PaymentProviderError)"

definition refund_for_void :: "'p pay_env \<Rightarrow> string \<Rightarrow> string \<Rightarrow> ('p, bool) act" where
  "refund_for_void env pi order_id =
     bindE (ask_refund env pi (void_key order_id)) (\<lambda>asked.
     case asked of
       AskRefused _ _ \<Rightarrow> okE False
     | AskDone \<Rightarrow> okE True
     | AskAlreadyRefunded \<Rightarrow> okE True
     | AskUnsettled _ _ \<Rightarrow> okE True)"

definition card_country_unreadable :: "stripe_error \<Rightarrow> bool" where
  "card_country_unreadable err =
     (case err of
        Api status code kind message \<Rightarrow>
          status \<in> {400, 403, 404}
          \<and> (kind = Some ''permission_error'' \<or> kind = Some ''invalid_request_error'')
      | Decode _ \<Rightarrow> True
      | Transport _ \<Rightarrow> False)"

section \<open>Accounts\<close>

definition is_deleted :: "buyer \<Rightarrow> bool" where
  "is_deleted u \<longleftrightarrow> (case bu_flags u of Some f \<Rightarrow> f | None \<Rightarrow> 0) AND 2 \<noteq> 0"

definition fetch_user :: "string \<Rightarrow> ((string, buyer) table, buyer) eff" where
  "fetch_user i = (\<lambda>t. case map_of t i of Some u \<Rightarrow> (Inr u, t) | None \<Rightarrow> (Inl NotFound, t))"

definition buyer_is_live :: "string \<Rightarrow> ('p, bool) act" where
  "buyer_is_live u =
     bindE (tryE (dbE (on_users (fetch_user u)))) (\<lambda>r.
     case r of
       Inr user \<Rightarrow> okE (\<not> is_deleted user)
     | Inl e \<Rightarrow> if e = NotFound then okE False else errE e)"

text \<open>\<open>update_user\<close> with the one field payments set; it fails when the user is gone.\<close>

definition update_user_cipher :: "string \<Rightarrow> user_cipher option \<Rightarrow> ((string, buyer) table, unit) eff" where
  "update_user_cipher i badge = (\<lambda>t.
     case map_of t i of
       Some u \<Rightarrow> (Inr (), AList.update i (u\<lparr>bu_cipher := badge\<rparr>) t)
     | None \<Rightarrow> (Inl NotFound, t))"

section \<open>Disputes\<close>

fun pending_kind :: "reversal_pending \<Rightarrow> reverse_kind" where
  "pending_kind PendingRefund = KindRefund"
| "pending_kind PendingDisputeLost = KindDisputeLost"

definition is_disputed :: "payment_order \<Rightarrow> bool" where
  "is_disputed order \<longleftrightarrow>
     po_open_disputes order \<noteq> [] \<or> po_reversal_pending order = Some PendingDisputeLost"

definition disputes_after :: "payment_order \<Rightarrow> reverse_kind \<Rightarrow> string option \<Rightarrow> string list" where
  "disputes_after order kind dispute =
     (let open' = po_open_disputes order in
      case dispute of
        None \<Rightarrow> open'
      | Some i \<Rightarrow>
          (case kind of
             KindDisputeOpened \<Rightarrow> if i \<in> set open' then open' else open' @ [i]
           | KindDisputeWon \<Rightarrow> filter (\<lambda>known. known \<noteq> i) open'
           | KindDisputeLost \<Rightarrow> filter (\<lambda>known. known \<noteq> i) open'
           | KindRefund \<Rightarrow> open'))"

section \<open>Sessions\<close>

datatype mismatch = NotOurs string | Terms string

text \<open>How a \<open>bool\<close> is printed, and the checks that a session is the order's own, in the
  code's order.\<close>

definition bool_text :: "bool \<Rightarrow> string" where
  "bool_text b = (if b then ''true'' else ''false'')"

definition session_not_ours :: "payment_order \<Rightarrow> checkout_session \<Rightarrow> payments_settings \<Rightarrow> string option" where
  "session_not_ours order session s =
     (if is_some_and (\<lambda>i. i \<noteq> cs_id session) (po_checkout_session_id order)
      then Some (''session '' @ cs_id session @ '' is not the order's session '' @ the (po_checkout_session_id order))
      else if po_checkout_session_id order = None \<and> cs_metadata_order_id session \<noteq> Some (po_id order)
      then Some (''order has no stored session and session '' @ cs_id session @ '' names another order'')
      else if is_some_and (\<lambda>named. named \<noteq> po_id order) (cs_metadata_order_id session)
      then Some (''session metadata names order '' @ the (cs_metadata_order_id session))
      else if cs_livemode session \<noteq> set_expect_livemode s
      then Some (''session livemode '' @ bool_text (cs_livemode session) @ '' but expect_livemode ''
                 @ bool_text (set_expect_livemode s))
      else if po_payment_intent_id order \<noteq> None \<and> cs_payment_intent session \<noteq> None
              \<and> po_payment_intent_id order \<noteq> cs_payment_intent session
      then Some (''session payment intent '' @ the (cs_payment_intent session) @ '' but the order is paid by ''
                 @ the (po_payment_intent_id order))
      else if po_user_id order \<noteq> None \<and> cs_client_reference_id session \<noteq> None
              \<and> po_user_id order \<noteq> cs_client_reference_id session
      then Some ''session client_reference_id names another user''
      else None)"

definition session_mismatch :: "payment_order \<Rightarrow> checkout_session \<Rightarrow> payments_settings
    \<Rightarrow> mismatch option" where
  "session_mismatch order session s =
     (case session_not_ours order session s of
        Some why \<Rightarrow> Some (NotOurs why)
      | None \<Rightarrow>
          (let field =
             (if cs_amount_total session \<noteq> Some (po_amount_cents order) then Some ''amount''
              else if po_currency order \<noteq> ''usd'' \<or> cs_currency session \<noteq> Some (po_currency order)
              then Some ''currency'' else None)
           in case field of
                None \<Rightarrow> None
              | Some f \<Rightarrow>
                  if cs_metadata_order_id session = Some (po_id order) then Some (Terms f)
                  else Some (NotOurs (''session '' @ cs_id session @ '' has the wrong '' @ f
                         @ '' and no metadata naming the order''))))"

section \<open>Memberships and badges\<close>

definition fetch_membership :: "string \<Rightarrow> ('p, cipher_membership option) act" where
  "fetch_membership u = dbE (on_memberships (fetch_cipher_membership u))"

text \<open>List or unlist an order among the disputed ones of its membership.\<close>

definition set_dispute_listing :: "string \<Rightarrow> string \<Rightarrow> bool \<Rightarrow> ('p, bool) act" where
  "set_dispute_listing u order_id open' =
     retryE MEMBERSHIP_RETRIES
       (bindE (fetch_membership u) (\<lambda>m.
        case m of
          None \<Rightarrow> okE (Some False)
        | Some m \<Rightarrow>
            if order_id \<notin> set (cm_orders m) then okE (Some False)
            else if (order_id \<in> set (cm_disputed_orders m)) = open' then okE (Some True)
            else
              let next = m\<lparr>cm_disputed_orders :=
                    (if open' then cm_disputed_orders m @ [order_id]
                     else filter (\<lambda>i. i \<noteq> order_id) (cm_disputed_orders m))\<rparr>
              in bindE (dbE (on_memberships (update_cipher_membership_if_version next (cm_version m))))
                   (\<lambda>b. okE (if b then Some True else None))))
       (errE InternalError)"

text \<open>One round of publishing a badge: \<open>None\<close> after a write, to look again.\<close>

definition badge_round :: "string \<Rightarrow> ('p, unit option) act" where
  "badge_round u =
     bindE (fetch_membership u) (\<lambda>m.
     let badge = Option.bind m public_badge in
     bindE (tryE (dbE (on_users (fetch_user u)))) (\<lambda>r.
     case r of
       Inl e \<Rightarrow> if e = NotFound then okE (Some ()) else errE e
     | Inr user \<Rightarrow>
         let badge' = (if is_deleted user then None else badge) in
         if bu_cipher user = badge' then okE (Some ())
         else thenE (dbE (on_users (update_user_cipher u badge'))) (okE None)))"

definition sync_user_badge :: "string \<Rightarrow> ('p, unit) act" where
  "sync_user_badge u = retryE BADGE_SYNC_RETRIES (badge_round u) (errE InternalError)"

text \<open>Whether the release of the membership's number was decided and has not finished.\<close>

fun number_release_pending_in :: "nat \<Rightarrow> string list \<Rightarrow> ('p, bool) act" where
  "number_release_pending_in n [] = okE False"
| "number_release_pending_in n (order_id # ids) =
     bindE (dbE (on_numbers (fetch_cipher_number_row_by_order order_id))) (\<lambda>row.
     if is_some_and (\<lambda>row. cn_number row = n \<and> cn_release_pending_at row \<noteq> None) row
     then okE True
     else number_release_pending_in n ids)"

definition number_release_pending :: "cipher_membership \<Rightarrow> ('p, bool) act" where
  "number_release_pending m = number_release_pending_in (cm_number m) (cm_orders m)"

end
