(* ===== verification/Engine_Prot.thy ===== *)
theory Engine_Prot
  imports Engine_Base
begin

text \<open>
  The ledger side of the payment engine (\<open>crates/core/payments/src/engine/prot.rs\<close>): crediting
  and clawing back Prot orders, the Prot that comes with a Cipher membership, the wallet view,
  and the staff tools. Starting a Prot checkout is in \<open>Engine_Checkout\<close>.
\<close>

section \<open>Shared helpers\<close>

definition PROT_RECENT_LIMIT :: int where "PROT_RECENT_LIMIT = 20"
definition PROT_ADJUST_MAX :: int where "PROT_ADJUST_MAX = 1000000"
definition PROT_ADJUST_NONCE_MAX :: nat where "PROT_ADJUST_NONCE_MAX = 64"

definition engine_wallet_balance :: "string \<Rightarrow> ('p, int) act" where
  "engine_wallet_balance u =
     bindE (dbE (on_ledger (fetch_prot_account (prot_user_account u))))
       (\<lambda>a. okE (case a of Some account \<Rightarrow> pa_balance account | None \<Rightarrow> 0))"

text \<open>The balance goes out on the owner's private topic; a failed read publishes nothing.\<close>

definition publish_balance :: "string \<Rightarrow> ('p, unit) act" where
  "publish_balance u =
     bindE (tryE (dbE (on_ledger (fetch_prot_account (prot_user_account u))))) (\<lambda>r.
     case r of
       Inr (Some account) \<Rightarrow>
         modE (\<lambda>w. w\<lparr>w_published := w_published w @ [(u, pa_balance account, pa_version account)]\<rparr>)
     | Inr None \<Rightarrow> okE ()
     | Inl _ \<Rightarrow> okE ())"

text \<open>The forfeit of a wallet: every pass and every balance read is a step of its own.\<close>

definition engine_forfeit :: "'p pay_env \<Rightarrow> string \<Rightarrow> int \<Rightarrow> ('p, prot_apply_outcome option) act" where
  "engine_forfeit env u now_ms =
     run_forfeit_passes (dbE (on_ledger (prot_forfeit_pass (en_sha256 env) (en_ulid env) u now_ms)))
       (dbE (on_ledger (wallet_balance u)))"

definition forfeit_if_deleted :: "'p pay_env \<Rightarrow> string \<Rightarrow> int \<Rightarrow> ('p, unit) act" where
  "forfeit_if_deleted env u now_ms =
     bindE (buyer_is_live u) (\<lambda>live.
     if live then okE ()
     else bindE (engine_forfeit env u now_ms) (\<lambda>_. okE ()))"

record prot_ledger_view =
  plv_id :: string
  plv_kind :: prot_entry_kind
  plv_amount :: int
  plv_created_at :: int
  plv_order_id :: "string option"

definition ledger_view :: "string \<Rightarrow> prot_ledger_entry \<Rightarrow> prot_ledger_view" where
  "ledger_view wallet row =
     \<lparr>plv_id = pl_id row, plv_kind = pl_kind row,
      plv_amount = (if pl_credit row = wallet then pl_amount row else clamp_i64 (- pl_amount row)),
      plv_created_at = pl_created_at row, plv_order_id = pr_order_id (pl_reference row)\<rparr>"

definition apply_posting :: "'p pay_env \<Rightarrow> prot_posting \<Rightarrow> ('p, prot_apply_outcome) act" where
  "apply_posting env p = dbE (on_ledger (apply_prot_posting (en_sha256 env) (en_ulid env) p))"

section \<open>The wallet\<close>

record pending_view =
  pv_order_id :: string
  pv_sku :: sku
  pv_expires_at :: int

text \<open>The newest unexpired checkout of a family, as both views show it.\<close>

definition pending_views :: "product_family \<Rightarrow> int \<Rightarrow> payment_order list \<Rightarrow> pending_view list" where
  "pending_views fam now_ms orders =
     List.map_filter (\<lambda>o'.
       case po_session_expires_at o' of
         None \<Rightarrow> None
       | Some expires_at \<Rightarrow>
           if expires_at > now_ms \<and> po_checkout_url o' \<noteq> None
           then Some \<lparr>pv_order_id = po_id o', pv_sku = po_sku o', pv_expires_at = expires_at\<rparr>
           else None)
       (filter (\<lambda>o'. family (po_sku o') = fam) orders)"

definition last_opt :: "'a list \<Rightarrow> 'a option" where
  "last_opt xs = (if xs = [] then None else Some (last xs))"

record prot_me_view =
  pme_balance :: int
  pme_held :: int
  pme_version :: "64 word"
  pme_pending_order :: "pending_view option"
  pme_recent :: "prot_ledger_view list"

definition prot_me :: "prot_sales_settings \<Rightarrow> string \<Rightarrow> int \<Rightarrow> ('p, prot_me_view) act" where
  "prot_me ps u now_ms =
     (if \<not> prot_enabled ps then errE ProtDisabled else
      let wallet = prot_user_account u in
      bindE (dbE (on_ledger (fetch_prot_account wallet))) (\<lambda>account.
      let (balance, version) = (case account of Some a \<Rightarrow> (pa_balance a, pa_version a) | None \<Rightarrow> (0, 0));
          hold = hold_ms ps
      in bindE (if hold > 0 \<and> balance > 0
                then bindE (dbE (on_ledger (sum_prot_credits_since wallet [KPurchase]
                       (saturating_sub now_ms hold)))) (\<lambda>sum. okE (min (max sum 0) balance))
                else okE 0) (\<lambda>held.
         bindE (dbE (on_orders (fetch_payment_orders_by_user u [Pending]))) (\<lambda>orders.
         bindE (dbE (on_ledger (fetch_prot_entries_by_account wallet None PROT_RECENT_LIMIT))) (\<lambda>entries.
         okE \<lparr>pme_balance = balance, pme_held = held, pme_version = version,
              pme_pending_order = last_opt (pending_views ProtFamily now_ms orders),
              pme_recent = map (ledger_view wallet) entries\<rparr>)))))"

section \<open>Fulfilment and reversal of Prot orders\<close>

definition purchase_applied :: "string \<Rightarrow> ('p, bool) act" where
  "purchase_applied order_id =
     bindE (dbE (on_ledger (fetch_prot_entry_by_key (prot_key_purchase order_id))))
       (\<lambda>row. okE (row \<noteq> None))"

definition purchase_posting :: "payment_order \<Rightarrow> string \<Rightarrow> int \<Rightarrow> int \<Rightarrow> prot_posting" where
  "purchase_posting order u prot now_ms =
     \<lparr>pp_key = prot_key_purchase (po_id order), pp_kind = KPurchase, pp_debit = PROT_SYS_ISSUED,
      pp_credit = prot_user_account u, pp_amount = Exact prot, pp_debit_floor = 0,
      pp_actor = PROT_ACTOR_PAYMENTS,
      pp_reference = default_prot_ref\<lparr>pr_order_id := Some (po_id order)\<rparr>,
      pp_reason = None, pp_created_at = now_ms\<rparr>"

definition apply_purchase :: "'p pay_env \<Rightarrow> payment_order \<Rightarrow> string \<Rightarrow> int \<Rightarrow> ('p, unit) act" where
  "apply_purchase env order u now_ms =
     (case sku_prot (po_sku order) of
        None \<Rightarrow> errE InternalError
      | Some prot \<Rightarrow>
          bindE (apply_posting env (purchase_posting order u prot now_ms)) (\<lambda>outcome.
          thenE (case outcome of Applied _ \<Rightarrow> publish_balance u | AlreadyApplied _ \<Rightarrow> okE ())
          (forfeit_if_deleted env u now_ms)))"

definition clawback_posting :: "string \<Rightarrow> string \<Rightarrow> int \<Rightarrow> int \<Rightarrow> prot_posting" where
  "clawback_posting order_id u amount now_ms =
     \<lparr>pp_key = prot_key_clawback order_id, pp_kind = KClawback, pp_debit = prot_user_account u,
      pp_credit = PROT_SYS_CLAWED, pp_amount = UpTo amount, pp_debit_floor = 0,
      pp_actor = PROT_ACTOR_PAYMENTS,
      pp_reference = default_prot_ref\<lparr>pr_order_id := Some order_id\<rparr>,
      pp_reason = None, pp_created_at = now_ms\<rparr>"

definition clawback_purchase :: "'p pay_env \<Rightarrow> string \<Rightarrow> string \<Rightarrow> int \<Rightarrow> ('p, unit) act" where
  "clawback_purchase env order_id u now_ms =
     bindE (dbE (on_ledger (fetch_prot_entry_by_key (prot_key_purchase order_id)))) (\<lambda>found.
     case found of
       None \<Rightarrow> okE ()
     | Some purchase \<Rightarrow>
         bindE (dbE (on_ledger (fetch_prot_entry_by_key (prot_key_clawback order_id)))) (\<lambda>clawed.
         if clawed \<noteq> None then okE ()
         else bindE (apply_posting env (clawback_posting order_id u (pl_amount purchase) now_ms)) (\<lambda>outcome.
           case outcome of Applied _ \<Rightarrow> publish_balance u | AlreadyApplied _ \<Rightarrow> okE ())))"

definition reverse_prot_fulfilled :: "'p pay_env \<Rightarrow> reverse_kind \<Rightarrow> int \<Rightarrow> ('p, reverse_outcome) lact" where
  "reverse_prot_fulfilled env kind now_ms =
     (if kind = KindDisputeOpened \<or> kind = KindDisputeWon then okE RNoOp
      else
        bindE orderL (\<lambda>order.
        thenE (case po_user_id order of
                 None \<Rightarrow> okE ()
               | Some u \<Rightarrow> liftL (clawback_purchase env (po_id order) u now_ms))
        (thenE (write_order (\<lambda>o'. o'\<lparr>po_state := Refunded, po_reversed_at := Some now_ms,
                  po_reversal_pending := None\<rparr>))
        (okE RApplied))))"

section \<open>Cipher founding Prot\<close>

definition engine_sync_cipher_prot :: "'p pay_env \<Rightarrow> prot_sales_settings \<Rightarrow> string \<Rightarrow> int \<Rightarrow> ('p, unit) act" where
  "engine_sync_cipher_prot env ps u now_ms =
     (if \<not> grants_active ps then okE ()
      else bindE (dbE (on_ledger (sync_cipher_prot (en_sha256 env) (en_ulid env) u now_ms))) (\<lambda>sync.
        case sync of
          SyncNothing \<Rightarrow> okE ()
        | SyncPosted outcome \<Rightarrow>
            thenE (case outcome of Applied _ \<Rightarrow> publish_balance u | AlreadyApplied _ \<Rightarrow> okE ())
              (forfeit_if_deleted env u now_ms)
        | SyncOverPosted posted target \<Rightarrow> okE ()))"

definition sync_after_cipher_fulfil :: "'p pay_env \<Rightarrow> string \<Rightarrow> int \<Rightarrow> ('p, unit) act" where
  "sync_after_cipher_fulfil env u now_ms =
     bindE (tryE (engine_sync_cipher_prot env (load_or_closed (en_features env) (en_protection env)) u now_ms))
       (\<lambda>_. okE ())"

definition clawback_cipher_order :: "'p pay_env \<Rightarrow> string \<Rightarrow> string \<Rightarrow> int \<Rightarrow> ('p, bool) act" where
  "clawback_cipher_order env u order_id now_ms =
     bindE (dbE (on_ledger (clawback_cipher_prot (en_sha256 env) (en_ulid env) u order_id now_ms))) (\<lambda>r.
     case r of
       Some (Applied entry) \<Rightarrow>
         thenE (whenE (pl_amount entry > 0) (publish_balance u)) (okE True)
     | Some (AlreadyApplied _) \<Rightarrow> okE False
     | None \<Rightarrow> okE False)"

definition incarnation_rows :: "cipher_membership \<Rightarrow> ('p, prot_ledger_entry list) act" where
  "incarnation_rows m =
     (case cm_orders m of
        base # _ \<Rightarrow> dbE (on_ledger (fetch_prot_entries_by_membership base))
      | [] \<Rightarrow> okE [])"

definition membership_shortfall :: "cipher_membership \<Rightarrow> ('p, int) act" where
  "membership_shortfall m = bindE (incarnation_rows m) (\<lambda>rs. okE (cipher_prot_shortfall rs))"

definition window_clawback_covered :: "cipher_membership \<Rightarrow> int \<Rightarrow> ('p, bool) act" where
  "window_clawback_covered m target_after =
     bindE (incarnation_rows m) (\<lambda>rs.
     if cipher_prot_shortfall rs > 0 then okE False
     else
       let needed = max (saturating_sub (cipher_prot_posted rs) target_after) 0 in
       if needed = 0 then okE True
       else bindE (engine_wallet_balance (cm_user_id m)) (\<lambda>balance. okE (balance \<ge> needed)))"

section \<open>Admin and account deletion\<close>

record prot_admin_order =
  pao_order_id :: string
  pao_user_id :: "string option"
  pao_sku :: sku
  pao_credited :: int
  pao_clawed_back :: int
  pao_shortfall :: int
  pao_unspent :: "int option"
  pao_membership_posted :: "int option"
  pao_membership_target :: "int option"
  pao_membership_shortfall :: "int option"

definition admin_sums :: "prot_ledger_entry list \<Rightarrow> int \<times> int \<times> int" where
  "admin_sums = foldl (\<lambda>(credited, clawed_back, shortfall) row.
     if pl_kind row \<in> {KPurchase, KCipherFounding, KCipherUpgrade}
     then (saturating_add credited (pl_amount row), clawed_back, shortfall)
     else if pl_kind row = KClawback
     then (credited, saturating_add clawed_back (pl_amount row),
           saturating_add shortfall (case pl_shortfall row of Some n \<Rightarrow> n | None \<Rightarrow> 0))
     else (credited, clawed_back, shortfall)) (0, 0, 0)"

definition admin_prot_order :: "string \<Rightarrow> ('p, prot_admin_order) act" where
  "admin_prot_order order_id =
     bindE (dbE (on_orders (fetch_payment_order order_id))) (\<lambda>found.
     case found of
       None \<Rightarrow> errE NotFound
     | Some order \<Rightarrow>
         bindE (dbE (on_ledger (fetch_prot_entries_by_order order_id))) (\<lambda>rs.
         let (credited, clawed_back, shortfall) = admin_sums rs in
         bindE (case po_user_id order of
                  Some u \<Rightarrow> bindE (engine_wallet_balance u) (\<lambda>b. okE (Some b))
                | None \<Rightarrow> okE None) (\<lambda>unspent.
         bindE (case (family (po_sku order), po_user_id order) of
                  (CipherFamily, Some u) \<Rightarrow>
                    bindE (fetch_membership u) (\<lambda>m.
                    case m of
                      None \<Rightarrow> okE (None, None, None)
                    | Some m \<Rightarrow>
                        (case cm_orders m of
                           [] \<Rightarrow> okE (None, None, None)
                         | base # _ \<Rightarrow>
                             if base \<le> order_id then
                               bindE (dbE (on_ledger (fetch_prot_entries_by_membership base))) (\<lambda>ms.
                               okE (Some (cipher_prot_posted ms), Some (cipher_prot_target m),
                                    Some (cipher_prot_shortfall ms)))
                             else okE (None, None, None)))
                | _ \<Rightarrow> okE (None, None, None)) (\<lambda>(posted, target, mshort).
         okE \<lparr>pao_order_id = po_id order, pao_user_id = po_user_id order, pao_sku = po_sku order,
              pao_credited = credited, pao_clawed_back = clawed_back, pao_shortfall = shortfall,
              pao_unspent = unspent, pao_membership_posted = posted,
              pao_membership_target = target, pao_membership_shortfall = mshort\<rparr>))))"

record data_prot_adjust =
  dpa_user :: string
  dpa_amount :: int
  dpa_nonce :: string

record prot_adjust_response =
  par_entry_id :: string
  par_balance :: int
  par_already_applied :: bool

text \<open>\<open>char::is_control\<close> on the bytes: below 32 and 127, and the two-byte forms of U+0080 to
  U+009F.\<close>

definition ascii_control :: "char \<Rightarrow> bool" where
  "ascii_control c \<longleftrightarrow> (of_char c :: nat) < 32 \<or> (of_char c :: nat) = 127"

fun has_control :: "string \<Rightarrow> bool" where
  "has_control [] = False"
| "has_control [c] = ascii_control c"
| "has_control (c # d # s) =
     (ascii_control c
      \<or> (of_char c :: nat) = 194 \<and> 128 \<le> (of_char d :: nat) \<and> (of_char d :: nat) \<le> 159
      \<or> has_control (d # s))"

definition adjust_posting :: "string \<Rightarrow> data_prot_adjust \<Rightarrow> string \<Rightarrow> int \<Rightarrow> prot_posting" where
  "adjust_posting admin_id data reason now_ms =
     (let wallet = prot_user_account (dpa_user data);
          (debit, credit, amount) =
            (if dpa_amount data > 0 then (PROT_SYS_ADJUST, wallet, dpa_amount data)
             else (wallet, PROT_SYS_ADJUST, - dpa_amount data))
      in \<lparr>pp_key = prot_key_admin admin_id (dpa_nonce data), pp_kind = KAdminAdjust,
          pp_debit = debit, pp_credit = credit, pp_amount = Exact amount, pp_debit_floor = 0,
          pp_actor = admin_id, pp_reference = default_prot_ref, pp_reason = Some reason,
          pp_created_at = now_ms\<rparr>)"

definition admin_prot_adjust ::
    "'p pay_env \<Rightarrow> string \<Rightarrow> data_prot_adjust \<Rightarrow> string \<Rightarrow> int \<Rightarrow> ('p, prot_adjust_response) act" where
  "admin_prot_adjust env admin_id data reason now_ms =
     (if dpa_amount data = 0 \<or> \<bar>dpa_amount data\<bar> > PROT_ADJUST_MAX
      then errE (FailedValidation ''amount must be non-zero and at most 1000000 either way'')
      else if dpa_nonce data = [] \<or> length (dpa_nonce data) > PROT_ADJUST_NONCE_MAX
              \<or> has_control (dpa_nonce data)
      then errE (FailedValidation ''nonce must be 1 to 64 printable bytes'')
      else
        bindE (apply_posting env (adjust_posting admin_id data reason now_ms)) (\<lambda>outcome.
        let applied = (case outcome of Applied _ \<Rightarrow> True | AlreadyApplied _ \<Rightarrow> False) in
        thenE (whenE applied (publish_balance (dpa_user data)))
        (thenE (whenE (dpa_amount data > 0) (forfeit_if_deleted env (dpa_user data) now_ms))
        (bindE (engine_wallet_balance (dpa_user data)) (\<lambda>balance.
         okE \<lparr>par_entry_id = pl_id (outcome_entry outcome), par_balance = balance,
              par_already_applied = (\<not> applied)\<rparr>)))))"

definition forfeit_wallet_on_deletion :: "'p pay_env \<Rightarrow> string \<Rightarrow> int \<Rightarrow> ('p, unit) act" where
  "forfeit_wallet_on_deletion env u now_ms = bindE (engine_forfeit env u now_ms) (\<lambda>_. okE ())"

end
