(* ===== verification/Engine_Reverse.thy ===== *)
theory Engine_Reverse
  imports Engine_Prot
begin

text \<open>
  Reversals (\<open>engine.rs\<close>, from \<open>reverse_order\<close> to \<open>finish_number_release\<close>): refunds and
  disputes of an order at any point of its life, the 14-day refund that undoes a purchase, and
  the release of a Cipher number. The two pure readings of Stripe's data they rely on,
  \<open>dispute_kind\<close> and \<open>refund_facts\<close>, are from \<open>dispatch.rs\<close>.
\<close>

section \<open>Reading Stripe's data\<close>

definition dispute_kind :: "string option \<Rightarrow> reverse_kind" where
  "dispute_kind status =
     (case status of
        Some s \<Rightarrow>
          if s = ''lost'' then KindDisputeLost
          else if s = ''won'' \<or> s = ''warning_closed'' \<or> s = ''prevented'' then KindDisputeWon
          else KindDisputeOpened
      | None \<Rightarrow> KindDisputeOpened)"

definition refund_settled :: "refund \<Rightarrow> bool" where
  "refund_settled r \<longleftrightarrow>
     rf_status r = Some ''succeeded'' \<or> rf_status r = Some ''failed'' \<or> rf_status r = Some ''canceled''"

text \<open>The sum of the amounts, none when one is missing.\<close>

fun sum_amounts :: "int \<Rightarrow> refund list \<Rightarrow> int option" where
  "sum_amounts acc [] = Some acc"
| "sum_amounts acc (r # rs) =
     (case rf_amount r of None \<Rightarrow> None | Some a \<Rightarrow> sum_amounts (saturating_add acc a) rs)"

definition max_or :: "int \<Rightarrow> int list \<Rightarrow> int" where
  "max_or d xs = (case xs of [] \<Rightarrow> d | y # ys \<Rightarrow> foldl max y ys)"

definition refund_facts_of :: "refund list \<Rightarrow> int \<Rightarrow> int \<Rightarrow> int \<Rightarrow> refund_facts option" where
  "refund_facts_of refunds amount_cents event_created now_ms =
     (if refunds = [] then None
      else
        let succeeded = filter (\<lambda>r. rf_status r = Some ''succeeded'') refunds;
            unsettled = list_ex (\<lambda>r. \<not> refund_settled r) refunds;
            status = (if unsettled then RefundPending
                      else if succeeded = [] then RefundFailed else RefundSucceeded);
            full = (amount_cents > 0
                    \<and> is_some_and (\<lambda>sum. sum \<ge> amount_cents) (sum_amounts 0 succeeded));
            made_at = max_or event_created
              (map (\<lambda>r. case rf_created r of Some c \<Rightarrow> c | None \<Rightarrow> event_created) succeeded)
        in Some \<lparr>rfa_refunded_at_ms = min (saturating_mul made_at 1000) now_ms,
                 rfa_full = full, rfa_status = status\<rparr>)"

definition current_dispute_kind ::
    "'p pay_env \<Rightarrow> payments_settings \<Rightarrow> payment_order \<Rightarrow> string \<Rightarrow> ('p, reverse_kind) act" where
  "current_dispute_kind env s order dispute_id =
     bindE (get_dispute env dispute_id) (\<lambda>r.
     case r of
       Inl _ \<Rightarrow> errE PaymentProviderError
     | Inr dispute \<Rightarrow>
         if dp_id dispute \<noteq> dispute_id then errE PaymentProviderError
         else (case dp_payment_intent dispute of
           None \<Rightarrow> errE PaymentProviderError
         | Some disputed \<Rightarrow>
             (case po_payment_intent_id order of
                Some paid_by \<Rightarrow>
                  if paid_by = disputed then okE (dispute_kind (dp_status dispute))
                  else errE PaymentProviderError
              | None \<Rightarrow>
                  bindE (get_payment_intent env disputed) (\<lambda>r2.
                  case r2 of
                    Inl _ \<Rightarrow> errE PaymentProviderError
                  | Inr intent \<Rightarrow>
                      if pi_id intent \<noteq> disputed \<or> pi_livemode intent \<noteq> set_expect_livemode s
                         \<or> pi_metadata_order_id intent \<noteq> Some (po_id order)
                      then errE PaymentProviderError
                      else okE (dispute_kind (dp_status dispute))))))"

section \<open>Recording\<close>

definition mark_refunded :: "int \<Rightarrow> ('p, unit) lact" where
  "mark_refunded now_ms =
     write_order (\<lambda>o'. o'\<lparr>po_state := Refunded, po_reversed_at := Some now_ms,
       po_reversal_pending := None, po_refund_settling_since := None\<rparr>)"

definition no_membership_to_reverse :: "('p, reverse_outcome) lact" where
  "no_membership_to_reverse =
     bindE orderL (\<lambda>order.
     thenE (whenE (po_reversal_pending order \<noteq> None) (write_order (\<lambda>o'. o'\<lparr>po_reversal_pending := None\<rparr>)))
     (okE RNoOp))"

definition unlisted_reversal :: "'p pay_env \<Rightarrow> reverse_kind \<Rightarrow> string \<Rightarrow> int \<Rightarrow> ('p, reverse_outcome) lact" where
  "unlisted_reversal env kind u now_ms =
     (if \<not> (kind = KindRefund \<or> kind = KindDisputeLost) then no_membership_to_reverse
      else
        bindE orderL (\<lambda>order.
        thenE (liftL (clawback_cipher_order env u (po_id order) now_ms))
        (thenE (liftL (sync_user_badge u))
        (thenE (write_order (\<lambda>o'. o'\<lparr>po_state := Refunded, po_reversed_at := Some now_ms,
                  po_reversal_pending := None\<rparr>))
        (okE RNoOp)))))"

definition dispute_lost_after_refund :: "('p, reverse_outcome) lact" where
  "dispute_lost_after_refund =
     bindE orderL (\<lambda>order.
     case po_user_id order of
       None \<Rightarrow> okE RNoOp
     | Some u \<Rightarrow>
         retryE MEMBERSHIP_RETRIES
           (bindE (liftL (fetch_membership u)) (\<lambda>found.
            case found of
              None \<Rightarrow> okE (Some RNoOp)
            | Some m \<Rightarrow>
                if po_id order \<notin> set (cm_orders m) \<or> cm_revoke_reason m \<noteq> Some RevokeRefund
                then okE (Some RNoOp)
                else
                  bindE (liftL (dbE (on_memberships (update_cipher_membership_if_version
                    (m\<lparr>cm_revoke_reason := Some RevokeDisputeLost\<rparr>) (cm_version m)))))
                  (\<lambda>b. okE (if b then Some RApplied else None))))
           (errE InternalError))"

definition pending_after :: "payment_order \<Rightarrow> reverse_kind \<Rightarrow> reversal_pending option" where
  "pending_after order kind =
     (case kind of
        KindRefund \<Rightarrow>
          (case po_reversal_pending order of Some p \<Rightarrow> Some p | None \<Rightarrow> Some PendingRefund)
      | KindDisputeLost \<Rightarrow> Some PendingDisputeLost
      | _ \<Rightarrow> po_reversal_pending order)"

definition record_before_fulfilment :: "reverse_kind \<Rightarrow> string option \<Rightarrow> ('p, reverse_outcome) lact" where
  "record_before_fulfilment kind dispute =
     bindE orderL (\<lambda>order.
     let pending = pending_after order kind;
         open' = disputes_after order kind dispute
     in thenE (whenE (pending \<noteq> po_reversal_pending order \<or> open' \<noteq> po_open_disputes order)
                (write_order (\<lambda>o'. o'\<lparr>po_reversal_pending := pending, po_open_disputes := open'\<rparr>)))
        (bindE orderL (\<lambda>order'.
         thenE (case po_user_id order' of
                  None \<Rightarrow> okE ()
                | Some u \<Rightarrow>
                    bindE (liftL (set_dispute_listing u (po_id order') (is_disputed order'))) (\<lambda>listed.
                    whenE listed (liftL (sync_user_badge u))))
         (okE RRecordedPending))))"

section \<open>The 14-day refund\<close>

datatype window_refund = Downgrade cipher_tier | Release | RefundOnly

definition window_refund_plan_cipher ::
    "payment_order \<Rightarrow> cipher_membership \<Rightarrow> refund_facts option \<Rightarrow> ('p, window_refund option) act" where
  "window_refund_plan_cipher order m refund =
     (if po_id order \<notin> set (cm_orders m) then okE None
      else (case refund of
        None \<Rightarrow> okE None
      | Some facts \<Rightarrow>
          if \<not> rfa_full facts then okE None
          else if cm_prot_posted_at m \<noteq> None then okE None
          else if is_disputed order then okE None
          else (case po_paid_at order of
            None \<Rightarrow> okE None
          | Some paid_at \<Rightarrow>
              if saturating_sub (rfa_refunded_at_ms facts) paid_at
                 > REFUND_RELEASE_WINDOW_MS + REFUND_GRACE_MS
              then okE None
              else (case po_sku order of
                CipherUpgrade from to \<Rightarrow>
                  if \<not> is_active m then okE None
                  else if cm_tier m \<noteq> to \<or> last_opt (cm_orders m) \<noteq> Some (po_id order)
                  then okE (Some RefundOnly)
                  else okE (Some (Downgrade from))
              | CipherNew _ \<Rightarrow>
                  if cm_disputed_orders m \<noteq> []
                     \<or> (\<not> is_active m \<and> cm_revoke_reason m \<noteq> Some RevokeRefund)
                  then okE None
                  else
                    bindE (dbE (on_numbers (fetch_cipher_number_by_order (po_id order)))) (\<lambda>held.
                    okE (if held = Some (cm_number m) then Some Release else None))
              | _ \<Rightarrow> okE None))))"

definition window_refund_plan ::
    "payment_order \<Rightarrow> cipher_membership \<Rightarrow> refund_facts option \<Rightarrow> ('p, window_refund option) act" where
  "window_refund_plan order m refund =
     bindE (window_refund_plan_cipher order m refund) (\<lambda>plan.
     let covered = (\<lambda>target.
           bindE (window_clawback_covered m target) (\<lambda>ok. okE (if ok then plan else None)))
     in case plan of
          Some (Downgrade from) \<Rightarrow> covered (tier_prot from)
        | Some Release \<Rightarrow> covered 0
        | Some RefundOnly \<Rightarrow> okE plan
        | None \<Rightarrow> okE plan)"

section \<open>Releasing a number\<close>

definition log_upgrades_left_unrefunded :: "payment_order \<Rightarrow> ('p, unit) act" where
  "log_upgrades_left_unrefunded released =
     (case po_user_id released of
        None \<Rightarrow> okE ()
      | Some u \<Rightarrow>
          bindE (dbE (on_orders (fetch_payment_orders_by_user u [Paid, Fulfilled]))) (\<lambda>_. okE ()))"

definition keep_number_retired :: "int \<Rightarrow> ('p, reverse_outcome) lact" where
  "keep_number_retired now_ms =
     bindE orderL (\<lambda>order.
     thenE (whenE (po_state order = Fulfilled) (mark_refunded now_ms))
     (thenE (liftL (dbE (on_numbers (cancel_cipher_number_release (po_id order)))))
     (okE RApplied)))"

definition refunded_in_full :: "'p pay_env \<Rightarrow> string \<Rightarrow> int \<Rightarrow> ('p, bool) act" where
  "refunded_in_full env pi amount_cents =
     bindE (list_refunds env pi) (\<lambda>r.
     case r of
       Inr refunds \<Rightarrow> okE (is_some_and rfa_full (refund_facts_of refunds amount_cents 0 0))
     | Inl _ \<Rightarrow> okE False)"

definition record_upgrade_refunded :: "string \<Rightarrow> int \<Rightarrow> ('p, bool) act" where
  "record_upgrade_refunded order_id now_ms =
     with_lease order_id now_ms False
       (bindE orderL (\<lambda>order.
        if po_state order = Refunded \<or> po_state order = Voided then okE True
        else thenE (mark_refunded now_ms) (okE True)))"

definition refund_upgrade :: "'p pay_env \<Rightarrow> string \<Rightarrow> payment_order \<Rightarrow> string \<Rightarrow> int \<Rightarrow> ('p, bool) act" where
  "refund_upgrade env order_id upgrade pi now_ms =
     bindE (tryE (ask_refund env pi (release_upgrade_key order_id))) (\<lambda>asked.
     case asked of
       Inr AskDone \<Rightarrow> record_upgrade_refunded order_id now_ms
     | Inr AskAlreadyRefunded \<Rightarrow>
         bindE (refunded_in_full env pi (po_amount_cents upgrade)) (\<lambda>full.
         if full then record_upgrade_refunded order_id now_ms else okE False)
     | _ \<Rightarrow> okE False)"

fun refund_upgrades_loop :: "'p pay_env \<Rightarrow> int \<Rightarrow> string list \<Rightarrow> bool \<Rightarrow> ('p, bool) act" where
  "refund_upgrades_loop env now_ms [] waiting = okE (\<not> waiting)"
| "refund_upgrades_loop env now_ms (order_id # ids) waiting =
     bindE (dbE (on_orders (fetch_payment_order order_id))) (\<lambda>found.
     case found of
       None \<Rightarrow> refund_upgrades_loop env now_ms ids waiting
     | Some upgrade \<Rightarrow>
         if po_state upgrade = Refunded \<or> po_state upgrade = Voided
         then refund_upgrades_loop env now_ms ids waiting
         else (case po_payment_intent_id upgrade of
           None \<Rightarrow> refund_upgrades_loop env now_ms ids True
         | Some pi \<Rightarrow>
             if is_disputed upgrade then refund_upgrades_loop env now_ms ids True
             else bindE (refund_upgrade env order_id upgrade pi now_ms) (\<lambda>recorded.
               refund_upgrades_loop env now_ms ids (waiting \<or> \<not> recorded))))"

definition refund_release_upgrades :: "'p pay_env \<Rightarrow> cipher_membership \<Rightarrow> string \<Rightarrow> int \<Rightarrow> ('p, bool) act" where
  "refund_release_upgrades env m released_by now_ms =
     refund_upgrades_loop env now_ms (filter (\<lambda>i. i \<noteq> released_by) (cm_orders m)) False"

text \<open>One pass over the membership of the order whose number is released: \<open>Some None\<close> once the
  row is gone, \<open>Some (Some outcome)\<close> to stop with an outcome, \<open>None\<close> to read the row again.\<close>

definition release_pass :: "'p pay_env \<Rightarrow> string \<Rightarrow> int \<Rightarrow> ('p, reverse_outcome option option) lact" where
  "release_pass env u now_ms =
     bindE orderL (\<lambda>order.
     let order_id = po_id order in
     bindE (liftL (fetch_membership u)) (\<lambda>found.
     case found of
       None \<Rightarrow> okE (Some None)
     | Some m \<Rightarrow>
         if order_id \<notin> set (cm_orders m) then
           thenE (liftL (log_upgrades_left_unrefunded order)) (okE (Some None))
         else if is_active m then
           bindE (liftL (dbE (on_memberships (update_cipher_membership_if_version
             (m\<lparr>cm_revoked_at := Some now_ms, cm_revoke_reason := Some RevokeRefund\<rparr>) (cm_version m)))))
             (\<lambda>b. thenE (whenE b (liftL (sync_user_badge u))) (okE None))
         else
           bindE (liftL (clawback_cipher_order env u order_id now_ms)) (\<lambda>clawed.
           if clawed then okE None
           else
             bindE (if cm_prot_posted_at m \<noteq> None then okE True
                    else bindE (liftL (membership_shortfall m)) (\<lambda>short.
                      okE (short > 0 \<or> cm_revoke_reason m \<noteq> Some RevokeRefund
                           \<or> cm_disputed_orders m \<noteq> [] \<or> is_disputed order))) (\<lambda>keep.
             if keep then
               bindE (keep_number_retired now_ms) (\<lambda>outcome. okE (Some (Some outcome)))
             else
               thenE (write_order (\<lambda>o'. o'))
               (bindE (liftL (refund_release_upgrades env m order_id now_ms)) (\<lambda>done.
                if \<not> done then okE (Some (Some RRecordedPending))
                else
                  thenE (write_order (\<lambda>o'. o'))
                  (bindE (liftL (dbE (on_memberships
                     (delete_cipher_membership_if_version u (cm_version m))))) (\<lambda>gone.
                   okE (if gone then Some None else None)))))))))"

definition finish_number_release_locked :: "'p pay_env \<Rightarrow> int \<Rightarrow> ('p, reverse_outcome option) lact" where
  "finish_number_release_locked env now_ms =
     bindE orderL (\<lambda>order.
     case po_sku order of
       CipherNew _ \<Rightarrow>
         bindE (liftL (dbE (on_numbers (fetch_cipher_number_row_by_order (po_id order))))) (\<lambda>found.
         case found of
           None \<Rightarrow> okE None
         | Some row \<Rightarrow>
             if cn_release_pending_at row = None then okE None
             else
               bindE (case po_user_id order of
                        None \<Rightarrow> okE None
                      | Some u \<Rightarrow>
                          bindE (retryE MEMBERSHIP_RETRIES (release_pass env u now_ms) (errE InternalError))
                            (\<lambda>stop. case stop of
                               Some outcome \<Rightarrow> okE (Some outcome)
                             | None \<Rightarrow> thenE (liftL (sync_user_badge u)) (okE None))) (\<lambda>stop.
               case stop of
                 Some outcome \<Rightarrow> okE (Some outcome)
               | None \<Rightarrow>
                   bindE orderL (\<lambda>order'.
                   thenE (whenE (po_state order' = Fulfilled) (mark_refunded now_ms))
                   (bindE (liftL (dbE (on_memberships (fetch_cipher_membership_by_number (cn_number row)))))
                     (\<lambda>holder.
                      if holder \<noteq> None then errE InternalError
                      else thenE (liftL (dbE (on_numbers (release_cipher_number (po_id order)))))
                        (okE (Some RApplied)))))))
     | _ \<Rightarrow> okE None)"

definition finish_number_release :: "'p pay_env \<Rightarrow> string \<Rightarrow> int \<Rightarrow> ('p, reverse_outcome) act" where
  "finish_number_release env order_id now_ms =
     with_lease order_id now_ms RBusy
       (bindE (finish_number_release_locked env now_ms) (\<lambda>outcome.
        okE (case outcome of Some r \<Rightarrow> r | None \<Rightarrow> RNoOp)))"

definition drop_release_for_lost_dispute :: "('p, unit) lact" where
  "drop_release_for_lost_dispute =
     bindE orderL (\<lambda>order.
     bindE (liftL (dbE (on_numbers (fetch_cipher_number_row_by_order (po_id order))))) (\<lambda>row.
     if \<not> is_some_and (\<lambda>row. cn_release_pending_at row \<noteq> None) row then okE ()
     else thenE (write_order (\<lambda>o'. o'))
       (thenE (liftL (dbE (on_numbers (cancel_cipher_number_release (po_id order))))) (okE ()))))"

section \<open>Refunds inside the window\<close>

text \<open>One attempt: \<open>Some\<close> to return, \<open>None\<close> to read the membership again.\<close>

definition window_attempt ::
    "'p pay_env \<Rightarrow> string \<Rightarrow> refund_facts option \<Rightarrow> int \<Rightarrow> ('p, reverse_outcome option option) lact" where
  "window_attempt env u refund now_ms =
     bindE orderL (\<lambda>order.
     let order_id = po_id order in
     bindE (liftL (fetch_membership u)) (\<lambda>found.
     case found of
       None \<Rightarrow> okE (Some None)
     | Some m \<Rightarrow>
         bindE (liftL (window_refund_plan order m refund)) (\<lambda>plan.
         case plan of
           None \<Rightarrow> okE (Some None)
         | Some RefundOnly \<Rightarrow> thenE (mark_refunded now_ms) (okE (Some (Some RNoOp)))
         | Some Release \<Rightarrow>
             thenE (write_order (\<lambda>o'. o'))
             (bindE (liftL (dbE (on_numbers (mark_cipher_number_release order_id now_ms)))) (\<lambda>marked.
              if \<not> marked then okE (Some None)
              else bindE (finish_number_release_locked env now_ms) (\<lambda>outcome. okE (Some outcome))))
         | Some (Downgrade from) \<Rightarrow>
             bindE (liftL (dbE (on_memberships (update_cipher_membership_if_version
               (m\<lparr>cm_tier := from, cm_prot_grant := tier_prot from,
                  cm_orders := filter (\<lambda>i. i \<noteq> order_id) (cm_orders m),
                  cm_disputed_orders := filter (\<lambda>i. i \<noteq> order_id) (cm_disputed_orders m)\<rparr>)
               (cm_version m))))) (\<lambda>b.
             if \<not> b then okE None
             else
               thenE (liftL (clawback_cipher_order env u order_id now_ms))
               (thenE (liftL (sync_user_badge u))
               (thenE (mark_refunded now_ms)
               (okE (Some (Some RApplied)))))))))"

definition refund_within_window ::
    "'p pay_env \<Rightarrow> string \<Rightarrow> refund_facts option \<Rightarrow> int \<Rightarrow> ('p, reverse_outcome option) lact" where
  "refund_within_window env u refund now_ms =
     retryE MEMBERSHIP_RETRIES (window_attempt env u refund now_ms) (errE InternalError)"

section \<open>Reversing a fulfilled order\<close>

definition reversed_membership ::
    "reverse_kind \<Rightarrow> string \<Rightarrow> bool \<Rightarrow> int \<Rightarrow> cipher_membership \<Rightarrow> cipher_membership" where
  "reversed_membership kind order_id listed now_ms m =
     (let m1 = (if (kind = KindRefund \<or> kind = KindDisputeLost) \<and> is_active m
                then m\<lparr>cm_revoked_at := Some now_ms,
                       cm_revoke_reason := Some (if kind = KindRefund then RevokeRefund else RevokeDisputeLost)\<rparr>
                else m);
          m2 = (if kind = KindDisputeLost \<and> cm_revoke_reason m1 = Some RevokeRefund
                then m1\<lparr>cm_revoke_reason := Some RevokeDisputeLost\<rparr> else m1);
          was_listed = (order_id \<in> set (cm_disputed_orders m2))
      in if kind = KindRefund then m2
         else if listed \<and> \<not> was_listed
         then m2\<lparr>cm_disputed_orders := cm_disputed_orders m2 @ [order_id]\<rparr>
         else if \<not> listed \<and> was_listed
         then m2\<lparr>cm_disputed_orders := filter (\<lambda>i. i \<noteq> order_id) (cm_disputed_orders m2)\<rparr>
         else m2)"

text \<open>One attempt at the membership: \<open>Some None\<close> once settled, \<open>Some (Some outcome)\<close> when no
  membership lists the order.\<close>

definition revoke_attempt ::
    "'p pay_env \<Rightarrow> reverse_kind \<Rightarrow> string \<Rightarrow> bool \<Rightarrow> int \<Rightarrow> ('p, reverse_outcome option option) lact" where
  "revoke_attempt env kind u listed now_ms =
     bindE orderL (\<lambda>order.
     let order_id = po_id order in
     bindE (liftL (fetch_membership u)) (\<lambda>found.
     case found of
       None \<Rightarrow> bindE (unlisted_reversal env kind u now_ms) (\<lambda>outcome. okE (Some (Some outcome)))
     | Some m \<Rightarrow>
         if order_id \<notin> set (cm_orders m) then
           bindE (unlisted_reversal env kind u now_ms) (\<lambda>outcome. okE (Some (Some outcome)))
         else
           let next = reversed_membership kind order_id listed now_ms m in
           if next = m then okE (Some None)
           else bindE (liftL (dbE (on_memberships
                  (update_cipher_membership_if_version next (cm_version m)))))
                (\<lambda>b. okE (if b then Some None else None))))"

definition revoke_fulfilled ::
    "'p pay_env \<Rightarrow> reverse_kind \<Rightarrow> string \<Rightarrow> int \<Rightarrow> ('p, reverse_outcome) lact" where
  "revoke_fulfilled env kind u now_ms =
     bindE orderL (\<lambda>order.
     let order_id = po_id order;
         takes_back = (kind = KindRefund \<or> kind = KindDisputeLost);
         listed = (if kind = KindDisputeLost then po_open_disputes order \<noteq> [] else is_disputed order)
     in bindE (retryE MEMBERSHIP_RETRIES (revoke_attempt env kind u listed now_ms) (errE InternalError))
       (\<lambda>stop. case stop of
          Some outcome \<Rightarrow> okE outcome
        | None \<Rightarrow>
            thenE (whenE takes_back (bindE (liftL (clawback_cipher_order env u order_id now_ms)) (\<lambda>_. okE ())))
            (thenE (liftL (sync_user_badge u))
            (thenE (whenE takes_back (write_order (\<lambda>o'. o'\<lparr>po_state := Refunded,
                      po_reversed_at := Some now_ms, po_reversal_pending := None\<rparr>)))
            (okE RApplied)))))"

definition reverse_fulfilled ::
    "'p pay_env \<Rightarrow> reverse_kind \<Rightarrow> string option \<Rightarrow> refund_facts option \<Rightarrow> int \<Rightarrow> ('p, reverse_outcome) lact" where
  "reverse_fulfilled env kind dispute refund now_ms =
     bindE orderL (\<lambda>order.
     let open' = disputes_after order kind dispute in
     thenE (whenE (open' \<noteq> po_open_disputes order)
              (write_order (\<lambda>o'. o'\<lparr>po_open_disputes := open'\<rparr>)))
     (if family (po_sku order) = ProtFamily then reverse_prot_fulfilled env kind now_ms
      else
        thenE (whenE (kind = KindDisputeLost) drop_release_for_lost_dispute)
        (bindE (finish_number_release_locked env now_ms) (\<lambda>released.
         case released of
           Some outcome \<Rightarrow> okE outcome
         | None \<Rightarrow>
             (case po_user_id order of
                None \<Rightarrow> no_membership_to_reverse
              | Some u \<Rightarrow>
                  bindE (if kind = KindRefund then refund_within_window env u refund now_ms else okE None)
                    (\<lambda>undone. case undone of
                       Some outcome \<Rightarrow> okE outcome
                     | None \<Rightarrow> revoke_fulfilled env kind u now_ms))))))"

definition reverse_locked ::
    "'p pay_env \<Rightarrow> reverse_kind \<Rightarrow> string option \<Rightarrow> refund_facts option \<Rightarrow> int \<Rightarrow> ('p, reverse_outcome) lact" where
  "reverse_locked env kind dispute refund now_ms =
     (if dispute = None \<and> (kind = KindDisputeOpened \<or> kind = KindDisputeWon) then errE InternalError
      else
        bindE orderL (\<lambda>order.
        case po_state order of
          Refunded \<Rightarrow> if kind = KindDisputeLost then dispute_lost_after_refund else okE RNoOp
        | Voided \<Rightarrow> okE RNoOp
        | Fulfilled \<Rightarrow> reverse_fulfilled env kind dispute refund now_ms
        | _ \<Rightarrow> record_before_fulfilment kind dispute))"

section \<open>Entry points\<close>

definition reverse_order ::
    "'p pay_env \<Rightarrow> string \<Rightarrow> reverse_kind \<Rightarrow> refund_facts option \<Rightarrow> int \<Rightarrow> ('p, reverse_outcome) act" where
  "reverse_order env order_id kind refund now_ms =
     (if is_some_and (\<lambda>facts. rfa_status facts \<noteq> RefundSucceeded) refund then okE RNoOp
      else
        with_lease order_id now_ms RBusy
          (bindE (reverse_locked env kind None refund now_ms) (\<lambda>done.
           bindE orderL (\<lambda>order.
           thenE (whenE (kind = KindRefund \<and> po_refund_settling_since order \<noteq> None)
                    (write_order (\<lambda>o'. o'\<lparr>po_refund_settling_since := None\<rparr>)))
           (okE done)))))"

definition mark_refund_settling :: "string \<Rightarrow> int \<Rightarrow> ('p, reverse_outcome) act" where
  "mark_refund_settling order_id now_ms =
     with_lease order_id now_ms RBusy
       (bindE orderL (\<lambda>order.
        if po_state order = Voided \<or> po_state order = Refunded then okE RNoOp
        else if po_refund_settling_since order \<noteq> None then okE RRecordedPending
        else thenE (write_order (\<lambda>o'. o'\<lparr>po_refund_settling_since := Some now_ms\<rparr>))
          (okE RRecordedPending)))"

definition clear_refund_settling :: "string \<Rightarrow> int \<Rightarrow> ('p, reverse_outcome) act" where
  "clear_refund_settling order_id now_ms =
     with_lease order_id now_ms RBusy
       (bindE orderL (\<lambda>order.
        thenE (whenE (po_refund_settling_since order \<noteq> None)
                 (write_order (\<lambda>o'. o'\<lparr>po_refund_settling_since := None\<rparr>)))
        (okE RNoOp)))"

definition reverse_dispute ::
    "'p pay_env \<Rightarrow> payments_settings \<Rightarrow> string \<Rightarrow> string \<Rightarrow> int \<Rightarrow> ('p, reverse_outcome) act" where
  "reverse_dispute env s order_id dispute_id now_ms =
     with_lease order_id now_ms RBusy
       (bindE orderL (\<lambda>order.
        bindE (liftL (current_dispute_kind env s order dispute_id)) (\<lambda>kind.
        reverse_locked env kind (Some dispute_id) None now_ms)))"

fun recheck_loop :: "'p pay_env \<Rightarrow> payments_settings \<Rightarrow> int \<Rightarrow> string list \<Rightarrow> ('p, unit) lact" where
  "recheck_loop env s now_ms [] = okE ()"
| "recheck_loop env s now_ms (dispute_id # ids) =
     bindE orderL (\<lambda>order.
     if po_state order = Voided \<or> po_state order = Refunded then okE ()
     else
       bindE (liftL (current_dispute_kind env s order dispute_id)) (\<lambda>kind.
       thenE (reverse_locked env kind (Some dispute_id) None now_ms)
       (recheck_loop env s now_ms ids)))"

definition recheck_open_disputes :: "'p pay_env \<Rightarrow> payments_settings \<Rightarrow> int \<Rightarrow> ('p, unit) lact" where
  "recheck_open_disputes env s now_ms =
     bindE orderL (\<lambda>order. recheck_loop env s now_ms (po_open_disputes order))"

definition recheck_disputes :: "'p pay_env \<Rightarrow> payments_settings \<Rightarrow> string \<Rightarrow> int \<Rightarrow> ('p, reverse_outcome) act" where
  "recheck_disputes env s order_id now_ms =
     with_lease order_id now_ms RBusy
       (bindE orderL (\<lambda>before.
        thenE (recheck_open_disputes env s now_ms)
        (bindE orderL (\<lambda>after.
         okE (if po_state after \<noteq> po_state before \<or> po_open_disputes after \<noteq> po_open_disputes before
              then RApplied else RNoOp)))))"

end
