(* ===== verification/Engine_Fulfil.thy ===== *)
theory Engine_Fulfil
  imports Engine_Reverse
begin

text \<open>
  Fulfilment (\<open>engine.rs\<close>, from \<open>fulfil_order\<close> to \<open>void_for_region\<close>): what happens to an order
  whose checkout session Stripe reports as completed. The payment is recorded, every reason not
  to hand the product over is checked in the code's order, and the order ends Fulfilled, or
  Voided with its payment refunded, or stays Paid to be resumed.

  \<open>fulfil_locked\<close> is one function in the source. Here it is cut at its own comments into
  \<open>fulfil_payable\<close> (is the session the order's, and was it paid), \<open>fulfil_paid\<close> (reasons to
  void that concern the order and its buyer), \<open>apply_order\<close> (the region, the preconditions and
  the product) and \<open>finish_fulfilment\<close> (the badge and the final write).
\<close>

section \<open>Voiding a paid order\<close>

definition void_paid :: "'p pay_env \<Rightarrow> void_reason \<Rightarrow> int \<Rightarrow> ('p, fulfil_outcome) lact" where
  "void_paid env reason now_ms =
     bindE orderL (\<lambda>order.
     let lost = (po_reversal_pending order = Some PendingDisputeLost) in
     if \<not> lost \<and> po_open_disputes order \<noteq> [] then okE (FVoidDeferred reason)
     else
       thenE (if lost then okE ()
              else (case po_payment_intent_id order of
                None \<Rightarrow> errE InternalError
              | Some payment_intent \<Rightarrow>
                  let previous = po_void_reason order;
                      marked_now = (previous \<noteq> Some reason)
                  in thenE (whenE marked_now (write_order (\<lambda>o'. o'\<lparr>po_void_reason := Some reason\<rparr>)))
                    (bindE (liftL (refund_for_void env payment_intent (po_id order))) (\<lambda>refunded.
                     if refunded then okE ()
                     else
                       thenE (whenE marked_now (write_order (\<lambda>o'. o'\<lparr>po_void_reason := previous,
                                po_region_blocked_country := None\<rparr>)))
                       (errE PaymentProviderError)))))
       (thenE (write_order (\<lambda>o'. o'\<lparr>po_state := Voided, po_void_reason := Some reason,
                 po_reversed_at := Some now_ms, po_reversal_pending := None\<rparr>))
       (okE (FVoided reason))))"

definition void_for_deleted_account ::
    "'p pay_env \<Rightarrow> string option \<Rightarrow> int \<Rightarrow> ('p, fulfil_outcome) lact" where
  "void_for_deleted_account env buyer now_ms =
     bindE orderL (\<lambda>order.
     thenE (case buyer of
              None \<Rightarrow> okE ()
            | Some u \<Rightarrow>
                bindE (if family (po_sku order) = ProtFamily then liftL (purchase_applied (po_id order))
                       else okE False) (\<lambda>credited.
                thenE (whenE credited (liftL (clawback_purchase env (po_id order) u now_ms)))
                (bindE (liftL (fetch_membership u)) (\<lambda>m.
                 whenE (is_some_and (\<lambda>m. po_id order \<in> set (cm_orders m)) m)
                   (liftL (dbE (on_memberships (delete_cipher_membership u))))))))
     (void_paid env VoidAccountDeleted now_ms))"

definition note_region :: "string \<Rightarrow> ('p, unit) lact" where
  "note_region country = (\<lambda>(l, w).
     (Inr (), (l\<lparr>le_order := (le_order l)\<lparr>po_region_blocked_country := Some country\<rparr>\<rparr>, w)))"

definition void_for_region :: "'p pay_env \<Rightarrow> string \<Rightarrow> int \<Rightarrow> ('p, fulfil_outcome) lact" where
  "void_for_region env country now_ms =
     thenE (note_region country) (void_paid env VoidRegionUnavailable now_ms)"

section \<open>Recording the payment\<close>

definition record_payment :: "checkout_session \<Rightarrow> string \<Rightarrow> int \<Rightarrow> payment_order \<Rightarrow> payment_order" where
  "record_payment session payment_intent now_ms o' =
     o'\<lparr>po_payment_intent_id := Some payment_intent, po_paid_at := Some now_ms,
        po_checkout_session_id :=
          (case po_checkout_session_id o' of None \<Rightarrow> Some (cs_id session) | Some i \<Rightarrow> Some i)\<rparr>"

definition mark_paid :: "checkout_session \<Rightarrow> string \<Rightarrow> int \<Rightarrow> ('p, unit) lact" where
  "mark_paid session payment_intent now_ms =
     write_order (\<lambda>o'. (record_payment session payment_intent now_ms o')\<lparr>po_state := Paid\<rparr>)"

definition void_late_payment ::
    "'p pay_env \<Rightarrow> payments_settings \<Rightarrow> checkout_session \<Rightarrow> int \<Rightarrow> ('p, fulfil_outcome) lact" where
  "void_late_payment env s session now_ms =
     bindE orderL (\<lambda>order.
     let reason = (case po_void_reason order of Some r \<Rightarrow> r | None \<Rightarrow> VoidStale) in
     if po_payment_intent_id order \<noteq> None then okE (FVoided reason)
     else if (case session_mismatch order session s of Some (NotOurs _) \<Rightarrow> True | _ \<Rightarrow> False)
     then okE FIgnored
     else if cs_payment_status session \<noteq> Some ''paid'' then okE (FVoided reason)
     else (case cs_payment_intent session of
       None \<Rightarrow> errE PaymentProviderError
     | Some payment_intent \<Rightarrow>
         if is_disputed order then
           thenE (mark_paid session payment_intent now_ms)
           (thenE (tryE (recheck_open_disputes env s now_ms))
           (void_paid env reason now_ms))
         else
           bindE (liftL (refund_for_void env payment_intent (po_id order))) (\<lambda>refunded.
           if \<not> refunded then errE PaymentProviderError
           else thenE (write_order (record_payment session payment_intent now_ms))
             (okE (FVoided reason)))))"

section \<open>What an order must meet\<close>

definition country_blocked :: "string list \<Rightarrow> string \<Rightarrow> bool" where
  "country_blocked blocked country \<longleftrightarrow> list_ex (\<lambda>b. eq_ignore_ascii_case b country) blocked"

text \<open>The blocked country the payment came from, if any: the billing country first, then the
  country of the card.\<close>

definition blocked_region ::
    "'p pay_env \<Rightarrow> string list \<Rightarrow> payment_order \<Rightarrow> checkout_session \<Rightarrow> string \<Rightarrow> int
     \<Rightarrow> ('p, string option) act" where
  "blocked_region env blocked order session payment_intent now_ms =
     (if is_some_and (country_blocked blocked) (cs_billing_country session)
      then okE (cs_billing_country session)
      else if blocked = [] then okE None
      else
        bindE (get_payment_charge env payment_intent) (\<lambda>r.
        case r of
          Inr charge \<Rightarrow>
            okE (if is_some_and (country_blocked blocked) (ch_card_country charge)
                 then ch_card_country charge else None)
        | Inl err \<Rightarrow>
            if card_country_unreadable err \<and> cs_billing_country session \<noteq> None
               \<and> is_some_and (\<lambda>at. saturating_sub now_ms at > CARD_COUNTRY_WAIT_MS) (po_paid_at order)
            then okE None
            else errE PaymentProviderError))"

definition precondition_failure ::
    "payments_settings \<Rightarrow> payment_order \<Rightarrow> cipher_membership option \<Rightarrow> void_reason option" where
  "precondition_failure s order membership =
     (if family (po_sku order) = CipherFamily
         \<and> is_some_and (\<lambda>close. po_created_at order \<ge> close) (set_close_at_ms s)
      then Some VoidSalesClosed
      else (case po_sku order of
        CipherNew _ \<Rightarrow> if is_some_and is_active membership then Some VoidStale else None
      | CipherUpgrade from to \<Rightarrow>
          (case membership of
             Some m \<Rightarrow>
               if is_active m \<and> cm_tier m = from
               then (if cm_disputed_orders m \<noteq> [] then Some VoidDisputeOpen else None)
               else Some VoidStale
           | None \<Rightarrow> Some VoidStale)
      | _ \<Rightarrow> if po_open_disputes order \<noteq> [] then Some VoidDisputeOpen else None))"

section \<open>Applying a Cipher order\<close>

datatype applied = ADone | AVoid void_reason

definition fresh_membership :: "payment_order \<Rightarrow> string \<Rightarrow> cipher_tier \<Rightarrow> nat \<Rightarrow> int \<Rightarrow> cipher_membership" where
  "fresh_membership order u tier number now_ms =
     \<lparr>cm_user_id = u, cm_number = number, cm_tier = tier, cm_prot_grant = tier_prot tier,
      cm_orders = [po_id order],
      cm_disputed_orders = (if is_disputed order then [po_id order] else []),
      cm_granted_at = now_ms, cm_revoked_at = None, cm_revoke_reason = None,
      cm_prot_posted_at = None, cm_version = 0\<rparr>"

text \<open>The order's number: the one it holds, or a newly claimed one.\<close>

definition take_number :: "payments_settings \<Rightarrow> payment_order \<Rightarrow> string \<Rightarrow> ('p, void_reason + nat) act" where
  "take_number s order u =
     bindE (dbE (on_numbers (fetch_cipher_number_by_order (po_id order)))) (\<lambda>held.
     case held of
       Some number \<Rightarrow> okE (Inr number)
     | None \<Rightarrow>
         bindE (fetch_membership u) (\<lambda>m.
         if is_some_and (\<lambda>m. is_active m \<and> po_id order \<notin> set (cm_orders m)) m
         then okE (Inl VoidStale)
         else
           bindE (dbE (on_numbers (claim_cipher_number (po_id order) (set_cap s)))) (\<lambda>claimed.
           case claimed of
             Some number \<Rightarrow> okE (Inr number)
           | None \<Rightarrow>
               bindE (dbE (on_numbers count_cipher_numbers)) (\<lambda>seeded.
               if seeded < set_cap s then errE InternalError else okE (Inl VoidSoldOut)))))"

definition new_attempt :: "payment_order \<Rightarrow> string \<Rightarrow> cipher_membership \<Rightarrow> ('p, applied option) act" where
  "new_attempt order u fresh =
     bindE (dbE (on_memberships (insert_cipher_membership fresh))) (\<lambda>inserted.
     if inserted then okE (Some ADone)
     else
       bindE (fetch_membership u) (\<lambda>found.
       case found of
         None \<Rightarrow> okE None
       | Some m \<Rightarrow>
           if po_id order \<in> set (cm_orders m) then okE (Some ADone)
           else if is_active m then okE (Some (AVoid VoidStale))
           else
             bindE (dbE (on_memberships (update_cipher_membership_if_version fresh (cm_version m))))
               (\<lambda>b. okE (if b then Some ADone else None))))"

definition upgrade_attempt :: "payment_order \<Rightarrow> string \<Rightarrow> cipher_tier \<Rightarrow> cipher_tier \<Rightarrow> ('p, applied option) act" where
  "upgrade_attempt order u from to =
     bindE (fetch_membership u) (\<lambda>found.
     case found of
       None \<Rightarrow> okE (Some (AVoid VoidStale))
     | Some m \<Rightarrow>
         if po_id order \<in> set (cm_orders m) then okE (Some ADone)
         else if \<not> is_active m \<or> cm_tier m \<noteq> from then okE (Some (AVoid VoidStale))
         else if cm_disputed_orders m \<noteq> [] then okE (Some (AVoid VoidDisputeOpen))
         else
           let next = m\<lparr>cm_tier := to, cm_prot_grant := tier_prot to,
                 cm_orders := cm_orders m @ [po_id order],
                 cm_disputed_orders := (if is_disputed order then cm_disputed_orders m @ [po_id order]
                                        else cm_disputed_orders m)\<rparr>
           in bindE (dbE (on_memberships (update_cipher_membership_if_version next (cm_version m))))
                (\<lambda>b. okE (if b then Some ADone else None)))"

definition apply_membership ::
    "payments_settings \<Rightarrow> payment_order \<Rightarrow> string \<Rightarrow> int \<Rightarrow> ('p, applied) act" where
  "apply_membership s order u now_ms =
     (case po_sku order of
        CipherNew tier \<Rightarrow>
          bindE (take_number s order u) (\<lambda>taken.
          case taken of
            Inl reason \<Rightarrow> okE (AVoid reason)
          | Inr number \<Rightarrow>
              retryE MEMBERSHIP_RETRIES
                (new_attempt order u (fresh_membership order u tier number now_ms))
                (errE InternalError))
      | CipherUpgrade from to \<Rightarrow>
          retryE MEMBERSHIP_RETRIES (upgrade_attempt order u from to) (errE InternalError)
      | _ \<Rightarrow> errE InternalError)"

section \<open>Fulfilment\<close>

definition publish_badge :: "string \<Rightarrow> ('p, unit) lact" where
  "publish_badge u =
     bindE (tryE (write_order (\<lambda>o'. o'))) (\<lambda>written.
     case written of
       Inr _ \<Rightarrow> liftL (sync_user_badge u)
     | Inl err \<Rightarrow>
         bindE orderL (\<lambda>order.
         bindE (tryE (liftL (dbE (on_orders (fetch_payment_order (po_id order)))))) (\<lambda>stored.
         thenE (case stored of
                  Inr (Some stored) \<Rightarrow>
                    whenE (is_disputed stored)
                      (bindE (tryE (liftL (set_dispute_listing u (po_id order) True))) (\<lambda>_. okE ()))
                | _ \<Rightarrow> okE ())
         (errE err))))"

definition reverse_recorded :: "'p pay_env \<Rightarrow> int \<Rightarrow> ('p, unit) lact" where
  "reverse_recorded env now_ms =
     bindE orderL (\<lambda>order.
     case po_reversal_pending order of
       None \<Rightarrow> okE ()
     | Some pending \<Rightarrow>
         thenE (reverse_locked env (pending_kind pending) None None now_ms) (okE ()))"

definition finish_fulfilled :: "'p pay_env \<Rightarrow> int \<Rightarrow> ('p, unit) lact" where
  "finish_fulfilled env now_ms =
     bindE orderL (\<lambda>order.
     thenE (case po_user_id order of
              None \<Rightarrow> okE ()
            | Some u \<Rightarrow>
                thenE (if is_disputed order then liftL (set_dispute_listing u (po_id order) True)
                       else okE True)
                (liftL (sync_user_badge u)))
     (reverse_recorded env now_ms))"

definition finish_fulfilment :: "'p pay_env \<Rightarrow> string \<Rightarrow> int \<Rightarrow> ('p, fulfil_outcome) lact" where
  "finish_fulfilment env u now_ms =
     bindE orderL (\<lambda>order.
     let cipher = (family (po_sku order) = CipherFamily) in
     thenE (whenE cipher (publish_badge u))
     (thenE (write_order (\<lambda>o'. o'\<lparr>po_state := Fulfilled, po_fulfilled_at := Some now_ms\<rparr>))
     (thenE (reverse_recorded env now_ms)
     (thenE (whenE cipher (liftL (sync_after_cipher_fulfil env u now_ms)))
     (okE FFulfilled)))))"

definition stopE :: "('s, 'a) eff \<Rightarrow> ('s, 'a option) eff" where
  "stopE m = bindE m (\<lambda>a. okE (Some a))"

text \<open>The order was not applied yet: \<open>Some\<close> outcome when it is voided instead.\<close>

definition apply_order ::
    "'p pay_env \<Rightarrow> payments_settings \<Rightarrow> checkout_session \<Rightarrow> string \<Rightarrow> string \<Rightarrow> cipher_membership option
     \<Rightarrow> int \<Rightarrow> ('p, fulfil_outcome option) lact" where
  "apply_order env s session payment_intent u membership now_ms =
     bindE orderL (\<lambda>order.
     let fam = family (po_sku order);
         blocked = (case fam of
           CipherFamily \<Rightarrow> set_blocked_countries s
         | ProtFamily \<Rightarrow> prot_blocked_countries (load_or_closed (en_features env) (en_protection env)))
     in bindE (liftL (blocked_region env blocked order session payment_intent now_ms)) (\<lambda>region.
     case region of
       Some country \<Rightarrow> stopE (void_for_region env country now_ms)
     | None \<Rightarrow>
         bindE (case (po_sku order, membership) of
                  (CipherNew _, Some m) \<Rightarrow> liftL (number_release_pending m)
                | _ \<Rightarrow> okE False) (\<lambda>releasing.
         if releasing then stopE (void_paid env VoidReleasePending now_ms)
         else (case precondition_failure s order membership of
           Some reason \<Rightarrow> stopE (void_paid env reason now_ms)
         | None \<Rightarrow>
             if po_reversal_pending order \<noteq> None then stopE (void_paid env VoidReversed now_ms)
             else (case fam of
               CipherFamily \<Rightarrow>
                 bindE (liftL (apply_membership s order u now_ms)) (\<lambda>done.
                 case done of
                   ADone \<Rightarrow> okE None
                 | AVoid reason \<Rightarrow> stopE (void_paid env reason now_ms))
             | ProtFamily \<Rightarrow> thenE (liftL (apply_purchase env order u now_ms)) (okE None))))))"

definition fulfil_live ::
    "'p pay_env \<Rightarrow> payments_settings \<Rightarrow> checkout_session \<Rightarrow> string \<Rightarrow> string \<Rightarrow> int
     \<Rightarrow> ('p, fulfil_outcome) lact" where
  "fulfil_live env s session payment_intent u now_ms =
     bindE orderL (\<lambda>order.
     let fam = family (po_sku order) in
     bindE (if fam = CipherFamily then liftL (fetch_membership u) else okE None) (\<lambda>membership.
     bindE (if fam = CipherFamily
            then okE (is_some_and (\<lambda>m. po_id order \<in> set (cm_orders m)) membership)
            else liftL (purchase_applied (po_id order))) (\<lambda>applied.
     bindE (if applied
            then thenE (if fam = CipherFamily
                        then liftL (set_dispute_listing u (po_id order) (is_disputed order))
                        else okE True) (okE None)
            else apply_order env s session payment_intent u membership now_ms) (\<lambda>stop.
     case stop of
       Some outcome \<Rightarrow> okE outcome
     | None \<Rightarrow> finish_fulfilment env u now_ms))))"

definition fulfil_paid ::
    "'p pay_env \<Rightarrow> payments_settings \<Rightarrow> checkout_session \<Rightarrow> string \<Rightarrow> bool \<Rightarrow> int
     \<Rightarrow> ('p, fulfil_outcome) lact" where
  "fulfil_paid env s session payment_intent wrong_terms now_ms =
     (if wrong_terms then void_paid env VoidAmountMismatch now_ms
      else
        bindE orderL (\<lambda>order.
        case po_void_reason order of
          Some reason \<Rightarrow> void_paid env reason now_ms
        | None \<Rightarrow>
            (case po_user_id order of
               None \<Rightarrow> void_for_deleted_account env (cs_client_reference_id session) now_ms
             | Some u \<Rightarrow>
                 bindE (liftL (buyer_is_live u)) (\<lambda>live.
                 if \<not> live then void_for_deleted_account env (Some u) now_ms
                 else fulfil_live env s session payment_intent u now_ms))))"

definition fulfil_payable ::
    "'p pay_env \<Rightarrow> payments_settings \<Rightarrow> checkout_session \<Rightarrow> int \<Rightarrow> ('p, fulfil_outcome) lact" where
  "fulfil_payable env s session now_ms =
     bindE orderL (\<lambda>order.
     let mismatch = session_mismatch order session s in
     case mismatch of
       Some (NotOurs _) \<Rightarrow> okE FIgnored
     | _ \<Rightarrow>
         if cs_payment_status session \<noteq> Some ''paid''
         then okE (if mismatch \<noteq> None then FIgnored else FNotPaid)
         else (case cs_payment_intent session of
           None \<Rightarrow> errE PaymentProviderError
         | Some payment_intent \<Rightarrow>
             thenE (whenE (po_state order \<noteq> Paid) (mark_paid session payment_intent now_ms))
             (fulfil_paid env s session payment_intent (mismatch \<noteq> None) now_ms)))"

definition fulfil_locked ::
    "'p pay_env \<Rightarrow> payments_settings \<Rightarrow> checkout_session \<Rightarrow> int \<Rightarrow> ('p, fulfil_outcome) lact" where
  "fulfil_locked env s session now_ms =
     bindE orderL (\<lambda>order.
     case po_state order of
       Fulfilled \<Rightarrow> thenE (finish_fulfilled env now_ms) (okE FAlreadyFulfilled)
     | Refunded \<Rightarrow> okE FAlreadyFulfilled
     | Voided \<Rightarrow> void_late_payment env s session now_ms
     | _ \<Rightarrow> fulfil_payable env s session now_ms)"

definition fulfil_order ::
    "'p pay_env \<Rightarrow> payments_settings \<Rightarrow> string \<Rightarrow> checkout_session \<Rightarrow> int \<Rightarrow> ('p, fulfil_outcome) act" where
  "fulfil_order env s order_id session now_ms =
     with_lease order_id now_ms FLeaseHeld (fulfil_locked env s session now_ms)"

definition resume_locked ::
    "'p pay_env \<Rightarrow> payments_settings \<Rightarrow> checkout_session \<Rightarrow> int \<Rightarrow> ('p, fulfil_outcome) lact" where
  "resume_locked env s session now_ms =
     bindE orderL (\<lambda>order.
     thenE (whenE (po_state order = Paid \<and> po_open_disputes order \<noteq> [])
              (bindE (tryE (recheck_open_disputes env s now_ms)) (\<lambda>_. okE ())))
     (fulfil_locked env s session now_ms))"

definition resume_order ::
    "'p pay_env \<Rightarrow> payments_settings \<Rightarrow> string \<Rightarrow> int \<Rightarrow> ('p, fulfil_outcome) act" where
  "resume_order env s order_id now_ms =
     bindE (dbE (on_orders (fetch_payment_order order_id))) (\<lambda>found.
     case found of
       None \<Rightarrow> errE NotFound
     | Some order \<Rightarrow>
         (case po_checkout_session_id order of
            None \<Rightarrow> errE InternalError
          | Some session_id \<Rightarrow>
              bindE (get_checkout_session env session_id) (\<lambda>r.
              case r of
                Inl _ \<Rightarrow> errE PaymentProviderError
              | Inr session \<Rightarrow>
                  with_lease order_id now_ms FLeaseHeld (resume_locked env s session now_ms))))"

end
