(* ===== verification/Engine_Checkout.thy ===== *)
theory Engine_Checkout
  imports Engine_Fulfil
begin

text \<open>
  Starting a purchase (\<open>create_cipher_checkout\<close> and \<open>start_session\<close> of \<open>engine.rs\<close>,
  \<open>create_prot_checkout\<close> of \<open>engine/prot.rs\<close>), ending one (\<open>expire_order\<close>), what the buyer and
  the public see of the sale, and the payments part of an account's deletion.
\<close>

section \<open>Checkout sessions\<close>

definition session_params ::
    "payments_settings \<Rightarrow> payment_order \<Rightarrow> string \<Rightarrow> string \<Rightarrow> string \<Rightarrow> checkout_session_params" where
  "session_params s order u success_url cancel_url =
     \<lparr>csp_order_id = po_id order, csp_user_id = u, csp_amount_cents = po_amount_cents order,
      csp_currency = po_currency order, csp_product_name = sku_product_name (po_sku order),
      csp_success_url = success_url, csp_cancel_url = cancel_url,
      csp_expires_at_secs = po_created_at order div 1000 + SESSION_TTL_SECS,
      csp_automatic_tax = set_automatic_tax s,
      csp_consent_message = sku_consent_message (po_sku order),
      csp_tax_code = sku_tax_code (po_sku order)\<rparr>"

definition create_checkout_session ::
    "'p pay_env \<Rightarrow> checkout_session_params \<Rightarrow> string \<Rightarrow> ('p, stripe_error + checkout_session) act" where
  "create_checkout_session env params key =
     stripeE (CallCreateSession params key) (api_create_checkout_session (en_stripe env) params key)"

text \<open>The URL of a session the buyer may be sent to.\<close>

definition usable_session ::
    "payments_settings \<Rightarrow> checkout_session_params \<Rightarrow> stripe_error + checkout_session
     \<Rightarrow> (checkout_session \<times> string) option" where
  "usable_session s params r =
     (case r of
        Inl _ \<Rightarrow> None
      | Inr session \<Rightarrow>
          (case cs_url session of
             None \<Rightarrow> None
           | Some url \<Rightarrow>
               if cs_livemode session \<noteq> set_expect_livemode s then None
               else if is_some_and (\<lambda>a. a \<noteq> csp_amount_cents params) (cs_amount_total session) then None
               else Some (session, url)))"

definition start_session_with_urls ::
    "'p pay_env \<Rightarrow> payments_settings \<Rightarrow> string \<Rightarrow> string \<Rightarrow> ('p, string) lact" where
  "start_session_with_urls env s success_url cancel_url =
     bindE orderL (\<lambda>order.
     case po_user_id order of
       None \<Rightarrow> errE InternalError
     | Some u \<Rightarrow>
         let params = session_params s order u success_url cancel_url in
         bindE (liftL (create_checkout_session env params (po_id order))) (\<lambda>r.
         case usable_session s params r of
           Some (session, url) \<Rightarrow>
             let expires_ms = saturating_mul
                   (case cs_expires_at session of Some at \<Rightarrow> at | None \<Rightarrow> csp_expires_at_secs params) 1000
             in thenE (write_order (\<lambda>o'. o'\<lparr>po_state := Pending,
                        po_checkout_session_id := Some (cs_id session),
                        po_checkout_url := Some url, po_session_expires_at := Some expires_ms\<rparr>))
                (okE url)
         | None \<Rightarrow>
             thenE (tryE (write_order (\<lambda>o'. o'\<lparr>po_state := SessionFailed\<rparr>)))
             (errE PaymentProviderError)))"

definition start_session ::
    "'p pay_env \<Rightarrow> payments_settings \<Rightarrow> cipher_return_to \<Rightarrow> ('p, string) lact" where
  "start_session env s return_to =
     (case return_to of
        Web \<Rightarrow> start_session_with_urls env s (set_success_url_web s) (set_cancel_url_web s)
      | Shell \<Rightarrow> start_session_with_urls env s (set_success_url_shell s) (set_cancel_url_shell s))"

section \<open>Orders\<close>

definition new_order :: "string \<Rightarrow> string \<Rightarrow> sku \<Rightarrow> int \<Rightarrow> int \<Rightarrow> payment_order" where
  "new_order i u sk amount_cents now_ms =
     \<lparr>po_id = i, po_user_id = Some u, po_provider = Stripe, po_sku = sk,
      po_amount_cents = amount_cents, po_currency = ''usd'', po_checkout_session_id = None,
      po_checkout_url = None, po_session_expires_at = None, po_payment_intent_id = None,
      po_state = Creating, po_void_reason = None, po_region_blocked_country = None,
      po_reversal_pending = None, po_refund_settling_since = None, po_open_disputes = [],
      po_lease_until = None, po_version = 0, po_created_at = now_ms, po_paid_at = None,
      po_fulfilled_at = None, po_reversed_at = None\<rparr>"

text \<open>Draw an id from the generator and store the order under it.\<close>

definition store_new_order :: "'p pay_env \<Rightarrow> string \<Rightarrow> sku \<Rightarrow> int \<Rightarrow> int \<Rightarrow> ('p, string) act" where
  "store_new_order env u sk amount_cents now_ms =
     dbE (\<lambda>d.
       let n = ls_ulids (pd_ledger d);
           d' = d\<lparr>pd_ledger := (pd_ledger d)\<lparr>ls_ulids := Suc n\<rparr>\<rparr>
       in case on_orders (insert_payment_order (new_order (en_ulid env n) u sk amount_cents now_ms)) d' of
            (Inl e, d'') \<Rightarrow> (Inl e, d'')
          | (Inr _, d'') \<Rightarrow> (Inr (en_ulid env n), d''))"

text \<open>The newest live order of the family decides: its URL again, or a refusal, or nothing.\<close>

fun live_order :: "sku \<Rightarrow> int \<Rightarrow> payment_order list \<Rightarrow> (error + string) option" where
  "live_order sk now_ms [] = None"
| "live_order sk now_ms (order # rest) =
     (if po_state order = Pending \<and> is_some_and (\<lambda>at. at > now_ms) (po_session_expires_at order)
      then Some (case po_checkout_url order of
             Some url \<Rightarrow> if po_sku order = sk then Inr url else Inl PaymentPending
           | None \<Rightarrow> Inl PaymentPending)
      else if po_state order = Creating
              \<and> saturating_sub now_ms (po_created_at order) < CREATING_BLOCKS_MS
      then Some (Inl PaymentPending)
      else live_order sk now_ms rest)"

definition order_and_session ::
    "'p pay_env \<Rightarrow> string \<Rightarrow> sku \<Rightarrow> int \<Rightarrow> ('p, string) lact \<Rightarrow> ('p, string) act" where
  "order_and_session env u sk now_ms session =
     bindE (resE (sku_cents sk)) (\<lambda>cents.
     bindE (store_new_order env u sk cents now_ms) (\<lambda>order_id.
     bindE (acquire order_id now_ms) (\<lambda>r.
     case r of
       None \<Rightarrow> errE InternalError
     | Some l \<Rightarrow> (\<lambda>w.
         case session (l, w) of
           (res, (l', w')) \<Rightarrow> (res, snd (release l' w'))))))"

section \<open>Cipher checkout\<close>

definition refusal_age_ok :: "payment_order \<Rightarrow> int \<Rightarrow> bool" where
  "refusal_age_ok order now_ms =
     is_some_and (\<lambda>at. saturating_sub now_ms at < REGION_REFUSAL_MS)
       (case po_reversed_at order of Some at \<Rightarrow> Some at | None \<Rightarrow> po_paid_at order)"

definition region_refusal_holds :: "payments_settings \<Rightarrow> payment_order \<Rightarrow> int \<Rightarrow> bool" where
  "region_refusal_holds s order now_ms \<longleftrightarrow>
     po_void_reason order = Some VoidRegionUnavailable
     \<and> is_some_and (region_blocked s) (po_region_blocked_country order)
     \<and> refusal_age_ok order now_ms"

definition cipher_offer_open :: "payments_settings \<Rightarrow> sku \<Rightarrow> cipher_membership option \<Rightarrow> ('p, unit) act" where
  "cipher_offer_open s sk membership =
     (case sk of
        CipherUpgrade _ _ \<Rightarrow>
          if is_some_and (\<lambda>m. cm_disputed_orders m \<noteq> []) membership then errE CipherTierInvalid else okE ()
      | CipherNew _ \<Rightarrow>
          bindE (dbE (on_numbers count_claimed_cipher_numbers)) (\<lambda>claimed.
          if claimed \<ge> set_cap s then errE CipherSoldOut else okE ())
      | _ \<Rightarrow> errE InternalError)"

definition create_cipher_checkout ::
    "'p pay_env \<Rightarrow> payments_settings \<Rightarrow> string \<Rightarrow> cipher_tier \<Rightarrow> cipher_return_to \<Rightarrow> int
     \<Rightarrow> ('p, string) act" where
  "create_cipher_checkout env s u tier return_to now_ms =
     (if \<not> set_enabled s then errE PaymentsDisabled
      else if \<not> sales_open_at s now_ms then errE CipherSalesClosed
      else
        bindE (if set_blocked_countries s = [] then okE False
               else bindE (dbE (on_orders (fetch_payment_orders_by_user u [Voided, Paid]))) (\<lambda>orders.
                 okE (list_ex (\<lambda>o'. region_refusal_holds s o' now_ms)
                        (filter (\<lambda>o'. family (po_sku o') = CipherFamily) orders)))) (\<lambda>refused.
        if refused then errE CipherRegionUnavailable
        else
          bindE (fetch_membership u) (\<lambda>row.
          bindE (case row of Some m \<Rightarrow> number_release_pending m | None \<Rightarrow> okE False) (\<lambda>releasing.
          if releasing then errE PaymentPending
          else
            let membership = (case row of Some m \<Rightarrow> if is_active m then Some m else None | None \<Rightarrow> None) in
            bindE (resE (quote (map_option cm_tier membership) tier)) (\<lambda>sk.
            thenE (cipher_offer_open s sk membership)
            (bindE (dbE (on_orders (fetch_payment_orders_by_user u [Creating, Pending]))) (\<lambda>live.
             case live_order sk now_ms (filter (\<lambda>o'. family (po_sku o') = CipherFamily) (rev live)) of
               Some r \<Rightarrow> resE r
             | None \<Rightarrow> order_and_session env u sk now_ms (start_session env s return_to))))))))"

section \<open>Prot checkout\<close>

definition prot_region_refusal_holds :: "prot_sales_settings \<Rightarrow> payment_order \<Rightarrow> int \<Rightarrow> bool" where
  "prot_region_refusal_holds ps order now_ms \<longleftrightarrow>
     family (po_sku order) = ProtFamily
     \<and> (po_state order = Voided \<or> po_state order = Paid)
     \<and> po_void_reason order = Some VoidRegionUnavailable
     \<and> is_some_and (prot_region_blocked ps) (po_region_blocked_country order)
     \<and> refusal_age_ok order now_ms"

definition under_dispute :: "payment_order \<Rightarrow> bool" where
  "under_dispute order \<longleftrightarrow>
     po_state order \<in> {Creating, Pending, Paid, Fulfilled} \<and> po_open_disputes order \<noteq> []"

fun uncredited_prot :: "int \<Rightarrow> payment_order list \<Rightarrow> ('p, int) act" where
  "uncredited_prot acc [] = okE acc"
| "uncredited_prot acc (order # rest) =
     bindE (purchase_applied (po_id order)) (\<lambda>credited.
     uncredited_prot
       (if credited then acc
        else saturating_add acc (case sku_prot (po_sku order) of Some n \<Rightarrow> n | None \<Rightarrow> 0)) rest)"

definition start_prot_session ::
    "'p pay_env \<Rightarrow> payments_settings \<Rightarrow> prot_sales_settings \<Rightarrow> cipher_return_to \<Rightarrow> ('p, string) lact" where
  "start_prot_session env s ps return_to =
     (case return_to of
        Web \<Rightarrow> start_session_with_urls env s (prot_success_url ps) (prot_cancel_url ps)
      | Shell \<Rightarrow> start_session_with_urls env s (prot_shell_return_url ps) (prot_shell_return_url ps))"

definition create_prot_checkout ::
    "'p pay_env \<Rightarrow> payments_settings \<Rightarrow> prot_sales_settings \<Rightarrow> string \<Rightarrow> prot_choice \<Rightarrow> cipher_return_to
     \<Rightarrow> int \<Rightarrow> ('p, string) act" where
  "create_prot_checkout env s ps u choice return_to now_ms =
     (if \<not> set_enabled s then errE PaymentsDisabled
      else if \<not> prot_enabled ps then errE ProtDisabled
      else if \<not> prot_sales_open ps then errE ProtSalesClosed
      else
        bindE (dbE (on_users (fetch_user u))) (\<lambda>user.
        if bu_bot user then errE IsBot
        else
          bindE (dbE (on_orders (fetch_payment_orders_by_user u
            [Creating, Pending, Paid, Fulfilled, Voided]))) (\<lambda>orders.
          if list_ex (\<lambda>o'. prot_region_refusal_holds ps o' now_ms) orders then errE ProtRegionUnavailable
          else if list_ex under_dispute orders then errE ProtNotEligible
          else
            bindE (resE (quote_prot ps choice)) (\<lambda>sk.
            case sku_prot sk of
              None \<Rightarrow> errE InternalError
            | Some prot \<Rightarrow>
                bindE (uncredited_prot 0
                  (filter (\<lambda>o'. po_state o' = Paid \<and> family (po_sku o') = ProtFamily) orders)) (\<lambda>uncredited.
                bindE (engine_wallet_balance u) (\<lambda>balance.
                if saturating_add (saturating_add balance uncredited) prot > prot_wallet_cap ps
                then errE (ProtWalletCap (prot_wallet_cap ps))
                else
                  (case live_order sk now_ms (filter (\<lambda>o'. family (po_sku o') = ProtFamily) (rev orders)) of
                     Some r \<Rightarrow> resE r
                   | None \<Rightarrow> order_and_session env u sk now_ms (start_prot_session env s ps return_to))))))))"

section \<open>Expiry and views\<close>

definition expire_order :: "string \<Rightarrow> int \<Rightarrow> ('p, bool) act" where
  "expire_order order_id now_ms =
     with_lease order_id now_ms False
       (bindE orderL (\<lambda>order.
        thenE (whenE (po_state order \<in> {Creating, Pending, SessionFailed})
                 (write_order (\<lambda>o'. o'\<lparr>po_state := Expired\<rparr>)))
        (okE True)))"

record cipher_membership_view =
  cmv_number :: nat
  cmv_tier :: cipher_tier
  cmv_disputed :: bool
  cmv_prot_grant :: int

definition membership_view :: "cipher_membership \<Rightarrow> cipher_membership_view" where
  "membership_view m =
     \<lparr>cmv_number = cm_number m, cmv_tier = cm_tier m, cmv_disputed = (cm_disputed_orders m \<noteq> []),
      cmv_prot_grant = cm_prot_grant m\<rparr>"

definition cipher_me :: "string \<Rightarrow> int \<Rightarrow> ('p, cipher_membership_view option \<times> pending_view option) act" where
  "cipher_me u now_ms =
     bindE (fetch_membership u) (\<lambda>m.
     bindE (dbE (on_orders (fetch_payment_orders_by_user u [Pending]))) (\<lambda>orders.
     okE (case m of Some m \<Rightarrow> if is_active m then Some (membership_view m) else None | None \<Rightarrow> None,
          last_opt (pending_views CipherFamily now_ms orders))))"

record cipher_stats_view =
  csv_claimed :: nat
  csv_cap :: nat
  csv_open :: bool
  csv_closes_at :: "int option"

definition cipher_stats :: "payments_settings \<Rightarrow> int \<Rightarrow> ('p, cipher_stats_view) act" where
  "cipher_stats s now_ms =
     bindE (dbE (on_numbers count_claimed_cipher_numbers)) (\<lambda>claimed.
     okE \<lparr>csv_claimed = claimed, csv_cap = set_cap s, csv_open = sales_open_at s now_ms,
          csv_closes_at = set_close_at_ms s\<rparr>)"

section \<open>Account deletion\<close>

definition void_for_deletion :: "'p pay_env \<Rightarrow> int \<Rightarrow> ('p, unit) lact" where
  "void_for_deletion env now_ms =
     bindE orderL (\<lambda>order.
     if po_state order = Paid
     then thenE (void_for_deleted_account env (po_user_id order) now_ms) (okE ())
     else if po_state order \<in> {Creating, Pending, SessionFailed}
     then write_order (\<lambda>o'. o'\<lparr>po_state := Voided, po_void_reason := Some VoidAccountDeleted,
            po_reversed_at := Some now_ms\<rparr>)
     else okE ())"

definition unlink_account_payments :: "string \<Rightarrow> ('p, unit) act" where
  "unlink_account_payments u =
     thenE (dbE (on_orders (unlink_payment_orders_by_user u)))
     (thenE (dbE (on_memberships (delete_cipher_membership u))) (okE ()))"

definition on_account_deleted :: "'p pay_env \<Rightarrow> string \<Rightarrow> int \<Rightarrow> ('p, unit) act" where
  "on_account_deleted env u now_ms =
     bindE (tryE (dbE (on_orders (fetch_payment_orders_by_user u
       [Creating, Pending, SessionFailed, Paid])))) (\<lambda>listed.
     thenE (forE (\<lambda>order.
              bindE (tryE (with_lease (po_id order) now_ms () (void_for_deletion env now_ms))) (\<lambda>_. okE ()))
              (case listed of Inr orders \<Rightarrow> orders | Inl _ \<Rightarrow> []))
     (unlink_account_payments u))"

end
