(* ===== verification/Dispatch.thy ===== *)
theory Dispatch
  imports Engine_Checkout
begin

text \<open>
  Webhook events and the reconcile sweep (\<open>crates/core/payments/src/dispatch.rs\<close>).
  \<open>handle_event\<close> records a delivery, finds the order it is about and hands it to the engine;
  \<open>reconcile\<close> runs the engine's steps over everything that is overdue. Neither writes an
  order itself. Logging is left out; the counts of a sweep are kept. The counters are \<open>u32\<close>
  in the code and a sweep looks at no more than nine batches of 200 rows, so they are natural
  numbers here.
\<close>

section \<open>Constants and outcomes\<close>

definition EXPIRE_UNPAID_AFTER_MS :: int where "EXPIRE_UNPAID_AFTER_MS = 10 * 60 * 1000"
definition CHECK_PENDING_AFTER_MS :: int where "CHECK_PENDING_AFTER_MS = 40 * 60 * 1000"
definition STRANDED_EVENT_AFTER_MS :: int where "STRANDED_EVENT_AFTER_MS = 10 * 60 * 1000"
definition MAX_EVENT_ATTEMPTS :: nat where "MAX_EVENT_ATTEMPTS = 10"
definition SWEEP_BATCH :: int where "SWEEP_BATCH = 200"
definition ERROR_TEXT_MAX :: nat where "ERROR_TEXT_MAX = 160"

definition CHECKOUT_SESSION_COMPLETED :: string where
  "CHECKOUT_SESSION_COMPLETED = ''checkout.session.completed''"
definition CHECKOUT_SESSION_EXPIRED :: string where
  "CHECKOUT_SESSION_EXPIRED = ''checkout.session.expired''"
definition CHECKOUT_SESSION_ASYNC_PAYMENT_SUCCEEDED :: string where
  "CHECKOUT_SESSION_ASYNC_PAYMENT_SUCCEEDED = ''checkout.session.async_payment_succeeded''"
definition CHECKOUT_SESSION_ASYNC_PAYMENT_FAILED :: string where
  "CHECKOUT_SESSION_ASYNC_PAYMENT_FAILED = ''checkout.session.async_payment_failed''"
definition CHARGE_REFUNDED :: string where "CHARGE_REFUNDED = ''charge.refunded''"
definition CHARGE_REFUND_UPDATED :: string where "CHARGE_REFUND_UPDATED = ''charge.refund.updated''"
definition CHARGE_DISPUTE_PREFIX :: string where "CHARGE_DISPUTE_PREFIX = ''charge.dispute.''"

datatype event_outcome = OutProcessed | OutIgnored | OutDuplicate | OutRetry

datatype action = ActFulfil | ActExpire | ActReverse reverse_kind | ActDispute | ActIgnore

datatype step = StepProcessed | StepIgnored | StepRetry string

datatype refund_check = RefundsSucceeded refund_facts | RefundsSettling bool | RefundsFailed bool

definition action_for :: "stripe_event \<Rightarrow> action" where
  "action_for event =
     (let ty = ev_type event in
      if ty = CHECKOUT_SESSION_COMPLETED \<or> ty = CHECKOUT_SESSION_ASYNC_PAYMENT_SUCCEEDED then ActFulfil
      else if ty = CHECKOUT_SESSION_EXPIRED \<or> ty = CHECKOUT_SESSION_ASYNC_PAYMENT_FAILED then ActExpire
      else if ty = CHARGE_REFUNDED \<or> ty = CHARGE_REFUND_UPDATED then ActReverse KindRefund
      else if starts_with ty CHARGE_DISPUTE_PREFIX then ActDispute
      else ActIgnore)"

section \<open>Texts\<close>

definition stripe_text :: "string \<Rightarrow> stripe_error \<Rightarrow> string" where
  "stripe_text call err =
     (case err of
        Transport _ \<Rightarrow> ''stripe '' @ call @ '': transport error''
      | Api status (Some code) _ _ \<Rightarrow>
          ''stripe '' @ call @ '': HTTP '' @ decimal status @ '' (''
          @ take 40 (filter (\<lambda>c. ascii_alphanumeric c \<or> c = CHR ''_'') code) @ '')''
      | Api status None _ _ \<Rightarrow> ''stripe '' @ call @ '': HTTP '' @ decimal status
      | Decode _ \<Rightarrow> ''stripe '' @ call @ '': unexpected response'')"

text \<open>The derived \<open>Debug\<close> of \<open>ErrorType\<close>. The texts errors carry are printable ASCII, so a quote
  and a backslash are all that is escaped.\<close>

definition debug_str :: "string \<Rightarrow> string" where
  "debug_str s =
     [CHR 0x22] @ concat (map (\<lambda>c. if c = CHR 0x22 \<or> c = CHR 0x5C then [CHR 0x5C, c] else [c]) s) @ [CHR 0x22]"

definition debug_int :: "int \<Rightarrow> string" where
  "debug_int i = (if i < 0 then ''-'' @ decimal (nat (- i)) else decimal (nat i))"

fun error_debug :: "error \<Rightarrow> string" where
  "error_debug NotFound = ''NotFound''"
| "error_debug InternalError = ''InternalError''"
| "error_debug (DatabaseError op coll) =
     ''DatabaseError { operation: '' @ debug_str op @ '', collection: '' @ debug_str coll @ '' }''"
| "error_debug PaymentsDisabled = ''PaymentsDisabled''"
| "error_debug CipherSalesClosed = ''CipherSalesClosed''"
| "error_debug CipherRegionUnavailable = ''CipherRegionUnavailable''"
| "error_debug PaymentPending = ''PaymentPending''"
| "error_debug CipherTierInvalid = ''CipherTierInvalid''"
| "error_debug CipherSoldOut = ''CipherSoldOut''"
| "error_debug PaymentProviderError = ''PaymentProviderError''"
| "error_debug ProtDisabled = ''ProtDisabled''"
| "error_debug ProtSalesClosed = ''ProtSalesClosed''"
| "error_debug ProtRegionUnavailable = ''ProtRegionUnavailable''"
| "error_debug ProtNotEligible = ''ProtNotEligible''"
| "error_debug ProtPackInvalid = ''ProtPackInvalid''"
| "error_debug (ProtWalletCap cap) = ''ProtWalletCap { max: '' @ debug_int cap @ '' }''"
| "error_debug IsBot = ''IsBot''"
| "error_debug (InsufficientProt needed available) =
     ''InsufficientProt { needed: '' @ debug_int needed @ '', available: '' @ debug_int available @ '' }''"
| "error_debug ProtIdempotencyConflict = ''ProtIdempotencyConflict''"
| "error_debug (FailedValidation e) = ''FailedValidation { error: '' @ debug_str e @ '' }''"
| "error_debug (MissingPermission p) = ''MissingPermission { permission: '' @ debug_str p @ '' }''"
| "error_debug CannotGiveMissingPermissions = ''CannotGiveMissingPermissions''"
| "error_debug InvalidOperation = ''InvalidOperation''"
| "error_debug InvalidProperty = ''InvalidProperty''"
| "error_debug PollClosed = ''PollClosed''"
| "error_debug NotElevated = ''NotElevated''"
| "error_debug (TooManyRoles n) = ''TooManyRoles { max: '' @ debug_int (int n) @ '' }''"
| "error_debug NotOwner = ''NotOwner''"
| "error_debug (SeatCapReached n) = ''SeatCapReached { max: '' @ debug_int (int n) @ '' }''"
| "error_debug (SeatListNamesRemovedUsers us) =
     ''SeatListNamesRemovedUsers { users: [''
     @ (case us of [] \<Rightarrow> [] | v # vs \<Rightarrow> debug_str v @ concat (map (\<lambda>w. '', '' @ debug_str w) vs)) @ ''] }''"
| "error_debug (FeatureDisabled f) = ''FeatureDisabled { feature: '' @ debug_str f @ '' }''"
| "error_debug (ProtectedChannelResecuring r) = ''ProtectedChannelResecuring { reason: '' @ debug_str r @ '' }''"
| "error_debug NotSeated = ''NotSeated''"
| "error_debug (DeviceCapReached n) = ''DeviceCapReached { max: '' @ debug_int (int n) @ '' }''"
| "error_debug (MlsCallFull n) = ''MlsCallFull { max: '' @ debug_int (int n) @ '' }''"
| "error_debug (Panic m) = m"

text \<open>Cut to at most \<open>ERROR_TEXT_MAX\<close> bytes without cutting a UTF-8 character: a position is a
  character boundary unless a continuation byte stands there.\<close>

definition is_char_boundary :: "string \<Rightarrow> nat \<Rightarrow> bool" where
  "is_char_boundary text n \<longleftrightarrow>
     n = 0 \<or> n = length text
     \<or> n < length text \<and> \<not> (128 \<le> (of_char (text ! n) :: nat) \<and> (of_char (text ! n) :: nat) < 192)"

fun boundary_at_most :: "string \<Rightarrow> nat \<Rightarrow> nat" where
  "boundary_at_most text 0 = 0"
| "boundary_at_most text (Suc n) =
     (if is_char_boundary text (Suc n) then Suc n else boundary_at_most text n)"

definition truncate_text :: "string \<Rightarrow> string" where
  "truncate_text text =
     (if length text > ERROR_TEXT_MAX then take (boundary_at_most text ERROR_TEXT_MAX) text else text)"

definition engine_text :: "string \<Rightarrow> error \<Rightarrow> string" where
  "engine_text step' err = truncate_text (step' @ '': '' @ error_debug err)"

section \<open>One event\<close>

text \<open>A step whose failure becomes a reason to retry.\<close>

definition orRetry :: "string \<Rightarrow> ('p, 'a) act \<Rightarrow> ('a \<Rightarrow> ('p, step) act) \<Rightarrow> ('p, step) act" where
  "orRetry what m k =
     bindE (tryE m) (\<lambda>r. case r of Inl e \<Rightarrow> okE (StepRetry (engine_text what e)) | Inr a \<Rightarrow> k a)"

definition orReason :: "string \<Rightarrow> ('p, 'a) act \<Rightarrow> ('a \<Rightarrow> ('p, string + 'b) act) \<Rightarrow> ('p, string + 'b) act" where
  "orReason what m k =
     bindE (tryE m) (\<lambda>r. case r of Inl e \<Rightarrow> okE (Inl (engine_text what e)) | Inr a \<Rightarrow> k a)"

definition awaits_async_payment :: "stripe_event \<Rightarrow> checkout_session \<Rightarrow> bool" where
  "awaits_async_payment event session \<longleftrightarrow>
     ev_type event = CHECKOUT_SESSION_COMPLETED
     \<and> obj_str (ev_object event) ''payment_status'' = Some ''unpaid''
     \<and> cs_status session = Some ''complete''
     \<and> cs_payment_status session = Some ''unpaid''"

definition update_ahead_of_list :: "stripe_event \<Rightarrow> refund list \<Rightarrow> bool" where
  "update_ahead_of_list event refunds \<longleftrightarrow>
     ev_type event = CHARGE_REFUND_UPDATED
     \<and> obj_str (ev_object event) ''status'' = Some ''succeeded''
     \<and> (case obj_str (ev_object event) ''id'' of
          None \<Rightarrow> False
        | Some refund_id \<Rightarrow> \<not> list_ex (\<lambda>r. rf_id r = refund_id \<and> refund_settled r) refunds)"

definition settled_refund ::
    "'p pay_env \<Rightarrow> stripe_event \<Rightarrow> string \<Rightarrow> string \<Rightarrow> int \<Rightarrow> ('p, string + refund_check) act" where
  "settled_refund env event order_id payment_intent now_ms =
     orReason ''find order'' (dbE (on_orders (fetch_payment_order order_id))) (\<lambda>found.
     case found of
       None \<Rightarrow> okE (Inl ''order not found'')
     | Some order \<Rightarrow>
         bindE (list_refunds env payment_intent) (\<lambda>r.
         case r of
           Inl err \<Rightarrow> okE (Inl (stripe_text ''list_refunds'' err))
         | Inr refunds \<Rightarrow>
             (case refund_facts_of refunds (po_amount_cents order) (ev_created event) now_ms of
                None \<Rightarrow> okE (Inl ''stripe lists no refund of the payment yet'')
              | Some facts \<Rightarrow>
                  okE (Inr (case rfa_status facts of
                    RefundSucceeded \<Rightarrow> RefundsSucceeded facts
                  | RefundPending \<Rightarrow> RefundsSettling (update_ahead_of_list event refunds)
                  | RefundFailed \<Rightarrow> RefundsFailed (po_refund_settling_since order \<noteq> None))))))"

fun fulfil_step :: "fulfil_outcome \<Rightarrow> step" where
  "fulfil_step FFulfilled = StepProcessed"
| "fulfil_step FAlreadyFulfilled = StepProcessed"
| "fulfil_step (FVoided _) = StepProcessed"
| "fulfil_step FIgnored = StepIgnored"
| "fulfil_step FNotPaid = StepRetry ''session not reported paid yet''"
| "fulfil_step FLeaseHeld = StepRetry ''order lease held''"
| "fulfil_step (FVoidDeferred _) = StepProcessed"

fun reverse_step :: "reverse_outcome \<Rightarrow> step" where
  "reverse_step RApplied = StepProcessed"
| "reverse_step RRecordedPending = StepProcessed"
| "reverse_step RNoOp = StepProcessed"
| "reverse_step RBusy = StepRetry ''order busy''"

definition order_for_intent ::
    "'p pay_env \<Rightarrow> payments_settings \<Rightarrow> string \<Rightarrow> ('p, string + string option) act" where
  "order_for_intent env s payment_intent =
     orReason ''find order'' (dbE (on_orders (fetch_payment_order_by_intent payment_intent))) (\<lambda>found.
     case found of
       Some order \<Rightarrow> okE (Inr (Some (po_id order)))
     | None \<Rightarrow>
         bindE (get_payment_intent env payment_intent) (\<lambda>r.
         case r of
           Inl err \<Rightarrow>
             (case err of
                Api status _ _ _ \<Rightarrow>
                  if status = 404 then okE (Inr None)
                  else okE (Inl (stripe_text ''get_payment_intent'' err))
              | _ \<Rightarrow> okE (Inl (stripe_text ''get_payment_intent'' err)))
         | Inr intent \<Rightarrow>
             if pi_id intent \<noteq> payment_intent
             then okE (Inl ''stripe returned a different payment intent'')
             else if pi_livemode intent \<noteq> set_expect_livemode s then okE (Inr None)
             else (case pi_metadata_order_id intent of
               None \<Rightarrow> okE (Inr None)
             | Some order_id \<Rightarrow>
                 orReason ''find order'' (dbE (on_orders (fetch_payment_order order_id))) (\<lambda>named.
                 case named of
                   None \<Rightarrow> okE (Inr None)
                 | Some order \<Rightarrow>
                     okE (Inr (case po_payment_intent_id order of
                       None \<Rightarrow> Some (po_id order)
                     | Some stored \<Rightarrow> if stored = payment_intent then Some (po_id order) else None))))))"

definition process_fulfil ::
    "'p pay_env \<Rightarrow> payments_settings \<Rightarrow> stripe_event \<Rightarrow> int \<Rightarrow> ('p, step) act" where
  "process_fulfil env s event now_ms =
     (case obj_str (ev_object event) ''id'' of
        None \<Rightarrow> okE StepIgnored
      | Some session_id \<Rightarrow>
          orRetry ''find order'' (dbE (on_orders (fetch_payment_order_by_session session_id))) (\<lambda>found.
          case found of
            None \<Rightarrow> okE StepIgnored
          | Some order \<Rightarrow>
              bindE (get_checkout_session env session_id) (\<lambda>r.
              case r of
                Inl err \<Rightarrow> okE (StepRetry (stripe_text ''get_checkout_session'' err))
              | Inr session \<Rightarrow>
                  if cs_id session \<noteq> session_id
                  then okE (StepRetry ''stripe returned a different checkout session'')
                  else
                    orRetry ''fulfil'' (fulfil_order env s (po_id order) session now_ms) (\<lambda>outcome.
                    okE (if outcome = FNotPaid \<and> awaits_async_payment event session then StepProcessed
                         else fulfil_step outcome)))))"

definition process_expire :: "stripe_event \<Rightarrow> int \<Rightarrow> ('p, step) act" where
  "process_expire event now_ms =
     (case obj_str (ev_object event) ''id'' of
        None \<Rightarrow> okE StepIgnored
      | Some session_id \<Rightarrow>
          orRetry ''find order'' (dbE (on_orders (fetch_payment_order_by_session session_id))) (\<lambda>found.
          case found of
            None \<Rightarrow> okE StepIgnored
          | Some order \<Rightarrow>
              orRetry ''expire'' (expire_order (po_id order) now_ms) (\<lambda>done.
              okE (if done then StepProcessed else StepRetry ''order lease held''))))"

definition reverse_with ::
    "'p pay_env \<Rightarrow> string \<Rightarrow> reverse_kind \<Rightarrow> refund_facts option \<Rightarrow> int \<Rightarrow> ('p, step) act" where
  "reverse_with env order_id kind refund now_ms =
     orRetry ''reverse'' (reverse_order env order_id kind refund now_ms)
       (\<lambda>outcome. okE (reverse_step outcome))"

definition process_reverse ::
    "'p pay_env \<Rightarrow> payments_settings \<Rightarrow> stripe_event \<Rightarrow> reverse_kind \<Rightarrow> int \<Rightarrow> ('p, step) act" where
  "process_reverse env s event kind now_ms =
     (case obj_expandable_id (ev_object event) ''payment_intent'' of
        None \<Rightarrow> okE StepIgnored
      | Some payment_intent \<Rightarrow>
          bindE (order_for_intent env s payment_intent) (\<lambda>named.
          case named of
            Inl reason \<Rightarrow> okE (StepRetry reason)
          | Inr None \<Rightarrow> okE StepIgnored
          | Inr (Some order_id) \<Rightarrow>
              if kind \<noteq> KindRefund then reverse_with env order_id kind None now_ms
              else
                bindE (settled_refund env event order_id payment_intent now_ms) (\<lambda>check.
                case check of
                  Inl reason \<Rightarrow> okE (StepRetry reason)
                | Inr (RefundsSucceeded facts) \<Rightarrow> reverse_with env order_id kind (Some facts) now_ms
                | Inr (RefundsSettling update_ahead) \<Rightarrow>
                    orRetry ''mark refund'' (mark_refund_settling order_id now_ms) (\<lambda>outcome.
                    okE (if outcome = RBusy then StepRetry ''order busy''
                         else if update_ahead
                         then StepRetry ''the update says succeeded, but stripe lists the refund unsettled''
                         else StepProcessed))
                | Inr (RefundsFailed marked) \<Rightarrow>
                    if \<not> marked then okE StepProcessed
                    else
                      orRetry ''clear refund'' (clear_refund_settling order_id now_ms) (\<lambda>outcome.
                      okE (if outcome = RBusy then StepRetry ''order busy'' else StepProcessed)))))"

definition process_dispute ::
    "'p pay_env \<Rightarrow> payments_settings \<Rightarrow> stripe_event \<Rightarrow> int \<Rightarrow> ('p, step) act" where
  "process_dispute env s event now_ms =
     (case obj_expandable_id (ev_object event) ''payment_intent'' of
        None \<Rightarrow> okE StepIgnored
      | Some payment_intent \<Rightarrow>
          bindE (order_for_intent env s payment_intent) (\<lambda>named.
          case named of
            Inl reason \<Rightarrow> okE (StepRetry reason)
          | Inr None \<Rightarrow> okE StepIgnored
          | Inr (Some order_id) \<Rightarrow>
              (case obj_str (ev_object event) ''id'' of
                 None \<Rightarrow> okE (StepRetry ''dispute event has no dispute id'')
               | Some dispute_id \<Rightarrow>
                   orRetry ''dispute'' (reverse_dispute env s order_id dispute_id now_ms)
                     (\<lambda>outcome. okE (reverse_step outcome)))))"

definition process :: "'p pay_env \<Rightarrow> payments_settings \<Rightarrow> stripe_event \<Rightarrow> int \<Rightarrow> ('p, step) act" where
  "process env s event now_ms =
     (case action_for event of
        ActIgnore \<Rightarrow> okE StepIgnored
      | ActFulfil \<Rightarrow> process_fulfil env s event now_ms
      | ActExpire \<Rightarrow> process_expire event now_ms
      | ActReverse kind \<Rightarrow> process_reverse env s event kind now_ms
      | ActDispute \<Rightarrow> process_dispute env s event now_ms)"

definition event_settled :: "payment_event \<Rightarrow> bool" where
  "event_settled row \<longleftrightarrow> pe_state row = EventProcessed \<or> pe_state row = EventIgnored"

definition is_settled :: "string \<Rightarrow> ('p, bool) act" where
  "is_settled i =
     bindE (dbE (on_events (fetch_payment_event i))) (\<lambda>row. okE (is_some_and event_settled row))"

definition event_row :: "stripe_event \<Rightarrow> payment_event_state \<Rightarrow> nat \<Rightarrow> int \<Rightarrow> payment_event" where
  "event_row event st attempts now_ms =
     \<lparr>pe_id = ev_id event, pe_event_type = ev_type event, pe_livemode = ev_livemode event,
      pe_received_at = now_ms, pe_state = st, pe_attempts = attempts, pe_last_error = None\<rparr>"

definition set_event :: "string \<Rightarrow> payment_event_state \<Rightarrow> string option \<Rightarrow> ('p, unit) act" where
  "set_event i st reason = dbE (on_events (set_payment_event_state i st reason))"

definition record_livemode_mismatch :: "stripe_event \<Rightarrow> int \<Rightarrow> ('p, unit) act" where
  "record_livemode_mismatch event now_ms =
     bindE (dbE (on_events (insert_payment_event_if_absent (event_row event EventIgnored 1 now_ms)))) (\<lambda>fresh.
     if fresh then okE ()
     else
       bindE (is_settled (ev_id event)) (\<lambda>settled.
       if settled then okE () else set_event (ev_id event) EventIgnored None))"

definition record_step :: "string \<Rightarrow> step \<Rightarrow> ('p, event_outcome) act" where
  "record_step i st =
     (case st of
        StepProcessed \<Rightarrow> thenE (set_event i EventProcessed None) (okE OutProcessed)
      | StepIgnored \<Rightarrow> thenE (set_event i EventIgnored None) (okE OutIgnored)
      | StepRetry reason \<Rightarrow>
          bindE (is_settled i) (\<lambda>settled.
          if settled then okE OutDuplicate
          else thenE (set_event i EventFailed (Some reason)) (okE OutRetry)))"

definition handle_event ::
    "'p pay_env \<Rightarrow> payments_settings \<Rightarrow> stripe_event \<Rightarrow> int \<Rightarrow> ('p, event_outcome) act" where
  "handle_event env s event now_ms =
     (if ev_livemode event \<noteq> set_expect_livemode s
      then thenE (record_livemode_mismatch event now_ms) (okE OutIgnored)
      else
        bindE (dbE (on_events (insert_payment_event_if_absent (event_row event EventReceived 0 now_ms)))) (\<lambda>fresh.
        bindE (if fresh then okE False else is_settled (ev_id event)) (\<lambda>duplicate.
        if duplicate then okE OutDuplicate
        else bindE (process env s event now_ms) (record_step (ev_id event)))))"

section \<open>The sweep\<close>

record tally =
  ta_expired :: nat
  ta_resumed :: nat
  ta_reversed :: nat
  ta_redriven :: nat
  ta_errors :: nat

definition default_tally :: tally where
  "default_tally = \<lparr>ta_expired = 0, ta_resumed = 0, ta_reversed = 0, ta_redriven = 0, ta_errors = 0\<rparr>"

definition tally_error :: "tally \<Rightarrow> tally" where
  "tally_error t = t\<lparr>ta_errors := ta_errors t + 1\<rparr>"

definition tally_summary :: "tally \<Rightarrow> string" where
  "tally_summary t =
     ''expired='' @ decimal (ta_expired t) @ '', resumed='' @ decimal (ta_resumed t)
     @ '', reversed='' @ decimal (ta_reversed t) @ '', redriven='' @ decimal (ta_redriven t)
     @ '', errors='' @ decimal (ta_errors t)"

text \<open>A loop that threads the tally, and one part of the sweep: a query, then each row.\<close>

primrec foldE :: "('a \<Rightarrow> 't \<Rightarrow> ('s, 't) eff) \<Rightarrow> 'a list \<Rightarrow> 't \<Rightarrow> ('s, 't) eff" where
  "foldE f [] t = okE t"
| "foldE f (x # xs) t = bindE (f x t) (foldE f xs)"

definition sweep_part ::
    "('p, 'a list) act \<Rightarrow> ('a \<Rightarrow> tally \<Rightarrow> ('p, tally) act) \<Rightarrow> tally \<Rightarrow> ('p, tally) act" where
  "sweep_part query item t =
     bindE (tryE query) (\<lambda>r. case r of Inl _ \<Rightarrow> okE (tally_error t) | Inr found \<Rightarrow> foldE item found t)"

text \<open>Run an engine step and count how it ended.\<close>

definition counted :: "('p, 'a) act \<Rightarrow> ('a \<Rightarrow> tally \<Rightarrow> tally) \<Rightarrow> tally \<Rightarrow> ('p, tally) act" where
  "counted m count t =
     bindE (tryE m) (\<lambda>r. okE (case r of Inl _ \<Rightarrow> tally_error t | Inr a \<Rightarrow> count a t))"

definition count_expired :: "bool \<Rightarrow> tally \<Rightarrow> tally" where
  "count_expired done t = (if done then t\<lparr>ta_expired := ta_expired t + 1\<rparr> else t)"

definition count_reversed :: "reverse_outcome \<Rightarrow> tally \<Rightarrow> tally" where
  "count_reversed outcome t = (if outcome = RApplied then t\<lparr>ta_reversed := ta_reversed t + 1\<rparr> else t)"

fun count_fulfil :: "fulfil_outcome \<Rightarrow> tally \<Rightarrow> tally" where
  "count_fulfil FFulfilled t = t\<lparr>ta_resumed := ta_resumed t + 1\<rparr>"
| "count_fulfil FAlreadyFulfilled t = t\<lparr>ta_resumed := ta_resumed t + 1\<rparr>"
| "count_fulfil (FVoided _) t = t\<lparr>ta_resumed := ta_resumed t + 1\<rparr>"
| "count_fulfil FLeaseHeld t = t"
| "count_fulfil FNotPaid t = t"
| "count_fulfil FIgnored t = t"
| "count_fulfil (FVoidDeferred _) t = t"

definition expire_unpaid :: "int \<Rightarrow> tally \<Rightarrow> ('p, tally) act" where
  "expire_unpaid now_ms =
     sweep_part
       (dbE (on_orders (fetch_payment_orders_by_state [Creating, SessionFailed]
         (now_ms - EXPIRE_UNPAID_AFTER_MS) SWEEP_BATCH)))
       (\<lambda>order. counted (expire_order (po_id order) now_ms) count_expired)"

definition delayed_payment_failed :: "payment_intent \<Rightarrow> bool" where
  "delayed_payment_failed intent \<longleftrightarrow>
     pi_status intent = Some ''requires_payment_method'' \<or> pi_status intent = Some ''canceled''"

definition check_pending_order ::
    "'p pay_env \<Rightarrow> payments_settings \<Rightarrow> int \<Rightarrow> payment_order \<Rightarrow> tally \<Rightarrow> ('p, tally) act" where
  "check_pending_order env s now_ms order t =
     (let expire = counted (expire_order (po_id order) now_ms) count_expired t in
      case po_checkout_session_id order of
        None \<Rightarrow> expire
      | Some session_id \<Rightarrow>
          bindE (get_checkout_session env session_id) (\<lambda>r.
          case r of
            Inl _ \<Rightarrow> okE (tally_error t)
          | Inr session \<Rightarrow>
              if cs_id session \<noteq> session_id then okE (tally_error t)
              else if cs_status session = Some ''complete'' \<and> cs_payment_status session = Some ''paid''
              then counted (fulfil_order env s (po_id order) session now_ms) count_fulfil t
              else if cs_status session = Some ''expired'' then expire
              else if cs_status session = Some ''complete'' \<and> cs_payment_status session = Some ''unpaid''
              then (case cs_payment_intent session of
                None \<Rightarrow> okE t
              | Some payment_intent \<Rightarrow>
                  bindE (get_payment_intent env payment_intent) (\<lambda>r2.
                  case r2 of
                    Inr intent \<Rightarrow> if delayed_payment_failed intent then expire else okE t
                  | Inl _ \<Rightarrow> okE (tally_error t)))
              else okE t))"

definition check_pending :: "'p pay_env \<Rightarrow> payments_settings \<Rightarrow> int \<Rightarrow> tally \<Rightarrow> ('p, tally) act" where
  "check_pending env s now_ms =
     sweep_part
       (dbE (on_orders (fetch_payment_orders_by_state [Pending] (now_ms - CHECK_PENDING_AFTER_MS) SWEEP_BATCH)))
       (check_pending_order env s now_ms)"

definition resume_paid :: "'p pay_env \<Rightarrow> payments_settings \<Rightarrow> int \<Rightarrow> tally \<Rightarrow> ('p, tally) act" where
  "resume_paid env s now_ms =
     sweep_part
       (dbE (on_orders (fetch_payment_orders_by_state [Paid] now_ms SWEEP_BATCH)))
       (\<lambda>order t.
          if is_some_and (\<lambda>until. until \<ge> now_ms) (po_lease_until order) then okE t
          else counted (resume_order env s (po_id order) now_ms) count_fulfil t)"

definition apply_pending_reversals :: "'p pay_env \<Rightarrow> int \<Rightarrow> tally \<Rightarrow> ('p, tally) act" where
  "apply_pending_reversals env now_ms =
     sweep_part
       (dbE (on_orders (fetch_payment_orders_reversal_pending [Fulfilled] now_ms SWEEP_BATCH)))
       (\<lambda>order t.
          case po_reversal_pending order of
            None \<Rightarrow> okE t
          | Some pending \<Rightarrow>
              counted (reverse_order env (po_id order) (pending_kind pending) None now_ms) count_reversed t)"

text \<open>Rust's division rounds towards zero.\<close>

definition trunc_div :: "int \<Rightarrow> int \<Rightarrow> int" where
  "trunc_div a b = (if a < 0 then - (- a div b) else a div b)"

definition settle_refund ::
    "'p pay_env \<Rightarrow> int \<Rightarrow> payment_order \<Rightarrow> tally \<Rightarrow> ('p, tally) act" where
  "settle_refund env now_ms order t =
     (case (po_refund_settling_since order, po_payment_intent_id order) of
        (Some since, Some payment_intent) \<Rightarrow>
          bindE (list_refunds env payment_intent) (\<lambda>r.
          case r of
            Inl _ \<Rightarrow> okE (tally_error t)
          | Inr refunds \<Rightarrow>
              (case refund_facts_of refunds (po_amount_cents order) (trunc_div since 1000) now_ms of
                 None \<Rightarrow> okE (tally_error t)
               | Some facts \<Rightarrow>
                   (case rfa_status facts of
                      RefundPending \<Rightarrow> okE t
                    | RefundFailed \<Rightarrow> counted (clear_refund_settling (po_id order) now_ms) count_reversed t
                    | RefundSucceeded \<Rightarrow>
                        counted (reverse_order env (po_id order) KindRefund (Some facts) now_ms)
                          count_reversed t)))
      | _ \<Rightarrow> okE (tally_error t))"

definition settle_refunds :: "'p pay_env \<Rightarrow> int \<Rightarrow> tally \<Rightarrow> ('p, tally) act" where
  "settle_refunds env now_ms =
     sweep_part (dbE (on_orders (fetch_payment_orders_refund_settling now_ms SWEEP_BATCH)))
       (settle_refund env now_ms)"

definition finish_number_releases :: "'p pay_env \<Rightarrow> int \<Rightarrow> tally \<Rightarrow> ('p, tally) act" where
  "finish_number_releases env now_ms =
     sweep_part (dbE (on_numbers (fetch_cipher_numbers_release_pending SWEEP_BATCH)))
       (\<lambda>row t.
          case cn_order_id row of
            None \<Rightarrow> okE t
          | Some order_id \<Rightarrow> counted (finish_number_release env order_id now_ms) count_reversed t)"

definition sweep_open_disputes :: "'p pay_env \<Rightarrow> payments_settings \<Rightarrow> int \<Rightarrow> tally \<Rightarrow> ('p, tally) act" where
  "sweep_open_disputes env s now_ms =
     sweep_part (dbE (on_orders (fetch_payment_orders_disputed [Fulfilled] now_ms SWEEP_BATCH)))
       (\<lambda>order. counted (recheck_disputes env s (po_id order) now_ms) count_reversed)"

definition get_event :: "'p pay_env \<Rightarrow> string \<Rightarrow> ('p, stripe_error + stripe_event) act" where
  "get_event env i = stripeE (CallGetEvent i) (api_get_event (en_stripe env) i)"

definition count_redriven :: "event_outcome \<Rightarrow> tally \<Rightarrow> tally" where
  "count_redriven outcome t =
     (if outcome = OutRetry then tally_error t else t\<lparr>ta_redriven := ta_redriven t + 1\<rparr>)"

definition redrive_failed :: "string \<Rightarrow> string \<Rightarrow> tally \<Rightarrow> ('p, tally) act" where
  "redrive_failed i reason t = counted (set_event i EventFailed (Some reason)) (\<lambda>_ t'. t') (tally_error t)"

definition redrive_event ::
    "'p pay_env \<Rightarrow> payments_settings \<Rightarrow> int \<Rightarrow> payment_event \<Rightarrow> tally \<Rightarrow> ('p, tally) act" where
  "redrive_event env s now_ms row t =
     bindE (get_event env (pe_id row)) (\<lambda>r.
     case r of
       Inr event \<Rightarrow>
         if ev_id event = pe_id row then counted (handle_event env s event now_ms) count_redriven t
         else redrive_failed (pe_id row) ''stripe returned a different event'' t
     | Inl err \<Rightarrow> redrive_failed (pe_id row) (stripe_text ''get_event'' err) t)"

definition redrive_events :: "'p pay_env \<Rightarrow> payments_settings \<Rightarrow> int \<Rightarrow> tally \<Rightarrow> ('p, tally) act" where
  "redrive_events env s now_ms t =
     bindE (tryE (dbE (on_events (fetch_failed_payment_events MAX_EVENT_ATTEMPTS SWEEP_BATCH)))) (\<lambda>failed.
     bindE (tryE (dbE (on_events (fetch_payment_events_by_state EventReceived
              (now_ms - STRANDED_EVENT_AFTER_MS) SWEEP_BATCH)))) (\<lambda>stranded.
     let t1 = (case failed of Inl _ \<Rightarrow> tally_error t | Inr _ \<Rightarrow> t);
         t2 = (case stranded of Inl _ \<Rightarrow> tally_error t1 | Inr _ \<Rightarrow> t1);
         found = (case failed of Inl _ \<Rightarrow> [] | Inr es \<Rightarrow> es) @ (case stranded of Inl _ \<Rightarrow> [] | Inr es \<Rightarrow> es)
     in foldE (redrive_event env s now_ms) found t2))"

definition reconcile :: "'p pay_env \<Rightarrow> payments_settings \<Rightarrow> int \<Rightarrow> ('p, string) act" where
  "reconcile env s now_ms =
     bindE (expire_unpaid now_ms default_tally) (\<lambda>t.
     bindE (check_pending env s now_ms t) (\<lambda>t.
     bindE (resume_paid env s now_ms t) (\<lambda>t.
     bindE (apply_pending_reversals env now_ms t) (\<lambda>t.
     bindE (settle_refunds env now_ms t) (\<lambda>t.
     bindE (finish_number_releases env now_ms t) (\<lambda>t.
     bindE (sweep_open_disputes env s now_ms t) (\<lambda>t.
     bindE (redrive_events env s now_ms t) (\<lambda>t.
     okE (tally_summary t)))))))))"

end
