(* ===== verification/Engine_Protocol.thy ===== *)
theory Engine_Protocol
  imports Dispatch
begin

text \<open>
  A rely-guarantee reading of the payment engine. The rely is what a worker needs of the
  others: no order disappears, a change moves its version, and what identifies a purchase
  (its price, its product, its payment once recorded) never changes. The guarantee is what a
  worker gives: the same, and the order's state moves along an edge of the order's life
  cycle. The guarantee implies the rely, so any number of workers running the engine at once
  keep each other's assumptions.

  \<open>safe\<close> is the judgement for a step without a lease and \<open>leaseS\<close> the one for a step under a
  lease, with a precondition and postconditions on the leased copy of the order; their rules
  follow the effect combinators, and \<open>stays\<close> is the special case of an invariant on the
  order's state.
\<close>

named_theorems safe_intros \<open>rules for steps without a lease\<close>
named_theorems stays_intros \<open>rules for steps that keep the leased order within a set of states\<close>

section \<open>The life of an order\<close>

definition edge :: "order_state \<Rightarrow> order_state \<Rightarrow> bool" where
  "edge a b \<longleftrightarrow> a = b \<or>
     (case a of
        Creating \<Rightarrow> b \<in> {Pending, SessionFailed, Paid, Expired, Voided, Refunded}
      | Pending \<Rightarrow> b \<in> {Paid, Expired, Voided, Refunded}
      | SessionFailed \<Rightarrow> b \<in> {Paid, Expired, Voided, Refunded}
      | Expired \<Rightarrow> b \<in> {Paid, Refunded}
      | Paid \<Rightarrow> b \<in> {Fulfilled, Voided, Refunded}
      | Fulfilled \<Rightarrow> b = Refunded
      | Voided \<Rightarrow> b = Paid
      | Refunded \<Rightarrow> False)"

text \<open>What a change of an order leaves alone: its identity, product, price and date; its buyer
  (who may only be unlinked); and, once recorded, its session and its payment.\<close>

definition kept :: "payment_order \<Rightarrow> payment_order \<Rightarrow> bool" where
  "kept r r' \<longleftrightarrow>
     po_id r' = po_id r \<and> po_provider r' = po_provider r \<and> po_sku r' = po_sku r
     \<and> po_amount_cents r' = po_amount_cents r \<and> po_currency r' = po_currency r
     \<and> po_created_at r' = po_created_at r
     \<and> (po_user_id r' = po_user_id r \<or> po_user_id r' = None)
     \<and> (po_checkout_session_id r \<noteq> None \<longrightarrow> po_checkout_session_id r' = po_checkout_session_id r)
     \<and> (po_payment_intent_id r \<noteq> None \<longrightarrow> po_payment_intent_id r' = po_payment_intent_id r)"

lemma kept_refl [simp]: "kept r r" by (simp add: kept_def)

lemma kept_trans: "kept r r' \<Longrightarrow> kept r' r'' \<Longrightarrow> kept r r''"
  unfolding kept_def by metis

text \<open>One row over one step of this worker, and over any number of steps of others.\<close>

definition row_guar :: "payment_order \<Rightarrow> payment_order \<Rightarrow> bool" where
  "row_guar r r' \<longleftrightarrow> lease_dropped r r'
     \<or> po_version r < po_version r' \<and> kept r r' \<and> edge (po_state r) (po_state r')"

definition same_core :: "payment_order \<Rightarrow> payment_order \<Rightarrow> bool" where
  "same_core r r' \<longleftrightarrow> kept r r' \<and> kept r' r \<and> po_state r' = po_state r"

definition row_rely :: "payment_order \<Rightarrow> payment_order \<Rightarrow> bool" where
  "row_rely r r' \<longleftrightarrow> po_version r' = po_version r \<and> same_core r r'
     \<or> po_version r < po_version r' \<and> kept r r'"

definition orders_guar :: "orders \<Rightarrow> orders \<Rightarrow> bool" where
  "orders_guar t t' \<longleftrightarrow>
     (\<forall>i r. map_of t i = Some r \<longrightarrow> (\<exists>r'. map_of t' i = Some r' \<and> row_guar r r'))
     \<and> (\<forall>i. map_of t i = None \<longrightarrow> map_of t' i = None)"

definition orders_rely :: "orders \<Rightarrow> orders \<Rightarrow> bool" where
  "orders_rely t t' \<longleftrightarrow>
     (\<forall>i r. map_of t i = Some r \<longrightarrow> (\<exists>r'. map_of t' i = Some r' \<and> row_rely r r'))
     \<and> (\<forall>i r'. map_of t i = None \<longrightarrow> map_of t' i = Some r' \<longrightarrow> po_id r' = i)"

definition own_ids :: "orders \<Rightarrow> bool" where
  "own_ids t \<longleftrightarrow> (\<forall>i r. map_of t i = Some r \<longrightarrow> po_id r = i)"

lemma same_core_refl [simp]: "same_core r r" by (simp add: same_core_def)

lemma same_core_trans: "same_core r r' \<Longrightarrow> same_core r' r'' \<Longrightarrow> same_core r r''"
  unfolding same_core_def using kept_trans by metis

lemma lease_dropped_same_core: "lease_dropped r r' \<Longrightarrow> same_core r r' \<and> po_version r' = po_version r"
  by (auto simp: lease_dropped_def same_core_def kept_def)

lemma row_rely_refl [simp]: "row_rely r r" by (simp add: row_rely_def)

lemma row_rely_trans: "row_rely r r' \<Longrightarrow> row_rely r' r'' \<Longrightarrow> row_rely r r''"
  unfolding row_rely_def using same_core_trans [of r r' r''] kept_trans [of r r' r'']
  by (auto simp: same_core_def)

lemma row_guar_rely: "row_guar r r' \<Longrightarrow> row_rely r r'"
  using lease_dropped_same_core by (auto simp: row_guar_def row_rely_def)

lemma orders_rely_refl [simp]: "orders_rely t t" by (simp add: orders_rely_def)

lemma row_rely_id: "row_rely r r' \<Longrightarrow> po_id r' = po_id r"
  by (auto simp: row_rely_def same_core_def kept_def)

lemma orders_rely_row:
  "orders_rely t t' \<Longrightarrow> map_of t i = Some r \<Longrightarrow> \<exists>r'. map_of t' i = Some r' \<and> row_rely r r'"
  by (simp add: orders_rely_def)

lemma orders_rely_trans:
  assumes "orders_rely t t'" "orders_rely t' t''"
  shows "orders_rely t t''"
  unfolding orders_rely_def
proof (intro conjI allI impI)
  fix i r assume "map_of t i = Some r"
  then show "\<exists>r'. map_of t'' i = Some r' \<and> row_rely r r'"
    using orders_rely_row [OF assms(1)] orders_rely_row [OF assms(2)] row_rely_trans by blast
next
  fix i r' assume a: "map_of t i = None" "map_of t'' i = Some r'"
  show "po_id r' = i"
  proof (cases "map_of t' i")
    case None
    then show ?thesis using assms(2) a(2) by (simp add: orders_rely_def)
  next
    case (Some r)
    then have "po_id r = i" using assms(1) a(1) by (simp add: orders_rely_def)
    then show ?thesis using orders_rely_row [OF assms(2) Some] a(2) row_rely_id by auto
  qed
qed

lemma own_ids_rely: "own_ids t \<Longrightarrow> orders_rely t t' \<Longrightarrow> own_ids t'"
  unfolding own_ids_def
proof (intro allI impI)
  fix i r' assume t: "\<forall>i r. map_of t i = Some r \<longrightarrow> po_id r = i" "orders_rely t t'" "map_of t' i = Some r'"
  then show "po_id r' = i"
    using orders_rely_row [OF t(2), of i] row_rely_id by (cases "map_of t i") (auto simp: orders_rely_def)
qed

lemma orders_guar_refl [simp]: "orders_guar t t"
  by (simp add: orders_guar_def row_guar_def lease_dropped_def)

text \<open>Every worker's guarantee is what the others rely on.\<close>

lemma orders_guar_rely: "orders_guar t t' \<Longrightarrow> orders_rely t t'"
  unfolding orders_guar_def orders_rely_def using row_guar_rely by fastforce

text \<open>A store under the rely is versioned.\<close>

interpretation rv: versioned_store map_of po_version same_core orders_rely
proof
  show "same_core r r'' " if "same_core r r'" "same_core r' r''" for r r' r''
    using that by (rule same_core_trans)
  show "\<exists>r'. map_of t' i = Some r' \<and> (po_version r < po_version r' \<or> po_version r' = po_version r \<and> same_core r r')"
    if "orders_rely t t'" "map_of t i = Some r" for t t' i r
    using that unfolding orders_rely_def row_rely_def by blast
qed simp

section \<open>Steps without a lease\<close>

definition proper :: "pay_db \<Rightarrow> 'p world \<Rightarrow> bool" where
  "proper d0 w \<longleftrightarrow>
     (\<forall>f \<in> set (w_others w). \<forall>d. orders_rely (pd_orders d) (pd_orders (f d)))
     \<and> (\<forall>(d, d') \<in> set (w_steps w). orders_guar (pd_orders d) (pd_orders d'))
     \<and> own_ids (pd_orders d0) \<and> orders_rely (pd_orders d0) (pd_orders (w_db w))"

definition safe :: "('p, 'a) act \<Rightarrow> bool" where
  "safe m \<longleftrightarrow> (\<forall>d0. keeps (proper d0) m)"

lemma safeD: "safe m \<Longrightarrow> proper d0 w \<Longrightarrow> proper d0 (snd (m w))"
  by (simp add: safe_def keeps_def)

lemma properD: "proper d0 w \<Longrightarrow> orders_rely (pd_orders d0) (pd_orders (w_db w))"
  by (simp add: proper_def)

lemma proper_here: "proper d0 w \<Longrightarrow> proper (w_db w) w"
  using own_ids_rely by (auto simp: proper_def)

lemma proper_step:
  assumes "proper d0 w" "orders_guar (pd_orders (others_run w)) (pd_orders d)"
  shows "proper d0 (w\<lparr>w_db := d, w_others := tl (w_others w), w_steps := w_steps w @ [(others_run w, d)]\<rparr>)"
proof -
  have "orders_rely (pd_orders (w_db w)) (pd_orders (others_run w))"
    using assms(1) by (auto simp: others_run_def proper_def split: list.split)
  then have "orders_rely (pd_orders d0) (pd_orders d)"
    using assms orders_guar_rely orders_rely_trans properD by blast
  moreover have "set (tl (w_others w)) \<subseteq> set (w_others w)" by (cases "w_others w") auto
  ultimately show ?thesis using assms by (auto simp: proper_def)
qed

lemma safe_dbE:
  "(\<And>d. orders_guar (pd_orders d) (pd_orders (snd (op d)))) \<Longrightarrow> safe (dbE op)"
  unfolding safe_def keeps_def by (auto simp: dbE_def intro: proper_step split: prod.split) (metis proper_step snd_conv)

lemma safe_okE [safe_intros]: "safe (okE a)" by (simp add: safe_def keeps_okE)
lemma safe_errE [safe_intros]: "safe (errE e)" by (simp add: safe_def keeps_errE)
lemma safe_resE [safe_intros]: "safe (resE r)" by (simp add: safe_def keeps_resE)
lemma safe_bindE [safe_intros]: "\<lbrakk>safe m; \<And>a. safe (f a)\<rbrakk> \<Longrightarrow> safe (bindE m f)"
  by (simp add: safe_def keeps_bindE)
lemma safe_thenE [safe_intros]: "\<lbrakk>safe m; safe k\<rbrakk> \<Longrightarrow> safe (thenE m k)"
  by (simp add: safe_def keeps_thenE)
lemma safe_tryE [safe_intros]: "safe m \<Longrightarrow> safe (tryE m)" by (simp add: safe_def keeps_tryE)
lemma safe_whenE [safe_intros]: "safe m \<Longrightarrow> safe (whenE b m)" by (simp add: safe_def keeps_whenE)
lemma safe_if [safe_intros]: "\<lbrakk>safe m; safe k\<rbrakk> \<Longrightarrow> safe (if b then m else k)" by simp
lemma safe_let [safe_intros]: "(\<And>x. safe (f x)) \<Longrightarrow> safe (let x = v in f x)" by simp
lemma safe_option [safe_intros]:
  "\<lbrakk>safe m; \<And>x. safe (f x)\<rbrakk> \<Longrightarrow> safe (case v of None \<Rightarrow> m | Some x \<Rightarrow> f x)"
  by (simp split: option.split)
lemma safe_sum [safe_intros]:
  "\<lbrakk>\<And>x. safe (f x); \<And>x. safe (g x)\<rbrakk> \<Longrightarrow> safe (case v of Inl x \<Rightarrow> f x | Inr x \<Rightarrow> g x)"
  by (simp split: sum.split)
lemma safe_prod [safe_intros]: "(\<And>x y. safe (f x y)) \<Longrightarrow> safe (case v of (x, y) \<Rightarrow> f x y)"
  by (simp split: prod.split)
lemma safe_list [safe_intros]:
  "\<lbrakk>safe m; \<And>x y. safe (f x y)\<rbrakk> \<Longrightarrow> safe (case v of [] \<Rightarrow> m | x # y \<Rightarrow> f x y)"
  by (simp split: list.split)
lemma safe_forE [safe_intros]: "(\<And>x. safe (f x)) \<Longrightarrow> safe (forE f xs)"
  by (simp add: safe_def keeps_forE)
lemma safe_retryE [safe_intros]: "\<lbrakk>safe body; safe after\<rbrakk> \<Longrightarrow> safe (retryE n body after)"
  by (simp add: safe_def keeps_retryE)
lemma safe_foldE [safe_intros]: "(\<And>x t. safe (f x t)) \<Longrightarrow> safe (foldE f xs t)"
  by (induction xs arbitrary: t) (auto intro!: safe_intros)

lemma safe_stripeE [safe_intros]: "safe (stripeE c f)"
  by (auto simp: safe_def keeps_def stripeE_def proper_def split: prod.split)

lemma safe_modE_published [safe_intros]: "safe (modE (\<lambda>w. w\<lparr>w_published := f w\<rparr>))"
  by (auto simp: safe_def keeps_def modE_def proper_def)

text \<open>Database calls that leave the orders alone.\<close>

lemma safe_numbers [safe_intros]: "safe (dbE (on_numbers m))"
  by (rule safe_dbE) (simp add: on_numbers_def split: prod.split)
lemma safe_events [safe_intros]: "safe (dbE (on_events m))"
  by (rule safe_dbE) (simp add: on_events_def split: prod.split)
lemma safe_ledger [safe_intros]: "safe (dbE (on_ledger m))"
  by (rule safe_dbE) (simp add: on_ledger_def split: prod.split)
lemma safe_memberships [safe_intros]: "safe (dbE (on_memberships m))"
  unfolding on_memberships_def by (rule safe_ledger)
lemma safe_users [safe_intros]: "safe (dbE (on_users m))"
  by (rule safe_dbE) (simp add: on_users_def split: prod.split)

text \<open>Calls on the orders: reads, leases and the unlinking of a buyer.\<close>

lemma safe_orders:
  "(\<And>t. orders_guar t (snd (m t))) \<Longrightarrow> safe (dbE (on_orders m))"
  by (rule safe_dbE) (simp add: on_orders_def split: prod.split, metis snd_conv)

lemma safe_reads [safe_intros]:
  "safe (dbE (on_orders (fetch_payment_order i)))"
  "safe (dbE (on_orders (fetch_payment_order_by_session i)))"
  "safe (dbE (on_orders (fetch_payment_order_by_intent i)))"
  "safe (dbE (on_orders (fetch_payment_orders_by_user i states)))"
  "safe (dbE (on_orders (fetch_payment_orders_by_state states before limit)))"
  "safe (dbE (on_orders (fetch_payment_orders_reversal_pending states now limit)))"
  "safe (dbE (on_orders (fetch_payment_orders_disputed states now limit)))"
  "safe (dbE (on_orders (fetch_payment_orders_refund_settling now limit)))"
  by (rule safe_orders, simp add: fetch_payment_order_def fetch_payment_order_by_session_def
    fetch_payment_order_by_intent_def fetch_payment_orders_by_user_def fetch_payment_orders_by_state_def
    fetch_payment_orders_reversal_pending_def fetch_payment_orders_disputed_def
    fetch_payment_orders_refund_settling_def)+

lemma acquire_guar: "orders_guar t (snd (acquire_payment_order_lease i now until t))"
proof -
  have "row_guar r (r\<lparr>po_version := v, po_lease_until := Some until\<rparr>)"
    if "checked_succ (po_version r) = Some v" for r v
    using checked_succ_less [OF that] by (simp add: row_guar_def kept_def edge_def)
  moreover have "row_guar r r" for r by (simp add: row_guar_def lease_dropped_def)
  ultimately show ?thesis unfolding orders_guar_def by (auto simp: acquire_lookup split: option.split)
qed

lemma release_guar: "orders_guar t (snd (release_payment_order_lease i until t))"
  unfolding orders_guar_def by (auto simp: release_lookup row_guar_def lease_dropped_def)

lemma unlink_guar: "orders_guar t (snd (unlink_payment_orders_by_user u t))"
proof -
  have "row_guar r (r\<lparr>po_version := v, po_user_id := None\<rparr>)" if "checked_succ (po_version r) = Some v" for r v
    using checked_succ_less [OF that] by (simp add: row_guar_def kept_def edge_def)
  moreover have "map_of (snd (unlink_payment_orders_by_user u t)) i = None" if "map_of t i = None" for i
    using unlink_lookup [of u t _ _ i] that
    by (cases "unlink_rows u t") (simp add: unlink_payment_orders_by_user_def)
  ultimately show ?thesis unfolding orders_guar_def
    using unlink_cases by (fastforce simp: row_guar_def lease_dropped_def)
qed

lemma safe_acquire_lease [safe_intros]: "safe (dbE (on_orders (acquire_payment_order_lease i now until)))"
  by (rule safe_orders) (rule acquire_guar)
lemma safe_release_lease [safe_intros]: "safe (dbE (on_orders (release_payment_order_lease i until)))"
  by (rule safe_orders) (rule release_guar)
lemma safe_unlink [safe_intros]: "safe (dbE (on_orders (unlink_payment_orders_by_user u)))"
  by (rule safe_orders) (rule unlink_guar)

section \<open>Steps under a lease\<close>

text \<open>The copy a lease holder works on is the stored order, as far as the protocol speaks of
  it, unless the stored order has moved on.\<close>

definition coherent :: "payment_order \<Rightarrow> pay_db \<Rightarrow> bool" where
  "coherent o' d \<longleftrightarrow> (\<exists>r. map_of (pd_orders d) (po_id o') = Some r \<and> row_rely o' r)"

definition leaseS :: "(payment_order \<Rightarrow> bool) \<Rightarrow> ('p, 'a) lact \<Rightarrow> ('a \<Rightarrow> payment_order \<Rightarrow> bool)
    \<Rightarrow> (payment_order \<Rightarrow> bool) \<Rightarrow> bool" where
  "leaseS P m Q E \<longleftrightarrow>
     (\<forall>d0 l w r l' w'. m (l, w) = (r, (l', w')) \<longrightarrow> P (le_order l) \<longrightarrow> coherent (le_order l) (w_db w)
        \<longrightarrow> proper d0 w \<longrightarrow>
        coherent (le_order l') (w_db w') \<and> proper d0 w'
        \<and> (case r of Inr a \<Rightarrow> Q a (le_order l') | Inl _ \<Rightarrow> E (le_order l')))"

lemma leaseSI:
  assumes "\<And>d0 l w r l' w'. m (l, w) = (r, (l', w')) \<Longrightarrow> P (le_order l) \<Longrightarrow> coherent (le_order l) (w_db w)
    \<Longrightarrow> proper d0 w \<Longrightarrow> coherent (le_order l') (w_db w') \<and> proper d0 w'
      \<and> (case r of Inr a \<Rightarrow> Q a (le_order l') | Inl _ \<Rightarrow> E (le_order l'))"
  shows "leaseS P m Q E"
  using assms unfolding leaseS_def by blast

lemma leaseSD:
  assumes "leaseS P m Q E" "m (l, w) = (r, (l', w'))" "P (le_order l)" "coherent (le_order l) (w_db w)" "proper d0 w"
  shows "coherent (le_order l') (w_db w') \<and> proper d0 w'
      \<and> (case r of Inr a \<Rightarrow> Q a (le_order l') | Inl _ \<Rightarrow> E (le_order l'))"
  using assms unfolding leaseS_def by blast

lemma coherent_rely:
  "coherent o' d \<Longrightarrow> orders_rely (pd_orders d) (pd_orders d') \<Longrightarrow> coherent o' d'"
  unfolding coherent_def using orders_rely_row row_rely_trans by blast

lemma leaseS_weaken:
  assumes "leaseS P m Q E" "\<And>o'. P' o' \<Longrightarrow> P o'" "\<And>a o'. Q a o' \<Longrightarrow> Q' a o'" "\<And>o'. E o' \<Longrightarrow> E' o'"
  shows "leaseS P' m Q' E'"
  by (rule leaseSI, drule leaseSD [OF assms(1)]) (use assms(2-4) in \<open>auto split: sum.splits\<close>)

lemma leaseS_okE: "(\<And>o'. P o' \<Longrightarrow> Q a o') \<Longrightarrow> leaseS P (okE a) Q E"
  by (rule leaseSI) (auto simp: okE_def)

lemma leaseS_errE: "(\<And>o'. P o' \<Longrightarrow> E o') \<Longrightarrow> leaseS P (errE e) Q E"
  by (rule leaseSI) (auto simp: errE_def)

lemma leaseS_bindE:
  assumes m: "leaseS P m Q' E" and f: "\<And>a. leaseS (Q' a) (f a) Q E"
  shows "leaseS P (bindE m f) Q E"
proof (rule leaseSI)
  fix d0 l w r l' w'
  assume run: "bindE m f (l, w) = (r, (l', w'))"
    and pre: "P (le_order l)" "coherent (le_order l) (w_db w)" "proper d0 w"
  obtain r1 l1 w1 where first: "m (l, w) = (r1, (l1, w1))" by (metis prod.exhaust)
  note mid = leaseSD [OF m first pre]
  show "coherent (le_order l') (w_db w') \<and> proper d0 w'
      \<and> (case r of Inr a \<Rightarrow> Q a (le_order l') | Inl _ \<Rightarrow> E (le_order l'))"
  proof (cases r1)
    case (Inl e)
    then show ?thesis using run first mid by (auto simp: bindE_run)
  next
    case (Inr x)
    then have "f x (l1, w1) = (r, (l', w'))" using run first by (simp add: bindE_run)
    from leaseSD [OF f this, of d0] show ?thesis using mid Inr by simp
  qed
qed

lemma leaseS_thenE:
  "leaseS P m (\<lambda>_. Q') E \<Longrightarrow> leaseS Q' k Q E \<Longrightarrow> leaseS P (thenE m k) Q E"
  unfolding thenE_def by (rule leaseS_bindE)

text \<open>Reading the leased copy first: the rest runs with the copy known.\<close>

lemma leaseS_read:
  assumes "\<And>order. P order \<Longrightarrow> leaseS (\<lambda>o'. o' = order) (f order) Q E"
  shows "leaseS P (bindE orderL f) Q E"
proof (rule leaseSI)
  fix d0 l w r l' w'
  assume "bindE orderL f (l, w) = (r, (l', w'))" "P (le_order l)" "coherent (le_order l) (w_db w)" "proper d0 w"
  then show "coherent (le_order l') (w_db w') \<and> proper d0 w'
      \<and> (case r of Inr a \<Rightarrow> Q a (le_order l') | Inl _ \<Rightarrow> E (le_order l'))"
    by (intro leaseSD [OF assms]) (simp_all add: bindE_run orderL_def)
qed

lemma leaseS_tryE:
  assumes "leaseS P m (\<lambda>a. Q (Inr a)) (\<lambda>o'. E o' \<and> (\<forall>e. Q (Inl e) o'))"
  shows "leaseS P (tryE m) Q E"
proof (rule leaseSI)
  fix d0 l w r l' w'
  assume run: "tryE m (l, w) = (r, (l', w'))"
    and pre: "P (le_order l)" "coherent (le_order l) (w_db w)" "proper d0 w"
  obtain r1 l1 w1 where first: "m (l, w) = (r1, (l1, w1))" by (metis prod.exhaust)
  show "coherent (le_order l') (w_db w') \<and> proper d0 w'
      \<and> (case r of Inr a \<Rightarrow> Q a (le_order l') | Inl _ \<Rightarrow> E (le_order l'))"
    using leaseSD [OF assms first pre] run first by (cases r1) (auto simp: tryE_run split: if_splits)
qed

lemma leaseS_whenE:
  "\<lbrakk>b \<Longrightarrow> leaseS P m (\<lambda>_. Q) E; \<And>o'. \<not> b \<Longrightarrow> P o' \<Longrightarrow> Q o'\<rbrakk> \<Longrightarrow> leaseS P (whenE b m) (\<lambda>_. Q) E"
  by (simp add: whenE_def leaseS_okE)

lemma leaseS_retryE:
  assumes "leaseS P body (\<lambda>r o'. case r of Some a \<Rightarrow> Q a o' | None \<Rightarrow> P o') E" "leaseS P after Q E"
  shows "leaseS P (retryE n body after) Q E"
  using assms(2)
proof (induction n)
  case (Suc n)
  show ?case unfolding retryE.simps
  proof (rule leaseS_bindE [OF assms(1)])
    show "leaseS (\<lambda>o'. case r of Some a \<Rightarrow> Q a o' | None \<Rightarrow> P o')
        (case r of Some a \<Rightarrow> okE a | None \<Rightarrow> retryE n body after) Q E" for r
      using Suc by (cases r) (auto intro: leaseS_okE)
  qed
qed simp

lemma leaseS_liftL:
  assumes "safe m" "\<And>o' a. P o' \<Longrightarrow> Q a o'" "\<And>o'. P o' \<Longrightarrow> E o'"
  shows "leaseS P (liftL m) Q E"
proof (rule leaseSI)
  fix d0 l w r l' w'
  assume run: "liftL m (l, w) = (r, (l', w'))"
    and pre: "P (le_order l)" "coherent (le_order l) (w_db w)" "proper d0 w"
  obtain r1 w1 where first: "m w = (r1, w1)" by (metis prod.exhaust)
  have "proper d0 w1" "proper (w_db w) w1"
    using assms(1) pre(3) proper_here [OF pre(3)] first unfolding safe_def keeps_def by (metis snd_conv)+
  then show "coherent (le_order l') (w_db w') \<and> proper d0 w'
      \<and> (case r of Inr a \<Rightarrow> Q a (le_order l') | Inl _ \<Rightarrow> E (le_order l'))"
    using run first pre(1) assms(2,3) coherent_rely [OF pre(2) properD]
    by (auto simp: liftL_def split: sum.split)
qed

text \<open>A write that keeps the protocol: the stored order, if the fence lets the write through,
  is the leased copy.\<close>

definition good_change :: "(payment_order \<Rightarrow> payment_order) \<Rightarrow> payment_order \<Rightarrow> bool" where
  "good_change change o' \<longleftrightarrow>
     kept o' (change o') \<and> po_user_id (change o') = po_user_id o'
     \<and> po_version (change o') = po_version o' \<and> edge (po_state o') (po_state (change o'))"

definition bumped :: "payment_order \<Rightarrow> payment_order" where
  "bumped o' = o'\<lparr>po_version := po_version o' + 1\<rparr>"

lemma update_guar:
  assumes c: "coherent o' d" and g: "good_change change o'"
  shows "orders_guar (pd_orders d) (snd (update_payment_order_if_state (change o') (po_state o') (pd_orders d)))"
    and "fst (update_payment_order_if_state (change o') (po_state o') (pd_orders d)) = Inr True \<Longrightarrow>
      map_of (snd (update_payment_order_if_state (change o') (po_state o') (pd_orders d))) (po_id o')
        = Some (bumped (change o'))"
proof -
  let ?t = "pd_orders d" and ?n = "change o'"
  have n: "po_id ?n = po_id o'" "po_version ?n = po_version o'" "kept o' ?n" "edge (po_state o') (po_state ?n)"
    using g by (simp_all add: good_change_def kept_def)
  obtain r where r: "map_of ?t (po_id o') = Some r" "row_rely o' r" using c by (auto simp: coherent_def)
  have guar: "row_guar r (bumped ?n)" if ap: "update_applies ?n (po_state o') ?t"
  proof -
    have f: "po_version r = po_version o'" "po_version o' < po_version o' + 1"
      using update_applies_row [OF ap, of r] r(1) n(1,2) by auto
    then have "same_core o' r" using r(2) by (auto simp: row_rely_def)
    then have "kept r ?n" "po_state r = po_state o'" using n(3) kept_trans by (auto simp: same_core_def)
    then show ?thesis using f n by (simp add: row_guar_def bumped_def kept_def)
  qed
  have "row_guar x x" for x by (simp add: row_guar_def lease_dropped_def)
  then show "orders_guar ?t (snd (update_payment_order_if_state ?n (po_state o') ?t))"
    using guar r(1) n(1) unfolding orders_guar_def update_result bumped_def
    by (auto simp: map_of_update)
  show "map_of (snd (update_payment_order_if_state ?n (po_state o') ?t)) (po_id o') = Some (bumped ?n)"
    if "fst (update_payment_order_if_state ?n (po_state o') ?t) = Inr True"
    using that n(1) by (simp add: update_success update_result bumped_def map_of_update)
qed

lemma leaseS_write:
  assumes "\<And>o'. P o' \<Longrightarrow> good_change change o'" "\<And>o'. P o' \<Longrightarrow> Q () (bumped (change o'))" "\<And>o'. P o' \<Longrightarrow> E o'"
  shows "leaseS P (write_order change) Q E"
proof (rule leaseSI)
  fix d0 l w r l' w'
  assume run: "write_order change (l, w) = (r, (l', w'))"
    and pre: "P (le_order l)" "coherent (le_order l) (w_db w)" "proper d0 w"
  let ?o = "le_order l"
  let ?u = "update_payment_order_if_state (change ?o) (po_state ?o) (pd_orders (others_run w))"
  let ?d = "(others_run w)\<lparr>pd_orders := snd ?u\<rparr>"
  let ?w = "w\<lparr>w_db := ?d, w_others := tl (w_others w), w_steps := w_steps w @ [(others_run w, ?d)]\<rparr>"
  have one: "dbE (on_orders (update_payment_order_if_state (change ?o) (po_state ?o))) w = (fst ?u, ?w)"
    by (simp add: dbE_def on_orders_def split: prod.split)
  have "orders_rely (pd_orders (w_db w)) (pd_orders (others_run w))"
    using pre(3) by (auto simp: others_run_def proper_def split: list.split)
  then have co: "coherent ?o (others_run w)" using pre(2) coherent_rely by blast
  note up = update_guar [OF co assms(1) [OF pre(1)]]
  have okw: "proper d0 ?w" using proper_step [OF pre(3), of ?d] up(1) by simp
  have coh: "coherent ?o ?d" using coherent_rely [OF co] up(1) orders_guar_rely by simp
  have id: "po_id (change ?o) = po_id ?o" using assms(1) [OF pre(1)] by (simp add: good_change_def kept_def)
  obtain r2 w2 where reread: "dbE (on_orders (fetch_payment_order (po_id ?o))) ?w = (r2, w2)" by (metis prod.exhaust)
  have "proper d0 w2" "proper (w_db ?w) w2"
    using safe_reads(1) [of "po_id ?o"] okw proper_here [OF okw] reread
    unfolding safe_def keeps_def by (metis snd_conv)+
  then have again: "proper d0 w2" "coherent ?o (w_db w2)" using coherent_rely [OF coh] properD by force+
  show "coherent (le_order l') (w_db w') \<and> proper d0 w'
      \<and> (case r of Inr a \<Rightarrow> Q a (le_order l') | Inl _ \<Rightarrow> E (le_order l'))"
  proof (cases "fst ?u")
    case (Inl e)
    then show ?thesis using run one coh okw assms(3) [OF pre(1)] by (auto simp: write_order_def Let_def)
  next
    case (Inr b)
    show ?thesis
    proof (cases b)
      case True
      then have "coherent (bumped (change ?o)) ?d"
        using up(2) Inr id by (simp add: coherent_def bumped_def)
      then show ?thesis using run one Inr True okw assms(2) [OF pre(1)]
        by (auto simp: write_order_def Let_def bumped_def)
    next
      case False
      then show ?thesis using run one Inr again assms(3) [OF pre(1)] reread id
        by (auto simp: write_order_def Let_def)
    qed
  qed
qed

text \<open>Taking the lease and giving it back.\<close>

lemma safe_release [safe_intros]: "safe (release l)"
  unfolding release_def by (intro safe_intros)

lemma safe_acquire [safe_intros]: "safe (acquire i now)"
  unfolding acquire_def by (intro safe_intros)

lemma acquire_coherent:
  assumes "acquire i now w = (Inr (Some l), w')" "proper d0 w"
  shows "coherent (le_order l) (w_db w') \<and> proper d0 w'"
proof -
  let ?until = "saturating_add now LEASE_MS"
  obtain r t where u: "acquire_payment_order_lease i now ?until (pd_orders (others_run w)) = (r, t)"
    by (metis prod.exhaust)
  then obtain o' where r: "r = Inr (Some o')" and l: "l = \<lparr>le_order = o', le_until = ?until\<rparr>"
    and db: "pd_orders (w_db w') = t"
    using assms by (auto simp: acquire_def Let_def bindE_run dbE_def on_orders_def okE_def errE_def
      fetch_payment_order_def split: sum.splits option.splits prod.splits)
  have okw: "proper d0 w'"
    using safe_acquire [of i now] assms unfolding safe_def keeps_def by (metis snd_conv)
  then have "own_ids t" using db proper_here [OF okw] by (simp add: proper_def)
  moreover have "map_of t i = Some o'" using acquire_result [OF u [unfolded r]] by simp
  ultimately have "map_of t (po_id o') = Some o'" by (auto simp: own_ids_def)
  then show ?thesis using db l okw by (auto simp: coherent_def)
qed

lemma safe_with_lease:
  assumes "leaseS (\<lambda>_. True) body (\<lambda>_ _. True) (\<lambda>_. True)"
  shows "safe (with_lease i now busy body)"
proof -
  have "proper d0 (snd (with_lease i now busy body w))" if w: "proper d0 w" for d0 w
  proof -
    obtain r w1 where acq: "acquire i now w = (r, w1)" by (metis prod.exhaust)
    have w1: "proper d0 w1"
      using safe_acquire [of i now] w acq unfolding safe_def keeps_def by (metis snd_conv)
    show ?thesis
    proof (cases "\<exists>l. r = Inr (Some l)")
      case True
      then obtain l where l: "r = Inr (Some l)" by blast
      obtain r2 l2 w2 where run: "body (l, w1) = (r2, (l2, w2))" by (metis prod.exhaust)
      have "proper d0 w2"
        using leaseSD [OF assms run] acquire_coherent [OF acq [unfolded l] w] by simp
      then have "proper d0 (snd (release l2 w2))" by (rule safeD [OF safe_release])
      then show ?thesis using acq l run by (simp add: with_lease_def bindE_run)
    next
      case False
      then show ?thesis using acq w1
        by (cases r) (auto simp: with_lease_def bindE_run okE_def split: option.splits)
    qed
  qed
  then show ?thesis by (simp add: safe_def keeps_def)
qed

text \<open>An invariant on the state of the leased order.\<close>

definition stays :: "order_state set \<Rightarrow> ('p, 'a) lact \<Rightarrow> bool" where
  "stays S m \<longleftrightarrow> leaseS (\<lambda>o'. po_state o' \<in> S) m (\<lambda>_ o'. po_state o' \<in> S) (\<lambda>o'. po_state o' \<in> S)"

lemma stays_okE [stays_intros]: "stays S (okE a)" by (simp add: stays_def leaseS_okE)
lemma stays_errE [stays_intros]: "stays S (errE e)" by (simp add: stays_def leaseS_errE)
lemma stays_bindE [stays_intros]: "\<lbrakk>stays S m; \<And>a. stays S (f a)\<rbrakk> \<Longrightarrow> stays S (bindE m f)"
  unfolding stays_def by (rule leaseS_bindE)
lemma stays_thenE [stays_intros]: "\<lbrakk>stays S m; stays S k\<rbrakk> \<Longrightarrow> stays S (thenE m k)"
  unfolding stays_def by (rule leaseS_thenE)
lemma stays_tryE [stays_intros]: "stays S m \<Longrightarrow> stays S (tryE m)"
  unfolding stays_def by (rule leaseS_tryE) simp
lemma stays_whenE [stays_intros]: "stays S m \<Longrightarrow> stays S (whenE b m)"
  unfolding stays_def by (rule leaseS_whenE)
lemma stays_retryE [stays_intros]: "\<lbrakk>stays S body; stays S after\<rbrakk> \<Longrightarrow> stays S (retryE n body after)"
  unfolding stays_def
  by (rule leaseS_retryE) (auto elim!: leaseS_weaken split: option.split)
lemma stays_orderL [stays_intros]: "stays S orderL"
  unfolding stays_def by (rule leaseSI) (auto simp: orderL_def)
lemma stays_liftL [stays_intros]: "safe m \<Longrightarrow> stays S (liftL m)"
  unfolding stays_def by (rule leaseS_liftL)
lemma stays_if [stays_intros]: "\<lbrakk>stays S m; stays S k\<rbrakk> \<Longrightarrow> stays S (if b then m else k)" by simp
lemma stays_let [stays_intros]: "(\<And>x. stays S (f x)) \<Longrightarrow> stays S (let x = v in f x)" by simp
lemma stays_option [stays_intros]:
  "\<lbrakk>stays S m; \<And>x. stays S (f x)\<rbrakk> \<Longrightarrow> stays S (case v of None \<Rightarrow> m | Some x \<Rightarrow> f x)"
  by (simp split: option.split)
lemma stays_sum [stays_intros]:
  "\<lbrakk>\<And>x. stays S (f x); \<And>x. stays S (g x)\<rbrakk> \<Longrightarrow> stays S (case v of Inl x \<Rightarrow> f x | Inr x \<Rightarrow> g x)"
  by (simp split: sum.split)
lemma stays_prod [stays_intros]: "(\<And>x y. stays S (f x y)) \<Longrightarrow> stays S (case v of (x, y) \<Rightarrow> f x y)"
  by (simp split: prod.split)
lemma stays_sku [stays_intros]:
  "\<lbrakk>\<And>x. stays S (f x); \<And>x y. stays S (g x y); \<And>x y z. stays S (h x y z); \<And>x. stays S (k x)\<rbrakk>
   \<Longrightarrow> stays S (case v of CipherNew x \<Rightarrow> f x | CipherUpgrade x y \<Rightarrow> g x y | ProtPack x y z \<Rightarrow> h x y z | ProtExact x \<Rightarrow> k x)"
  by (simp split: sku.split)
lemma stays_window [stays_intros]:
  "\<lbrakk>\<And>x. stays S (f x); stays S g; stays S h\<rbrakk>
   \<Longrightarrow> stays S (case v of Downgrade x \<Rightarrow> f x | Release \<Rightarrow> g | RefundOnly \<Rightarrow> h)"
  by (simp split: window_refund.split)

lemma stays_write:
  "(\<And>o'. po_state o' \<in> S \<Longrightarrow> good_change change o' \<and> po_state (change o') \<in> S) \<Longrightarrow> stays S (write_order change)"
  unfolding stays_def by (rule leaseS_write) (simp_all add: bumped_def)

lemma stays_spec:
  assumes "stays S m" "\<And>o'. P o' \<Longrightarrow> po_state o' \<in> S"
    "\<And>a o'. po_state o' \<in> S \<Longrightarrow> Q a o'" "\<And>o'. po_state o' \<in> S \<Longrightarrow> E o'"
  shows "leaseS P m Q E"
  using assms(1) unfolding stays_def by (rule leaseS_weaken) (use assms in auto)

lemma stays_safe: "stays UNIV m \<Longrightarrow> leaseS (\<lambda>_. True) m (\<lambda>_ _. True) (\<lambda>_. True)"
  by (rule stays_spec [where S = UNIV]) simp_all

text \<open>A write that leaves the state alone, and one that sets it, on fields the protocol does
  not speak of.\<close>

definition sets_state :: "(payment_order \<Rightarrow> payment_order) \<Rightarrow> order_state option \<Rightarrow> bool" where
  "sets_state change st \<longleftrightarrow>
     (\<forall>o'. kept o' (change o') \<and> po_user_id (change o') = po_user_id o' \<and> po_version (change o') = po_version o'
        \<and> po_state (change o') = (case st of None \<Rightarrow> po_state o' | Some s \<Rightarrow> s))"

lemma stays_same [stays_intros]: "sets_state change None \<Longrightarrow> stays S (write_order change)"
  by (rule stays_write) (simp add: sets_state_def good_change_def edge_def)

lemma stays_set:
  "\<lbrakk>sets_state change (Some st); st \<in> S; \<And>s. s \<in> S \<Longrightarrow> edge s st\<rbrakk> \<Longrightarrow> stays S (write_order change)"
  by (rule stays_write) (simp add: sets_state_def good_change_def)

end
