(* ===== verification/Engine_Guarantee.thy ===== *)
theory Engine_Guarantee
  imports Engine_Protocol
begin

text \<open>
  Every operation of the engine keeps the protocol of \<open>Engine_Protocol\<close>: first the steps that
  hold no lease of their own, then those under a lease, then the entry points, the webhook
  handler and the reconcile sweep.
\<close>

section \<open>Helpers without a lease\<close>

lemmas stripe_call_defs = create_refund_def get_checkout_session_def get_payment_intent_def
  get_payment_charge_def get_dispute_def list_refunds_def

lemma safe_stripe_calls [safe_intros]:
  "safe (create_refund env i k)" "safe (get_checkout_session env i)" "safe (get_payment_intent env i)"
  "safe (get_payment_charge env i)" "safe (get_dispute env i)" "safe (list_refunds env i)"
  unfolding stripe_call_defs by (rule safe_stripeE)+

lemma safe_refund_asked [safe_intros]:
  "\<lbrakk>safe a; safe b; \<And>x y. safe (c x y); \<And>x y. safe (d x y)\<rbrakk> \<Longrightarrow>
   safe (case v of AskDone \<Rightarrow> a | AskAlreadyRefunded \<Rightarrow> b | AskUnsettled x y \<Rightarrow> c x y | AskRefused x y \<Rightarrow> d x y)"
  by (simp split: refund_asked.split)

lemma safe_stripe_error [safe_intros]:
  "\<lbrakk>\<And>x. safe (a x); \<And>x y z u. safe (b x y z u); \<And>x. safe (c x)\<rbrakk> \<Longrightarrow>
   safe (case v of Transport x \<Rightarrow> a x | Api x y z u \<Rightarrow> b x y z u | Decode x \<Rightarrow> c x)"
  by (simp split: stripe_error.split)

lemma safe_apply_outcome [safe_intros]:
  "\<lbrakk>\<And>x. safe (a x); \<And>x. safe (b x)\<rbrakk> \<Longrightarrow> safe (case v of Applied x \<Rightarrow> a x | AlreadyApplied x \<Rightarrow> b x)"
  by (simp split: prot_apply_outcome.split)

lemma safe_sync [safe_intros]:
  "\<lbrakk>safe a; \<And>x. safe (b x); \<And>x y. safe (c x y)\<rbrakk> \<Longrightarrow>
   safe (case v of SyncNothing \<Rightarrow> a | SyncPosted x \<Rightarrow> b x | SyncOverPosted x y \<Rightarrow> c x y)"
  by (simp split: cipher_prot_sync.split)

lemma safe_sku [safe_intros]:
  "\<lbrakk>\<And>x. safe (f x); \<And>x y. safe (g x y); \<And>x y z. safe (h x y z); \<And>x. safe (k x)\<rbrakk>
   \<Longrightarrow> safe (case v of CipherNew x \<Rightarrow> f x | CipherUpgrade x y \<Rightarrow> g x y | ProtPack x y z \<Rightarrow> h x y z | ProtExact x \<Rightarrow> k x)"
  by (simp split: sku.split)

lemma safe_window [safe_intros]:
  "\<lbrakk>\<And>x. safe (f x); safe g; safe h\<rbrakk> \<Longrightarrow>
   safe (case v of Downgrade x \<Rightarrow> f x | Release \<Rightarrow> g | RefundOnly \<Rightarrow> h)"
  by (simp split: window_refund.split)

lemma safe_forfeit_passes [safe_intros]:
  "\<lbrakk>safe p; safe b\<rbrakk> \<Longrightarrow> safe (run_forfeit_passes p b)"
  unfolding run_forfeit_passes_def by (intro safe_intros)

lemma safe_ask_refund [safe_intros]: "safe (ask_refund env i k)"
  unfolding ask_refund_def by (intro safe_intros)
lemma safe_refund_for_void [safe_intros]: "safe (refund_for_void env i k)"
  unfolding refund_for_void_def by (intro safe_intros)
lemma safe_buyer_is_live [safe_intros]: "safe (buyer_is_live u)"
  unfolding buyer_is_live_def by (intro safe_intros)
lemma safe_fetch_membership [safe_intros]: "safe (fetch_membership u)"
  unfolding fetch_membership_def by (intro safe_intros)
lemma safe_set_dispute_listing [safe_intros]: "safe (set_dispute_listing u i b)"
  unfolding set_dispute_listing_def by (intro safe_intros)
lemma safe_sync_user_badge [safe_intros]: "safe (sync_user_badge u)"
  unfolding sync_user_badge_def badge_round_def by (intro safe_intros)
lemma safe_number_release_pending [safe_intros]: "safe (number_release_pending m)"
proof -
  have "safe (number_release_pending_in n ids)" for n ids
    by (induction ids) (auto intro!: safe_intros)
  then show ?thesis by (simp add: number_release_pending_def)
qed

section \<open>The ledger side\<close>

lemma safe_prot [safe_intros]:
  "safe (engine_wallet_balance u)" "safe (publish_balance u)" "safe (engine_forfeit env u now)"
  "safe (apply_posting env p)" "safe (purchase_applied i)" "safe (incarnation_rows m)"
  unfolding engine_wallet_balance_def publish_balance_def engine_forfeit_def apply_posting_def
    purchase_applied_def incarnation_rows_def by (intro safe_intros)+
lemma safe_forfeit_if_deleted [safe_intros]: "safe (forfeit_if_deleted env u now)"
  unfolding forfeit_if_deleted_def by (intro safe_intros)
lemma safe_apply_purchase [safe_intros]: "safe (apply_purchase env order u now)"
  unfolding apply_purchase_def by (intro safe_intros)
lemma safe_clawback_purchase [safe_intros]: "safe (clawback_purchase env i u now)"
  unfolding clawback_purchase_def by (intro safe_intros)
lemma safe_engine_sync [safe_intros]: "safe (engine_sync_cipher_prot env ps u now)"
  unfolding engine_sync_cipher_prot_def by (intro safe_intros)
lemma safe_sync_after [safe_intros]: "safe (sync_after_cipher_fulfil env u now)"
  unfolding sync_after_cipher_fulfil_def by (intro safe_intros)
lemma safe_clawback_cipher [safe_intros]: "safe (clawback_cipher_order env u i now)"
  unfolding clawback_cipher_order_def by (intro safe_intros)
lemma safe_shortfall [safe_intros]: "safe (membership_shortfall m)" "safe (window_clawback_covered m target)"
  unfolding membership_shortfall_def window_clawback_covered_def by (intro safe_intros)+

section \<open>Reversals\<close>

lemma safe_current_dispute_kind [safe_intros]: "safe (current_dispute_kind env s order i)"
  unfolding current_dispute_kind_def by (intro safe_intros)
lemma safe_window_plan [safe_intros]: "safe (window_refund_plan order m refund)"
  unfolding window_refund_plan_def window_refund_plan_cipher_def Let_def by (intro safe_intros)
lemma safe_log_upgrades [safe_intros]: "safe (log_upgrades_left_unrefunded order)"
  unfolding log_upgrades_left_unrefunded_def by (intro safe_intros)
lemma safe_refunded_in_full [safe_intros]: "safe (refunded_in_full env i n)"
  unfolding refunded_in_full_def by (intro safe_intros)

lemma good_refunded:
  "sets_state (\<lambda>o'. o'\<lparr>po_state := Refunded, po_reversed_at := Some now_ms, po_reversal_pending := None\<rparr>) (Some Refunded)"
  "sets_state (\<lambda>o'. o'\<lparr>po_state := Refunded, po_reversed_at := Some now_ms, po_reversal_pending := None,
     po_refund_settling_since := None\<rparr>) (Some Refunded)"
  by (simp_all add: sets_state_def kept_def)

lemma refunded_edge: "s \<in> {Fulfilled, Refunded} \<Longrightarrow> edge s Refunded"
  by (auto simp: edge_def)

abbreviation done_states :: "order_state set" where "done_states \<equiv> {Fulfilled, Refunded}"

lemma stays_refunded [stays_intros]:
  "stays done_states (write_order (\<lambda>o'. o'\<lparr>po_state := Refunded, po_reversed_at := Some now_ms, po_reversal_pending := None\<rparr>))"
  "stays done_states (mark_refunded now_ms)"
  unfolding mark_refunded_def
  by (rule stays_set [OF good_refunded(1)] stays_set [OF good_refunded(2)]; simp add: refunded_edge)+

lemma sets_state_simps [stays_intros]:
  "sets_state (\<lambda>o'. o') None"
  "sets_state (\<lambda>o'. o'\<lparr>po_reversal_pending := p\<rparr>) None"
  "sets_state (\<lambda>o'. o'\<lparr>po_reversal_pending := p, po_open_disputes := ds\<rparr>) None"
  "sets_state (\<lambda>o'. o'\<lparr>po_open_disputes := ds\<rparr>) None"
  "sets_state (\<lambda>o'. o'\<lparr>po_refund_settling_since := x\<rparr>) None"
  "sets_state (\<lambda>o'. o'\<lparr>po_void_reason := v\<rparr>) None"
  "sets_state (\<lambda>o'. o'\<lparr>po_void_reason := v, po_region_blocked_country := c\<rparr>) None"
  by (simp_all add: sets_state_def kept_def)

lemma safe_record_upgrade [safe_intros]: "safe (record_upgrade_refunded i now)"
  unfolding record_upgrade_refunded_def
proof (rule safe_with_lease, rule leaseS_read)
  fix order :: payment_order
  show "leaseS (\<lambda>o'. o' = order)
     (if po_state order = Refunded \<or> po_state order = Voided then okE True
      else thenE (mark_refunded now) (okE True)) (\<lambda>_ _. True) (\<lambda>_. True)"
    unfolding mark_refunded_def
    by (auto intro!: leaseS_okE leaseS_thenE [where Q' = "\<lambda>_. True"] leaseS_write
        simp: good_change_def kept_def edge_def split: order_state.split)
qed

lemma safe_refund_upgrade [safe_intros]: "safe (refund_upgrade env i upgrade pi now)"
  unfolding refund_upgrade_def by (intro safe_intros)
lemma safe_refund_upgrades_loop: "safe (refund_upgrades_loop env now ids waiting)"
  by (induction ids arbitrary: waiting) (auto intro!: safe_intros)
lemma safe_refund_release_upgrades [safe_intros]: "safe (refund_release_upgrades env m i now)"
  unfolding refund_release_upgrades_def by (rule safe_refund_upgrades_loop)

lemma stays_reverse_prot [stays_intros]: "stays done_states (reverse_prot_fulfilled env kind now)"
  unfolding reverse_prot_fulfilled_def by (intro stays_intros safe_intros)
lemma stays_no_membership [stays_intros]: "stays S no_membership_to_reverse"
  unfolding no_membership_to_reverse_def by (intro stays_intros safe_intros)
lemma stays_unlisted [stays_intros]: "stays done_states (unlisted_reversal env kind u now)"
  unfolding unlisted_reversal_def by (intro stays_intros safe_intros)
lemma stays_lost_after [stays_intros]: "stays S dispute_lost_after_refund"
  unfolding dispute_lost_after_refund_def by (intro stays_intros safe_intros)
lemma stays_record_before [stays_intros]: "stays S (record_before_fulfilment kind dispute)"
  unfolding record_before_fulfilment_def by (intro stays_intros safe_intros)
lemma stays_drop_release [stays_intros]: "stays S drop_release_for_lost_dispute"
  unfolding drop_release_for_lost_dispute_def by (intro stays_intros safe_intros)
lemma stays_revoke_attempt [stays_intros]: "stays done_states (revoke_attempt env kind u listed now)"
  unfolding revoke_attempt_def by (intro stays_intros safe_intros)
lemma stays_revoke [stays_intros]: "stays done_states (revoke_fulfilled env kind u now)"
  unfolding revoke_fulfilled_def by (intro stays_intros safe_intros)

text \<open>Refunded is written only after the copy was read Fulfilled.\<close>

lemma stays_mark_if_fulfilled:
  assumes "\<And>order. stays S (k order)" "Fulfilled \<in> S \<longrightarrow> Refunded \<in> S"
  shows "stays S (bindE orderL (\<lambda>order. thenE (whenE (po_state order = Fulfilled) (mark_refunded now)) (k order)))"
  unfolding stays_def
proof (rule leaseS_read)
  fix order :: payment_order
  assume S: "po_state order \<in> S"
  have "leaseS (\<lambda>o'. o' = order) (mark_refunded now) (\<lambda>_ o'. po_state o' \<in> S) (\<lambda>o'. po_state o' \<in> S)"
    if "po_state order = Fulfilled"
    unfolding mark_refunded_def
    by (rule leaseS_write) (use that S assms(2) in \<open>auto simp: good_change_def kept_def edge_def bumped_def\<close>)
  then have "leaseS (\<lambda>o'. o' = order) (whenE (po_state order = Fulfilled) (mark_refunded now))
      (\<lambda>_ o'. po_state o' \<in> S) (\<lambda>o'. po_state o' \<in> S)"
    by (rule leaseS_whenE) (use S in simp_all)
  then show "leaseS (\<lambda>o'. o' = order) (thenE (whenE (po_state order = Fulfilled) (mark_refunded now)) (k order))
      (\<lambda>_ o'. po_state o' \<in> S) (\<lambda>o'. po_state o' \<in> S)"
    by (rule leaseS_thenE) (use assms(1) in \<open>simp add: stays_def\<close>)
qed

lemma stays_keep_number [stays_intros]: "Fulfilled \<in> S \<longrightarrow> Refunded \<in> S \<Longrightarrow> stays S (keep_number_retired now)"
  unfolding keep_number_retired_def
  by (rule stays_mark_if_fulfilled) (intro stays_intros safe_intros, assumption)

lemma stays_release_pass [stays_intros]:
  "Fulfilled \<in> S \<longrightarrow> Refunded \<in> S \<Longrightarrow> stays S (release_pass env u now)"
  unfolding release_pass_def by (intro stays_intros safe_intros)

lemma stays_finish_release [stays_intros]:
  assumes "Fulfilled \<in> S \<longrightarrow> Refunded \<in> S"
  shows "stays S (finish_number_release_locked env now)"
  unfolding finish_number_release_locked_def
  by (rule stays_mark_if_fulfilled assms | rule stays_intros safe_intros)+

lemma stays_window_attempt [stays_intros]: "stays done_states (window_attempt env u refund now)"
  unfolding window_attempt_def by (intro stays_intros safe_intros) simp_all
lemma stays_window_refund [stays_intros]: "stays done_states (refund_within_window env u refund now)"
  unfolding refund_within_window_def by (intro stays_intros)
lemma stays_reverse_fulfilled [stays_intros]: "stays done_states (reverse_fulfilled env kind dispute refund now)"
  unfolding reverse_fulfilled_def by (intro stays_intros safe_intros) simp_all

text \<open>A reversal leaves a state only for Refunded, and that only from Fulfilled.\<close>

lemma stays_reverse_locked [stays_intros]:
  fixes env :: "'p pay_env"
  assumes "Fulfilled \<in> S \<longrightarrow> Refunded \<in> S"
  shows "stays S (reverse_locked env kind dispute refund now)"
proof -
  have body: "leaseS (\<lambda>o'. o' = order)
      (case po_state order of
         Refunded \<Rightarrow> if kind = KindDisputeLost then dispute_lost_after_refund else okE RNoOp
       | Voided \<Rightarrow> okE RNoOp
       | Fulfilled \<Rightarrow> reverse_fulfilled env kind dispute refund now
       | _ \<Rightarrow> record_before_fulfilment kind dispute)
      (\<lambda>_ o'. po_state o' \<in> S) (\<lambda>o'. po_state o' \<in> S)" if "po_state order \<in> S" for order
  proof (cases "po_state order = Fulfilled")
    case True
    then show ?thesis using that assms
      by (simp, intro stays_spec [OF stays_reverse_fulfilled]) auto
  next
    case False
    have "leaseS (\<lambda>o'. o' = order) (dispute_lost_after_refund :: ('p, reverse_outcome) lact)
        (\<lambda>_ o'. po_state o' \<in> S) (\<lambda>o'. po_state o' \<in> S)"
      "leaseS (\<lambda>o'. o' = order) (record_before_fulfilment kind dispute :: ('p, reverse_outcome) lact)
        (\<lambda>_ o'. po_state o' \<in> S) (\<lambda>o'. po_state o' \<in> S)"
      "leaseS (\<lambda>o'. o' = order) (okE RNoOp :: ('p, reverse_outcome) lact)
        (\<lambda>_ o'. po_state o' \<in> S) (\<lambda>o'. po_state o' \<in> S)"
      by (rule stays_spec [OF stays_lost_after, of _ S] stays_spec [OF stays_record_before, of _ S]
        stays_spec [OF stays_okE, of _ S]; use that in simp)+
    with False show ?thesis by (cases "kind = KindDisputeLost") (simp_all split: order_state.split)
  qed
  show ?thesis unfolding reverse_locked_def
    by (rule stays_if, rule stays_errE, unfold stays_def, rule leaseS_read, rule body)
qed

lemma stays_recheck_loop: "Fulfilled \<in> S \<longrightarrow> Refunded \<in> S \<Longrightarrow> stays S (recheck_loop env s now ids)"
  by (induction ids) (auto intro!: stays_intros safe_intros)

lemma stays_recheck [stays_intros]:
  "Fulfilled \<in> S \<longrightarrow> Refunded \<in> S \<Longrightarrow> stays S (recheck_open_disputes env s now)"
  unfolding recheck_open_disputes_def by (intro stays_intros stays_recheck_loop)

lemma safe_stays: "stays UNIV body \<Longrightarrow> safe (with_lease i now busy body)"
  by (rule safe_with_lease) (rule stays_safe)

lemma safe_reverse_order [safe_intros]: "safe (reverse_order env i kind refund now)"
  unfolding reverse_order_def by (intro safe_intros safe_stays stays_intros) simp
lemma safe_mark_refund_settling [safe_intros]: "safe (mark_refund_settling i now)"
  unfolding mark_refund_settling_def by (intro safe_intros safe_stays stays_intros)
lemma safe_clear_refund_settling [safe_intros]: "safe (clear_refund_settling i now)"
  unfolding clear_refund_settling_def by (intro safe_intros safe_stays stays_intros)
lemma safe_reverse_dispute [safe_intros]: "safe (reverse_dispute env s i dispute now)"
  unfolding reverse_dispute_def by (intro safe_stays stays_intros safe_intros) simp
lemma safe_recheck_disputes [safe_intros]: "safe (recheck_disputes env s i now)"
  unfolding recheck_disputes_def by (intro safe_stays stays_intros safe_intros) simp
lemma safe_finish_number_release [safe_intros]: "safe (finish_number_release env i now)"
  unfolding finish_number_release_def by (intro safe_stays stays_intros safe_intros) simp

section \<open>Fulfilment\<close>

abbreviation void_states :: "order_state set" where "void_states \<equiv> {Paid, Voided}"

lemma stays_voided [stays_intros]:
  "stays void_states (write_order (\<lambda>o'. o'\<lparr>po_state := Voided, po_void_reason := v, po_reversed_at := x,
     po_reversal_pending := p\<rparr>))"
  by (rule stays_set [where st = Voided]) (auto simp: sets_state_def kept_def edge_def)

lemma stays_void_paid [stays_intros]: "stays void_states (void_paid env reason now)"
  unfolding void_paid_def by (intro stays_intros safe_intros)
lemma stays_void_deleted [stays_intros]: "stays void_states (void_for_deleted_account env buyer now)"
  unfolding void_for_deleted_account_def by (intro stays_intros safe_intros)

lemma stays_note_region [stays_intros]: "stays S (note_region country)"
  unfolding stays_def by (rule leaseSI) (auto simp: note_region_def coherent_def row_rely_def same_core_def kept_def)

lemma stays_void_region [stays_intros]: "stays void_states (void_for_region env country now)"
  unfolding void_for_region_def by (intro stays_intros safe_intros)

lemma record_payment_simps [simp]:
  "po_state (record_payment session pi now o') = po_state o'"
  "po_version (record_payment session pi now o') = po_version o'"
  "po_user_id (record_payment session pi now o') = po_user_id o'"
  by (simp_all add: record_payment_def)

lemma record_payment_kept:
  "po_payment_intent_id o' = None \<or> po_payment_intent_id o' = Some pi \<Longrightarrow> kept o' (record_payment session pi now o')"
  by (auto simp: record_payment_def kept_def split: option.split)

lemma leaseS_mark_paid:
  assumes "po_payment_intent_id order = None \<or> po_payment_intent_id order = Some pi" "edge (po_state order) Paid"
    "\<And>o'. po_state o' = Paid \<Longrightarrow> Q () o'" "E order"
  shows "leaseS (\<lambda>o'. o' = order) (mark_paid session pi now) Q E"
  unfolding mark_paid_def
proof (rule leaseS_write)
  show "good_change (\<lambda>o'. record_payment session pi now o'\<lparr>po_state := Paid\<rparr>) o'" if "o' = order" for o'
    using that assms(1,2) record_payment_kept [of order pi session now]
    by (simp add: good_change_def kept_def)
qed (use assms(3,4) in \<open>simp_all add: bumped_def\<close>)

lemma session_intent:
  assumes "session_not_ours order session s = None" "cs_payment_intent session = Some pi"
  shows "po_payment_intent_id order = None \<or> po_payment_intent_id order = Some pi"
  using assms by (auto simp: session_not_ours_def split: if_splits)

lemma not_ours_none:
  "\<lbrakk>\<And>why. session_mismatch order session s \<noteq> Some (NotOurs why)\<rbrakk> \<Longrightarrow> session_not_ours order session s = None"
  by (cases "session_not_ours order session s") (auto simp: session_mismatch_def)

text \<open>A payment that arrives for a voided order.\<close>

lemma stays_void_late: "leaseS (\<lambda>o'. po_state o' = Voided) (void_late_payment env s session now)
    (\<lambda>_ o'. po_state o' \<in> void_states) (\<lambda>o'. po_state o' \<in> void_states)"
  unfolding void_late_payment_def
proof (rule leaseS_read)
  fix order :: payment_order assume v: "po_state order = Voided"
  let ?reason = "case po_void_reason order of Some r \<Rightarrow> r | None \<Rightarrow> VoidStale"
  have ok: "leaseS (\<lambda>o'. o' = order) (okE out) (\<lambda>_ o'. po_state o' \<in> void_states) (\<lambda>o'. po_state o' \<in> void_states)" for out
    by (rule leaseS_okE) (simp add: v)
  have refund: "leaseS (\<lambda>o'. o' = order)
      (bindE (liftL (refund_for_void env pi (po_id order))) (\<lambda>refunded.
        if \<not> refunded then errE PaymentProviderError
        else thenE (write_order (record_payment session pi now)) (okE (FVoided ?reason))))
      (\<lambda>_ o'. po_state o' \<in> void_states) (\<lambda>o'. po_state o' \<in> void_states)"
    if "po_payment_intent_id order = None" for pi
    by (rule leaseS_bindE [where Q' = "\<lambda>_ o'. o' = order", OF leaseS_liftL])
      (use that v in \<open>auto intro!: safe_intros leaseS_errE leaseS_okE
        leaseS_thenE [where Q' = "\<lambda>o'. po_state o' \<in> void_states"] leaseS_write
        simp: good_change_def record_payment_kept edge_def bumped_def\<close>)
  have again: "leaseS (\<lambda>o'. o' = order)
      (thenE (mark_paid session pi now) (thenE (tryE (recheck_open_disputes env s now)) (void_paid env ?reason now)))
      (\<lambda>_ o'. po_state o' \<in> void_states) (\<lambda>o'. po_state o' \<in> void_states)"
    if "po_payment_intent_id order = None" for pi
  proof (rule leaseS_thenE [where Q' = "\<lambda>o'. po_state o' \<in> void_states", OF leaseS_mark_paid])
    show "leaseS (\<lambda>o'. po_state o' \<in> void_states)
        (thenE (tryE (recheck_open_disputes env s now)) (void_paid env ?reason now))
        (\<lambda>_ o'. po_state o' \<in> void_states) (\<lambda>o'. po_state o' \<in> void_states)"
      unfolding stays_def [symmetric] by (intro stays_intros) simp
  qed (use that v in \<open>simp_all add: edge_def\<close>)
  show "leaseS (\<lambda>o'. o' = order)
     (let reason = ?reason in
      if po_payment_intent_id order \<noteq> None then okE (FVoided reason)
      else if (case session_mismatch order session s of Some (NotOurs _) \<Rightarrow> True | _ \<Rightarrow> False) then okE FIgnored
      else if cs_payment_status session \<noteq> Some ''paid'' then okE (FVoided reason)
      else (case cs_payment_intent session of
        None \<Rightarrow> errE PaymentProviderError
      | Some payment_intent \<Rightarrow>
          if is_disputed order then
            thenE (mark_paid session payment_intent now)
            (thenE (tryE (recheck_open_disputes env s now)) (void_paid env reason now))
          else
            bindE (liftL (refund_for_void env payment_intent (po_id order))) (\<lambda>refunded.
            if \<not> refunded then errE PaymentProviderError
            else thenE (write_order (record_payment session payment_intent now)) (okE (FVoided reason)))))
     (\<lambda>_ o'. po_state o' \<in> void_states) (\<lambda>o'. po_state o' \<in> void_states)"
    using ok refund again v unfolding Let_def by (auto intro!: leaseS_errE split: option.split)
qed

text \<open>Handing the product over, from a Paid order.\<close>

lemma stays_publish_badge [stays_intros]: "stays S (publish_badge u)"
  unfolding publish_badge_def by (intro stays_intros safe_intros)
lemma stays_reverse_recorded [stays_intros]:
  "Fulfilled \<in> S \<longrightarrow> Refunded \<in> S \<Longrightarrow> stays S (reverse_recorded env now)"
  unfolding reverse_recorded_def by (intro stays_intros)
lemma stays_finish_fulfilled [stays_intros]:
  "Fulfilled \<in> S \<longrightarrow> Refunded \<in> S \<Longrightarrow> stays S (finish_fulfilled env now)"
  unfolding finish_fulfilled_def by (intro stays_intros safe_intros)

abbreviation fine :: "(payment_order \<Rightarrow> bool) \<Rightarrow> ('p, 'a) lact \<Rightarrow> bool" where
  "fine P m \<equiv> leaseS P m (\<lambda>_ _. True) (\<lambda>_. True)"

lemma stays_fine: "stays S m \<Longrightarrow> (\<And>o'. P o' \<Longrightarrow> po_state o' \<in> S) \<Longrightarrow> fine P m"
  by (rule stays_spec [where S = S]) simp_all

lemma stays_keeps_state:
  "stays {st} m \<Longrightarrow> leaseS (\<lambda>o'. po_state o' = st) m (\<lambda>_ o'. po_state o' = st) (\<lambda>_. True)"
  by (rule stays_spec [where S = "{st}"]) simp_all

lemma fine_finish: "fine (\<lambda>o'. po_state o' = Paid) (finish_fulfilment env u now)"
  unfolding finish_fulfilment_def Let_def
proof (rule leaseS_read)
  fix order :: payment_order assume paid: "po_state order = Paid"
  let ?c = "family (po_sku order) = CipherFamily"
  let ?rest = "thenE (reverse_recorded env now) (thenE (whenE ?c (liftL (sync_after_cipher_fulfil env u now))) (okE FFulfilled))"
  let ?put = "write_order (\<lambda>o'. o'\<lparr>po_state := Fulfilled, po_fulfilled_at := Some now\<rparr>)"
  have "stays done_states ?rest" by (intro stays_intros safe_intros) simp
  then have rest: "fine (\<lambda>o'. po_state o' = Fulfilled) ?rest" by (rule stays_fine) simp
  have "leaseS (\<lambda>o'. po_state o' = Paid) ?put (\<lambda>_ o'. po_state o' = Fulfilled) (\<lambda>_. True)"
    by (rule leaseS_write) (simp_all add: good_change_def kept_def edge_def bumped_def)
  then have tail: "fine (\<lambda>o'. po_state o' = Paid) (thenE ?put ?rest)" by (rule leaseS_thenE) (rule rest)
  have "fine (\<lambda>o'. po_state o' = Paid) (thenE (whenE ?c (publish_badge u)) (thenE ?put ?rest))"
    by (rule leaseS_thenE [OF stays_keeps_state tail]) (intro stays_intros)
  then show "fine (\<lambda>o'. o' = order) (thenE (whenE ?c (publish_badge u)) (thenE ?put ?rest))"
    by (rule leaseS_weaken) (use paid in simp_all)
qed

lemma stop_spec:
  assumes "stays void_states m" "po_state order = Paid"
  shows "leaseS (\<lambda>o'. o' = order) (stopE m) (\<lambda>r o'. r = None \<longrightarrow> po_state o' = Paid) (\<lambda>_. True)"
  unfolding stopE_def
  by (rule leaseS_bindE [where Q' = "\<lambda>_ _. True", OF stays_fine [OF assms(1)]])
    (use assms(2) in \<open>auto intro: leaseS_okE\<close>)

lemma leaseS_if: "\<lbrakk>leaseS P m Q E; leaseS P k Q E\<rbrakk> \<Longrightarrow> leaseS P (if b then m else k) Q E"
  by simp

lemma leaseS_option:
  "\<lbrakk>leaseS P m Q E; \<And>x. leaseS P (f x) Q E\<rbrakk> \<Longrightarrow> leaseS P (case v of None \<Rightarrow> m | Some x \<Rightarrow> f x) Q E"
  by (simp split: option.split)

lemma leaseS_lift_bind:
  assumes "safe m" "\<And>a. leaseS P (f a) Q (\<lambda>_. True)"
  shows "leaseS P (bindE (liftL m) f) Q (\<lambda>_. True)"
  by (rule leaseS_bindE [where Q' = "\<lambda>_. P", OF leaseS_liftL]) (use assms in auto)

lemma safe_take_number [safe_intros]: "safe (take_number s order u)"
  unfolding take_number_def by (intro safe_intros)
lemma safe_attempts [safe_intros]: "safe (new_attempt order u fresh)" "safe (upgrade_attempt order u from to)"
  unfolding new_attempt_def upgrade_attempt_def by (intro safe_intros)+
lemma safe_apply_membership [safe_intros]: "safe (apply_membership s order u now)"
  unfolding apply_membership_def by (intro safe_intros)
lemma safe_blocked_region [safe_intros]: "safe (blocked_region env blocked order session pi now)"
  unfolding blocked_region_def by (intro safe_intros)

lemma apply_order_spec:
  "leaseS (\<lambda>o'. po_state o' = Paid) (apply_order env s session pi u membership now)
     (\<lambda>r o'. r = None \<longrightarrow> po_state o' = Paid) (\<lambda>_. True)"
  unfolding apply_order_def Let_def
proof (rule leaseS_read)
  fix order :: payment_order assume paid: "po_state order = Paid"
  let ?Q = "\<lambda>r o'. r = None \<longrightarrow> po_state o' = Paid"
  let ?releasing = "case (po_sku order, membership) of (CipherNew _, Some m) \<Rightarrow> liftL (number_release_pending m)
    | _ \<Rightarrow> okE False"
  note stop = stop_spec [OF _ paid]
  have releasing: "leaseS (\<lambda>o'. o' = order) ?releasing (\<lambda>_ o'. o' = order) (\<lambda>_. True)"
    by (auto intro!: leaseS_okE leaseS_liftL safe_intros split: sku.split option.split)
  have hand: "leaseS (\<lambda>o'. o' = order)
      (case family (po_sku order) of
         CipherFamily \<Rightarrow> bindE (liftL (apply_membership s order u now)) (\<lambda>done.
           case done of ADone \<Rightarrow> okE None | AVoid reason \<Rightarrow> stopE (void_paid env reason now))
       | ProtFamily \<Rightarrow> thenE (liftL (apply_purchase env order u now)) (okE None)) ?Q (\<lambda>_. True)"
    unfolding thenE_def
    by (auto intro!: leaseS_lift_bind safe_intros leaseS_okE stop stays_intros paid
        split: product_family.split applied.split)
  have decide: "leaseS (\<lambda>o'. o' = order)
      (if releasing then stopE (void_paid env VoidReleasePending now)
       else (case precondition_failure s order membership of
         Some reason \<Rightarrow> stopE (void_paid env reason now)
       | None \<Rightarrow>
           if po_reversal_pending order \<noteq> None then stopE (void_paid env VoidReversed now)
           else (case family (po_sku order) of
             CipherFamily \<Rightarrow> bindE (liftL (apply_membership s order u now)) (\<lambda>done.
               case done of ADone \<Rightarrow> okE None | AVoid reason \<Rightarrow> stopE (void_paid env reason now))
           | ProtFamily \<Rightarrow> thenE (liftL (apply_purchase env order u now)) (okE None)))) ?Q (\<lambda>_. True)"
    for releasing
    by (intro leaseS_if leaseS_option stop [OF stays_void_paid] hand)
  show "leaseS (\<lambda>o'. o' = order)
      (bindE (liftL (blocked_region env
         (case family (po_sku order) of CipherFamily \<Rightarrow> set_blocked_countries s
          | ProtFamily \<Rightarrow> prot_blocked_countries (load_or_closed (en_features env) (en_protection env)))
         order session pi now)) (\<lambda>region.
       case region of
         None \<Rightarrow> bindE ?releasing (\<lambda>releasing.
           if releasing then stopE (void_paid env VoidReleasePending now)
           else (case precondition_failure s order membership of
             Some reason \<Rightarrow> stopE (void_paid env reason now)
           | None \<Rightarrow>
               if po_reversal_pending order \<noteq> None then stopE (void_paid env VoidReversed now)
               else (case family (po_sku order) of
                 CipherFamily \<Rightarrow> bindE (liftL (apply_membership s order u now)) (\<lambda>done.
                   case done of ADone \<Rightarrow> okE None | AVoid reason \<Rightarrow> stopE (void_paid env reason now))
               | ProtFamily \<Rightarrow> thenE (liftL (apply_purchase env order u now)) (okE None))))
       | Some country \<Rightarrow> stopE (void_for_region env country now))) ?Q (\<lambda>_. True)"
    by (intro leaseS_lift_bind [OF safe_blocked_region] leaseS_option stop [OF stays_void_region]
        leaseS_bindE [OF releasing decide])
qed

lemma fine_live: "fine (\<lambda>o'. po_state o' = Paid) (fulfil_live env s session pi u now)"
  unfolding fulfil_live_def Let_def
proof (rule leaseS_read)
  fix order :: payment_order assume paid: "po_state order = Paid"
  let ?c = "family (po_sku order) = CipherFamily"
  let ?P = "\<lambda>o'. po_state o' = Paid"
  let ?go = "\<lambda>membership applied. if applied
      then thenE (if ?c then liftL (set_dispute_listing u (po_id order) (is_disputed order)) else okE True) (okE None)
      else apply_order env s session pi u membership now"
  have listed: "stays {Paid}
      (thenE (if ?c then liftL (set_dispute_listing u (po_id order) (is_disputed order)) else okE True) (okE None))"
    by (intro stays_intros safe_intros)
  have go: "leaseS ?P (?go membership applied) (\<lambda>r o'. r = None \<longrightarrow> po_state o' = Paid) (\<lambda>_. True)"
    for membership applied
    by (rule leaseS_if [OF leaseS_weaken [OF stays_keeps_state [OF listed]] apply_order_spec]) simp_all
  have finish: "fine (\<lambda>o'. stop = None \<longrightarrow> po_state o' = Paid)
      (case stop of Some outcome \<Rightarrow> okE outcome | None \<Rightarrow> finish_fulfilment env u now)" for stop
    using fine_finish by (auto intro: leaseS_okE split: option.split)
  have "fine ?P
      (bindE (if ?c then liftL (fetch_membership u) else okE None) (\<lambda>membership.
       bindE (if ?c then okE (is_some_and (\<lambda>m. po_id order \<in> set (cm_orders m)) membership)
              else liftL (purchase_applied (po_id order))) (\<lambda>applied.
       bindE (?go membership applied) (\<lambda>stop.
         case stop of Some outcome \<Rightarrow> okE outcome | None \<Rightarrow> finish_fulfilment env u now))))"
    by (rule leaseS_bindE [OF stays_keeps_state], intro stays_intros safe_intros,
        rule leaseS_bindE [OF stays_keeps_state], intro stays_intros safe_intros,
        rule leaseS_bindE [OF go finish])
  then show "fine (\<lambda>o'. o' = order)
      (bindE (if ?c then liftL (fetch_membership u) else okE None) (\<lambda>membership.
       bindE (if ?c then okE (is_some_and (\<lambda>m. po_id order \<in> set (cm_orders m)) membership)
              else liftL (purchase_applied (po_id order))) (\<lambda>applied.
       bindE (?go membership applied) (\<lambda>stop.
         case stop of Some outcome \<Rightarrow> okE outcome | None \<Rightarrow> finish_fulfilment env u now))))"
    by (rule leaseS_weaken) (use paid in simp_all)
qed

lemma fine_paid: "fine (\<lambda>o'. po_state o' = Paid) (fulfil_paid env s session pi wrong now)"
proof -
  have void: "fine (\<lambda>o'. o' = order) (void_paid env reason now)"
    "fine (\<lambda>o'. o' = order) (void_for_deleted_account env buyer now)" if "po_state order = Paid" for order reason buyer
    by (rule stays_fine [OF stays_void_paid] stays_fine [OF stays_void_deleted]; use that in simp)+
  have live: "fine (\<lambda>o'. o' = order) (fulfil_live env s session pi u now)" if "po_state order = Paid" for order u
    by (rule leaseS_weaken [OF fine_live]) (use that in simp_all)
  have "fine (\<lambda>o'. po_state o' = Paid) (void_paid env VoidAmountMismatch now)"
    by (rule stays_fine [OF stays_void_paid]) simp
  then show ?thesis unfolding fulfil_paid_def
    by (auto intro!: leaseS_read leaseS_lift_bind safe_intros void live split: option.split)
qed

lemma fine_payable:
  "fine (\<lambda>o'. edge (po_state o') Paid) (fulfil_payable env s session now)"
  unfolding fulfil_payable_def Let_def
proof (rule leaseS_read)
  fix order :: payment_order assume e: "edge (po_state order) Paid"
  let ?mm = "session_mismatch order session s"
  have pay: "fine (\<lambda>o'. o' = order) (thenE (whenE (po_state order \<noteq> Paid) (mark_paid session pi now))
      (fulfil_paid env s session pi (?mm \<noteq> None) now))"
    if "\<And>why. ?mm \<noteq> Some (NotOurs why)" "cs_payment_intent session = Some pi" for pi
  proof (rule leaseS_thenE [OF leaseS_whenE fine_paid])
    show "leaseS (\<lambda>o'. o' = order) (mark_paid session pi now) (\<lambda>_ o'. po_state o' = Paid) (\<lambda>_. True)"
      using session_intent [OF not_ours_none that(2)] that(1) e by (intro leaseS_mark_paid) auto
  qed auto
  show "fine (\<lambda>o'. o' = order)
     (case ?mm of
       Some (NotOurs _) \<Rightarrow> okE FIgnored
     | _ \<Rightarrow>
         if cs_payment_status session \<noteq> Some ''paid''
         then okE (if ?mm \<noteq> None then FIgnored else FNotPaid)
         else (case cs_payment_intent session of
           None \<Rightarrow> errE PaymentProviderError
         | Some payment_intent \<Rightarrow>
             thenE (whenE (po_state order \<noteq> Paid) (mark_paid session payment_intent now))
             (fulfil_paid env s session payment_intent (?mm \<noteq> None) now)))"
    using pay by (auto intro!: leaseS_okE leaseS_errE split: option.split mismatch.split)
qed

lemma fine_locked: "fine (\<lambda>_. True) (fulfil_locked env s session now)"
  unfolding fulfil_locked_def
proof (rule leaseS_read)
  fix order :: payment_order
  have "fine (\<lambda>o'. o' = order) (thenE (finish_fulfilled env now) (okE FAlreadyFulfilled))"
    by (rule stays_fine [where S = UNIV]) (intro stays_intros, simp_all)
  moreover have "fine (\<lambda>o'. o' = order) (void_late_payment env s session now)" if "po_state order = Voided"
    by (rule leaseS_weaken [OF stays_void_late]) (use that in simp_all)
  moreover have "fine (\<lambda>o'. o' = order) (fulfil_payable env s session now)" if "edge (po_state order) Paid"
    by (rule leaseS_weaken [OF fine_payable]) (use that in simp_all)
  ultimately show "fine (\<lambda>o'. o' = order)
     (case po_state order of
        Fulfilled \<Rightarrow> thenE (finish_fulfilled env now) (okE FAlreadyFulfilled)
      | Refunded \<Rightarrow> okE FAlreadyFulfilled
      | Voided \<Rightarrow> void_late_payment env s session now
      | _ \<Rightarrow> fulfil_payable env s session now)"
    by (auto intro: leaseS_okE simp: edge_def split: order_state.split)
qed

lemma safe_fulfil_order [safe_intros]: "safe (fulfil_order env s i session now)"
  unfolding fulfil_order_def by (rule safe_with_lease) (rule fine_locked)

lemma fine_resume: "fine (\<lambda>_. True) (resume_locked env s session now)"
  unfolding resume_locked_def
proof (rule leaseS_read, rule leaseS_thenE [OF _ fine_locked])
  fix order :: payment_order
  show "leaseS (\<lambda>o'. o' = order) (whenE (po_state order = Paid \<and> po_open_disputes order \<noteq> [])
      (bindE (tryE (recheck_open_disputes env s now)) (\<lambda>_. okE ()))) (\<lambda>_ _. True) (\<lambda>_. True)"
    by (rule stays_fine [where S = UNIV]) (intro stays_intros, simp_all)
qed

lemma safe_resume_order [safe_intros]: "safe (resume_order env s i now)"
  unfolding resume_order_def by (intro safe_intros safe_with_lease fine_resume)

section \<open>Expiry and account deletion\<close>

lemma safe_expire_order [safe_intros]: "safe (expire_order i now)"
  unfolding expire_order_def
  by (auto intro!: safe_with_lease leaseS_read leaseS_thenE [where Q' = "\<lambda>_. True"] leaseS_whenE
      leaseS_write leaseS_okE simp: good_change_def kept_def edge_def)

lemma fine_void_for_deletion: "fine (\<lambda>_. True) (void_for_deletion env now)"
  unfolding void_for_deletion_def
proof (rule leaseS_read)
  fix order :: payment_order
  have "fine (\<lambda>o'. o' = order) (thenE (void_for_deleted_account env (po_user_id order) now) (okE ()))"
    if "po_state order = Paid"
    by (rule stays_fine [where S = void_states]) (intro stays_intros, use that in simp)
  then show "fine (\<lambda>o'. o' = order)
     (if po_state order = Paid then thenE (void_for_deleted_account env (po_user_id order) now) (okE ())
      else if po_state order \<in> {Creating, Pending, SessionFailed}
      then write_order (\<lambda>o'. o'\<lparr>po_state := Voided, po_void_reason := Some VoidAccountDeleted,
             po_reversed_at := Some now\<rparr>)
      else okE ())"
    by (auto intro!: leaseS_write leaseS_okE simp: good_change_def kept_def edge_def)
qed

lemma safe_unlink_account [safe_intros]: "safe (unlink_account_payments u)"
  unfolding unlink_account_payments_def by (intro safe_intros)

lemma safe_on_account_deleted [safe_intros]: "safe (on_account_deleted env u now)"
  unfolding on_account_deleted_def by (intro safe_intros safe_with_lease fine_void_for_deletion)

section \<open>Events and the sweep\<close>

lemma safe_or [safe_intros]:
  "\<lbrakk>safe m; \<And>a. safe (k a)\<rbrakk> \<Longrightarrow> safe (orRetry what m k)"
  "\<lbrakk>safe m; \<And>a. safe (k' a)\<rbrakk> \<Longrightarrow> safe (orReason what m k')"
  unfolding orRetry_def orReason_def by (intro safe_intros; assumption)+

lemma safe_refund_check [safe_intros]:
  "\<lbrakk>\<And>x. safe (a x); \<And>x. safe (b x); \<And>x. safe (c x)\<rbrakk> \<Longrightarrow>
   safe (case v of RefundsSucceeded x \<Rightarrow> a x | RefundsSettling x \<Rightarrow> b x | RefundsFailed x \<Rightarrow> c x)"
  by (simp split: refund_check.split)

lemma safe_action [safe_intros]:
  "\<lbrakk>safe a; safe b; \<And>x. safe (c x); safe d; safe e\<rbrakk> \<Longrightarrow>
   safe (case v of ActFulfil \<Rightarrow> a | ActExpire \<Rightarrow> b | ActReverse x \<Rightarrow> c x | ActDispute \<Rightarrow> d | ActIgnore \<Rightarrow> e)"
  by (simp split: action.split)

lemma safe_step [safe_intros]:
  "\<lbrakk>safe a; safe b; \<And>x. safe (c x)\<rbrakk> \<Longrightarrow>
   safe (case v of StepProcessed \<Rightarrow> a | StepIgnored \<Rightarrow> b | StepRetry x \<Rightarrow> c x)"
  by (simp split: step.split)

lemma safe_order_for_intent [safe_intros]: "safe (order_for_intent env s i)"
  unfolding order_for_intent_def by (intro safe_intros)
lemma safe_settled_refund [safe_intros]: "safe (settled_refund env event i pi now)"
  unfolding settled_refund_def by (intro safe_intros)
lemma safe_process [safe_intros]: "safe (process env s event now)"
  unfolding process_def process_fulfil_def process_expire_def process_reverse_def process_dispute_def
    reverse_with_def by (intro safe_intros)
lemma safe_event_rows [safe_intros]: "safe (is_settled i)" "safe (set_event i st reason)"
  unfolding is_settled_def set_event_def by (intro safe_intros)+
lemma safe_record [safe_intros]: "safe (record_livemode_mismatch event now)" "safe (record_step i st)"
  unfolding record_livemode_mismatch_def record_step_def by (intro safe_intros)+
lemma safe_handle_event [safe_intros]: "safe (handle_event env s event now)"
  unfolding handle_event_def by (intro safe_intros)

lemma safe_counted [safe_intros]: "safe m \<Longrightarrow> safe (counted m count t)"
  unfolding counted_def by (intro safe_intros)
lemma safe_sweep_part [safe_intros]: "\<lbrakk>safe q; \<And>x t. safe (item x t)\<rbrakk> \<Longrightarrow> safe (sweep_part q item t)"
  unfolding sweep_part_def by (intro safe_intros)

lemma safe_refund_status [safe_intros]:
  "\<lbrakk>safe a; safe b; safe c\<rbrakk> \<Longrightarrow>
   safe (case v of RefundSucceeded \<Rightarrow> a | RefundPending \<Rightarrow> b | RefundFailed \<Rightarrow> c)"
  by (simp split: refund_status.split)

lemma safe_sweep [safe_intros]:
  "safe (expire_unpaid now t)" "safe (check_pending env s now t)" "safe (resume_paid env s now t)"
  "safe (apply_pending_reversals env now t)" "safe (settle_refunds env now t)"
  "safe (finish_number_releases env now t)" "safe (sweep_open_disputes env s now t)"
  unfolding expire_unpaid_def check_pending_def check_pending_order_def Let_def resume_paid_def
    apply_pending_reversals_def settle_refunds_def settle_refund_def finish_number_releases_def
    sweep_open_disputes_def by (intro safe_intros)+

lemma safe_redrive [safe_intros]: "safe (redrive_events env s now t)"
  unfolding redrive_events_def redrive_event_def redrive_failed_def get_event_def Let_def
  by (intro safe_intros)

lemma safe_reconcile [safe_intros]: "safe (reconcile env s now)"
  unfolding reconcile_def by (intro safe_intros)

end
