(* ===== verification/Engine_Props.thy ===== *)
theory Engine_Props
  imports Engine_Guarantee
begin

text \<open>
  What the engine promises, stated over its entry points: the protocol between workers and
  its refinement of the life cycle of an order, when money is handed back and when a product is
  handed over, and how repeated deliveries of an event end.
\<close>

section \<open>The protocol between workers\<close>

text \<open>C1: any number of workers may handle events at once. When every other worker keeps the
  protocol (no order disappears, every change of one moves its version, and its price, product,
  session and payment never change), every step that handling an event makes keeps it too and
  moves no order but along the edges of its life cycle: Refunded is final, Fulfilled is left
  only for Refunded, and a Voided order comes back only as Paid.\<close>

theorem handle_event_keeps_protocol:
  assumes "own_ids (pd_orders (w_db w))"
    and "\<forall>f \<in> set (w_others w). \<forall>d. orders_rely (pd_orders d) (pd_orders (f d))"
    and "w_steps w = []"
    and "(d, d') \<in> set (w_steps (snd (handle_event env s event now w)))"
  shows "orders_guar (pd_orders d) (pd_orders d') \<and> orders_rely (pd_orders d) (pd_orders d')"
proof -
  have "proper (w_db w) w" using assms(1-3) by (simp add: proper_def)
  from safeD [OF safe_handle_event this, of env s event now] assms(4)
  have "orders_guar (pd_orders d) (pd_orders d')" by (auto simp: proper_def)
  then show ?thesis using orders_guar_rely by simp
qed

definition ex_env :: "unit pay_env" where
  "ex_env =
     \<lparr>en_sha256 = (\<lambda>t. t), en_ulid = (\<lambda>n. if n = 0 then ''o1'' else ''o2''),
      en_stripe =
        \<lparr>api_create_checkout_session = (\<lambda>params key p. (Inr
           \<lparr>cs_id = ''cs1'', cs_url = Some ''url'', cs_status = Some ''open'', cs_payment_status = Some ''unpaid'',
            cs_payment_intent = None, cs_amount_total = Some (csp_amount_cents params),
            cs_currency = Some ''usd'', cs_livemode = True, cs_client_reference_id = Some (csp_user_id params),
            cs_metadata_order_id = Some (csp_order_id params), cs_expires_at = None,
            cs_billing_country = None\<rparr>, p)),
         api_get_checkout_session = (\<lambda>i p. (Inl (Transport ''down''), p)),
         api_get_payment_intent = (\<lambda>i p. (Inl (Transport ''down''), p)),
         api_get_payment_charge = (\<lambda>i p. (Inl (Transport ''down''), p)),
         api_get_event = (\<lambda>i p. (Inl (Transport ''down''), p)),
         api_create_refund = (\<lambda>pi key p. (Inr \<lparr>rf_id = ''re1'', rf_status = Some ''succeeded'',
            rf_amount = Some 99, rf_payment_intent = Some pi, rf_created = Some 1\<rparr>, p)),
         api_get_dispute = (\<lambda>i p. (Inl (Transport ''down''), p)),
         api_list_refunds = (\<lambda>i p. (Inl (Transport ''down''), p))\<rparr>,
      en_features = default_feature_payments, en_protection = default_protection_features\<rparr>"

definition ex_settings :: payments_settings where
  "ex_settings =
     \<lparr>set_enabled = True, set_sales_open = True, set_cap = 5, set_close_at_ms = None,
      set_expect_livemode = True, set_tolerance_secs = 300, set_automatic_tax = False,
      set_blocked_countries = [], set_secret_key = ''sk'', set_webhook_secret = ''wh'',
      set_success_url_web = ''a'', set_cancel_url_web = ''b'', set_success_url_shell = ''c'',
      set_cancel_url_shell = ''d''\<rparr>"

definition ex_db :: pay_db where
  "ex_db =
     \<lparr>pd_orders = [(''o1'', ex_order)], pd_numbers = [], pd_events = [],
      pd_ledger = \<lparr>ls_memberships = [], ls_ledger = [], ls_accounts = [], ls_ulids = 0\<rparr>,
      pd_users = [(''u'', \<lparr>bu_id = ''u'', bu_bot = False, bu_flags = None, bu_cipher = None\<rparr>)]\<rparr>"

definition ex_world :: "unit world" where
  "ex_world = \<lparr>w_db = ex_db, w_provider = (), w_others = [], w_steps = [], w_calls = [], w_published = []\<rparr>"

definition ex_expired :: stripe_event where
  "ex_expired = \<lparr>ev_id = ''evt1'', ev_type = ''checkout.session.expired'', ev_livemode = True,
     ev_created = 1, ev_object = JObject [(''id'', JString ''cs1'')]\<rparr>"

text \<open>Unfolding a run on concrete data.\<close>

lemmas run_defs = eff_simps dbE_def stripeE_def others_run_def on_orders_def on_events_def on_numbers_def
  on_users_def on_ledger_def on_memberships_def with_lease_def acquire_def release_def write_order_def
  orderL_def liftL_def acquire_payment_order_lease_def release_payment_order_lease_def
  update_payment_order_if_state_def fetch_payment_order_by_session_def fetch_payment_order_def
  checked_succ_def lease_free_def provider_id_taken_def rows_def is_some_and_def Let_def
  saturating_add_def saturating_sub_def saturating_mul_def clamp_i64_def i64_min_def i64_max_def LEASE_MS_def

lemmas event_defs = handle_event_def event_row_def is_settled_def set_event_def record_step_def
  event_settled_def insert_payment_event_if_absent_def fetch_payment_event_def set_payment_event_state_def
  process_def action_for_def process_fulfil_def process_expire_def orRetry_def orReason_def obj_str_def as_str_def
  expire_order_def CHECKOUT_SESSION_COMPLETED_def CHECKOUT_SESSION_ASYNC_PAYMENT_SUCCEEDED_def
  CHECKOUT_SESSION_EXPIRED_def

lemmas ex_defs = ex_settings_def ex_world_def ex_db_def ex_order_def

definition states_of :: "(pay_db \<times> pay_db) list \<Rightarrow> (order_state option \<times> order_state option) list" where
  "states_of steps = map (\<lambda>(d, d'). (map_option po_state (map_of (pd_orders d) ''o1''),
     map_option po_state (map_of (pd_orders d') ''o1''))) steps"

definition ex_steps :: "(pay_db \<times> pay_db) list" where
  "ex_steps = w_steps (snd (handle_event ex_env ex_settings ex_expired 5 ex_world))"

lemma ex_steps_states:
  "states_of ex_steps =
   [(Some Pending, Some Pending), (Some Pending, Some Pending), (Some Pending, Some Pending),
    (Some Pending, Some Expired), (Some Expired, Some Expired), (Some Expired, Some Expired)]"
  unfolding ex_steps_def states_of_def by (simp add: run_defs event_defs ex_expired_def ex_defs)

lemma states_of_nth:
  "states_of steps = sts \<Longrightarrow> n < length sts \<Longrightarrow> (fst (steps ! n), snd (steps ! n)) \<in> set steps"
  by (auto simp: states_of_def)

lemma ex_quiet:
  "own_ids (pd_orders (w_db ex_world))" "w_others ex_world = []" "w_steps ex_world = []" "w_calls ex_world = []"
  by (auto simp: own_ids_def ex_defs)

theorem handle_event_keeps_protocol_witness:
  "states_of ex_steps ! 3 = (Some Pending, Some Expired)
   \<and> orders_guar (pd_orders (fst (ex_steps ! 3))) (pd_orders (snd (ex_steps ! 3)))
   \<and> orders_rely (pd_orders (fst (ex_steps ! 3))) (pd_orders (snd (ex_steps ! 3)))"
proof -
  have "(fst (ex_steps ! 3), snd (ex_steps ! 3)) \<in> set ex_steps"
    by (rule states_of_nth [OF ex_steps_states]) simp
  from handle_event_keeps_protocol [OF ex_quiet(1) _ ex_quiet(3) this [unfolded ex_steps_def]]
  show ?thesis by (simp add: ex_steps_states ex_steps_def [symmetric] ex_quiet)
qed

text \<open>The life cycle as an abstract machine: an order is what was sold, for how much, and where
  it stands.\<close>

definition life :: "orders \<Rightarrow> string \<Rightarrow> (sku \<times> int \<times> order_state) option" where
  "life t i = map_option (\<lambda>r. (po_sku r, po_amount_cents r, po_state r)) (map_of t i)"

definition life_step :: "(string \<Rightarrow> (sku \<times> int \<times> order_state) option) \<Rightarrow>
    (string \<Rightarrow> (sku \<times> int \<times> order_state) option) \<Rightarrow> bool" where
  "life_step a a' \<longleftrightarrow> (\<forall>i.
     case a i of
       None \<Rightarrow> a' i = None
     | Some (sk, cents, st) \<Rightarrow> (\<exists>st'. a' i = Some (sk, cents, st') \<and> edge st st'))"

lemma row_guar_life: "row_guar r r' \<Longrightarrow>
  po_sku r' = po_sku r \<and> po_amount_cents r' = po_amount_cents r \<and> edge (po_state r) (po_state r')"
  by (auto simp: row_guar_def lease_dropped_def kept_def edge_def)

lemma guar_life_step:
  assumes "orders_guar t t'"
  shows "life_step (life t) (life t')"
  unfolding life_step_def
proof
  fix i
  show "case life t i of None \<Rightarrow> life t' i = None
    | Some (sk, cents, st) \<Rightarrow> (\<exists>st'. life t' i = Some (sk, cents, st') \<and> edge st st')"
  proof (cases "map_of t i")
    case None
    then show ?thesis using assms by (simp add: orders_guar_def life_def)
  next
    case (Some r)
    then obtain r' where "map_of t' i = Some r'" "row_guar r r'" using assms unfolding orders_guar_def by blast
    then show ?thesis using Some row_guar_life [of r r'] by (simp add: life_def)
  qed
qed

text \<open>C16: the reconcile sweep refines the life cycle: beside other workers that keep the protocol,
  every database step of a sweep is a step of the abstract machine, in which an order keeps what
  was sold and for how much and moves along one edge at most.\<close>

theorem reconcile_refines_life_cycle:
  assumes "own_ids (pd_orders (w_db w))"
    and "\<forall>f \<in> set (w_others w). \<forall>d. orders_rely (pd_orders d) (pd_orders (f d))"
    and "w_steps w = []"
    and "(d, d') \<in> set (w_steps (snd (reconcile env s now w)))"
  shows "life_step (life (pd_orders d)) (life (pd_orders d'))"
proof -
  have "proper (w_db w) w" using assms(1-3) by (simp add: proper_def)
  from safeD [OF safe_reconcile this, of env s now] assms(4)
  have "orders_guar (pd_orders d) (pd_orders d')" by (auto simp: proper_def)
  then show ?thesis by (rule guar_life_step)
qed

definition ex_failed_world :: "unit world" where
  "ex_failed_world = ex_world\<lparr>w_db := ex_db\<lparr>pd_orders := [(''o1'', ex_order\<lparr>po_state := SessionFailed\<rparr>)]\<rparr>\<rparr>"

definition ex_sweep_steps :: "(pay_db \<times> pay_db) list" where
  "ex_sweep_steps = w_steps (snd (reconcile ex_env ex_settings 700000 ex_failed_world))"

lemmas sweep_defs = reconcile_def expire_unpaid_def check_pending_def resume_paid_def apply_pending_reversals_def
  settle_refunds_def finish_number_releases_def sweep_open_disputes_def redrive_events_def sweep_part_def
  counted_def count_expired_def fetch_payment_orders_by_state_def fetch_payment_orders_reversal_pending_def
  fetch_payment_orders_disputed_def fetch_payment_orders_refund_settling_def
  fetch_cipher_numbers_release_pending_def fetch_failed_payment_events_def fetch_payment_events_by_state_def
  oldest_first_def sort_oldest_first_def mongo_limit_def default_tally_def EXPIRE_UNPAID_AFTER_MS_def
  CHECK_PENDING_AFTER_MS_def STRANDED_EVENT_AFTER_MS_def SWEEP_BATCH_def

lemma ex_sweep_states:
  "states_of ex_sweep_steps ! 2 = (Some SessionFailed, Some Expired) \<and> length ex_sweep_steps = 12"
  unfolding ex_sweep_steps_def states_of_def
  by (simp add: run_defs sweep_defs expire_order_def ex_failed_world_def ex_defs)

theorem reconcile_refines_life_cycle_witness:
  "states_of ex_sweep_steps ! 2 = (Some SessionFailed, Some Expired)
   \<and> life_step (life (pd_orders (fst (ex_sweep_steps ! 2)))) (life (pd_orders (snd (ex_sweep_steps ! 2))))"
proof -
  have "ex_sweep_steps ! 2 \<in> set ex_sweep_steps" using ex_sweep_states by (intro nth_mem) simp
  then have mem: "(fst (ex_sweep_steps ! 2), snd (ex_sweep_steps ! 2)) \<in> set ex_sweep_steps" by simp
  have "own_ids (pd_orders (w_db ex_failed_world))" "w_others ex_failed_world = []" "w_steps ex_failed_world = []"
    by (auto simp: own_ids_def ex_failed_world_def ex_defs)
  with reconcile_refines_life_cycle [OF _ _ _ mem [unfolded ex_sweep_steps_def]]
  show ?thesis using ex_sweep_states by (simp add: ex_sweep_steps_def [symmetric])
qed

section \<open>Refunds of voided orders\<close>

lemma dbE_calls [simp]: "w_calls (snd (dbE op w)) = w_calls w"
  by (simp add: dbE_def split: prod.split)

lemma update_run:
  assumes "dbE (on_orders (update_payment_order_if_state n expected)) w = (Inr True, w')"
  shows "map_of (pd_orders (w_db w')) (po_id n) = Some (bumped n)"
proof -
  let ?u = "update_payment_order_if_state n expected (pd_orders (others_run w))"
  have "fst ?u = Inr True" "pd_orders (w_db w') = snd ?u"
    using assms by (auto simp: dbE_def on_orders_def split: prod.splits)
  then show ?thesis by (simp add: update_success update_result bumped_def map_of_update)
qed

lemma write_run:
  assumes "write_order change (l, w) = (r, (l', w'))"
  shows "w_calls w' = w_calls w
    \<and> (r = Inr () \<longrightarrow> le_order l' = bumped (change (le_order l))
         \<and> map_of (pd_orders (w_db w')) (po_id (change (le_order l))) = Some (bumped (change (le_order l))))"
proof -
  let ?n = "change (le_order l)" and ?e = "po_state (le_order l)"
  obtain r1 w1 where one: "dbE (on_orders (update_payment_order_if_state ?n ?e)) w = (r1, w1)"
    by (metis prod.exhaust)
  obtain r2 w2 where two: "dbE (on_orders (fetch_payment_order (po_id ?n))) w1 = (r2, w2)"
    by (metis prod.exhaust)
  have "w_calls w1 = w_calls w" "w_calls w2 = w_calls w1"
    using one two by (metis dbE_calls snd_conv)+
  then show ?thesis using assms one two update_run [of ?n ?e w w1]
    by (cases r1) (auto simp: write_order_def Let_def bumped_def split: bool.splits)
qed

lemma keeps_calls_write [keeps_intros]: "keeps (\<lambda>s. w_calls (snd s) = c) (write_order change)"
proof (rule keepsI)
  fix s :: "leased \<times> 'a world" assume c: "w_calls (snd s) = c"
  obtain r l' w' where "write_order change (fst s, snd s) = (r, (l', w'))" by (metis prod.exhaust)
  with write_run [OF this] c show "w_calls (snd (snd (write_order change s))) = c" by simp
qed

lemma refund_for_void_run:
  assumes "refund_for_void env pi i w = (r, w')"
  shows "w_db w' = w_db w \<and> w_calls w' = w_calls w @ [(CallRefund pi (void_key i), w_db w)]"
  using assms
  by (auto simp: refund_for_void_def ask_refund_def create_refund_def stripeE_def eff_simps
      split: prod.splits sum.splits refund_asked.splits stripe_error.splits option.splits if_splits)

text \<open>The end of a void: only writes.\<close>

definition void_tail :: "bool \<Rightarrow> void_reason \<Rightarrow> void_reason option \<Rightarrow> int \<Rightarrow> bool \<Rightarrow> ('p, fulfil_outcome) lact" where
  "void_tail marked reason previous now refunded =
     thenE (if refunded then okE ()
       else thenE (whenE marked (write_order (\<lambda>o'. o'\<lparr>po_void_reason := previous,
              po_region_blocked_country := None\<rparr>))) (errE PaymentProviderError))
     (thenE (write_order (\<lambda>o'. o'\<lparr>po_state := Voided, po_void_reason := Some reason,
                 po_reversed_at := Some now, po_reversal_pending := None\<rparr>))
     (okE (FVoided reason)))"

lemma void_tail_calls: "w_calls (snd (snd (void_tail marked reason previous now refunded (l, w)))) = w_calls w"
proof -
  have "keeps (\<lambda>s. w_calls (snd s) = w_calls w) (void_tail marked reason previous now refunded)"
    unfolding void_tail_def by (intro keeps_intros)
  from keepsD [OF this, of "(l, w)"] show ?thesis by simp
qed

lemma bindE_orderL: "bindE orderL f (l, w) = f (le_order l) (l, w)"
  by (simp add: bindE_run orderL_def)

lemma void_paid_unfold:
  assumes "po_reversal_pending (le_order l) \<noteq> Some PendingDisputeLost" "po_open_disputes (le_order l) = []"
    "po_payment_intent_id (le_order l) = Some pi"
  shows "void_paid env reason now (l, w) =
    thenE (whenE (po_void_reason (le_order l) \<noteq> Some reason)
             (write_order (\<lambda>o'. o'\<lparr>po_void_reason := Some reason\<rparr>)))
      (bindE (liftL (refund_for_void env pi (po_id (le_order l))))
        (void_tail (po_void_reason (le_order l) \<noteq> Some reason) reason (po_void_reason (le_order l)) now)) (l, w)"
  unfolding void_paid_def bindE_orderL using assms
  by (simp add: Let_def thenE_def bindE_assoc void_tail_def [abs_def])

lemma refund_then_tail:
  "\<exists>res. bindE (liftL (refund_for_void env pi i)) (void_tail marked reason previous now) (l, w) = res
     \<and> w_calls (snd (snd res)) = w_calls w @ [(CallRefund pi (void_key i), w_db w)]"
proof -
  obtain r w1 where run: "refund_for_void env pi i w = (r, w1)" by (metis prod.exhaust)
  have "w_calls w1 = w_calls w @ [(CallRefund pi (void_key i), w_db w)]" using refund_for_void_run [OF run] by simp
  then show ?thesis using run void_tail_calls [of marked reason previous now _ l w1]
    by (cases r) (simp_all add: bindE_run liftL_def)
qed

text \<open>The cases of a void: after a lost dispute, with a dispute open, without a payment, and with
  a payment to hand back.\<close>

lemma void_paid_lost:
  assumes "po_reversal_pending (le_order l) = Some PendingDisputeLost"
  shows "w_calls (snd (snd (void_paid env reason now (l, w)))) = w_calls w"
proof -
  have "void_paid env reason now (l, w) = void_tail True reason None now True (l, w)"
    using assms by (simp add: void_paid_def void_tail_def Let_def bindE_run orderL_def)
  then show ?thesis using void_tail_calls by simp
qed

lemma void_paid_deferred:
  "\<lbrakk>po_reversal_pending (le_order l) \<noteq> Some PendingDisputeLost; po_open_disputes (le_order l) \<noteq> []\<rbrakk> \<Longrightarrow>
   void_paid env reason now (l, w) = (Inr (FVoidDeferred reason), (l, w))"
  by (simp add: void_paid_def Let_def bindE_run orderL_def okE_def)

lemma void_paid_no_payment:
  "\<lbrakk>po_reversal_pending (le_order l) \<noteq> Some PendingDisputeLost; po_open_disputes (le_order l) = [];
    po_payment_intent_id (le_order l) = None\<rbrakk> \<Longrightarrow>
   \<exists>e. void_paid env reason now (l, w) = (Inl e, (l, w))"
  by (simp add: void_paid_def Let_def bindE_run thenE_run orderL_def errE_def)

lemma void_paid_refunds:
  assumes "po_reversal_pending (le_order l) \<noteq> Some PendingDisputeLost" "po_open_disputes (le_order l) = []"
    "po_payment_intent_id (le_order l) = Some pi" and res: "res = void_paid env reason now (l, w)"
  shows "w_calls (snd (snd res)) = w_calls w \<and> (\<exists>e. fst res = Inl e)
    \<or> (\<exists>d. w_calls (snd (snd res)) = w_calls w @ [(CallRefund pi (void_key (po_id (le_order l))), d)]
         \<and> (po_void_reason (le_order l) = Some reason
            \<or> (\<exists>r. map_of (pd_orders d) (po_id (le_order l)) = Some r \<and> po_void_reason r = Some reason
                  \<and> po_state r = po_state (le_order l))))"
proof (cases "po_void_reason (le_order l) = Some reason")
  case True
  then show ?thesis using void_paid_unfold [OF assms(1-3), of env reason now w] unfolding res
    using refund_then_tail [of env pi "po_id (le_order l)" False reason "Some reason" now l w]
    by (auto simp: thenE_run whenE_run)
next
  case False
  let ?o = "le_order l"
  let ?mark = "write_order (\<lambda>o'. o'\<lparr>po_void_reason := Some reason\<rparr>)"
  note unf = void_paid_unfold [OF assms(1-3), of env reason now w]
  obtain r l1 w1 where m: "?mark (l, w) = (r, (l1, w1))" by (metis prod.exhaust)
  note wr = write_run [OF m]
  show ?thesis
  proof (cases r)
    case (Inl e)
    then show ?thesis using unf m wr False unfolding res by (simp add: thenE_run whenE_run)
  next
    case (Inr x)
    then have "res = bindE (liftL (refund_for_void env pi (po_id ?o))) (void_tail True reason (po_void_reason ?o) now) (l1, w1)"
      using unf m False unfolding res by (simp add: thenE_run whenE_run)
    moreover have "map_of (pd_orders (w_db w1)) (po_id ?o) = Some (bumped (?o\<lparr>po_void_reason := Some reason\<rparr>))"
      using wr Inr by simp
    ultimately show ?thesis
      using refund_then_tail [of env pi "po_id ?o" True reason "po_void_reason ?o" now l1 w1] wr by (auto simp: bumped_def)
  qed
qed

text \<open>C2: money is handed back at most once per attempt to void a paid order, and never while it
  may still be taken back otherwise: with a dispute open the attempt changes nothing at all, after
  a lost dispute nothing is refunded, and in every other case at most one refund is asked for, of
  the order's own payment and under the order's own key (so that Stripe gives it once however
  often it is asked), and not before the reason is stored on the order.\<close>

theorem void_refund_discipline:
  "let order = le_order l; res = void_paid env reason now (l, w); calls = w_calls (snd (snd res));
       lost = (po_reversal_pending order = Some PendingDisputeLost)
   in if \<not> lost \<and> po_open_disputes order \<noteq> [] then res = (Inr (FVoidDeferred reason), (l, w))
      else if lost then calls = w_calls w
      else calls = w_calls w \<and> (\<exists>e. fst res = Inl e)
        \<or> (\<exists>pi d. po_payment_intent_id order = Some pi
             \<and> calls = w_calls w @ [(CallRefund pi (void_key (po_id order)), d)]
             \<and> (po_void_reason order = Some reason
                \<or> (\<exists>r. map_of (pd_orders d) (po_id order) = Some r \<and> po_void_reason r = Some reason
                      \<and> po_state r = po_state order)))"
proof -
  let ?o = "le_order l"
  consider (lost) "po_reversal_pending ?o = Some PendingDisputeLost"
    | (disputed) "po_reversal_pending ?o \<noteq> Some PendingDisputeLost" "po_open_disputes ?o \<noteq> []"
    | (none) "po_reversal_pending ?o \<noteq> Some PendingDisputeLost" "po_open_disputes ?o = []" "po_payment_intent_id ?o = None"
    | (pay) pi where "po_reversal_pending ?o \<noteq> Some PendingDisputeLost" "po_open_disputes ?o = []"
        "po_payment_intent_id ?o = Some pi"
    by blast
  then show ?thesis
  proof cases
    case lost
    then show ?thesis using void_paid_lost [OF lost] by (simp add: Let_def)
  next
    case disputed
    then show ?thesis using void_paid_deferred [OF disputed] by (simp add: Let_def)
  next
    case none
    then show ?thesis using void_paid_no_payment [OF none, of env reason now w] by (auto simp: Let_def)
  next
    case pay
    then show ?thesis using void_paid_refunds [OF pay refl, of env reason now w] by (simp add: Let_def)
  qed
qed

section \<open>Handing over a product\<close>

text \<open>A step that never answers \<open>r\<close>.\<close>

definition never :: "'a \<Rightarrow> ('s, 'a) eff \<Rightarrow> bool" where
  "never r m \<longleftrightarrow> (\<forall>s. fst (m s) \<noteq> Inr r)"

named_theorems never_intros \<open>rules for answers a step never gives\<close>

lemma never_okE [never_intros]: "a \<noteq> r \<Longrightarrow> never r (okE a)" by (simp add: never_def okE_def)
lemma never_errE [never_intros]: "never r (errE e)" by (simp add: never_def errE_def)
lemma never_bindE [never_intros]: "(\<And>a. never r (f a)) \<Longrightarrow> never r (bindE m f)"
  by (fastforce simp: never_def bindE_run split: prod.splits sum.splits)
lemma never_thenE [never_intros]: "never r k \<Longrightarrow> never r (thenE m k)"
  by (simp add: thenE_def never_bindE)
lemma never_if [never_intros]: "\<lbrakk>never r m; never r k\<rbrakk> \<Longrightarrow> never r (if b then m else k)" by simp
lemma never_let [never_intros]: "(\<And>x. never r (f x)) \<Longrightarrow> never r (let x = v in f x)" by simp
lemma never_option [never_intros]:
  "\<lbrakk>never r m; \<And>x. never r (f x)\<rbrakk> \<Longrightarrow> never r (case v of None \<Rightarrow> m | Some x \<Rightarrow> f x)"
  by (simp split: option.split)

lemma never_voids [never_intros]:
  "never FFulfilled (void_paid env reason now)" "never FFulfilled (void_for_deleted_account env buyer now)"
  "never FFulfilled (void_late_payment env s session now)"
  unfolding void_paid_def void_for_deleted_account_def void_late_payment_def
  by (intro never_intros; simp)+

text \<open>A session that pays for exactly this order.\<close>

definition exact_payment :: "payments_settings \<Rightarrow> payment_order \<Rightarrow> checkout_session \<Rightarrow> bool" where
  "exact_payment s order session \<longleftrightarrow>
     cs_payment_status session = Some ''paid'' \<and> cs_payment_intent session \<noteq> None
     \<and> cs_amount_total session = Some (po_amount_cents order)
     \<and> cs_currency session = Some ''usd'' \<and> po_currency order = ''usd''
     \<and> cs_livemode session = set_expect_livemode s
     \<and> (po_checkout_session_id order = Some (cs_id session) \<or> cs_metadata_order_id session = Some (po_id order))
     \<and> po_state order \<notin> {Fulfilled, Refunded, Voided}"

lemma session_mismatch_exact:
  "session_mismatch order session s = None \<Longrightarrow>
   cs_amount_total session = Some (po_amount_cents order)
   \<and> cs_currency session = Some ''usd'' \<and> po_currency order = ''usd''
   \<and> cs_livemode session = set_expect_livemode s
   \<and> (po_checkout_session_id order = Some (cs_id session) \<or> cs_metadata_order_id session = Some (po_id order))"
  by (cases "po_checkout_session_id order")
    (auto simp: session_mismatch_def session_not_ours_def is_some_and_def Let_def split: if_splits option.splits)

lemma fulfil_payable_exact:
  assumes "fst (fulfil_payable env s session now (l, w)) = Inr FFulfilled"
    "po_state (le_order l) \<notin> {Fulfilled, Refunded, Voided}"
  shows "exact_payment s (le_order l) session"
proof -
  let ?o = "le_order l"
  have wrong: "never FFulfilled (thenE m (fulfil_paid env s session pi True now))" for m pi
    unfolding fulfil_paid_def by (simp add: never_intros)
  show ?thesis
  proof (cases "session_mismatch ?o session s")
    case None
    have "cs_payment_status session = Some ''paid'' \<and> cs_payment_intent session \<noteq> None"
      using assms(1) None
      by (auto simp: fulfil_payable_def bindE_orderL okE_def errE_def split: if_splits option.splits)
    then show ?thesis using session_mismatch_exact [OF None] assms(2) by (simp add: exact_payment_def)
  next
    case (Some mm)
    have "\<not> fst (thenE m (fulfil_paid env s session pi True now) (l, w)) = Inr FFulfilled" for m pi
      by (rule wrong [unfolded never_def, rule_format])
    with Some have "fst (fulfil_payable env s session now (l, w)) \<noteq> Inr FFulfilled"
      by (auto simp: fulfil_payable_def bindE_orderL okE_def errE_def Let_def split: mismatch.splits option.splits)
    then show ?thesis using assms(1) by simp
  qed
qed

lemma with_lease_result:
  assumes "fst (with_lease i now busy body w) = Inr r" "r \<noteq> busy"
  shows "\<exists>l w1. acquire i now w = (Inr (Some l), w1) \<and> fst (body (l, w1)) = Inr r"
  using assms
  by (auto simp: with_lease_def bindE_run okE_def split: prod.splits sum.splits option.splits)

text \<open>C3: a product is handed over only for its exact price. When fulfilling an order ends
  Fulfilled, the order leased for it was neither fulfilled, refunded nor voided, and the session is
  this order's own, reported paid with a payment behind it, in the right mode, for exactly the
  order's amount in dollars; whatever the other workers and Stripe do.\<close>

theorem fulfilled_only_for_exact_payment:
  assumes "fst (fulfil_order env s order_id session now w) = Inr FFulfilled"
  shows "\<exists>l w1. acquire order_id now w = (Inr (Some l), w1) \<and> exact_payment s (le_order l) session"
proof -
  have fin: "never FFulfilled (thenE (finish_fulfilled env now) (okE FAlreadyFulfilled))"
    "never FFulfilled (okE FAlreadyFulfilled)" by (intro never_intros; simp)+
  obtain l w1 where l: "acquire order_id now w = (Inr (Some l), w1)"
    and body: "fst (fulfil_locked env s session now (l, w1)) = Inr FFulfilled"
    using with_lease_result [OF assms [unfolded fulfil_order_def]] by auto
  have "fst (fulfil_payable env s session now (l, w1)) = Inr FFulfilled
      \<and> po_state (le_order l) \<notin> {Fulfilled, Refunded, Voided}"
    using body fin never_voids(3) [of env s session now]
    by (cases "po_state (le_order l)") (simp_all add: fulfil_locked_def bindE_orderL never_def okE_def)
  then show ?thesis using l fulfil_payable_exact by blast
qed

definition ex_paid :: checkout_session where
  "ex_paid =
     \<lparr>cs_id = ''cs1'', cs_url = None, cs_status = Some ''complete'', cs_payment_status = Some ''paid'',
      cs_payment_intent = Some ''pi1'', cs_amount_total = Some 9900, cs_currency = Some ''usd'',
      cs_livemode = True, cs_client_reference_id = Some ''u'', cs_metadata_order_id = Some ''o1'',
      cs_expires_at = None, cs_billing_country = Some ''DE''\<rparr>"

definition ex_sale_world :: "unit world" where
  "ex_sale_world = ex_world\<lparr>w_db := ex_db\<lparr>pd_numbers :=
     [(1, \<lparr>cn_number = 1, cn_order_id = None, cn_release_pending_at = None\<rparr>)]\<rparr>\<rparr>"

lemma ex_no_grants: "\<not> grants_active (load_or_closed f default_protection_features)"
  by (simp add: grants_active_def load_or_closed_def prot_from_parts_def prot_unchecked_def prot_closed_def
      default_protection_features_def Let_def)

lemma retryE_numeral:
  "retryE (numeral k) body after =
     bindE body (\<lambda>r. case r of Some a \<Rightarrow> okE a | None \<Rightarrow> retryE (pred_numeral k) body after)"
  by (simp add: numeral_eq_Suc)

lemmas fulfil_defs = fulfil_order_def fulfil_locked_def fulfil_payable_def fulfil_paid_def fulfil_live_def
  apply_order_def finish_fulfilment_def session_mismatch_def session_not_ours_def mark_paid_def record_payment_def
  buyer_is_live_def fetch_user_def is_deleted_def fetch_membership_def fetch_cipher_membership_def
  blocked_region_def precondition_failure_def apply_membership_def take_number_def fetch_cipher_number_by_order_def
  number_of_order_def claim_cipher_number_def free_numbers_def min_of_def fresh_membership_def
  new_attempt_def insert_cipher_membership_def publish_badge_def sync_user_badge_def badge_round_def public_badge_def is_active_def
  update_user_cipher_def reverse_recorded_def sync_after_cipher_fulfil_def engine_sync_cipher_prot_def
  is_disputed_def country_blocked_def MEMBERSHIP_RETRIES_def BADGE_SYNC_RETRIES_def retryE_numeral

lemma ex_env_protection: "en_protection ex_env = default_protection_features"
  by (simp add: ex_env_def)

lemma ex_fulfilled: "fst (fulfil_order ex_env ex_settings ''o1'' ex_paid 5 ex_sale_world) = Inr FFulfilled"
  by (simp add: run_defs fulfil_defs ex_paid_def ex_sale_world_def ex_defs ex_no_grants ex_env_protection)

theorem fulfilled_only_for_exact_payment_witness:
  "\<exists>l w1. acquire ''o1'' 5 ex_sale_world = (Inr (Some l), w1) \<and> exact_payment ex_settings (le_order l) ex_paid"
  by (rule fulfilled_only_for_exact_payment [OF ex_fulfilled])

section \<open>Duplicate deliveries\<close>

definition settled_in :: "string \<Rightarrow> pay_db \<Rightarrow> bool" where
  "settled_in i d \<longleftrightarrow> is_some_and event_settled (map_of (pd_events d) i)"

lemma insert_settled:
  "settled_in (pe_id e) d \<Longrightarrow> on_events (insert_payment_event_if_absent e) d = (Inr False, d)"
  by (auto simp: settled_in_def is_some_and_iff on_events_def insert_payment_event_if_absent_def)

text \<open>A delivery of an event that is already settled is answered Duplicate and does nothing:
  no call to Stripe is made and neither of its two database steps changes anything, as long as no
  worker takes back the settled state of an event.\<close>

theorem settled_event_is_duplicate:
  assumes "ev_livemode event = set_expect_livemode s" and "settled_in (ev_id event) (w_db w)"
    and "\<forall>f \<in> set (w_others w). \<forall>d. settled_in (ev_id event) d \<longrightarrow> settled_in (ev_id event) (f d)"
  shows "\<exists>d1 d2 w'. handle_event env s event now w = (Inr OutDuplicate, w')
    \<and> w_calls w' = w_calls w \<and> w_steps w' = w_steps w @ [(d1, d1), (d2, d2)]"
proof -
  let ?i = "ev_id event"
  let ?d1 = "others_run w"
  let ?w1 = "w\<lparr>w_db := ?d1, w_others := tl (w_others w), w_steps := w_steps w @ [(?d1, ?d1)]\<rparr>"
  have "settled_in ?i ?d1" using assms(2,3) by (auto simp: others_run_def split: list.split)
  then have one: "dbE (on_events (insert_payment_event_if_absent (event_row event EventReceived 0 now))) w
      = (Inr False, ?w1)"
    using insert_settled [of "event_row event EventReceived 0 now"] by (simp add: dbE_def event_row_def)
  have "settled_in ?i (others_run ?w1)"
    using \<open>settled_in ?i ?d1\<close> assms(3) by (cases "w_others w"; cases "tl (w_others w)") (auto simp: others_run_def)
  then have two: "is_settled ?i ?w1 = (Inr True,
      ?w1\<lparr>w_db := others_run ?w1, w_others := tl (tl (w_others w)), w_steps := w_steps w @ [(?d1, ?d1), (others_run ?w1, others_run ?w1)]\<rparr>)"
    by (auto simp: is_settled_def bindE_run dbE_def on_events_def fetch_payment_event_def okE_def settled_in_def)
  show ?thesis using assms(1) one two by (simp add: handle_event_def bindE_run okE_def)
qed

definition ex_settled_world :: "unit world" where
  "ex_settled_world = ex_world\<lparr>w_db := ex_db\<lparr>pd_events := [(''evt1'', event_row ex_expired EventProcessed 1 3)]\<rparr>\<rparr>"

theorem settled_event_is_duplicate_witness:
  "\<exists>d1 d2 w'. handle_event ex_env ex_settings ex_expired 5 ex_settled_world = (Inr OutDuplicate, w')
    \<and> w_calls w' = w_calls ex_settled_world \<and> w_steps w' = w_steps ex_settled_world @ [(d1, d1), (d2, d2)]"
  by (rule settled_event_is_duplicate)
    (simp_all add: ex_settled_world_def ex_expired_def ex_settings_def ex_world_def ex_db_def
      settled_in_def event_row_def event_settled_def is_some_and_def)

end
