(* ===== verification/Checkout_Props.thy ===== *)
theory Checkout_Props
  imports Engine_Props
begin

text \<open>
  Properties of single operations: what a checkout charges, what account deletion leaves, the
  public badge, and the error texts kept in the database.
\<close>

section \<open>Error texts\<close>

lemma boundary_at_most_le: "boundary_at_most t n \<le> n"
  by (induction n) auto

lemma boundary_at_most_boundary: "is_char_boundary t (boundary_at_most t n)"
  by (induction n) (auto simp: is_char_boundary_def)

lemma boundary_at_most_max:
  "boundary_at_most t n < m \<Longrightarrow> m \<le> n \<Longrightarrow> \<not> is_char_boundary t m"
proof (induction n)
  case (Suc n)
  then show ?case by (cases "m = Suc n") (auto split: if_splits)
qed simp

text \<open>The reason kept with an event that will be retried is never longer than 160 bytes. It is
  the text of the error itself when that fits, and else the longest beginning of it that fits and
  does not cut a character in two.\<close>

theorem stored_reason_bounded:
  assumes "full = step' @ '': '' @ error_debug err"
  shows "length (engine_text step' err) \<le> ERROR_TEXT_MAX
    \<and> (if length full \<le> ERROR_TEXT_MAX then engine_text step' err = full
       else (\<exists>n. engine_text step' err = take n full \<and> n \<le> ERROR_TEXT_MAX \<and> is_char_boundary full n
               \<and> (\<forall>m. n < m \<and> m \<le> ERROR_TEXT_MAX \<longrightarrow> \<not> is_char_boundary full m)))"
proof (cases "length full \<le> ERROR_TEXT_MAX")
  case True
  then show ?thesis using assms by (simp add: engine_text_def truncate_text_def)
next
  case False
  let ?n = "boundary_at_most full ERROR_TEXT_MAX"
  have cut: "engine_text step' err = take ?n full"
    using False assms by (simp add: engine_text_def truncate_text_def)
  moreover have "?n \<le> ERROR_TEXT_MAX" by (rule boundary_at_most_le)
  moreover have "is_char_boundary full ?n" by (rule boundary_at_most_boundary)
  ultimately show ?thesis using False boundary_at_most_max [of full ERROR_TEXT_MAX] by auto
qed

definition ex_long_error :: error where
  "ex_long_error = FailedValidation (replicate 200 (CHR ''x''))"

theorem stored_reason_bounded_witness:
  "length (engine_text ''fulfil'' ex_long_error) \<le> 160
   \<and> engine_text ''fulfil'' NotFound = ''fulfil: NotFound''"
proof
  show "length (engine_text ''fulfil'' ex_long_error) \<le> 160"
    using stored_reason_bounded [OF refl, of "''fulfil''" ex_long_error] by (simp add: ERROR_TEXT_MAX_def)
  show "engine_text ''fulfil'' NotFound = ''fulfil: NotFound''"
    using stored_reason_bounded [OF refl, of "''fulfil''" NotFound] by (simp add: ERROR_TEXT_MAX_def)
qed

section \<open>The public badge\<close>

text \<open>The badge a user should show: that of an active membership without disputes, and none on a
  deleted account.\<close>

definition right_badge :: "pay_db \<Rightarrow> string \<Rightarrow> buyer \<Rightarrow> user_cipher option" where
  "right_badge d u user =
     (if is_deleted user then None
      else Option.bind (map_of (ls_memberships (pd_ledger d)) u) public_badge)"

lemma is_deleted_badge [simp]: "is_deleted (user\<lparr>bu_cipher := b\<rparr>) = is_deleted user"
  by (simp add: is_deleted_def)

lemma badge_round_run:
  assumes "w_others w = []" "map_of (pd_users (w_db w)) u = Some user"
  shows "\<exists>w'. badge_round u w = (Inr (if bu_cipher user = right_badge (w_db w) u user then Some () else None), w')
    \<and> w_others w' = []
    \<and> w_db w' = (if bu_cipher user = right_badge (w_db w) u user then w_db w
        else (w_db w)\<lparr>pd_users := AList.update u (user\<lparr>bu_cipher := right_badge (w_db w) u user\<rparr>) (pd_users (w_db w))\<rparr>)"
  using assms
  by (simp add: badge_round_def eff_simps fetch_membership_def dbE_def on_memberships_def on_ledger_def on_users_def
      fetch_cipher_membership_def fetch_user_def update_user_cipher_def others_run_def Let_def right_badge_def)

lemma badge_settled:
  assumes "w_others w = []" "map_of (pd_users (w_db w)) u = Some user" "bu_cipher user = right_badge (w_db w) u user"
  shows "\<exists>w'. retryE (Suc n) (badge_round u) after w = (Inr (), w') \<and> w_db w' = w_db w"
  using badge_round_run [OF assms(1,2)] assms(3) by (auto simp: eff_simps)

text \<open>C34: publishing a badge settles: when nobody interferes it ends well after at most two
  rounds, the user shows exactly the badge the membership gives (none while a dispute is open,
  after a revocation, or on a deleted account), and nothing else of any user changed.\<close>

theorem badge_sync_settles:
  assumes "w_others w = []" and "map_of (pd_users (w_db w)) u = Some user"
  shows "\<exists>w'. sync_user_badge u w = (Inr (), w')
    \<and> map_of (pd_users (w_db w')) u = Some (user\<lparr>bu_cipher := right_badge (w_db w) u user\<rparr>)
    \<and> (\<forall>v. v \<noteq> u \<longrightarrow> map_of (pd_users (w_db w')) v = map_of (pd_users (w_db w)) v)"
proof -
  let ?user = "user\<lparr>bu_cipher := right_badge (w_db w) u user\<rparr>"
  have n: "BADGE_SYNC_RETRIES = Suc (Suc 3)" by (simp add: BADGE_SYNC_RETRIES_def)
  show ?thesis
  proof (cases "bu_cipher user = right_badge (w_db w) u user")
    case True
    from badge_settled [OF assms True, of "Suc 3" "errE InternalError"] obtain w' where
      "sync_user_badge u w = (Inr (), w')" "w_db w' = w_db w" unfolding sync_user_badge_def n by auto
    moreover have "?user = user" using True by (cases user) simp
    ultimately show ?thesis using assms(2) by auto
  next
    case False
    obtain w1 where w1: "badge_round u w = (Inr None, w1)" "w_others w1 = []"
      "w_db w1 = (w_db w)\<lparr>pd_users := AList.update u ?user (pd_users (w_db w))\<rparr>"
      using badge_round_run [OF assms] False by auto
    have "map_of (pd_users (w_db w1)) u = Some ?user" "bu_cipher ?user = right_badge (w_db w1) u ?user"
      by (simp_all add: w1(3) map_of_update right_badge_def)
    from badge_settled [OF w1(2) this, of 3 "errE InternalError"] obtain w' where
      "retryE (Suc 3) (badge_round u) (errE InternalError) w1 = (Inr (), w')" "w_db w' = w_db w1" by blast
    then have "sync_user_badge u w = (Inr (), w')" "w_db w' = w_db w1"
      using w1(1) unfolding sync_user_badge_def n retryE.simps(2) [of "Suc 3"] by (simp_all add: bindE_run)
    then show ?thesis using w1(3) by (auto simp: map_of_update)
  qed
qed

definition ex_member_world :: "unit world" where
  "ex_member_world = ex_world\<lparr>w_db := ex_db\<lparr>pd_ledger := (pd_ledger ex_db)\<lparr>ls_memberships :=
     [(''u'', ex_membership\<lparr>cm_user_id := ''u''\<rparr>)]\<rparr>\<rparr>\<rparr>"

theorem badge_sync_settles_witness:
  "\<exists>w'. sync_user_badge ''u'' ex_member_world = (Inr (), w')
    \<and> map_of (pd_users (w_db w')) ''u'' =
        Some \<lparr>bu_id = ''u'', bu_bot = False, bu_flags = None,
          bu_cipher = Some \<lparr>uc_number = cm_number ex_membership, uc_tier = cm_tier ex_membership\<rparr>\<rparr>"
  using badge_sync_settles [of ex_member_world "''u''" "\<lparr>bu_id = ''u'', bu_bot = False, bu_flags = None, bu_cipher = None\<rparr>"]
  by (auto simp: ex_member_world_def ex_world_def ex_db_def right_badge_def is_deleted_def ex_membership_def
      public_badge_def is_active_def)

section \<open>Account deletion\<close>

lemma unlink_rows_done:
  "unlink_rows u t = (Inr (), t') \<Longrightarrow> \<forall>(k, r) \<in> set t'. po_user_id r \<noteq> Some u"
  by (induction u t arbitrary: t' rule: unlink_rows.induct)
    (auto split: if_splits option.splits prod.splits)

lemma unlink_account_run:
  assumes "unlink_account_payments u w = (Inr (), w')"
  shows "\<exists>d1 d2 d3 d4. w_steps w' = w_steps w @ [(d1, d2), (d3, d4)]
    \<and> (\<forall>i r. map_of (pd_orders d2) i = Some r \<longrightarrow> po_user_id r \<noteq> Some u)
    \<and> map_of (ls_memberships (pd_ledger d4)) u = None"
proof -
  let ?d1 = "others_run w"
  obtain r t where un: "unlink_rows u (pd_orders ?d1) = (r, t)" by (metis prod.exhaust)
  let ?d2 = "?d1\<lparr>pd_orders := t\<rparr>"
  let ?w1 = "w\<lparr>w_db := ?d2, w_others := tl (w_others w), w_steps := w_steps w @ [(?d1, ?d2)]\<rparr>"
  have one: "dbE (on_orders (unlink_payment_orders_by_user u)) w = (r, ?w1)"
    using un by (simp add: dbE_def on_orders_def unlink_payment_orders_by_user_def)
  then have ok: "r = Inr ()" using assms
    by (cases r) (auto simp: unlink_account_payments_def thenE_run)
  have "\<forall>i r. map_of t i = Some r \<longrightarrow> po_user_id r \<noteq> Some u"
    using unlink_rows_done [OF un [unfolded ok]] by (auto dest: map_of_SomeD)
  moreover have "\<exists>d3 d4. w_steps w' = w_steps ?w1 @ [(d3, d4)] \<and> map_of (ls_memberships (pd_ledger d4)) u = None"
    using assms one ok
    by (auto simp: unlink_account_payments_def thenE_run okE_def dbE_def on_memberships_def on_ledger_def
        delete_cipher_membership_def delete_conv)
  ultimately show ?thesis by auto
qed

text \<open>The voids never keep the unlinking from running.\<close>

lemma deletion_reaches_unlink:
  assumes "on_account_deleted env u now w = (Inr (), w')"
  shows "\<exists>w1. unlink_account_payments u w1 = (Inr (), w')"
  using assms unfolding on_account_deleted_def
  by (auto simp: bindE_run thenE_run split: prod.splits sum.splits)

text \<open>C28: when the payments part of an account's deletion ends well, its last two database steps
  have left no order linked to the account and no membership of it, whatever became of the refunds
  before (a failed void, a held lease or a listing that failed does not keep it from them) and
  whatever other workers did.\<close>

theorem deletion_unlinks_everything:
  assumes "on_account_deleted env u now w = (Inr (), w')"
  shows "\<exists>before d1 d2 d3 d4. w_steps w' = before @ [(d1, d2), (d3, d4)]
    \<and> (\<forall>i r. map_of (pd_orders d2) i = Some r \<longrightarrow> po_user_id r \<noteq> Some u)
    \<and> map_of (ls_memberships (pd_ledger d4)) u = None"
proof -
  obtain w1 where "unlink_account_payments u w1 = (Inr (), w')"
    using deletion_reaches_unlink [OF assms] by blast
  from unlink_account_run [OF this] show ?thesis by blast
qed

lemmas deletion_defs = on_account_deleted_def fetch_payment_orders_by_user_def sort_oldest_first_def
  void_for_deletion_def unlink_account_payments_def unlink_payment_orders_by_user_def delete_cipher_membership_def

lemma ex_deleted: "fst (on_account_deleted ex_env ''u'' 5 ex_member_world) = Inr ()"
  by (simp add: run_defs deletion_defs ex_member_world_def ex_defs)

theorem deletion_unlinks_everything_witness:
  "\<exists>before d1 d2 d3 d4. w_steps (snd (on_account_deleted ex_env ''u'' 5 ex_member_world)) = before @ [(d1, d2), (d3, d4)]
    \<and> (\<forall>i r. map_of (pd_orders d2) i = Some r \<longrightarrow> po_user_id r \<noteq> Some ''u'')
    \<and> map_of (ls_memberships (pd_ledger d4)) ''u'' = None"
  by (rule deletion_unlinks_everything [of ex_env "''u''" 5 ex_member_world])
    (metis ex_deleted prod.collapse)

section \<open>What a checkout charges\<close>

definition calm :: "'p world \<Rightarrow> bool" where
  "calm w \<longleftrightarrow> w_calls w = [] \<and> (\<forall>f \<in> set (w_others w). \<forall>d. orders_rely (pd_orders d) (pd_orders (f d)))"

lemma dbE_others [simp]: "w_others (snd (dbE op w)) = tl (w_others w)"
  by (simp add: dbE_def split: prod.split)

lemma keeps_calm_dbE [keeps_intros]: "keeps calm (dbE op)"
proof (rule keepsI)
  fix w :: "'p world" assume "calm w"
  moreover have "set (tl (w_others w)) \<subseteq> set (w_others w)" by (cases "w_others w") auto
  ultimately show "calm (snd (dbE op w))" by (auto simp: calm_def)
qed

definition charges :: "(stripe_call \<Rightarrow> bool) \<Rightarrow> ('p, 'a) act \<Rightarrow> bool" where
  "charges G m \<longleftrightarrow> (\<forall>w. calm w \<longrightarrow> (\<forall>(c, d) \<in> set (w_calls (snd (m w))). G c))"

lemma charges_calm: "keeps calm m \<Longrightarrow> charges G m"
  by (auto simp: charges_def keeps_def calm_def)

lemma charges_bindE:
  fixes m :: "('p, 'a) act"
  assumes "keeps calm m" "\<And>a. charges G (f a)"
  shows "charges G (bindE m f)"
  unfolding charges_def
proof (intro allI impI)
  fix w :: "'p world" assume w: "calm w"
  obtain r w1 where run: "m w = (r, w1)" by (metis prod.exhaust)
  have w1: "calm w1" using keepsE_run [OF assms(1) w run] .
  show "\<forall>(c, d) \<in> set (w_calls (snd (bindE m f w))). G c"
  proof (cases r)
    case (Inl e)
    then show ?thesis using run w1 by (simp add: bindE_run calm_def)
  next
    case (Inr a)
    then show ?thesis using run w1 assms(2) [of a] by (simp add: bindE_run charges_def)
  qed
qed

lemma charges_resE: "(\<And>a. r = Inr a \<Longrightarrow> charges G (f a)) \<Longrightarrow> charges G (bindE (resE r) f)"
  by (cases r) (auto simp: charges_def bindE_run resE_def calm_def)

lemma charges_leaf: "charges G (errE e)" "charges G (resE r)"
  by (intro charges_calm keeps_intros)+
lemma charges_thenE: "\<lbrakk>keeps calm m; charges G k\<rbrakk> \<Longrightarrow> charges G (thenE m k)"
  unfolding thenE_def by (rule charges_bindE)
lemma charges_if: "\<lbrakk>charges G m; charges G k\<rbrakk> \<Longrightarrow> charges G (if b then m else k)" by simp
lemma charges_option:
  "\<lbrakk>charges G m; \<And>x. charges G (f x)\<rbrakk> \<Longrightarrow> charges G (case v of None \<Rightarrow> m | Some x \<Rightarrow> f x)"
  by (simp split: option.split)

text \<open>The one call a checkout may make.\<close>

definition catalog_call :: "string \<Rightarrow> sku \<Rightarrow> stripe_call \<Rightarrow> bool" where
  "catalog_call u sk c \<longleftrightarrow>
     (\<exists>params. c = CallCreateSession params (csp_order_id params)
        \<and> sku_cents sk = Inr (csp_amount_cents params)
        \<and> csp_product_name params = sku_product_name sk
        \<and> csp_currency params = ''usd'' \<and> csp_user_id params = u)"

lemma session_calls:
  assumes "start_session_with_urls env s success cancel (l, w) = (r, (l', w'))"
  shows "w_calls w' = w_calls w \<or> (\<exists>u. po_user_id (le_order l) = Some u
    \<and> w_calls w' = w_calls w @ [(CallCreateSession (session_params s (le_order l) u success cancel) (po_id (le_order l)), w_db w)])"
proof (cases "po_user_id (le_order l)")
  case None
  then show ?thesis using assms by (simp add: start_session_with_urls_def bindE_orderL errE_def)
next
  case (Some u)
  let ?p = "session_params s (le_order l) u success cancel"
  obtain x w1 where run: "create_checkout_session env ?p (po_id (le_order l)) w = (Inr x, w1)"
    by (cases "create_checkout_session env ?p (po_id (le_order l)) w")
      (auto simp: create_checkout_session_def stripeE_def split: prod.splits)
  have w1: "w_calls w1 = w_calls w @ [(CallCreateSession ?p (po_id (le_order l)), w_db w)]"
    using run by (auto simp: create_checkout_session_def stripeE_def split: prod.splits)
  let ?rest = "case usable_session s ?p x of
           Some (session, url) \<Rightarrow>
             thenE (write_order (\<lambda>o'. o'\<lparr>po_state := Pending,
                        po_checkout_session_id := Some (cs_id session), po_checkout_url := Some url,
                        po_session_expires_at := Some (saturating_mul
                   (case cs_expires_at session of Some at \<Rightarrow> at | None \<Rightarrow> csp_expires_at_secs ?p) 1000)\<rparr>))
                (okE url)
         | None \<Rightarrow>
             thenE (tryE (write_order (\<lambda>o'. o'\<lparr>po_state := SessionFailed\<rparr>)))
             (errE PaymentProviderError)"
  have "keeps (\<lambda>s. w_calls (snd s) = w_calls w1) ?rest" by (intro keeps_intros)
  note kept_calls = keepsD [OF this, of "(l, w1)"]
  have eq: "start_session_with_urls env s success cancel (l, w) = ?rest (l, w1)"
    using Some run by (simp add: start_session_with_urls_def bindE_orderL)
      (simp add: bindE_run liftL_def Let_def split: option.split prod.split)
  have "w_calls (snd (snd (start_session_with_urls env s success cancel (l, w)))) = w_calls w1"
    unfolding eq by (rule kept_calls) simp
  then show ?thesis unfolding assms w1 using Some by simp
qed

lemma store_run:
  assumes "store_new_order env u sk cents now w = (Inr i, w1)"
  shows "map_of (pd_orders (w_db w1)) i = Some (new_order i u sk cents now)"
  using assms
  by (auto simp: store_new_order_def dbE_def Let_def on_orders_def insert_payment_order_def map_of_update new_order_def
      split: prod.splits sum.splits if_splits)

lemma acquire_kept:
  assumes "acquire i now w = (Inr (Some l), w')" "map_of (pd_orders (w_db w)) i = Some r" "calm w"
  shows "kept r (le_order l)"
proof -
  have "orders_rely (pd_orders (w_db w)) (pd_orders (others_run w))"
    using assms(3) by (auto simp: others_run_def calm_def split: list.split)
  then obtain old where old: "map_of (pd_orders (others_run w)) i = Some old" "row_rely r old"
    using orders_rely_row assms(2) by blast
  obtain x t where u: "acquire_payment_order_lease i now (saturating_add now LEASE_MS) (pd_orders (others_run w)) = (x, t)"
    by (metis prod.exhaust)
  then have "x = Inr (Some (le_order l))"
    using assms(1) by (auto simp: acquire_def Let_def bindE_run dbE_def on_orders_def okE_def errE_def
      fetch_payment_order_def split: sum.splits option.splits prod.splits)
  then obtain old' where here: "map_of (pd_orders (others_run w)) i = Some old'"
      and eq: "le_order l = old'\<lparr>po_version := po_version (le_order l), po_lease_until := Some (saturating_add now LEASE_MS)\<rparr>"
    using acquire_result [of i now _ "pd_orders (others_run w)" "le_order l" t] u by auto
  have "kept old' (old'\<lparr>po_version := v, po_lease_until := x\<rparr>)" for v x by (simp add: kept_def)
  then have "kept old (le_order l)" using old(1) here eq by (metis option.inject)
  then show ?thesis using old(2) kept_trans by (auto simp: row_rely_def same_core_def)
qed

text \<open>What a session asks Stripe for: nothing, or the one session of the leased order.\<close>

definition asks_session :: "payments_settings \<Rightarrow> ('p, 'a) lact \<Rightarrow> bool" where
  "asks_session s session \<longleftrightarrow>
     (\<forall>l w r l' w'. session (l, w) = (r, (l', w')) \<longrightarrow>
        w_calls w' = w_calls w \<or> (\<exists>u success cancel. po_user_id (le_order l) = Some u
          \<and> w_calls w' = w_calls w @ [(CallCreateSession (session_params s (le_order l) u success cancel)
                (po_id (le_order l)), w_db w)]))"

lemma leased_session_charges:
  assumes "asks_session s session" and cents: "sku_cents sk = Inr cents"
    and "acquire i now w1 = (Inr (Some l), w2)" "calm w1" "calm w2"
    and "map_of (pd_orders (w_db w1)) i = Some (new_order i u sk cents now)"
    and "session (l, w2) = (r, (l', w3))"
  shows "\<forall>(c, d) \<in> set (w_calls w3). catalog_call u sk c"
proof -
  have "kept (new_order i u sk cents now) (le_order l)" by (rule acquire_kept [OF assms(3,6,4)])
  then have same: "po_id (le_order l) = i" "po_sku (le_order l) = sk" "po_amount_cents (le_order l) = cents"
      "po_currency (le_order l) = ''usd''" "po_user_id (le_order l) = Some u \<or> po_user_id (le_order l) = None"
    by (simp_all add: kept_def new_order_def)
  consider "w_calls w3 = []" | success cancel where
    "w_calls w3 = [(CallCreateSession (session_params s (le_order l) u success cancel) i, w_db w2)]"
    using assms(1,5,7) same unfolding asks_session_def calm_def by fastforce
  then show ?thesis by cases (simp_all add: same cents catalog_call_def session_params_def)
qed

lemma order_and_session_charges:
  fixes env :: "'p pay_env"
  assumes "asks_session s session"
  shows "charges (catalog_call u sk) (order_and_session env u sk now session)"
  unfolding order_and_session_def
proof (rule charges_resE)
  fix cents assume cents: "sku_cents sk = Inr cents"
  let ?tail = "\<lambda>r. case r of None \<Rightarrow> errE InternalError
    | Some l \<Rightarrow> (\<lambda>w. case session (l, w) of (res, (l', w')) \<Rightarrow> (res, snd (release l' w')))"
  show "charges (catalog_call u sk) (bindE (store_new_order env u sk cents now) (\<lambda>i. bindE (acquire i now) ?tail))"
    unfolding charges_def
  proof (intro allI impI)
    fix w :: "'p world" assume w: "calm w"
    let ?run = "bindE (store_new_order env u sk cents now) (\<lambda>i. bindE (acquire i now) ?tail) w"
    obtain r1 w1 where store: "store_new_order env u sk cents now w = (r1, w1)" by (metis prod.exhaust)
    have "keeps calm (store_new_order env u sk cents now)" unfolding store_new_order_def by (rule keeps_calm_dbE)
    from keepsE_run [OF this w store] have w1: "calm w1" .
    show "\<forall>(c, d) \<in> set (w_calls (snd ?run)). catalog_call u sk c"
    proof (cases r1)
      case (Inl e)
      then show ?thesis using store w1 by (simp add: bindE_run calm_def)
    next
      case (Inr i)
      obtain r2 w2 where acq: "acquire i now w1 = (r2, w2)" by (metis prod.exhaust)
      have "keeps calm (acquire i now)" unfolding acquire_def Let_def by (intro keeps_intros)
      from keepsE_run [OF this w1 acq] have w2: "calm w2" .
      show ?thesis
      proof (cases "\<exists>l. r2 = Inr (Some l)")
        case False
        then show ?thesis using store Inr acq w2
          by (cases r2) (auto simp: bindE_run errE_def calm_def split: option.splits)
      next
        case True
        then obtain l where l: "r2 = Inr (Some l)" by blast
        obtain r3 l3 w3 where run: "session (l, w2) = (r3, (l3, w3))" by (metis prod.exhaust)
        have "w_calls (snd ?run) = w_calls w3"
          using store Inr acq l run by (simp add: bindE_run tryE_run okE_def release_def split: sum.split)
        then show ?thesis
          using leased_session_charges [OF assms cents acq [unfolded l] w1 w2 store_run run] store Inr by simp
      qed
    qed
  qed
qed

lemma keeps_calm_release_pending [keeps_intros]: "keeps calm (number_release_pending m)"
proof -
  have "keeps calm (number_release_pending_in n ids)" for n ids
    by (induction ids) (auto intro!: keeps_intros)
  then show ?thesis by (simp add: number_release_pending_def)
qed

lemma keeps_calm_offer [keeps_intros]: "keeps calm (cipher_offer_open s sk m)"
  unfolding cipher_offer_open_def by (auto intro!: keeps_intros split: sku.split)

text \<open>C17: a Cipher checkout charges what the catalog says. The only call to Stripe it may make
  opens a session for a product the server quoted for the tier asked for, at exactly that product's
  price in dollars, in the buyer's own name, under the order's id as idempotency key; nothing of the
  amount comes from the caller. Other workers are only assumed to keep the protocol.\<close>

theorem checkout_charges_catalog_price:
  fixes env :: "'p pay_env"
  assumes "w_calls w = []"
    and "\<forall>f \<in> set (w_others w). \<forall>d. orders_rely (pd_orders d) (pd_orders (f d))"
    and "(c, d) \<in> set (w_calls (snd (create_cipher_checkout env s u tier return_to now w)))"
  shows "\<exists>current sk. quote current tier = Inr sk \<and> catalog_call u sk c"
proof -
  let ?G = "\<lambda>c. \<exists>current sk. quote current tier = Inr sk \<and> catalog_call u sk c"
  have sess: "asks_session s (start_session env s return_to)"
    using session_calls unfolding asks_session_def by (cases return_to) (fastforce simp: start_session_def)+
  have pay: "charges ?G (order_and_session env u sk now (start_session env s return_to))"
    if "quote current tier = Inr sk" for current sk
    using order_and_session_charges [OF sess, where u = u and sk = sk and env = env and now = now] that
    unfolding charges_def by fastforce
  have "charges ?G (create_cipher_checkout env s u tier return_to now)"
    unfolding create_cipher_checkout_def fetch_membership_def Let_def
    by (rule charges_if charges_leaf charges_resE charges_bindE charges_thenE charges_option | erule pay
        | rule keeps_intros)+
  then show ?thesis using assms by (auto simp: charges_def calm_def)
qed

definition ex_open_world :: "unit world" where
  "ex_open_world = ex_sale_world\<lparr>w_db := (w_db ex_sale_world)\<lparr>pd_orders := []\<rparr>\<rparr>"

definition ex_calls :: "(stripe_call \<times> pay_db) list" where
  "ex_calls = w_calls (snd (create_cipher_checkout ex_env ex_settings ''u'' T99 Web 5 ex_open_world))"

lemmas checkout_defs = create_cipher_checkout_def sales_open_at_def fetch_membership_def fetch_cipher_membership_def
  quote_def cipher_offer_open_def count_claimed_cipher_numbers_def count_to_u32_def
  fetch_payment_orders_by_user_def sort_oldest_first_def order_and_session_def store_new_order_def
  insert_payment_order_def new_order_def start_session_def start_session_with_urls_def
  create_checkout_session_def usable_session_def session_params_def

lemma ex_env_checkout:
  "en_ulid ex_env 0 = ''o1''"
  "api_create_checkout_session (en_stripe ex_env) params key p = (Inr
     \<lparr>cs_id = ''cs1'', cs_url = Some ''url'', cs_status = Some ''open'', cs_payment_status = Some ''unpaid'',
      cs_payment_intent = None, cs_amount_total = Some (csp_amount_cents params),
      cs_currency = Some ''usd'', cs_livemode = True, cs_client_reference_id = Some (csp_user_id params),
      cs_metadata_order_id = Some (csp_order_id params), cs_expires_at = None,
      cs_billing_country = None\<rparr>, p)"
  by (simp_all add: ex_env_def)

lemma ex_one_call: "length ex_calls = 1"
  unfolding ex_calls_def
  by (simp add: run_defs checkout_defs ex_open_world_def ex_sale_world_def ex_defs ex_env_checkout)

theorem checkout_charges_catalog_price_witness:
  "\<exists>current sk. quote current T99 = Inr sk \<and> catalog_call ''u'' sk (fst (ex_calls ! 0))"
proof -
  have "ex_calls ! 0 \<in> set ex_calls" using ex_one_call by (intro nth_mem) simp
  then have mem: "(fst (ex_calls ! 0), snd (ex_calls ! 0)) \<in> set ex_calls" by simp
  show ?thesis
    by (rule checkout_charges_catalog_price [of ex_open_world _ _ ex_env ex_settings "''u''" T99 Web 5,
          folded ex_calls_def, OF _ _ mem])
      (simp_all add: ex_open_world_def ex_sale_world_def ex_world_def)
qed

end
