(* ===== verification/Permission_Values.thy ===== *)
theory Permission_Values
  imports Sloga_Prelude
begin

unbundle bit_operations_syntax

text \<open>
  Permission bit sets and overrides (\<open>crates/core/permissions/src/models\<close>): the
  permissions with their bit values and names, the default sets, the operations of
  \<open>PermissionValue\<close>, the checks that throw, and the conversion between the override of
  the API (two \<open>u64\<close>) and the one of the database (two \<open>i64\<close>).
\<close>

type_synonym u64 = "64 word"

section \<open>Data\<close>

datatype channel_type = SavedMessages_T | DirectMessage_T | Group_T | ServerChannel_T | Unknown_T

datatype channel_permission =
    ManageChannel | ManageServer | ManagePermissions | ManageRole | ManageCustomisation
  | KickMembers | BanMembers | TimeoutMembers | AssignRoles | ChangeNickname | ManageNicknames
  | ChangeAvatar | RemoveAvatars | ViewAuditLog
  | ViewChannel | ReadMessageHistory | SendMessage | ManageMessages | ManageWebhooks
  | InviteOthers | SendEmbeds | UploadFiles | Masquerade | React | BypassSlowmode
  | Connect | Speak | Video | MuteMembers | DeafenMembers | MoveMembers | Listen
  | UseSoundboard | UseRemoteControl | RecordCall | UseWatchTogether
  | MentionEveryone | MentionRoles
  | GrantAllSafe | GrantAll

text \<open>The discriminants, \<open>permission as u64\<close>; a flag is \<open>1 << n\<close>.\<close>

fun channel_bits :: "channel_permission \<Rightarrow> u64" where
  "channel_bits ManageChannel = push_bit 0 1"
| "channel_bits ManageServer = push_bit 1 1"
| "channel_bits ManagePermissions = push_bit 2 1"
| "channel_bits ManageRole = push_bit 3 1"
| "channel_bits ManageCustomisation = push_bit 4 1"
| "channel_bits KickMembers = push_bit 6 1"
| "channel_bits BanMembers = push_bit 7 1"
| "channel_bits TimeoutMembers = push_bit 8 1"
| "channel_bits AssignRoles = push_bit 9 1"
| "channel_bits ChangeNickname = push_bit 10 1"
| "channel_bits ManageNicknames = push_bit 11 1"
| "channel_bits ChangeAvatar = push_bit 12 1"
| "channel_bits RemoveAvatars = push_bit 13 1"
| "channel_bits ViewAuditLog = push_bit 14 1"
| "channel_bits ViewChannel = push_bit 20 1"
| "channel_bits ReadMessageHistory = push_bit 21 1"
| "channel_bits SendMessage = push_bit 22 1"
| "channel_bits ManageMessages = push_bit 23 1"
| "channel_bits ManageWebhooks = push_bit 24 1"
| "channel_bits InviteOthers = push_bit 25 1"
| "channel_bits SendEmbeds = push_bit 26 1"
| "channel_bits UploadFiles = push_bit 27 1"
| "channel_bits Masquerade = push_bit 28 1"
| "channel_bits React = push_bit 29 1"
| "channel_bits BypassSlowmode = push_bit 39 1"
| "channel_bits Connect = push_bit 30 1"
| "channel_bits Speak = push_bit 31 1"
| "channel_bits Video = push_bit 32 1"
| "channel_bits MuteMembers = push_bit 33 1"
| "channel_bits DeafenMembers = push_bit 34 1"
| "channel_bits MoveMembers = push_bit 35 1"
| "channel_bits Listen = push_bit 36 1"
| "channel_bits UseSoundboard = push_bit 40 1"
| "channel_bits UseRemoteControl = push_bit 41 1"
| "channel_bits RecordCall = push_bit 42 1"
| "channel_bits UseWatchTogether = push_bit 43 1"
| "channel_bits MentionEveryone = push_bit 37 1"
| "channel_bits MentionRoles = push_bit 38 1"
| "channel_bits GrantAllSafe = 0x000FFFFFFFFFFFFF"
| "channel_bits GrantAll = - 1"

text \<open>\<open>Display\<close> forwards to the derived \<open>Debug\<close>, which prints the variant's name.\<close>

fun channel_name :: "channel_permission \<Rightarrow> string" where
  "channel_name ManageChannel = ''ManageChannel''"
| "channel_name ManageServer = ''ManageServer''"
| "channel_name ManagePermissions = ''ManagePermissions''"
| "channel_name ManageRole = ''ManageRole''"
| "channel_name ManageCustomisation = ''ManageCustomisation''"
| "channel_name KickMembers = ''KickMembers''"
| "channel_name BanMembers = ''BanMembers''"
| "channel_name TimeoutMembers = ''TimeoutMembers''"
| "channel_name AssignRoles = ''AssignRoles''"
| "channel_name ChangeNickname = ''ChangeNickname''"
| "channel_name ManageNicknames = ''ManageNicknames''"
| "channel_name ChangeAvatar = ''ChangeAvatar''"
| "channel_name RemoveAvatars = ''RemoveAvatars''"
| "channel_name ViewAuditLog = ''ViewAuditLog''"
| "channel_name ViewChannel = ''ViewChannel''"
| "channel_name ReadMessageHistory = ''ReadMessageHistory''"
| "channel_name SendMessage = ''SendMessage''"
| "channel_name ManageMessages = ''ManageMessages''"
| "channel_name ManageWebhooks = ''ManageWebhooks''"
| "channel_name InviteOthers = ''InviteOthers''"
| "channel_name SendEmbeds = ''SendEmbeds''"
| "channel_name UploadFiles = ''UploadFiles''"
| "channel_name Masquerade = ''Masquerade''"
| "channel_name React = ''React''"
| "channel_name BypassSlowmode = ''BypassSlowmode''"
| "channel_name Connect = ''Connect''"
| "channel_name Speak = ''Speak''"
| "channel_name Video = ''Video''"
| "channel_name MuteMembers = ''MuteMembers''"
| "channel_name DeafenMembers = ''DeafenMembers''"
| "channel_name MoveMembers = ''MoveMembers''"
| "channel_name Listen = ''Listen''"
| "channel_name UseSoundboard = ''UseSoundboard''"
| "channel_name UseRemoteControl = ''UseRemoteControl''"
| "channel_name RecordCall = ''RecordCall''"
| "channel_name UseWatchTogether = ''UseWatchTogether''"
| "channel_name MentionEveryone = ''MentionEveryone''"
| "channel_name MentionRoles = ''MentionRoles''"
| "channel_name GrantAllSafe = ''GrantAllSafe''"
| "channel_name GrantAll = ''GrantAll''"

text \<open>\<open>a + b\<close> on two permissions is overloaded to the union of their bits.\<close>

definition plus_permissions :: "channel_permission list \<Rightarrow> u64" where
  "plus_permissions ps = foldr (\<lambda>p acc. channel_bits p OR acc) ps 0"

datatype relationship_status =
    Rel_None | Rel_User | Rel_Friend | Rel_Outgoing | Rel_Incoming | Rel_Blocked | Rel_BlockedOther

datatype user_permission = User_Access | User_ViewProfile | User_SendMessage | User_Invite

fun user_bits :: "user_permission \<Rightarrow> u64" where
  "user_bits User_Access = push_bit 0 1"
| "user_bits User_ViewProfile = push_bit 1 1"
| "user_bits User_SendMessage = push_bit 2 1"
| "user_bits User_Invite = push_bit 3 1"

fun user_permission_name :: "user_permission \<Rightarrow> string" where
  "user_permission_name User_Access = ''Access''"
| "user_permission_name User_ViewProfile = ''ViewProfile''"
| "user_permission_name User_SendMessage = ''SendMessage''"
| "user_permission_name User_Invite = ''Invite''"

section \<open>Default sets\<close>

definition ALLOW_IN_TIMEOUT :: u64 where
  "ALLOW_IN_TIMEOUT = plus_permissions [ViewChannel, ReadMessageHistory]"

definition DEFAULT_PERMISSION_VIEW_ONLY :: u64 where
  "DEFAULT_PERMISSION_VIEW_ONLY = plus_permissions [ViewChannel, ReadMessageHistory]"

definition DEFAULT_PERMISSION :: u64 where
  "DEFAULT_PERMISSION = DEFAULT_PERMISSION_VIEW_ONLY
     + plus_permissions [SendMessage, InviteOthers, SendEmbeds, UploadFiles, Connect, Speak,
         Listen, Video, UseSoundboard, UseWatchTogether]"

definition DEFAULT_PERMISSION_SAVED_MESSAGES :: u64 where
  "DEFAULT_PERMISSION_SAVED_MESSAGES = channel_bits GrantAllSafe"

definition DEFAULT_PERMISSION_DIRECT_MESSAGE :: u64 where
  "DEFAULT_PERMISSION_DIRECT_MESSAGE
     = DEFAULT_PERMISSION + plus_permissions [ManageChannel, React, Masquerade]"

definition DEFAULT_PERMISSION_SERVER :: u64 where
  "DEFAULT_PERMISSION_SERVER
     = DEFAULT_PERMISSION + plus_permissions [React, ChangeNickname, ChangeAvatar]"

definition DEFAULT_WEBHOOK_PERMISSIONS :: u64 where
  "DEFAULT_WEBHOOK_PERMISSIONS = plus_permissions [SendMessage, SendEmbeds, Masquerade, React]"

section \<open>Overrides\<close>

record override =
  allow :: u64
  deny :: u64

record override_field =
  of_a :: int
  of_d :: int

definition default_override :: override where
  "default_override = \<lparr>allow = 0, deny = 0\<rparr>"

definition default_override_field :: override_field where
  "default_override_field = \<lparr>of_a = 0, of_d = 0\<rparr>"

text \<open>\<open>v as i64\<close> and \<open>v as u64\<close> keep the bits and change how they are read.\<close>

definition u64_as_i64 :: "u64 \<Rightarrow> int" where
  "u64_as_i64 v = sint v"

definition i64_as_u64 :: "int \<Rightarrow> u64" where
  "i64_as_u64 v = word_of_int v"

definition field_of_override :: "override \<Rightarrow> override_field" where
  "field_of_override v = \<lparr>of_a = u64_as_i64 (allow v), of_d = u64_as_i64 (deny v)\<rparr>"

definition override_of_field :: "override_field \<Rightarrow> override" where
  "override_of_field v = \<lparr>allow = i64_as_u64 (of_a v), deny = i64_as_u64 (of_d v)\<rparr>"

section \<open>Permission values\<close>

definition pv_allow :: "u64 \<Rightarrow> u64 \<Rightarrow> u64" where
  "pv_allow p v = p OR v"

definition pv_revoke :: "u64 \<Rightarrow> u64 \<Rightarrow> u64" where
  "pv_revoke p v = p AND NOT v"

definition pv_apply :: "u64 \<Rightarrow> override \<Rightarrow> u64" where
  "pv_apply p v = pv_revoke (pv_allow p (allow v)) (deny v)"

definition pv_revoke_all :: "u64 \<Rightarrow> u64" where
  "pv_revoke_all p = 0"

definition pv_restrict :: "u64 \<Rightarrow> u64 \<Rightarrow> u64" where
  "pv_restrict p v = p AND v"

definition pv_has :: "u64 \<Rightarrow> u64 \<Rightarrow> bool" where
  "pv_has p v \<longleftrightarrow> p AND v = v"

definition has_user_permission :: "u64 \<Rightarrow> user_permission \<Rightarrow> bool" where
  "has_user_permission p up = pv_has p (user_bits up)"

definition has_channel_permission :: "u64 \<Rightarrow> channel_permission \<Rightarrow> bool" where
  "has_channel_permission p cp = pv_has p (channel_bits cp)"

definition throw_if_lacking_user_permission :: "u64 \<Rightarrow> user_permission \<Rightarrow> error + unit" where
  "throw_if_lacking_user_permission p up =
     (if has_user_permission p up then Inr () else Inl (MissingPermission (user_permission_name up)))"

definition throw_if_lacking_channel_permission :: "u64 \<Rightarrow> channel_permission \<Rightarrow> error + unit" where
  "throw_if_lacking_channel_permission p cp =
     (if has_channel_permission p cp then Inr () else Inl (MissingPermission (channel_name cp)))"

definition throw_permission_override :: "u64 \<Rightarrow> override option \<Rightarrow> override \<Rightarrow> error + unit" where
  "throw_permission_override p current_value next_value =
     (case current_value of
        Some current \<Rightarrow>
          if \<not> pv_has p (NOT (allow current) AND allow next_value)
             \<or> \<not> pv_has p (deny current AND NOT (deny next_value))
          then Inl CannotGiveMissingPermissions
          else Inr ()
      | None \<Rightarrow>
          if \<not> pv_has p (allow next_value) then Inl CannotGiveMissingPermissions else Inr ())"

section \<open>Bits\<close>

text \<open>A value is best reasoned about bit by bit.\<close>

lemma pv_has_bits: "pv_has p v \<longleftrightarrow> (\<forall>n. bit v n \<longrightarrow> bit p n)"
proof
  assume "pv_has p v"
  then have "p AND v = v" by (simp add: pv_has_def)
  then show "\<forall>n. bit v n \<longrightarrow> bit p n" by (metis bit_and_iff)
next
  assume "\<forall>n. bit v n \<longrightarrow> bit p n"
  then show "pv_has p v" unfolding pv_has_def by (intro bit_word_eqI) (auto simp: bit_and_iff)
qed

lemma bit_pv_apply [simp]:
  "bit (pv_apply p v) n \<longleftrightarrow> (bit p n \<or> bit (allow v) n) \<and> \<not> bit (deny v) n"
  by (auto simp: pv_apply_def pv_allow_def pv_revoke_def bit_and_iff bit_or_iff bit_not_iff
      dest: bit_imp_le_length)

lemma bit_pv_revoke [simp]: "bit (pv_revoke p v) n \<longleftrightarrow> bit p n \<and> \<not> bit v n"
  by (auto simp: pv_revoke_def bit_and_iff bit_not_iff dest: bit_imp_le_length)

lemma bit_pv_restrict [simp]: "bit (pv_restrict p v) n \<longleftrightarrow> bit p n \<and> bit v n"
  by (simp add: pv_restrict_def bit_and_iff)

lemma bit_pv_allow [simp]: "bit (pv_allow p v) n \<longleftrightarrow> bit p n \<or> bit v n"
  by (simp add: pv_allow_def bit_or_iff)

lemma pv_has_0 [simp]: "pv_has 0 v \<longleftrightarrow> v = 0"
  by (auto simp: pv_has_def)

lemma pv_has_flag: "n < 64 \<Longrightarrow> pv_has p (push_bit n 1) \<longleftrightarrow> bit p n"
  by (auto simp: pv_has_bits bit_exp_iff)

definition view_bit :: nat where "view_bit = 20"

lemma has_ViewChannel [simp]: "has_channel_permission p ViewChannel \<longleftrightarrow> bit p view_bit"
  by (simp add: has_channel_permission_def pv_has_flag view_bit_def del: push_bit_of_1)

lemma override_roundtrip: "override_of_field (field_of_override v) = v"
  by (simp add: override_of_field_def field_of_override_def u64_as_i64_def i64_as_u64_def)

lemma field_roundtrip:
  "is_i64 (of_a v) \<Longrightarrow> is_i64 (of_d v) \<Longrightarrow> field_of_override (override_of_field v) = v"
  by (simp add: override_of_field_def field_of_override_def u64_as_i64_def i64_as_u64_def
      signed_of_int i64_defs signed_take_bit_int_eq_self)

lemma foldl_apply_bit:
  "bit (foldl pv_apply p vs) n \<longleftrightarrow>
     (case List.find (\<lambda>v. bit (allow v) n \<or> bit (deny v) n) (rev vs) of
        None \<Rightarrow> bit p n
      | Some v \<Rightarrow> \<not> bit (deny v) n)"
  by (induction vs arbitrary: p rule: rev_induct) (auto split: option.splits)

declare channel_bits.simps [simp del]

end
