(* ===== verification/Permission_Calc.thy ===== *)
theory Permission_Calc
  imports Permission_Values
begin

text \<open>
  The permission calculation (\<open>crates/core/permissions/src/impl.rs\<close>) over any
  implementation of the trait \<open>PermissionQuery\<close> (\<open>trait.rs\<close>).

  The trait is a record of effectful operations on the query's own state; the three
  calculations are written against that record, as the Rust code is written against the
  trait. The locale \<open>permission_query\<close> states what the code relies on: there is a view of
  the query's state that answers each question, questions do not change it, and the two
  setters replace the selected user and the selected server. Inside the locale the
  calculations are shown to equal pure functions of the view, and the guarantees on their
  results are proved once for every implementation.
\<close>

unbundle bit_operations_syntax

section \<open>The trait\<close>

record 'q permission_query_ops =
  are_we_privileged :: "('q, bool) eff"
  are_the_users_same :: "('q, bool) eff"
  user_relationship :: "('q, relationship_status) eff"
  have_mutual_connection :: "('q, bool) eff"
  are_we_server_owner :: "('q, bool) eff"
  are_we_a_member :: "('q, bool) eff"
  get_default_server_permissions :: "('q, u64) eff"
  get_our_server_role_overrides :: "('q, override list) eff"
  are_we_timed_out :: "('q, bool) eff"
  do_we_have_publish_overwrites :: "('q, bool) eff"
  do_we_have_receive_overwrites :: "('q, bool) eff"
  get_channel_type :: "('q, channel_type) eff"
  get_default_channel_permissions :: "('q, override) eff"
  get_our_channel_role_overrides :: "('q, override list) eff"
  do_we_own_the_channel :: "('q, bool) eff"
  are_we_part_of_the_channel :: "('q, bool) eff"
  set_recipient_as_user :: "('q, unit) eff"
  set_server_from_channel :: "('q, unit) eff"

section \<open>The calculations\<close>

definition calculate_user_permissions :: "'q permission_query_ops \<Rightarrow> ('q, u64) eff" where
  "calculate_user_permissions Q =
     bindE (are_we_privileged Q) (\<lambda>privileged.
     if privileged then okE (- 1) else
     bindE (are_the_users_same Q) (\<lambda>same.
     if same then okE (- 1) else
     bindE (user_relationship Q) (\<lambda>rel.
     if rel = Rel_Friend then okE (- 1)
     else if rel = Rel_Blocked \<or> rel = Rel_BlockedOther then okE (user_bits User_Access)
     else
       let permissions =
             (if rel = Rel_Incoming \<or> rel = Rel_Outgoing then user_bits User_Access else 0)
       in bindE (have_mutual_connection Q) (\<lambda>mutual.
          if mutual
          then okE (user_bits User_Access + user_bits User_ViewProfile + user_bits User_SendMessage)
          else okE permissions))))"

definition calculate_server_permissions :: "'q permission_query_ops \<Rightarrow> ('q, u64) eff" where
  "calculate_server_permissions Q =
     bindE (are_we_privileged Q) (\<lambda>privileged.
     bindE (if privileged then okE True else are_we_server_owner Q) (\<lambda>all.
     if all then okE (channel_bits GrantAllSafe) else
     bindE (are_we_a_member Q) (\<lambda>member.
     if \<not> member then okE 0 else
     bindE (get_default_server_permissions Q) (\<lambda>p0.
     bindE (get_our_server_role_overrides Q) (\<lambda>overrides.
     let p1 = foldl pv_apply p0 overrides in
     bindE (do_we_have_publish_overwrites Q) (\<lambda>publish.
     let p2 = (if \<not> publish
               then pv_revoke (pv_revoke p1 (channel_bits Speak)) (channel_bits Video)
               else p1) in
     bindE (do_we_have_receive_overwrites Q) (\<lambda>receive.
     let p3 = (if \<not> receive then pv_revoke p2 (channel_bits Listen) else p2) in
     bindE (are_we_timed_out Q) (\<lambda>timed_out.
     okE (if timed_out then pv_restrict p3 ALLOW_IN_TIMEOUT else p3)))))))))"

text \<open>The arm of \<open>calculate_channel_permissions\<close> for channels of a server.\<close>

definition calculate_server_channel :: "'q permission_query_ops \<Rightarrow> ('q, u64) eff" where
  "calculate_server_channel Q =
     thenE (set_server_from_channel Q)
     (bindE (are_we_server_owner Q) (\<lambda>owner.
      if owner then okE (channel_bits GrantAllSafe) else
      bindE (are_we_a_member Q) (\<lambda>member.
      if \<not> member then okE 0 else
      bindE (calculate_server_permissions Q) (\<lambda>p0.
      bindE (get_default_channel_permissions Q) (\<lambda>default.
      bindE (get_our_channel_role_overrides Q) (\<lambda>overrides.
      let p2 = foldl pv_apply (pv_apply p0 default) overrides in
      bindE (are_we_timed_out Q) (\<lambda>timed_out.
      let p3 = (if timed_out then pv_restrict p2 ALLOW_IN_TIMEOUT else p2) in
      okE (if \<not> has_channel_permission p3 ViewChannel then pv_revoke_all p3 else p3))))))))"

definition calculate_channel_permissions :: "'q permission_query_ops \<Rightarrow> ('q, u64) eff" where
  "calculate_channel_permissions Q =
     bindE (are_we_privileged Q) (\<lambda>privileged.
     if privileged then okE (channel_bits GrantAllSafe) else
     bindE (get_channel_type Q) (\<lambda>ct.
     case ct of
       SavedMessages_T \<Rightarrow>
         bindE (do_we_own_the_channel Q) (\<lambda>own.
         okE (if own then DEFAULT_PERMISSION_SAVED_MESSAGES else 0))
     | DirectMessage_T \<Rightarrow>
         bindE (are_we_part_of_the_channel Q) (\<lambda>part.
         if part then
           thenE (set_recipient_as_user Q)
           (bindE (calculate_user_permissions Q) (\<lambda>permissions.
            okE (if has_user_permission permissions User_SendMessage
                 then DEFAULT_PERMISSION_DIRECT_MESSAGE
                 else DEFAULT_PERMISSION_VIEW_ONLY)))
         else okE 0)
     | Group_T \<Rightarrow>
         bindE (do_we_own_the_channel Q) (\<lambda>own.
         if own then okE (channel_bits GrantAllSafe) else
         bindE (are_we_part_of_the_channel Q) (\<lambda>part.
         if part then
           bindE (get_default_channel_permissions Q) (\<lambda>d.
           okE (DEFAULT_PERMISSION_VIEW_ONLY OR allow d))
         else okE 0))
     | ServerChannel_T \<Rightarrow> calculate_server_channel Q
     | Unknown_T \<Rightarrow> okE 0))"

section \<open>What the calculations compute\<close>

text \<open>The answers a query gives, as a value.\<close>

record answers =
  a_privileged :: bool
  a_same :: bool
  a_relationship :: relationship_status
  a_mutual :: bool
  a_server_owner :: bool
  a_member :: bool
  a_default_server :: u64
  a_server_overrides :: "override list"
  a_timed_out :: bool
  a_publish :: bool
  a_receive :: bool
  a_channel_type :: channel_type
  a_default_channel :: override
  a_channel_overrides :: "override list"
  a_own_channel :: bool
  a_part :: bool

definition user_value :: "answers \<Rightarrow> u64" where
  "user_value a =
     (if a_privileged a \<or> a_same a \<or> a_relationship a = Rel_Friend then - 1
      else if a_relationship a \<in> {Rel_Blocked, Rel_BlockedOther} then user_bits User_Access
      else if a_mutual a
        then user_bits User_Access + user_bits User_ViewProfile + user_bits User_SendMessage
      else if a_relationship a \<in> {Rel_Incoming, Rel_Outgoing} then user_bits User_Access
      else 0)"

text \<open>What voice moderation takes away: the publish and the receive bits.\<close>

definition voice_denied :: "answers \<Rightarrow> u64" where
  "voice_denied a =
     (if a_publish a then 0 else channel_bits Speak OR channel_bits Video)
     OR (if a_receive a then 0 else channel_bits Listen)"

definition timeout_mask :: "answers \<Rightarrow> u64" where
  "timeout_mask a = (if a_timed_out a then ALLOW_IN_TIMEOUT else - 1)"

definition server_value :: "answers \<Rightarrow> u64" where
  "server_value a =
     (if a_privileged a \<or> a_server_owner a then channel_bits GrantAllSafe
      else if a_member a
      then pv_revoke (foldl pv_apply (a_default_server a) (a_server_overrides a)) (voice_denied a)
           AND timeout_mask a
      else 0)"

definition server_channel_value :: "answers \<Rightarrow> u64" where
  "server_channel_value a =
     (if a_server_owner a then channel_bits GrantAllSafe
      else if a_member a then
        (let p = foldl pv_apply (pv_apply (server_value a) (a_default_channel a))
                   (a_channel_overrides a) AND timeout_mask a
         in if bit p view_bit then p else 0)
      else 0)"

text \<open>The value for any channel, from the view of the query, the view once the other
  recipient of a direct message is selected, and the view once the channel's server is.\<close>

definition channel_value :: "answers \<Rightarrow> answers \<Rightarrow> answers \<Rightarrow> u64" where
  "channel_value a dm srv =
     (if a_privileged a then channel_bits GrantAllSafe
      else case a_channel_type a of
        SavedMessages_T \<Rightarrow> if a_own_channel a then DEFAULT_PERMISSION_SAVED_MESSAGES else 0
      | DirectMessage_T \<Rightarrow>
          if a_part a
          then (if has_user_permission (user_value dm) User_SendMessage
                then DEFAULT_PERMISSION_DIRECT_MESSAGE else DEFAULT_PERMISSION_VIEW_ONLY)
          else 0
      | Group_T \<Rightarrow>
          if a_own_channel a then channel_bits GrantAllSafe
          else if a_part a then DEFAULT_PERMISSION_VIEW_ONLY OR allow (a_default_channel a)
          else 0
      | ServerChannel_T \<Rightarrow> server_channel_value srv
      | Unknown_T \<Rightarrow> 0)"

lemma server_value_chain:
  "(if (if a_privileged a then True else a_server_owner a) then channel_bits GrantAllSafe
    else if \<not> a_member a then 0
    else let p1 = foldl pv_apply (a_default_server a) (a_server_overrides a);
             p2 = (if \<not> a_publish a
                   then pv_revoke (pv_revoke p1 (channel_bits Speak)) (channel_bits Video) else p1);
             p3 = (if \<not> a_receive a then pv_revoke p2 (channel_bits Listen) else p2)
         in if a_timed_out a then pv_restrict p3 ALLOW_IN_TIMEOUT else p3) = server_value a"
  unfolding Let_def server_value_def voice_denied_def timeout_mask_def
  by (auto simp: pv_revoke_def pv_restrict_def and.assoc)

lemma server_channel_chain:
  "(if a_server_owner a then channel_bits GrantAllSafe
    else if \<not> a_member a then 0
    else let p2 = foldl pv_apply (pv_apply (server_value a) (a_default_channel a))
                    (a_channel_overrides a);
             p3 = (if a_timed_out a then pv_restrict p2 ALLOW_IN_TIMEOUT else p2)
         in if \<not> has_channel_permission p3 ViewChannel then pv_revoke_all p3 else p3)
   = server_channel_value a"
  by (simp add: server_channel_value_def timeout_mask_def pv_restrict_def pv_revoke_all_def Let_def)

section \<open>The contract of a query\<close>

text \<open>\<open>asks I view op f J\<close>: from a state in \<open>I\<close>, \<open>op\<close> answers \<open>f\<close> of the view, does not
  change the view, and leaves a state in \<open>J\<close>.\<close>

definition asks :: "('q \<Rightarrow> bool) \<Rightarrow> ('q \<Rightarrow> 'v) \<Rightarrow> ('q, 'a) eff \<Rightarrow> ('v \<Rightarrow> 'a)
    \<Rightarrow> ('q \<Rightarrow> bool) \<Rightarrow> bool" where
  "asks I view op f J \<longleftrightarrow>
     (\<forall>q. I q \<longrightarrow> (\<exists>q'. op q = (Inr (f (view q)), q') \<and> view q' = view q \<and> J q'))"

named_theorems asks_intros \<open>composition of questions\<close>

lemma asksI:
  "(\<And>q. I q \<Longrightarrow> \<exists>q'. op q = (Inr (f (view q)), q') \<and> view q' = view q \<and> J q') \<Longrightarrow> asks I view op f J"
  by (simp add: asks_def)

lemma asksE:
  assumes "asks I view op f J" "I q"
  obtains q' where "op q = (Inr (f (view q)), q')" "view q' = view q" "J q'"
  using assms by (auto simp: asks_def)

lemma asks_okE [asks_intros]: "(\<And>q. I q \<Longrightarrow> J q) \<Longrightarrow> asks I view (okE c) (\<lambda>_. c) J"
  by (simp add: asks_def eff_simps)

lemma asks_bindE [asks_intros]:
  assumes "asks I view op f J" and "\<And>x. asks J view (k x) (g x) K"
  shows "asks I view (bindE op k) (\<lambda>v. g (f v) v) K"
proof (rule asksI)
  fix q assume "I q"
  with assms(1) obtain q' where "op q = (Inr (f (view q)), q')" "view q' = view q" "J q'"
    by (rule asksE)
  moreover obtain q'' where "k (f (view q)) q' = (Inr (g (f (view q)) (view q')), q'')"
      "view q'' = view q'" "K q''"
    using assms(2) \<open>J q'\<close> by (rule asksE)
  ultimately show "\<exists>q'. bindE op k q = (Inr (g (f (view q)) (view q)), q') \<and> view q' = view q \<and> K q'"
    by (simp add: eff_simps)
qed

lemma asks_if [asks_intros]:
  "\<lbrakk>asks I view m g J; asks I view k h J\<rbrakk>
   \<Longrightarrow> asks I view (if b then m else k) (\<lambda>v. if b then g v else h v) J"
  by simp

lemma asks_weaken: "asks I view op f J \<Longrightarrow> (\<And>q. J q \<Longrightarrow> K q) \<Longrightarrow> asks I view op f K"
  unfolding asks_def by blast

lemma asks_cong: "asks I view op f J \<Longrightarrow> f = g \<Longrightarrow> asks I view op g J"
  by simp

text \<open>The three views of a query: as it stands, with the other recipient of its direct
  message selected, and with the server of its channel selected.\<close>

record views =
  now_view :: answers
  dm_view :: answers
  srv_view :: answers

text \<open>
  \<open>fresh\<close> is where a query starts; \<open>settled\<close> is where the membership question has been
  asked, after which the questions about the member (roles, timeout, voice) may be.
\<close>

locale permission_query =
  fixes Q :: "'q permission_query_ops"
    and view :: "'q \<Rightarrow> views"
    and fresh :: "'q \<Rightarrow> bool"
    and settled :: "'q \<Rightarrow> bool"
  assumes settled_fresh: "settled q \<Longrightarrow> fresh q"
    and privileged_law: "asks fresh view (are_we_privileged Q) (a_privileged \<circ> now_view) fresh"
    and privileged_settled_law:
      "asks settled (\<lambda>q. now_view (view q)) (are_we_privileged Q) a_privileged settled"
    and same_law: "asks fresh (\<lambda>q. now_view (view q)) (are_the_users_same Q) a_same fresh"
    and relationship_law: "asks fresh (\<lambda>q. now_view (view q)) (user_relationship Q) a_relationship fresh"
    and mutual_law: "asks fresh (\<lambda>q. now_view (view q)) (have_mutual_connection Q) a_mutual fresh"
    and owner_law: "asks fresh (\<lambda>q. now_view (view q)) (are_we_server_owner Q) a_server_owner fresh"
    and owner_settled_law:
      "asks settled (\<lambda>q. now_view (view q)) (are_we_server_owner Q) a_server_owner settled"
    and member_law: "asks fresh (\<lambda>q. now_view (view q)) (are_we_a_member Q) a_member settled"
    and default_server_law:
      "asks settled (\<lambda>q. now_view (view q)) (get_default_server_permissions Q) a_default_server settled"
    and server_overrides_law:
      "asks settled (\<lambda>q. now_view (view q)) (get_our_server_role_overrides Q) a_server_overrides settled"
    and publish_law:
      "asks settled (\<lambda>q. now_view (view q)) (do_we_have_publish_overwrites Q) a_publish settled"
    and receive_law:
      "asks settled (\<lambda>q. now_view (view q)) (do_we_have_receive_overwrites Q) a_receive settled"
    and timed_out_law:
      "asks settled (\<lambda>q. now_view (view q)) (are_we_timed_out Q) a_timed_out settled"
    and channel_type_law:
      "asks fresh view (get_channel_type Q) (a_channel_type \<circ> now_view) fresh"
    and default_channel_law:
      "asks fresh (\<lambda>q. now_view (view q)) (get_default_channel_permissions Q) a_default_channel fresh"
    and default_channel_settled_law:
      "asks settled (\<lambda>q. now_view (view q)) (get_default_channel_permissions Q) a_default_channel settled"
    and channel_overrides_law:
      "asks settled (\<lambda>q. now_view (view q)) (get_our_channel_role_overrides Q) a_channel_overrides settled"
    and own_channel_law:
      "asks fresh view (do_we_own_the_channel Q) (a_own_channel \<circ> now_view) fresh"
    and part_law: "asks fresh view (are_we_part_of_the_channel Q) (a_part \<circ> now_view) fresh"
    and set_recipient_law:
      "\<lbrakk>fresh q; a_channel_type (now_view (view q)) = DirectMessage_T; a_part (now_view (view q))\<rbrakk>
       \<Longrightarrow> \<exists>q'. set_recipient_as_user Q q = (Inr (), q') \<and> now_view (view q') = dm_view (view q)
                \<and> fresh q'"
    and set_server_law:
      "\<lbrakk>fresh q; a_channel_type (now_view (view q)) = ServerChannel_T\<rbrakk>
       \<Longrightarrow> \<exists>q'. set_server_from_channel Q q = (Inr (), q') \<and> now_view (view q') = srv_view (view q)
                \<and> fresh q'"
begin

abbreviation now :: "'q \<Rightarrow> answers" where
  "now q \<equiv> now_view (view q)"

lemma asks_now: "asks I view op (f \<circ> now_view) J \<Longrightarrow> asks I now op f J"
  by (auto simp: asks_def)

lemma user_calc:
  "asks fresh now (calculate_user_permissions Q) user_value fresh"
  unfolding calculate_user_permissions_def Let_def
  by (rule asks_cong, 
      (assumption | rule asks_intros asks_now [OF privileged_law] same_law relationship_law mutual_law)+)
    (auto simp: user_value_def fun_eq_iff)

lemma server_calc_from:
  assumes "asks I now (are_we_privileged Q) a_privileged I"
    and "asks I now (are_we_server_owner Q) a_server_owner I"
    and "asks I now (are_we_a_member Q) a_member settled"
    and settled: "\<And>q. settled q \<Longrightarrow> I q"
  shows "asks I now (calculate_server_permissions Q) server_value I"
  unfolding calculate_server_permissions_def Let_def
  by (rule asks_cong,
      (assumption | erule settled | rule asks_intros assms(1-3) default_server_law
        server_overrides_law publish_law receive_law timed_out_law)+)
    (rule ext, simp only: comp_apply server_value_chain [unfolded Let_def])

lemmas server_calc = 
  server_calc_from [OF asks_now [OF privileged_law] owner_law member_law settled_fresh]

lemma member_settled_law: "asks settled now (are_we_a_member Q) a_member settled"
  using member_law settled_fresh unfolding asks_def by blast

lemma server_calc_settled:
  "asks settled now (calculate_server_permissions Q) server_value settled"
  by (rule server_calc_from [OF privileged_settled_law owner_settled_law member_settled_law])

text \<open>The membership question leaves \<open>settled\<close>, so the rest of the server arm may ask
  about the member.\<close>

lemma server_channel_tail:
  "asks fresh now
     (bindE (are_we_server_owner Q) (\<lambda>owner.
      if owner then okE (channel_bits GrantAllSafe) else
      bindE (are_we_a_member Q) (\<lambda>member.
      if \<not> member then okE 0 else
      bindE (calculate_server_permissions Q) (\<lambda>p0.
      bindE (get_default_channel_permissions Q) (\<lambda>default.
      bindE (get_our_channel_role_overrides Q) (\<lambda>overrides.
      let p2 = foldl pv_apply (pv_apply p0 default) overrides in
      bindE (are_we_timed_out Q) (\<lambda>timed_out.
      let p3 = (if timed_out then pv_restrict p2 ALLOW_IN_TIMEOUT else p2) in
      okE (if \<not> has_channel_permission p3 ViewChannel then pv_revoke_all p3 else p3))))))))
     server_channel_value fresh"
  unfolding Let_def
  by (rule asks_cong,
      (assumption | erule settled_fresh | rule asks_intros owner_law member_law server_calc_settled
        default_channel_settled_law channel_overrides_law timed_out_law)+)
    (rule ext, simp only: comp_apply server_channel_chain [unfolded Let_def])

lemma server_channel_calc:
  assumes "fresh q" "a_channel_type (now q) = ServerChannel_T"
  shows "\<exists>q'. calculate_server_channel Q q = (Inr (server_channel_value (srv_view (view q))), q')
           \<and> fresh q'"
proof -
  obtain q' where q': "set_server_from_channel Q q = (Inr (), q')"
      "now q' = srv_view (view q)" "fresh q'"
    using set_server_law [OF assms] by blast
  from server_channel_tail \<open>fresh q'\<close> show ?thesis
    by (rule asksE) (simp add: calculate_server_channel_def thenE_run q')
qed

lemma dm_calc:
  assumes "fresh q" "a_channel_type (now q) = DirectMessage_T" "a_part (now q)"
  shows "\<exists>q'. thenE (set_recipient_as_user Q) (calculate_user_permissions Q) q
                = (Inr (user_value (dm_view (view q))), q') \<and> fresh q'"
proof -
  obtain q' where q': "set_recipient_as_user Q q = (Inr (), q')"
      "now q' = dm_view (view q)" "fresh q'"
    using set_recipient_law [OF assms] by blast
  from user_calc \<open>fresh q'\<close> show ?thesis
    by (rule asksE) (simp add: thenE_run q')
qed

text \<open>The calculation always returns, and returns the value its views determine.\<close>

theorem channel_calc:
  assumes "fresh q"
  shows "\<exists>q'. calculate_channel_permissions Q q
           = (Inr (channel_value (now q) (dm_view (view q)) (srv_view (view q))), q')
           \<and> fresh q'"
proof -
  let ?a = "now q"
  from privileged_law assms obtain q1 where
    q1: "are_we_privileged Q q = (Inr (a_privileged ?a), q1)" "view q1 = view q" "fresh q1"
    by (rule asksE) simp
  from channel_type_law q1(3) obtain q2 where
    q2: "get_channel_type Q q1 = (Inr (a_channel_type ?a), q2)" "view q2 = view q" "fresh q2"
    by (rule asksE) (simp add: q1(2))
  from own_channel_law q2(3) obtain q3 where
    q3: "do_we_own_the_channel Q q2 = (Inr (a_own_channel ?a), q3)" "view q3 = view q" "fresh q3"
    by (rule asksE) (simp add: q2(2))
  from part_law q3(3) obtain q4 where
    q4: "are_we_part_of_the_channel Q q3 = (Inr (a_part ?a), q4)" "view q4 = view q" "fresh q4"
    by (rule asksE) (simp add: q3(2))
  from part_law q2(3) obtain q5 where
    q5: "are_we_part_of_the_channel Q q2 = (Inr (a_part ?a), q5)" "view q5 = view q" "fresh q5"
    by (rule asksE) (simp add: q2(2))
  from default_channel_law q4(3) obtain q6 where
    q6: "get_default_channel_permissions Q q4 = (Inr (a_default_channel ?a), q6)" "fresh q6"
    by (rule asksE) (simp add: q4(2))
  note run = calculate_channel_permissions_def bindE_run okE_run q1 q2 q3 q4 q5 q6 channel_value_def
  show ?thesis
  proof (cases "a_privileged ?a")
    case True then show ?thesis by (simp add: run)
  next
    case False
    show ?thesis
    proof (cases "a_channel_type ?a")
      case DirectMessage_T
      then show ?thesis using False dm_calc [OF q5(3)]
        by (auto simp: run thenE_run split: prod.splits sum.splits)
    next
      case ServerChannel_T
      then show ?thesis using False server_channel_calc [OF q2(3)] by (simp add: run)
    qed (use False in \<open>simp_all add: run\<close>)
  qed
qed

end

section \<open>Guarantees\<close>

lemma ALLOW_IN_TIMEOUT_view [simp]: "bit ALLOW_IN_TIMEOUT view_bit"
  by (simp add: ALLOW_IN_TIMEOUT_def plus_permissions_def view_bit_def bit_or_iff bit_exp_iff
      channel_bits.simps)

lemma GrantAllSafe_view [simp]: "bit (channel_bits GrantAllSafe) view_bit"
  by (simp add: view_bit_def channel_bits.simps)

lemma server_channel_view_or_nothing:
  "server_channel_value a = 0 \<or> bit (server_channel_value a) view_bit"
  unfolding server_channel_value_def Let_def using GrantAllSafe_view by simp

lemma server_channel_timeout:
  assumes "a_timed_out a" "\<not> a_server_owner a" "bit (server_channel_value a) n"
  shows "bit ALLOW_IN_TIMEOUT n"
  using assms by (auto simp: server_channel_value_def timeout_mask_def Let_def bit_and_iff split: if_splits)

text \<open>A bit of a member's value is decided by the last override that mentions it, and by
  the server's value when none does.\<close>

lemma server_channel_bit:
  assumes "\<not> a_server_owner a" "a_member a" "\<not> a_timed_out a" "bit (server_channel_value a) view_bit"
  shows "bit (server_channel_value a) n \<longleftrightarrow>
    (case List.find (\<lambda>v. bit (allow v) n \<or> bit (deny v) n)
            (rev (a_default_channel a # a_channel_overrides a)) of
       None \<Rightarrow> bit (server_value a) n
     | Some v \<Rightarrow> \<not> bit (deny v) n)"
proof -
  let ?ovs = "a_default_channel a # a_channel_overrides a"
  have "server_channel_value a = foldl pv_apply (server_value a) ?ovs"
    using assms by (auto simp: server_channel_value_def timeout_mask_def Let_def split: if_splits)
  then show ?thesis by (simp only: foldl_apply_bit)
qed

end
