(* ===== verification/Permission_Db.thy ===== *)
theory Permission_Db
  imports Permission_Calc
begin

text \<open>
  The permission query over the database (\<open>crates/core/database/src/util/permissions.rs\<close>),
  with the entities it reads and the lookups of the reference database it makes.

  Of each entity the fields the calculation reads are kept: names, icons and the like play
  no part in it. A hash map is an association list, whose order is the iteration order.
  The clock is an argument.
\<close>

unbundle bit_operations_syntax

section \<open>Entities\<close>

record relationship =
  rel_id :: string
  rel_status :: relationship_status

record puser =
  user_id :: string
  relations :: "relationship list option"
  privileged :: bool
  bot_owner :: "string option"

record role =
  role_permissions_of :: override_field
  rank :: int
  rl_id :: string
  rl_name :: string
  rl_colour :: "string option"
  rl_hoist :: bool
  rl_icon :: "string option"

record server =
  server_id :: string
  owner :: string
  roles :: "(string \<times> role) list"
  default_permissions :: int
  sv_channels :: "string list"

record member =
  member_server :: string
  member_user :: string
  member_roles :: "string list"
  timeout :: "int option"
  can_publish :: bool
  can_receive :: bool

datatype channel =
    SavedMessages (channel_id: string) (sm_user: string)
  | DirectMessage (channel_id: string) (recipients: "string list")
  | Group (channel_id: string) (group_owner: string) (recipients: "string list")
      (permissions: "int option")
  | TextChannel (channel_id: string) (channel_server: string)
      (channel_default: "override_field option") (channel_roles: "(string \<times> override_field) list")
  | Thread (channel_id: string) (channel_server: string) (parent_channel: string)
  | Forum (channel_id: string) (channel_server: string)
      (channel_default: "override_field option") (channel_roles: "(string \<times> override_field) list")

record pdb =
  db_users :: "(string \<times> puser) list"
  db_servers :: "(string \<times> server) list"
  db_members :: "((string \<times> string) \<times> member) list"
  db_channels :: "(string \<times> channel) list"

section \<open>Lookups of the reference database\<close>

definition fetch_of :: "'v option \<Rightarrow> error + 'v" where
  "fetch_of v = (case v of Some x \<Rightarrow> Inr x | None \<Rightarrow> Inl NotFound)"

definition fetch_user :: "pdb \<Rightarrow> string \<Rightarrow> error + puser" where
  "fetch_user db i = fetch_of (map_of (db_users db) i)"

definition fetch_users :: "pdb \<Rightarrow> string list \<Rightarrow> error + puser list" where
  "fetch_users db ids = Inr (List.map_filter (map_of (db_users db)) (rev (remdups (rev ids))))"

definition fetch_server :: "pdb \<Rightarrow> string \<Rightarrow> error + server" where
  "fetch_server db i = fetch_of (map_of (db_servers db) i)"

definition fetch_member :: "pdb \<Rightarrow> string \<Rightarrow> string \<Rightarrow> error + member" where
  "fetch_member db s u = fetch_of (map_of (db_members db) (s, u))"

definition fetch_members :: "pdb \<Rightarrow> string \<Rightarrow> string list \<Rightarrow> error + member list" where
  "fetch_members db s ids = Inr (List.map_filter (\<lambda>u. map_of (db_members db) (s, u)) ids)"

definition fetch_channel :: "pdb \<Rightarrow> string \<Rightarrow> error + channel" where
  "fetch_channel db i = fetch_of (map_of (db_channels db) i)"

definition shares_channel :: "string \<Rightarrow> string \<Rightarrow> channel \<Rightarrow> bool" where
  "shares_channel a b c =
     (case c of
        Group _ _ rs _ \<Rightarrow> a \<in> set rs \<and> b \<in> set rs
      | DirectMessage _ rs \<Rightarrow> a \<in> set rs \<and> b \<in> set rs
      | _ \<Rightarrow> False)"

definition fetch_mutual_channel_ids :: "pdb \<Rightarrow> string \<Rightarrow> string \<Rightarrow> error + string list" where
  "fetch_mutual_channel_ids db a b =
     Inr (sort (map channel_id (filter (shares_channel a b) (map snd (db_channels db)))))"

definition fetch_mutual_server_ids :: "pdb \<Rightarrow> string \<Rightarrow> string \<Rightarrow> error + string list" where
  "fetch_mutual_server_ids db a b =
     (let keys = map fst (db_members db);
          of_a = map fst (filter (\<lambda>k. snd k = a) keys)
      in Inr (sort (map fst (filter (\<lambda>k. snd k = b \<and> fst k \<in> set of_a) keys))))"

definition has_mutual_connection :: "pdb \<Rightarrow> puser \<Rightarrow> string \<Rightarrow> error + bool" where
  "has_mutual_connection db u user_b =
     (case fetch_mutual_server_ids db (user_id u) user_b of
        Inl e \<Rightarrow> Inl e
      | Inr servers \<Rightarrow>
          if servers \<noteq> [] then Inr True
          else (case fetch_mutual_channel_ids db (user_id u) user_b of
                  Inl e \<Rightarrow> Inl e
                | Inr channels \<Rightarrow> Inr (channels \<noteq> [])))"

definition permission_target :: "pdb \<Rightarrow> channel \<Rightarrow> error + channel" where
  "permission_target db c =
     (case c of
        Thread _ _ parent \<Rightarrow>
          (case fetch_channel db parent of
             Inl e \<Rightarrow> Inl e
           | Inr p \<Rightarrow>
               (case p of
                  TextChannel _ _ _ _ \<Rightarrow> Inr p
                | Forum _ _ _ _ \<Rightarrow> Inr p
                | _ \<Rightarrow> Inl NotFound))
      | _ \<Rightarrow> Inr c)"

section \<open>Members\<close>

definition in_timeout :: "int \<Rightarrow> member \<Rightarrow> bool" where
  "in_timeout now m = (case timeout m of Some t \<Rightarrow> t > now | None \<Rightarrow> False)"

definition get_ranking :: "member \<Rightarrow> server \<Rightarrow> int" where
  "get_ranking m s =
     (if member_user m = owner s then i64_min
      else foldl (\<lambda>value r.
             case map_of (roles s) r of
               Some role \<Rightarrow> if rank role < value then rank role else value
             | None \<Rightarrow> value) i64_max (member_roles m))"

text \<open>The overrides sorted by descending rank: the lowest role first, the highest last.
  \<open>sort_by\<close> is stable, as \<open>sort_key\<close> is.\<close>

definition by_rank :: "(int \<times> override) list \<Rightarrow> override list" where
  "by_rank rs = map snd (sort_key (\<lambda>p. - fst p) rs)"

definition server_role_overrides :: "server \<Rightarrow> string list \<Rightarrow> override list" where
  "server_role_overrides s mroles =
     by_rank (map (\<lambda>(_, r). (rank r, override_of_field (role_permissions_of r)))
        (filter (\<lambda>(i, _). i \<in> set mroles) (roles s)))"

definition channel_role_overrides ::
    "server \<Rightarrow> (string \<times> override_field) list \<Rightarrow> string list \<Rightarrow> override list" where
  "channel_role_overrides s crs mroles =
     by_rank (List.map_filter
        (\<lambda>(i, p). map_option (\<lambda>r. (rank r, override_of_field p)) (map_of (roles s) i))
        (filter (\<lambda>(i, _). i \<in> set mroles) crs))"

section \<open>The query\<close>

record db_query =
  q_perspective :: puser
  q_user :: "puser option"
  q_channel :: "channel option"
  q_server :: "server option"
  q_member :: "member option"
  q_cached_user_permission :: "u64 option"
  q_cached_mutual_connection :: "bool option"
  q_cached_permission :: "u64 option"

definition q_new :: "puser \<Rightarrow> db_query" where
  "q_new perspective =
     \<lparr>q_perspective = perspective, q_user = None, q_channel = None, q_server = None,
      q_member = None, q_cached_user_permission = None, q_cached_mutual_connection = None,
      q_cached_permission = None\<rparr>"

definition with_user :: "puser \<Rightarrow> db_query \<Rightarrow> db_query" where
  "with_user u q = q\<lparr>q_user := Some u\<rparr>"

definition with_channel :: "channel \<Rightarrow> db_query \<Rightarrow> db_query" where
  "with_channel c q = q\<lparr>q_channel := Some c\<rparr>"

definition with_server :: "server \<Rightarrow> db_query \<Rightarrow> db_query" where
  "with_server s q = q\<lparr>q_server := Some s\<rparr>"

definition with_member :: "member \<Rightarrow> db_query \<Rightarrow> db_query" where
  "with_member m q = q\<lparr>q_member := Some m\<rparr>"

definition db_are_the_users_same :: "db_query \<Rightarrow> bool" where
  "db_are_the_users_same q =
     (case q_user q of Some other \<Rightarrow> user_id (q_perspective q) = user_id other | None \<Rightarrow> False)"

definition db_user_relationship :: "db_query \<Rightarrow> relationship_status" where
  "db_user_relationship q =
     (case q_user q of
        None \<Rightarrow> Rel_None
      | Some other \<Rightarrow>
          if user_id (q_perspective q) = user_id other then Rel_User
          else if bot_owner other = Some (user_id (q_perspective q)) then Rel_User
          else (case relations (q_perspective q) of
                  None \<Rightarrow> Rel_None
                | Some rs \<Rightarrow>
                    (case List.find (\<lambda>e. rel_id e = user_id other) rs of
                       Some e \<Rightarrow> rel_status e
                     | None \<Rightarrow> Rel_None)))"

definition db_have_mutual_connection :: "pdb \<Rightarrow> (db_query, bool) eff" where
  "db_have_mutual_connection db = (\<lambda>q.
     case q_cached_mutual_connection q of
       Some value \<Rightarrow> (Inr value, q)
     | None \<Rightarrow>
         (case q_user q of
            Some u \<Rightarrow>
              (let value = (case has_mutual_connection db (q_perspective q) (user_id u) of
                              Inr b \<Rightarrow> b | Inl _ \<Rightarrow> False)
               in (Inr value, q\<lparr>q_cached_mutual_connection := Some value\<rparr>))
          | None \<Rightarrow> (Inr False, q)))"

definition db_are_we_server_owner :: "db_query \<Rightarrow> bool" where
  "db_are_we_server_owner q =
     (case q_server q of Some s \<Rightarrow> owner s = user_id (q_perspective q) | None \<Rightarrow> False)"

definition db_are_we_a_member :: "pdb \<Rightarrow> (db_query, bool) eff" where
  "db_are_we_a_member db = (\<lambda>q.
     case q_server q of
       None \<Rightarrow> (Inr False, q)
     | Some s \<Rightarrow>
         if q_member q \<noteq> None then (Inr True, q)
         else (case fetch_member db (server_id s) (user_id (q_perspective q)) of
                 Inr m \<Rightarrow> (Inr True, q\<lparr>q_member := Some m\<rparr>)
               | Inl _ \<Rightarrow> (Inr False, q)))"

definition db_default_server_permissions :: "db_query \<Rightarrow> u64" where
  "db_default_server_permissions q =
     (case q_server q of Some s \<Rightarrow> i64_as_u64 (default_permissions s) | None \<Rightarrow> 0)"

definition roles_of_member :: "member option \<Rightarrow> string list" where
  "roles_of_member m = (case m of Some m \<Rightarrow> member_roles m | None \<Rightarrow> [])"

definition db_server_role_overrides :: "db_query \<Rightarrow> override list" where
  "db_server_role_overrides q =
     (case q_server q of
        Some s \<Rightarrow> server_role_overrides s (roles_of_member (q_member q))
      | None \<Rightarrow> [])"

definition db_are_we_timed_out :: "int \<Rightarrow> db_query \<Rightarrow> bool" where
  "db_are_we_timed_out now q =
     (case q_member q of Some m \<Rightarrow> in_timeout now m | None \<Rightarrow> False)"

definition db_publish_overwrites :: "db_query \<Rightarrow> bool" where
  "db_publish_overwrites q = (case q_member q of Some m \<Rightarrow> can_publish m | None \<Rightarrow> True)"

definition db_receive_overwrites :: "db_query \<Rightarrow> bool" where
  "db_receive_overwrites q = (case q_member q of Some m \<Rightarrow> can_receive m | None \<Rightarrow> True)"

fun type_of_channel :: "channel \<Rightarrow> channel_type" where
  "type_of_channel (DirectMessage _ _) = DirectMessage_T"
| "type_of_channel (Group _ _ _ _) = Group_T"
| "type_of_channel (SavedMessages _ _) = SavedMessages_T"
| "type_of_channel (TextChannel _ _ _ _) = ServerChannel_T"
| "type_of_channel (Thread _ _ _) = ServerChannel_T"
| "type_of_channel (Forum _ _ _ _) = ServerChannel_T"

definition db_channel_type :: "db_query \<Rightarrow> channel_type" where
  "db_channel_type q = (case q_channel q of Some c \<Rightarrow> type_of_channel c | None \<Rightarrow> Unknown_T)"

definition field_or_default :: "override_field option \<Rightarrow> override" where
  "field_or_default d = override_of_field (case d of Some f \<Rightarrow> f | None \<Rightarrow> default_override_field)"

definition db_default_channel_permissions :: "db_query \<Rightarrow> override" where
  "db_default_channel_permissions q =
     (case q_channel q of
        Some (Group _ _ _ perms) \<Rightarrow>
          \<lparr>allow = i64_as_u64 (case perms of Some p \<Rightarrow> p
                     | None \<Rightarrow> u64_as_i64 DEFAULT_PERMISSION_DIRECT_MESSAGE),
           deny = 0\<rparr>
      | Some (TextChannel _ _ d _) \<Rightarrow> field_or_default d
      | Some (Forum _ _ d _) \<Rightarrow> field_or_default d
      | _ \<Rightarrow> default_override)"

definition db_channel_role_overrides :: "db_query \<Rightarrow> override list" where
  "db_channel_role_overrides q =
     (let with_roles = (\<lambda>crs. case q_server q of
              Some s \<Rightarrow> channel_role_overrides s crs (roles_of_member (q_member q))
            | None \<Rightarrow> [])
      in case q_channel q of
           Some (TextChannel _ _ _ crs) \<Rightarrow> with_roles crs
         | Some (Forum _ _ _ crs) \<Rightarrow> with_roles crs
         | _ \<Rightarrow> [])"

definition db_own_the_channel :: "db_query \<Rightarrow> bool" where
  "db_own_the_channel q =
     (case q_channel q of
        Some (Group _ o' _ _) \<Rightarrow> o' = user_id (q_perspective q)
      | Some (SavedMessages _ u) \<Rightarrow> u = user_id (q_perspective q)
      | _ \<Rightarrow> False)"

definition db_part_of_the_channel :: "db_query \<Rightarrow> bool" where
  "db_part_of_the_channel q =
     (case q_channel q of
        Some (DirectMessage _ rs) \<Rightarrow> user_id (q_perspective q) \<in> set rs
      | Some (Group _ _ rs _) \<Rightarrow> user_id (q_perspective q) \<in> set rs
      | _ \<Rightarrow> False)"

definition db_set_recipient_as_user :: "pdb \<Rightarrow> (db_query, unit) eff" where
  "db_set_recipient_as_user db = (\<lambda>q.
     case q_channel q of
       None \<Rightarrow> (Inr (), q)
     | Some (DirectMessage _ rs) \<Rightarrow>
         (case List.find (\<lambda>r. r \<noteq> user_id (q_perspective q)) rs of
            None \<Rightarrow> (Inl (Panic ''Missing recipient for DM''), q)
          | Some r \<Rightarrow>
              (case fetch_user db r of
                 Inr u \<Rightarrow> (Inr (), q\<lparr>q_user := Some u\<rparr>)
               | Inl _ \<Rightarrow> (Inr (), q)))
     | Some _ \<Rightarrow> (Inl (Panic ''not implemented''), q))"

definition select_server :: "pdb \<Rightarrow> string \<Rightarrow> (db_query, unit) eff" where
  "select_server db sid = (\<lambda>q.
     if (case q_server q of Some known \<Rightarrow> sid = server_id known | None \<Rightarrow> False) then (Inr (), q)
     else (case fetch_server db sid of
             Inr s \<Rightarrow> (Inr (), q\<lparr>q_server := Some s\<rparr>)
           | Inl _ \<Rightarrow> (Inr (), q)))"

definition db_set_server_from_channel :: "pdb \<Rightarrow> (db_query, unit) eff" where
  "db_set_server_from_channel db = (\<lambda>q.
     case q_channel q of
       None \<Rightarrow> (Inr (), q)
     | Some (TextChannel _ s _ _) \<Rightarrow> select_server db s q
     | Some (Thread _ s _) \<Rightarrow> select_server db s q
     | Some (Forum _ s _ _) \<Rightarrow> select_server db s q
     | Some _ \<Rightarrow> (Inl (Panic ''not implemented''), q))"

text \<open>An operation that only reads the query.\<close>

definition readE :: "('s \<Rightarrow> 'a) \<Rightarrow> ('s, 'a) eff" where
  "readE f = (\<lambda>s. (Inr (f s), s))"

definition database_query :: "pdb \<Rightarrow> int \<Rightarrow> db_query permission_query_ops" where
  "database_query db now =
     \<lparr>are_we_privileged = readE (\<lambda>q. privileged (q_perspective q)),
      are_the_users_same = readE db_are_the_users_same,
      user_relationship = readE db_user_relationship,
      have_mutual_connection = db_have_mutual_connection db,
      are_we_server_owner = readE db_are_we_server_owner,
      are_we_a_member = db_are_we_a_member db,
      get_default_server_permissions = readE db_default_server_permissions,
      get_our_server_role_overrides = readE db_server_role_overrides,
      are_we_timed_out = readE (db_are_we_timed_out now),
      do_we_have_publish_overwrites = readE db_publish_overwrites,
      do_we_have_receive_overwrites = readE db_receive_overwrites,
      get_channel_type = readE db_channel_type,
      get_default_channel_permissions = readE db_default_channel_permissions,
      get_our_channel_role_overrides = readE db_channel_role_overrides,
      do_we_own_the_channel = readE db_own_the_channel,
      are_we_part_of_the_channel = readE db_part_of_the_channel,
      set_recipient_as_user = db_set_recipient_as_user db,
      set_server_from_channel = db_set_server_from_channel db\<rparr>"

definition calc_user :: "pdb \<Rightarrow> int \<Rightarrow> db_query \<Rightarrow> error + db_query" where
  "calc_user db now q =
     (if q_cached_user_permission q \<noteq> None then Inr q
      else if q_user q = None
        then Inl (Panic ''Expected `PermissionCalculator.user to exist.'')
      else (case calculate_user_permissions (database_query db now) q of
              (Inl e, _) \<Rightarrow> Inl e
            | (Inr p, q') \<Rightarrow> Inr (q'\<lparr>q_cached_user_permission := Some p\<rparr>)))"

definition get_member_rank :: "db_query \<Rightarrow> error + int option" where
  "get_member_rank q =
     (case q_member q of
        None \<Rightarrow> Inr None
      | Some m \<Rightarrow>
          (case q_server q of
             Some s \<Rightarrow> Inr (Some (get_ranking m s))
           | None \<Rightarrow> Inl (Panic ''called `Option::unwrap()` on a `None` value'')))"

section \<open>The database query meets the contract\<close>

definition settled_member :: "pdb \<Rightarrow> db_query \<Rightarrow> member option" where
  "settled_member db q =
     (case q_member q of
        Some m \<Rightarrow> Some m
      | None \<Rightarrow>
          (case q_server q of
             Some s \<Rightarrow> map_of (db_members db) (server_id s, user_id (q_perspective q))
           | None \<Rightarrow> None))"

definition db_answers :: "pdb \<Rightarrow> int \<Rightarrow> db_query \<Rightarrow> answers" where
  "db_answers db now q =
     (let s = q\<lparr>q_member := settled_member db q\<rparr>
      in \<lparr>a_privileged = privileged (q_perspective q),
          a_same = db_are_the_users_same q,
          a_relationship = db_user_relationship q,
          a_mutual = (case db_have_mutual_connection db q of (Inr b, _) \<Rightarrow> b | _ \<Rightarrow> False),
          a_server_owner = db_are_we_server_owner q,
          a_member = (q_server q \<noteq> None \<and> q_member s \<noteq> None),
          a_default_server = db_default_server_permissions q,
          a_server_overrides = db_server_role_overrides s,
          a_timed_out = db_are_we_timed_out now s,
          a_publish = db_publish_overwrites s,
          a_receive = db_receive_overwrites s,
          a_channel_type = db_channel_type q,
          a_default_channel = db_default_channel_permissions q,
          a_channel_overrides = db_channel_role_overrides s,
          a_own_channel = db_own_the_channel q,
          a_part = db_part_of_the_channel q\<rparr>)"

definition db_views :: "pdb \<Rightarrow> int \<Rightarrow> db_query \<Rightarrow> views" where
  "db_views db now q =
     \<lparr>now_view = db_answers db now q,
      dm_view = db_answers db now (snd (db_set_recipient_as_user db q)),
      srv_view = db_answers db now (snd (db_set_server_from_channel db q))\<rparr>"

text \<open>A direct message has a recipient other than the reader; without one the code panics.\<close>

definition db_fresh :: "db_query \<Rightarrow> bool" where
  "db_fresh q \<longleftrightarrow>
     (case q_channel q of
        Some (DirectMessage _ rs) \<Rightarrow> list_ex (\<lambda>r. r \<noteq> user_id (q_perspective q)) rs
      | _ \<Rightarrow> True)"

definition db_settled :: "pdb \<Rightarrow> db_query \<Rightarrow> bool" where
  "db_settled db q \<longleftrightarrow> db_fresh q \<and> q_member q = settled_member db q"

lemma asks_readE: "(\<And>q. I q \<Longrightarrow> g q = f (view q)) \<Longrightarrow> asks I view (readE g) f I"
  by (simp add: asks_def readE_def)

lemma fetch_of_simps [simp]: "fetch_of None = Inl NotFound" "fetch_of (Some x) = Inr x"
  by (simp_all add: fetch_of_def)

lemma settled_self: "db_settled db q \<Longrightarrow> q\<lparr>q_member := settled_member db q\<rparr> = q"
  by (metis db_query.surjective db_query.update_convs(5) db_settled_def)

lemma db_answers_simps [simp]:
  "a_privileged (db_answers db now q) = privileged (q_perspective q)"
  "a_same (db_answers db now q) = db_are_the_users_same q"
  "a_relationship (db_answers db now q) = db_user_relationship q"
  "a_server_owner (db_answers db now q) = db_are_we_server_owner q"
  "a_default_server (db_answers db now q) = db_default_server_permissions q"
  "a_channel_type (db_answers db now q) = db_channel_type q"
  "a_default_channel (db_answers db now q) = db_default_channel_permissions q"
  "a_own_channel (db_answers db now q) = db_own_the_channel q"
  "a_part (db_answers db now q) = db_part_of_the_channel q"
  by (simp_all add: db_answers_def Let_def)

lemma db_answers_settled [simp]:
  assumes "db_settled db q"
  shows "a_server_overrides (db_answers db now q) = db_server_role_overrides q"
    "a_timed_out (db_answers db now q) = db_are_we_timed_out now q"
    "a_publish (db_answers db now q) = db_publish_overwrites q"
    "a_receive (db_answers db now q) = db_receive_overwrites q"
    "a_channel_overrides (db_answers db now q) = db_channel_role_overrides q"
  using assms by (simp_all add: db_answers_def Let_def settled_self)

lemma now_view_db [simp]: "now_view (db_views db now q) = db_answers db now q"
  by (simp add: db_views_def)

lemmas db_read_defs = db_are_the_users_same_def db_user_relationship_def db_are_we_server_owner_def
  db_default_server_permissions_def db_server_role_overrides_def db_are_we_timed_out_def
  db_publish_overwrites_def db_receive_overwrites_def db_channel_type_def
  db_default_channel_permissions_def db_channel_role_overrides_def db_own_the_channel_def
  db_part_of_the_channel_def db_fresh_def settled_member_def

lemma read_after_mutual [simp]:
  fixes q :: db_query and c :: "bool option"
  defines "q' \<equiv> q\<lparr>q_cached_mutual_connection := c\<rparr>"
  shows "db_are_the_users_same q' = db_are_the_users_same q"
    "db_user_relationship q' = db_user_relationship q"
    "db_are_we_server_owner q' = db_are_we_server_owner q"
    "db_default_server_permissions q' = db_default_server_permissions q"
    "db_server_role_overrides q' = db_server_role_overrides q"
    "db_are_we_timed_out now q' = db_are_we_timed_out now q"
    "db_publish_overwrites q' = db_publish_overwrites q"
    "db_receive_overwrites q' = db_receive_overwrites q"
    "db_channel_type q' = db_channel_type q"
    "db_default_channel_permissions q' = db_default_channel_permissions q"
    "db_channel_role_overrides q' = db_channel_role_overrides q"
    "db_own_the_channel q' = db_own_the_channel q"
    "db_part_of_the_channel q' = db_part_of_the_channel q"
    "db_fresh q' = db_fresh q"
    "settled_member db q' = settled_member db q"
  by (simp_all add: db_read_defs q'_def Let_def split: option.split channel.split)

lemma read_after_member [simp]:
  fixes q :: db_query and m :: "member option"
  defines "q' \<equiv> q\<lparr>q_member := m\<rparr>"
  shows "db_are_the_users_same q' = db_are_the_users_same q"
    "db_user_relationship q' = db_user_relationship q"
    "db_are_we_server_owner q' = db_are_we_server_owner q"
    "db_default_server_permissions q' = db_default_server_permissions q"
    "db_channel_type q' = db_channel_type q"
    "db_default_channel_permissions q' = db_default_channel_permissions q"
    "db_own_the_channel q' = db_own_the_channel q"
    "db_part_of_the_channel q' = db_part_of_the_channel q"
    "db_fresh q' = db_fresh q"
  by (simp_all add: db_read_defs q'_def Let_def split: option.split channel.split)

lemma swap_member_mutual [simp]:
  "q\<lparr>q_cached_mutual_connection := c, q_member := m\<rparr> = q\<lparr>q_member := m, q_cached_mutual_connection := c\<rparr>"
  by simp

definition mutual_of :: "pdb \<Rightarrow> db_query \<Rightarrow> bool" where
  "mutual_of db q = (case q_cached_mutual_connection q of
     Some v \<Rightarrow> v
   | None \<Rightarrow> (case q_user q of
       Some u \<Rightarrow> (case has_mutual_connection db (q_perspective q) (user_id u) of
           Inr b \<Rightarrow> b | Inl _ \<Rightarrow> False)
     | None \<Rightarrow> False))"

lemma mutual_run:
  "db_have_mutual_connection db q = (Inr (mutual_of db q),
     if q_cached_mutual_connection q = None \<and> q_user q \<noteq> None
     then q\<lparr>q_cached_mutual_connection := Some (mutual_of db q)\<rparr> else q)"
  by (simp add: db_have_mutual_connection_def mutual_of_def Let_def split: option.split)

lemma mutual_of_frame [simp]:
  "mutual_of db (q\<lparr>q_member := m\<rparr>) = mutual_of db q"
  "mutual_of db (q\<lparr>q_cached_mutual_connection := Some (mutual_of db q)\<rparr>) = mutual_of db q"
  by (simp_all add: mutual_of_def split: option.split)

lemma db_answers_cache_mutual:
  "db_answers db now (q\<lparr>q_cached_mutual_connection := Some (mutual_of db q)\<rparr>) = db_answers db now q"
  by (simp add: db_answers_def Let_def mutual_run)

lemma db_answers_cache_member:
  "q_member q = None \<Longrightarrow> q_server q = Some s
   \<Longrightarrow> map_of (db_members db) (server_id s, user_id (q_perspective q)) = Some m
   \<Longrightarrow> db_answers db now (q\<lparr>q_member := Some m\<rparr>) = db_answers db now q"
  by (simp add: db_answers_def Let_def mutual_run settled_member_def)

lemma db_mutual_asks:
  "asks db_fresh (\<lambda>q. now_view (db_views db now q)) (db_have_mutual_connection db) a_mutual db_fresh"
  by (rule asksI) (simp add: mutual_run db_answers_cache_mutual, simp add: db_answers_def Let_def mutual_run)

lemma db_member_asks:
  "asks db_fresh (\<lambda>q. now_view (db_views db now q)) (db_are_we_a_member db) a_member (db_settled db)"
proof (rule asksI)
  fix q assume f: "db_fresh q"
  have a: "a_member (db_answers db now q) \<longleftrightarrow> q_server q \<noteq> None \<and> settled_member db q \<noteq> None"
    by (simp add: db_answers_def Let_def)
  show "\<exists>q'. db_are_we_a_member db q = (Inr (a_member (now_view (db_views db now q))), q')
      \<and> now_view (db_views db now q') = now_view (db_views db now q) \<and> db_settled db q'"
  proof (cases "q_server q")
    case None
    then show ?thesis using f a
      by (auto simp: db_are_we_a_member_def db_settled_def settled_member_def split: option.splits)
  next
    case (Some s)
    show ?thesis
    proof (cases "q_member q")
      case None
      then show ?thesis using f a Some
        by (cases "map_of (db_members db) (server_id s, user_id (q_perspective q))")
          (simp_all add: db_are_we_a_member_def fetch_member_def db_settled_def settled_member_def
            db_answers_cache_member)
    next
      case (Some m)
      then show ?thesis using f a \<open>q_server q = Some s\<close>
        by (simp add: db_are_we_a_member_def db_settled_def settled_member_def)
    qed
  qed
qed

lemma find_ex: "list_ex P xs \<Longrightarrow> \<exists>x. List.find P xs = Some x"
  by (metis find_None_iff list_ex_iff not_Some_eq)

lemma db_set_recipient_run:
  assumes "db_fresh q" "db_channel_type q = DirectMessage_T"
  shows "\<exists>q'. db_set_recipient_as_user db q = (Inr (), q') \<and> db_fresh q'"
  using assms
  by (auto simp: db_set_recipient_as_user_def db_fresh_def db_channel_type_def fetch_user_def
      fetch_of_def split: option.splits channel.splits dest: find_ex)

lemma db_set_server_run:
  assumes "db_fresh q" "db_channel_type q = ServerChannel_T"
  shows "\<exists>q'. db_set_server_from_channel db q = (Inr (), q') \<and> db_fresh q'"
  using assms
  by (auto simp: db_set_server_from_channel_def select_server_def db_fresh_def db_channel_type_def
      fetch_server_def fetch_of_def split: option.splits channel.splits)

interpretation dbq: permission_query "database_query db now" "db_views db now" db_fresh "db_settled db"
  for db now
proof unfold_locales
  fix q
  assume "db_fresh q"
  then show "a_channel_type (now_view (db_views db now q)) = DirectMessage_T \<Longrightarrow>
      \<exists>q'. set_recipient_as_user (database_query db now) q = (Inr (), q')
        \<and> now_view (db_views db now q') = dm_view (db_views db now q) \<and> db_fresh q'"
    using db_set_recipient_run [of q db] by (auto simp: database_query_def db_views_def)
  show "a_channel_type (now_view (db_views db now q)) = ServerChannel_T \<Longrightarrow>
      \<exists>q'. set_server_from_channel (database_query db now) q = (Inr (), q')
        \<and> now_view (db_views db now q') = srv_view (db_views db now q) \<and> db_fresh q'"
    using db_set_server_run [of q db] \<open>db_fresh q\<close> by (auto simp: database_query_def db_views_def)
qed (simp_all add: database_query_def db_mutual_asks [simplified] db_member_asks [simplified]
    asks_readE, simp add: db_settled_def)

end
