(* ===== verification/Permission_Bulk.thy ===== *)
theory Permission_Bulk
  imports Permission_Db
begin

text \<open>
  The bulk permission query (\<open>crates/core/database/src/util/bulk_permissions.rs\<close>), which
  decides who of many users may see one channel (mass mentions, push fan-out), and its
  relation to the calculation for one user.
\<close>

unbundle bit_operations_syntax

section \<open>The query\<close>

record bulk_query =
  b_server :: "server option"
  b_channel :: "channel option"
  b_users :: "puser list option"
  b_members :: "member list option"
  b_cached_users :: "puser list option"
  b_cached_members :: "member list option"
  b_cached_member_perms :: "(string \<times> u64) list option"

definition bulk_new :: "server \<Rightarrow> bulk_query" where
  "bulk_new s = \<lparr>b_server = Some s, b_channel = None, b_users = None, b_members = None,
     b_cached_users = None, b_cached_members = None, b_cached_member_perms = None\<rparr>"

definition from_server_id :: "pdb \<Rightarrow> string \<Rightarrow> bulk_query" where
  "from_server_id db sid =
     \<lparr>b_server = (case fetch_server db sid of Inr s \<Rightarrow> Some s | Inl _ \<Rightarrow> None),
      b_channel = None, b_users = None, b_members = None,
      b_cached_users = None, b_cached_members = None, b_cached_member_perms = None\<rparr>"

definition bulk_channel :: "channel \<Rightarrow> bulk_query \<Rightarrow> bulk_query" where
  "bulk_channel c q = q\<lparr>b_channel := Some c\<rparr>"

definition from_channel_id :: "pdb \<Rightarrow> string \<Rightarrow> bulk_query \<Rightarrow> bulk_query" where
  "from_channel_id db cid q =
     (case fetch_channel db cid of
        Inl _ \<Rightarrow> q\<lparr>b_channel := None\<rparr>
      | Inr c \<Rightarrow>
          (let c' = (case c of
                 Thread _ _ _ \<Rightarrow> (case permission_target db c of Inr p \<Rightarrow> p | Inl _ \<Rightarrow> c)
               | _ \<Rightarrow> c)
           in q\<lparr>b_channel := Some c'\<rparr>))"

definition bulk_members :: "member list \<Rightarrow> bulk_query \<Rightarrow> bulk_query" where
  "bulk_members ms q = q\<lparr>b_members := Some ms, b_cached_member_perms := None, b_users := None,
     b_cached_members := None, b_cached_users := None\<rparr>"

definition bulk_users :: "puser list \<Rightarrow> bulk_query \<Rightarrow> bulk_query" where
  "bulk_users us q = q\<lparr>b_users := Some us, b_cached_member_perms := None, b_members := None,
     b_cached_members := None, b_cached_users := None\<rparr>"

section \<open>The calculation\<close>

text \<open>The private \<open>calculate_server_permissions\<close> of the bulk module.\<close>

definition bulk_server_permissions :: "int \<Rightarrow> server \<Rightarrow> puser \<Rightarrow> member \<Rightarrow> u64" where
  "bulk_server_permissions now s u m =
     (if privileged u \<or> owner s = user_id u then channel_bits GrantAllSafe
      else
        let p = foldl pv_apply (i64_as_u64 (default_permissions s))
                  (server_role_overrides s (member_roles m))
        in if in_timeout now m then pv_restrict p ALLOW_IN_TIMEOUT else p)"

text \<open>The value of one user of the loop.\<close>

definition bulk_user_permission :: "int \<Rightarrow> server \<Rightarrow> override_field option
    \<Rightarrow> (string \<times> override_field) list \<Rightarrow> (string \<times> member) list \<Rightarrow> puser \<Rightarrow> u64" where
  "bulk_user_permission now s default_perms role_perms members u =
     (case map_of members (user_id u) of
        None \<Rightarrow> 0
      | Some m \<Rightarrow>
          if privileged u then channel_bits GrantAllSafe
          else if user_id u = owner s then channel_bits GrantAllSafe
          else
            let p0 = bulk_server_permissions now s u m;
                p1 = (case default_perms of
                        Some d \<Rightarrow> pv_apply p0 (override_of_field d) | None \<Rightarrow> p0)
            in foldl pv_apply p1 (channel_role_overrides s role_perms (member_roles m)))"

definition members_by_user :: "member list \<Rightarrow> (string \<times> member) list" where
  "members_by_user ms = foldl (\<lambda>acc m. AList.update (member_user m) m acc) [] ms"

definition bulk_fold :: "(puser \<Rightarrow> u64) \<Rightarrow> puser list \<Rightarrow> (string \<times> u64) list" where
  "bulk_fold f us = foldl (\<lambda>resp u. AList.update (user_id u) (f u) resp) [] us"

text \<open>The users and members of the query, fetching whichever was not given.\<close>

definition fill_users :: "pdb \<Rightarrow> (bulk_query, puser list) eff" where
  "fill_users db = (\<lambda>q.
     case b_users q of
       Some us \<Rightarrow> (Inr us, q)
     | None \<Rightarrow>
         (case b_members q of
            None \<Rightarrow> (Inl (Panic ''No users or members added to the query''), q)
          | Some ms \<Rightarrow>
              (case fetch_users db (map member_user ms) of
                 Inl e \<Rightarrow> (Inl e, q)
               | Inr us \<Rightarrow> (Inr us, q\<lparr>b_cached_users := Some us, b_users := Some us\<rparr>))))"

definition fill_members :: "pdb \<Rightarrow> server \<Rightarrow> puser list \<Rightarrow> (bulk_query, member list) eff" where
  "fill_members db s us = (\<lambda>q.
     case b_members q of
       Some ms \<Rightarrow> (Inr ms, q)
     | None \<Rightarrow>
         (case fetch_members db (server_id s) (map user_id us) of
            Inl e \<Rightarrow> (Inl e, q)
          | Inr ms \<Rightarrow> (Inr ms, q\<lparr>b_cached_members := Some ms, b_members := Some ms\<rparr>)))"

fun channel_overrides :: "channel \<Rightarrow> ((string \<times> override_field) list \<times> override_field option) option" where
  "channel_overrides (TextChannel _ _ d rs) = Some (rs, d)"
| "channel_overrides (Forum _ _ d rs) = Some (rs, d)"
| "channel_overrides _ = None"

text \<open>A database error while filling denies everyone; only a query with neither users nor
  members panics.\<close>

definition is_panic :: "error \<Rightarrow> bool" where
  "is_panic e = (case e of Panic _ \<Rightarrow> True | _ \<Rightarrow> False)"

definition calculate_members_permissions :: "pdb \<Rightarrow> int \<Rightarrow> (bulk_query, (string \<times> u64) list) eff" where
  "calculate_members_permissions db now = (\<lambda>q.
     case b_channel q of
       None \<Rightarrow> (Inr [], q)
     | Some c \<Rightarrow>
         (case channel_overrides c of
            None \<Rightarrow> (Inr [], q)
          | Some (role_perms, default_perms) \<Rightarrow>
              (case b_server q of
                 None \<Rightarrow> (Inr [], q)
               | Some s \<Rightarrow>
                   (case fill_users db q of
                      (Inl e, q1) \<Rightarrow> if is_panic e then (Inl e, q1) else (Inr [], q1)
                    | (Inr us, q1) \<Rightarrow>
                        (case fill_members db s us q1 of
                           (Inl e, q2) \<Rightarrow> (Inr [], q2)
                         | (Inr ms, q2) \<Rightarrow>
                             (Inr (bulk_fold
                                (bulk_user_permission now s default_perms role_perms
                                   (members_by_user ms)) us), q2))))))"

definition members_can_see_channel :: "pdb \<Rightarrow> int \<Rightarrow> (bulk_query, (string \<times> bool) list) eff" where
  "members_can_see_channel db now =
     bindE (\<lambda>q. case b_cached_member_perms q of
                  Some perms \<Rightarrow> (Inr perms, q)
                | None \<Rightarrow> calculate_members_permissions db now q)
       (\<lambda>perms. okE (map (\<lambda>(m, p). (m, has_channel_permission p ViewChannel)) perms))"

section \<open>Lookups in the result\<close>

lemma bulk_fold_lookup:
  "distinct (map user_id us) \<Longrightarrow> u \<in> set us \<Longrightarrow> map_of (bulk_fold f us) (user_id u) = Some (f u)"
proof -
  assume d: "distinct (map user_id us)" and u: "u \<in> set us"
  then have inj: "inj_on user_id (set us)" by (simp add: distinct_map)
  then have same: "f x = f y" if "x \<in> set us" "y \<in> set us" "user_id x = user_id y" for x y
    using that by (simp add: inj_on_eq_iff)
  have "map_of (bulk_fold f us) (user_id u) = map_option f (List.find (\<lambda>v. user_id v = user_id u) us)"
    unfolding bulk_fold_def using same by (rule foldl_update_lookup)
  also have "\<dots> = Some (f u)"
    by (simp only: find_distinct_key [OF inj u] option.map)
  finally show ?thesis .
qed

text \<open>Every member is stored under the pair of its server and its user.\<close>

definition members_keyed :: "pdb \<Rightarrow> bool" where
  "members_keyed db \<longleftrightarrow> list_all (\<lambda>(k, m). k = (member_server m, member_user m)) (db_members db)"

lemma fetched_member_lookup:
  assumes "members_keyed db" and "map_of (db_members db) (sid, i) = Some m" and "i \<in> set ids"
  shows "map_of (members_by_user (List.map_filter (\<lambda>u. map_of (db_members db) (sid, u)) ids)) i = Some m"
proof -
  let ?ms = "List.map_filter (\<lambda>u. map_of (db_members db) (sid, u)) ids"
  have key: "member_user m' = u" if "map_of (db_members db) (sid, u) = Some m'" for u m'
    using assms(1) that by (auto simp: members_keyed_def list_all_iff dest: map_of_SomeD)
  have mem: "m' \<in> set ?ms \<longleftrightarrow> (\<exists>u\<in>set ids. map_of (db_members db) (sid, u) = Some m')" for m'
    by (force simp: map_filter_def)
  have uniq: "x = y" if "x \<in> set ?ms" "y \<in> set ?ms" "member_user x = member_user y" for x y
    using that key mem by (metis option.inject)
  have m: "m \<in> set ?ms" and i: "member_user m = i" using assms(2,3) mem key by auto
  have "List.find (\<lambda>x. member_user x = i) ?ms = Some m"
    unfolding i [symmetric] using uniq m by (intro find_distinct_key inj_onI) auto
  then show ?thesis using uniq by (simp add: members_by_user_def foldl_update_lookup [of _ _ id, simplified])
qed

lemma map_of_map_snd: "map_of (map (\<lambda>(k, v). (k, f v)) xs) i = map_option f (map_of xs i)"
  by (induction xs) auto

section \<open>Agreement with the calculation for one user\<close>

text \<open>The query a caller builds for one member of the server of the channel.\<close>

definition single_query :: "puser \<Rightarrow> channel \<Rightarrow> server \<Rightarrow> member \<Rightarrow> db_query" where
  "single_query u c s m = with_member m (with_server s (with_channel c (q_new u)))"

text \<open>The value of the single calculation before the channel's overrides.\<close>

definition single_server_value :: "int \<Rightarrow> server \<Rightarrow> member \<Rightarrow> u64" where
  "single_server_value now s m =
     pv_revoke (foldl pv_apply (i64_as_u64 (default_permissions s))
         (server_role_overrides s (member_roles m)))
       ((if can_publish m then 0 else channel_bits Speak OR channel_bits Video)
        OR (if can_receive m then 0 else channel_bits Listen))
     AND (if in_timeout now m then ALLOW_IN_TIMEOUT else - 1)"

definition single_member_value :: "int \<Rightarrow> server \<Rightarrow> override_field option
    \<Rightarrow> (string \<times> override_field) list \<Rightarrow> member \<Rightarrow> u64" where
  "single_member_value now s d rs m =
     (let p = foldl pv_apply (pv_apply (single_server_value now s m) (field_or_default d))
                (channel_role_overrides s rs (member_roles m))
              AND (if in_timeout now m then ALLOW_IN_TIMEOUT else - 1)
      in if bit p view_bit then p else 0)"

lemma single_query_value:
  assumes ov: "channel_overrides c = Some (rs, d)" and sid: "channel_server c = server_id s"
  shows "fst (calculate_channel_permissions (database_query db now) (single_query u c s m)) =
    Inr (if privileged u \<or> owner s = user_id u then channel_bits GrantAllSafe
         else single_member_value now s d rs m)"
proof -
  let ?q = "single_query u c s m"
  note q = single_query_def with_member_def with_server_def with_channel_def q_new_def
  have c: "(\<exists>i sv. c = TextChannel i sv d rs) \<or> (\<exists>i sv. c = Forum i sv d rs)"
    using ov by (cases c) auto
  then have type: "db_channel_type ?q = ServerChannel_T" and f: "db_fresh ?q"
    by (auto simp: db_channel_type_def db_fresh_def q)
  have sel: "snd (db_set_server_from_channel db ?q) = ?q"
    using c sid by (auto simp: db_set_server_from_channel_def select_server_def q)
  have st: "db_settled db ?q" using f by (simp add: db_settled_def settled_member_def q)
  let ?a = "db_answers db now ?q"
  have parts: "a_server_owner ?a \<longleftrightarrow> owner s = user_id u" "a_member ?a"
      "a_default_server ?a = i64_as_u64 (default_permissions s)"
      "a_server_overrides ?a = server_role_overrides s (member_roles m)"
      "a_timed_out ?a = in_timeout now m" "a_publish ?a = can_publish m" "a_receive ?a = can_receive m"
    using st by (simp_all add: db_read_defs roles_of_member_def q)
      (simp add: db_answers_def Let_def settled_member_def q)
  have chan: "a_default_channel ?a = field_or_default d"
      "a_channel_overrides ?a = channel_role_overrides s rs (member_roles m)"
    using c st by (auto simp: db_read_defs roles_of_member_def Let_def q)
  have priv: "a_privileged ?a = privileged u" and type': "a_channel_type ?a = ServerChannel_T"
    using type by (simp_all add: q)
  have "fst (calculate_channel_permissions (database_query db now) ?q) =
      Inr (channel_value ?a (dm_view (db_views db now ?q)) ?a)"
    using dbq.channel_calc [OF f, of db now] by (auto simp: db_views_def sel)
  moreover have "server_value ?a = (if privileged u \<or> owner s = user_id u
      then channel_bits GrantAllSafe else single_server_value now s m)"
    by (simp only: server_value_def priv parts single_server_value_def voice_denied_def
        timeout_mask_def if_True)
  then have "\<not> privileged u \<Longrightarrow> server_channel_value ?a = (if owner s = user_id u
      then channel_bits GrantAllSafe else single_member_value now s d rs m)"
    by (cases "owner s = user_id u")
      (simp_all add: server_channel_value_def parts chan single_member_value_def timeout_mask_def
        del: db_answers_simps)
  ultimately show ?thesis
    by (simp only: channel_value_def priv type' channel_type.case split: if_split) simp
qed

lemma foldl_apply_bit_cong:
  "bit p n = bit p' n \<Longrightarrow> bit (foldl pv_apply p vs) n = bit (foldl pv_apply p' vs) n"
  by (simp add: foldl_apply_bit split: option.split)

lemma field_or_default_apply:
  "pv_apply p (field_or_default d) = (case d of Some f \<Rightarrow> pv_apply p (override_of_field f) | None \<Rightarrow> p)"
  by (cases d) (simp_all add: field_or_default_def default_override_field_def override_of_field_def
      i64_as_u64_def pv_apply_def pv_allow_def pv_revoke_def)

lemma voice_bits_view [simp]:
  "\<not> bit (channel_bits Speak) view_bit" "\<not> bit (channel_bits Video) view_bit"
  "\<not> bit (channel_bits Listen) view_bit"
  by (simp_all add: view_bit_def bit_exp_iff channel_bits.simps)

lemma view_bit_less [simp]: "view_bit < 64"
  by (simp add: view_bit_def)

lemma single_server_value_view:
  "bit (single_server_value now s m) view_bit \<longleftrightarrow>
   bit (foldl pv_apply (i64_as_u64 (default_permissions s))
          (server_role_overrides s (member_roles m))) view_bit"
  by (simp add: single_server_value_def bit_and_iff bit_or_iff)

text \<open>The bulk value of a member carries \<open>ViewChannel\<close> exactly when the single value does.\<close>

lemma bulk_view_agrees:
  assumes "map_of members (user_id u) = Some m" and "\<not> (privileged u \<or> owner s = user_id u)"
  shows "bit (bulk_user_permission now s d rs members u) view_bit
    \<longleftrightarrow> bit (single_member_value now s d rs m) view_bit"
proof -
  let ?ovs = "channel_role_overrides s rs (member_roles m)"
  let ?bs = "bulk_server_permissions now s u m"
  let ?ss = "single_server_value now s m"
  have "bit ?bs view_bit = bit ?ss view_bit"
    using assms(2) by (simp add: single_server_value_view bulk_server_permissions_def Let_def)
  then have "bit (pv_apply ?bs (field_or_default d)) view_bit
      = bit (pv_apply ?ss (field_or_default d)) view_bit" by simp
  then have "bit (foldl pv_apply (pv_apply ?bs (field_or_default d)) ?ovs) view_bit
      = bit (foldl pv_apply (pv_apply ?ss (field_or_default d)) ?ovs) view_bit"
    by (rule foldl_apply_bit_cong)
  then show ?thesis using assms
    by (auto simp: bulk_user_permission_def single_member_value_def Let_def field_or_default_apply
        bit_and_iff)
qed

text \<open>Without a timeout and without voice moderation the values are the same, up to the
  single calculation's rule that a channel that cannot be seen grants nothing.\<close>

lemma bulk_value_agrees:
  assumes "map_of members (user_id u) = Some m" and "\<not> (privileged u \<or> owner s = user_id u)"
    and "\<not> in_timeout now m" "can_publish m" "can_receive m"
  shows "single_member_value now s d rs m =
    (let p = bulk_user_permission now s d rs members u in if bit p view_bit then p else 0)"
  using assms
  by (auto simp: bulk_user_permission_def single_member_value_def single_server_value_def
      bulk_server_permissions_def field_or_default_apply Let_def pv_revoke_def)

end
