(* ===== verification/Permission_Props.thy ===== *)
theory Permission_Props
  imports Permission_Bulk "HOL-Library.Multiset"
begin

text \<open>
  What the permission code guarantees: properties of the calculation over the database
  query, of the bulk query, and of the check that guards the editing of overrides.
\<close>

unbundle bit_operations_syntax

section \<open>Concrete data for the witnesses\<close>

definition ex_user :: puser where
  "ex_user = \<lparr>user_id = ''u'', relations = None, privileged = False, bot_owner = None\<rparr>"

definition ex_peer :: puser where
  "ex_peer = \<lparr>user_id = ''v'', relations = None, privileged = False, bot_owner = None\<rparr>"

definition ex_role :: role where
  "ex_role = \<lparr>role_permissions_of = \<lparr>of_a = 8388608, of_d = 4194304\<rparr>, rank = 3,
     rl_id = ''r'', rl_name = ''role'', rl_colour = None, rl_hoist = False, rl_icon = None\<rparr>"

definition ex_server :: server where
  "ex_server = \<lparr>server_id = ''s'', owner = ''o'', roles = [(''r'', ex_role)],
     default_permissions = 7340032, sv_channels = [''c'']\<rparr>"

definition ex_member :: member where
  "ex_member = \<lparr>member_server = ''s'', member_user = ''u'', member_roles = [''r''],
     timeout = Some 50, can_publish = True, can_receive = True\<rparr>"

definition ex_channel :: channel where
  "ex_channel = TextChannel ''c'' ''s'' None [(''r'', \<lparr>of_a = 4194304, of_d = 0\<rparr>)]"

definition ex_dm :: channel where
  "ex_dm = DirectMessage ''d'' [''u'', ''v'']"

definition ex_pdb :: pdb where
  "ex_pdb = \<lparr>db_users = [(''u'', ex_user), (''v'', ex_peer)], db_servers = [(''s'', ex_server)],
     db_members = [((''s'', ''u''), ex_member)], db_channels = [(''c'', ex_channel), (''d'', ex_dm)]\<rparr>"

lemmas ex_perm_defs = ex_user_def ex_peer_def ex_role_def ex_server_def ex_member_def
  ex_channel_def ex_dm_def ex_pdb_def

section \<open>The calculation\<close>

text \<open>C27: a query whose direct message, if it has one, has another recipient never panics:
  the channel calculation returns, and returns the value determined by the answers the
  database gives.\<close>

theorem channel_permissions_total:
  assumes "db_fresh q"
  shows "fst (calculate_channel_permissions (database_query db now) q) =
    Inr (channel_value (db_answers db now q)
      (db_answers db now (snd (db_set_recipient_as_user db q)))
      (db_answers db now (snd (db_set_server_from_channel db q))))"
  using dbq.channel_calc [OF assms, of db now] by (auto simp: db_views_def)

theorem channel_permissions_total_witness:
  "fst (calculate_channel_permissions (database_query ex_pdb 0) (with_channel ex_channel (q_new ex_user)))
   = Inr 3145728"
proof -
  let ?q = "with_channel ex_channel (q_new ex_user)"
  have "db_fresh ?q" by code_simp
  from channel_permissions_total [OF this, of ex_pdb 0] show ?thesis
    by (simp only:) code_simp
qed

text \<open>On a channel of a server, nobody holds any permission without \<open>ViewChannel\<close>:
  the value is 0 or contains that bit.\<close>

theorem server_channel_needs_view:
  assumes "channel_overrides c = Some ov"
    and "fst (calculate_channel_permissions (database_query db now) (with_channel c q)) = Inr p"
  shows "p = 0 \<or> has_channel_permission p ViewChannel"
proof -
  let ?q = "with_channel c q"
  have f: "db_fresh ?q" and t: "db_channel_type ?q = ServerChannel_T"
    using assms(1) by (cases c; simp add: with_channel_def db_fresh_def db_channel_type_def)+
  show ?thesis
    using dbq.channel_calc [OF f, of db now] assms(2) t
      server_channel_view_or_nothing [of "srv_view (db_views db now ?q)"]
    by (auto simp: channel_value_def db_views_def
        split: if_splits)
qed

theorem server_channel_needs_view_witness:
  "(3145728 :: u64) = 0 \<or> has_channel_permission 3145728 ViewChannel"
proof -
  have "channel_overrides ex_channel = Some ([(''r'', \<lparr>of_a = 4194304, of_d = 0\<rparr>)], None)" by code_simp
  moreover have "fst (calculate_channel_permissions (database_query ex_pdb 0)
      (with_channel ex_channel (q_new ex_user))) = Inr 3145728" by code_simp
  ultimately show ?thesis by (rule server_channel_needs_view)
qed

text \<open>A member in timeout who is neither privileged nor the owner of the server holds
  at most \<open>ViewChannel\<close> and \<open>ReadMessageHistory\<close> on its channels, whatever the overrides
  allow.\<close>

theorem timed_out_member_reads_only:
  assumes "channel_overrides c = Some ov" and "channel_server c = server_id s"
    and "in_timeout now m" and "\<not> privileged u" and "owner s \<noteq> user_id u"
    and "fst (calculate_channel_permissions (database_query db now) (single_query u c s m)) = Inr p"
  shows "p AND NOT (channel_bits ViewChannel OR channel_bits ReadMessageHistory) = 0"
proof -
  obtain rs d where "ov = (rs, d)" by (cases ov)
  with assms have "p = single_member_value now s d rs m"
    using single_query_value [of c rs d s db now u m] by simp
  then have "p = 0 \<or> (\<exists>x. p = x AND ALLOW_IN_TIMEOUT)"
    using assms(3) by (auto simp: single_member_value_def Let_def)
  moreover have "ALLOW_IN_TIMEOUT = channel_bits ViewChannel OR channel_bits ReadMessageHistory"
    by (simp add: ALLOW_IN_TIMEOUT_def plus_permissions_def)
  ultimately show ?thesis by (auto simp only: and.assoc bit.conj_cancel_right and_zero_eq zero_and_eq)
qed

theorem timed_out_member_reads_only_witness:
  "(3145728 :: u64) AND NOT (channel_bits ViewChannel OR channel_bits ReadMessageHistory) = 0"
  by (rule timed_out_member_reads_only [of ex_channel "([(''r'', \<lparr>of_a = 4194304, of_d = 0\<rparr>)], None)"
        ex_server 0 ex_member ex_user ex_pdb]) code_simp+

text \<open>Overrides are settled bit by bit by the highest role: on a channel a member can
  see, a bit is set exactly when the last override that mentions it, from the channel's
  default through the member's roles in descending rank order, does not deny it; a bit no
  override mentions is as the server grants it.\<close>

theorem highest_override_decides:
  assumes "channel_overrides c = Some (rs, d)" and "channel_server c = server_id s"
    and "\<not> in_timeout now m" and "\<not> privileged u" and "owner s \<noteq> user_id u"
    and "fst (calculate_channel_permissions (database_query db now) (single_query u c s m)) = Inr p"
    and "has_channel_permission p ViewChannel"
  shows "bit p n \<longleftrightarrow>
    (case List.find (\<lambda>v. bit (allow v) n \<or> bit (deny v) n)
        (rev (field_or_default d # channel_role_overrides s rs (member_roles m))) of
       None \<Rightarrow> bit (single_server_value now s m) n
     | Some v \<Rightarrow> \<not> bit (deny v) n)"
proof -
  have "p = single_member_value now s d rs m"
    using single_query_value [of c rs d s db now u m] assms by simp
  then have "p = foldl pv_apply (single_server_value now s m)
      (field_or_default d # channel_role_overrides s rs (member_roles m))"
    using assms(3,7) by (auto simp: single_member_value_def Let_def split: if_splits)
  then show ?thesis by (simp only: foldl_apply_bit)
qed

theorem highest_override_decides_witness:
  "bit (16 * 983040 :: u64) 22 \<longleftrightarrow>
    (case List.find (\<lambda>v. bit (allow v) 22 \<or> bit (deny v) 22)
        (rev (field_or_default None # channel_role_overrides ex_server
           [(''r'', \<lparr>of_a = 4194304, of_d = 0\<rparr>)] (member_roles ex_member))) of
       None \<Rightarrow> bit (single_server_value 60 ex_server ex_member) 22
     | Some v \<Rightarrow> \<not> bit (deny v) 22)"
  by (rule highest_override_decides [of ex_channel _ _ ex_server 60 ex_member ex_user ex_pdb]) code_simp+

text \<open>In a direct message that is stored in the database, a user who is not blocked by
  and has not blocked the other recipient always holds the full direct message set: the
  conversation itself counts as a mutual connection.\<close>

theorem stored_dm_grants_sending:
  assumes "c = DirectMessage i rs" and "c \<in> snd ` set (db_channels db)"
    and "user_id u \<in> set rs" and "\<not> privileged u"
    and "List.find (\<lambda>r. r \<noteq> user_id u) rs = Some r" and "fetch_user db r = Inr v" and "user_id v = r"
    and "db_user_relationship (with_user v (q_new u)) \<notin> {Rel_Blocked, Rel_BlockedOther}"
  shows "fst (calculate_channel_permissions (database_query db now) (with_channel c (q_new u)))
    = Inr DEFAULT_PERMISSION_DIRECT_MESSAGE"
proof -
  let ?q = "with_channel c (q_new u)" and ?qv = "with_user v (with_channel c (q_new u))"
  note q = with_channel_def with_user_def q_new_def
  have r: "r \<noteq> user_id u" "r \<in> set rs" using assms(5) by (auto dest: find_Some_P)
  then have f: "db_fresh ?q" using assms(1) by (auto simp: db_fresh_def q list_ex_iff)
  have sel: "snd (db_set_recipient_as_user db ?q) = ?qv"
    using assms(1,5,6) by (simp add: db_set_recipient_as_user_def q)
  have "shares_channel (user_id u) r c" using assms(1,3) r by (simp add: shares_channel_def)
  then have "fetch_mutual_channel_ids db (user_id u) r \<noteq> Inr []"
    using assms(2) by (auto simp: fetch_mutual_channel_ids_def filter_empty_conv
        simp flip: set_empty)
  then have "mutual_of db ?qv"
    using assms(7) by (auto simp: mutual_of_def q has_mutual_connection_def
        fetch_mutual_channel_ids_def fetch_mutual_server_ids_def Let_def)
  then have "a_mutual (db_answers db now ?qv)" by (simp add: db_answers_def Let_def mutual_run)
  moreover have "db_user_relationship ?qv \<notin> {Rel_Blocked, Rel_BlockedOther}"
    using assms(8) by (simp add: db_user_relationship_def q cong: if_cong option.case_cong)
  ultimately have "has_user_permission (user_value (db_answers db now ?qv)) User_SendMessage"
    by (auto simp: user_value_def has_user_permission_def pv_has_def)
  moreover have "db_channel_type ?q = DirectMessage_T" "db_part_of_the_channel ?q"
      "privileged (q_perspective ?q) = privileged u"
    using assms(1,3) by (simp_all add: db_channel_type_def db_part_of_the_channel_def q)
  ultimately show ?thesis
    using assms(4) dbq.channel_calc [OF f, of db now]
    by (auto simp: channel_value_def db_views_def sel)
qed

theorem stored_dm_grants_sending_witness:
  "fst (calculate_channel_permissions (database_query ex_pdb 0) (with_channel ex_dm (q_new ex_user)))
   = Inr DEFAULT_PERMISSION_DIRECT_MESSAGE"
  by (rule stored_dm_grants_sending [of ex_dm "''d''" "[''u'', ''v'']" ex_pdb ex_user "''v''" ex_peer])
    code_simp+

section \<open>Bulk queries\<close>

text \<open>C6: the bulk query answers, for every user it lists who is a member of the server,
  what the calculation for that one user answers about \<open>ViewChannel\<close>.\<close>

theorem bulk_view_equivalent:
  assumes "channel_overrides c = Some ov" and "channel_server c = server_id s"
    and "distinct (map user_id us)" and "u \<in> set us" and "members_keyed db"
    and "map_of (db_members db) (server_id s, user_id u) = Some m"
    and "fst (members_can_see_channel db now (bulk_users us (bulk_channel c (bulk_new s)))) = Inr seen"
    and "fst (calculate_channel_permissions (database_query db now) (single_query u c s m)) = Inr p"
  shows "map_of seen (user_id u) = Some (has_channel_permission p ViewChannel)"
proof -
  obtain rs d where ov: "ov = (rs, d)" by (cases ov)
  define members where
    "members = members_by_user (List.map_filter (\<lambda>u. map_of (db_members db) (server_id s, u)) (map user_id us))"
  have m: "map_of members (user_id u) = Some m"
    unfolding members_def using assms(4-6) by (intro fetched_member_lookup) auto
  have "seen = map (\<lambda>(m, p). (m, has_channel_permission p ViewChannel))
      (bulk_fold (bulk_user_permission now s d rs members) us)"
    using assms(1,7) by (simp add: members_can_see_channel_def bulk_users_def bulk_channel_def
        bulk_new_def eff_simps calculate_members_permissions_def ov fill_users_def fill_members_def
        fetch_members_def members_def)
  then have seen: "map_of seen (user_id u)
      = Some (bit (bulk_user_permission now s d rs members u) view_bit)"
    using bulk_fold_lookup [OF assms(3,4)] by (simp add: map_of_map_snd)
  have p: "p = (if privileged u \<or> owner s = user_id u then channel_bits GrantAllSafe
      else single_member_value now s d rs m)"
    using single_query_value [of c rs d s db now u m] assms(1,2,8) ov by simp
  show ?thesis
  proof (cases "privileged u \<or> owner s = user_id u")
    case True then show ?thesis using m by (auto simp: seen p bulk_user_permission_def)
  next
    case False then show ?thesis using bulk_view_agrees [OF m False] by (simp add: seen p)
  qed
qed

theorem bulk_view_equivalent_witness:
  "map_of [(''u'', True)] (user_id ex_user) = Some (has_channel_permission 3145728 ViewChannel)"
  by (rule bulk_view_equivalent [of ex_channel "([(''r'', \<lparr>of_a = 4194304, of_d = 0\<rparr>)], None)"
        ex_server "[ex_user]" ex_user ex_pdb ex_member 0]) code_simp+

text \<open>Where voice moderation and timeouts play no part, the single value is the bulk
  value, except that the single calculation grants nothing on a channel the member cannot
  see.\<close>

theorem bulk_value_equivalent:
  assumes "channel_overrides c = Some (rs, d)" and "channel_server c = server_id s"
    and "\<not> in_timeout now m" and "can_publish m" and "can_receive m"
    and "map_of members (user_id u) = Some m"
    and "fst (calculate_channel_permissions (database_query db now) (single_query u c s m)) = Inr p"
    and "b = bulk_user_permission now s d rs members u"
  shows "p = (if has_channel_permission b ViewChannel then b else 0)"
proof (cases "privileged u \<or> owner s = user_id u")
  case True
  then have "p = channel_bits GrantAllSafe"
    using single_query_value [OF assms(1,2), of db now u m] assms(7) by simp
  moreover have "b = channel_bits GrantAllSafe"
    using True assms(6,8) by (auto simp: bulk_user_permission_def)
  ultimately show ?thesis by simp
next
  case False
  then show ?thesis
    using assms(7,8) single_query_value [OF assms(1,2), of db now u m]
      bulk_value_agrees [OF assms(6) False assms(3-5), of d rs]
    by (auto simp: Let_def split: if_splits)
qed

theorem bulk_value_equivalent_witness:
  "(16 * 983040 :: u64) = (if has_channel_permission (16 * 983040) ViewChannel then 16 * 983040 else 0)"
  by (rule bulk_value_equivalent [of ex_channel "[(''r'', \<lparr>of_a = 4194304, of_d = 0\<rparr>)]" None
        ex_server 60 ex_member "[(''u'', ex_member)]" ex_user ex_pdb]) code_simp+

section \<open>Editing overrides\<close>

text \<open>An edit of an override that passes the check cannot hand out a permission the
  editor lacks: whatever value the override is applied to, every bit the new override
  leaves set and the old one did not is a bit of the editor.\<close>

theorem override_edit_no_escalation:
  assumes "throw_permission_override editor (Some current) next_value = Inr ()"
    and "bit (pv_apply base next_value) n" and "\<not> bit (pv_apply base current) n"
  shows "bit editor n"
proof -
  have "pv_has editor (NOT (allow current) AND allow next_value)"
    and "pv_has editor (deny current AND NOT (deny next_value))"
    using assms(1) by (auto simp: throw_permission_override_def split: if_splits)
  then show ?thesis using assms(2,3)
    using bit_imp_le_length [of "allow next_value" n] bit_imp_le_length [of "deny current" n]
    by (auto simp: pv_has_bits bit_and_iff bit_not_iff)
qed

theorem override_edit_no_escalation_witness: "bit (5 :: u64) 2"
  by (rule override_edit_no_escalation [of 5 "\<lparr>allow = 8, deny = 4\<rparr>" "\<lparr>allow = 9, deny = 2\<rparr>" 4]) code_simp+

text \<open>Stored overrides lose nothing: the database's pair of signed integers and the
  API's pair of unsigned ones convert into each other without loss, in both directions.\<close>

theorem override_field_roundtrip:
  "override_of_field (field_of_override v) = v
   \<and> (is_i64 a \<and> is_i64 d \<longrightarrow>
        field_of_override (override_of_field \<lparr>of_a = a, of_d = d\<rparr>) = \<lparr>of_a = a, of_d = d\<rparr>)"
  using override_roundtrip field_roundtrip [of "\<lparr>of_a = a, of_d = d\<rparr>"] by simp

theorem override_field_roundtrip_witness:
  "field_of_override (override_of_field \<lparr>of_a = - 1, of_d = i64_min\<rparr>) = \<lparr>of_a = - 1, of_d = i64_min\<rparr>"
  using override_field_roundtrip [of undefined "- 1" i64_min] by (simp add: i64_defs)

section \<open>Ranks\<close>

lemma by_rank_perm:
  assumes "mset rs = mset rs'" and "distinct (map fst rs)"
  shows "by_rank rs = by_rank rs'"
proof -
  have "inj_on fst (set rs)" using assms(2) by (simp add: distinct_map)
  then have "inj_on (\<lambda>p. - fst p) (set rs)" by (auto simp: inj_on_def)
  then have "sort_key (\<lambda>p. - fst p) rs = sort_key (\<lambda>p. - fst p) rs'"
    using assms(1) by (intro sort_key_inj_key_eq) simp_all
  then show ?thesis by (simp add: by_rank_def)
qed

text \<open>The overrides that apply to a member do not depend on the order in which the hash
  map of roles is iterated, as long as no two of the member's roles share a rank.\<close>

theorem role_order_independent:
  assumes "mset (roles s) = mset (roles s')"
    and "distinct (map (\<lambda>(_, r). rank r) (filter (\<lambda>(i, _). i \<in> set mroles) (roles s)))"
  shows "server_role_overrides s mroles = server_role_overrides s' mroles"
proof -
  let ?f = "\<lambda>(_, r). (rank r, override_of_field (role_permissions_of r))"
  let ?sel = "filter (\<lambda>(i, _). i \<in> set mroles)"
  have "mset (map ?f (?sel (roles s))) = mset (map ?f (?sel (roles s')))"
    by (simp only: mset_map mset_filter assms(1))
  moreover have "map fst (map ?f (?sel (roles s))) = map (\<lambda>(_, r). rank r) (?sel (roles s))"
    by (simp add: comp_def split_def)
  ultimately show ?thesis
    unfolding server_role_overrides_def using assms(2) by (intro by_rank_perm) (simp_all only:)
qed

theorem role_order_independent_witness:
  "server_role_overrides ex_server [''r''] = server_role_overrides (ex_server\<lparr>owner := ''x''\<rparr>) [''r'']"
  by (rule role_order_independent) (simp_all add: ex_server_def)

definition held_ranks :: "member \<Rightarrow> server \<Rightarrow> int list" where
  "held_ranks m s = List.map_filter (\<lambda>r. map_option rank (map_of (roles s) r)) (member_roles m)"

lemma ranking_fold:
  "foldl (\<lambda>value r. case R r of Some role \<Rightarrow> if rank role < value then rank role else value
      | None \<Rightarrow> value) v rs = fold min (List.map_filter (\<lambda>r. map_option rank (R r)) rs) v"
  by (induction rs arbitrary: v) (auto simp: map_filter_simps min_def split: option.split)

text \<open>A member's ranking is \<open>i64::MIN\<close> for the owner and otherwise the smallest rank
  of the roles held, \<open>i64::MAX\<close> when there is none: nobody outranks the owner.\<close>

theorem ranking_is_minimum:
  "get_ranking m s =
     (if member_user m = owner s then i64_min else Min (set (i64_max # held_ranks m s)))"
  by (simp add: get_ranking_def ranking_fold held_ranks_def Min.set_eq_fold del: set_simps)

end
