(* ===== verification/Interleaving.thy ===== *)
theory Interleaving
  imports Sloga_Prelude
begin

text \<open>
  Handlers that run side by side. A program is what is left of a handler: its result, or its
  next atomic step on the shared state. A system is a list of programs and the state; any of
  them may make the next step.

  \<open>owes I \<Phi> Q p v\<close> is how handlers are proved: from states that meet \<open>I\<close> every step of \<open>p\<close> keeps
  \<open>I\<close> and changes the quantity \<open>\<Phi>\<close> of the state by exactly what \<open>p\<close> owes less afterwards; \<open>v\<close> is
  what it owes now, and when it ends, its result and what it owes then meet \<open>Q\<close>. What a whole
  system owes therefore balances \<open>\<Phi>\<close> in every state it reaches, whoever steps next.
\<close>

section \<open>Programs\<close>

datatype ('s, 'a) prog = Ret "error + 'a" | Step "'s \<Rightarrow> ('s, 'a) prog \<times> 's"

primrec seqP :: "('s, 'a) prog \<Rightarrow> (error + 'a \<Rightarrow> ('s, 'b) prog) \<Rightarrow> ('s, 'b) prog" where
  "seqP (Ret r) f = f r"
| "seqP (Step k) f = Step (\<lambda>s. map_prod (\<lambda>p. seqP p f) id (k s))"

text \<open>\<open>p?\<close> and what follows it: an error leaves the handler.\<close>

definition bindP :: "('s, 'a) prog \<Rightarrow> ('a \<Rightarrow> ('s, 'b) prog) \<Rightarrow> ('s, 'b) prog" where
  "bindP p f = seqP p (\<lambda>r. case r of Inl e \<Rightarrow> Ret (Inl e) | Inr a \<Rightarrow> f a)"

definition okP :: "'a \<Rightarrow> ('s, 'a) prog" where
  "okP a = Ret (Inr a)"

definition errP :: "error \<Rightarrow> ('s, 'a) prog" where
  "errP e = Ret (Inl e)"

definition atomicP :: "('s, 'a) eff \<Rightarrow> ('s, 'a) prog" where
  "atomicP m = Step (\<lambda>s. case m s of (r, s') \<Rightarrow> (Ret r, s'))"

text \<open>A request that somebody sent: what it answers is of no concern to the others.\<close>

definition requestP :: "('s, 'a) prog \<Rightarrow> ('s, unit) prog" where
  "requestP p = seqP p (\<lambda>_. okP ())"

text \<open>\<open>for x in xs\<close>; an error of the body leaves the loop.\<close>

primrec forP :: "('a \<Rightarrow> ('s, unit) prog) \<Rightarrow> 'a list \<Rightarrow> ('s, unit) prog" where
  "forP f [] = okP ()"
| "forP f (x # xs) = bindP (f x) (\<lambda>_. forP f xs)"

text \<open>A handler that runs alone.\<close>

primrec runP :: "('s, 'a) prog \<Rightarrow> 's \<Rightarrow> (error + 'a) \<times> 's" where
  "runP (Ret r) s = (r, s)"
| "runP (Step k) s = (case map_prod runP id (k s) of (f, s') \<Rightarrow> f s')"

fun ended :: "('s, 'a) prog \<Rightarrow> bool" where
  "ended (Ret _) = True"
| "ended (Step _) = False"

lemma bindP_okP [simp]: "bindP (okP a) f = f a"
  by (simp add: okP_def bindP_def)

lemma bindP_errP [simp]: "bindP (errP e) f = errP e"
  by (simp add: errP_def bindP_def)

lemma runP_seqP: "runP (seqP p f) s = (case runP p s of (r, s') \<Rightarrow> runP (f r) s')"
proof (induction p arbitrary: s)
  case (Step k)
  obtain q t where "k s = (q, t)" by (metis prod.exhaust)
  then show ?case using Step [OF rangeI [of k s]] by simp
qed simp

lemma runP_bindP: "runP (bindP p f) s = (case runP p s of (Inl e, s') \<Rightarrow> (Inl e, s') | (Inr a, s') \<Rightarrow> runP (f a) s')"
  by (simp add: bindP_def runP_seqP split: prod.split sum.split)

lemma runP_atomicP: "runP (atomicP m) s = m s"
  by (simp add: atomicP_def split: prod.split)

lemma runP_okP: "runP (okP a) s = (Inr a, s)"
  by (simp add: okP_def)

lemma runP_errP: "runP (errP e) s = (Inl e, s)"
  by (simp add: errP_def)

lemmas runP_simps = runP_bindP runP_atomicP runP_okP runP_errP

section \<open>Systems\<close>

type_synonym 's sys = "('s, unit) prog list \<times> 's"

inductive sys_step :: "'s sys \<Rightarrow> 's sys \<Rightarrow> bool" where
  sys_stepI: "\<lbrakk>i < length ps; ps ! i = Step k; k s = (p', s')\<rbrakk> \<Longrightarrow> sys_step (ps, s) (ps[i := p'], s')"

text \<open>Running a given schedule, for concrete systems: a program that has ended makes no step.\<close>

fun run_schedule :: "nat list \<Rightarrow> 's sys \<Rightarrow> 's sys" where
  "run_schedule [] c = c"
| "run_schedule (i # is) (ps, s) =
     (if i < length ps
      then (case ps ! i of
              Ret _ \<Rightarrow> run_schedule is (ps, s)
            | Step k \<Rightarrow> (case k s of (p', s') \<Rightarrow> run_schedule is (ps[i := p'], s')))
      else run_schedule is (ps, s))"

lemma run_schedule_reaches: "sys_step\<^sup>*\<^sup>* c (run_schedule is c)"
proof (induction "is" c rule: run_schedule.induct)
  case (2 i "is" ps s)
  show ?case
  proof (cases "i < length ps \<and> (\<exists>k. ps ! i = Step k)")
    case True
    then obtain k p' s' where k: "ps ! i = Step k" "k s = (p', s')" "i < length ps" by (metis prod.exhaust)
    then have "sys_step (ps, s) (ps[i := p'], s')" by (intro sys_stepI)
    moreover have "sys_step\<^sup>*\<^sup>* (ps[i := p'], s') (run_schedule is (ps[i := p'], s'))"
      using 2(2) [OF k(3,1) k(2) [symmetric]] .
    ultimately show ?thesis using k by (simp add: converse_rtranclp_into_rtranclp)
  next
    case False
    then show ?thesis using 2(1,3) by (cases "ps ! i") auto
  qed
qed simp

text \<open>A program is a well-founded tree, so every system comes to an end: there is a schedule after
  which all of its programs have ended.\<close>

lemma program_ends: "i < length ps \<Longrightarrow> \<exists>r s'. sys_step\<^sup>*\<^sup>* (ps, s) (ps[i := Ret r], s')"
proof (induction "ps ! i" arbitrary: ps s)
  case (Ret r)
  then show ?case by (metis list_update_id rtranclp.rtrancl_refl)
next
  case (Step k)
  obtain p' t where k: "k s = (p', t)" by (metis prod.exhaust)
  then have 1: "sys_step (ps, s) (ps[i := p'], t)" using Step by (intro sys_stepI [of _ _ k]) auto
  have "\<exists>r s'. sys_step\<^sup>*\<^sup>* (ps[i := p'], t) ((ps[i := p'])[i := Ret r], s')"
    by (rule Step(1) [OF rangeI [of k s]]) (use k Step(3) in auto)
  with 1 show ?case by (metis converse_rtranclp_into_rtranclp list_update_overwrite)
qed

lemma ended_list_update: "ended p \<Longrightarrow> \<forall>j < n. ended (ps ! j) \<Longrightarrow> n < length ps \<Longrightarrow> \<forall>j < Suc n. ended (ps[n := p] ! j)"
  by (auto simp: nth_list_update less_Suc_eq)

lemma system_ends: "\<exists>ps' s'. sys_step\<^sup>*\<^sup>* (ps, s) (ps', s') \<and> length ps' = length ps \<and> (\<forall>p \<in> set ps'. ended p)"
proof -
  have "n \<le> length ps \<Longrightarrow> \<exists>ps' s'. sys_step\<^sup>*\<^sup>* (ps, s) (ps', s') \<and> length ps' = length ps
      \<and> (\<forall>j < n. ended (ps' ! j))" for n
  proof (induction n)
    case (Suc n)
    then obtain qs t where qs: "sys_step\<^sup>*\<^sup>* (ps, s) (qs, t)" "length qs = length ps" "\<forall>j < n. ended (qs ! j)" by auto
    with Suc.prems obtain r t' where "sys_step\<^sup>*\<^sup>* (qs, t) (qs[n := Ret r], t')" using program_ends [of n qs t] by auto
    moreover have "\<forall>j < Suc n. ended (qs[n := Ret r] ! j)" using qs Suc.prems by (intro ended_list_update) auto
    ultimately show ?case using qs by (metis length_list_update rtranclp_trans)
  qed auto
  from this [OF order.refl] show ?thesis by (metis in_set_conv_nth)
qed

section \<open>What programs owe\<close>

inductive owes :: "('s \<Rightarrow> bool) \<Rightarrow> ('s \<Rightarrow> 'v :: ab_group_add) \<Rightarrow> (error + 'a \<Rightarrow> 'v \<Rightarrow> bool)
    \<Rightarrow> ('s, 'a) prog \<Rightarrow> 'v \<Rightarrow> bool" for I \<Phi> Q where
  owes_Ret: "Q r v \<Longrightarrow> owes I \<Phi> Q (Ret r) v"
| owes_Step: "(\<And>s p' s'. I s \<Longrightarrow> k s = (p', s') \<Longrightarrow>
     I s' \<and> (\<exists>v'. owes I \<Phi> Q p' v' \<and> \<Phi> s' + v' = \<Phi> s + v)) \<Longrightarrow> owes I \<Phi> Q (Step k) v"

inductive_cases owes_RetE: "owes I \<Phi> Q (Ret r) v"
inductive_cases owes_StepE: "owes I \<Phi> Q (Step k) v"

abbreviation settles :: "('s \<Rightarrow> bool) \<Rightarrow> ('s \<Rightarrow> 'v :: ab_group_add) \<Rightarrow> ('s, 'a) prog \<Rightarrow> bool" where
  "settles I \<Phi> p \<equiv> owes I \<Phi> (\<lambda>_ u. u = 0) p 0"

text \<open>A part of a handler that owes nothing and answers something that meets \<open>Q\<close>.\<close>

abbreviation answers_with :: "('s \<Rightarrow> bool) \<Rightarrow> ('s \<Rightarrow> 'v :: ab_group_add) \<Rightarrow> ('a \<Rightarrow> bool) \<Rightarrow> ('s, 'a) prog \<Rightarrow> bool" where
  "answers_with I \<Phi> Q p \<equiv> owes I \<Phi> (\<lambda>r u. u = 0 \<and> (\<forall>a. r = Inr a \<longrightarrow> Q a)) p 0"

lemma owes_seqP:
  assumes "owes I \<Phi> Q p v" and Q: "\<And>r u. Q r u \<Longrightarrow> owes I \<Phi> R (f r) u"
  shows "owes I \<Phi> R (seqP p f) v"
  using assms(1)
proof (induction rule: owes.induct)
  case (owes_Ret r v)
  then show ?case by (simp add: Q)
next
  case (owes_Step k v)
  show ?case unfolding seqP.simps
  proof (rule owes.owes_Step)
    fix s p' s' assume s: "I s" "map_prod (\<lambda>p. seqP p f) id (k s) = (p', s')"
    then obtain q where "k s = (q, s')" "p' = seqP q f" by (cases "k s") auto
    then show "I s' \<and> (\<exists>v'. owes I \<Phi> R p' v' \<and> \<Phi> s' + v' = \<Phi> s + v)" using owes_Step.IH [OF s(1)] by blast
  qed
qed

lemma owes_bindP:
  assumes "owes I \<Phi> Q p v" "\<And>e u. Q (Inl e) u \<Longrightarrow> R (Inl e) u" "\<And>a u. Q (Inr a) u \<Longrightarrow> owes I \<Phi> R (f a) u"
  shows "owes I \<Phi> R (bindP p f) v"
  unfolding bindP_def
  by (rule owes_seqP [OF assms(1)]) (auto intro: owes_Ret assms(2,3) split: sum.split)

lemma owes_weaken:
  assumes "owes I \<Phi> Q p v" "\<And>r u. Q r u \<Longrightarrow> R r u"
  shows "owes I \<Phi> R p v"
  using assms(1)
proof (induction rule: owes.induct)
  case (owes_Step k v)
  show ?case by (rule owes.owes_Step) (use owes_Step.IH in blast)
qed (auto intro: owes_Ret assms(2))

lemma owes_atomicP:
  fixes m :: "('s, 'a) eff"
  assumes "\<And>s r s'. I s \<Longrightarrow> m s = (r, s') \<Longrightarrow> I s' \<and> (\<exists>v'. Q r v' \<and> \<Phi> s' + v' = \<Phi> s + v)"
  shows "owes I \<Phi> Q (atomicP m) v"
  unfolding atomicP_def
proof (rule owes_Step)
  fix s s' and p' :: "('s, 'a) prog" assume s: "I s" "(case m s of (r, s') \<Rightarrow> (Ret r, s')) = (p', s')"
  then obtain r where "m s = (r, s')" "p' = Ret r" by (auto split: prod.splits)
  then show "I s' \<and> (\<exists>v'. owes I \<Phi> Q p' v' \<and> \<Phi> s' + v' = \<Phi> s + v)"
    using assms [OF s(1)] by (blast intro: owes_Ret)
qed

lemma owes_okP: "Q (Inr a) v \<Longrightarrow> owes I \<Phi> Q (okP a) v"
  unfolding okP_def by (rule owes_Ret)

lemma owes_errP: "Q (Inl e) v \<Longrightarrow> owes I \<Phi> Q (errP e) v"
  unfolding errP_def by (rule owes_Ret)

lemma settles_requestP: "owes I \<Phi> (\<lambda>_ u. u = 0) p v \<Longrightarrow> owes I \<Phi> (\<lambda>_ u. u = 0) (requestP p) v"
  unfolding requestP_def by (erule owes_seqP) (auto intro: owes_okP)

lemma settles_forP: "(\<And>x. x \<in> set xs \<Longrightarrow> settles I \<Phi> (f x)) \<Longrightarrow> settles I \<Phi> (forP f xs)"
  by (induction xs) (auto intro!: owes_okP owes_bindP)

text \<open>A step that leaves the quantity alone.\<close>

lemma answers_atomicP:
  fixes m :: "('s, 'a) eff"
  assumes "\<And>s. I s \<Longrightarrow> I (snd (m s)) \<and> \<Phi> (snd (m s)) = \<Phi> s \<and> (\<forall>a. fst (m s) = Inr a \<longrightarrow> Q a)"
  shows "answers_with I \<Phi> Q (atomicP m)"
  by (rule owes_atomicP) (use assms in force)

lemma answers_bindP:
  assumes "answers_with I \<Phi> Q p" "\<And>a. Q a \<Longrightarrow> answers_with I \<Phi> R (f a)"
  shows "answers_with I \<Phi> R (bindP p f)"
  by (rule owes_bindP [OF assms(1)]) (use assms(2) in auto)

text \<open>In every state a system reaches, what its programs still owe balances the quantity.\<close>

lemma system_balance:
  assumes "sys_step\<^sup>*\<^sup>* (ps, s) (ps', s')" and "I s"
    and "\<forall>i < length ps. owes I \<Phi> Q (ps ! i) (v i)"
  shows "I s' \<and> length ps' = length ps \<and>
    (\<exists>v'. (\<forall>i < length ps'. owes I \<Phi> Q (ps' ! i) (v' i))
       \<and> \<Phi> s' + (\<Sum>i < length ps'. v' i) = \<Phi> s + (\<Sum>i < length ps. v i))"
  using assms(1)
proof (induction "(ps', s')" arbitrary: ps' s' rule: rtranclp_induct)
  case base
  then show ?case using assms(2,3) by auto
next
  case (step c)
  obtain qs t where c: "c = (qs, t)" by (metis prod.exhaust)
  from step(3) [OF c] obtain v1 where v1: "I t" "length qs = length ps" "\<forall>i < length qs. owes I \<Phi> Q (qs ! i) (v1 i)"
    "\<Phi> t + (\<Sum>i < length qs. v1 i) = \<Phi> s + (\<Sum>i < length ps. v i)" by auto
  from step(2) c obtain j k p where j: "j < length qs" "qs ! j = Step k" "k t = (p, s')" "ps' = qs[j := p]"
    by (auto elim: sys_step.cases)
  have "owes I \<Phi> Q (Step k) (v1 j)" using v1(3) j by metis
  then obtain u where u: "I s'" "owes I \<Phi> Q p u" "\<Phi> s' + u = \<Phi> t + v1 j"
    using v1(1) j(3) by (blast elim: owes_StepE)
  let ?v = "v1(j := u)"
  let ?rest = "\<Sum>i \<in> {..<length qs} - {j}. v1 i"
  have new: "(\<Sum>i < length qs. ?v i) = ?rest + u" using j(1) by (subst sum.remove [of _ j]) auto
  have old: "(\<Sum>i < length qs. v1 i) = ?rest + v1 j" using j(1) by (subst sum.remove [of _ j]) auto
  have "\<Phi> s' + (?rest + u) = \<Phi> t + (?rest + v1 j)" using u(3) by (metis add.assoc add.commute)
  then have "\<Phi> s' + (\<Sum>i < length qs. ?v i) = \<Phi> s + (\<Sum>i < length ps. v i)" using new old v1(4) by metis
  moreover have "\<forall>i < length ps'. owes I \<Phi> Q (ps' ! i) (?v i)" using v1(3) u(2) j by (auto simp: nth_list_update)
  ultimately show ?case using u(1) v1(2) j(4) by (intro conjI exI [of _ ?v]) auto
qed

lemma system_settled:
  assumes "sys_step\<^sup>*\<^sup>* (ps, s) (ps', s')" "I s" "\<forall>p \<in> set ps. settles I \<Phi> p" "\<forall>p \<in> set ps'. ended p"
  shows "I s' \<and> \<Phi> s' = \<Phi> s"
proof -
  obtain v' where v': "I s'" "\<forall>i < length ps'. owes I \<Phi> (\<lambda>_ u. u = 0) (ps' ! i) (v' i)"
    "\<Phi> s' + (\<Sum>i < length ps'. v' i) = \<Phi> s"
    using system_balance [where I = I and \<Phi> = \<Phi> and v = "\<lambda>_. 0" and Q = "\<lambda>_ u. u = 0", OF assms(1,2)] assms(3) by auto
  have "v' i = 0" if i: "i < length ps'" for i
  proof -
    obtain r where "ps' ! i = Ret r" using assms(4) nth_mem [OF i] by (metis ended.elims(2))
    then show ?thesis using v'(2) i by (metis owes_RetE)
  qed
  then show ?thesis using v' by simp
qed

lemma system_keeps:
  assumes "sys_step\<^sup>*\<^sup>* (ps, s) (ps', s')" "I s" "\<forall>p \<in> set ps. owes I \<Phi> Q p 0"
  shows "I s'"
  using system_balance [where I = I and \<Phi> = \<Phi> and v = "\<lambda>_. 0" and Q = Q, OF assms(1,2)] assms(3) by auto

end
