(* ===== verification/Polls.thy ===== *)
theory Polls
  imports Permission_Props Interleaving Payment_Catalog
begin

text \<open>
  Polls: the rows and operations of \<open>crates/core/database/src/models/polls\<close> (reference database),
  the routes \<open>poll_vote\<close>, \<open>poll_unvote\<close>, \<open>poll_end\<close>, \<open>poll_fetch\<close>, \<open>polls_fetch_bulk\<close> and
  \<open>poll_voters\<close> of \<open>crates/delta/src/routes/channels\<close>, and one pass of the expiry daemon.

  Every call of the database and every published event is one atomic step of a program
  (\<open>Interleaving\<close>), so that the routes and the daemon run side by side as they do in production.
  The permission tables are not written by any of these handlers; the permission check at the
  head of a route is therefore one step. \<open>tm\<close> is the clock the permission check reads and
  \<open>now\<close> the clock in milliseconds; \<open>ve\<close> is the text the validator crate gives a rejected body.
\<close>

section \<open>Data\<close>

type_synonym u8 = "8 word"

record poll_answer =
  pa_id :: u8
  pa_text :: string
  pa_emoji :: "string option"

record poll_answer_count =
  pc_answer_id :: u8
  pc_count :: int

record poll_definition =
  pd_id :: string
  pd_question :: string
  pd_answers :: "poll_answer list"
  pd_allow_multiselect :: bool
  pd_expires_at :: int

record poll =
  vp_id :: string
  vp_message :: string
  vp_channel :: string
  vp_server :: "string option"
  vp_author :: string
  vp_question :: string
  vp_answers :: "poll_answer list"
  vp_allow_multiselect :: bool
  vp_expires_at :: int
  vp_closed :: bool
  vp_counts :: "(string, int) table"
  vp_total_votes :: int

record poll_vote_row =
  bv_id :: string
  bv_poll :: string
  bv_user :: string
  bv_channel :: string
  bv_answer_ids :: "u8 list"

text \<open>What a client is shown of a poll (\<open>v0::Poll\<close>).\<close>

record poll_model =
  pm_id :: string
  pm_message_id :: string
  pm_channel_id :: string
  pm_author_id :: string
  pm_closed :: bool
  pm_expires_at :: int
  pm_counts :: "poll_answer_count list option"
  pm_total_votes :: "int option"
  pm_my_votes :: "u8 list option"

datatype poll_event =
    PollVoteUpdate (pe_id: string) (pe_channel_id: string) (pe_message_id: string)
      (pe_counts: "poll_answer_count list") (pe_total_votes: int)
  | PollClose (pe_id: string) (pe_channel_id: string) (pe_message_id: string)
      (pe_counts: "poll_answer_count list") (pe_total_votes: int)

text \<open>The published events are kept with their topics, in the order they were published.\<close>

record poll_db =
  pb_perm :: pdb
  pb_polls :: "(string, poll) table"
  pb_votes :: "(string, poll_vote_row) table"
  pb_events :: "(string \<times> poll_event) list"

section \<open>Poll methods\<close>

definition vote_key :: "string \<Rightarrow> string \<Rightarrow> string" where
  "vote_key p u = p @ '':'' @ u"

definition is_expired :: "poll \<Rightarrow> int \<Rightarrow> bool" where
  "is_expired p now_ms \<longleftrightarrow> vp_expires_at p \<le> now_ms"

text \<open>A count in a hash map keyed by the decimal answer id; a missing entry is 0.\<close>

definition count_of :: "(string, int) table \<Rightarrow> string \<Rightarrow> int" where
  "count_of t k = (case map_of t k of Some c \<Rightarrow> c | None \<Rightarrow> 0)"

definition answer_key :: "u8 \<Rightarrow> string" where
  "answer_key a = decimal (unat a)"

definition wire_counts :: "poll_answer list \<Rightarrow> (string, int) table \<Rightarrow> poll_answer_count list" where
  "wire_counts answers t = map (\<lambda>a. \<lparr>pc_answer_id = pa_id a, pc_count = count_of t (answer_key (pa_id a))\<rparr>) answers"

definition counts_vec :: "poll \<Rightarrow> poll_answer_count list" where
  "counts_vec p = wire_counts (vp_answers p) (vp_counts p)"

definition definition_of :: "poll \<Rightarrow> poll_definition" where
  "definition_of p = \<lparr>pd_id = vp_id p, pd_question = vp_question p, pd_answers = vp_answers p,
     pd_allow_multiselect = vp_allow_multiselect p, pd_expires_at = vp_expires_at p\<rparr>"

definition into_model :: "poll \<Rightarrow> u8 list option \<Rightarrow> bool \<Rightarrow> poll_model" where
  "into_model p my_votes include_counts =
     \<lparr>pm_id = vp_id p, pm_message_id = vp_message p, pm_channel_id = vp_channel p,
      pm_author_id = vp_author p, pm_closed = vp_closed p, pm_expires_at = vp_expires_at p,
      pm_counts = (if include_counts then Some (counts_vec p) else None),
      pm_total_votes = (if include_counts then Some (vp_total_votes p) else None),
      pm_my_votes = my_votes\<rparr>"

text \<open>\<open>*counts.entry(id.to_string()).or_insert(0) += d\<close>\<close>

definition bump :: "int \<Rightarrow> (string, int) table \<Rightarrow> u8 \<Rightarrow> (string, int) table" where
  "bump d t a = AList.update (answer_key a) (wrap_i64 (count_of t (answer_key a) + d)) t"

section \<open>The reference database\<close>

definition insert_poll :: "poll \<Rightarrow> (poll_db, unit) eff" where
  "insert_poll p =
     bindE getE (\<lambda>s.
     thenE (modE (\<lambda>s. s\<lparr>pb_polls := AList.update (vp_id p) p (pb_polls s)\<rparr>))
     (if map_of (pb_polls s) (vp_id p) \<noteq> None then errE (DatabaseError ''insert'' ''polls'') else okE ()))"

definition fetch_poll :: "string \<Rightarrow> (poll_db, poll) eff" where
  "fetch_poll q = bindE getE (\<lambda>s. resE (fetch_of (map_of (pb_polls s) q)))"

definition fetch_polls :: "string list \<Rightarrow> (poll_db, poll list) eff" where
  "fetch_polls ids = bindE getE (\<lambda>s. okE (List.map_filter (map_of (pb_polls s)) ids))"

definition upsert_poll_vote :: "poll_vote_row \<Rightarrow> (poll_db, u8 list option) eff" where
  "upsert_poll_vote v =
     bindE getE (\<lambda>s.
     thenE (modE (\<lambda>s. s\<lparr>pb_votes := AList.update (bv_id v) v (pb_votes s)\<rparr>))
     (okE (map_option bv_answer_ids (map_of (pb_votes s) (bv_id v)))))"

definition remove_poll_vote :: "string \<Rightarrow> string \<Rightarrow> (poll_db, u8 list option) eff" where
  "remove_poll_vote q u =
     bindE getE (\<lambda>s.
     thenE (modE (\<lambda>s. s\<lparr>pb_votes := AList.delete (vote_key q u) (pb_votes s)\<rparr>))
     (okE (map_option bv_answer_ids (map_of (pb_votes s) (vote_key q u)))))"

definition fetch_poll_vote :: "string \<Rightarrow> string \<Rightarrow> (poll_db, poll_vote_row option) eff" where
  "fetch_poll_vote q u = bindE getE (\<lambda>s. okE (map_of (pb_votes s) (vote_key q u)))"

definition fetch_poll_votes_for_user :: "string list \<Rightarrow> string \<Rightarrow> (poll_db, poll_vote_row list) eff" where
  "fetch_poll_votes_for_user ids u =
     bindE getE (\<lambda>s. okE (List.map_filter (\<lambda>q. map_of (pb_votes s) (vote_key q u)) ids))"

definition fetch_poll_votes :: "string \<Rightarrow> (poll_db, poll_vote_row list) eff" where
  "fetch_poll_votes q = bindE getE (\<lambda>s. okE (filter (\<lambda>v. bv_poll v = q) (rows (pb_votes s))))"

definition fetch_poll_voters_page ::
    "string \<Rightarrow> u8 \<Rightarrow> string option \<Rightarrow> int \<Rightarrow> (poll_db, poll_vote_row list) eff" where
  "fetch_poll_voters_page q a after limit =
     bindE getE (\<lambda>s.
     okE (take (nat (max limit 0))
       (sort_key bv_id (filter (\<lambda>v. bv_poll v = q \<and> a \<in> set (bv_answer_ids v)
            \<and> (case after of None \<Rightarrow> True | Some c \<Rightarrow> c < bv_id v))
          (rows (pb_votes s))))))"

definition update_poll :: "string \<Rightarrow> (poll \<Rightarrow> poll) \<Rightarrow> poll_db \<Rightarrow> poll_db" where
  "update_poll q f s =
     (case map_of (pb_polls s) q of
        Some p \<Rightarrow> s\<lparr>pb_polls := AList.update q (f p) (pb_polls s)\<rparr>
      | None \<Rightarrow> s)"

definition apply_delta :: "(string, int) table \<Rightarrow> string \<times> int \<Rightarrow> (string, int) table" where
  "apply_delta t kd =
     (let c = wrap_i64 (count_of t (fst kd) + snd kd) in
      if c = 0 then AList.delete (fst kd) t else AList.update (fst kd) c t)"

definition apply_poll_count_deltas :: "string \<Rightarrow> (string, int) table \<Rightarrow> int \<Rightarrow> (poll_db, unit) eff" where
  "apply_poll_count_deltas q deltas ballot_delta =
     modE (update_poll q (\<lambda>p. p\<lparr>vp_counts := foldl apply_delta (vp_counts p) deltas,
       vp_total_votes := wrap_i64 (vp_total_votes p + ballot_delta)\<rparr>))"

definition set_poll_counts :: "string \<Rightarrow> (string, int) table \<Rightarrow> int \<Rightarrow> (poll_db, unit) eff" where
  "set_poll_counts q counts total_votes =
     modE (update_poll q (\<lambda>p. p\<lparr>vp_counts := counts, vp_total_votes := total_votes\<rparr>))"

definition close_poll_if_open :: "string \<Rightarrow> (poll_db, bool) eff" where
  "close_poll_if_open q =
     bindE getE (\<lambda>s.
     case map_of (pb_polls s) q of
       Some p \<Rightarrow> if \<not> vp_closed p
                 then thenE (modE (update_poll q (\<lambda>p. p\<lparr>vp_closed := True\<rparr>))) (okE True)
                 else okE False
     | None \<Rightarrow> okE False)"

definition fetch_expired_open_polls :: "int \<Rightarrow> (poll_db, poll list) eff" where
  "fetch_expired_open_polls now_ms =
     bindE getE (\<lambda>s. okE (filter (\<lambda>p. \<not> vp_closed p \<and> vp_expires_at p \<le> now_ms) (rows (pb_polls s))))"

definition delete_polls_for_messages :: "string list \<Rightarrow> (poll_db, unit) eff" where
  "delete_polls_for_messages message_ids =
     bindE getE (\<lambda>s.
     let poll_ids = map vp_id (filter (\<lambda>p. vp_message p \<in> set message_ids) (rows (pb_polls s))) in
     if poll_ids = [] then okE ()
     else modE (\<lambda>s. s\<lparr>pb_polls := filter (\<lambda>(q, _). q \<notin> set poll_ids) (pb_polls s),
                      pb_votes := filter (\<lambda>(_, v). bv_poll v \<notin> set poll_ids) (pb_votes s)\<rparr>))"

definition delete_polls_for_channel :: "string \<Rightarrow> (poll_db, unit) eff" where
  "delete_polls_for_channel c =
     modE (\<lambda>s. s\<lparr>pb_polls := filter (\<lambda>(_, p). vp_channel p \<noteq> c) (pb_polls s),
                  pb_votes := filter (\<lambda>(_, v). bv_channel v \<noteq> c) (pb_votes s)\<rparr>)"

definition publish :: "string \<Rightarrow> poll_event \<Rightarrow> (poll_db, unit) eff" where
  "publish topic event = modE (\<lambda>s. s\<lparr>pb_events := pb_events s @ [(topic, event)]\<rparr>)"

section \<open>Recounting and closing\<close>

definition recount_counts :: "poll_vote_row list \<Rightarrow> (string, int) table" where
  "recount_counts votes = foldl (\<lambda>t v. foldl (bump 1) t (bv_answer_ids v)) [] votes"

definition recount :: "poll \<Rightarrow> (poll_db, poll_answer_count list \<times> int) prog" where
  "recount p =
     bindP (atomicP (fetch_poll_votes (vp_id p))) (\<lambda>votes.
     let counts = recount_counts votes; total_votes = wrap_i64 (int (length votes)) in
     bindP (atomicP (set_poll_counts (vp_id p) counts total_votes)) (\<lambda>_.
     okP (wire_counts (vp_answers p) counts, total_votes)))"

definition close_poll :: "poll \<Rightarrow> (poll_db, (poll_answer_count list \<times> int) option) prog" where
  "close_poll p =
     bindP (atomicP (close_poll_if_open (vp_id p))) (\<lambda>won.
     if \<not> won then okP None
     else bindP (recount p) (\<lambda>(final_counts, total_votes).
       bindP (atomicP (publish (vp_channel p)
         (PollClose (vp_id p) (vp_channel p) (vp_message p) final_counts total_votes))) (\<lambda>_.
       okP (Some (final_counts, total_votes)))))"

section \<open>Routes\<close>

definition can_see_counts :: "poll \<Rightarrow> string \<Rightarrow> u64 \<Rightarrow> bool \<Rightarrow> bool" where
  "can_see_counts p uid perms has_voted \<longleftrightarrow>
     vp_closed p \<or> has_voted \<or> vp_author p = uid \<or> has_channel_permission perms ManageMessages"

text \<open>The head of every route: the channel, and the caller's permissions in it.\<close>

definition poll_gate :: "int \<Rightarrow> puser \<Rightarrow> string \<Rightarrow> (poll_db, channel \<times> u64) eff" where
  "poll_gate tm u target =
     bindE getE (\<lambda>s.
     bindE (resE (fetch_channel (pb_perm s) target)) (\<lambda>channel.
     bindE (resE (permission_target (pb_perm s) channel)) (\<lambda>permission_channel.
     bindE (resE (fst (calculate_channel_permissions (database_query (pb_perm s) tm)
                        (with_channel permission_channel (q_new u))))) (\<lambda>perms.
     thenE (resE (throw_if_lacking_channel_permission perms ViewChannel))
     (okE (channel, perms))))))"

definition resolve_open_poll :: "int \<Rightarrow> int \<Rightarrow> puser \<Rightarrow> string \<Rightarrow> string \<Rightarrow> (poll_db, poll) prog" where
  "resolve_open_poll tm now u target poll_id =
     bindP (atomicP (poll_gate tm u target)) (\<lambda>(channel, perms).
     bindP (atomicP (fetch_poll poll_id)) (\<lambda>p.
     if vp_channel p \<noteq> channel_id channel then errP NotFound
     else if vp_closed p then errP PollClosed
     else if is_expired p now then bindP (close_poll p) (\<lambda>_. errP PollClosed)
     else okP p))"

definition publish_vote_update :: "poll \<Rightarrow> (poll_db, unit) eff" where
  "publish_vote_update p =
     publish (vp_channel p)
       (PollVoteUpdate (vp_id p) (vp_channel p) (vp_message p) (counts_vec p) (vp_total_votes p))"

definition compensate_write_after_close :: "poll \<Rightarrow> string \<Rightarrow> u8 list option \<Rightarrow> (poll_db, unit) prog" where
  "compensate_write_after_close p uid previous =
     bindP (case previous of
              Some answer_ids \<Rightarrow>
                atomicP (upsert_poll_vote \<lparr>bv_id = vote_key (vp_id p) uid, bv_poll = vp_id p, bv_user = uid,
                  bv_channel = vp_channel p, bv_answer_ids = answer_ids\<rparr>)
            | None \<Rightarrow> atomicP (remove_poll_vote (vp_id p) uid)) (\<lambda>_.
     bindP (recount p) (\<lambda>_. errP PollClosed))"

text \<open>The count deltas of a ballot: minus one for every answer of the previous one, plus one for
  every answer of the new one; answers in both cancel out.\<close>

definition vote_deltas :: "u8 list option \<Rightarrow> u8 list \<Rightarrow> (string, int) table" where
  "vote_deltas previous answer_ids =
     filter (\<lambda>(_, delta). delta \<noteq> 0)
       (foldl (bump 1)
         (foldl (bump (- 1)) [] (case previous of Some ids \<Rightarrow> ids | None \<Rightarrow> []))
         answer_ids)"

definition poll_vote :: "string \<Rightarrow> int \<Rightarrow> int \<Rightarrow> puser \<Rightarrow> string \<Rightarrow> string \<Rightarrow> u8 list \<Rightarrow> (poll_db, poll_model) prog" where
  "poll_vote ve tm now u target poll_id data =
     (if \<not> (1 \<le> length data \<and> length data \<le> 10) then errP (FailedValidation ve)
      else bindP (resolve_open_poll tm now u target poll_id) (\<lambda>p.
        let answer_ids = remdups_adj (sort data) in
        if \<not> vp_allow_multiselect p \<and> length answer_ids \<noteq> 1 then errP InvalidProperty
        else if \<not> list_all (\<lambda>a. a \<in> set (map pa_id (vp_answers p))) answer_ids then errP InvalidProperty
        else bindP (atomicP (upsert_poll_vote \<lparr>bv_id = vote_key (vp_id p) (user_id u), bv_poll = vp_id p,
               bv_user = user_id u, bv_channel = vp_channel p, bv_answer_ids = answer_ids\<rparr>)) (\<lambda>previous.
          bindP (atomicP (apply_poll_count_deltas (vp_id p) (vote_deltas previous answer_ids)
            (if previous = None then 1 else 0))) (\<lambda>_.
          bindP (atomicP (fetch_poll (vp_id p))) (\<lambda>p'.
          bindP (if vp_closed p' then compensate_write_after_close p' (user_id u) previous else okP ()) (\<lambda>_.
          bindP (atomicP (publish_vote_update p')) (\<lambda>_.
          okP (into_model p' (Some answer_ids) True))))))))"

definition poll_unvote :: "int \<Rightarrow> int \<Rightarrow> puser \<Rightarrow> string \<Rightarrow> string \<Rightarrow> (poll_db, poll_model) prog" where
  "poll_unvote tm now u target poll_id =
     bindP (resolve_open_poll tm now u target poll_id) (\<lambda>p.
     bindP (atomicP (remove_poll_vote (vp_id p) (user_id u))) (\<lambda>previous.
     bindP (case previous of
              None \<Rightarrow> okP ()
            | Some removed \<Rightarrow>
                bindP (atomicP (apply_poll_count_deltas (vp_id p) (foldl (bump (- 1)) [] removed) (- 1))) (\<lambda>_.
                bindP (atomicP (fetch_poll (vp_id p))) (\<lambda>p'.
                bindP (if vp_closed p' then compensate_write_after_close p' (user_id u) previous else okP ()) (\<lambda>_.
                atomicP (publish_vote_update p'))))) (\<lambda>_.
     bindP (atomicP (fetch_poll (vp_id p))) (\<lambda>p'.
     okP (into_model p' None (vp_author p' = user_id u))))))"

definition poll_end :: "int \<Rightarrow> puser \<Rightarrow> string \<Rightarrow> string \<Rightarrow> (poll_db, poll_model) prog" where
  "poll_end tm u target poll_id =
     bindP (atomicP (poll_gate tm u target)) (\<lambda>(channel, perms).
     bindP (atomicP (fetch_poll poll_id)) (\<lambda>p.
     if vp_channel p \<noteq> channel_id channel then errP NotFound
     else bindP (if vp_author p \<noteq> user_id u
                 then Ret (throw_if_lacking_channel_permission perms ManageMessages)
                 else okP ()) (\<lambda>_.
       bindP (close_poll p) (\<lambda>_.
       bindP (atomicP (fetch_poll poll_id)) (\<lambda>p'.
       bindP (atomicP (fetch_poll_vote (vp_id p') (user_id u))) (\<lambda>my.
       okP (into_model p' (map_option bv_answer_ids my) True)))))))"

definition poll_fetch :: "int \<Rightarrow> int \<Rightarrow> puser \<Rightarrow> string \<Rightarrow> string \<Rightarrow> (poll_db, poll_model) prog" where
  "poll_fetch tm now u target poll_id =
     bindP (atomicP (poll_gate tm u target)) (\<lambda>(channel, perms).
     bindP (atomicP (fetch_poll poll_id)) (\<lambda>p.
     if vp_channel p \<noteq> channel_id channel then errP NotFound
     else bindP (if \<not> vp_closed p \<and> is_expired p now
                 then bindP (close_poll p) (\<lambda>_. atomicP (fetch_poll poll_id))
                 else okP p) (\<lambda>p'.
       bindP (atomicP (fetch_poll_vote (vp_id p') (user_id u))) (\<lambda>my.
       let my_votes = map_option bv_answer_ids my in
       okP (into_model p' my_votes (can_see_counts p' (user_id u) perms (my_votes \<noteq> None)))))))"

text \<open>\<open>polls.iter_mut().find(|poll| poll.id == updated.id)\<close>, and the slot is overwritten.\<close>

fun replace_slot :: "poll list \<Rightarrow> poll \<Rightarrow> poll list" where
  "replace_slot [] q = []"
| "replace_slot (p # ps) q = (if vp_id p = vp_id q then q # ps else p # replace_slot ps q)"

definition polls_fetch_bulk ::
    "string \<Rightarrow> int \<Rightarrow> int \<Rightarrow> puser \<Rightarrow> string \<Rightarrow> string list \<Rightarrow> (poll_db, poll_model list) prog" where
  "polls_fetch_bulk ve tm now u target ids =
     (if \<not> (1 \<le> length ids \<and> length ids \<le> 100) then errP (FailedValidation ve)
      else bindP (atomicP (poll_gate tm u target)) (\<lambda>(channel, perms).
        bindP (atomicP (fetch_polls ids)) (\<lambda>fetched.
        let polls = filter (\<lambda>p. vp_channel p = channel_id channel) fetched;
            due = filter (\<lambda>p. \<not> vp_closed p \<and> is_expired p now) polls;
            refetch = map vp_id due in
        bindP (forP (\<lambda>p. bindP (close_poll p) (\<lambda>_. okP ())) due) (\<lambda>_.
        bindP (if refetch \<noteq> []
               then bindP (atomicP (fetch_polls refetch)) (\<lambda>closed. okP (foldl replace_slot polls closed))
               else okP polls) (\<lambda>polls'.
        bindP (atomicP (fetch_poll_votes_for_user (map vp_id polls') (user_id u))) (\<lambda>my_votes.
        okP (map (\<lambda>p.
          let mine = map_option bv_answer_ids (List.find (\<lambda>v. bv_poll v = vp_id p) my_votes) in
          into_model p mine (can_see_counts p (user_id u) perms (mine \<noteq> None))) polls')))))))"

text \<open>The accounts \<open>poll_voters\<close> lists, before they are rendered for the caller.\<close>

definition poll_voters ::
    "int \<Rightarrow> puser \<Rightarrow> string \<Rightarrow> string \<Rightarrow> u8 \<Rightarrow> string option \<Rightarrow> int option \<Rightarrow> (poll_db, puser list) prog" where
  "poll_voters tm u target poll_id a after limit =
     bindP (atomicP (poll_gate tm u target)) (\<lambda>(channel, perms).
     bindP (atomicP (fetch_poll poll_id)) (\<lambda>p.
     if vp_channel p \<noteq> channel_id channel then errP NotFound
     else bindP (if vp_author p \<noteq> user_id u
                 then Ret (throw_if_lacking_channel_permission perms ManageMessages)
                 else okP ()) (\<lambda>_.
       let limit' = min (max (case limit of Some n \<Rightarrow> n | None \<Rightarrow> 50) 1) 100 in
       bindP (atomicP (fetch_poll_voters_page (vp_id p) a after limit')) (\<lambda>votes.
       atomicP (\<lambda>s. (fetch_users (pb_perm s) (map bv_user votes), s))))))"

section \<open>The expiry daemon\<close>

text \<open>One pass of the daemon's loop; what a close answers, an error included, does not end it.\<close>

definition poll_expiry_pass :: "int \<Rightarrow> (poll_db, unit) prog" where
  "poll_expiry_pass now =
     bindP (atomicP (fetch_expired_open_polls now)) (\<lambda>due.
     forP (\<lambda>p. seqP (close_poll p) (\<lambda>_. okP ())) due)"

end
