(* ===== verification/Poll_Handlers.thy ===== *)
theory Poll_Handlers
  imports Polls
begin

text \<open>
  How the poll routes and the expiry daemon act on the poll tables when they run side by side.
  The locale \<open>poll_ledger\<close> says what a quantity of the tables needs so that every handler
  settles it: between a ballot and its count deltas a handler may owe \<open>debt\<close>, between the
  closing flip and the \<open>PollClose\<close> event it may owe \<open>fee\<close>. It is interpreted three times: for the
  drift between the counters and the ballots of an open poll (\<open>dr\<close>), for the number of
  \<open>PollClose\<close> events (\<open>cl\<close>) and for the well-formedness of the tables alone (\<open>wf\<close>).
\<close>

section \<open>Requests\<close>

datatype poll_request =
    Vote string int int puser string string "u8 list"
  | Unvote int int puser string string
  | End int puser string string
  | Fetch int int puser string string
  | FetchBulk string int int puser string "string list"
  | Voters int puser string string u8 "string option" "int option"
  | Expiry int

fun poll_program :: "poll_request \<Rightarrow> (poll_db, unit) prog" where
  "poll_program (Vote ve tm now u target q ids) = requestP (poll_vote ve tm now u target q ids)"
| "poll_program (Unvote tm now u target q) = requestP (poll_unvote tm now u target q)"
| "poll_program (End tm u target q) = requestP (poll_end tm u target q)"
| "poll_program (Fetch tm now u target q) = requestP (poll_fetch tm now u target q)"
| "poll_program (FetchBulk ve tm now u target qs) = requestP (polls_fetch_bulk ve tm now u target qs)"
| "poll_program (Voters tm u target q a after limit) = requestP (poll_voters tm u target q a after limit)"
| "poll_program (Expiry now) = poll_expiry_pass now"

text \<open>What a request may close: a poll that has expired by its clock, or the poll it ends.\<close>

fun may_end :: "poll_request \<Rightarrow> poll \<Rightarrow> bool" where
  "may_end (Vote _ _ now _ _ _ _) p = is_expired p now"
| "may_end (Unvote _ now _ _ _) p = is_expired p now"
| "may_end (End _ _ _ q) p = (vp_id p = q)"
| "may_end (Fetch _ now _ _ _) p = is_expired p now"
| "may_end (FetchBulk _ _ now _ _ _) p = is_expired p now"
| "may_end (Voters _ _ _ _ _ _ _) p = False"
| "may_end (Expiry now) p = is_expired p now"

section \<open>Well-formed tables\<close>

text \<open>Rows are stored under their own ids and poll ids (ULIDs) have no colon, so that a ballot key
  belongs to one poll.\<close>

definition polls_ok :: "(string, poll) table \<Rightarrow> bool" where
  "polls_ok t \<longleftrightarrow> keyed vp_id t \<and> list_all (\<lambda>(q, _). CHR '':'' \<notin> set q) t"

definition votes_ok :: "(string, poll_vote_row) table \<Rightarrow> bool" where
  "votes_ok t \<longleftrightarrow> keyed bv_id t
     \<and> list_all (\<lambda>(k, v). k = vote_key (bv_poll v) (bv_user v) \<and> CHR '':'' \<notin> set (bv_poll v)) t"

definition poll_db_ok :: "poll_db \<Rightarrow> bool" where
  "poll_db_ok s \<longleftrightarrow> polls_ok (pb_polls s) \<and> votes_ok (pb_votes s)"

section \<open>Handlers settle every such quantity\<close>

lemmas poll_runs = fetch_poll_def fetch_polls_def upsert_poll_vote_def remove_poll_vote_def fetch_poll_vote_def
  fetch_poll_votes_for_user_def fetch_poll_votes_def fetch_poll_voters_page_def apply_poll_count_deltas_def
  set_poll_counts_def close_poll_if_open_def fetch_expired_open_polls_def publish_def publish_vote_update_def
  eff_simps

locale poll_ledger =
  fixes I :: "poll_db \<Rightarrow> bool" and \<Phi> :: "poll_db \<Rightarrow> 'v :: ab_group_add"
    and snap :: "poll \<Rightarrow> bool" and may_close :: "poll \<Rightarrow> bool"
    and debt :: "poll \<Rightarrow> u8 list option \<Rightarrow> u8 list option \<Rightarrow> 'v" and fee :: "poll \<Rightarrow> 'v"
  assumes stored_snap: "\<lbrakk>I s; p \<in> set (rows (pb_polls s))\<rbrakk> \<Longrightarrow> snap p"
    and stored_id: "\<lbrakk>I s; map_of (pb_polls s) q = Some p\<rbrakk> \<Longrightarrow> vp_id p = q"
    and cast: "\<lbrakk>I s; snap p; v = \<lparr>bv_id = vote_key (vp_id p) u, bv_poll = vp_id p, bv_user = u, bv_channel = c,
        bv_answer_ids = ids\<rparr>; upsert_poll_vote v s = (Inr prev, s')\<rbrakk> \<Longrightarrow> I s' \<and> \<Phi> s' + debt p prev (Some ids) = \<Phi> s"
    and retract: "\<lbrakk>I s; snap p; remove_poll_vote (vp_id p) u s = (Inr prev, s')\<rbrakk> \<Longrightarrow> I s' \<and> \<Phi> s' + debt p prev None = \<Phi> s"
    and cast_deltas: "\<lbrakk>I s; snap p; apply_poll_count_deltas (vp_id p) (vote_deltas prev ids)
        (if prev = None then 1 else 0) s = (r, s')\<rbrakk> \<Longrightarrow> I s' \<and> \<Phi> s' = \<Phi> s + debt p prev (Some ids)"
    and retract_deltas: "\<lbrakk>I s; snap p; apply_poll_count_deltas (vp_id p) (foldl (bump (- 1)) [] ids) (- 1) s = (r, s')\<rbrakk>
        \<Longrightarrow> I s' \<and> \<Phi> s' = \<Phi> s + debt p (Some ids) None"
    and no_debt: "debt p None None = 0"
    and closed_free: "\<lbrakk>snap p; vp_closed p\<rbrakk> \<Longrightarrow> may_close p \<and> debt p prev new = 0"
    and flip: "\<lbrakk>I s; snap p; may_close p; close_poll_if_open (vp_id p) s = (Inr won, s')\<rbrakk>
        \<Longrightarrow> I s' \<and> \<Phi> s' + (if won then fee p else 0) = \<Phi> s"
    and overwrite: "\<lbrakk>I s; snap p; may_close p; set_poll_counts (vp_id p) (recount_counts votes)
        (wrap_i64 (int (length votes))) s = (r, s')\<rbrakk> \<Longrightarrow> I s' \<and> \<Phi> s' = \<Phi> s"
    and announce: "\<lbrakk>I s; snap p; publish t (PollClose (vp_id p) c m cs n) s = (r, s')\<rbrakk> \<Longrightarrow> I s' \<and> \<Phi> s' = \<Phi> s + fee p"
    and update: "\<lbrakk>I s; publish t (PollVoteUpdate i c m cs n) s = (r, s')\<rbrakk> \<Longrightarrow> I s' \<and> \<Phi> s' = \<Phi> s"
begin

lemma reads:
  "(\<And>s. I s \<Longrightarrow> snd (m s) = s \<and> (\<forall>a. fst (m s) = Inr a \<longrightarrow> Q a)) \<Longrightarrow> answers_with I \<Phi> Q (atomicP m)"
  by (rule answers_atomicP) simp

lemma gate_reads: "answers_with I \<Phi> (\<lambda>_. True) (atomicP (poll_gate tm u target))"
  by (rule reads) (simp add: poll_gate_def eff_simps split: prod.splits sum.splits)

lemma fetch_reads: "answers_with I \<Phi> (\<lambda>p. snap p \<and> vp_id p = q) (atomicP (fetch_poll q))"
  by (rule reads) (auto simp: poll_runs fetch_of_def split: option.splits intro: stored_snap stored_id rows_lookup)

lemma fetch_list_reads: "answers_with I \<Phi> (\<lambda>ps. \<forall>p \<in> set ps. snap p) (atomicP (fetch_polls qs))"
  by (rule reads) (auto simp: poll_runs map_filter_def intro!: stored_snap dest: rows_lookup)

lemma fetch_expired_reads: "answers_with I \<Phi> (\<lambda>ps. \<forall>p \<in> set ps. snap p \<and> is_expired p now) (atomicP (fetch_expired_open_polls now))"
  by (rule reads) (auto simp: poll_runs is_expired_def intro: stored_snap)

lemma vote_reads:
  "answers_with I \<Phi> (\<lambda>_. True) (atomicP (fetch_poll_vote q u))"
  "answers_with I \<Phi> (\<lambda>_. True) (atomicP (fetch_poll_votes_for_user qs u))"
  "answers_with I \<Phi> (\<lambda>_. True) (atomicP (fetch_poll_voters_page q a after limit))"
  "answers_with I \<Phi> (\<lambda>_. True) (atomicP (\<lambda>s. (fetch_users (pb_perm s) us, s)))"
  by (rule reads; simp add: poll_runs)+

lemma recount_settles:
  assumes "snap p" "may_close p"
  shows "owes I \<Phi> (\<lambda>r u. (\<exists>a. r = Inr a) \<and> u = v) (recount p) v"
proof -
  have 1: "owes I \<Phi> (\<lambda>r u. (\<exists>a. r = Inr a) \<and> u = v) (atomicP (fetch_poll_votes (vp_id p))) v"
    by (rule owes_atomicP) (auto simp: poll_runs)
  have 2: "owes I \<Phi> (\<lambda>r u. (\<exists>a. r = Inr a) \<and> u = v) (atomicP (set_poll_counts (vp_id p) (recount_counts votes)
      (wrap_i64 (int (length votes))))) v" for votes
    by (rule owes_atomicP) (use overwrite [OF _ assms] in \<open>fastforce simp: set_poll_counts_def eff_simps\<close>)
  show ?thesis unfolding recount_def Let_def
    by (rule owes_bindP [OF 1]) (auto intro!: owes_bindP [OF 2] owes_okP)
qed

lemma close_settles:
  assumes "snap p" "may_close p"
  shows "answers_with I \<Phi> (\<lambda>_. True) (close_poll p)"
proof -
  have 1: "owes I \<Phi> (\<lambda>r u. \<exists>won. r = Inr won \<and> u = (if won then fee p else 0)) (atomicP (close_poll_if_open (vp_id p))) 0"
  proof (rule owes_atomicP)
    fix s r s' assume s: "I s" "close_poll_if_open (vp_id p) s = (r, s')"
    then obtain won where r: "r = Inr won" by (auto simp: poll_runs split: option.splits if_splits)
    from flip [OF s(1) assms] s(2) r
    show "I s' \<and> (\<exists>v'. (\<exists>won. r = Inr won \<and> v' = (if won then fee p else 0)) \<and> \<Phi> s' + v' = \<Phi> s + 0)" by simp
  qed
  have 2: "owes I \<Phi> (\<lambda>r u. u = 0) (atomicP (publish t (PollClose (vp_id p) c m cs n))) (fee p)" for t c m cs n
    by (rule owes_atomicP) (use announce [OF _ assms(1)] in force)
  show ?thesis unfolding close_poll_def
    by (rule owes_bindP [OF 1])
      (auto intro!: owes_okP owes_bindP [OF recount_settles [OF assms]] owes_bindP [OF 2])
qed

lemma compensate_settles:
  assumes p: "snap p" "vp_closed p"
  shows "settles I \<Phi> (compensate_write_after_close p uid prev)"
proof -
  have free: "debt p a b = 0" for a b using closed_free [OF p] by blast
  have 1: "owes I \<Phi> (\<lambda>r u. u = 0) (atomicP (upsert_poll_vote \<lparr>bv_id = vote_key (vp_id p) uid, bv_poll = vp_id p,
      bv_user = uid, bv_channel = c, bv_answer_ids = ids\<rparr>)) 0" for c ids
  proof (rule owes_atomicP)
    fix s r s' assume s: "I s" "upsert_poll_vote \<lparr>bv_id = vote_key (vp_id p) uid, bv_poll = vp_id p,
      bv_user = uid, bv_channel = c, bv_answer_ids = ids\<rparr> s = (r, s')"
    then obtain a where "r = Inr a" by (auto simp: poll_runs)
    with cast [OF s(1) p(1) refl] s(2) free show "I s' \<and> (\<exists>v'. v' = 0 \<and> \<Phi> s' + v' = \<Phi> s + 0)" by fastforce
  qed
  have 2: "owes I \<Phi> (\<lambda>r u. u = 0) (atomicP (remove_poll_vote (vp_id p) uid)) 0"
  proof (rule owes_atomicP)
    fix s r s' assume s: "I s" "remove_poll_vote (vp_id p) uid s = (r, s')"
    then obtain a where "r = Inr a" by (auto simp: poll_runs)
    with retract [OF s(1) p(1)] s(2) free show "I s' \<and> (\<exists>v'. v' = 0 \<and> \<Phi> s' + v' = \<Phi> s + 0)" by fastforce
  qed
  have 3: "settles I \<Phi> (bindP (recount p) (\<lambda>_. errP PollClosed))"
    using closed_free [OF p] by (auto intro!: owes_bindP [OF recount_settles [OF p(1)]] owes_errP)
  show ?thesis unfolding compensate_write_after_close_def
    by (cases prev) (auto intro!: owes_bindP [OF 1] owes_bindP [OF 2] 3)
qed

lemma resolve_settles:
  assumes "\<And>p. snap p \<Longrightarrow> is_expired p now \<Longrightarrow> may_close p"
  shows "answers_with I \<Phi> snap (resolve_open_poll tm now u target q)"
  unfolding resolve_open_poll_def
  by (rule answers_bindP [OF gate_reads], clarsimp, rule answers_bindP [OF fetch_reads])
    (auto intro!: owes_okP owes_errP owes_bindP [OF close_settles] assms)

text \<open>What follows a written ballot: the recheck, the compensation and the published counts.\<close>

lemma publish_settles: "settles I \<Phi> (atomicP (publish_vote_update p))"
  by (rule owes_atomicP) (use update in \<open>force simp: publish_vote_update_def\<close>)

lemma recheck_settles:
  assumes "\<And>p'. settles I \<Phi> (f p')"
  shows "settles I \<Phi> (bindP (atomicP (fetch_poll q)) (\<lambda>p'.
    bindP (if vp_closed p' then compensate_write_after_close p' uid prev else okP ()) (\<lambda>_. f p')))"
  by (rule owes_bindP [OF fetch_reads]) (auto intro!: assms owes_bindP [OF compensate_settles])

lemma vote_settles:
  assumes "\<And>p. snap p \<Longrightarrow> is_expired p now \<Longrightarrow> may_close p"
  shows "settles I \<Phi> (poll_vote ve tm now u target q data)"
proof -
  have up: "owes I \<Phi> (\<lambda>r v. \<exists>prev. r = Inr prev \<and> v = debt p prev (Some ids))
      (atomicP (upsert_poll_vote \<lparr>bv_id = vote_key (vp_id p) w, bv_poll = vp_id p, bv_user = w, bv_channel = c,
        bv_answer_ids = ids\<rparr>)) 0" if p: "snap p" for p w c ids
  proof (rule owes_atomicP)
    fix s r s' assume s: "I s" "upsert_poll_vote \<lparr>bv_id = vote_key (vp_id p) w, bv_poll = vp_id p, bv_user = w,
      bv_channel = c, bv_answer_ids = ids\<rparr> s = (r, s')"
    then obtain prev where "r = Inr prev" by (auto simp: poll_runs)
    with cast [OF s(1) p refl] s(2)
    show "I s' \<and> (\<exists>v'. (\<exists>prev. r = Inr prev \<and> v' = debt p prev (Some ids)) \<and> \<Phi> s' + v' = \<Phi> s + 0)" by auto
  qed
  have deltas: "owes I \<Phi> (\<lambda>r v. v = 0) (atomicP (apply_poll_count_deltas (vp_id p) (vote_deltas prev ids)
      (if prev = None then 1 else 0))) (debt p prev (Some ids))" if "snap p" for p prev ids
    by (rule owes_atomicP) (use cast_deltas [OF _ that] in force)
  have tail: "settles I \<Phi> (bindP (atomicP (publish_vote_update p')) (\<lambda>_. okP m))" for p' and m :: poll_model
    by (rule owes_bindP [OF publish_settles]) (auto intro: owes_okP)
  show ?thesis unfolding poll_vote_def Let_def
    by (auto intro!: owes_errP owes_bindP [OF resolve_settles [OF assms]] owes_bindP [OF up] owes_bindP [OF deltas]
      recheck_settles tail)
qed

lemma unvote_settles:
  assumes "\<And>p. snap p \<Longrightarrow> is_expired p now \<Longrightarrow> may_close p"
  shows "settles I \<Phi> (poll_unvote tm now u target q)"
proof -
  have rm: "owes I \<Phi> (\<lambda>r v. \<exists>prev. r = Inr prev \<and> v = debt p prev None)
      (atomicP (remove_poll_vote (vp_id p) w)) 0" if p: "snap p" for p w
  proof (rule owes_atomicP)
    fix s r s' assume s: "I s" "remove_poll_vote (vp_id p) w s = (r, s')"
    then obtain prev where "r = Inr prev" by (auto simp: poll_runs)
    with retract [OF s(1) p] s(2)
    show "I s' \<and> (\<exists>v'. (\<exists>prev. r = Inr prev \<and> v' = debt p prev None) \<and> \<Phi> s' + v' = \<Phi> s + 0)" by auto
  qed
  have deltas: "owes I \<Phi> (\<lambda>r v. v = 0) (atomicP (apply_poll_count_deltas (vp_id p) (foldl (bump (- 1)) [] ids) (- 1)))
      (debt p (Some ids) None)" if "snap p" for p ids
    by (rule owes_atomicP) (use retract_deltas [OF _ that] in force)
  have inner: "owes I \<Phi> (\<lambda>r v. v = 0) (case prev of None \<Rightarrow> okP ()
      | Some removed \<Rightarrow> bindP (atomicP (apply_poll_count_deltas (vp_id p) (foldl (bump (- 1)) [] removed) (- 1))) (\<lambda>_.
          bindP (atomicP (fetch_poll (vp_id p))) (\<lambda>p'.
          bindP (if vp_closed p' then compensate_write_after_close p' w prev else okP ()) (\<lambda>_.
          atomicP (publish_vote_update p'))))) (debt p prev None)" if "snap p" for p prev w
    by (cases prev) (auto intro!: owes_okP owes_bindP [OF deltas] recheck_settles publish_settles simp: no_debt that)
  have tail: "settles I \<Phi> (bindP (atomicP (fetch_poll q)) (\<lambda>p'. okP (f p')))" for q and f :: "poll \<Rightarrow> poll_model"
    by (rule owes_bindP [OF fetch_reads]) (auto intro: owes_okP)
  show ?thesis unfolding poll_unvote_def
    by (auto intro!: owes_bindP [OF resolve_settles [OF assms]] owes_bindP [OF rm] owes_bindP [OF inner] tail)
qed

lemma required_settles: "answers_with I \<Phi> (\<lambda>_. True) (Ret r)"
  by (simp add: owes_Ret)

lemma end_settles:
  assumes "\<And>p. snap p \<Longrightarrow> vp_id p = q \<Longrightarrow> may_close p"
  shows "settles I \<Phi> (poll_end tm u target q)"
proof -
  have tail: "settles I \<Phi> (bindP (close_poll p) (\<lambda>_. bindP (atomicP (fetch_poll i)) (\<lambda>p'.
      bindP (atomicP (fetch_poll_vote (vp_id p') w)) (\<lambda>my. okP (f p' my)))))"
    if "snap p" "may_close p" for p i w and f :: "poll \<Rightarrow> poll_vote_row option \<Rightarrow> poll_model"
    using that by (auto intro!: owes_bindP [OF close_settles] owes_bindP [OF fetch_reads] owes_bindP [OF vote_reads(1)]
      owes_okP)
  show ?thesis unfolding poll_end_def
    by (rule owes_bindP [OF gate_reads], simp, clarsimp, rule owes_bindP [OF fetch_reads])
      (auto intro!: owes_bindP [OF required_settles] owes_errP tail assms)
qed

lemma fetch_settles:
  assumes "\<And>p. snap p \<Longrightarrow> is_expired p now \<Longrightarrow> may_close p"
  shows "settles I \<Phi> (poll_fetch tm now u target q)"
proof -
  have fresh: "answers_with I \<Phi> (\<lambda>_. True) (bindP (close_poll p) (\<lambda>_. atomicP (fetch_poll i)))"
    if "snap p" "is_expired p now" for p i
    using that by (auto intro!: owes_bindP [OF close_settles] owes_weaken [OF fetch_reads] assms)
  have tail: "settles I \<Phi> (bindP (atomicP (fetch_poll_vote i w)) (\<lambda>my. okP (f my)))"
    for i w and f :: "poll_vote_row option \<Rightarrow> poll_model"
    by (rule owes_bindP [OF vote_reads(1)]) (auto intro: owes_okP)
  show ?thesis unfolding poll_fetch_def Let_def
    by (auto intro!: owes_bindP [OF gate_reads] owes_bindP [OF fetch_reads] owes_errP owes_bindP [OF fresh] tail)
qed

lemma close_all_settles:
  assumes "\<And>p. p \<in> set due \<Longrightarrow> snap p \<and> may_close p"
  shows "settles I \<Phi> (forP (\<lambda>p. bindP (close_poll p) (\<lambda>_. okP ())) due)"
    and "settles I \<Phi> (forP (\<lambda>p. seqP (close_poll p) (\<lambda>_. okP ())) due)"
  by (rule settles_forP; auto intro!: owes_bindP [OF close_settles] owes_seqP [OF close_settles] owes_okP dest: assms)+

lemma bulk_settles:
  assumes "\<And>p. snap p \<Longrightarrow> is_expired p now \<Longrightarrow> may_close p"
  shows "settles I \<Phi> (polls_fetch_bulk ve tm now u target qs)"
proof -
  have refetch: "settles I \<Phi> (bindP (atomicP (fetch_polls is)) (\<lambda>closed. okP (f closed)))"
    for "is" and f :: "poll list \<Rightarrow> poll list"
    by (auto intro!: owes_okP owes_bindP [OF fetch_list_reads])
  have tail: "settles I \<Phi> (bindP (atomicP (fetch_poll_votes_for_user is w)) (\<lambda>my. okP (f my)))"
    for "is" w and f :: "poll_vote_row list \<Rightarrow> poll_model list"
    by (rule owes_bindP [OF vote_reads(2)]) (auto intro: owes_okP)
  show ?thesis unfolding polls_fetch_bulk_def Let_def
    by (intro owes_errP owes_bindP [OF gate_reads] impI conjI refl | simp split: prod.split)+
      (auto intro!: owes_bindP [OF fetch_list_reads] owes_bindP [OF close_all_settles(1)] owes_bindP [OF refetch] tail
        intro: assms)
qed

lemma voters_settles: "settles I \<Phi> (poll_voters tm u target q a after limit)"
proof -
  have tail: "settles I \<Phi> (bindP (atomicP (fetch_poll_voters_page q a after n)) (\<lambda>votes.
      atomicP (\<lambda>s. (fetch_users (pb_perm s) (map bv_user votes), s))))" for q n
    by (rule owes_bindP [OF vote_reads(3)]) (auto intro: owes_weaken [OF vote_reads(4)])
  then show ?thesis unfolding poll_voters_def Let_def
    by (auto intro!: owes_bindP [OF gate_reads] owes_bindP [OF fetch_reads] owes_errP
      simp: throw_if_lacking_channel_permission_def simp flip: okP_def errP_def)
qed

lemma expiry_settles:
  assumes "\<And>p. snap p \<Longrightarrow> is_expired p now \<Longrightarrow> may_close p"
  shows "settles I \<Phi> (poll_expiry_pass now)"
  unfolding poll_expiry_pass_def
  by (rule owes_bindP [OF fetch_expired_reads]) (auto intro!: close_all_settles(2) assms)

lemma program_settles:
  "(\<And>p. snap p \<Longrightarrow> may_end r p \<Longrightarrow> may_close p) \<Longrightarrow> settles I \<Phi> (poll_program r)"
  by (cases r) (auto intro!: settles_requestP vote_settles unvote_settles end_settles fetch_settles bulk_settles
    voters_settles expiry_settles)

lemma settled:
  assumes "sys_step\<^sup>*\<^sup>* (map poll_program rs, s) (ps, s')" "I s" "\<forall>p \<in> set ps. ended p"
    and "\<And>r p. r \<in> set rs \<Longrightarrow> snap p \<Longrightarrow> may_end r p \<Longrightarrow> may_close p"
  shows "I s' \<and> \<Phi> s' = \<Phi> s"
  by (rule system_settled [where I = I and \<Phi> = \<Phi>, OF assms(1,2) _ assms(3)]) (auto intro: program_settles assms(4))

lemma kept:
  assumes "sys_step\<^sup>*\<^sup>* (map poll_program rs, s) (ps, s')" "I s"
    and "\<And>r p. r \<in> set rs \<Longrightarrow> snap p \<Longrightarrow> may_end r p \<Longrightarrow> may_close p"
  shows "I s'"
  by (rule system_keeps [where I = I and \<Phi> = \<Phi>, OF assms(1,2)]) (auto intro: program_settles assms(3))

end

section \<open>Counting\<close>

text \<open>What one ballot adds: to the total (\<open>None\<close>), or to the count of an answer.\<close>

fun weight :: "u8 option \<Rightarrow> u8 list \<Rightarrow> int" where
  "weight None ids = 1"
| "weight (Some a) ids = int (count_list ids a)"

fun stored :: "u8 option \<Rightarrow> poll \<Rightarrow> int" where
  "stored None p = vp_total_votes p"
| "stored (Some a) p = count_of (vp_counts p) (answer_key a)"

definition weigh :: "u8 option \<Rightarrow> u8 list option \<Rightarrow> int" where
  "weigh x ids = (case ids of None \<Rightarrow> 0 | Some ids \<Rightarrow> weight x ids)"

text \<open>The ballots of a poll, and what they add up to.\<close>

definition ballots :: "string \<Rightarrow> (string, poll_vote_row) table \<Rightarrow> poll_vote_row list" where
  "ballots q t = filter (\<lambda>v. bv_poll v = q) (rows t)"

definition ballot_tally :: "u8 option \<Rightarrow> string \<Rightarrow> (string, poll_vote_row) table \<Rightarrow> int" where
  "ballot_tally x q t = (\<Sum>v \<leftarrow> ballots q t. weight x (bv_answer_ids v))"

definition row_weight :: "u8 option \<Rightarrow> string \<Rightarrow> poll_vote_row \<Rightarrow> int" where
  "row_weight x q v = (if bv_poll v = q then weight x (bv_answer_ids v) else 0)"

lemma tally_rows: "ballot_tally x q t = (\<Sum>v \<leftarrow> rows t. row_weight x q v)"
  unfolding ballot_tally_def ballots_def rows_def by (induction t) (auto simp: row_weight_def)

lemma sum_rows_update:
  fixes f :: "'r \<Rightarrow> int"
  shows "(\<Sum>v \<leftarrow> rows (AList.update k r t). f v) = (\<Sum>v \<leftarrow> rows t. f v) + f r - (case map_of t k of Some v \<Rightarrow> f v | None \<Rightarrow> 0)"
  by (induction t) (auto simp: rows_def)

lemma sum_rows_delete:
  fixes f :: "'r \<Rightarrow> int"
  shows "distinct (map fst t) \<Longrightarrow>
   (\<Sum>v \<leftarrow> rows (AList.delete k t). f v) = (\<Sum>v \<leftarrow> rows t. f v) - (case map_of t k of Some v \<Rightarrow> f v | None \<Rightarrow> 0)"
proof (induction t)
  case (Cons kv t)
  then have "AList.delete (fst kv) t = t" by (simp add: delete_idem)
  with Cons show ?case by (cases kv) (auto simp: rows_def)
qed (simp add: rows_def)

lemma answer_key_inj [simp]: "answer_key a = answer_key b \<longleftrightarrow> a = b"
  unfolding answer_key_def by (metis read_decimal word_unat_eq_iff)

lemma count_of_update [simp]: "count_of (AList.update k c t) k' = (if k' = k then c else count_of t k')"
  by (simp add: count_of_def map_of_update)

lemma count_of_delete [simp]: "count_of (AList.delete k t) k' = (if k' = k then 0 else count_of t k')"
  by (simp add: count_of_def map_of_delete)

lemma count_of_Nil [simp]: "count_of [] k = 0"
  by (simp add: count_of_def)

lemma count_of_Cons [simp]: "count_of (kd # t) k = (if k = fst kd then snd kd else count_of t k)"
  by (auto simp: count_of_def)

lemma count_of_absent: "k \<notin> fst ` set t \<Longrightarrow> count_of t k = 0"
  by (simp add: count_of_def map_of_eq_None_iff [THEN iffD2])

text \<open>Stored counters wrap around at 64 bits, so what is exact about them is their value as words.\<close>

lemma word_wrap [simp]: "(word_of_int (wrap_i64 x) :: 64 word) = word_of_int x"
proof -
  have "wrap_i64 x mod 18446744073709551616 = x mod 18446744073709551616"
    unfolding wrap_i64_def by (simp add: mod_add_left_eq)
  then show ?thesis by (simp add: word_of_int_eq_iff take_bit_eq_mod)
qed

lemma bump_word:
  "(word_of_int (count_of (foldl (bump d) t ids) (answer_key a)) :: 64 word)
     = word_of_int (count_of t (answer_key a)) + word_of_int (d * int (count_list ids a))"
  by (induction ids arbitrary: t) (auto simp: bump_def algebra_simps)

lemma bump_distinct: "distinct (map fst t) \<Longrightarrow> distinct (map fst (foldl (bump b) t ids))"
  by (induction ids arbitrary: t) (simp_all add: bump_def distinct_update)

lemma apply_delta_count:
  "count_of (apply_delta t kd) k = (if k = fst kd then wrap_i64 (count_of t k + snd kd) else count_of t k)"
  by (simp add: apply_delta_def Let_def)

lemma apply_deltas_word:
  "distinct (map fst ds) \<Longrightarrow>
   (word_of_int (count_of (foldl apply_delta t ds) k) :: 64 word) = word_of_int (count_of t k) + word_of_int (count_of ds k)"
proof (induction ds arbitrary: t)
  case (Cons kd ds)
  then have "count_of ds (fst kd) = 0" by (simp add: count_of_absent)
  then show ?case using Cons by (simp add: apply_delta_count)
qed simp

lemma apply_deltas_i64:
  "(\<forall>k. is_i64 (count_of t k)) \<Longrightarrow> is_i64 (count_of (foldl apply_delta t ds) k)"
  by (induction ds arbitrary: t) (simp_all add: apply_delta_count)

lemma count_of_nonzero: "distinct (map fst t) \<Longrightarrow> count_of (filter (\<lambda>(_, d). d \<noteq> 0) t) k = count_of t k"
  by (induction t) (auto simp: count_of_absent)

lemma vote_deltas_word:
  "(word_of_int (count_of (vote_deltas prev ids) (answer_key a)) :: 64 word)
     = word_of_int (weigh (Some a) (Some ids) - weigh (Some a) prev)"
  "distinct (map fst (vote_deltas prev ids))"
  by (simp_all add: vote_deltas_def count_of_nonzero bump_distinct bump_word weigh_def distinct_map_filter split: option.split)

section \<open>Keys\<close>

lemma vote_key_poll: "CHR '':'' \<notin> set q \<Longrightarrow> takeWhile (\<lambda>c. c \<noteq> CHR '':'') (vote_key q u) = q"
  by (induction q) (auto simp: vote_key_def)

lemma vote_row_poll:
  assumes "votes_ok t" "map_of t (vote_key q u) = Some v" "CHR '':'' \<notin> set q"
  shows "bv_poll v = q"
proof -
  from assms(1,2) have "vote_key q u = vote_key (bv_poll v) (bv_user v)" "CHR '':'' \<notin> set (bv_poll v)"
    by (auto simp: votes_ok_def list_all_iff dest!: map_of_SomeD)
  then show ?thesis using vote_key_poll [OF assms(3), of u] by (simp add: vote_key_poll)
qed

lemma votes_ok_update:
  assumes "votes_ok t" "CHR '':'' \<notin> set (bv_poll v)" "bv_id v = vote_key (bv_poll v) (bv_user v)"
  shows "votes_ok (AList.update (bv_id v) v t)"
proof -
  have "set (AList.update (bv_id v) v t) \<subseteq> insert (bv_id v, v) (set t)"
    by (induction t) auto
  with assms show ?thesis by (auto simp: votes_ok_def list_all_iff)
qed

lemma votes_ok_delete: "votes_ok t \<Longrightarrow> votes_ok (AList.delete k t)"
proof -
  have "set (AList.delete k t) \<subseteq> set t" by (auto simp: AList.delete_eq)
  then show "votes_ok t \<Longrightarrow> votes_ok (AList.delete k t)" by (auto simp: votes_ok_def list_all_iff)
qed

lemma polls_ok_update:
  assumes "polls_ok t" "map_of t q = Some p" "vp_id p' = q"
  shows "polls_ok (AList.update q p' t)"
proof -
  have "set (AList.update q p' t) \<subseteq> insert (q, p') (set t)" by (induction t) auto
  moreover have "(q, p) \<in> set t" using assms(2) by (rule map_of_SomeD)
  ultimately show ?thesis using assms by (auto simp: polls_ok_def list_all_iff)
qed

lemma polls_ok_id: "polls_ok t \<Longrightarrow> map_of t q = Some p \<Longrightarrow> vp_id p = q"
  unfolding polls_ok_def by (blast dest: keyed_lookup_key)

lemma update_poll_ok:
  "poll_db_ok s \<Longrightarrow> (\<And>p. vp_id (f p) = vp_id p) \<Longrightarrow> poll_db_ok (update_poll q f s)"
  unfolding poll_db_ok_def update_poll_def
  by (auto split: option.split intro!: polls_ok_update dest: polls_ok_id)

lemma poll_row_ok:
  "poll_db_ok s \<Longrightarrow> p \<in> set (rows (pb_polls s)) \<Longrightarrow> map_of (pb_polls s) (vp_id p) = Some p \<and> CHR '':'' \<notin> set (vp_id p)"
  by (auto simp: poll_db_ok_def polls_ok_def keyed_rows_iff list_all_iff dest!: map_of_SomeD)

lemma update_poll_lookup:
  "map_of (pb_polls (update_poll q f s)) q' = (if q' = q then map_option f (map_of (pb_polls s) q) else map_of (pb_polls s) q')"
  by (simp add: update_poll_def map_of_update split: option.split)

lemma update_poll_rest [simp]:
  "pb_votes (update_poll q f s) = pb_votes s" "pb_events (update_poll q f s) = pb_events s"
  "pb_perm (update_poll q f s) = pb_perm s"
  by (simp_all add: update_poll_def split: option.split)

section \<open>The drift of an open poll\<close>

definition counts_i64 :: "poll \<Rightarrow> bool" where
  "counts_i64 p \<longleftrightarrow> (\<forall>k. is_i64 (count_of (vp_counts p) k)) \<and> is_i64 (vp_total_votes p)"

definition open_poll :: "string \<Rightarrow> int \<Rightarrow> poll_db \<Rightarrow> bool" where
  "open_poll q E s \<longleftrightarrow> poll_db_ok s \<and> (\<exists>p. map_of (pb_polls s) q = Some p \<and> \<not> vp_closed p \<and> vp_expires_at p = E
     \<and> counts_i64 p)"

definition drift :: "u8 option \<Rightarrow> string \<Rightarrow> poll_db \<Rightarrow> 64 word" where
  "drift x q s = (case map_of (pb_polls s) q of Some p \<Rightarrow> word_of_int (stored x p) | None \<Rightarrow> 0)
     - word_of_int (ballot_tally x q (pb_votes s))"

definition drift_debt :: "u8 option \<Rightarrow> string \<Rightarrow> poll \<Rightarrow> u8 list option \<Rightarrow> u8 list option \<Rightarrow> 64 word" where
  "drift_debt x q p prev new = (if vp_id p = q then word_of_int (weigh x new - weigh x prev) else 0)"

definition row_of :: "string \<Rightarrow> int \<Rightarrow> poll \<Rightarrow> bool" where
  "row_of q E p \<longleftrightarrow> CHR '':'' \<notin> set (vp_id p) \<and> (vp_id p = q \<longrightarrow> \<not> vp_closed p \<and> vp_expires_at p = E)"

lemma tally_cast:
  assumes "votes_ok t" "CHR '':'' \<notin> set i"
  shows "ballot_tally x q (AList.update (vote_key i u) \<lparr>bv_id = vote_key i u, bv_poll = i, bv_user = u, bv_channel = c, bv_answer_ids = ids\<rparr> t)
    = ballot_tally x q t + (if i = q then weight x ids - weigh x (map_option bv_answer_ids (map_of t (vote_key i u))) else 0)"
  using vote_row_poll [OF assms(1) _ assms(2), of u]
  by (auto simp: tally_rows sum_rows_update row_weight_def weigh_def split: option.split)

lemma tally_retract:
  assumes "votes_ok t" "CHR '':'' \<notin> set i"
  shows "ballot_tally x q (AList.delete (vote_key i u) t)
    = ballot_tally x q t - (if i = q then weigh x (map_option bv_answer_ids (map_of t (vote_key i u))) else 0)"
proof -
  have "distinct (map fst t)" using assms(1) by (simp add: votes_ok_def keyed_def)
  then show ?thesis using vote_row_poll [OF assms(1) _ assms(2), of u]
    by (auto simp: tally_rows sum_rows_delete row_weight_def weigh_def split: option.split)
qed

lemma open_poll_update:
  assumes "open_poll q E s" "\<And>p. vp_id (f p) = vp_id p"
    and "\<And>p. i = q \<Longrightarrow> map_of (pb_polls s) q = Some p \<Longrightarrow> counts_i64 p \<Longrightarrow>
      vp_closed (f p) = vp_closed p \<and> vp_expires_at (f p) = vp_expires_at p \<and> counts_i64 (f p)"
  shows "open_poll q E (update_poll i f s)"
  using assms(1) update_poll_ok [of s f, OF _ assms(2)] assms(3) by (auto simp: open_poll_def update_poll_lookup)

lemma open_poll_votes: "open_poll q E s \<Longrightarrow> votes_ok t \<Longrightarrow> open_poll q E (s\<lparr>pb_votes := t\<rparr>)"
  by (simp add: open_poll_def poll_db_ok_def)

lemma open_poll_events [simp]: "open_poll q E (s\<lparr>pb_events := es\<rparr>) = open_poll q E s"
  by (simp add: open_poll_def poll_db_ok_def)

lemma open_poll_apply:
  "open_poll q E s \<Longrightarrow> open_poll q E (update_poll i (\<lambda>p. p\<lparr>vp_counts := foldl apply_delta (vp_counts p) ds,
     vp_total_votes := wrap_i64 (vp_total_votes p + n)\<rparr>) s)"
  by (rule open_poll_update) (auto simp: counts_i64_def apply_deltas_i64)

lemma drift_apply:
  assumes "open_poll q E s" "distinct (map fst ds)"
    and "case x of None \<Rightarrow> n = d | Some a \<Rightarrow> (word_of_int (count_of ds (answer_key a)) :: 64 word) = word_of_int d"
  shows "drift x q (update_poll i (\<lambda>p. p\<lparr>vp_counts := foldl apply_delta (vp_counts p) ds,
     vp_total_votes := wrap_i64 (vp_total_votes p + n)\<rparr>) s) = drift x q s + (if i = q then word_of_int d else 0)"
  using assms
  by (auto simp: drift_def open_poll_def update_poll_lookup apply_deltas_word split: option.splits)

interpretation dr: poll_ledger "open_poll q E" "drift x q" "row_of q E" "\<lambda>p. vp_id p \<noteq> q" "drift_debt x q" "\<lambda>_. 0"
  for q E x
proof
  note defs = open_poll_def row_of_def drift_debt_def
  fix s s' :: poll_db and p :: poll and r :: "error + unit"
  show "open_poll q E s \<Longrightarrow> p \<in> set (rows (pb_polls s)) \<Longrightarrow> row_of q E p"
    using poll_row_ok [of s p] by (auto simp: defs)
  show "open_poll q E s \<Longrightarrow> map_of (pb_polls s) i = Some p \<Longrightarrow> vp_id p = i" for i
    by (auto simp: defs poll_db_ok_def intro: polls_ok_id)
  show "open_poll q E s' \<and> drift x q s' + drift_debt x q p prev (Some ids) = drift x q s"
    if "open_poll q E s" "row_of q E p" "v = \<lparr>bv_id = vote_key (vp_id p) u, bv_poll = vp_id p, bv_user = u, bv_channel = c,
        bv_answer_ids = ids\<rparr>" "upsert_poll_vote v s = (Inr prev, s')" for u c ids prev v
  proof -
    have ok: "votes_ok (pb_votes s)" "CHR '':'' \<notin> set (vp_id p)" using that by (auto simp: defs poll_db_ok_def)
    have "s' = s\<lparr>pb_votes := AList.update (bv_id v) v (pb_votes s)\<rparr>"
      "prev = map_option bv_answer_ids (map_of (pb_votes s) (bv_id v))" using that(4) by (auto simp: poll_runs)
    then show ?thesis using that(1,3) ok votes_ok_update [OF ok(1), of v] tally_cast [OF ok, of x q u c ids]
      by (auto simp: drift_def drift_debt_def weigh_def [of _ "Some ids"] intro!: open_poll_votes)
  qed
  show "open_poll q E s' \<and> drift x q s' + drift_debt x q p prev None = drift x q s"
    if "open_poll q E s" "row_of q E p" "remove_poll_vote (vp_id p) u s = (Inr prev, s')" for u prev
  proof -
    have ok: "votes_ok (pb_votes s)" "CHR '':'' \<notin> set (vp_id p)" using that by (auto simp: defs poll_db_ok_def)
    have "s' = s\<lparr>pb_votes := AList.delete (vote_key (vp_id p) u) (pb_votes s)\<rparr>"
      "prev = map_option bv_answer_ids (map_of (pb_votes s) (vote_key (vp_id p) u))" using that(3) by (auto simp: poll_runs)
    then show ?thesis using that(1) ok votes_ok_delete [OF ok(1)] tally_retract [OF ok, of x q u]
      by (auto simp: drift_def drift_debt_def weigh_def [of _ None] intro!: open_poll_votes)
  qed
  show "open_poll q E s' \<and> drift x q s' = drift x q s + drift_debt x q p prev (Some ids)"
    if "open_poll q E s" "row_of q E p"
      "apply_poll_count_deltas (vp_id p) (vote_deltas prev ids) (if prev = None then 1 else 0) s = (r, s')" for prev ids
    using that drift_apply [OF that(1) vote_deltas_word(2), where x = x and n = "if prev = None then 1 else 0"
        and d = "weigh x (Some ids) - weigh x prev" and i = "vp_id p"]
    by (cases x) (auto simp: poll_runs drift_debt_def vote_deltas_word weigh_def split: option.splits intro: open_poll_apply)
  show "open_poll q E s' \<and> drift x q s' = drift x q s + drift_debt x q p (Some ids) None"
    if "open_poll q E s" "row_of q E p"
      "apply_poll_count_deltas (vp_id p) (foldl (bump (- 1)) [] ids) (- 1) s = (r, s')" for ids
    using that drift_apply [OF that(1) bump_distinct [where t = "[]" and b = "- 1" and ids = ids], where x = x and n = "- 1" and d = "- weigh x (Some ids)" and i = "vp_id p"]
      open_poll_apply [OF that(1), where i = "vp_id p" and ds = "foldl (bump (- 1)) [] ids" and n = "- 1"]
    by (cases x) (auto simp: poll_runs drift_debt_def bump_word weigh_def)
  show "drift_debt x q p None None = 0" by (simp add: drift_debt_def)
  show "row_of q E p \<Longrightarrow> vp_closed p \<Longrightarrow> vp_id p \<noteq> q \<and> drift_debt x q p prev new = 0" for prev new
    by (auto simp: defs)
  show "open_poll q E s' \<and> drift x q s' + (if won then 0 else 0) = drift x q s"
    if "open_poll q E s" "vp_id p \<noteq> q" "close_poll_if_open (vp_id p) s = (Inr won, s')" for won
    using that open_poll_update [OF that(1), of "\<lambda>p. p\<lparr>vp_closed := True\<rparr>" "vp_id p"]
    by (auto simp: poll_runs drift_def update_poll_lookup split: option.splits if_splits)
  show "open_poll q E s' \<and> drift x q s' = drift x q s"
    if "open_poll q E s" "vp_id p \<noteq> q" "set_poll_counts (vp_id p) (recount_counts votes)
        (wrap_i64 (int (length votes))) s = (r, s')" for votes
    using that open_poll_update [OF that(1), of "\<lambda>p. p\<lparr>vp_counts := recount_counts votes,
        vp_total_votes := wrap_i64 (int (length votes))\<rparr>" "vp_id p"]
    by (auto simp: poll_runs drift_def update_poll_lookup)
  show "open_poll q E s \<Longrightarrow> publish t ev s = (r, s') \<Longrightarrow> open_poll q E s' \<and> drift x q s' = drift x q s + 0" for t ev
    by (auto simp: poll_runs drift_def)
  show "open_poll q E s \<Longrightarrow> publish t ev s = (r, s') \<Longrightarrow> open_poll q E s' \<and> drift x q s' = drift x q s" for t ev
    by (auto simp: poll_runs drift_def)
qed

text \<open>Exact counters as integers, from counters without drift that fit into 64 bits.\<close>

definition counts_exact :: "string \<Rightarrow> poll_db \<Rightarrow> bool" where
  "counts_exact q s \<longleftrightarrow> (\<exists>p. map_of (pb_polls s) q = Some p \<and> (\<forall>x. stored x p = ballot_tally x q (pb_votes s)))"

lemma i64_word_eq: "is_i64 a \<Longrightarrow> is_i64 b \<Longrightarrow> (word_of_int a :: 64 word) = word_of_int b \<Longrightarrow> a = b"
proof -
  assume a: "is_i64 a" and b: "is_i64 b" and "(word_of_int a :: 64 word) = word_of_int b"
  then have "a mod 18446744073709551616 = b mod 18446744073709551616" by (simp add: word_of_int_eq_iff take_bit_eq_mod)
  then have "wrap_i64 a = wrap_i64 b" unfolding wrap_i64_def using mod_diff_cong [OF _ refl] by metis
  then show "a = b" using a b by simp
qed

lemma weight_nonneg: "0 \<le> weight x ids"
  by (cases x) simp_all

lemma tally_nonneg: "0 \<le> ballot_tally x q t"
  unfolding ballot_tally_def by (intro sum_list_nonneg) (auto simp: weight_nonneg)

lemma drift_zero_exact:
  assumes "open_poll q E s" "\<forall>x. drift x q s = 0" "\<forall>x. ballot_tally x q (pb_votes s) \<le> i64_max"
  shows "counts_exact q s"
proof -
  obtain p where p: "map_of (pb_polls s) q = Some p" "counts_i64 p" using assms(1) by (auto simp: open_poll_def)
  have "stored x p = ballot_tally x q (pb_votes s)" for x
  proof (rule i64_word_eq)
    show "is_i64 (stored x p)" using p(2) by (cases x) (simp_all add: counts_i64_def)
    show "is_i64 (ballot_tally x q (pb_votes s))" using assms(3) tally_nonneg [of x q "pb_votes s"] order_trans
      by (auto simp: is_i64_def i64_min_def)
    show "(word_of_int (stored x p) :: 64 word) = word_of_int (ballot_tally x q (pb_votes s))"
      using assms(2) p(1) by (simp add: drift_def)
  qed
  with p show ?thesis by (auto simp: counts_exact_def)
qed

lemma exact_drift_zero: "counts_exact q s \<Longrightarrow> drift x q s = 0"
  by (auto simp: counts_exact_def drift_def)

section \<open>How often a poll closes\<close>

definition close_events :: "string \<Rightarrow> poll_db \<Rightarrow> int" where
  "close_events q s = int (length (filter (\<lambda>(_, e). case e of PollClose i _ _ _ _ \<Rightarrow> i = q | _ \<Rightarrow> False) (pb_events s)))"

definition is_closed :: "string \<Rightarrow> poll_db \<Rightarrow> bool" where
  "is_closed q s \<longleftrightarrow> is_some_and vp_closed (map_of (pb_polls s) q)"

definition unannounced :: "string \<Rightarrow> poll_db \<Rightarrow> int" where
  "unannounced q s = close_events q s - (if is_closed q s then 1 else 0)"

lemma polls_ok_step: "polls_ok (pb_polls s) \<Longrightarrow> (\<And>p. vp_id (f p) = vp_id p) \<Longrightarrow> polls_ok (pb_polls (update_poll i f s))"
  unfolding update_poll_def by (auto split: option.split intro!: polls_ok_update dest: polls_ok_id)

lemma close_events_poll [simp]:
  "close_events q (update_poll i f s) = close_events q s" "close_events q (s\<lparr>pb_votes := t\<rparr>) = close_events q s"
  by (simp_all add: close_events_def)

lemma is_closed_step [simp]:
  "is_closed q (s\<lparr>pb_votes := t\<rparr>) = is_closed q s" "is_closed q (s\<lparr>pb_events := es\<rparr>) = is_closed q s"
  "(\<And>p. vp_closed (f p) = vp_closed p) \<Longrightarrow> is_closed q (update_poll i f s) = is_closed q s"
  by (auto simp: is_closed_def update_poll_lookup is_some_and_def split: option.split)

lemma close_flips:
  "close_poll_if_open i s = (Inr won, s') \<Longrightarrow>
   (if won then \<not> is_closed i s \<and> s' = update_poll i (\<lambda>p. p\<lparr>vp_closed := True\<rparr>) s \<and> is_closed i s' else s' = s)"
  by (auto simp: poll_runs is_closed_def update_poll_lookup split: option.splits if_splits)

interpretation cl: poll_ledger "\<lambda>s. polls_ok (pb_polls s)" "unannounced q" "\<lambda>_. True" "\<lambda>_. True" "\<lambda>_ _ _. 0"
    "\<lambda>p. if vp_id p = q then 1 else 0" for q
proof
  note defs = unannounced_def
  fix s s' :: poll_db and p :: poll and r :: "error + unit"
  show "polls_ok (pb_polls s) \<Longrightarrow> map_of (pb_polls s) i = Some p \<Longrightarrow> vp_id p = i" for i
    by (auto simp: defs intro: polls_ok_id)
  show "polls_ok (pb_polls s) \<Longrightarrow> close_poll_if_open (vp_id p) s = (Inr won, s') \<Longrightarrow>
      polls_ok (pb_polls s') \<and> unannounced q s' + (if won then if vp_id p = q then 1 else 0 else 0) = unannounced q s" for won
    by (cases "vp_id p = q")
      (auto simp: defs is_closed_def update_poll_lookup polls_ok_step dest!: close_flips split: if_splits)
  show "polls_ok (pb_polls s) \<Longrightarrow> publish t (PollClose (vp_id p) c m cs k) s = (r, s') \<Longrightarrow>
      polls_ok (pb_polls s') \<and> unannounced q s' = unannounced q s + (if vp_id p = q then 1 else 0)" for t c m cs k
    by (auto simp: poll_runs defs close_events_def)
  show "polls_ok (pb_polls s) \<Longrightarrow> publish t (PollVoteUpdate i c m cs k) s = (r, s') \<Longrightarrow>
      polls_ok (pb_polls s') \<and> unannounced q s' = unannounced q s" for t i c m cs k
    by (auto simp: poll_runs defs close_events_def)
qed (auto simp: poll_runs unannounced_def polls_ok_step)

section \<open>The tables stay well-formed\<close>

lemma poll_db_ok_votes [simp]: "poll_db_ok s \<Longrightarrow> poll_db_ok (s\<lparr>pb_votes := t\<rparr>) = votes_ok t"
  by (simp add: poll_db_ok_def)

lemma poll_db_ok_events [simp]: "poll_db_ok (s\<lparr>pb_events := es\<rparr>) = poll_db_ok s"
  by (simp add: poll_db_ok_def)

interpretation wf: poll_ledger poll_db_ok "\<lambda>_. 0 :: int" "\<lambda>p. CHR '':'' \<notin> set (vp_id p)" "\<lambda>_. True" "\<lambda>_ _ _. 0" "\<lambda>_. 0"
proof
  fix s s' :: poll_db and p :: poll and r :: "error + unit"
  show "poll_db_ok s \<Longrightarrow> p \<in> set (rows (pb_polls s)) \<Longrightarrow> CHR '':'' \<notin> set (vp_id p)" using poll_row_ok by blast
  show "poll_db_ok s \<Longrightarrow> map_of (pb_polls s) q = Some p \<Longrightarrow> vp_id p = q" for q by (auto simp: poll_db_ok_def intro: polls_ok_id)
  show "poll_db_ok s' \<and> 0 + 0 = (0 :: int)"
    if "poll_db_ok s" "CHR '':'' \<notin> set (vp_id p)" "v = \<lparr>bv_id = vote_key (vp_id p) u, bv_poll = vp_id p, bv_user = u,
        bv_channel = c, bv_answer_ids = ids\<rparr>" "upsert_poll_vote v s = (Inr prev, s')" for v u c ids prev
    using that votes_ok_update [of "pb_votes s" v] by (auto simp: poll_runs poll_db_ok_def)
  show "poll_db_ok s \<Longrightarrow> remove_poll_vote (vp_id p) u s = (Inr prev, s') \<Longrightarrow> poll_db_ok s' \<and> 0 + 0 = (0 :: int)" for u prev
    by (auto simp: poll_runs poll_db_ok_def intro: votes_ok_delete)
qed (auto simp: poll_runs intro: update_poll_ok split: option.splits if_splits)

end
