(* ===== verification/Poll_Props.thy ===== *)
theory Poll_Props
  imports Poll_Handlers
begin

text \<open>
  What polls guarantee under every interleaving of their routes and the expiry daemon.
\<close>

section \<open>Concrete systems\<close>

definition ex_owner :: puser where
  "ex_owner = \<lparr>user_id = ''o'', relations = None, privileged = False, bot_owner = None\<rparr>"

definition ex_poll :: poll where
  "ex_poll = \<lparr>vp_id = ''p'', vp_message = ''m'', vp_channel = ''c'', vp_server = Some ''s'', vp_author = ''o'',
     vp_question = ''q'', vp_answers = [\<lparr>pa_id = 0, pa_text = ''a'', pa_emoji = None\<rparr>,
       \<lparr>pa_id = 1, pa_text = ''b'', pa_emoji = None\<rparr>],
     vp_allow_multiselect = False, vp_expires_at = 1000, vp_closed = False, vp_counts = [], vp_total_votes = 0\<rparr>"

definition ex_polls :: poll_db where
  "ex_polls = \<lparr>pb_perm = ex_pdb, pb_polls = [(''p'', ex_poll)], pb_votes = [], pb_events = []\<rparr>"

text \<open>Two voters, one of whom retracts at the same time.\<close>

definition ex_voting :: "poll_request list" where
  "ex_voting = [Vote [] 60 500 ex_user ''c'' ''p'' [1], Vote [] 60 501 ex_owner ''c'' ''p'' [0],
     Unvote 60 502 ex_owner ''c'' ''p'']"

definition ex_voted :: "poll_db sys" where
  "ex_voted = run_schedule [0, 1, 2, 0, 1, 2, 0, 1, 2, 0, 1, 2, 0, 1, 2, 0, 1, 2, 0, 1, 2]
     (map poll_program ex_voting, ex_polls)"

text \<open>A voter, the author who ends the poll, and a late pass of the daemon.\<close>

definition ex_race :: "poll_request list" where
  "ex_race = [Vote [] 60 500 ex_user ''c'' ''p'' [1], End 60 ex_owner ''c'' ''p'', Expiry 1000]"

definition run_race :: "nat list \<Rightarrow> poll_db sys" where
  "run_race schedule = run_schedule schedule (map poll_program ex_race, ex_polls)"

lemma run_race_reaches: "sys_step\<^sup>*\<^sup>* (map poll_program ex_race, ex_polls) (fst (run_race sc), snd (run_race sc))"
  unfolding run_race_def by (simp add: run_schedule_reaches)

lemma ex_open: "open_poll ''p'' 1000 ex_polls" "counts_exact ''p'' ex_polls"
proof -
  show "open_poll ''p'' 1000 ex_polls"
    by (auto simp: open_poll_def poll_db_ok_def polls_ok_def votes_ok_def keyed_def ex_polls_def ex_poll_def counts_i64_def
      i64_defs)
  have "stored x ex_poll = 0" for x by (cases x) (simp_all add: ex_poll_def)
  then show "counts_exact ''p'' ex_polls" by (simp add: counts_exact_def ex_polls_def ballot_tally_def ballots_def rows_def)
qed

section \<open>Properties\<close>

text \<open>C7: While a poll is open, votes are never lost and never counted twice: any number of votes,
  retractions and other requests may run side by side in any order (requests that may close this
  poll apart). When all have ended, its counters say exactly what its ballots say, for every
  answer and for the number of voters, provided the numbers fit into 64 bits.\<close>

theorem open_poll_counts_exact:
  assumes "open_poll q E s" "counts_exact q s"
    and "\<And>r p. r \<in> set rs \<Longrightarrow> vp_id p = q \<Longrightarrow> vp_expires_at p = E \<Longrightarrow> \<not> may_end r p"
    and "sys_step\<^sup>*\<^sup>* (map poll_program rs, s) (ps, s')" "\<forall>p \<in> set ps. ended p"
    and "\<forall>x. ballot_tally x q (pb_votes s') \<le> i64_max"
  shows "\<exists>p. map_of (pb_polls s') q = Some p \<and> \<not> vp_closed p
    \<and> vp_total_votes p = int (length (ballots q (pb_votes s')))
    \<and> counts_vec p = map (\<lambda>a. \<lparr>pc_answer_id = pa_id a,
        pc_count = (\<Sum>v \<leftarrow> ballots q (pb_votes s'). int (count_list (bv_answer_ids v) (pa_id a)))\<rparr>) (vp_answers p)"
proof -
  have "open_poll q E s' \<and> drift x q s' = drift x q s" for x
    by (rule dr.settled [OF assms(4,1,5)]) (use assms(3) in \<open>auto simp: row_of_def\<close>)
  then have o: "open_poll q E s'" and "\<forall>x. drift x q s' = 0" using exact_drift_zero [OF assms(2)] by auto
  then have "counts_exact q s'" using drift_zero_exact assms(6) by blast
  then obtain p where p: "map_of (pb_polls s') q = Some p" "\<And>x. stored x p = ballot_tally x q (pb_votes s')"
    by (auto simp: counts_exact_def)
  have "vp_total_votes p = int (length (ballots q (pb_votes s')))"
    using p(2) [of None] by (simp add: ballot_tally_def sum_list_triv)
  moreover have "count_of (vp_counts p) (answer_key a) = (\<Sum>v \<leftarrow> ballots q (pb_votes s'). int (count_list (bv_answer_ids v) a))" for a
    using p(2) [of "Some a"] by (simp add: ballot_tally_def)
  ultimately show ?thesis using p(1) o by (auto simp: counts_vec_def wire_counts_def open_poll_def)
qed

theorem open_poll_counts_exact_witness:
  "list_all ended (fst ex_voted) \<and> (\<exists>p. map_of (pb_polls (snd ex_voted)) ''p'' = Some p \<and> \<not> vp_closed p
    \<and> vp_total_votes p = int (length (ballots ''p'' (pb_votes (snd ex_voted))))
    \<and> counts_vec p = map (\<lambda>a. \<lparr>pc_answer_id = pa_id a,
        pc_count = (\<Sum>v \<leftarrow> ballots ''p'' (pb_votes (snd ex_voted)). int (count_list (bv_answer_ids v) (pa_id a)))\<rparr>) (vp_answers p))"
proof
  show ended: "list_all ended (fst ex_voted)" by code_simp
  have votes: "map bv_answer_ids (ballots ''p'' (pb_votes (snd ex_voted))) = [[1]]" by code_simp
  then have bound: "ballot_tally x ''p'' (pb_votes (snd ex_voted)) \<le> i64_max" for x
    by (cases x) (auto simp: ballot_tally_def i64_max_def simp flip: map_map [of _ bv_answer_ids, unfolded comp_def])
  have run: "sys_step\<^sup>*\<^sup>* (map poll_program ex_voting, ex_polls) (fst ex_voted, snd ex_voted)"
    unfolding ex_voted_def prod.collapse by (rule run_schedule_reaches)
  show "\<exists>p. map_of (pb_polls (snd ex_voted)) ''p'' = Some p \<and> \<not> vp_closed p
    \<and> vp_total_votes p = int (length (ballots ''p'' (pb_votes (snd ex_voted))))
    \<and> counts_vec p = map (\<lambda>a. \<lparr>pc_answer_id = pa_id a,
        pc_count = (\<Sum>v \<leftarrow> ballots ''p'' (pb_votes (snd ex_voted)). int (count_list (bv_answer_ids v) (pa_id a)))\<rparr>) (vp_answers p)"
    by (rule open_poll_counts_exact [OF ex_open _ run])
      (use ended bound in \<open>auto simp: list_all_iff ex_voting_def is_expired_def\<close>)
qed

text \<open>C14: A poll closes once. However many expiry passes, lazy closes and \<open>/end\<close> requests race
  with each other and with voters, when all have ended exactly one \<open>PollClose\<close> was published for
  a poll that is closed by then, and none for a poll that is still open.\<close>

theorem poll_closes_once:
  assumes "polls_ok (pb_polls s)" "\<not> is_closed q s" "close_events q s = 0"
    and "sys_step\<^sup>*\<^sup>* (map poll_program rs, s) (ps, s')" "\<forall>p \<in> set ps. ended p"
  shows "close_events q s' = (if is_closed q s' then 1 else 0)"
proof -
  have "polls_ok (pb_polls s') \<and> unannounced q s' = unannounced q s"
    by (rule cl.settled [OF assms(4,1,5)]) simp
  then show ?thesis using assms(2,3) by (simp add: unannounced_def split: if_splits)
qed

theorem poll_closes_once_witness:
  "close_events ''p'' (snd (run_race [0, 1, 2, 0, 1, 2, 0, 1, 2, 0, 1, 2, 0, 1, 2, 0, 1, 2, 0, 1, 2, 0, 1, 2]))
     = (if is_closed ''p'' (snd (run_race [0, 1, 2, 0, 1, 2, 0, 1, 2, 0, 1, 2, 0, 1, 2, 0, 1, 2, 0, 1, 2, 0, 1, 2])) then 1 else 0)
   \<and> is_closed ''p'' (snd (run_race [0, 1, 2, 0, 1, 2, 0, 1, 2, 0, 1, 2, 0, 1, 2, 0, 1, 2, 0, 1, 2, 0, 1, 2]))"
proof
  let ?sc = "[0, 1, 2, 0, 1, 2, 0, 1, 2, 0, 1, 2, 0, 1, 2, 0, 1, 2, 0, 1, 2, 0, 1, 2]"
  have ended: "list_all ended (fst (run_race ?sc))" by code_simp
  show "is_closed ''p'' (snd (run_race ?sc))" by code_simp
  show "close_events ''p'' (snd (run_race ?sc)) = (if is_closed ''p'' (snd (run_race ?sc)) then 1 else 0)"
  proof (rule poll_closes_once [OF _ _ _ run_race_reaches])
    show "polls_ok (pb_polls ex_polls)" "\<not> is_closed ''p'' ex_polls" "close_events ''p'' ex_polls = 0" by code_simp+
    show "\<forall>p \<in> set (fst (run_race ?sc)). ended p" using ended by (simp add: list_all_iff)
  qed
qed

text \<open>C33: The poll tables stay well-formed in every state that any interleaving of requests and
  expiry passes reaches: each row under its own key, and each ballot's key that of its poll and
  voter, so that nobody holds two ballots on a poll.\<close>

theorem poll_tables_well_formed:
  assumes "poll_db_ok s" "sys_step\<^sup>*\<^sup>* (map poll_program rs, s) (ps, s')"
  shows "poll_db_ok s' \<and> distinct (map (\<lambda>v. (bv_poll v, bv_user v)) (rows (pb_votes s')))"
proof -
  have ok: "poll_db_ok s'" by (rule wf.kept [OF assms(2,1)]) simp
  then have "map (\<lambda>v. vote_key (bv_poll v) (bv_user v)) (rows (pb_votes s')) = map fst (pb_votes s')"
    by (auto simp: poll_db_ok_def votes_ok_def list_all_iff rows_def)
  then have "distinct (map (\<lambda>v. vote_key (bv_poll v) (bv_user v)) (rows (pb_votes s')))"
    using ok by (simp add: poll_db_ok_def votes_ok_def keyed_def)
  then have "distinct (map (\<lambda>(q, u). vote_key q u) (map (\<lambda>v. (bv_poll v, bv_user v)) (rows (pb_votes s'))))"
    by (simp add: comp_def)
  with ok show ?thesis using distinct_map by blast
qed

theorem poll_tables_well_formed_witness:
  "poll_db_ok (snd (run_race [0, 0, 0]))
   \<and> distinct (map (\<lambda>v. (bv_poll v, bv_user v)) (rows (pb_votes (snd (run_race [0, 0, 0])))))"
proof -
  have "poll_db_ok ex_polls" using ex_open by (simp add: open_poll_def)
  then show ?thesis by (rule poll_tables_well_formed [OF _ run_race_reaches])
qed

text \<open>Results are hidden until one votes. A fetched poll shows its counts and its total exactly
  when it is closed (or expired, for then the fetch itself closes it) or the caller has voted on
  it, is its author, or may manage messages in the channel.\<close>

theorem poll_results_hidden:
  assumes "polls_ok (pb_polls s)" "runP (poll_fetch tm now u target q) s = (Inr m, s')"
  shows "\<exists>channel perms p. poll_gate tm u target s = (Inr (channel, perms), s) \<and> map_of (pb_polls s) q = Some p
    \<and> (pm_counts m \<noteq> None \<longleftrightarrow> vp_closed p \<or> is_expired p now \<or> map_of (pb_votes s) (vote_key q (user_id u)) \<noteq> None
         \<or> vp_author p = user_id u \<or> has_channel_permission perms ManageMessages)
    \<and> (pm_total_votes m \<noteq> None \<longleftrightarrow> pm_counts m \<noteq> None)"
proof -
  have gate: "snd (poll_gate tm u target s) = s"
    by (simp add: poll_gate_def eff_simps split: prod.splits sum.splits)
  obtain channel perms where g: "poll_gate tm u target s = (Inr (channel, perms), s)"
    using assms(2) gate by (cases "poll_gate tm u target s"; cases "fst (poll_gate tm u target s)")
      (auto simp: poll_fetch_def runP_simps)
  obtain p where p: "map_of (pb_polls s) q = Some p"
    using assms(2) by (auto simp: poll_fetch_def runP_simps g poll_runs fetch_of_def split: option.splits)
  have id: "vp_id p = q" using assms(1) p by (rule polls_ok_id)
  show ?thesis
    using assms(2) g p id
    by (auto simp: poll_fetch_def runP_simps poll_runs fetch_of_def close_poll_def recount_def Let_def
      update_poll_lookup into_model_def can_see_counts_def split: if_splits)
qed

theorem poll_results_hidden_witness:
  "\<exists>m. fst (runP (poll_fetch 40 500 ex_user ''c'' ''p'') ex_polls) = Inr m \<and> pm_counts m = None"
proof -
  let ?r = "runP (poll_fetch 40 500 ex_user ''c'' ''p'') ex_polls"
  have "\<not> isl (fst ?r)" by code_simp
  then obtain m where m: "?r = (Inr m, snd ?r)" by (cases ?r) (auto simp: isl_def intro: sum.exhaust_sel)
  have ok: "polls_ok (pb_polls ex_polls)" by code_simp
  obtain channel perms p where *: "poll_gate 40 ex_user ''c'' ex_polls = (Inr (channel, perms), ex_polls)"
    "map_of (pb_polls ex_polls) ''p'' = Some p"
    "pm_counts m \<noteq> None \<longleftrightarrow> vp_closed p \<or> is_expired p 500 \<or> map_of (pb_votes ex_polls) (vote_key ''p'' (user_id ex_user)) \<noteq> None
         \<or> vp_author p = user_id ex_user \<or> has_channel_permission perms ManageMessages"
    using poll_results_hidden [OF ok m] by blast
  have "map_sum id (\<lambda>(c, perms). has_channel_permission perms ManageMessages) (fst (poll_gate 40 ex_user ''c'' ex_polls)) = Inr False"
    by code_simp
  then have "pm_counts m = None" using * by (auto simp: ex_polls_def ex_poll_def ex_user_def is_expired_def)
  then show ?thesis using m by (metis fst_conv)
qed

end
