(* ===== verification/Server_Roles.thy ===== *)
theory Server_Roles
  imports Permission_Props
begin

text \<open>
  Administration of the roles of a server: the routes \<open>roles_create\<close>, \<open>roles_edit\<close>,
  \<open>roles_edit_positions\<close>, \<open>roles_delete\<close>, \<open>permissions_set\<close> and \<open>permissions_set_default\<close> of
  \<open>crates/delta/src/routes/servers\<close>, the methods of \<open>Server\<close> and \<open>Role\<close> they call
  (\<open>crates/core/database/src/models/servers/model.rs\<close>), the role operations of the reference
  database, and the audit log they write.

  A request is one function from the state to its answer and the state. Its environment holds
  what is not in the database: the clock, the ids it would generate, the configured limit, the
  regular expression for colours and the text of a failed validation (both of third-party
  crates), the file store for icons, and the answer of the voice servers, which are told of the
  change after it is stored. The cleaned reason for the audit log, or the error that it is too
  long, is an argument. The roles of a server are a hash map in the code; here their table has
  an order, which is the one the code happens to see for roles of equal rank.
\<close>

section \<open>Data\<close>

datatype fields_role = Field_Colour | Field_Icon

record partial_role =
  pr_id :: "string option"
  pr_name :: "string option"
  pr_permissions :: "override_field option"
  pr_colour :: "string option"
  pr_hoist :: "bool option"
  pr_rank :: "int option"
  pr_icon :: "string option"

text \<open>The fields of \<open>PartialServer\<close> these routes set.\<close>

record partial_server =
  ps_roles :: "(string, role) table option"
  ps_default_permissions :: "int option"

text \<open>The fields of \<open>PartialChannel\<close> the routes that set overrides set.\<close>

record partial_channel =
  pc_permissions :: "int option"
  pc_role_permissions :: "(string, override_field) table option"
  pc_default_permissions :: "override_field option"

datatype driver = Reference | MongoDb

datatype audit_value = AString string | AInt int | ABool bool | AStringList "string list"

record audit_change =
  ac_key :: string
  ac_old :: "audit_value option"
  ac_new :: "audit_value option"

datatype audit_action =
    MemberKick | MemberBanAdd | MemberBanRemove | MemberTimeout | MemberTimeoutRemove
  | MemberRoleUpdate | MemberUpdate | MemberVoiceUpdate | MemberMove | MemberDisconnect
  | MessageDelete | MessageBulkDelete | ChannelCreate | ChannelUpdateA | ChannelDelete
  | ChannelOverwriteUpdate | ServerPermissionsUpdate | RoleCreate | RoleUpdate | RoleDelete
  | RoleRanksUpdate | ServerUpdateA | ServerOwnerTransfer | UnknownAction

record audit_entry =
  al_id :: string
  al_server :: string
  al_actor :: "string option"
  al_action :: audit_action
  al_target :: "string option"
  al_channel :: "string option"
  al_changes :: "audit_change list"
  al_count :: "nat option"
  al_reason :: "string option"

datatype role_event =
    ServerUpdate string partial_server
  | ServerRoleUpdate string string partial_role "fields_role list"
  | ServerRoleDelete string string
  | ServerRoleRanksUpdate string "string list"
  | ChannelUpdate string partial_channel

record admin_db =
  ad_db :: pdb
  ad_audit :: "(string, audit_entry) table"
  ad_events :: "(string \<times> role_event) list"

record admin_env =
  en_now :: int
  en_role_id :: string
  en_audit_id :: string
  en_max_roles :: nat
  en_colour_ok :: "string \<Rightarrow> bool"
  en_invalid :: string
  en_mark_deleted :: "string \<Rightarrow> error + unit"
  en_use_icon :: "string \<Rightarrow> string \<Rightarrow> string \<Rightarrow> error + string"
  en_sync :: "pdb \<Rightarrow> server \<Rightarrow> string option \<Rightarrow> error + unit"
  en_driver :: driver
  en_sync_channel :: "pdb \<Rightarrow> channel \<Rightarrow> server option \<Rightarrow> string option \<Rightarrow> error + unit"

record data_edit_role =
  de_name :: "string option"
  de_colour :: "string option"
  de_hoist :: "bool option"
  de_icon :: "string option"
  de_remove :: "fields_role list"

section \<open>Roles and servers\<close>

definition default_partial_role :: partial_role where
  "default_partial_role = \<lparr>pr_id = None, pr_name = None, pr_permissions = None, pr_colour = None, pr_hoist = None,
     pr_rank = None, pr_icon = None\<rparr>"

definition into_optional :: "role \<Rightarrow> partial_role" where
  "into_optional r = \<lparr>pr_id = Some (rl_id r), pr_name = Some (rl_name r), pr_permissions = Some (role_permissions_of r),
     pr_colour = rl_colour r, pr_hoist = Some (rl_hoist r), pr_rank = Some (rank r), pr_icon = rl_icon r\<rparr>"

fun remove_field :: "fields_role \<Rightarrow> role \<Rightarrow> role" where
  "remove_field Field_Colour r = r\<lparr>rl_colour := None\<rparr>"
| "remove_field Field_Icon r = r\<lparr>rl_icon := None\<rparr>"

definition or_else :: "'a option \<Rightarrow> 'a \<Rightarrow> 'a" where
  "or_else v d = (case v of Some x \<Rightarrow> x | None \<Rightarrow> d)"

text \<open>\<open>apply_options\<close>: a field the partial has replaces the stored one, the others stay.\<close>

definition apply_role_options :: "partial_role \<Rightarrow> role \<Rightarrow> role" where
  "apply_role_options p r =
     \<lparr>role_permissions_of = or_else (pr_permissions p) (role_permissions_of r), rank = or_else (pr_rank p) (rank r),
      rl_id = or_else (pr_id p) (rl_id r), rl_name = or_else (pr_name p) (rl_name r),
      rl_colour = (if pr_colour p = None then rl_colour r else pr_colour p), rl_hoist = or_else (pr_hoist p) (rl_hoist r),
      rl_icon = (if pr_icon p = None then rl_icon r else pr_icon p)\<rparr>"

definition apply_server_options :: "partial_server \<Rightarrow> server \<Rightarrow> server" where
  "apply_server_options p s = s\<lparr>roles := or_else (ps_roles p) (roles s),
     default_permissions := or_else (ps_default_permissions p) (default_permissions s)\<rparr>"

definition ordered_roles :: "server \<Rightarrow> (string \<times> role) list" where
  "ordered_roles s = sort_key (\<lambda>(_, r). rank r) (roles s)"

section \<open>The reference database\<close>

definition put_server :: "string \<Rightarrow> server \<Rightarrow> admin_db \<Rightarrow> admin_db" where
  "put_server sid s st = st\<lparr>ad_db := (ad_db st)\<lparr>db_servers := AList.update sid s (db_servers (ad_db st))\<rparr>\<rparr>"

definition update_server :: "string \<Rightarrow> partial_server \<Rightarrow> (admin_db, unit) eff" where
  "update_server sid partial =
     bindE getE (\<lambda>st. case map_of (db_servers (ad_db st)) sid of
       Some s \<Rightarrow> modE (put_server sid (apply_server_options partial s))
     | None \<Rightarrow> errE NotFound)"

definition insert_role :: "string \<Rightarrow> role \<Rightarrow> (admin_db, unit) eff" where
  "insert_role sid r =
     bindE getE (\<lambda>st. case map_of (db_servers (ad_db st)) sid of
       Some s \<Rightarrow> modE (put_server sid (s\<lparr>roles := AList.update (rl_id r) r (roles s)\<rparr>))
     | None \<Rightarrow> errE NotFound)"

definition update_role :: "string \<Rightarrow> string \<Rightarrow> partial_role \<Rightarrow> fields_role list \<Rightarrow> (admin_db, unit) eff" where
  "update_role sid rid partial remove =
     bindE getE (\<lambda>st. case map_of (db_servers (ad_db st)) sid of
       Some s \<Rightarrow>
         (case map_of (roles s) rid of
            Some r \<Rightarrow> modE (put_server sid (s\<lparr>roles := AList.update rid
                (apply_role_options partial (fold remove_field remove r)) (roles s)\<rparr>))
          | None \<Rightarrow> errE NotFound)
     | None \<Rightarrow> errE NotFound)"

definition strip_role :: "string \<Rightarrow> string \<Rightarrow> member \<Rightarrow> member" where
  "strip_role sid rid m = (if member_server m = sid then m\<lparr>member_roles := filter (\<lambda>i. i \<noteq> rid) (member_roles m)\<rparr> else m)"

fun strip_override :: "string \<Rightarrow> string \<Rightarrow> channel \<Rightarrow> channel" where
  "strip_override sid rid (TextChannel c s d rs) = TextChannel c s d (if s = sid then AList.delete rid rs else rs)"
| "strip_override sid rid (Forum c s d rs) = Forum c s d (if s = sid then AList.delete rid rs else rs)"
| "strip_override sid rid c = c"

definition delete_role :: "string \<Rightarrow> string \<Rightarrow> (admin_db, unit) eff" where
  "delete_role sid rid =
     bindE getE (\<lambda>st. case map_of (db_servers (ad_db st)) sid of
       Some s \<Rightarrow>
         if map_of (roles s) rid = None then errE NotFound
         else thenE (modE (put_server sid (s\<lparr>roles := AList.delete rid (roles s)\<rparr>)))
           (modE (\<lambda>st. st\<lparr>ad_db := (ad_db st)
              \<lparr>db_members := map (\<lambda>(k, m). (k, strip_role sid rid m)) (db_members (ad_db st)),
               db_channels := map (\<lambda>(k, c). (k, strip_override sid rid c)) (db_channels (ad_db st))\<rparr>\<rparr>))
     | None \<Rightarrow> errE NotFound)"

definition emit :: "string \<Rightarrow> role_event \<Rightarrow> (admin_db, unit) eff" where
  "emit topic event = modE (\<lambda>st. st\<lparr>ad_events := ad_events st @ [(topic, event)]\<rparr>)"

text \<open>A failed insert is swallowed.\<close>

definition record_entry :: "audit_entry \<Rightarrow> (admin_db, unit) eff" where
  "record_entry e = modE (\<lambda>st.
     if map_of (ad_audit st) (al_id e) \<noteq> None then st
     else st\<lparr>ad_audit := AList.update (al_id e) e (ad_audit st)\<rparr>)"

section \<open>Methods\<close>

definition server_update :: "server \<Rightarrow> partial_server \<Rightarrow> (admin_db, server) eff" where
  "server_update s partial =
     (let s' = apply_server_options partial s in
      thenE (update_server (server_id s') partial)
      (thenE (emit (server_id s') (ServerUpdate (server_id s') partial)) (okE s')))"

definition role_create :: "admin_env \<Rightarrow> server \<Rightarrow> string \<Rightarrow> (admin_db, role) eff" where
  "role_create env s name =
     (let r = \<lparr>role_permissions_of = default_override_field, rank = int (length (roles s)), rl_id = en_role_id env,
               rl_name = name, rl_colour = None, rl_hoist = False, rl_icon = None\<rparr> in
      thenE (insert_role (server_id s) r)
      (thenE (emit (server_id s) (ServerRoleUpdate (server_id s) (rl_id r) (into_optional r) [])) (okE r)))"

definition role_update :: "string \<Rightarrow> role \<Rightarrow> partial_role \<Rightarrow> fields_role list \<Rightarrow> (admin_db, role) eff" where
  "role_update sid r partial remove =
     (let r' = apply_role_options partial (fold remove_field remove r) in
      thenE (update_role sid (rl_id r') partial remove)
      (thenE (emit sid (ServerRoleUpdate sid (rl_id r') partial remove)) (okE r')))"

definition role_delete :: "string \<Rightarrow> role \<Rightarrow> (admin_db, unit) eff" where
  "role_delete sid r = thenE (emit sid (ServerRoleDelete sid (rl_id r))) (delete_role sid (rl_id r))"

definition server_set_role_permission :: "server \<Rightarrow> string \<Rightarrow> override_field \<Rightarrow> (admin_db, server) eff" where
  "server_set_role_permission s rid perms =
     (case map_of (roles s) rid of
        Some r \<Rightarrow>
          bindE (role_update (server_id s) r (default_partial_role\<lparr>pr_permissions := Some perms\<rparr>) []) (\<lambda>r'.
          okE (s\<lparr>roles := AList.update rid r' (roles s)\<rparr>))
      | None \<Rightarrow> errE NotFound)"

text \<open>The ranks become the positions; an unknown id would panic.\<close>

fun assign_ranks :: "nat \<Rightarrow> string list \<Rightarrow> (string, role) table \<Rightarrow> error + (string, role) table" where
  "assign_ranks n [] rs = Inr rs"
| "assign_ranks n (i # is) rs =
     (case map_of rs i of
        Some r \<Rightarrow> assign_ranks (Suc n) is (AList.update i (r\<lparr>rank := int n\<rparr>) rs)
      | None \<Rightarrow> Inl (Panic ''called `Option::unwrap()` on a `None` value''))"

text \<open>The first line is a \<open>debug_assert_eq!\<close>, checked in builds with debug assertions, as here; the only
  caller has compared the lengths before.\<close>

definition set_role_ordering :: "server \<Rightarrow> string list \<Rightarrow> (admin_db, server) eff" where
  "set_role_ordering s new_order =
     (if length (roles s) \<noteq> length new_order then errE (Panic ''assertion `left == right` failed'')
      else
        bindE (resE (assign_ranks 0 new_order (roles s))) (\<lambda>rs.
        thenE (update_server (server_id s) \<lparr>ps_roles = Some rs, ps_default_permissions = None\<rparr>)
        (thenE (emit (server_id s) (ServerRoleRanksUpdate (server_id s) new_order))
        (okE (s\<lparr>roles := rs\<rparr>)))))"

section \<open>Routes\<close>

text \<open>The server, the caller's permissions in it, and the query, which has loaded the caller's
  membership unless the caller is the owner or privileged.\<close>

definition server_gate :: "admin_env \<Rightarrow> puser \<Rightarrow> string \<Rightarrow> (admin_db, server \<times> u64 \<times> db_query) eff" where
  "server_gate env u target =
     bindE getE (\<lambda>st.
     bindE (resE (fetch_server (ad_db st) target)) (\<lambda>s.
     case calculate_server_permissions (database_query (ad_db st) (en_now env)) (with_server s (q_new u)) of
       (Inl e, _) \<Rightarrow> errE e
     | (Inr p, q) \<Rightarrow> okE (s, p, q)))"

text \<open>\<open>query.get_member_rank().unwrap_or(i64::MIN)\<close>\<close>

definition member_rank :: "db_query \<Rightarrow> error + int" where
  "member_rank q = map_sum id (\<lambda>r. or_else r i64_min) (get_member_rank q)"

definition change :: "string \<Rightarrow> audit_value option \<Rightarrow> audit_value option \<Rightarrow> audit_change" where
  "change key old new = \<lparr>ac_key = key, ac_old = old, ac_new = new\<rparr>"

definition entry :: "admin_env \<Rightarrow> puser \<Rightarrow> server \<Rightarrow> audit_action \<Rightarrow> string option \<Rightarrow> audit_change list \<Rightarrow> string option
    \<Rightarrow> audit_entry" where
  "entry env u s action target changes reason =
     \<lparr>al_id = en_audit_id env, al_server = server_id s, al_actor = Some (user_id u), al_action = action,
      al_target = target, al_channel = None, al_changes = changes, al_count = None, al_reason = reason\<rparr>"

text \<open>The \<open>length\<close> rule of the validator counts characters: bytes that continue none.\<close>

definition char_count :: "string \<Rightarrow> nat" where
  "char_count t = length (filter (\<lambda>c. \<not> (128 \<le> (of_char c :: nat) \<and> (of_char c :: nat) < 192)) t)"

definition length_ok :: "nat \<Rightarrow> nat \<Rightarrow> string \<Rightarrow> bool" where
  "length_ok lo hi t \<longleftrightarrow> lo \<le> char_count t \<and> char_count t \<le> hi"

definition valid_edit :: "admin_env \<Rightarrow> data_edit_role \<Rightarrow> bool" where
  "valid_edit env d \<longleftrightarrow>
     (case de_name d of Some n \<Rightarrow> length_ok 1 32 n | None \<Rightarrow> True)
     \<and> (case de_colour d of Some c \<Rightarrow> length_ok 1 128 c \<and> en_colour_ok env c | None \<Rightarrow> True)
     \<and> (case de_icon d of Some i \<Rightarrow> length_ok 1 128 i | None \<Rightarrow> True)"

definition roles_create ::
    "admin_env \<Rightarrow> puser \<Rightarrow> string \<Rightarrow> string \<Rightarrow> error + string option \<Rightarrow> (admin_db, string \<times> role) eff" where
  "roles_create env u target name reason =
     bindE (resE reason) (\<lambda>reason.
     thenE (if \<not> length_ok 1 32 name then errE (FailedValidation (en_invalid env)) else okE ())
     (bindE (server_gate env u target) (\<lambda>(s, p, q).
      thenE (resE (throw_if_lacking_channel_permission p ManageRole))
      (if length (roles s) \<ge> en_max_roles env then errE (TooManyRoles (en_max_roles env))
       else bindE (role_create env s name) (\<lambda>r.
         thenE (record_entry (entry env u s RoleCreate (Some (rl_id r))
           [change ''name'' None (Some (AString (rl_name r)))] reason))
         (okE (rl_id r, r)))))))"

definition push_if_changed :: "string \<Rightarrow> audit_value option \<Rightarrow> audit_value option \<Rightarrow> audit_change list" where
  "push_if_changed key old new = (if old \<noteq> new then [change key old new] else [])"

definition role_update_changes :: "role \<Rightarrow> role \<Rightarrow> audit_change list" where
  "role_update_changes before after =
     push_if_changed ''name'' (Some (AString (rl_name before))) (Some (AString (rl_name after)))
     @ push_if_changed ''colour'' (map_option AString (rl_colour before)) (map_option AString (rl_colour after))
     @ push_if_changed ''hoist'' (Some (ABool (rl_hoist before))) (Some (ABool (rl_hoist after)))
     @ push_if_changed ''rank'' (Some (AInt (rank before))) (Some (AInt (rank after)))
     @ (if rl_icon before \<noteq> rl_icon after then [change ''icon'' None (Some (ABool (rl_icon after \<noteq> None)))] else [])"

definition roles_edit ::
    "admin_env \<Rightarrow> puser \<Rightarrow> string \<Rightarrow> string \<Rightarrow> data_edit_role \<Rightarrow> error + string option \<Rightarrow> (admin_db, role) eff" where
  "roles_edit env u target rid data reason =
     thenE (if \<not> valid_edit env data then errE (FailedValidation (en_invalid env)) else okE ())
     (bindE (resE reason) (\<lambda>reason.
      bindE (server_gate env u target) (\<lambda>(s, p, q).
      thenE (resE (throw_if_lacking_channel_permission p ManageRole))
      (bindE (resE (member_rank q)) (\<lambda>mrank.
       case map_of (roles s) rid of
         None \<Rightarrow> errE NotFound
       | Some r \<Rightarrow>
           if rank r \<le> mrank then errE NotElevated
           else
             thenE (case (Field_Icon \<in> set (de_remove data), rl_icon r) of
                      (True, Some i) \<Rightarrow> resE (en_mark_deleted env i)
                    | _ \<Rightarrow> okE ())
             (bindE (case de_icon data of
                       Some i \<Rightarrow> resE (map_sum id Some (en_use_icon env i rid (user_id u)))
                     | None \<Rightarrow> okE None) (\<lambda>final_icon.
              bindE (role_update (server_id s) r (default_partial_role\<lparr>pr_name := de_name data,
                pr_colour := de_colour data, pr_hoist := de_hoist data, pr_icon := final_icon\<rparr>) (de_remove data)) (\<lambda>r'.
              let changes = role_update_changes r r' in
              thenE (if changes \<noteq> [] then record_entry (entry env u s RoleUpdate (Some (rl_id r')) changes reason)
                     else okE ())
              (okE r')))))))))"

fun position :: "'a list \<Rightarrow> 'a \<Rightarrow> nat option" where
  "position [] x = None"
| "position (y # ys) x = (if y = x then Some 0 else map_option Suc (position ys x))"

text \<open>The roles the caller may not move: those at or above the caller's own, or all of them for a
  caller whose membership was not loaded.\<close>

definition fixed_role :: "int option \<Rightarrow> role \<Rightarrow> bool" where
  "fixed_role top_rank r = (case top_rank of Some t \<Rightarrow> rank r \<le> t | None \<Rightarrow> True)"

definition edit_role_ranks ::
    "admin_env \<Rightarrow> puser \<Rightarrow> string \<Rightarrow> string list \<Rightarrow> error + string option \<Rightarrow> (admin_db, server) eff" where
  "edit_role_ranks env u target ranks reason =
     bindE (resE reason) (\<lambda>reason.
     bindE (server_gate env u target) (\<lambda>(s, p, q).
     thenE (resE (throw_if_lacking_channel_permission p ManageRole))
     (let existing_order = map fst (ordered_roles s) in
      if length ranks \<noteq> length (roles s) \<or> \<not> list_all (\<lambda>(i, _). i \<in> set ranks) (roles s) then errE InvalidOperation
      else thenE
        (if owner s \<noteq> user_id u
         then bindE (resE (get_member_rank q)) (\<lambda>top_rank.
           if list_ex (\<lambda>(i, r). fixed_role top_rank r \<and> position existing_order i \<noteq> position ranks i) (roles s)
           then errE NotElevated else okE ())
         else okE ())
        (let moved = list_ex (\<lambda>(n, i). map_option rank (map_of (roles s) i) \<noteq> Some (int n)) (enumerate 0 ranks) in
         bindE (set_role_ordering s ranks) (\<lambda>s'.
         thenE (if moved then record_entry (entry env u s' RoleRanksUpdate None
                  [change ''ranks'' None (Some (AStringList ranks))] reason) else okE ())
         (bindE getE (\<lambda>st.
          thenE (resE (en_sync env (ad_db st) s' None)) (okE s'))))))))"

text \<open>What deleting a role takes away as denies; bits that name no permission are left out.\<close>

definition lifted_denies :: "override_field \<Rightarrow> override" where
  "lifted_denies f = \<lparr>allow = 0, deny = i64_as_u64 (of_d f) AND channel_bits GrantAllSafe\<rparr>"

fun channel_override :: "channel \<Rightarrow> string \<Rightarrow> override_field option" where
  "channel_override (TextChannel _ _ _ rs) rid = map_of rs rid"
| "channel_override (Forum _ _ _ rs) rid = map_of rs rid"
| "channel_override _ rid = None"

text \<open>The channels on which the role carries denies; an id without a channel is skipped.\<close>

fun channel_denies :: "pdb \<Rightarrow> string \<Rightarrow> string list \<Rightarrow> error + (channel \<times> override) list" where
  "channel_denies db rid [] = Inr []"
| "channel_denies db rid (c # cs) =
     (case fetch_channel db c of
        Inl e \<Rightarrow> if e = NotFound then channel_denies db rid cs else Inl e
      | Inr channel \<Rightarrow>
          map_sum id (\<lambda>rest. case map_option lifted_denies (channel_override channel rid) of
              Some d \<Rightarrow> if deny d \<noteq> 0 then (channel, d) # rest else rest
            | None \<Rightarrow> rest) (channel_denies db rid cs))"

definition may_clear :: "u64 \<Rightarrow> override \<Rightarrow> error + unit" where
  "may_clear p d =
     (case throw_if_lacking_channel_permission p ManagePermissions of
        Inl e \<Rightarrow> Inl e
      | Inr _ \<Rightarrow> throw_permission_override p (Some d) default_override)"

fun may_clear_all :: "pdb \<Rightarrow> int \<Rightarrow> puser \<Rightarrow> server \<Rightarrow> (channel \<times> override) list \<Rightarrow> error + unit" where
  "may_clear_all db now u s [] = Inr ()"
| "may_clear_all db now u s ((c, d) # cds) =
     (case fst (calculate_channel_permissions (database_query db now) (with_server s (with_channel c (q_new u)))) of
        Inl e \<Rightarrow> Inl e
      | Inr p \<Rightarrow> (case may_clear p d of Inl e \<Rightarrow> Inl e | Inr _ \<Rightarrow> may_clear_all db now u s cds))"

definition throw_if_deleting_lifts_denies :: "pdb \<Rightarrow> int \<Rightarrow> puser \<Rightarrow> server \<Rightarrow> role \<Rightarrow> u64 \<Rightarrow> error + unit" where
  "throw_if_deleting_lifts_denies db now u s r p =
     (case channel_denies db (rl_id r) (sv_channels s) of
        Inl e \<Rightarrow> Inl e
      | Inr cds \<Rightarrow>
          let server_deny = lifted_denies (role_permissions_of r) in
          if deny server_deny = 0 \<and> cds = [] then Inr ()
          else (case may_clear p server_deny of
                  Inl e \<Rightarrow> Inl e
                | Inr _ \<Rightarrow> may_clear_all db now u s cds))"

definition roles_delete ::
    "admin_env \<Rightarrow> puser \<Rightarrow> string \<Rightarrow> string \<Rightarrow> error + string option \<Rightarrow> (admin_db, unit) eff" where
  "roles_delete env u target rid reason =
     bindE (resE reason) (\<lambda>reason.
     bindE (server_gate env u target) (\<lambda>(s, p, q).
     thenE (resE (throw_if_lacking_channel_permission p ManageRole))
     (bindE (resE (member_rank q)) (\<lambda>mrank.
      bindE (resE (fetch_of (map_of (roles s) rid))) (\<lambda>r.
      if rank r \<le> mrank then errE NotElevated
      else
        bindE getE (\<lambda>st.
        thenE (resE (throw_if_deleting_lifts_denies (ad_db st) (en_now env) u s r p))
        (let s' = s\<lparr>roles := AList.delete rid (roles s)\<rparr> in
         thenE (role_delete (server_id s') r)
         (thenE (record_entry (entry env u s' RoleDelete (Some rid) [change ''name'' (Some (AString (rl_name r))) None] reason))
         (bindE getE (\<lambda>st'. resE (en_sync env (ad_db st') s' None)))))))))))"

definition set_role_permission ::
    "admin_env \<Rightarrow> puser \<Rightarrow> string \<Rightarrow> string \<Rightarrow> override \<Rightarrow> error + string option \<Rightarrow> (admin_db, server) eff" where
  "set_role_permission env u target rid data reason =
     bindE (resE reason) (\<lambda>reason.
     bindE getE (\<lambda>st0.
     bindE (resE (fetch_server (ad_db st0) target)) (\<lambda>s0.
     bindE (resE (fetch_of (map_of (roles s0) rid))) (\<lambda>r.
     bindE (server_gate env u target) (\<lambda>(s, p, q).
     thenE (resE (throw_if_lacking_channel_permission p ManagePermissions))
     (bindE (resE (member_rank q)) (\<lambda>mrank.
      if rank r \<le> mrank then errE NotElevated
      else
        let old = role_permissions_of r; new = field_of_override data in
        thenE (resE (throw_permission_override p (Some (override_of_field old)) data))
        (bindE (server_set_role_permission s rid new) (\<lambda>s'.
         thenE (if of_a old \<noteq> of_a new \<or> of_d old \<noteq> of_d new
                then record_entry (entry env u s' ServerPermissionsUpdate (Some rid)
                  [change ''allow'' (Some (AInt (of_a old))) (Some (AInt (of_a new))),
                   change ''deny'' (Some (AInt (of_d old))) (Some (AInt (of_d new)))] reason)
                else okE ())
         (bindE getE (\<lambda>st. thenE (resE (en_sync env (ad_db st) s' (Some rid))) (okE s'))))))))))))"

definition set_default_server_permissions ::
    "admin_env \<Rightarrow> puser \<Rightarrow> string \<Rightarrow> u64 \<Rightarrow> error + string option \<Rightarrow> (admin_db, server) eff" where
  "set_default_server_permissions env u target data reason =
     bindE (resE reason) (\<lambda>reason.
     bindE (server_gate env u target) (\<lambda>(s, p, q).
     thenE (resE (throw_if_lacking_channel_permission p ManagePermissions))
     (thenE (resE (throw_permission_override p None \<lparr>allow = data, deny = 0\<rparr>))
     (bindE (server_update s \<lparr>ps_roles = None, ps_default_permissions = Some (u64_as_i64 data)\<rparr>) (\<lambda>s'.
      thenE (if default_permissions s \<noteq> default_permissions s'
             then record_entry (entry env u s' ServerPermissionsUpdate (Some ''default'')
               [change ''allow'' (Some (AInt (default_permissions s))) (Some (AInt (default_permissions s')))] reason)
             else okE ())
      (bindE getE (\<lambda>st. thenE (resE (en_sync env (ad_db st) s' None)) (okE s'))))))))"

end
