(* ===== verification/Role_Effects.thy ===== *)
theory Role_Effects
  imports Server_Roles
begin

text \<open>
  What a request for the administration of roles stores. The permissions of a member are
  read bit by bit (\<open>role_bits\<close>, \<open>member_bits\<close>), with the changes to overrides that cannot set a bit;
  every request other than a reorder is then shown to store one of six changes (\<open>stores\<close>), each with
  the checks that allowed it.
\<close>

section \<open>Requests\<close>

datatype admin_request =
    CreateRole string string
  | EditRole string string data_edit_role
  | EditRanks string "string list"
  | DeleteRole string string
  | SetRolePermission string string override
  | SetDefault string u64

fun request_server :: "admin_request \<Rightarrow> string" where
  "request_server (CreateRole t _) = t"
| "request_server (EditRole t _ _) = t"
| "request_server (EditRanks t _) = t"
| "request_server (DeleteRole t _) = t"
| "request_server (SetRolePermission t _ _) = t"
| "request_server (SetDefault t _) = t"

text \<open>The state a request leaves, whatever it answers.\<close>

fun run_admin :: "admin_env \<Rightarrow> puser \<Rightarrow> error + string option \<Rightarrow> admin_request \<Rightarrow> admin_db \<Rightarrow> admin_db" where
  "run_admin env u why (CreateRole t name) st = snd (roles_create env u t name why st)"
| "run_admin env u why (EditRole t rid d) st = snd (roles_edit env u t rid d why st)"
| "run_admin env u why (EditRanks t ranks) st = snd (edit_role_ranks env u t ranks why st)"
| "run_admin env u why (DeleteRole t rid) st = snd (roles_delete env u t rid why st)"
| "run_admin env u why (SetRolePermission t rid d) st = snd (set_role_permission env u t rid d why st)"
| "run_admin env u why (SetDefault t d) st = snd (set_default_server_permissions env u t d why st)"

definition server_permissions_of :: "pdb \<Rightarrow> int \<Rightarrow> puser \<Rightarrow> string \<Rightarrow> u64" where
  "server_permissions_of db now u sid =
     (case map_of (db_servers db) sid of
        None \<Rightarrow> 0
      | Some s \<Rightarrow> (case fst (calculate_server_permissions (database_query db now) (with_server s (q_new u))) of
                    Inr p \<Rightarrow> p | Inl _ \<Rightarrow> 0))"

definition admin_ok :: "pdb \<Rightarrow> bool" where
  "admin_ok db \<longleftrightarrow> keyed server_id (db_servers db) \<and> list_all (\<lambda>(_, s). keyed rl_id (roles s)) (db_servers db)
     \<and> list_all (\<lambda>((s, _), m). member_server m = s) (db_members db)"

section \<open>The calculation, bit by bit\<close>

definition role_bits :: "server \<Rightarrow> member \<Rightarrow> u64" where
  "role_bits s m = foldl pv_apply (i64_as_u64 (default_permissions s)) (server_role_overrides s (member_roles m))"

definition member_bits :: "int \<Rightarrow> server \<Rightarrow> member \<Rightarrow> u64" where
  "member_bits now s m =
     pv_revoke (role_bits s m)
       ((if can_publish m then 0 else channel_bits Speak OR channel_bits Video) OR (if can_receive m then 0 else channel_bits Listen))
     AND (if in_timeout now m then ALLOW_IN_TIMEOUT else - 1)"

lemma server_calc_run:
  "fst (calculate_server_permissions (database_query db now) (with_server s (q_new u))) = Inr
     (if privileged u \<or> owner s = user_id u then channel_bits GrantAllSafe
      else case map_of (db_members db) (server_id s, user_id u) of None \<Rightarrow> 0 | Some m \<Rightarrow> member_bits now s m)"
proof -
  let ?q = "with_server s (q_new u)"
  have "db_fresh ?q" by (simp add: db_fresh_def with_server_def q_new_def)
  with dbq.server_calc [of db now] obtain q' where
    "calculate_server_permissions (database_query db now) ?q = (Inr (server_value (db_answers db now ?q)), q')"
    by (auto elim: asksE)
  then show ?thesis
    by (auto simp: server_value_def voice_denied_def timeout_mask_def db_answers_def Let_def member_bits_def role_bits_def
      db_read_defs with_server_def q_new_def roles_of_member_def split: option.splits)
qed

text \<open>Overrides that at a bit allow no more and deny no less than others.\<close>

definition milder :: "nat \<Rightarrow> override \<Rightarrow> override \<Rightarrow> bool" where
  "milder n o' v \<longleftrightarrow> (bit (allow o') n \<longrightarrow> bit (allow v) n) \<and> (bit (deny v) n \<longrightarrow> bit (deny o') n)"

lemma milder_refl [simp]: "milder n v v"
  by (simp add: milder_def)

lemma foldl_milder:
  "list_all2 (milder n) os' os \<Longrightarrow> (bit p' n \<longrightarrow> bit p n) \<Longrightarrow> bit (foldl pv_apply p' os') n \<Longrightarrow> bit (foldl pv_apply p os) n"
proof (induction os' os arbitrary: p' p rule: list_all2_induct)
  case (Cons o' os' v os)
  then show ?case using Cons(3) [of "pv_apply p' o'" "pv_apply p v"] by (auto simp: milder_def)
qed simp

text \<open>Sorting by a key keeps related lists related.\<close>

lemma insort_related:
  assumes "list_all2 R xs ys" "R x y" "\<And>a b. R a b \<Longrightarrow> f a = g b"
  shows "list_all2 R (insort_key f x xs) (insort_key g y ys)"
  using assms(1) by (induction rule: list_all2_induct) (use assms(2,3) in \<open>auto dest: assms(3)\<close>)

lemma sort_related:
  assumes "list_all2 R xs ys" "\<And>a b. R a b \<Longrightarrow> f a = g b"
  shows "list_all2 R (sort_key f xs) (sort_key g ys)"
  unfolding sort_key_def using assms(1)
  by (induction rule: list_all2_induct) (auto intro: insort_related assms(2))

definition tame :: "nat \<Rightarrow> string \<times> role \<Rightarrow> string \<times> role \<Rightarrow> bool" where
  "tame n a b \<longleftrightarrow> fst a = fst b \<and> rank (snd a) = rank (snd b)
     \<and> milder n (override_of_field (role_permissions_of (snd a))) (override_of_field (role_permissions_of (snd b)))"

lemma list_all2_filter_fst:
  "list_all2 (tame n) rs' rs \<Longrightarrow> list_all2 (tame n) (filter (\<lambda>(i, _). i \<in> A) rs') (filter (\<lambda>(i, _). i \<in> A) rs)"
  by (induction rule: list_all2_induct) (auto simp: tame_def)

lemma role_bits_tame:
  assumes "list_all2 (tame n) (roles s') (roles s)" "bit (i64_as_u64 (default_permissions s')) n \<Longrightarrow> bit (i64_as_u64 (default_permissions s)) n"
    and "bit (role_bits s' m) n"
  shows "bit (role_bits s m) n"
proof -
  let ?R = "\<lambda>a b. fst a = fst b \<and> milder n (snd a) (snd b)"
  have "list_all2 ?R (map (\<lambda>(_, r). (rank r, override_of_field (role_permissions_of r))) (filter (\<lambda>(i, _). i \<in> set (member_roles m)) (roles s')))
    (map (\<lambda>(_, r). (rank r, override_of_field (role_permissions_of r))) (filter (\<lambda>(i, _). i \<in> set (member_roles m)) (roles s)))"
    using list_all2_filter_fst [OF assms(1), of "set (member_roles m)"]
    by (auto simp: list_all2_map1 list_all2_map2 tame_def split_beta elim: list_all2_mono)
  from sort_related [OF this, of "\<lambda>p. - fst p" "\<lambda>p. - fst p"]
  have "list_all2 (milder n) (server_role_overrides s' (member_roles m)) (server_role_overrides s (member_roles m))"
    unfolding server_role_overrides_def by_rank_def list_all2_map1 [of _ snd] list_all2_map2 [of _ _ snd]
    by (auto elim: list_all2_mono)
  from foldl_milder [OF this _ assms(3) [unfolded role_bits_def]] show ?thesis unfolding role_bits_def using assms(2) by blast
qed

text \<open>Taking roles away lifts at most what they deny.\<close>

lemma foldl_dropped:
  "(\<And>x. x \<in> set xs \<Longrightarrow> \<not> P x \<Longrightarrow> \<not> bit (deny (f x)) n) \<Longrightarrow> (bit p' n \<longrightarrow> bit p n) \<Longrightarrow>
   bit (foldl pv_apply p' (map f (filter P xs))) n \<Longrightarrow> bit (foldl pv_apply p (map f xs)) n"
proof (induction xs arbitrary: p' p)
  case (Cons x xs)
  show ?case
  proof (cases "P x")
    case True
    then show ?thesis using Cons.IH [of "pv_apply p' (f x)" "pv_apply p (f x)"] Cons.prems by auto
  next
    case False
    then have "\<not> bit (deny (f x)) n" using Cons.prems(1) by simp
    then show ?thesis using Cons.IH [of p' "pv_apply p (f x)"] Cons.prems False by auto
  qed
qed simp

lemma sort_key_map: "sort_key f (map g xs) = map g (sort_key (\<lambda>x. f (g x)) xs)"
proof (induction xs)
  case (Cons x xs)
  have "insort_key f (g x) (map g ys) = map g (insort_key (\<lambda>x. f (g x)) x ys)" for ys by (induction ys) auto
  then show ?case using Cons by simp
qed simp

lemma server_role_overrides_alt:
  "server_role_overrides s ids = map (\<lambda>p. override_of_field (role_permissions_of (snd p)))
     (filter (\<lambda>p. fst p \<in> set ids) (sort_key (\<lambda>p. - rank (snd p)) (roles s)))"
  unfolding server_role_overrides_def by_rank_def split_beta sort_key_map filter_sort by (simp add: comp_def)

text \<open>A member whose roles lost one, on a server that lost it.\<close>

lemma role_bits_dropped:
  assumes "keyed rl_id (roles s)" "map_of (roles s) rid = Some r" "\<not> bit (deny (override_of_field (role_permissions_of r))) n"
    and "filter (\<lambda>i. i \<noteq> rid) (member_roles m') = filter (\<lambda>i. i \<noteq> rid) (member_roles m)"
    and "bit (role_bits (s\<lparr>roles := AList.delete rid (roles s)\<rparr>) m') n"
  shows "bit (role_bits s m) n"
proof -
  let ?xs = "filter (\<lambda>p. fst p \<in> set (member_roles m)) (sort_key (\<lambda>p. - rank (snd p)) (roles s))"
  have mem: "i \<in> set (member_roles m') \<longleftrightarrow> i \<in> set (member_roles m)" if "i \<noteq> rid" for i
    using arg_cong [OF assms(4), of set] that by (metis (mono_tags, lifting) mem_Collect_eq set_filter)
  have "server_role_overrides (s\<lparr>roles := AList.delete rid (roles s)\<rparr>) (member_roles m')
      = map (\<lambda>p. override_of_field (role_permissions_of (snd p))) (filter (\<lambda>p. fst p \<noteq> rid) ?xs)"
    unfolding server_role_overrides_alt AList.delete_eq by (auto simp: filter_sort [symmetric] split_beta mem intro!: arg_cong [where f = "map _"] filter_cong)
  moreover have "\<not> bit (deny (override_of_field (role_permissions_of (snd x)))) n" if "x \<in> set ?xs" "\<not> fst x \<noteq> rid" for x
  proof -
    have "(rid, snd x) \<in> set (roles s)" using that by auto
    then have "map_of (roles s) rid = Some (snd x)" using assms(1) by (simp add: keyed_def)
    then show ?thesis using assms(2,3) by simp
  qed
  ultimately show ?thesis using assms(5) foldl_dropped [of ?xs "\<lambda>p. fst p \<noteq> rid" "\<lambda>p. override_of_field (role_permissions_of (snd p))" n
      "i64_as_u64 (default_permissions s)" "i64_as_u64 (default_permissions s)"]
    by (simp add: role_bits_def server_role_overrides_alt [of s])
qed

section \<open>From states to permissions\<close>

lemma bit_member_bits:
  "bit (member_bits now s m) n \<longleftrightarrow> bit (role_bits s m) n
     \<and> \<not> bit ((if can_publish m then 0 else channel_bits Speak OR channel_bits Video)
        OR (if can_receive m then 0 else channel_bits Listen)) n
     \<and> bit (if in_timeout now m then ALLOW_IN_TIMEOUT else - 1 :: u64) n"
  by (simp only: member_bits_def bit_and_iff bit_pv_revoke) blast

text \<open>What may change of a member: the roles.\<close>

definition same_member :: "member \<Rightarrow> member \<Rightarrow> bool" where
  "same_member m' m \<longleftrightarrow> can_publish m' = can_publish m \<and> can_receive m' = can_receive m \<and> timeout m' = timeout m"

lemma no_gain:
  assumes "\<And>s'. map_of (db_servers db') sid = Some s' \<Longrightarrow> \<exists>s. map_of (db_servers db) sid = Some s
      \<and> server_id s' = server_id s \<and> owner s' = owner s
      \<and> (\<forall>m'. map_of (db_members db') (server_id s, user_id t) = Some m' \<longrightarrow>
           (\<exists>m. map_of (db_members db) (server_id s, user_id t) = Some m \<and> same_member m' m
              \<and> (bit (role_bits s' m') n \<longrightarrow> bit (role_bits s m) n)))"
    and "bit (server_permissions_of db' now t sid) n"
  shows "bit (server_permissions_of db now t sid) n"
proof -
  from assms(2) obtain s' where s': "map_of (db_servers db') sid = Some s'"
    by (auto simp: server_permissions_of_def split: option.splits)
  with assms(1) obtain s where s: "map_of (db_servers db) sid = Some s" "server_id s' = server_id s" "owner s' = owner s"
    "\<forall>m'. map_of (db_members db') (server_id s, user_id t) = Some m' \<longrightarrow>
       (\<exists>m. map_of (db_members db) (server_id s, user_id t) = Some m \<and> same_member m' m
          \<and> (bit (role_bits s' m') n \<longrightarrow> bit (role_bits s m) n))" by blast
  show ?thesis
  proof (cases "privileged t \<or> owner s = user_id t")
    case True
    then show ?thesis using assms(2) s s' by (simp add: server_permissions_of_def server_calc_run)
  next
    case False
    with assms(2) s s' obtain m' where m': "map_of (db_members db') (server_id s, user_id t) = Some m'" "bit (member_bits now s' m') n"
      by (auto simp: server_permissions_of_def server_calc_run split: option.splits)
    with s(4) obtain m where "map_of (db_members db) (server_id s, user_id t) = Some m" "same_member m' m"
      "bit (role_bits s' m') n \<longrightarrow> bit (role_bits s m) n" by blast
    then show ?thesis using False s m'(2)
      by (auto simp: server_permissions_of_def server_calc_run bit_member_bits same_member_def in_timeout_def)
  qed
qed

text \<open>A server whose roles change without a gain at the bit.\<close>

lemma no_gain_server:
  assumes "map_of (db_servers db) k = Some s" "server_id s' = server_id s" "owner s' = owner s"
    and "\<And>m. bit (role_bits s' m) n \<Longrightarrow> bit (role_bits s m) n"
    and "bit (server_permissions_of (db\<lparr>db_servers := AList.update k s' (db_servers db)\<rparr>) now t sid) n"
  shows "bit (server_permissions_of db now t sid) n"
  using assms(5) by (rule no_gain [rotated]) (use assms(1-4) in \<open>auto simp: map_of_update same_member_def split: if_splits\<close>)

lemma update_tame:
  assumes "map_of rs rid = Some r" "rank r' = rank r"
    and "milder n (override_of_field (role_permissions_of r')) (override_of_field (role_permissions_of r))"
  shows "list_all2 (tame n) (AList.update rid r' rs) rs"
  using assms(1)
proof (induction rs)
  case (Cons p rs)
  have "list_all2 (tame n) rs rs" by (simp add: tame_def list_all2_same)
  then show ?case using Cons assms(2,3) by (cases p) (auto simp: tame_def list_all2_same)
qed simp

section \<open>What each request stores\<close>

definition edited :: "pdb \<Rightarrow> string \<Rightarrow> server \<Rightarrow> pdb" where
  "edited db k s = db\<lparr>db_servers := AList.update k s (db_servers db)\<rparr>"

lemma ad_db_put [simp]: "ad_db (put_server k s st) = edited (ad_db st) k s"
  by (simp add: put_server_def edited_def)

lemma emit_run: "emit t e st = (Inr (), st\<lparr>ad_events := ad_events st @ [(t, e)]\<rparr>)"
  by (simp add: emit_def eff_simps)

lemma record_run: "\<exists>a. record_entry e st = (Inr (), st\<lparr>ad_audit := a\<rparr>)"
  by (auto simp: record_entry_def eff_simps intro: exI [of _ "ad_audit st"])

lemma record_db: "fst (record_entry e st) = Inr ()" "ad_db (snd (record_entry e st)) = ad_db st"
  using record_run [of e st] by auto

lemma server_of_ok: "admin_ok db \<Longrightarrow> map_of (db_servers db) k = Some s \<Longrightarrow> server_id s = k \<and> keyed rl_id (roles s)"
  by (auto simp: admin_ok_def list_all_iff dest: keyed_lookup_key map_of_SomeD)

lemma role_of_ok: "admin_ok db \<Longrightarrow> map_of (db_servers db) k = Some s \<Longrightarrow> map_of (roles s) rid = Some r \<Longrightarrow> rl_id r = rid"
  using server_of_ok keyed_lookup_key by metis

lemma gate_run:
  assumes "server_gate env u target st = (x, st')"
  shows "st' = st" and "\<And>s p q. x = Inr (s, p, q) \<Longrightarrow> map_of (db_servers (ad_db st)) target = Some s
      \<and> p = server_permissions_of (ad_db st) (en_now env) u target
      \<and> calculate_server_permissions (database_query (ad_db st) (en_now env)) (with_server s (q_new u)) = (Inr p, q)"
  using assms by (auto simp: server_gate_def eff_simps fetch_server_def fetch_of_def server_permissions_of_def
    split: prod.splits sum.splits option.splits)

text \<open>The tail of a request: its audit entry and the voice servers leave the rows alone.\<close>

lemma tail_db:
  "ad_db (snd (thenE (if b then record_entry e else okE ()) (bindE getE (\<lambda>st. thenE (resE (f st)) (okE x))) st)) = ad_db st"
  "ad_db (snd (thenE (if b then record_entry e else okE ()) (okE x) st)) = ad_db st"
  "ad_db (snd (thenE (record_entry e) (bindE getE (\<lambda>st. resE (g st))) st)) = ad_db st"
  "ad_db (snd (thenE (record_entry e) (okE x) st)) = ad_db st"
  using record_run [of e st] by (auto simp: eff_simps split: sum.splits)

lemma server_update_db:
  assumes "map_of (db_servers (ad_db st)) (server_id s) = Some s"
  shows "\<exists>st'. server_update s partial st = (Inr (apply_server_options partial s), st')
    \<and> ad_db st' = edited (ad_db st) (server_id s) (apply_server_options partial s)"
  using assms by (auto simp: server_update_def update_server_def eff_simps emit_run Let_def apply_server_options_def)

lemma role_update_db:
  assumes "map_of (db_servers (ad_db st)) sid = Some s" "map_of (roles s) (rl_id r) = Some r" "pr_id partial = None"
  shows "\<exists>st'. role_update sid r partial remove st = (Inr (apply_role_options partial (fold remove_field remove r)), st')
    \<and> ad_db st' = edited (ad_db st) sid (s\<lparr>roles := AList.update (rl_id r)
        (apply_role_options partial (fold remove_field remove r)) (roles s)\<rparr>)"
proof -
  have id: "rl_id (fold remove_field remove r) = rl_id r"
  proof (induction remove arbitrary: r)
    case (Cons f fs) then show ?case by (cases f) simp_all
  qed simp
  then have "rl_id (apply_role_options partial (fold remove_field remove r)) = rl_id r"
    using assms(3) by (simp add: apply_role_options_def or_else_def)
  then show ?thesis using assms by (auto simp: role_update_def update_role_def eff_simps emit_run Let_def)
qed

text \<open>A request after its gate. What the gate refuses changes nothing.\<close>

lemma gated:
  assumes "\<And>s p q. \<lbrakk>map_of (db_servers (ad_db st)) target = Some s; p = server_permissions_of (ad_db st) (en_now env) u target;
      calculate_server_permissions (database_query (ad_db st) (en_now env)) (with_server s (q_new u)) = (Inr p, q)\<rbrakk>
      \<Longrightarrow> R (ad_db (snd (f (s, p, q) st)))"
    and "R (ad_db st)"
  shows "R (ad_db (snd (bindE (server_gate env u target) f st)))"
proof -
  obtain x st' where g: "server_gate env u target st = (x, st')" by (metis prod.exhaust)
  then have "st' = st" by (rule gate_run)
  then show ?thesis using g gate_run(2) [OF g] assms by (cases x) (auto simp: bindE_run)
qed

lemma checked: "(r = Inr () \<Longrightarrow> R (ad_db (snd (k st)))) \<Longrightarrow> R (ad_db st) \<Longrightarrow> R (ad_db (snd (thenE (resE r) k st)))"
  by (cases r) (auto simp: eff_simps)

lemma resolved: "(\<And>a. r = Inr a \<Longrightarrow> R (ad_db (snd (k a st)))) \<Longrightarrow> R (ad_db st) \<Longrightarrow> R (ad_db (snd (bindE (resE r) k st)))"
  by (cases r) (auto simp: eff_simps)

text \<open>The rank the caller acts with.\<close>

definition actor_rank :: "pdb \<Rightarrow> int \<Rightarrow> puser \<Rightarrow> server \<Rightarrow> error + int" where
  "actor_rank db now u s = member_rank (snd (calculate_server_permissions (database_query db now) (with_server s (q_new u))))"

definition outranks :: "pdb \<Rightarrow> int \<Rightarrow> puser \<Rightarrow> server \<Rightarrow> role \<Rightarrow> bool" where
  "outranks db now u s r \<longleftrightarrow> (\<exists>k. actor_rank db now u s = Inr k \<and> k < rank r)"

text \<open>One description of every change these requests make, apart from a new order: to a role the
  caller outranks, a new role, or the default.\<close>

inductive stores :: "admin_env \<Rightarrow> puser \<Rightarrow> pdb \<Rightarrow> string \<Rightarrow> pdb \<Rightarrow> bool" for env u db target where
  stores_nothing: "stores env u db target db"
| stores_default: "\<lbrakk>map_of (db_servers db) target = Some s; pv_has (server_permissions_of db (en_now env) u target) data\<rbrakk>
    \<Longrightarrow> stores env u db target (edited db target (s\<lparr>default_permissions := u64_as_i64 data\<rparr>))"
| stores_permission: "\<lbrakk>map_of (db_servers db) target = Some s; map_of (roles s) rid = Some r; outranks db (en_now env) u s r;
      throw_permission_override (server_permissions_of db (en_now env) u target)
        (Some (override_of_field (role_permissions_of r))) data = Inr ()\<rbrakk>
    \<Longrightarrow> stores env u db target (edited db target
          (s\<lparr>roles := AList.update rid (r\<lparr>role_permissions_of := field_of_override data\<rparr>) (roles s)\<rparr>))"
| stores_edit: "\<lbrakk>map_of (db_servers db) target = Some s; map_of (roles s) rid = Some r; outranks db (en_now env) u s r;
      role_permissions_of r' = role_permissions_of r; rank r' = rank r\<rbrakk>
    \<Longrightarrow> stores env u db target (edited db target (s\<lparr>roles := AList.update rid r' (roles s)\<rparr>))"
| stores_delete: "\<lbrakk>map_of (db_servers db) target = Some s; map_of (roles s) rid = Some r; outranks db (en_now env) u s r;
      pv_has (server_permissions_of db (en_now env) u target) (deny (lifted_denies (role_permissions_of r)))\<rbrakk>
    \<Longrightarrow> stores env u db target ((edited db target (s\<lparr>roles := AList.delete rid (roles s)\<rparr>))
          \<lparr>db_members := map (\<lambda>(k, m). (k, strip_role target rid m)) (db_members db),
           db_channels := map (\<lambda>(k, c). (k, strip_override target rid c)) (db_channels db)\<rparr>)"
| stores_create: "\<lbrakk>map_of (db_servers db) target = Some s; role_permissions_of r = default_override_field\<rbrakk>
    \<Longrightarrow> stores env u db target (edited db target (s\<lparr>roles := AList.update (en_role_id env) r (roles s)\<rparr>))"

inductive_cases storesE: "stores env u db target db'"

lemma set_default_stores:
  assumes ok: "admin_ok (ad_db st)"
  shows "stores env u (ad_db st) target (ad_db (snd (set_default_server_permissions env u target data why st)))"
  unfolding set_default_server_permissions_def
proof (rule resolved, rule gated, unfold prod.case, rule checked, rule checked, goal_cases)
  case (1 reason s p q)
  let ?part = "\<lparr>ps_roles = None, ps_default_permissions = Some (u64_as_i64 data)\<rparr>"
  have id: "server_id s = target" using server_of_ok [OF ok 1(2)] ..
  with 1(2) obtain st' where st': "server_update s ?part st = (Inr (apply_server_options ?part s), st')"
    "ad_db st' = edited (ad_db st) (server_id s) (apply_server_options ?part s)" using server_update_db [of st s ?part] by auto
  have "pv_has p data" using 1(6) by (simp add: throw_permission_override_def split: if_splits)
  moreover have "apply_server_options ?part s = s\<lparr>default_permissions := u64_as_i64 data\<rparr>"
    by (simp add: apply_server_options_def or_else_def)
  ultimately show ?case using 1(2,3) id st' by (simp add: bindE_run tail_db stores_default)
qed (rule stores_nothing)+

lemma role_change_stores:
  assumes ok: "admin_ok (ad_db st)" and s: "map_of (db_servers (ad_db st)) target = Some s" "map_of (roles s) rid = Some r"
    and "pr_id partial = None"
  shows "\<exists>st'. role_update (server_id s) r partial remove st = (Inr (apply_role_options partial (fold remove_field remove r)), st')
    \<and> ad_db st' = edited (ad_db st) target (s\<lparr>roles := AList.update rid
        (apply_role_options partial (fold remove_field remove r)) (roles s)\<rparr>)"
  using role_update_db [of st target s r partial remove] role_of_ok [OF ok s] server_of_ok [OF ok s(1)] assms by simp

lemma got: "R (ad_db (snd (k st st))) \<Longrightarrow> R (ad_db (snd (bindE getE k st)))"
  by (simp add: eff_simps)

lemma fetched: "fetch_of v = Inr x \<Longrightarrow> v = Some x"
  by (cases v) simp_all

lemma outranksI:
  assumes "calculate_server_permissions (database_query db now) (with_server s (q_new u)) = (Inr p, q)"
    "member_rank q = Inr k" "\<not> rank r \<le> k"
  shows "outranks db now u s r"
  using assms by (simp add: outranks_def actor_rank_def)

lemma set_permission_stores:
  assumes ok: "admin_ok (ad_db st)"
  shows "stores env u (ad_db st) target (ad_db (snd (set_role_permission env u target rid data why st)))"
  unfolding set_role_permission_def Let_def
proof (rule resolved, rule got, rule resolved, rule resolved, rule gated, unfold prod.case, rule checked, rule resolved, goal_cases)
  case (1 reason s0 r s p q mrank)
  have s: "map_of (db_servers (ad_db st)) target = Some s" "map_of (roles s) rid = Some r"
    using 1(2,3,4) by (auto simp: fetch_server_def dest!: fetched)
  show ?case
  proof (cases "rank r \<le> mrank \<or> throw_permission_override p (Some (override_of_field (role_permissions_of r))) data \<noteq> Inr ()")
    case True
    then show ?thesis
      by (cases "throw_permission_override p (Some (override_of_field (role_permissions_of r))) data")
        (auto simp: eff_simps stores_nothing)
  next
    case False
    let ?part = "default_partial_role\<lparr>pr_permissions := Some (field_of_override data)\<rparr>"
    have part: "apply_role_options ?part r = r\<lparr>role_permissions_of := field_of_override data\<rparr>"
      by (simp add: apply_role_options_def default_partial_role_def or_else_def)
    obtain st' where st': "role_update (server_id s) r ?part [] st = (Inr (apply_role_options ?part r), st')"
      "ad_db st' = edited (ad_db st) target (s\<lparr>roles := AList.update rid (apply_role_options ?part r) (roles s)\<rparr>)"
      using role_change_stores [OF ok s, of ?part "[]"] by (auto simp: default_partial_role_def)
    have "outranks (ad_db st) (en_now env) u s r" using 1(6,8) False by (blast intro: outranksI)
    then have "stores env u (ad_db st) target (ad_db st')"
      using s 1(5) False st'(2) by (simp add: part stores_permission)
    then show ?thesis using s False st' by (simp add: thenE_run [of "resE _"] resE_run bindE_run server_set_role_permission_def okE_run tail_db)
  qed
qed (auto simp: eff_simps intro: stores_nothing)

lemma guarded:
  "(\<not> b \<Longrightarrow> R (ad_db (snd (k st)))) \<Longrightarrow> R (ad_db st) \<Longrightarrow> R (ad_db (snd (thenE (if b then errE e else okE ()) k st)))"
  by (simp add: eff_simps)

text \<open>A step that leaves the state alone.\<close>

lemma passed:
  assumes "snd (m st) = st" "\<And>a. fst (m st) = Inr a \<Longrightarrow> R (ad_db (snd (k a st)))" "R (ad_db st)"
  shows "R (ad_db (snd (bindE m k st)))"
  using assms by (cases "m st"; cases "fst (m st)") (auto simp: bindE_run)

lemma passed_unit:
  assumes "snd (m st) = st" "R (ad_db (snd (k st)))" "R (ad_db st)"
  shows "R (ad_db (snd (thenE m k st)))"
  using assms by (cases "m st"; cases "fst (m st)") (auto simp: thenE_run)

lemma remove_fields_keep:
  "role_permissions_of (fold remove_field fs r) = role_permissions_of r \<and> rank (fold remove_field fs r) = rank r"
proof (induction fs arbitrary: r)
  case (Cons f fs) then show ?case by (cases f) simp_all
qed simp

lemma edit_stores:
  assumes ok: "admin_ok (ad_db st)"
  shows "stores env u (ad_db st) target (ad_db (snd (roles_edit env u target rid data why st)))"
  unfolding roles_edit_def Let_def
proof (rule guarded, rule resolved, rule gated, unfold prod.case, rule checked, rule resolved, goal_cases)
  case (1 reason s p q mrank)
  show ?case
  proof (cases "map_of (roles s) rid")
    case (Some r)
    show ?thesis
    proof (cases "rank r \<le> mrank")
      case False
      have "stores env u (ad_db st) target (ad_db (snd (bindE (role_update (server_id s) r (default_partial_role\<lparr>pr_name := de_name data,
          pr_colour := de_colour data, pr_hoist := de_hoist data, pr_icon := i\<rparr>) (de_remove data)) (\<lambda>r'.
          thenE (if role_update_changes r r' \<noteq> [] then record_entry (entry env u s RoleUpdate (Some (rl_id r'))
            (role_update_changes r r') reason) else okE ()) (okE r')) st)))" for i
      proof -
        let ?part = "default_partial_role\<lparr>pr_name := de_name data, pr_colour := de_colour data, pr_hoist := de_hoist data, pr_icon := i\<rparr>"
        let ?r = "apply_role_options ?part (fold remove_field (de_remove data) r)"
        obtain st' where st': "role_update (server_id s) r ?part (de_remove data) st = (Inr ?r, st')"
          "ad_db st' = edited (ad_db st) target (s\<lparr>roles := AList.update rid ?r (roles s)\<rparr>)"
          using role_change_stores [OF ok 1(3) Some, of ?part "de_remove data"] by (auto simp: default_partial_role_def)
        have "role_permissions_of ?r = role_permissions_of r" "rank ?r = rank r"
          by (simp_all add: apply_role_options_def default_partial_role_def or_else_def remove_fields_keep)
        then have "stores env u (ad_db st) target (ad_db st')"
          using 1(3) Some st'(2) outranksI [OF 1(5,7) False] by (simp add: stores_edit)
        then show ?thesis using st' by (simp add: bindE_run tail_db)
      qed
      note change = this
      show ?thesis unfolding Some option.case if_not_P [OF False]
        by (rule passed_unit, simp add: resE_run okE_run split: option.split bool.split, rule passed,
          simp add: resE_run okE_run split: option.split, rule change) (rule stores_nothing)+
    qed (simp add: Some eff_simps stores_nothing)
  qed (simp add: eff_simps stores_nothing)
qed (rule stores_nothing)+

lemma create_stores:
  assumes ok: "admin_ok (ad_db st)"
  shows "stores env u (ad_db st) target (ad_db (snd (roles_create env u target name why st)))"
  unfolding roles_create_def
proof (rule resolved, rule guarded, rule gated, unfold prod.case, rule checked, goal_cases)
  case (1 reason s p q)
  let ?r = "\<lparr>role_permissions_of = default_override_field, rank = int (length (roles s)), rl_id = en_role_id env,
    rl_name = name, rl_colour = None, rl_hoist = False, rl_icon = None\<rparr>"
  have id: "server_id s = target" using server_of_ok [OF ok 1(3)] ..
  have "\<exists>st'. role_create env s name st = (Inr ?r, st')
      \<and> ad_db st' = edited (ad_db st) target (s\<lparr>roles := AList.update (en_role_id env) ?r (roles s)\<rparr>)"
    using 1(3) id by (auto simp: role_create_def insert_role_def eff_simps emit_run Let_def)
  moreover have "stores env u (ad_db st) target (edited (ad_db st) target (s\<lparr>roles := AList.update (en_role_id env) ?r (roles s)\<rparr>))"
    using 1(3) by (rule stores_create) simp
  ultimately show ?case by (auto simp: errE_run bindE_run tail_db stores_nothing)
qed (rule stores_nothing)+

lemma may_clear_has: "may_clear p d = Inr () \<Longrightarrow> pv_has p (deny d)"
  by (auto simp: may_clear_def throw_permission_override_def default_override_def split: sum.splits if_splits)

lemma lifted_cleared:
  "throw_if_deleting_lifts_denies db now u s r p = Inr () \<Longrightarrow> pv_has p (deny (lifted_denies (role_permissions_of r)))"
  by (auto simp: throw_if_deleting_lifts_denies_def Let_def pv_has_def dest!: may_clear_has split: sum.splits if_splits)

lemma delete_stores:
  assumes ok: "admin_ok (ad_db st)"
  shows "stores env u (ad_db st) target (ad_db (snd (roles_delete env u target rid why st)))"
  unfolding roles_delete_def Let_def
proof (rule resolved, rule gated, unfold prod.case, rule checked, rule resolved, rule resolved, goal_cases)
  case (1 reason s p q mrank r)
  have s: "map_of (db_servers (ad_db st)) target = Some s" "map_of (roles s) rid = Some r" using 1(2,7) by (auto dest: fetched)
  let ?lift = "throw_if_deleting_lifts_denies (ad_db st) (en_now env) u s r p"
  show ?case
  proof (cases "rank r \<le> mrank \<or> ?lift \<noteq> Inr ()")
    case True
    then show ?thesis by (cases ?lift) (auto simp: eff_simps stores_nothing)
  next
    case False
    have id: "server_id s = target" "rl_id r = rid" using server_of_ok [OF ok s(1)] role_of_ok [OF ok s] by simp_all
    obtain st' where st': "role_delete target r st = (Inr (), st')" "ad_db st' = (edited (ad_db st) target
        (s\<lparr>roles := AList.delete rid (roles s)\<rparr>))\<lparr>db_members := map (\<lambda>(k, m). (k, strip_role target rid m)) (db_members (ad_db st)),
           db_channels := map (\<lambda>(k, c). (k, strip_override target rid c)) (db_channels (ad_db st))\<rparr>"
      using s id by (simp add: role_delete_def delete_role_def eff_simps emit_run edited_def)
    have "stores env u (ad_db st) target (ad_db st')"
      unfolding st'(2) using s outranksI [OF 1(4,6)] False lifted_cleared [of "ad_db st" "en_now env" u s r p] 1(3)
      by (intro stores_delete) auto
    then show ?thesis using False st' id by (simp add: eff_simps(1-6) bindE_run thenE_run [of "resE _"] thenE_run [of "role_delete _ _"] tail_db(3))
  qed
qed (rule stores_nothing)+

fun is_reorder :: "admin_request \<Rightarrow> bool" where
  "is_reorder (EditRanks _ _) = True"
| "is_reorder _ = False"

lemma run_admin_stores:
  "admin_ok (ad_db st) \<Longrightarrow> \<not> is_reorder req \<Longrightarrow>
   stores env u (ad_db st) (request_server req) (ad_db (run_admin env u why req st))"
  by (cases req) (simp_all add: create_stores edit_stores delete_stores set_permission_stores set_default_stores)

end
