(* ===== verification/Role_Props.thy ===== *)
theory Role_Props
  imports Role_Effects
begin

text \<open>
  What the administration of roles cannot do: give anybody a permission the caller lacks, or
  touch what ranks at or above the caller; and what a reorder stores.
\<close>

section \<open>Examples\<close>

text \<open>A server on which the member \<open>u\<close> holds three roles: the first may manage roles and
  permissions, the second denies kicking (bit 6), the third, below it, allows it.\<close>

definition ex_rl :: "string \<Rightarrow> int \<Rightarrow> int \<Rightarrow> int \<Rightarrow> string \<times> role" where
  "ex_rl i k a d = (i, \<lparr>role_permissions_of = \<lparr>of_a = a, of_d = d\<rparr>, rank = k, rl_id = i, rl_name = i, rl_colour = None,
     rl_hoist = False, rl_icon = None\<rparr>)"

definition ex_admin :: admin_db where
  "ex_admin = \<lparr>ad_db = ex_pdb
     \<lparr>db_servers := [(''s'', ex_server\<lparr>roles := [ex_rl ''m'' 1 12 0, ex_rl ''a'' 2 0 64, ex_rl ''b'' 3 64 0],
        default_permissions := 0, sv_channels := []\<rparr>)],
      db_members := [((''s'', ''u''), ex_member\<lparr>member_roles := [''m'', ''a'', ''b'']\<rparr>)]\<rparr>,
     ad_audit = [], ad_events = []\<rparr>"

definition ex_env :: admin_env where
  "ex_env = \<lparr>en_now = 60, en_role_id = ''n'', en_audit_id = ''l'', en_max_roles = 5, en_colour_ok = (\<lambda>_. True), en_invalid = ''invalid'',
     en_mark_deleted = (\<lambda>_. Inr ()), en_use_icon = (\<lambda>i _ _. Inr i), en_sync = (\<lambda>_ _ _. Inr ()),
     en_driver = Reference, en_sync_channel = (\<lambda>_ _ _ _. Inr ())\<rparr>"

section \<open>No escalation\<close>

definition fresh_role_id :: "admin_env \<Rightarrow> pdb \<Rightarrow> bool" where
  "fresh_role_id env db \<longleftrightarrow> list_all (\<lambda>(_, s). en_role_id env \<notin> fst ` set (roles s)) (db_servers db)"

lemma fresh_role: "fresh_role_id env db \<Longrightarrow> map_of (db_servers db) k = Some s \<Longrightarrow> en_role_id env \<notin> fst ` set (roles s)"
  by (auto simp: fresh_role_id_def list_all_iff dest: map_of_SomeD)

lemma member_of_ok: "admin_ok db \<Longrightarrow> map_of (db_members db) (k, v) = Some m \<Longrightarrow> member_server m = k"
  by (auto simp: admin_ok_def list_all_iff dest: map_of_SomeD)

lemma stripped:
  "filter (\<lambda>i. i \<noteq> rid) (member_roles (strip_role k rid m)) = filter (\<lambda>i. i \<noteq> rid) (member_roles m)"
  "same_member (strip_role k rid m) m"
  by (simp_all add: strip_role_def same_member_def)

lemma bit_has: "pv_has p v \<Longrightarrow> bit v n \<Longrightarrow> bit p n"
  unfolding pv_has_def by (metis bit_and_iff)

lemma bit_safe: "n < 52 \<Longrightarrow> bit (channel_bits GrantAllSafe) n"
proof -
  have "channel_bits GrantAllSafe = mask 52" by (simp add: mask_eq_exp_minus_1 channel_bits.simps)
  then show "n < 52 \<Longrightarrow> ?thesis" by (simp only: bit_mask_iff) simp
qed

lemma override_milder:
  assumes "throw_permission_override p (Some v) d = Inr ()" "\<not> bit p n"
  shows "milder n d v"
proof -
  have "\<not> bit (NOT (allow v) AND allow d) n" "\<not> bit (deny v AND NOT (deny d)) n"
    using assms bit_has by (auto simp: throw_permission_override_def split: if_splits)
  then show ?thesis using bit_imp_le_length [of "allow d" n] bit_imp_le_length [of "deny v" n]
    by (auto simp: milder_def bit_and_iff bit_not_iff)
qed

text \<open>A role that overrides nothing changes nothing.\<close>

lemma apply_neutral: "pv_apply p (override_of_field default_override_field) = p"
  by (rule bit_eqI) (simp add: override_of_field_def default_override_field_def i64_as_u64_def)

lemma foldl_neutral:
  "(\<And>x. x \<in> set xs \<Longrightarrow> \<not> P x \<Longrightarrow> f x = override_of_field default_override_field) \<Longrightarrow>
   foldl pv_apply p (map f xs) = foldl pv_apply p (map f (filter P xs))"
  by (induction xs arbitrary: p) (simp_all add: apply_neutral)

lemma update_fresh: "k \<notin> fst ` set t \<Longrightarrow> AList.update k v t = t @ [(k, v)]"
  by (induction t) auto

lemma role_bits_added:
  assumes "k \<notin> fst ` set (roles s)" "role_permissions_of r = default_override_field"
  shows "role_bits (s\<lparr>roles := AList.update k r (roles s)\<rparr>) m = role_bits s m"
proof -
  let ?xs = "filter (\<lambda>p. fst p \<in> set (member_roles m)) (sort_key (\<lambda>p. - rank (snd p)) (roles s @ [(k, r)]))"
  have "filter (\<lambda>p. fst p \<noteq> k) (roles s) = roles s" using assms(1) by (intro filter_True) force
  then have "filter (\<lambda>p. fst p \<noteq> k) (sort_key (\<lambda>p. - rank (snd p)) (roles s @ [(k, r)])) = sort_key (\<lambda>p. - rank (snd p)) (roles s)"
    unfolding filter_sort by simp
  moreover have "filter (\<lambda>p. fst p \<noteq> k) ?xs
      = filter (\<lambda>p. fst p \<in> set (member_roles m)) (filter (\<lambda>p. fst p \<noteq> k) (sort_key (\<lambda>p. - rank (snd p)) (roles s @ [(k, r)])))"
    unfolding filter_filter by (rule filter_cong) auto
  ultimately have "filter (\<lambda>p. fst p \<noteq> k) ?xs = filter (\<lambda>p. fst p \<in> set (member_roles m)) (sort_key (\<lambda>p. - rank (snd p)) (roles s))"
    by (simp only:)
  then show ?thesis
    using foldl_neutral [of ?xs "\<lambda>p. fst p \<noteq> k" "\<lambda>p. override_of_field (role_permissions_of (snd p))"] assms
    by (force simp: role_bits_def server_role_overrides_alt update_fresh)
qed

lemma stores_elsewhere:
  assumes "stores env u db target db'" "admin_ok db" "sid \<noteq> target"
  shows "server_permissions_of db' now t sid = server_permissions_of db now t sid"
proof -
  have srv: "map_of (db_servers db') sid = map_of (db_servers db) sid"
    using assms(1,3) by (cases rule: stores.cases) (auto simp: edited_def map_of_update)
  have "map_of (db_members db') (sid, user_id t) = map_of (db_members db) (sid, user_id t)"
    using assms(1)
  proof (cases rule: stores.cases)
    case (stores_delete s rid r)
    then show ?thesis using member_of_ok [OF assms(2), of sid "user_id t"] assms(3)
      by (cases "map_of (db_members db) (sid, user_id t)") (auto simp: map_of_map strip_role_def)
  qed (auto simp: edited_def)
  then show ?thesis using srv server_of_ok [OF assms(2), of sid]
    by (auto simp: server_permissions_of_def server_calc_run split: option.splits)
qed

lemma stores_no_escalation:
  assumes "stores env u db target db'" "admin_ok db" "fresh_role_id env db" "n < 52"
    and held: "bit (server_permissions_of db' now t sid) n"
    and lacks: "\<not> bit (server_permissions_of db (en_now env) u target) n"
  shows "bit (server_permissions_of db now t sid) n"
  using assms(1)
proof (cases rule: stores.cases)
  case stores_nothing
  then show ?thesis using held by simp
next
  case (stores_default s data)
  have "\<not> bit data n" using stores_default(3) lacks bit_has by blast
  then have "bit (role_bits s m) n" if "bit (role_bits (s\<lparr>default_permissions := u64_as_i64 data\<rparr>) m) n" for m
    using that by (elim role_bits_tame [rotated 2]) (simp_all add: tame_def list_all2_same u64_as_i64_def i64_as_u64_def)
  then show ?thesis using held stores_default by (auto simp: edited_def elim!: no_gain_server [rotated -1])
next
  case (stores_permission s rid r data)
  have "milder n data (override_of_field (role_permissions_of r))" using stores_permission(5) lacks by (rule override_milder)
  then have "list_all2 (tame n) (AList.update rid (r\<lparr>role_permissions_of := field_of_override data\<rparr>) (roles s)) (roles s)"
    using stores_permission(3) by (intro update_tame) (simp_all add: override_roundtrip)
  then have "bit (role_bits s m) n" if "bit (role_bits (s\<lparr>roles :=
      AList.update rid (r\<lparr>role_permissions_of := field_of_override data\<rparr>) (roles s)\<rparr>) m) n" for m
    using that by (elim role_bits_tame [rotated 2]) simp_all
  then show ?thesis using held stores_permission by (auto simp: edited_def elim!: no_gain_server [rotated -1])
next
  case (stores_edit s rid r r')
  then have "list_all2 (tame n) (AList.update rid r' (roles s)) (roles s)" using update_tame [of "roles s" rid r r' n] by simp
  then have "bit (role_bits s m) n" if "bit (role_bits (s\<lparr>roles := AList.update rid r' (roles s)\<rparr>) m) n" for m
    using that by (elim role_bits_tame [rotated 2]) simp_all
  then show ?thesis using held stores_edit by (auto simp: edited_def elim!: no_gain_server [rotated -1])
next
  case (stores_create s r)
  have "bit (role_bits s m) n" if "bit (role_bits (s\<lparr>roles := AList.update (en_role_id env) r (roles s)\<rparr>) m) n" for m
    using that role_bits_added [OF fresh_role [OF assms(3) stores_create(2)] stores_create(3)] by simp
  then show ?thesis using held stores_create by (auto simp: edited_def elim!: no_gain_server [rotated -1])
next
  case (stores_delete s rid r)
  have "\<not> bit (deny (override_of_field (role_permissions_of r))) n"
    using stores_delete(5) lacks bit_has [of _ _ n] bit_safe [OF assms(4)]
    by (auto simp: lifted_denies_def override_of_field_def bit_and_iff)
  moreover have s: "server_id s = target" "keyed rl_id (roles s)" using server_of_ok [OF assms(2) stores_delete(2)] by simp_all
  ultimately have dropped: "bit (role_bits s m) n"
    if "bit (role_bits (s\<lparr>roles := AList.delete rid (roles s)\<rparr>) (strip_role target rid m)) n" for m
    using role_bits_dropped [OF s(2) stores_delete(3) _ stripped(1)] that by blast
  show ?thesis
  proof (cases "sid = target")
    case True
    show ?thesis using held by (rule no_gain [rotated])
      (use True stores_delete(1,2) s dropped in \<open>auto simp: edited_def map_of_map stripped map_of_update\<close>)
  qed (use held stores_elsewhere [OF assms(1,2)] in simp)
qed

text \<open>C15: No request that administers roles, other than a reorder, gives anybody a permission
  which the caller lacks: what a user may do on a server afterwards, the user could do
  before, unless it is the server of the request and the caller holds that permission there.
  This covers creating, editing and deleting a role, setting its permissions and setting
  the default permissions, whatever the request answers.\<close>

theorem admin_no_escalation:
  assumes "admin_ok (ad_db st)" "fresh_role_id env (ad_db st)" "\<not> is_reorder req" "n < 52"
    and "bit (server_permissions_of (ad_db (run_admin env u why req st)) now t sid) n"
  shows "bit (server_permissions_of (ad_db st) now t sid) n
    \<or> sid = request_server req \<and> bit (server_permissions_of (ad_db st) (en_now env) u sid) n"
  using stores_no_escalation [OF run_admin_stores [OF assms(1,3)] assms(1,2,4,5)]
    stores_elsewhere [OF run_admin_stores [OF assms(1,3)] assms(1), of sid] assms(5) by metis

theorem admin_no_escalation_witness:
  "bit (server_permissions_of (ad_db ex_admin) 60 ex_user ''s'') 2
   \<or> ''s'' = request_server (SetRolePermission ''s'' ''b'' \<lparr>allow = 4, deny = 0\<rparr>)
     \<and> bit (server_permissions_of (ad_db ex_admin) (en_now ex_env) ex_user ''s'') 2"
  by (rule admin_no_escalation [of ex_admin ex_env "SetRolePermission ''s'' ''b'' \<lparr>allow = 4, deny = 0\<rparr>" 2 ex_user "Inr None" 60]) code_simp+

section \<open>Hierarchy\<close>

lemma calc_query:
  assumes "\<not> privileged u" "owner s \<noteq> user_id u" "map_of (db_members db) (server_id s, user_id u) = Some m"
  shows "actor_rank db now u s = Inr (get_ranking m s)"
    and "get_member_rank (snd (calculate_server_permissions (database_query db now) (with_server s (q_new u)))) = Inr (Some (get_ranking m s))"
  using assms by (simp_all add: actor_rank_def member_rank_def get_member_rank_def or_else_def calculate_server_permissions_def
    database_query_def readE_def bindE_run okE_run Let_def db_are_we_a_member_def fetch_member_def with_server_def q_new_def
    db_are_we_server_owner_def)

lemma stores_hierarchy:
  assumes "stores env u db target db'" "fresh_role_id env db" "map_of (db_servers db) target = Some s" "map_of (roles s) i = Some r"
    and "\<not> outranks db (en_now env) u s r"
  shows "\<exists>s'. map_of (db_servers db') target = Some s' \<and> map_of (roles s') i = Some r"
  using assms(1) fresh_role [OF assms(2,3)] assms(3-5)
  by (cases rule: stores.cases)
    (auto simp: edited_def map_of_update AList.delete_conv' dest: map_of_SomeD intro: rev_image_eqI)

text \<open>C25: A member who is neither the owner nor privileged leaves every role at or above the
  member's own rank as it is: no such role is edited, deleted, replaced or given other
  permissions by any of these requests, apart from a reorder.\<close>

theorem higher_roles_untouched:
  assumes "admin_ok (ad_db st)" "fresh_role_id env (ad_db st)" "\<not> is_reorder req" "\<not> privileged u"
    and "map_of (db_servers (ad_db st)) (request_server req) = Some s" "owner s \<noteq> user_id u"
    and "map_of (db_members (ad_db st)) (request_server req, user_id u) = Some m"
    and "map_of (roles s) i = Some r" "rank r \<le> get_ranking m s"
  shows "\<exists>s'. map_of (db_servers (ad_db (run_admin env u why req st))) (request_server req) = Some s'
    \<and> map_of (roles s') i = Some r"
proof -
  have "server_id s = request_server req" using server_of_ok [OF assms(1,5)] ..
  then have "\<not> outranks (ad_db st) (en_now env) u s r" using calc_query(1) [OF assms(4,6)] assms(7,9) by (simp add: outranks_def)
  then show ?thesis using stores_hierarchy [OF run_admin_stores [OF assms(1,3)] assms(2,5,8)] by blast
qed

theorem higher_roles_untouched_witness:
  "\<exists>s'. map_of (db_servers (ad_db (run_admin ex_env ex_user (Inr None) (DeleteRole ''s'' ''m'') ex_admin))) (request_server (DeleteRole ''s'' ''m'')) = Some s'
    \<and> map_of (roles s') ''m'' = Some (snd (ex_rl ''m'' 1 12 0))"
  by (rule higher_roles_untouched [of ex_admin ex_env "DeleteRole ''s'' ''m''" ex_user "snd (hd (db_servers (ad_db ex_admin)))"
        "snd (hd (db_members (ad_db ex_admin)))"]) code_simp+

section \<open>Reordering\<close>



lemma position_Some: "position xs x = Some k \<Longrightarrow> k < length xs \<and> xs ! k = x"
  by (induction xs arbitrary: k) (auto split: if_splits)














end
