(* ===== verification/Event_Visibility.thy ===== *)
theory Event_Visibility
  imports Permission_Props
begin

text \<open>
  Who may see a calendar event (\<open>crates/core/database/src/util/event_visibility.rs\<close>): the
  viewer of a request, which remembers what it has looked up, and the check for one channel.
  Both judge a thread by its parent and ask the permission calculation of \<open>Permission_Db\<close>.

  The property shows that the viewer's caches change no answer: over any sequence of events it
  answers exactly as the check for one channel does.
\<close>

section \<open>Data\<close>

text \<open>The fields of \<open>CalendarEvent\<close> the viewer reads.\<close>

record calendar_event =
  ce_server :: string
  ce_channel :: "string option"

record event_viewer =
  vw_user :: puser
  vw_members :: "(string \<times> member) list"
  vw_servers :: "(string \<times> server option) list"
  vw_channels :: "(string \<times> (string \<times> bool) option) list"

fun server_of_channel :: "channel \<Rightarrow> string option" where
  "server_of_channel (TextChannel _ s _ _) = Some s"
| "server_of_channel (Thread _ s _) = Some s"
| "server_of_channel (Forum _ s _ _) = Some s"
| "server_of_channel _ = None"

section \<open>Resolving the channel of an event\<close>

definition try_resolve_event_channel_target :: "pdb \<Rightarrow> channel \<Rightarrow> error + channel option" where
  "try_resolve_event_channel_target db channel =
     (case permission_target db channel of
        Inl e \<Rightarrow> if e = NotFound then Inr None else Inl e
      | Inr target \<Rightarrow>
          Inr (if server_of_channel target = None \<or> server_of_channel target \<noteq> server_of_channel channel
               then None else Some target))"

definition resolve_event_channel_target :: "pdb \<Rightarrow> channel \<Rightarrow> channel option" where
  "resolve_event_channel_target db channel =
     (case try_resolve_event_channel_target db channel of Inr t \<Rightarrow> t | Inl _ \<Rightarrow> None)"

text \<open>Whether the calculation over a query grants \<open>ViewChannel\<close>; a panic stays one.\<close>

definition may_view :: "pdb \<Rightarrow> int \<Rightarrow> db_query \<Rightarrow> error + bool" where
  "may_view db now q =
     (case fst (calculate_channel_permissions (database_query db now) q) of
        Inl e \<Rightarrow> Inl e
      | Inr p \<Rightarrow> Inr (has_channel_permission p ViewChannel))"

section \<open>The viewer\<close>

text \<open>A row of another user is left out; with debug assertions (\<open>debug\<close>) it panics.\<close>

definition with_memberships :: "bool \<Rightarrow> puser \<Rightarrow> member list \<Rightarrow> error + event_viewer" where
  "with_memberships debug u members =
     (if debug \<and> \<not> list_all (\<lambda>m. member_user m = user_id u) members
      then Inl (Panic ''EventViewer given a member row for another user'')
      else Inr
       \<lparr>vw_user = u,
        vw_members = foldl (\<lambda>t m. AList.update (member_server m) m t) []
          (filter (\<lambda>m. member_user m = user_id u) members),
        vw_servers = [], vw_channels = []\<rparr>)"

definition for_server :: "bool \<Rightarrow> pdb \<Rightarrow> puser \<Rightarrow> string \<Rightarrow> error + event_viewer" where
  "for_server debug db u sid =
     with_memberships debug u
       (case fetch_member db sid (user_id u) of Inr m \<Rightarrow> [m] | Inl _ \<Rightarrow> [])"

text \<open>The server of a channel, fetched once.\<close>

definition load_server :: "pdb \<Rightarrow> string \<Rightarrow> event_viewer \<Rightarrow> event_viewer" where
  "load_server db sid v =
     (if map_of (vw_servers v) sid \<noteq> None then v
      else v\<lparr>vw_servers := AList.update sid
             (case fetch_server db sid of Inr s \<Rightarrow> Some s | Inl _ \<Rightarrow> None) (vw_servers v)\<rparr>)"

definition resolve_channel :: "pdb \<Rightarrow> int \<Rightarrow> string \<Rightarrow> (event_viewer, (string \<times> bool) option) eff" where
  "resolve_channel db now c v =
     (case fetch_channel db c of
        Inl _ \<Rightarrow> (Inr None, v)
      | Inr channel \<Rightarrow>
          (case resolve_event_channel_target db channel of
             None \<Rightarrow> (Inr None, v)
           | Some target \<Rightarrow>
               (case server_of_channel target of
                  None \<Rightarrow> (Inr None, v)
                | Some sid \<Rightarrow>
                    if map_of (vw_members v) sid = None then (Inr (Some (sid, False)), v)
                    else
                      let v' = load_server db sid v in
                      (case (map_of (vw_servers v') sid, map_of (vw_members v') sid) of
                         (Some (Some s), Some m) \<Rightarrow>
                           if server_id s = sid \<and> member_server m = sid
                           then (case may_view db now (with_channel target (with_member m
                                        (with_server s (q_new (vw_user v'))))) of
                                   Inl e \<Rightarrow> (Inl e, v')
                                 | Inr b \<Rightarrow> (Inr (Some (sid, b)), v'))
                           else (Inr (Some (sid, False)), v')
                       | _ \<Rightarrow> (Inr (Some (sid, False)), v')))))"

definition can_view :: "pdb \<Rightarrow> int \<Rightarrow> calendar_event \<Rightarrow> (event_viewer, bool) eff" where
  "can_view db now event =
     bindE getE (\<lambda>v.
     if map_of (vw_members v) (ce_server event) = None then okE False
     else (case ce_channel event of
       None \<Rightarrow> okE True
     | Some c \<Rightarrow>
         thenE (if map_of (vw_channels v) c \<noteq> None then okE ()
                else bindE (resolve_channel db now c) (\<lambda>resolved.
                  modE (\<lambda>v'. v'\<lparr>vw_channels := AList.update c resolved (vw_channels v')\<rparr>)))
         (bindE getE (\<lambda>v'.
          okE (case map_of (vw_channels v') c of
                 Some (Some (sid, True)) \<Rightarrow> sid = ce_server event
               | _ \<Rightarrow> False)))))"

section \<open>The check for one channel\<close>

definition user_can_view_channel :: "pdb \<Rightarrow> int \<Rightarrow> puser \<Rightarrow> string \<Rightarrow> channel \<Rightarrow> error + bool" where
  "user_can_view_channel db now u sid target =
     (case target of
        Thread _ _ _ \<Rightarrow> Inr False
      | _ \<Rightarrow>
          if server_of_channel target \<noteq> Some sid then Inr False
          else (case fetch_member db sid (user_id u) of
                  Inl _ \<Rightarrow> Inr False
                | Inr m \<Rightarrow>
                    if member_server m \<noteq> sid \<or> member_user m \<noteq> user_id u then Inr False
                    else may_view db now (with_channel target (with_member m (q_new u)))))"

definition require_event_channel_view :: "pdb \<Rightarrow> int \<Rightarrow> puser \<Rightarrow> string \<Rightarrow> channel \<Rightarrow> error + unit" where
  "require_event_channel_view db now u sid channel =
     (if server_of_channel channel \<noteq> Some sid then Inl InvalidOperation
      else (case resolve_event_channel_target db channel of
              None \<Rightarrow> Inl NotFound
            | Some target \<Rightarrow>
                (case user_can_view_channel db now u sid target of
                   Inl e \<Rightarrow> Inl e
                 | Inr b \<Rightarrow> if b then Inr () else Inl NotFound)))"

section \<open>The caches change no answer\<close>

text \<open>The events of a page, one after another with the same viewer.\<close>

primrec view_all :: "pdb \<Rightarrow> int \<Rightarrow> calendar_event list \<Rightarrow> (event_viewer, bool list) eff" where
  "view_all db now [] = okE []"
| "view_all db now (e # es) = bindE (can_view db now e) (\<lambda>b. bindE (view_all db now es) (\<lambda>bs. okE (b # bs)))"

text \<open>What one event shows without a viewer.\<close>

definition event_visible :: "pdb \<Rightarrow> int \<Rightarrow> puser \<Rightarrow> member list \<Rightarrow> calendar_event \<Rightarrow> bool" where
  "event_visible db now u members e \<longleftrightarrow>
     (\<exists>m \<in> set members. member_user m = user_id u \<and> member_server m = ce_server e)
     \<and> (case ce_channel e of
          None \<Rightarrow> True
        | Some c \<Rightarrow>
            (case fetch_channel db c of
               Inl _ \<Rightarrow> False
             | Inr channel \<Rightarrow> require_event_channel_view db now u (ce_server e) channel = Inr ()))"

lemma may_view_answers:
  assumes "q_channel q = Some t" "server_of_channel t = Some sid"
  shows "\<exists>b. may_view db now q = Inr b"
proof -
  have "db_fresh q" using assms by (cases t) (simp_all add: db_fresh_def)
  from dbq.channel_calc [OF this, of db now] show ?thesis by (auto simp: may_view_def)
qed

text \<open>Loading the server before the calculation or during it makes no difference.\<close>

lemma may_view_preloaded:
  assumes "map_of (db_servers db) sid = Some s" "server_id s = sid" "server_of_channel t = Some sid"
  shows "may_view db now (with_channel t (with_member m (with_server s (q_new u))))
    = may_view db now (with_channel t (with_member m (q_new u)))"
proof -
  let ?Q = "database_query db now"
  let ?q = "with_channel t (with_member m (q_new u))"
  let ?p = "with_channel t (with_member m (with_server s (q_new u)))"
  have "set_server_from_channel ?Q ?p = set_server_from_channel ?Q ?q"
    using assms by (cases t) (auto simp: database_query_def db_set_server_from_channel_def select_server_def
      fetch_server_def with_channel_def with_member_def with_server_def q_new_def)
  then have arm: "calculate_server_channel ?Q ?p = calculate_server_channel ?Q ?q"
    by (simp add: calculate_server_channel_def thenE_run)
  have ask: "are_we_privileged ?Q ?p = (Inr (privileged u), ?p)" "are_we_privileged ?Q ?q = (Inr (privileged u), ?q)"
    "get_channel_type ?Q ?p = (Inr ServerChannel_T, ?p)" "get_channel_type ?Q ?q = (Inr ServerChannel_T, ?q)"
    using assms(3) by (cases t; simp add: database_query_def readE_def db_channel_type_def
      with_channel_def with_member_def with_server_def q_new_def)+
  show ?thesis
    by (simp add: may_view_def calculate_channel_permissions_def bindE_run ask arm okE_def)
qed

text \<open>The answer the caches stand for: \<open>M\<close> are the viewer's member rows.\<close>

definition resolved :: "pdb \<Rightarrow> int \<Rightarrow> puser \<Rightarrow> (string \<Rightarrow> member option) \<Rightarrow> string \<Rightarrow> (string \<times> bool) option" where
  "resolved db now u M c =
     (case fetch_channel db c of
        Inl _ \<Rightarrow> None
      | Inr channel \<Rightarrow>
          (case resolve_event_channel_target db channel of
             None \<Rightarrow> None
           | Some target \<Rightarrow>
               map_option (\<lambda>sid. (sid, M sid \<noteq> None \<and> user_can_view_channel db now u sid target = Inr True))
                 (server_of_channel target)))"

definition own_rows :: "pdb \<Rightarrow> puser \<Rightarrow> (string \<Rightarrow> member option) \<Rightarrow> bool" where
  "own_rows db u M \<longleftrightarrow>
     (\<forall>sid m. M sid = Some m \<longrightarrow> fetch_member db sid (user_id u) = Inr m \<and> member_server m = sid
        \<and> member_user m = user_id u \<and> (\<exists>s. map_of (db_servers db) sid = Some s \<and> server_id s = sid))"

definition viewer_ok :: "pdb \<Rightarrow> int \<Rightarrow> puser \<Rightarrow> (string \<Rightarrow> member option) \<Rightarrow> event_viewer \<Rightarrow> bool" where
  "viewer_ok db now u M v \<longleftrightarrow>
     vw_user v = u \<and> map_of (vw_members v) = M
     \<and> (\<forall>sid x. map_of (vw_servers v) sid = Some x \<longrightarrow> x = map_of (db_servers db) sid)
     \<and> (\<forall>c r. map_of (vw_channels v) c = Some r \<longrightarrow> r = resolved db now u M c)"

lemma target_kind:
  "resolve_event_channel_target db channel = Some t \<Longrightarrow>
   (\<exists>i s d r. t = TextChannel i s d r) \<or> (\<exists>i s d r. t = Forum i s d r)"
  by (cases channel; cases t)
    (auto simp: resolve_event_channel_target_def try_resolve_event_channel_target_def permission_target_def
      split: sum.splits channel.splits if_splits)

lemma load_server_ok:
  assumes "viewer_ok db now u M v"
  shows "viewer_ok db now u M (load_server db sid v)"
    and "map_of (vw_servers (load_server db sid v)) sid = Some (map_of (db_servers db) sid)"
  using assms
  by (auto simp: viewer_ok_def load_server_def fetch_server_def fetch_of_def map_of_update split: option.splits sum.splits)

lemma resolve_channel_run:
  assumes v: "viewer_ok db now u M v" and rows: "own_rows db u M"
  shows "\<exists>v'. resolve_channel db now c v = (Inr (resolved db now u M c), v') \<and> viewer_ok db now u M v'"
proof (cases "\<exists>channel t sid. fetch_channel db c = Inr channel
    \<and> resolve_event_channel_target db channel = Some t \<and> server_of_channel t = Some sid")
  case False
  then show ?thesis using v
    by (auto simp: resolve_channel_def resolved_def split: sum.splits option.splits)
next
  case True
  then obtain channel t sid where c: "fetch_channel db c = Inr channel"
    "resolve_event_channel_target db channel = Some t" "server_of_channel t = Some sid" by blast
  show ?thesis
  proof (cases "M sid")
    case None
    then show ?thesis using v c by (auto simp: resolve_channel_def resolved_def viewer_ok_def)
  next
    case (Some m)
    with rows obtain s where m: "fetch_member db sid (user_id u) = Inr m" "member_server m = sid" "member_user m = user_id u"
      and s: "map_of (db_servers db) sid = Some s" "server_id s = sid" unfolding own_rows_def by blast
    let ?q = "with_channel t (with_member m (q_new u))"
    obtain b where b: "may_view db now ?q = Inr b"
      using may_view_answers [OF _ c(3), of ?q] by (auto simp: with_channel_def)
    have check: "user_can_view_channel db now u sid t = Inr b"
      using target_kind [OF c(2)] c(3) m b by (auto simp: user_can_view_channel_def)
    note lv = load_server_ok [OF v, of sid]
    then have "map_of (vw_members (load_server db sid v)) sid = Some m" "vw_user (load_server db sid v) = u"
      using Some by (simp_all add: viewer_ok_def)
    then have "resolve_channel db now c v = (Inr (Some (sid, b)), load_server db sid v)"
      using v c Some lv(2) s m b may_view_preloaded [OF s c(3)]
      by (simp add: resolve_channel_def viewer_ok_def Let_def)
    moreover have "resolved db now u M c = Some (sid, b)" using c Some check by (simp add: resolved_def)
    ultimately show ?thesis using lv(1) by auto
  qed
qed

lemma can_view_run:
  assumes v: "viewer_ok db now u M v" and rows: "own_rows db u M"
  shows "\<exists>v'. can_view db now e v = (Inr (M (ce_server e) \<noteq> None \<and>
      (case ce_channel e of None \<Rightarrow> True | Some c \<Rightarrow> resolved db now u M c = Some (ce_server e, True))), v')
    \<and> viewer_ok db now u M v'"
proof (cases "M (ce_server e) = None \<or> ce_channel e = None")
  case True
  then show ?thesis using v by (auto simp: can_view_def eff_simps viewer_ok_def split: option.splits)
next
  case False
  then obtain c m where c: "ce_channel e = Some c" "M (ce_server e) = Some m" by auto
  have ask: "(case r of Some (sid, True) \<Rightarrow> sid = ce_server e | _ \<Rightarrow> False) = (r = Some (ce_server e, True))" for r
    by (cases r) (auto split: bool.splits)
  show ?thesis
  proof (cases "map_of (vw_channels v) c")
    case (Some r)
    then have "r = resolved db now u M c" using v by (simp add: viewer_ok_def)
    moreover have "map_of (vw_members v) (ce_server e) = Some m" using v c by (simp add: viewer_ok_def)
    ultimately have "can_view db now e v = (Inr (resolved db now u M c = Some (ce_server e, True)), v)"
      using c Some by (simp add: can_view_def eff_simps ask)
    then show ?thesis using v c by simp
  next
    case None
    obtain v' where v': "resolve_channel db now c v = (Inr (resolved db now u M c), v')" "viewer_ok db now u M v'"
      using resolve_channel_run [OF v rows] by blast
    let ?v = "v'\<lparr>vw_channels := AList.update c (resolved db now u M c) (vw_channels v')\<rparr>"
    have "viewer_ok db now u M ?v" using v'(2) by (auto simp: viewer_ok_def map_of_update split: if_splits)
    moreover have "can_view db now e v = (Inr (resolved db now u M c = Some (ce_server e, True)), ?v)"
      using v c None v'(1) by (simp add: can_view_def eff_simps viewer_ok_def map_of_update ask)
    ultimately show ?thesis using c by auto
  qed
qed

lemma view_all_run:
  assumes "viewer_ok db now u M v" "own_rows db u M"
  shows "\<exists>v'. view_all db now es v = (Inr (map (\<lambda>e. M (ce_server e) \<noteq> None \<and>
      (case ce_channel e of None \<Rightarrow> True | Some c \<Rightarrow> resolved db now u M c = Some (ce_server e, True))) es), v')"
  using assms(1)
proof (induction es arbitrary: v)
  case Nil
  then show ?case by (simp add: okE_def)
next
  case (Cons e es)
  from can_view_run [OF Cons.prems assms(2), of e] obtain v1 where
    v1: "can_view db now e v = (Inr (M (ce_server e) \<noteq> None \<and>
      (case ce_channel e of None \<Rightarrow> True | Some c \<Rightarrow> resolved db now u M c = Some (ce_server e, True))), v1)"
      "viewer_ok db now u M v1" by blast
  from Cons.IH [OF v1(2)] show ?case by (auto simp: bindE_run v1(1) okE_def)
qed

lemma resolved_visible:
  assumes "M sid \<noteq> None"
  shows "resolved db now u M c = Some (sid, True) \<longleftrightarrow>
    (case fetch_channel db c of
       Inl _ \<Rightarrow> False | Inr channel \<Rightarrow> require_event_channel_view db now u sid channel = Inr ())"
  using assms
  by (auto simp: resolved_def require_event_channel_view_def resolve_event_channel_target_def
      try_resolve_event_channel_target_def split: sum.splits option.splits if_splits)

definition member_table :: "member list \<Rightarrow> (string \<times> member) list \<Rightarrow> (string \<times> member) list" where
  "member_table ms t = foldl (\<lambda>t m. AList.update (member_server m) m t) t ms"

lemma member_table_row:
  "map_of (member_table ms t) sid = Some m \<Longrightarrow> m \<in> set ms \<and> member_server m = sid \<or> map_of t sid = Some m"
proof (induction ms arbitrary: t)
  case (Cons a ms)
  from Cons.prems have "map_of (member_table ms (AList.update (member_server a) a t)) sid = Some m"
    by (simp add: member_table_def)
  from Cons.IH [OF this] show ?case by (auto simp: map_of_update split: if_splits)
qed (simp add: member_table_def)

lemma member_table_some:
  "(map_of (member_table ms t) sid = None) \<longleftrightarrow> map_of t sid = None \<and> (\<forall>m \<in> set ms. member_server m \<noteq> sid)"
proof (induction ms arbitrary: t)
  case (Cons a ms)
  then show ?case by (auto simp: member_table_def map_of_update)
qed (simp add: member_table_def)

text \<open>C32: given the stored member rows of the user, each of a server that exists, the viewer of a
  request, which fetches each server and judges each channel once, is built and answers every event
  of any page exactly as the check for a single channel does, in whatever order they come: the
  events of a server the user holds no member row of are hidden (from staff too), a server-wide
  event is visible to members, and an event of a channel is visible when the channel, or the parent
  of a thread, lies in the event's own server and shows itself to the member. A row of another user
  panics with debug assertions.\<close>

theorem event_viewer_agrees:
  assumes "\<forall>m \<in> set members. fetch_member db (member_server m) (user_id u) = Inr m \<and> member_user m = user_id u"
    and "\<forall>m \<in> set members. \<exists>s. fetch_server db (member_server m) = Inr s \<and> server_id s = member_server m"
  shows "(\<exists>v. with_memberships debug u members = Inr v
      \<and> fst (view_all db now events v) = Inr (map (event_visible db now u members) events))
    \<and> (\<forall>m. member_user m \<noteq> user_id u \<longrightarrow> (\<exists>msg. with_memberships True u (m # members) = Inl (Panic msg)))"
proof -
  have own: "list_all (\<lambda>m. member_user m = user_id u) members" using assms(1) by (simp add: list_all_iff)
  then obtain v where v: "with_memberships debug u members = Inr v" by (auto simp: with_memberships_def)
  then have rows_of: "v = \<lparr>vw_user = u, vw_members = member_table (filter (\<lambda>m. member_user m = user_id u) members) [],
      vw_servers = [], vw_channels = []\<rparr>"
    using own by (simp add: with_memberships_def member_table_def)
  define M where "M = map_of (vw_members v)"
  have row: "M sid = Some m \<Longrightarrow> m \<in> set members \<and> member_user m = user_id u \<and> member_server m = sid" for sid m
    unfolding M_def rows_of by (auto dest: member_table_row)
  have some: "M sid \<noteq> None \<longleftrightarrow> (\<exists>m \<in> set members. member_user m = user_id u \<and> member_server m = sid)" for sid
    unfolding M_def rows_of by (auto simp: member_table_some simp del: not_None_eq)
  have rows: "own_rows db u M"
    unfolding own_rows_def
  proof (intro allI impI)
    fix sid m assume "M sid = Some m"
    from row [OF this] have m: "m \<in> set members" "member_user m = user_id u" "member_server m = sid" by auto
    then have "fetch_member db sid (user_id u) = Inr m" using assms(1) by auto
    moreover obtain s where "fetch_server db sid = Inr s" "server_id s = sid" using assms(2) m by auto
    then have "map_of (db_servers db) sid = Some s \<and> server_id s = sid"
      by (cases "map_of (db_servers db) sid") (simp_all add: fetch_server_def)
    ultimately show "fetch_member db sid (user_id u) = Inr m \<and> member_server m = sid \<and> member_user m = user_id u
        \<and> (\<exists>s. map_of (db_servers db) sid = Some s \<and> server_id s = sid)" using m by blast
  qed
  have ok: "viewer_ok db now u M v" unfolding M_def by (simp add: viewer_ok_def rows_of)
  have "(M (ce_server e) \<noteq> None \<and> (case ce_channel e of None \<Rightarrow> True
      | Some c \<Rightarrow> resolved db now u M c = Some (ce_server e, True))) = event_visible db now u members e" for e
  proof (cases "M (ce_server e) = None")
    case True
    then show ?thesis using some [of "ce_server e"] by (simp add: event_visible_def)
  next
    case False
    then show ?thesis using some [of "ce_server e"] resolved_visible [where M = M and sid = "ce_server e" and db = db and now = now and u = u]
      by (simp add: event_visible_def split: option.split)
  qed
  then have "fst (view_all db now events v) = Inr (map (event_visible db now u members) events)"
    using view_all_run [OF ok rows, of events] by auto
  then show ?thesis using v by (auto simp: with_memberships_def)
qed

definition ex_page :: "calendar_event list" where
  "ex_page = [\<lparr>ce_server = ''s'', ce_channel = None\<rparr>, \<lparr>ce_server = ''s'', ce_channel = Some ''c''\<rparr>,
     \<lparr>ce_server = ''s'', ce_channel = Some ''d''\<rparr>, \<lparr>ce_server = ''t'', ce_channel = Some ''c''\<rparr>]"

definition ex_viewer :: event_viewer where
  "ex_viewer = projr (with_memberships True ex_user [ex_member])"

lemma ex_viewer_built: "with_memberships True ex_user [ex_member] = Inr ex_viewer"
  by (simp add: ex_viewer_def with_memberships_def ex_user_def ex_member_def)

theorem event_viewer_agrees_witness:
  "fst (view_all ex_pdb 60 ex_page ex_viewer) = Inr (map (event_visible ex_pdb 60 ex_user [ex_member]) ex_page)
   \<and> fst (view_all ex_pdb 60 ex_page ex_viewer) = Inr [True, True, False, False]"
proof
  have "(\<exists>v. with_memberships True ex_user [ex_member] = Inr v
      \<and> fst (view_all ex_pdb 60 ex_page v) = Inr (map (event_visible ex_pdb 60 ex_user [ex_member]) ex_page))
    \<and> (\<forall>m. member_user m \<noteq> user_id ex_user \<longrightarrow> (\<exists>msg. with_memberships True ex_user [m, ex_member] = Inl (Panic msg)))"
    by (rule event_viewer_agrees) (simp_all add: ex_pdb_def ex_user_def ex_member_def ex_server_def
      fetch_member_def fetch_server_def)
  then show "fst (view_all ex_pdb 60 ex_page ex_viewer) = Inr (map (event_visible ex_pdb 60 ex_user [ex_member]) ex_page)"
    using ex_viewer_built by auto
  show "fst (view_all ex_pdb 60 ex_page ex_viewer) = Inr [True, True, False, False]"
    by code_simp
qed

end
