(* ===== verification/Channel_Permissions.thy ===== *)
theory Channel_Permissions
  imports Role_Props Event_Visibility
begin

text \<open>
  Overrides on a channel: the routes \<open>permissions_set\<close> and \<open>permissions_set_default\<close> of
  \<open>crates/delta/src/routes/channels\<close>, the methods of \<open>Channel\<close> they call and the writes of the
  database, over the state and the environment of the role routes. The two drivers differ in
  one of these writes, so both are modelled there (\<open>set_channel_role_permission\<close>).
\<close>

section \<open>Channels\<close>

definition default_partial_channel :: partial_channel where
  "default_partial_channel = \<lparr>pc_permissions = None, pc_role_permissions = None, pc_default_permissions = None\<rparr>"

fun apply_channel_options :: "partial_channel \<Rightarrow> channel \<Rightarrow> channel" where
  "apply_channel_options p (Group i ow rs perms) =
     Group i ow rs (if pc_permissions p = None then perms else pc_permissions p)"
| "apply_channel_options p (TextChannel i sv d rs) =
     TextChannel i sv (if pc_default_permissions p = None then d else pc_default_permissions p) (or_else (pc_role_permissions p) rs)"
| "apply_channel_options p (Forum i sv d rs) =
     Forum i sv (if pc_default_permissions p = None then d else pc_default_permissions p) (or_else (pc_role_permissions p) rs)"
| "apply_channel_options p c = c"

definition put_channel :: "string \<Rightarrow> channel \<Rightarrow> admin_db \<Rightarrow> admin_db" where
  "put_channel cid c st = st\<lparr>ad_db := (ad_db st)\<lparr>db_channels := AList.update cid c (db_channels (ad_db st))\<rparr>\<rparr>"

definition update_channel :: "string \<Rightarrow> partial_channel \<Rightarrow> (admin_db, unit) eff" where
  "update_channel cid partial =
     bindE getE (\<lambda>st. case map_of (db_channels (ad_db st)) cid of
       Some c \<Rightarrow> modE (put_channel cid (apply_channel_options partial c))
     | None \<Rightarrow> errE NotFound)"

fun put_override :: "string \<Rightarrow> override_field \<Rightarrow> channel \<Rightarrow> channel" where
  "put_override rid f (TextChannel i sv d rs) = TextChannel i sv d (AList.update rid f rs)"
| "put_override rid f (Forum i sv d rs) = Forum i sv d (AList.update rid f rs)"
| "put_override rid f c = c"

text \<open>The reference database only replaces an override that is there; MongoDB sets it, and
  matches no row where the channel is gone.\<close>

definition set_channel_role_permission :: "driver \<Rightarrow> string \<Rightarrow> string \<Rightarrow> override_field \<Rightarrow> (admin_db, unit) eff" where
  "set_channel_role_permission driver cid rid perms =
     bindE getE (\<lambda>st. case map_of (db_channels (ad_db st)) cid of
       Some c \<Rightarrow>
         (case driver of
            Reference \<Rightarrow>
              if channel_override c rid \<noteq> None then modE (put_channel cid (put_override rid perms c)) else errE NotFound
          | MongoDb \<Rightarrow> modE (put_channel cid (put_override rid perms c)))
     | None \<Rightarrow> (case driver of Reference \<Rightarrow> errE NotFound | MongoDb \<Rightarrow> okE ()))"

text \<open>\<open>Channel::set_role_permission\<close>\<close>

definition channel_set_role_permission :: "driver \<Rightarrow> channel \<Rightarrow> string \<Rightarrow> override_field \<Rightarrow> (admin_db, channel) eff" where
  "channel_set_role_permission driver c rid perms =
     (case channel_overrides c of
        Some (rs, _) \<Rightarrow>
          thenE (set_channel_role_permission driver (channel_id c) rid perms)
          (thenE (emit (channel_server c) (ChannelUpdate (channel_id c)
             (default_partial_channel\<lparr>pc_role_permissions := Some (AList.update rid perms rs)\<rparr>)))
          (okE (put_override rid perms c)))
      | None \<Rightarrow> errE InvalidOperation)"

text \<open>\<open>Channel::update\<close> with nothing to remove. Its guard for protected channels looks at fields
  that these partial channels do not have.\<close>

definition channel_update :: "channel \<Rightarrow> partial_channel \<Rightarrow> (admin_db, channel) eff" where
  "channel_update c partial =
     (let c' = apply_channel_options partial c in
      thenE (update_channel (channel_id c') partial)
      (thenE (emit (case server_of_channel c' of Some sid \<Rightarrow> sid | None \<Rightarrow> channel_id c') (ChannelUpdate (channel_id c') partial))
      (okE c')))"

section \<open>Routes\<close>

definition overwrite_entry ::
    "admin_env \<Rightarrow> puser \<Rightarrow> string \<Rightarrow> string \<Rightarrow> channel \<Rightarrow> override_field option \<Rightarrow> override_field \<Rightarrow> string option \<Rightarrow> audit_entry" where
  "overwrite_entry env u sid target c previous new reason =
     \<lparr>al_id = en_audit_id env, al_server = sid, al_actor = Some (user_id u), al_action = ChannelOverwriteUpdate,
      al_target = Some target, al_channel = Some (channel_id c),
      al_changes = [change ''allow'' (map_option (\<lambda>f. AInt (of_a f)) previous) (Some (AInt (of_a new))),
        change ''deny'' (map_option (\<lambda>f. AInt (of_d f)) previous) (Some (AInt (of_d new)))],
      al_count = None, al_reason = reason\<rparr>"

text \<open>The channel, the caller's permissions in it, and the query they leave.\<close>

definition channel_gate :: "admin_env \<Rightarrow> puser \<Rightarrow> string \<Rightarrow> (admin_db, channel \<times> u64 \<times> db_query) eff" where
  "channel_gate env u target =
     bindE getE (\<lambda>st.
     bindE (resE (fetch_channel (ad_db st) target)) (\<lambda>c.
     case calculate_channel_permissions (database_query (ad_db st) (en_now env)) (with_channel c (q_new u)) of
       (Inl e, _) \<Rightarrow> errE e
     | (Inr p, q) \<Rightarrow> okE (c, p, q)))"

definition select_server_of :: "db_query \<Rightarrow> (admin_db, db_query) eff" where
  "select_server_of q =
     bindE getE (\<lambda>st. case db_set_server_from_channel (ad_db st) q of (Inl e, _) \<Rightarrow> errE e | (Inr _, q') \<Rightarrow> okE q')"

definition set_role_permissions ::
    "admin_env \<Rightarrow> puser \<Rightarrow> string \<Rightarrow> string \<Rightarrow> override \<Rightarrow> error + string option \<Rightarrow> (admin_db, channel) eff" where
  "set_role_permissions env u target rid data reason =
     bindE (resE reason) (\<lambda>reason.
     bindE (channel_gate env u target) (\<lambda>(c, p, q0).
     bindE (select_server_of q0) (\<lambda>q.
     thenE (resE (throw_if_lacking_channel_permission p ManagePermissions))
     (case q_server q of
        None \<Rightarrow> errE InvalidOperation
      | Some s \<Rightarrow>
          (case map_of (roles s) rid of
             None \<Rightarrow> errE NotFound
           | Some r \<Rightarrow>
               thenE (if owner s \<noteq> user_id u
                      then bindE (resE (member_rank q)) (\<lambda>k. if rank r \<le> k then errE NotElevated else okE ())
                      else okE ())
               (let previous = channel_override c rid; new = field_of_override data in
                thenE (resE (throw_permission_override p (map_option override_of_field previous) data))
                (bindE (channel_set_role_permission (en_driver env) c rid new) (\<lambda>c'.
                 thenE (if previous \<noteq> Some new then record_entry (overwrite_entry env u (server_id s) rid c' previous new reason) else okE ())
                 (bindE getE (\<lambda>st.
                  thenE (resE (en_sync_channel env (ad_db st) c' (Some s) (Some rid))) (okE c')))))))))))"

datatype data_default_channel_permissions = Value u64 | Field override

definition set_default_stage :: "admin_env \<Rightarrow> puser \<Rightarrow> channel \<Rightarrow> u64 \<Rightarrow> data_default_channel_permissions \<Rightarrow> string option
    \<Rightarrow> (admin_db, channel) eff" where
  "set_default_stage env u c p data reason =
     (case (c, data) of
        (Group _ _ _ _, Value v) \<Rightarrow> channel_update c (default_partial_channel\<lparr>pc_permissions := Some (u64_as_i64 v)\<rparr>)
      | (_, Field f) \<Rightarrow>
          (case channel_overrides c of
             None \<Rightarrow> errE InvalidOperation
           | Some (_, previous) \<Rightarrow>
               let new = field_of_override f in
               thenE (resE (throw_permission_override p (map_option override_of_field previous) f))
               (bindE (channel_update c (default_partial_channel\<lparr>pc_default_permissions := Some new\<rparr>)) (\<lambda>c'.
                thenE (if previous \<noteq> Some new
                       then record_entry (overwrite_entry env u (channel_server c) ''default'' c' previous new reason) else okE ())
                (okE c'))))
      | _ \<Rightarrow> errE InvalidOperation)"

definition set_default_channel_permissions ::
    "admin_env \<Rightarrow> puser \<Rightarrow> string \<Rightarrow> data_default_channel_permissions \<Rightarrow> error + string option \<Rightarrow> (admin_db, channel) eff" where
  "set_default_channel_permissions env u target data reason =
     bindE (resE reason) (\<lambda>reason.
     bindE (channel_gate env u target) (\<lambda>(c, p, _).
     thenE (resE (throw_if_lacking_channel_permission p ManagePermissions))
     (bindE (set_default_stage env u c p data reason) (\<lambda>c'.
      bindE getE (\<lambda>st.
      bindE (case server_of_channel c' of
               Some sid \<Rightarrow> resE (map_sum id Some (fetch_server (ad_db st) sid))
             | None \<Rightarrow> okE None) (\<lambda>s.
      thenE (resE (en_sync_channel env (ad_db st) c' s None)) (okE c')))))))"

end
