(* ===== verification/Channel_Props.thy ===== *)
theory Channel_Props
  imports Channel_Permissions
begin

text \<open>
  What setting an override on a channel can do, in the manner of \<open>Role_Props\<close>: the permissions
  on a channel bit by bit, the four changes a request may store (\<open>chan_stores\<close>), and what follows.
\<close>

section \<open>Examples\<close>

text \<open>A text channel that hides from nobody and in which the member \<open>u\<close> may manage permissions
  (bit 2); a group whose recipients may, and \<open>u\<close> is one.\<close>

definition ex_channels :: admin_db where
  "ex_channels = ex_admin\<lparr>ad_db := (ad_db ex_admin)\<lparr>db_channels :=
     [(''c'', TextChannel ''c'' ''s'' (Some \<lparr>of_a = 1048576, of_d = 0\<rparr>) [(''b'', \<lparr>of_a = 0, of_d = 128\<rparr>)]), (''d'', ex_dm),
      (''g'', Group ''g'' ''o'' [''o'', ''u'', ''v''] (Some 4))]\<rparr>\<rparr>"

section \<open>The calculation on a channel\<close>

definition channel_permissions_of :: "pdb \<Rightarrow> int \<Rightarrow> puser \<Rightarrow> string \<Rightarrow> u64" where
  "channel_permissions_of db now u cid =
     (case map_of (db_channels db) cid of
        None \<Rightarrow> 0
      | Some c \<Rightarrow> (case fst (calculate_channel_permissions (database_query db now) (with_channel c (q_new u))) of
                    Inr p \<Rightarrow> p | Inl _ \<Rightarrow> 0))"

lemma server_channel_run:
  assumes ov: "channel_overrides c = Some (rs, d)"
    and sid: "\<And>s. map_of (db_servers db) (channel_server c) = Some s \<Longrightarrow> server_id s = channel_server c"
  shows "fst (calculate_channel_permissions (database_query db now) (with_channel c (q_new u))) = Inr
    (if privileged u then channel_bits GrantAllSafe
     else case map_of (db_servers db) (channel_server c) of
       None \<Rightarrow> 0
     | Some s \<Rightarrow> if owner s = user_id u then channel_bits GrantAllSafe
         else case map_of (db_members db) (server_id s, user_id u) of
           None \<Rightarrow> 0 | Some m \<Rightarrow> single_member_value now s d rs m)"
proof -
  let ?q = "with_channel c (q_new u)"
  let ?srv = "?q\<lparr>q_server := map_of (db_servers db) (channel_server c)\<rparr>"
  note q = with_channel_def q_new_def
  have c: "(\<exists>i sv. c = TextChannel i sv d rs) \<or> (\<exists>i sv. c = Forum i sv d rs)" using ov by (cases c) auto
  then have type: "db_channel_type ?q = ServerChannel_T" and f: "db_fresh ?q"
    by (auto simp: db_channel_type_def db_fresh_def q)
  have sel: "snd (db_set_server_from_channel db ?q) = ?srv"
    using c by (auto simp: db_set_server_from_channel_def select_server_def fetch_server_def fetch_of_def q split: option.splits)
  have viewer: "q_perspective ?q = u" "q_perspective (single_query u c s m) = u" for s m
    by (simp_all add: q single_query_def with_member_def with_server_def)
  have run: "fst (calculate_channel_permissions (database_query db now) ?q)
      = Inr (if privileged u then channel_bits GrantAllSafe else server_channel_value (db_answers db now ?srv))"
    using dbq.channel_calc [OF f, of db now] type by (auto simp: db_views_def sel channel_value_def viewer)
  show ?thesis
  proof (cases "map_of (db_servers db) (channel_server c)")
    case None
    then show ?thesis unfolding run by (simp add: server_channel_value_def db_answers_def Let_def db_are_we_server_owner_def)
  next
    case (Some s)
    show ?thesis
    proof (cases "map_of (db_members db) (server_id s, user_id u)")
      case None
      then show ?thesis unfolding run using Some
        by (simp add: server_channel_value_def db_answers_def Let_def db_are_we_server_owner_def settled_member_def q)
    next
      case (Some m)
      note s = \<open>map_of (db_servers db) (channel_server c) = Some s\<close>
      note sq = single_query_def with_member_def with_server_def
      have "db_channel_type (single_query u c s m) = ServerChannel_T" "db_fresh (single_query u c s m)"
        using c by (auto simp: db_channel_type_def db_fresh_def sq with_channel_def)
      moreover have "snd (db_set_server_from_channel db (single_query u c s m)) = single_query u c s m"
        using c sid [OF s] by (auto simp: db_set_server_from_channel_def select_server_def sq q)
      ultimately have "\<not> privileged u \<Longrightarrow> server_channel_value (db_answers db now (single_query u c s m))
          = (if owner s = user_id u then channel_bits GrantAllSafe else single_member_value now s d rs m)"
        using single_query_value [OF ov sid [OF s, symmetric], of db now u m] dbq.channel_calc [of "single_query u c s m" db now]
        by (auto simp: db_views_def channel_value_def viewer)
      moreover have "db_answers db now (single_query u c s m) = db_answers db now ?srv"
        using db_answers_cache_member [of ?srv s db m now] s Some by (simp add: sq q)
      ultimately have "\<not> privileged u \<Longrightarrow> server_channel_value (db_answers db now ?srv)
          = (if owner s = user_id u then channel_bits GrantAllSafe else single_member_value now s d rs m)" by simp
      then show ?thesis unfolding run using s Some by simp
    qed
  qed
qed

section \<open>Overrides bit by bit\<close>

text \<open>The overrides a member gets from a channel depend on its table only through a filter and a
  sort that look at the ids.\<close>

lemma channel_role_overrides_alt:
  "channel_role_overrides s crs ids = map (\<lambda>p. override_of_field (snd p))
     (filter (\<lambda>p. fst p \<in> set ids \<and> map_of (roles s) (fst p) \<noteq> None) (sort_key (\<lambda>p. - rank (the (map_of (roles s) (fst p)))) crs))"
proof -
  have "List.map_filter (\<lambda>(i, p). map_option (\<lambda>r. (rank r, override_of_field p)) (map_of (roles s) i)) (filter (\<lambda>(i, _). i \<in> set ids) crs)
    = map (\<lambda>p. (rank (the (map_of (roles s) (fst p))), override_of_field (snd p)))
        (filter (\<lambda>p. fst p \<in> set ids \<and> map_of (roles s) (fst p) \<noteq> None) crs)"
    by (induction crs) (auto simp: List.map_filter_simps split: option.splits)
  then show ?thesis unfolding channel_role_overrides_def by_rank_def filter_sort by (simp add: sort_key_map comp_def)
qed

definition calmer :: "nat \<Rightarrow> string \<times> override_field \<Rightarrow> string \<times> override_field \<Rightarrow> bool" where
  "calmer n a b \<longleftrightarrow> fst a = fst b \<and> milder n (override_of_field (snd a)) (override_of_field (snd b))"

lemma calmer_overrides:
  assumes "list_all2 (calmer n) crs' crs"
  shows "list_all2 (milder n) (channel_role_overrides s crs' ids) (channel_role_overrides s crs ids)"
proof -
  let ?P = "\<lambda>p :: string \<times> override_field. fst p \<in> set ids \<and> map_of (roles s) (fst p) \<noteq> None"
  have filtered: "list_all2 (calmer n) (filter ?P xs) (filter ?P ys)" if "list_all2 (calmer n) xs ys" for xs ys
    using that by (induction rule: list_all2_induct) (auto simp: calmer_def)
  have "list_all2 (calmer n) (sort_key (\<lambda>p. - rank (the (map_of (roles s) (fst p)))) crs')
      (sort_key (\<lambda>p. - rank (the (map_of (roles s) (fst p)))) crs)"
    using assms by (rule sort_related) (simp add: calmer_def)
  from filtered [OF this] show ?thesis
    unfolding channel_role_overrides_alt list_all2_map1 list_all2_map2 by (rule list_all2_mono) (simp add: calmer_def)
qed

text \<open>An override that allows nothing at a bit cannot set it.\<close>

lemma foldl_added:
  "(\<And>x. x \<in> set xs \<Longrightarrow> \<not> P x \<Longrightarrow> \<not> bit (allow (f x)) n) \<Longrightarrow> (bit p' n \<longrightarrow> bit p n) \<Longrightarrow>
   bit (foldl pv_apply p' (map f xs)) n \<Longrightarrow> bit (foldl pv_apply p (map f (filter P xs))) n"
proof (induction xs arbitrary: p' p)
  case (Cons x xs)
  show ?case
  proof (cases "P x")
    case True
    then show ?thesis using Cons.IH [of "pv_apply p' (f x)" "pv_apply p (f x)"] Cons.prems by auto
  next
    case False
    then have "\<not> bit (allow (f x)) n" using Cons.prems(1) by simp
    then show ?thesis using Cons.IH [of "pv_apply p' (f x)" p] Cons.prems False by auto
  qed
qed simp

lemma added_overrides:
  assumes "rid \<notin> fst ` set crs" "\<not> bit (allow (override_of_field f)) n" "bit p' n \<longrightarrow> bit p n"
    and "bit (foldl pv_apply p' (channel_role_overrides s (AList.update rid f crs) ids)) n"
  shows "bit (foldl pv_apply p (channel_role_overrides s crs ids)) n"
proof -
  let ?key = "\<lambda>p. - rank (the (map_of (roles s) (fst p)))" and ?held = "\<lambda>p. fst p \<in> set ids \<and> map_of (roles s) (fst p) \<noteq> None"
  let ?xs = "filter ?held (sort_key ?key (crs @ [(rid, f)]))"
  have old: "filter (\<lambda>p. fst p \<noteq> rid) crs = crs" using assms(1) by (intro filter_True) force
  have "filter (\<lambda>p. fst p \<noteq> rid) ?xs = filter ?held (filter (\<lambda>p. fst p \<noteq> rid) (sort_key ?key (crs @ [(rid, f)])))"
    unfolding filter_filter by (rule filter_cong) auto
  also have "\<dots> = filter ?held (sort_key ?key crs)" unfolding filter_sort [of "\<lambda>p. fst p \<noteq> rid"] using old by simp
  finally have xs: "filter (\<lambda>p. fst p \<noteq> rid) ?xs = filter ?held (sort_key ?key crs)" .
  have none: "\<not> bit (allow (override_of_field (snd x))) n" if "x \<in> set ?xs" "\<not> fst x \<noteq> rid" for x
  proof -
    have "x \<in> set crs \<or> x = (rid, f)" "x \<notin> set crs" using that assms(1) by auto
    then show ?thesis using assms(2) by simp
  qed
  have "bit (foldl pv_apply p' (map (\<lambda>p. override_of_field (snd p)) ?xs)) n"
    using assms(4) by (simp only: channel_role_overrides_alt update_fresh [OF assms(1)])
  with none assms(3) show ?thesis unfolding channel_role_overrides_alt xs [symmetric] by (rule foldl_added)
qed

text \<open>One statement for both: what the check of an override allows the caller to store.\<close>

lemma override_no_gain:
  assumes "throw_permission_override p (map_option override_of_field (map_of crs rid)) data = Inr ()" "\<not> bit p n"
    and "bit (foldl pv_apply base (channel_role_overrides s (AList.update rid (field_of_override data) crs) ids)) n"
  shows "bit (foldl pv_apply base (channel_role_overrides s crs ids)) n"
proof (cases "map_of crs rid")
  case None
  then have "\<not> bit (allow data) n" using assms(1,2) by (auto simp: throw_permission_override_def pv_has_bits split: if_splits)
  then show ?thesis using None assms(3) by (elim added_overrides [rotated -1]) (auto simp: override_roundtrip map_of_eq_None_iff)
next
  case (Some f)
  then have "milder n data (override_of_field f)" using assms(1,2) by (auto intro: override_milder)
  with Some have "list_all2 (calmer n) (AList.update rid (field_of_override data) crs) crs"
  proof (induction crs)
    case (Cons a crs)
    have "list_all2 (calmer n) crs crs" by (simp add: calmer_def list_all2_same)
    then show ?case using Cons by (cases a) (auto simp: calmer_def override_roundtrip list_all2_same)
  qed simp
  then show ?thesis using foldl_milder [OF calmer_overrides _ assms(3)] by blast
qed

section \<open>What a request stores\<close>

definition rechannel :: "pdb \<Rightarrow> string \<Rightarrow> channel \<Rightarrow> pdb" where
  "rechannel db k c = db\<lparr>db_channels := AList.update k c (db_channels db)\<rparr>"

lemma ad_db_put_channel [simp]: "ad_db (put_channel k c st) = rechannel (ad_db st) k c"
  by (simp add: put_channel_def rechannel_def)

inductive chan_stores :: "admin_env \<Rightarrow> puser \<Rightarrow> pdb \<Rightarrow> string \<Rightarrow> pdb \<Rightarrow> bool" for env u db target where
  chan_nothing: "chan_stores env u db target db"
| chan_override: "\<lbrakk>map_of (db_channels db) target = Some c; channel_overrides c = Some (rs, d);
      throw_permission_override (channel_permissions_of db (en_now env) u target) (map_option override_of_field (map_of rs rid)) data = Inr ()\<rbrakk>
    \<Longrightarrow> chan_stores env u db target (rechannel db target (put_override rid (field_of_override data) c))"
| chan_default: "\<lbrakk>map_of (db_channels db) target = Some c; channel_overrides c = Some (rs, d);
      throw_permission_override (channel_permissions_of db (en_now env) u target) (map_option override_of_field d) f = Inr ()\<rbrakk>
    \<Longrightarrow> chan_stores env u db target (rechannel db target
          (apply_channel_options (default_partial_channel\<lparr>pc_default_permissions := Some (field_of_override f)\<rparr>) c))"
| chan_group: "map_of (db_channels db) target = Some (Group i ow rs perms)
    \<Longrightarrow> chan_stores env u db target (rechannel db target (Group i ow rs (Some (u64_as_i64 v))))"

lemma channel_gate_run:
  assumes "channel_gate env u target st = (x, st')"
  shows "st' = st" and "\<And>c p q. x = Inr (c, p, q) \<Longrightarrow> map_of (db_channels (ad_db st)) target = Some c
      \<and> p = channel_permissions_of (ad_db st) (en_now env) u target
      \<and> calculate_channel_permissions (database_query (ad_db st) (en_now env)) (with_channel c (q_new u)) = (Inr p, q)"
  using assms by (auto simp: channel_gate_def eff_simps fetch_channel_def fetch_of_def channel_permissions_of_def
    split: prod.splits sum.splits option.splits)

lemma channel_gated:
  assumes "\<And>c p q. \<lbrakk>map_of (db_channels (ad_db st)) target = Some c; p = channel_permissions_of (ad_db st) (en_now env) u target;
      calculate_channel_permissions (database_query (ad_db st) (en_now env)) (with_channel c (q_new u)) = (Inr p, q)\<rbrakk>
      \<Longrightarrow> R (ad_db (snd (f (c, p, q) st)))"
    and "R (ad_db st)"
  shows "R (ad_db (snd (bindE (channel_gate env u target) f st)))"
proof -
  obtain x st' where g: "channel_gate env u target st = (x, st')" by (metis prod.exhaust)
  then have "st' = st" by (rule channel_gate_run)
  then show ?thesis using g channel_gate_run(2) [OF g] assms by (cases x) (auto simp: bindE_run)
qed

lemma select_keeps: "snd (select_server_of q st) = st"
  by (auto simp: select_server_of_def eff_simps split: prod.splits sum.splits)

lemma channel_set_run:
  assumes "map_of (db_channels (ad_db st)) (channel_id c) = Some c"
  shows "ad_db (snd (channel_set_role_permission drv c rid perms st)) = ad_db st
    \<or> channel_overrides c \<noteq> None \<and> (\<exists>st'. channel_set_role_permission drv c rid perms st = (Inr (put_override rid perms c), st')
        \<and> ad_db st' = rechannel (ad_db st) (channel_id c) (put_override rid perms c))"
  using assms by (auto simp: channel_set_role_permission_def set_channel_role_permission_def eff_simps emit_run
    split: option.splits driver.splits)

lemma channel_update_run:
  assumes "map_of (db_channels (ad_db st)) (channel_id c) = Some c"
  shows "\<exists>st'. channel_update c partial st = (Inr (apply_channel_options partial c), st')
    \<and> ad_db st' = rechannel (ad_db st) (channel_id c) (apply_channel_options partial c)"
proof -
  have "channel_id (apply_channel_options partial c) = channel_id c" by (cases c) simp_all
  then show ?thesis using assms by (auto simp: channel_update_def update_channel_def eff_simps emit_run Let_def)
qed

lemma keyed_channel: "keyed channel_id (db_channels db) \<Longrightarrow> map_of (db_channels db) k = Some c \<Longrightarrow> channel_id c = k"
  by (rule keyed_lookup_key)

lemma set_role_permissions_stores:
  assumes ok: "keyed channel_id (db_channels (ad_db st))"
  shows "chan_stores env u (ad_db st) target (ad_db (snd (set_role_permissions env u target rid data why st)))"
  unfolding set_role_permissions_def Let_def
proof (rule resolved, rule channel_gated, unfold prod.case, rule passed, rule select_keeps, rule checked, goal_cases)
  case (1 reason c p q0 q)
  have c: "map_of (db_channels (ad_db st)) (channel_id c) = Some c" "channel_id c = target"
    using keyed_channel [OF ok 1(2)] 1(2) by simp_all
  let ?check = "throw_permission_override p (map_option override_of_field (channel_override c rid)) data"
  let ?set = "channel_set_role_permission (en_driver env) c rid (field_of_override data)"
  show ?case
  proof (cases "q_server q")
    case (Some s)
    show ?thesis
    proof (cases "map_of (roles s) rid")
      case (Some r)
      have "chan_stores env u (ad_db st) target (ad_db (snd (bindE ?set (\<lambda>c'.
          thenE (if channel_override c rid \<noteq> Some (field_of_override data) then record_entry (overwrite_entry env u (server_id s) rid c'
            (channel_override c rid) (field_of_override data) reason) else okE ())
          (bindE getE (\<lambda>st. thenE (resE (en_sync_channel env (ad_db st) c' (Some s) (Some rid))) (okE c')))) st)))"
        if "?check = Inr ()"
        using channel_set_run [OF c(1), of "en_driver env" rid "field_of_override data"]
      proof (elim disjE conjE exE)
        assume same: "ad_db (snd (?set st)) = ad_db st"
        show ?thesis
          by (cases "?set st"; cases "fst (?set st)") (use same in \<open>auto simp: bindE_run tail_db chan_nothing\<close>)
      next
        fix st'
        assume "channel_overrides c \<noteq> None" and set: "?set st = (Inr (put_override rid (field_of_override data) c), st')"
          "ad_db st' = rechannel (ad_db st) (channel_id c) (put_override rid (field_of_override data) c)"
        then obtain rs d where "channel_overrides c = Some (rs, d)" by auto
        moreover from this have "channel_override c rid = map_of rs rid" by (cases c) simp_all
        ultimately have "chan_stores env u (ad_db st) target (ad_db st')"
          using chan_override [OF 1(2), of rs d env u rid data] that 1(3) c(2) set(2) by simp
        then show ?thesis using set(1) by (simp add: bindE_run tail_db)
      qed
      note store = this
      show ?thesis unfolding \<open>q_server q = Some s\<close> Some option.case
        by (rule passed_unit, simp add: eff_simps split: sum.splits, rule checked, erule store) (rule chan_nothing)+
    qed (simp add: Some errE_run chan_nothing)
  qed (simp add: errE_run chan_nothing)
qed (rule chan_nothing)+

lemma followed: "(\<And>a st. ad_db (snd (k a st)) = ad_db st) \<Longrightarrow> ad_db (snd (bindE m k st)) = ad_db (snd (m st))"
  by (cases "m st"; cases "fst (m st)") (auto simp: bindE_run)

lemma default_stage_stores:
  assumes c: "map_of (db_channels (ad_db st)) target = Some c" "channel_id c = target"
    and p: "p = channel_permissions_of (ad_db st) (en_now env) u target"
  shows "chan_stores env u (ad_db st) target (ad_db (snd (set_default_stage env u c p data reason st)))"
proof (cases data)
  case (Value v)
  show ?thesis
  proof (cases "\<exists>i ow rs perms. c = Group i ow rs perms")
    case True
    then obtain i ow rs perms where g: "c = Group i ow rs perms" by blast
    let ?part = "default_partial_channel\<lparr>pc_permissions := Some (u64_as_i64 v)\<rparr>"
    have "ad_db (snd (channel_update c ?part st)) = rechannel (ad_db st) target (apply_channel_options ?part c)"
      using channel_update_run [of st c ?part] c by auto
    then show ?thesis using c(1) g Value by (simp add: set_default_stage_def chan_group)
  next
    case False
    then show ?thesis using Value by (cases c) (simp_all add: set_default_stage_def errE_run chan_nothing)
  qed
next
  case (Field f)
  show ?thesis
  proof (cases "channel_overrides c")
    case None
    then show ?thesis using Field by (cases c) (simp_all add: set_default_stage_def errE_run chan_nothing)
  next
    case (Some v)
    then obtain rs d where ov: "channel_overrides c = Some (rs, d)" by (cases v) simp
    let ?part = "default_partial_channel\<lparr>pc_default_permissions := Some (field_of_override f)\<rparr>"
    obtain st' where st': "channel_update c ?part st = (Inr (apply_channel_options ?part c), st')"
      "ad_db st' = rechannel (ad_db st) target (apply_channel_options ?part c)"
      using channel_update_run [of st c ?part] c by auto
    have stage: "set_default_stage env u c p data reason = thenE (resE (throw_permission_override p (map_option override_of_field d) f))
        (bindE (channel_update c ?part) (\<lambda>c'. thenE (if d \<noteq> Some (field_of_override f)
           then record_entry (overwrite_entry env u (channel_server c) ''default'' c' d (field_of_override f) reason) else okE ()) (okE c')))"
      using ov Field by (cases c) (auto simp: set_default_stage_def Let_def)
    show ?thesis unfolding stage
    proof (rule checked)
      assume "throw_permission_override p (map_option override_of_field d) f = Inr ()"
      then have "chan_stores env u (ad_db st) target (ad_db st')" unfolding st'(2) using c(1) ov p by (auto intro: chan_default)
      then show "chan_stores env u (ad_db st) target (ad_db (snd (bindE (channel_update c ?part) (\<lambda>c'. thenE (if d \<noteq> Some (field_of_override f)
           then record_entry (overwrite_entry env u (channel_server c) ''default'' c' d (field_of_override f) reason) else okE ()) (okE c')) st)))"
        using st'(1) by (simp add: bindE_run tail_db)
    qed (rule chan_nothing)
  qed
qed

lemma set_default_stores_channel:
  assumes ok: "keyed channel_id (db_channels (ad_db st))"
  shows "chan_stores env u (ad_db st) target (ad_db (snd (set_default_channel_permissions env u target data why st)))"
  unfolding set_default_channel_permissions_def Let_def
proof (rule resolved, rule channel_gated, unfold prod.case, rule checked, goal_cases)
  case (1 reason c p q)
  show ?case
    by (subst followed) (use keyed_channel [OF ok 1(2)] 1(2,3) in \<open>auto simp: eff_simps default_stage_stores split: option.splits sum.splits\<close>)
qed (rule chan_nothing)+

section \<open>No escalation on a channel\<close>

lemma single_member_no_gain:
  assumes "bit (single_member_value now s d' rs' m) n" "single_member_value now s d rs m \<noteq> 0"
    and "bit (foldl pv_apply (pv_apply (single_server_value now s m) (field_or_default d')) (channel_role_overrides s rs' (member_roles m))) n
      \<Longrightarrow> bit (foldl pv_apply (pv_apply (single_server_value now s m) (field_or_default d)) (channel_role_overrides s rs (member_roles m))) n"
  shows "bit (single_member_value now s d rs m) n"
  using assms by (auto simp: single_member_value_def Let_def bit_and_iff split: if_splits)

lemma default_no_gain:
  assumes "throw_permission_override p (map_option override_of_field d) f = Inr ()" "\<not> bit p n"
    and "bit (foldl pv_apply (pv_apply base (field_or_default (Some (field_of_override f)))) os) n"
  shows "bit (foldl pv_apply (pv_apply base (field_or_default d)) os) n"
proof -
  have "milder n f (field_or_default d)"
  proof (cases d)
    case None
    then show ?thesis using assms(1,2) by (auto simp: throw_permission_override_def pv_has_bits milder_def field_or_default_def
      override_of_field_def default_override_field_def i64_as_u64_def split: if_splits)
  next
    case (Some e)
    then show ?thesis using assms(1,2) by (auto simp: field_or_default_def intro: override_milder)
  qed
  then have "bit (pv_apply base (field_or_default (Some (field_of_override f)))) n \<longrightarrow> bit (pv_apply base (field_or_default d)) n"
    by (auto simp: milder_def field_or_default_def override_roundtrip)
  then show ?thesis using foldl_milder [OF _ _ assms(3), of os] by (simp add: list_all2_same)
qed

datatype channel_request =
    SetOverride string string override
  | SetChannelDefault string data_default_channel_permissions

fun request_channel :: "channel_request \<Rightarrow> string" where
  "request_channel (SetOverride t _ _) = t"
| "request_channel (SetChannelDefault t _) = t"

fun run_channel :: "admin_env \<Rightarrow> puser \<Rightarrow> error + string option \<Rightarrow> channel_request \<Rightarrow> admin_db \<Rightarrow> admin_db" where
  "run_channel env u why (SetOverride t rid d) st = snd (set_role_permissions env u t rid d why st)"
| "run_channel env u why (SetChannelDefault t d) st = snd (set_default_channel_permissions env u t d why st)"

lemma run_channel_stores:
  "keyed channel_id (db_channels (ad_db st)) \<Longrightarrow>
   chan_stores env u (ad_db st) (request_channel req) (ad_db (run_channel env u why req st))"
  by (cases req) (simp_all add: set_role_permissions_stores set_default_stores_channel)

lemma rechannel_simps [simp]:
  "db_servers (rechannel db k c) = db_servers db" "db_members (rechannel db k c) = db_members db"
  "map_of (db_channels (rechannel db k c)) k = Some c"
  by (simp_all add: rechannel_def map_of_update)

text \<open>The permissions on a channel with overrides, once for the old and the new database.\<close>

lemma channel_permissions_alt:
  assumes "admin_ok db" "map_of (db_channels db) k = Some c" "channel_overrides c = Some (rs, d)"
  shows "channel_permissions_of db now t k =
    (if privileged t then channel_bits GrantAllSafe
     else case map_of (db_servers db) (channel_server c) of
       None \<Rightarrow> 0
     | Some s \<Rightarrow> if owner s = user_id t then channel_bits GrantAllSafe
         else case map_of (db_members db) (server_id s, user_id t) of
           None \<Rightarrow> 0 | Some m \<Rightarrow> single_member_value now s d rs m)"
  using server_channel_run [OF assms(3), of db now t] server_of_ok [OF assms(1), of "channel_server c"] assms(2)
  by (simp add: channel_permissions_of_def)

lemma channel_no_gain:
  assumes "admin_ok db" "map_of (db_channels db) k = Some c" "channel_overrides c = Some (rs, d)"
    and "channel_overrides c' = Some (rs', d')" "channel_server c' = channel_server c"
    and "\<And>s m. bit (foldl pv_apply (pv_apply (single_server_value now s m) (field_or_default d')) (channel_role_overrides s rs' (member_roles m))) n
      \<Longrightarrow> bit (foldl pv_apply (pv_apply (single_server_value now s m) (field_or_default d)) (channel_role_overrides s rs (member_roles m))) n"
    and "bit (channel_permissions_of (rechannel db k c') now t k) n" "channel_permissions_of db now t k \<noteq> 0"
  shows "bit (channel_permissions_of db now t k) n"
proof -
  have "admin_ok (rechannel db k c')" using assms(1) by (simp add: admin_ok_def)
  note new = channel_permissions_alt [OF this rechannel_simps(3) assms(4)] and old = channel_permissions_alt [OF assms(1-3)]
  show ?thesis using assms(7,8) unfolding old new assms(5)
    by (auto split: option.splits if_splits intro: single_member_no_gain assms(6))
qed

lemma chan_stores_no_escalation:
  assumes "chan_stores env u db k db'" "admin_ok db" "map_of (db_channels db) k = Some c" "channel_overrides c \<noteq> None"
    and held: "bit (channel_permissions_of db' now t k) n" "channel_permissions_of db now t k \<noteq> 0"
    and lacks: "\<not> bit (channel_permissions_of db (en_now env) u k) n"
  shows "bit (channel_permissions_of db now t k) n"
  using assms(1)
proof (cases rule: chan_stores.cases)
  case chan_nothing
  then show ?thesis using held by simp
next
  case (chan_override c rs d rid data)
  have "channel_overrides (put_override rid (field_of_override data) c) = Some (AList.update rid (field_of_override data) rs, d)"
    "channel_server (put_override rid (field_of_override data) c) = channel_server c" using chan_override(3) by (cases c; simp)+
  from channel_no_gain [OF assms(2) chan_override(2,3) this override_no_gain [OF chan_override(4) lacks]] held chan_override(1)
  show ?thesis by simp
next
  case (chan_default c rs d f)
  let ?c = "apply_channel_options (default_partial_channel\<lparr>pc_default_permissions := Some (field_of_override f)\<rparr>) c"
  have "channel_overrides ?c = Some (rs, Some (field_of_override f))" "channel_server ?c = channel_server c"
    using chan_default(3) by (cases c; simp add: default_partial_channel_def or_else_def)+
  from channel_no_gain [OF assms(2) chan_default(2,3) this default_no_gain [OF chan_default(4) lacks]] held chan_default(1)
  show ?thesis by simp
qed (use assms(3,4) in simp)

text \<open>C31: Setting an override of a role or the default of a text channel or forum gives nobody who
  could see the channel a permission there which the caller lacks: what such a user may do in
  the channel afterwards, the user could do before or the caller can. It holds with
  either database driver, whatever the request answers. (Who could not see the channel held
  nothing there, and may get back all that hiding the channel took.)\<close>

theorem channel_no_escalation:
  assumes "admin_ok (ad_db st)" "keyed channel_id (db_channels (ad_db st))"
    and "map_of (db_channels (ad_db st)) (request_channel req) = Some c" "channel_overrides c \<noteq> None"
    and "bit (channel_permissions_of (ad_db (run_channel env u why req st)) now t (request_channel req)) n"
    and "channel_permissions_of (ad_db st) now t (request_channel req) \<noteq> 0"
  shows "bit (channel_permissions_of (ad_db st) now t (request_channel req)) n
    \<or> bit (channel_permissions_of (ad_db st) (en_now env) u (request_channel req)) n"
  using chan_stores_no_escalation [OF run_channel_stores [OF assms(2)] assms(1,3-6)] by blast

theorem channel_no_escalation_witness:
  "bit (channel_permissions_of (ad_db ex_channels) 60 ex_user (request_channel (SetOverride ''c'' ''b'' \<lparr>allow = 4, deny = 128\<rparr>))) 2
   \<or> bit (channel_permissions_of (ad_db ex_channels) (en_now ex_env) ex_user (request_channel (SetOverride ''c'' ''b'' \<lparr>allow = 4, deny = 128\<rparr>))) 2"
  by (rule channel_no_escalation [of ex_channels "SetOverride ''c'' ''b'' \<lparr>allow = 4, deny = 128\<rparr>"
        "snd (hd (db_channels (ad_db ex_channels)))" ex_env ex_user "Inr None"]) code_simp+

section \<open>Channels outside servers\<close>

lemma keeps_readE: "keeps I (readE f)"
  by (simp add: keeps_def readE_def)

lemma keeps_channel:
  "keeps (\<lambda>q. q_channel q = k) (db_have_mutual_connection db)" "keeps (\<lambda>q. q_channel q = k) (db_are_we_a_member db)"
  "keeps (\<lambda>q. q_channel q = k) (db_set_recipient_as_user db)" "keeps (\<lambda>q. q_channel q = k) (db_set_server_from_channel db)"
  by (auto simp: keeps_def db_have_mutual_connection_def db_are_we_a_member_def db_set_recipient_as_user_def
    db_set_server_from_channel_def select_server_def Let_def split: option.splits channel.splits sum.splits)

lemma keeps_case_channel_type:
  "\<lbrakk>keeps I a; keeps I b; keeps I c; keeps I d; keeps I e\<rbrakk> \<Longrightarrow> keeps I (case ct of
     SavedMessages_T \<Rightarrow> a | DirectMessage_T \<Rightarrow> b | Group_T \<Rightarrow> c | ServerChannel_T \<Rightarrow> d | Unknown_T \<Rightarrow> e)"
  by (cases ct) simp_all

lemma calculation_keeps_channel: "keeps (\<lambda>q. q_channel q = k) (calculate_channel_permissions (database_query db now))"
  unfolding calculate_channel_permissions_def calculate_server_channel_def calculate_server_permissions_def calculate_user_permissions_def
    database_query_def permission_query_ops.simps Let_def
  by (intro keeps_intros keeps_readE keeps_channel keeps_case_channel_type)

text \<open>C36: Setting an override of a role on a channel that belongs to no server ends in a panic,
  whoever asks and whatever the caller may do there, where the route means to answer
  that the operation is invalid.\<close>

theorem role_override_panics:
  assumes "map_of (db_channels (ad_db st)) target = Some c" "server_of_channel c = None" "db_fresh (with_channel c (q_new u))"
  shows "\<exists>msg. fst (set_role_permissions env u target rid data (Inr reason) st) = Inl (Panic msg)"
proof -
  let ?q = "with_channel c (q_new u)"
  obtain p q where run: "calculate_channel_permissions (database_query (ad_db st) (en_now env)) ?q = (Inr p, q)"
    using dbq.channel_calc [OF assms(3)] by blast
  have "q_channel ?q = Some c" by (simp add: with_channel_def)
  then have "q_channel q = Some c" using keepsE_run [OF calculation_keeps_channel] run by blast
  then have "\<exists>msg. fst (db_set_server_from_channel (ad_db st) q) = Inl (Panic msg)"
    using assms(2) by (cases c) (auto simp: db_set_server_from_channel_def)
  then show ?thesis using assms(1) run
    by (auto simp: set_role_permissions_def channel_gate_def select_server_of_def fetch_channel_def eff_simps split: prod.splits)
qed

theorem role_override_panics_witness:
  "\<exists>msg. fst (set_role_permissions ex_env ex_user ''d'' ''b'' default_override (Inr None) ex_channels) = Inl (Panic msg)"
  by (rule role_override_panics [of ex_channels _ ex_dm]) code_simp+

section \<open>Groups\<close>

lemma group_permissions:
  assumes "map_of (db_channels db) k = Some (Group i ow rs perms)" "user_id t \<in> set rs" "user_id t \<noteq> ow" "\<not> privileged t"
  shows "channel_permissions_of db now t k = DEFAULT_PERMISSION_VIEW_ONLY OR i64_as_u64
    (case perms of Some p \<Rightarrow> p | None \<Rightarrow> u64_as_i64 DEFAULT_PERMISSION_DIRECT_MESSAGE)"
proof -
  let ?q = "with_channel (Group i ow rs perms) (q_new t)"
  have "db_fresh ?q" by (simp add: db_fresh_def with_channel_def)
  from dbq.channel_calc [OF this, of db now] show ?thesis using assms
    by (auto simp: channel_permissions_of_def channel_value_def db_read_defs db_channel_type_def with_channel_def q_new_def Let_def)
qed

lemma default_group_stores:
  assumes "map_of (db_channels (ad_db st)) k = Some (Group k ow rs perms)"
    and "has_channel_permission (channel_permissions_of (ad_db st) (en_now env) u k) ManagePermissions"
  shows "ad_db (snd (set_default_channel_permissions env u k (Value v) (Inr reason) st))
    = rechannel (ad_db st) k (Group k ow rs (Some (u64_as_i64 v)))"
proof -
  let ?c = "Group k ow rs perms" and ?part = "default_partial_channel\<lparr>pc_permissions := Some (u64_as_i64 v)\<rparr>"
  have "db_fresh (with_channel ?c (q_new u))" by (simp add: db_fresh_def with_channel_def)
  from dbq.channel_calc [OF this, of "ad_db st" "en_now env"] obtain p q where
    calc: "calculate_channel_permissions (database_query (ad_db st) (en_now env)) (with_channel ?c (q_new u)) = (Inr p, q)" by blast
  then have gate: "channel_gate env u k st = (Inr (?c, p, q), st)" "p = channel_permissions_of (ad_db st) (en_now env) u k"
    using assms(1) by (simp_all add: channel_gate_def eff_simps fetch_channel_def fetch_of_def channel_permissions_of_def)
  obtain st' where st': "channel_update ?c ?part st = (Inr (apply_channel_options ?part ?c), st')"
    "ad_db st' = rechannel (ad_db st) k (apply_channel_options ?part ?c)"
    using channel_update_run [of st ?c ?part] assms(1) by auto
  show ?thesis using assms(2) gate st'
    by (simp add: set_default_channel_permissions_def set_default_stage_def eff_simps throw_if_lacking_channel_permission_def
        split: prod.splits sum.splits)
qed

text \<open>C38: The default permissions of a group are set without comparing them with those of the
  caller. Whoever may manage permissions in the group, whatever else the caller lacks, sets them to
  any value, and every recipient but the owner then holds exactly that value and what everyone may
  read, where on a text channel nobody gains what the caller lacks.\<close>

theorem group_default_unchecked:
  assumes "map_of (db_channels (ad_db st)) k = Some (Group k ow rs perms)"
    and "has_channel_permission (channel_permissions_of (ad_db st) (en_now env) u k) ManagePermissions"
    and "user_id t \<in> set rs" and "user_id t \<noteq> ow" and "\<not> privileged t"
  shows "channel_permissions_of (ad_db (run_channel env u (Inr reason) (SetChannelDefault k (Value v)) st)) now t k
    = DEFAULT_PERMISSION_VIEW_ONLY OR v"
  using group_permissions [of "rechannel (ad_db st) k (Group k ow rs (Some (u64_as_i64 v)))" k k ow rs] assms(3-5)
    default_group_stores [OF assms(1,2)]
  by (simp add: u64_as_i64_def i64_as_u64_def)

text \<open>The member \<open>u\<close>, who may manage permissions (bit 2) and not the channel (bit 0), takes the latter
  for all recipients.\<close>

theorem group_default_unchecked_witness:
  "channel_permissions_of (ad_db (run_channel ex_env ex_user (Inr None) (SetChannelDefault ''g'' (Value 5)) ex_channels)) 60 ex_user ''g''
     = DEFAULT_PERMISSION_VIEW_ONLY OR 5
   \<and> \<not> bit (channel_permissions_of (ad_db ex_channels) 60 ex_user ''g'') 0"
proof
  show "channel_permissions_of (ad_db (run_channel ex_env ex_user (Inr None) (SetChannelDefault ''g'' (Value 5)) ex_channels)) 60 ex_user ''g''
     = DEFAULT_PERMISSION_VIEW_ONLY OR 5"
    by (rule group_default_unchecked [where ow = "''o''" and rs = "[''o'', ''u'', ''v'']" and perms = "Some 4"]) code_simp+
  show "\<not> bit (channel_permissions_of (ad_db ex_channels) 60 ex_user ''g'') 0" by code_simp
qed

end
