(* ===== verification/Mls_Model.thy ===== *)
theory Mls_Model
  imports Sloga_Text
begin

text \<open>
  The data of the MLS delivery service (\<open>crates/core/database/src/models/mls/model.rs\<close>): key packages, groups,
  commits and join intents, with the texts that are signed. Ciphertext and keys are opaque
  texts; times are milliseconds.
\<close>

section \<open>Limits and texts\<close>

definition MAX_MLS_GROUP_MEMBERS :: nat where "MAX_MLS_GROUP_MEMBERS = 100"
definition MAX_MLS_TEXT_GROUP_MEMBERS :: nat where "MAX_MLS_TEXT_GROUP_MEMBERS = 100"
definition MLS_REJOIN_OUTSTANDING_WINDOW_SECONDS :: int where "MLS_REJOIN_OUTSTANDING_WINDOW_SECONDS = 30"
definition CONTEXT_MLS_CREDENTIAL :: string where "CONTEXT_MLS_CREDENTIAL = ''acutest:e2ee:mls-credential:v1''"
definition CONTEXT_MLS_JOIN :: string where "CONTEXT_MLS_JOIN = ''acutest:e2ee:mls-join:v1''"

definition invalid :: "string \<Rightarrow> error + 'a" where
  "invalid e = Inl (FailedValidation e)"

text \<open>Zero is no cap.\<close>

definition mls_text_enforced_device_cap :: "nat \<Rightarrow> nat \<Rightarrow> nat" where
  "mls_text_enforced_device_cap signed_cap entitlement =
     (if signed_cap = 0 then entitlement else if entitlement = 0 then signed_cap else min signed_cap entitlement)"

definition mls_credential_binding_payload :: "string \<Rightarrow> string \<Rightarrow> string \<Rightarrow> string \<Rightarrow> string" where
  "mls_credential_binding_payload user device signature_key identity_key =
     join_on CHR 0x0A [CONTEXT_MLS_CREDENTIAL, user, device, signature_key, identity_key]"

definition mls_join_intent_payload :: "string \<Rightarrow> string \<Rightarrow> string \<Rightarrow> string \<Rightarrow> string" where
  "mls_join_intent_payload user device grp key_package_ref =
     join_on CHR 0x0A [CONTEXT_MLS_JOIN, user, device, grp, key_package_ref]"

definition hex_char :: "char \<Rightarrow> bool" where
  "hex_char c \<longleftrightarrow> (let b = (of_char c :: nat) in 48 \<le> b \<and> b \<le> 57 \<or> 97 \<le> b \<and> b \<le> 102)"

definition is_valid_group_id :: "string \<Rightarrow> bool" where
  "is_valid_group_id i \<longleftrightarrow> length i = 64 \<and> list_all hex_char i"

definition base64_char :: "char \<Rightarrow> bool" where
  "base64_char c \<longleftrightarrow> (let b = (of_char c :: nat) in
     48 \<le> b \<and> b \<le> 57 \<or> 65 \<le> b \<and> b \<le> 90 \<or> 97 \<le> b \<and> b \<le> 122 \<or> b = 43 \<or> b = 47)"

definition is_valid_key_package_ref :: "string \<Rightarrow> bool" where
  "is_valid_key_package_ref r \<longleftrightarrow> r \<noteq> [] \<and> length r \<le> 64 \<and> list_all base64_char r"

section \<open>Rows\<close>

record mls_member_device =
  mm_user :: string
  mm_device :: string

record mls_key_package =
  kp_id :: string
  kp_user :: string
  kp_device :: string
  kp_ref :: string
  kp_package :: string
  kp_signature_key :: string
  kp_binding_signature :: string
  kp_last_resort :: bool
  kp_expires_at :: int
  kp_created_at :: int

datatype mls_group_kind = Call | Text

record mls_pending_removal =
  mp_user :: string
  mp_created_at :: int

record mls_member_added =
  ma_user :: string
  ma_device :: string
  ma_epoch :: int
  ma_at :: int

datatype mls_removal_reason = OwnUser | PendingRemoval | OffList | Revoked | Rejoin

record mls_removed_reason =
  rr_user :: string
  rr_device :: string
  rr_reason :: mls_removal_reason

record mls_group =
  mg_id :: string
  mg_channel :: string
  mg_open :: bool
  mg_created_by :: mls_member_device
  mg_created_at :: int
  mg_current_epoch :: int
  mg_members :: "mls_member_device list"
  mg_closed_at :: "int option"
  mg_superseded_by :: "string option"
  mg_kind :: mls_group_kind
  mg_generation :: "nat option"
  mg_seat_list_ad :: "string option"
  mg_pending_removals :: "mls_pending_removal list"
  mg_member_added :: "mls_member_added list"

record mls_join_intent =
  ji_id :: string
  ji_group :: string
  ji_user :: string
  ji_device :: string
  ji_key_package_ref :: string
  ji_signature :: string
  ji_created_at :: int

record mls_commit =
  cm_id :: string
  cm_group :: string
  cm_epoch :: int
  cm_committer :: mls_member_device
  cm_commit :: string
  cm_size :: int
  cm_added :: "mls_member_device list"
  cm_removed :: "mls_member_device list"
  cm_created_at :: int
  cm_rejoin_intents :: "mls_join_intent list"
  cm_removed_reasons :: "mls_removed_reason list"

datatype mls_group_create_outcome = Created | Conflict string string

datatype mls_commit_outcome = Won | Lost mls_commit

definition key_package_composite_id :: "string \<Rightarrow> string \<Rightarrow> string \<Rightarrow> string" where
  "key_package_composite_id user device key_package_ref = user @ '':'' @ device @ '':'' @ key_package_ref"

definition commit_composite_id :: "string \<Rightarrow> int \<Rightarrow> string" where
  "commit_composite_id grp epoch = grp @ '':'' @ show_i64 epoch"

definition intent_composite_id :: "string \<Rightarrow> string \<Rightarrow> string \<Rightarrow> string" where
  "intent_composite_id grp user device = grp @ '':'' @ user @ '':'' @ device"

section \<open>Members\<close>

definition has_member :: "mls_group \<Rightarrow> string \<Rightarrow> string \<Rightarrow> bool" where
  "has_member g user device = list_ex (\<lambda>m. mm_user m = user \<and> mm_device m = device) (mg_members g)"

definition member_device_of :: "mls_group \<Rightarrow> string \<Rightarrow> mls_member_device option" where
  "member_device_of g user = List.find (\<lambda>m. mm_user m = user) (mg_members g)"

definition member_devices_of :: "mls_group \<Rightarrow> string \<Rightarrow> mls_member_device list" where
  "member_devices_of g user = filter (\<lambda>m. mm_user m = user) (mg_members g)"

definition has_pending_removal :: "mls_group \<Rightarrow> string \<Rightarrow> bool" where
  "has_pending_removal g user = list_ex (\<lambda>p. mp_user p = user) (mg_pending_removals g)"

end
