(* ===== verification/Seat_Lists.thy ===== *)
theory Seat_Lists
  imports Mls_Model
begin

text \<open>
  Protected channels, the part without a database (\<open>crates/core/database/src/models/protected_channels/model.rs\<close>):
  seats and entitlements, the canonical texts of a seat list and of an owner handover, the
  data a commit of the text group carries, and the planner that decides a change of the seat
  list.

  Times are milliseconds. Base64 decoding, SHA-256 and the checked addition and subtraction
  of the timestamp crate are third-party: they are the fields of \<open>seat_lib\<close>, an argument of what uses them.
\<close>

section \<open>Data\<close>

definition SEAT_COOLDOWN_DAYS :: int where "SEAT_COOLDOWN_DAYS = 14"
definition MAX_CHANNEL_SLOT_CAP :: nat where "MAX_CHANNEL_SLOT_CAP = 100"
definition MAX_SEAT_LIST_SEATS :: nat where "MAX_SEAT_LIST_SEATS = 100"
definition MAX_SEAT_LIST_HANDOVERS :: nat where "MAX_SEAT_LIST_HANDOVERS = 16"
definition MAX_SEAT_LIST_BODY_LEN :: nat where "MAX_SEAT_LIST_BODY_LEN = 4096"
definition MAX_HANDOVER_BODY_LEN :: nat where "MAX_HANDOVER_BODY_LEN = 1024"
definition MAX_COMMIT_AD_LEN :: nat where "MAX_COMMIT_AD_LEN = 16383"
definition MAX_TEXT_GROUP_GENERATION :: nat where "MAX_TEXT_GROUP_GENERATION = 63"
definition MAX_CANONICAL_INT :: int where "MAX_CANONICAL_INT = 9007199254740991"
definition CONTEXT_SEAT_LIST :: string where "CONTEXT_SEAT_LIST = ''sloga-seat-list-v1''"
definition CONTEXT_HANDOVER :: string where "CONTEXT_HANDOVER = ''sloga-owner-handover-v1''"
definition CONTEXT_COMMIT_AD :: string where "CONTEXT_COMMIT_AD = ''sloga-text-commit-ad-v1''"
definition SIGNATURE_B64_LEN :: nat where "SIGNATURE_B64_LEN = 86"
definition IDENTITY_KEY_B64_LEN :: nat where "IDENTITY_KEY_B64_LEN = 43"

lemmas seat_limits = MAX_CHANNEL_SLOT_CAP_def MAX_SEAT_LIST_SEATS_def MAX_SEAT_LIST_HANDOVERS_def MAX_SEAT_LIST_BODY_LEN_def
  MAX_HANDOVER_BODY_LEN_def MAX_COMMIT_AD_LEN_def MAX_TEXT_GROUP_GENERATION_def MAX_CANONICAL_INT_def

datatype entitlement_source = AdminGrant | FromProt | Crowdfund

datatype entitlement_state = EntActive | EntGrace | EntFrozen | EntDeleted

record channel_entitlement =
  ent_id :: string
  ent_channel :: string
  ent_server :: string
  ent_source :: entitlement_source
  ent_slot_cap :: nat
  ent_device_cap :: "nat option"
  ent_state :: entitlement_state
  ent_granted_by :: string
  ent_created_at :: int

record channel_seat =
  se_id :: string
  se_channel :: string
  se_user :: string
  se_seated_at :: int
  se_released_at :: "int option"
  se_cooldown_until :: "int option"

record signed_handover =
  sh_body :: string
  sh_signature :: string

record seat_list =
  sl_id :: string
  sl_version :: int
  sl_body :: string
  sl_signer_user :: string
  sl_signer_device :: string
  sl_signature :: string
  sl_handovers :: "signed_handover list"
  sl_updated_at :: int

record seat_list_submission =
  ss_body :: string
  ss_signature :: string
  ss_signer_device :: string
  ss_handover :: "signed_handover option"

record seat_list_outcome =
  so_list :: seat_list
  so_unchanged :: bool
  so_claimed :: "string list"
  so_released :: "string list"
  so_pending_added :: "string list"

record seat_lib =
  lib_b64 :: "string \<Rightarrow> string option"
  lib_sha256 :: "string \<Rightarrow> string"
  lib_add_days :: "int \<Rightarrow> int \<Rightarrow> int option"
  lib_sub_seconds :: "int \<Rightarrow> int \<Rightarrow> int option"

definition ent_is_active :: "channel_entitlement \<Rightarrow> bool" where
  "ent_is_active e \<longleftrightarrow> ent_state e = EntActive"

section \<open>Seats\<close>

definition composite_id :: "string \<Rightarrow> string \<Rightarrow> string" where
  "composite_id channel user = channel @ '':'' @ user"

definition seat_active :: "channel_seat \<Rightarrow> bool" where
  "seat_active s \<longleftrightarrow> se_released_at s = None"

definition seat_cooling :: "int \<Rightarrow> channel_seat \<Rightarrow> bool" where
  "seat_cooling now s \<longleftrightarrow> se_released_at s \<noteq> None \<and> is_some_and (\<lambda>until. now < until) (se_cooldown_until s)"

definition counts_against_cap :: "int \<Rightarrow> channel_seat \<Rightarrow> bool" where
  "counts_against_cap now s \<longleftrightarrow> seat_active s \<or> seat_cooling now s"

definition seat_cooldown_until :: "seat_lib \<Rightarrow> int \<Rightarrow> error + int" where
  "seat_cooldown_until lib now =
     (case lib_add_days lib now SEAT_COOLDOWN_DAYS of Some t \<Rightarrow> Inr t | None \<Rightarrow> Inl InternalError)"

definition seat_release :: "seat_lib \<Rightarrow> int \<Rightarrow> channel_seat \<Rightarrow> error + channel_seat" where
  "seat_release lib now s =
     andR (seat_cooldown_until lib now) (\<lambda>until. Inr (s\<lparr>se_released_at := Some now, se_cooldown_until := Some until\<rparr>))"

definition seat_reactivate :: "int \<Rightarrow> channel_seat \<Rightarrow> channel_seat" where
  "seat_reactivate now s = s\<lparr>se_seated_at := now, se_released_at := None, se_cooldown_until := None\<rparr>"

definition channel_seats_used :: "channel_seat list \<Rightarrow> int \<Rightarrow> nat" where
  "channel_seats_used seats now = length (filter (counts_against_cap now) seats)"

section \<open>The canonical seat list\<close>

record seat_list_body =
  bo_channel :: string
  bo_version :: int
  bo_device_cap :: nat
  bo_issued_at :: int
  bo_signer_user :: string
  bo_signer_device :: string
  bo_seats :: "string list"

definition ulid_char :: "char \<Rightarrow> bool" where
  "ulid_char c \<longleftrightarrow> (let b = (of_char c :: nat) in
     48 \<le> b \<and> b \<le> 57 \<or> 65 \<le> b \<and> b \<le> 72 \<or> b = 74 \<or> b = 75 \<or> b = 77 \<or> b = 78 \<or> 80 \<le> b \<and> b \<le> 84 \<or> 86 \<le> b \<and> b \<le> 90)"

definition is_valid_ulid_id :: "string \<Rightarrow> bool" where
  "is_valid_ulid_id v \<longleftrightarrow> length v = 26 \<and> list_all ulid_char v"

definition is_valid_device_id_hex :: "string \<Rightarrow> bool" where
  "is_valid_device_id_hex v \<longleftrightarrow> length v = 32 \<and> list_all hex_char v"

text \<open>Without a leading zero, and within a \<open>u64\<close>.\<close>

definition parse_canonical_decimal :: "string \<Rightarrow> nat option" where
  "parse_canonical_decimal v =
     (if v = [] \<or> \<not> list_all ascii_digit v then None
      else if 1 < length v \<and> hd v = CHR ''0'' then None
      else if read_digits v < 2 ^ 64 then Some (read_digits v) else None)"

definition labeled :: "string \<Rightarrow> string \<Rightarrow> string option" where
  "labeled line label = Option.bind (strip_prefix label line) (strip_prefix '':'')"

text \<open>A line of the body by its label; \<open>what\<close> names the text in the error.\<close>

definition field :: "string \<Rightarrow> string list \<Rightarrow> nat \<Rightarrow> string \<Rightarrow> error + string" where
  "field what lines i label = (case labeled (lines ! i) label of Some v \<Rightarrow> Inr v | None \<Rightarrow> invalid (what @ '' label''))"

definition checked_field :: "string \<Rightarrow> string list \<Rightarrow> nat \<Rightarrow> string \<Rightarrow> (string \<Rightarrow> bool) \<Rightarrow> string \<Rightarrow> error + string" where
  "checked_field what lines i label ok message =
     andR (field what lines i label) (\<lambda>v. if ok v then Inr v else invalid message)"

definition number_field :: "string \<Rightarrow> string list \<Rightarrow> nat \<Rightarrow> string \<Rightarrow> (nat \<Rightarrow> bool) \<Rightarrow> string \<Rightarrow> error + nat" where
  "number_field what lines i label ok message =
     andR (field what lines i label) (\<lambda>v.
       case parse_canonical_decimal v of Some n \<Rightarrow> if ok n then Inr n else invalid message | None \<Rightarrow> invalid message)"

fun ascending :: "string list \<Rightarrow> bool" where
  "ascending (x # y # ys) \<longleftrightarrow> x < y \<and> ascending (y # ys)"
| "ascending _ \<longleftrightarrow> True"

definition parse_seats :: "string \<Rightarrow> string \<Rightarrow> error + string list" where
  "parse_seats line signer =
     (if line = [] then invalid ''seat list has no seats''
      else let seats = split_on CHR '','' line in
        if length seats > MAX_SEAT_LIST_SEATS then invalid ''seat list has too many seats''
        else if \<not> list_all is_valid_ulid_id seats then invalid ''seat list seat id''
        else if \<not> ascending seats then invalid ''seat list seats not sorted and unique''
        else if \<not> list_ex (\<lambda>seat. seat = signer) seats then invalid ''seat list signer is not seated''
        else Inr seats)"

definition seat_list_parse :: "string \<Rightarrow> error + seat_list_body" where
  "seat_list_parse body =
     (if length body > MAX_SEAT_LIST_BODY_LEN then invalid ''seat list body too long''
      else if CHR 0x0D \<in> set body then invalid ''seat list body contains CR''
      else let lines = split_on CHR 0x0A body in
        if length lines \<noteq> 9 then invalid ''seat list body must have exactly 9 lines''
        else if lines ! 0 \<noteq> CONTEXT_SEAT_LIST \<or> lines ! 1 \<noteq> ''v:1'' then invalid ''seat list context or format version''
        else
          andR (checked_field ''seat list'' lines 2 ''channel_id'' is_valid_ulid_id ''seat list channel_id'') (\<lambda>channel.
          andR (number_field ''seat list'' lines 3 ''version'' (\<lambda>n. 1 \<le> n \<and> int n \<le> MAX_CANONICAL_INT) ''seat list version'') (\<lambda>version.
          andR (number_field ''seat list'' lines 4 ''device_cap'' (\<lambda>n. n < 2 ^ 32) ''seat list device_cap'') (\<lambda>device_cap.
          andR (number_field ''seat list'' lines 5 ''issued_at'' (\<lambda>n. int n \<le> MAX_CANONICAL_INT) ''seat list issued_at'') (\<lambda>issued_at.
          andR (checked_field ''seat list'' lines 6 ''signer_user_id'' is_valid_ulid_id ''seat list signer_user_id'') (\<lambda>signer_user.
          andR (checked_field ''seat list'' lines 7 ''signer_device_id'' is_valid_device_id_hex ''seat list signer_device_id'') (\<lambda>signer_device.
          andR (andR (field ''seat list'' lines 8 ''seats'') (\<lambda>line. parse_seats line signer_user)) (\<lambda>seats.
          Inr \<lparr>bo_channel = channel, bo_version = int version, bo_device_cap = device_cap, bo_issued_at = int issued_at,
               bo_signer_user = signer_user, bo_signer_device = signer_device, bo_seats = seats\<rparr>))))))))"

definition seat_list_text :: "seat_list_body \<Rightarrow> string" where
  "seat_list_text b = join_on CHR 0x0A
     [CONTEXT_SEAT_LIST, ''v:1'', ''channel_id:'' @ bo_channel b, ''version:'' @ show_i64 (bo_version b),
      ''device_cap:'' @ decimal (bo_device_cap b), ''issued_at:'' @ show_i64 (bo_issued_at b),
      ''signer_user_id:'' @ bo_signer_user b, ''signer_device_id:'' @ bo_signer_device b,
      ''seats:'' @ join_on CHR '','' (remdups_adj (sort (bo_seats b)))]"

definition seat_list_build :: "seat_list_body \<Rightarrow> error + string" where
  "seat_list_build b = andR (seat_list_parse (seat_list_text b)) (\<lambda>_. Inr (seat_list_text b))"

section \<open>The canonical handover\<close>

record handover_body =
  hb_channel :: string
  hb_from_user :: string
  hb_from_device :: string
  hb_from_key :: string
  hb_to_user :: string
  hb_to_device :: string
  hb_to_key :: string
  hb_issued_at :: int

definition is_valid_identity_key_b64 :: "seat_lib \<Rightarrow> string \<Rightarrow> bool" where
  "is_valid_identity_key_b64 lib v \<longleftrightarrow> length v = IDENTITY_KEY_B64_LEN \<and> is_some_and (\<lambda>raw. length raw = 32) (lib_b64 lib v)"

definition handover_parse :: "seat_lib \<Rightarrow> string \<Rightarrow> error + handover_body" where
  "handover_parse lib body =
     (if length body > MAX_HANDOVER_BODY_LEN then invalid ''handover body too long''
      else if CHR 0x0D \<in> set body then invalid ''handover body contains CR''
      else let lines = split_on CHR 0x0A body;
               ulid = (\<lambda>i label. checked_field ''handover'' lines i label is_valid_ulid_id ''handover user or channel id'');
               device = (\<lambda>i label. checked_field ''handover'' lines i label is_valid_device_id_hex ''handover device id'');
               key = (\<lambda>i label. checked_field ''handover'' lines i label (is_valid_identity_key_b64 lib) ''handover identity key'') in
        if length lines \<noteq> 10 then invalid ''handover body must have exactly 10 lines''
        else if lines ! 0 \<noteq> CONTEXT_HANDOVER \<or> lines ! 1 \<noteq> ''v:1'' then invalid ''handover context or format version''
        else
          andR (ulid 2 ''channel_id'') (\<lambda>channel.
          andR (ulid 3 ''from_user_id'') (\<lambda>from_user.
          andR (device 4 ''from_device_id'') (\<lambda>from_device.
          andR (key 5 ''from_identity_key'') (\<lambda>from_key.
          andR (ulid 6 ''to_user_id'') (\<lambda>to_user.
          andR (device 7 ''to_device_id'') (\<lambda>to_device.
          andR (key 8 ''to_identity_key'') (\<lambda>to_key.
          andR (number_field ''handover'' lines 9 ''issued_at'' (\<lambda>n. int n \<le> MAX_CANONICAL_INT) ''handover issued_at'') (\<lambda>issued_at.
          Inr \<lparr>hb_channel = channel, hb_from_user = from_user, hb_from_device = from_device, hb_from_key = from_key,
               hb_to_user = to_user, hb_to_device = to_device, hb_to_key = to_key, hb_issued_at = int issued_at\<rparr>)))))))))"

section \<open>The data of a commit\<close>

definition decode_signature_b64 :: "seat_lib \<Rightarrow> string \<Rightarrow> error + string" where
  "decode_signature_b64 lib s =
     (if length s \<noteq> SIGNATURE_B64_LEN then invalid ''signature length''
      else (case lib_b64 lib s of
              None \<Rightarrow> invalid ''signature encoding''
            | Some raw \<Rightarrow> if length raw \<noteq> 64 then invalid ''signature length'' else Inr raw))"

definition u16_be :: "nat \<Rightarrow> string" where
  "u16_be n = [char_of (n div 256), char_of (n mod 256)]"

definition push_ad_field :: "string \<Rightarrow> string \<Rightarrow> error + string" where
  "push_ad_field out bytes =
     (if length bytes \<ge> 65536 then invalid ''commit ad field too long'' else Inr (out @ u16_be (length bytes) @ bytes))"

definition byte_hex :: "char \<Rightarrow> string" where
  "byte_hex c = [hex_digit ((of_char c :: nat) div 16), hex_digit ((of_char c :: nat) mod 16)]"

definition to_hex :: "string \<Rightarrow> string" where
  "to_hex bytes = concat (map byte_hex bytes)"

fun push_handovers :: "seat_lib \<Rightarrow> signed_handover list \<Rightarrow> string \<Rightarrow> error + string" where
  "push_handovers lib [] out = Inr out"
| "push_handovers lib (h # hs) out =
     (if length (sh_body h) > MAX_HANDOVER_BODY_LEN then invalid ''handover body too long''
      else andR (push_ad_field out (sh_body h)) (\<lambda>out.
           andR (decode_signature_b64 lib (sh_signature h)) (\<lambda>raw.
           andR (push_ad_field out raw) (push_handovers lib hs))))"

definition commit_ad :: "seat_lib \<Rightarrow> seat_list \<Rightarrow> error + string" where
  "commit_ad lib l =
     (if length (sl_body l) > MAX_SEAT_LIST_BODY_LEN then invalid ''seat list body too long''
      else if length (sl_handovers l) > MAX_SEAT_LIST_HANDOVERS then invalid ''handover chain too long''
      else
        andR (push_ad_field [] CONTEXT_COMMIT_AD) (\<lambda>out.
        andR (push_ad_field out (sl_body l)) (\<lambda>out.
        andR (decode_signature_b64 lib (sl_signature l)) (\<lambda>raw.
        andR (push_ad_field out raw) (\<lambda>out.
        andR (push_handovers lib (sl_handovers l) (out @ u16_be (length (sl_handovers l)))) (\<lambda>out.
        if length out > MAX_COMMIT_AD_LEN then invalid ''commit ad too long'' else Inr out))))))"

definition commit_ad_sha256 :: "seat_lib \<Rightarrow> seat_list \<Rightarrow> error + string" where
  "commit_ad_sha256 lib l = andR (commit_ad lib l) (\<lambda>ad. Inr (to_hex (lib_sha256 lib ad)))"

end
