(* ===== verification/Seat_Planner.thy ===== *)
theory Seat_Planner
  imports Seat_Lists
begin

text \<open>
  The planners of \<open>models/protected_channels/model.rs\<close>: what a protect or a change of the seat list
  writes, decided from what the driver read under its locks, and the checks of a new text
  group.
\<close>

section \<open>Changes of the seat list\<close>

datatype seat_list_write_kind = Protect | Put

record seat_list_write_input =
  wi_kind :: seat_list_write_kind
  wi_channel :: string
  wi_submission :: seat_list_submission
  wi_stored :: "seat_list option"
  wi_entitlement :: "channel_entitlement option"
  wi_seats :: "channel_seat list"
  wi_text_group :: "mls_group option"
  wi_allow_claims :: bool
  wi_now :: int

record seat_list_write_plan =
  wp_row :: seat_list
  wp_seat_rows :: "channel_seat list"
  wp_claimed :: "string list"
  wp_released :: "string list"
  wp_pending_added :: "mls_pending_removal list"
  wp_seat_list_ad :: string

datatype seat_list_write_decision = Unchanged seat_list | Apply seat_list_write_plan

fun decision_outcome :: "seat_list_write_decision \<Rightarrow> seat_list_outcome" where
  "decision_outcome (Unchanged l) =
     \<lparr>so_list = l, so_unchanged = True, so_claimed = [], so_released = [], so_pending_added = []\<rparr>"
| "decision_outcome (Apply p) =
     \<lparr>so_list = wp_row p, so_unchanged = False, so_claimed = wp_claimed p, so_released = wp_released p,
      so_pending_added = map mp_user (wp_pending_added p)\<rparr>"

definition seat_list_removed_users ::
    "seat_list_body \<Rightarrow> seat_list option \<Rightarrow> channel_seat list \<Rightarrow> error + string list" where
  "seat_list_removed_users body stored seats =
     (case stored of
        None \<Rightarrow> Inr []
      | Some l \<Rightarrow> andR (seat_list_parse (sl_body l)) (\<lambda>old.
          Inr (filter (\<lambda>v. \<not> list_ex (\<lambda>s. se_user s = v \<and> seat_active s) seats)
            (filter (\<lambda>v. v \<noteq> bo_signer_user body \<and> v \<in> set (bo_seats old)) (bo_seats body)))))"

text \<open>Step 4. \<open>Some\<close> is the byte-identical retry.\<close>

definition version_rule ::
    "seat_list_write_kind \<Rightarrow> seat_list option \<Rightarrow> seat_list_submission \<Rightarrow> seat_list_body \<Rightarrow> error + seat_list option" where
  "version_rule kind stored sub body =
     (case (kind, stored) of
        (Protect, Some _) \<Rightarrow> invalid ''channel already has a seat list''
      | (Protect, None) \<Rightarrow> if bo_version body \<noteq> 1 then invalid ''genesis seat list must be version 1'' else Inr None
      | (Put, None) \<Rightarrow> invalid ''channel has no seat list''
      | (Put, Some l) \<Rightarrow>
          if bo_version body = sl_version l \<and> ss_body sub = sl_body l \<and> ss_signature sub = sl_signature l then Inr (Some l)
          else if Some (bo_version body) \<noteq> (if sl_version l = i64_max then None else Some (sl_version l + 1))
            then invalid ''seat list version must be stored version + 1''
          else Inr None)"

text \<open>The loop over the desired users: the rows it pushes, the claimed users, the new slots.\<close>

fun claim_seats :: "string \<Rightarrow> channel_seat list \<Rightarrow> int \<Rightarrow> string list \<Rightarrow> channel_seat list \<times> string list \<times> nat" where
  "claim_seats channel seats now [] = ([], [], 0)"
| "claim_seats channel seats now (v # vs) =
     (let (rows, claimed, n) = claim_seats channel seats now vs in
      case List.find (\<lambda>s. se_user s = v) seats of
        Some s \<Rightarrow>
          if seat_active s then (rows, claimed, n)
          else (seat_reactivate now s # rows, v # claimed, if seat_cooling now s then n else Suc n)
      | None \<Rightarrow>
          (\<lparr>se_id = composite_id channel v, se_channel = channel, se_user = v, se_seated_at = now,
            se_released_at = None, se_cooldown_until = None\<rparr> # rows, v # claimed, Suc n))"

fun release_seats :: "seat_lib \<Rightarrow> int \<Rightarrow> string list \<Rightarrow> channel_seat list \<Rightarrow> error + channel_seat list \<times> string list" where
  "release_seats lib now desired [] = Inr ([], [])"
| "release_seats lib now desired (s # ss) =
     (if seat_active s \<and> se_user s \<notin> set desired
      then andR (seat_release lib now s) (\<lambda>s'.
           andR (release_seats lib now desired ss) (\<lambda>(rows, released). Inr (s' # rows, se_user s # released)))
      else release_seats lib now desired ss)"

text \<open>Claims need the growth flag and an active entitlement with enough slots.\<close>

definition check_claims :: "seat_list_write_input \<Rightarrow> string list \<Rightarrow> nat \<Rightarrow> error + unit" where
  "check_claims w claimed new_slots =
     (if \<not> wi_allow_claims w \<and> claimed \<noteq> [] then Inl (FeatureDisabled ''protected_channels'')
      else if claimed \<noteq> [] then
        (case wi_entitlement w of
           Some e \<Rightarrow>
             if \<not> ent_is_active e then Inl InvalidOperation
             else if 0 < new_slots \<and> channel_seats_used (wi_seats w) (wi_now w) + new_slots > ent_slot_cap e
               then Inl (SeatCapReached (ent_slot_cap e))
             else Inr ()
         | None \<Rightarrow> Inl InvalidOperation)
      else if wi_kind w = Protect then Inl InvalidOperation
      else Inr ())"

definition pending_of :: "mls_group \<Rightarrow> int \<Rightarrow> string list \<Rightarrow> string list \<Rightarrow> mls_pending_removal list" where
  "pending_of g now desired dropped =
     map (\<lambda>v. \<lparr>mp_user = v, mp_created_at = now\<rparr>)
       (filter (\<lambda>v. v \<notin> set desired \<and> list_ex (\<lambda>m. mm_user m = v) (mg_members g)
          \<and> \<not> list_ex (\<lambda>p. mp_user p = v) (mg_pending_removals g)) (remdups_adj (sort dropped)))"

definition pending_added :: "seat_list_write_input \<Rightarrow> string list \<Rightarrow> error + mls_pending_removal list" where
  "pending_added w desired =
     (case wi_text_group w of
        None \<Rightarrow> Inr []
      | Some g \<Rightarrow>
          andR (case wi_stored w of None \<Rightarrow> Inr [] | Some l \<Rightarrow> andR (seat_list_parse (sl_body l)) (\<lambda>b. Inr (bo_seats b))) (\<lambda>old.
          Inr (pending_of g (wi_now w) desired (map se_user (filter seat_active (wi_seats w)) @ old))))"

definition append_handover :: "seat_lib \<Rightarrow> seat_list option \<Rightarrow> signed_handover option \<Rightarrow> error + signed_handover list" where
  "append_handover lib stored handover =
     (let old = (case stored of Some l \<Rightarrow> sl_handovers l | None \<Rightarrow> []) in
      andR (case handover of
              None \<Rightarrow> Inr old
            | Some h \<Rightarrow>
                if length (sh_body h) > MAX_HANDOVER_BODY_LEN then invalid ''handover body too long''
                else andR (decode_signature_b64 lib (sh_signature h)) (\<lambda>_. Inr (old @ [h]))) (\<lambda>hs.
      if length hs > MAX_SEAT_LIST_HANDOVERS then invalid ''handover chain too long'' else Inr hs))"

text \<open>Steps 5b, 7 and 8, for a list that is not a retry.\<close>

definition plan_apply :: "seat_lib \<Rightarrow> seat_list_write_input \<Rightarrow> seat_list_body \<Rightarrow> error + seat_list_write_decision" where
  "plan_apply lib w body =
     (let sub = wi_submission w; now = wi_now w; desired = remdups_adj (sort (bo_seats body)) in
      if wi_kind w = Put \<and> is_some_and (\<lambda>g. \<not> has_member g (bo_signer_user body) (bo_signer_device body)) (wi_text_group w)
      then invalid ''seat list signer device holds no leaf''
      else
        let (claim_rows, claimed, new_slots) = claim_seats (wi_channel w) (wi_seats w) now desired in
        andR (release_seats lib now desired (wi_seats w)) (\<lambda>(release_rows, released).
        andR (check_claims w claimed new_slots) (\<lambda>_.
        andR (pending_added w desired) (\<lambda>pending.
        andR (append_handover lib (wi_stored w) (ss_handover sub)) (\<lambda>handovers.
        let row = \<lparr>sl_id = wi_channel w, sl_version = bo_version body, sl_body = ss_body sub,
              sl_signer_user = bo_signer_user body, sl_signer_device = bo_signer_device body,
              sl_signature = ss_signature sub, sl_handovers = handovers, sl_updated_at = now\<rparr> in
        andR (commit_ad_sha256 lib row) (\<lambda>ad.
        Inr (Apply \<lparr>wp_row = row, wp_seat_rows = sort_key se_id (claim_rows @ release_rows), wp_claimed = sort claimed,
          wp_released = sort released, wp_pending_added = pending, wp_seat_list_ad = ad\<rparr>)))))))"

definition plan_seat_list_write :: "seat_lib \<Rightarrow> seat_list_write_input \<Rightarrow> error + seat_list_write_decision" where
  "plan_seat_list_write lib w =
     (let sub = wi_submission w in
      andR (seat_list_parse (ss_body sub)) (\<lambda>body.
      if bo_channel body \<noteq> wi_channel w then invalid ''seat list channel_id does not match the channel''
      else if bo_signer_device body \<noteq> ss_signer_device sub then invalid ''signer_device_id does not match the seat list body''
      else
        andR (decode_signature_b64 lib (ss_signature sub)) (\<lambda>_.
        andR (version_rule (wi_kind w) (wi_stored w) sub body) (\<lambda>retry.
        case retry of
          Some l \<Rightarrow> Inr (Unchanged l)
        | None \<Rightarrow>
            andR (seat_list_removed_users body (wi_stored w) (wi_seats w)) (\<lambda>removed.
            if removed \<noteq> [] then Inl (SeatListNamesRemovedUsers removed)
            else plan_apply lib w body)))))"

section \<open>Text groups\<close>

definition prepare_text_group :: "seat_lib \<Rightarrow> mls_group \<Rightarrow> seat_list \<Rightarrow> error + mls_group" where
  "prepare_text_group lib g l =
     (if \<not> is_some_and (\<lambda>n. n \<le> MAX_TEXT_GROUP_GENERATION) (mg_generation g) then invalid ''text group generation''
      else if \<not> mg_open g \<or> mg_current_epoch g \<noteq> 0 \<or> mg_closed_at g \<noteq> None \<or> mg_superseded_by g \<noteq> None
        then invalid ''text group must be created open at epoch 0''
      else if mg_members g \<noteq> [mg_created_by g] then invalid ''text group must start with its creator only''
      else if mm_user (mg_created_by g) \<noteq> sl_signer_user l \<or> mm_device (mg_created_by g) \<noteq> sl_signer_device l
        then invalid ''only the current seat list signer device may create''
      else andR (commit_ad_sha256 lib l) (\<lambda>ad.
        Inr (g\<lparr>mg_kind := Text, mg_seat_list_ad := Some ad, mg_pending_removals := [],
          mg_member_added := [\<lparr>ma_user = mm_user (mg_created_by g), ma_device = mm_device (mg_created_by g),
            ma_epoch = 0, ma_at = mg_created_at g\<rparr>]\<rparr>)))"

text \<open>The generation is a \<open>u32\<close>.\<close>

definition check_text_successor :: "mls_group \<Rightarrow> mls_group \<Rightarrow> error + unit" where
  "check_text_successor superseded successor =
     (if mg_channel superseded \<noteq> mg_channel successor then invalid ''superseded group belongs to another channel''
      else if mg_kind superseded \<noteq> Text then invalid ''superseded group is not a text group''
      else let expected = Option.bind (mg_generation superseded) (\<lambda>n. if n + 1 < 2 ^ 32 then Some (n + 1) else None) in
        if expected = None \<or> expected \<noteq> mg_generation successor
        then invalid ''successor generation must be superseded generation + 1''
        else Inr ())"

definition is_genesis_reprotect :: "seat_list_submission \<Rightarrow> seat_list \<Rightarrow> bool" where
  "is_genesis_reprotect sub l \<longleftrightarrow> sl_version l = 1 \<and> ss_body sub = sl_body l \<and> ss_signature sub = sl_signature l
     \<and> ss_signer_device sub = sl_signer_device l \<and> ss_handover sub = None"

definition check_text_first_generation :: "mls_group \<Rightarrow> error + unit" where
  "check_text_first_generation g =
     (if mg_generation g \<noteq> Some 0 then invalid ''first text group must be generation 0'' else Inr ())"

section \<open>Channels\<close>

text \<open>What protecting reads of a channel: a text channel with its flag, whether it has a last
  message and voice, and its announcement flag; the parent of a thread; nothing of others.\<close>

datatype pchannel =
    PText (pc_server: string) (pc_protected: bool) (pc_last_message: "string option") (pc_voice: bool) (pc_announcement: "bool option")
  | PThread (pc_parent: string)
  | POther

fun seat_list_channel_server :: "pchannel \<Rightarrow> string option" where
  "seat_list_channel_server (PText s _ _ _ _) = Some s"
| "seat_list_channel_server _ = None"

fun check_channel_protectable :: "pchannel option \<Rightarrow> error + unit" where
  "check_channel_protectable None = Inl NotFound"
| "check_channel_protectable (Some (PText _ protected last_message voice announcement)) =
     (if \<not> protected \<and> last_message = None \<and> \<not> voice \<and> announcement \<noteq> Some True then Inr () else Inl InvalidOperation)"
| "check_channel_protectable (Some _) = Inl InvalidOperation"

end
