(* ===== verification/Protected_Channels.thy ===== *)
theory Protected_Channels
  imports Seat_Planner
begin

text \<open>
  The state of protected channels and their MLS groups, and the reference driver of protected
  channels (\<open>models/protected_channels/ops/reference.rs\<close>). An
  operation holds the locks of the collections it uses from its first read to its last write, so
  it is one step on the state.
\<close>

section \<open>State\<close>

text \<open>The collections. Of servers only the owner is read, of members whether they exist, of
  messages their channel, of queued envelopes the group, and of device identities whether they
  exist.\<close>

record pc_db =
  pd_channels :: "(string, pchannel) table"
  pd_messages :: "(string, string) table"
  pd_entitlements :: "(string, channel_entitlement) table"
  pd_servers :: "(string, string) table"
  pd_members :: "(string \<times> string) list"
  pd_seat_lists :: "(string, seat_list) table"
  pd_seats :: "(string, channel_seat) table"
  pd_groups :: "(string, mls_group) table"
  pd_commits :: "(string, mls_commit) table"
  pd_intents :: "(string, mls_join_intent) table"
  pd_identities :: "string list"
  pd_queue :: "(string, string option) table"
  pd_key_packages :: "(string, mls_key_package) table"

definition is_open_text_group_of :: "mls_group \<Rightarrow> string \<Rightarrow> bool" where
  "is_open_text_group_of g channel \<longleftrightarrow> mg_channel g = channel \<and> mg_open g \<and> mg_kind g = Text"

definition CONTEXT_TEXT_GROUP :: string where "CONTEXT_TEXT_GROUP = ''sloga-text-group-v1''"

definition is_derived_text_group_id :: "seat_lib \<Rightarrow> mls_group \<Rightarrow> bool" where
  "is_derived_text_group_id lib g =
     (case mg_generation g of
        None \<Rightarrow> False
      | Some n \<Rightarrow> to_hex (lib_sha256 lib (CONTEXT_TEXT_GROUP @ [CHR 0x0A] @ mg_channel g @ [CHR 0x0A] @ decimal n)) = mg_id g)"

definition channel_seats :: "pc_db \<Rightarrow> string \<Rightarrow> channel_seat list" where
  "channel_seats db channel = filter (\<lambda>s. se_channel s = channel) (rows (pd_seats db))"

definition open_text_group :: "pc_db \<Rightarrow> string \<Rightarrow> mls_group option" where
  "open_text_group db channel = List.find (\<lambda>g. is_open_text_group_of g channel) (rows (pd_groups db))"

definition entitlement_of :: "pc_db \<Rightarrow> string \<Rightarrow> channel_entitlement option" where
  "entitlement_of db channel = List.find (\<lambda>e. ent_channel e = channel) (rows (pd_entitlements db))"

section \<open>Reads\<close>

definition fetch_channel_entitlement :: "string \<Rightarrow> (pc_db, channel_entitlement option) eff" where
  "fetch_channel_entitlement channel = bindE getE (\<lambda>db. okE (entitlement_of db channel))"

definition fetch_entitled_channel_ids :: "string \<Rightarrow> (pc_db, string list) eff" where
  "fetch_entitled_channel_ids server = bindE getE (\<lambda>db.
     okE (remdups_adj (sort (map ent_channel (filter (\<lambda>e. ent_server e = server) (rows (pd_entitlements db)))))))"

definition fetch_channel_seats :: "string \<Rightarrow> (pc_db, channel_seat list) eff" where
  "fetch_channel_seats channel = bindE getE (\<lambda>db. okE (sort_key se_id (channel_seats db channel)))"

definition fetch_channel_seats_for_user :: "string \<Rightarrow> (pc_db, channel_seat list) eff" where
  "fetch_channel_seats_for_user user = bindE getE (\<lambda>db.
     okE (sort_key se_id (filter (\<lambda>s. se_user s = user) (rows (pd_seats db)))))"

definition fetch_seat_list :: "string \<Rightarrow> (pc_db, seat_list option) eff" where
  "fetch_seat_list channel = bindE getE (\<lambda>db. okE (map_of (pd_seat_lists db) channel))"

definition fetch_seat_list_snapshot :: "string \<Rightarrow> (pc_db, seat_list option \<times> mls_group option) eff" where
  "fetch_seat_list_snapshot channel = bindE getE (\<lambda>db.
     okE (map_of (pd_seat_lists db) channel, open_text_group db channel))"

section \<open>Entitlements\<close>

definition upsert_channel_entitlement :: "channel_entitlement \<Rightarrow> int \<Rightarrow> (pc_db, channel_entitlement) eff" where
  "upsert_channel_entitlement e now =
     (if \<not> (1 \<le> ent_slot_cap e \<and> ent_slot_cap e \<le> MAX_CHANNEL_SLOT_CAP)
      then errE (FailedValidation ''slot_cap must be 1..=100'')
      else bindE getE (\<lambda>db.
        if channel_seats_used (channel_seats db (ent_channel e)) now > ent_slot_cap e
        then errE (SeatCapReached (ent_slot_cap e))
        else
          let stored = (case entitlement_of db (ent_channel e) of
                Some old \<Rightarrow> old\<lparr>ent_slot_cap := ent_slot_cap e, ent_device_cap := ent_device_cap e, ent_granted_by := ent_granted_by e\<rparr>
              | None \<Rightarrow> e) in
          thenE (modE (\<lambda>db. db\<lparr>pd_entitlements := AList.update (ent_id stored) stored (pd_entitlements db)\<rparr>)) (okE stored)))"

section \<open>Seat lists\<close>

definition check_members :: "pc_db \<Rightarrow> string \<Rightarrow> seat_list_write_decision \<Rightarrow> error + unit" where
  "check_members db server d =
     (case d of
        Unchanged _ \<Rightarrow> Inr ()
      | Apply p \<Rightarrow>
          if list_all (\<lambda>v. (server, v) \<in> set (pd_members db)) (wp_claimed p) then Inr ()
          else invalid ''seated user is not a member of the server'')"

definition write_seats :: "channel_seat list \<Rightarrow> (string, channel_seat) table \<Rightarrow> (string, channel_seat) table" where
  "write_seats ss t = foldl (\<lambda>t s. AList.update (se_id s) s t) t ss"

definition note_plan :: "seat_list_write_plan \<Rightarrow> mls_group \<Rightarrow> mls_group" where
  "note_plan p g = g\<lparr>mg_seat_list_ad := Some (wp_seat_list_ad p), mg_pending_removals := mg_pending_removals g @ wp_pending_added p\<rparr>"

definition apply_decision :: "seat_list_write_decision \<Rightarrow> string option \<Rightarrow> pc_db \<Rightarrow> pc_db" where
  "apply_decision d grp db =
     (case d of
        Unchanged _ \<Rightarrow> db
      | Apply p \<Rightarrow> db
          \<lparr>pd_seat_lists := AList.update (sl_id (wp_row p)) (wp_row p) (pd_seat_lists db),
           pd_seats := write_seats (wp_seat_rows p) (pd_seats db),
           pd_groups :=
             (case grp of
                None \<Rightarrow> pd_groups db
              | Some i \<Rightarrow>
                  (case map_of (pd_groups db) i of
                     None \<Rightarrow> pd_groups db
                   | Some g \<Rightarrow> AList.update i (note_plan p g) (pd_groups db)))\<rparr>)"

definition write_input ::
    "pc_db \<Rightarrow> seat_list_write_kind \<Rightarrow> string \<Rightarrow> seat_list_submission \<Rightarrow> bool \<Rightarrow> int \<Rightarrow> seat_list_write_input" where
  "write_input db kind channel sub allow_claims now =
     \<lparr>wi_kind = kind, wi_channel = channel, wi_submission = sub, wi_stored = map_of (pd_seat_lists db) channel,
      wi_entitlement = entitlement_of db channel, wi_seats = channel_seats db channel,
      wi_text_group = open_text_group db channel, wi_allow_claims = allow_claims, wi_now = now\<rparr>"

definition set_protected :: "pchannel \<Rightarrow> pchannel" where
  "set_protected c = (case c of PText s _ l v a \<Rightarrow> PText s True l v a | _ \<Rightarrow> c)"

definition owned_by :: "pc_db \<Rightarrow> string \<Rightarrow> string \<Rightarrow> bool" where
  "owned_by db channel user =
     (Option.bind (Option.bind (map_of (pd_channels db) channel) seat_list_channel_server) (map_of (pd_servers db)) = Some user)"

definition protect_first :: "seat_lib \<Rightarrow> string \<Rightarrow> seat_list_submission \<Rightarrow> int \<Rightarrow> (pc_db, seat_list_outcome) eff" where
  "protect_first lib channel sub now =
     bindE getE (\<lambda>db.
     thenE (resE (check_channel_protectable (map_of (pd_channels db) channel)))
     (bindE (resE (seat_list_parse (ss_body sub))) (\<lambda>body.
      if \<not> owned_by db channel (bo_signer_user body) then errE NotOwner
      else (case Option.bind (map_of (pd_channels db) channel) seat_list_channel_server of
        None \<Rightarrow> errE InvalidOperation
      | Some server \<Rightarrow>
          if list_ex (\<lambda>c. c = PThread channel) (rows (pd_channels db)) then errE InvalidOperation
          else if list_ex (\<lambda>c. c = channel) (rows (pd_messages db)) then errE InvalidOperation
          else if \<not> is_some_and (\<lambda>e. ent_is_active e \<and> ent_server e = server) (entitlement_of db channel) then errE InvalidOperation
          else
            bindE (resE (plan_seat_list_write lib (write_input db Protect channel sub True now))) (\<lambda>d.
            thenE (resE (check_members db server d))
            (thenE (modE (\<lambda>db'. (apply_decision d (map_option mg_id (open_text_group db channel)) db')
                \<lparr>pd_channels := map (\<lambda>(k, c). (k, if k = channel then set_protected c else c)) (pd_channels db')\<rparr>))
            (okE (decision_outcome d))))))))"

definition protect_channel :: "seat_lib \<Rightarrow> string \<Rightarrow> seat_list_submission \<Rightarrow> int \<Rightarrow> (pc_db, seat_list_outcome) eff" where
  "protect_channel lib channel sub now =
     bindE getE (\<lambda>db.
     if is_some_and (\<lambda>l. is_genesis_reprotect sub l \<and> owned_by db channel (sl_signer_user l)) (map_of (pd_seat_lists db) channel)
     then okE (decision_outcome (Unchanged (the (map_of (pd_seat_lists db) channel))))
     else protect_first lib channel sub now)"

definition put_seat_list :: "seat_lib \<Rightarrow> string \<Rightarrow> seat_list_submission \<Rightarrow> bool \<Rightarrow> int \<Rightarrow> (pc_db, seat_list_outcome) eff" where
  "put_seat_list lib channel sub allow_claims now =
     bindE getE (\<lambda>db.
     bindE (resE (plan_seat_list_write lib (write_input db Put channel sub allow_claims now))) (\<lambda>d.
     thenE (resE (check_members db (case entitlement_of db channel of Some e \<Rightarrow> ent_server e | None \<Rightarrow> []) d))
     (thenE (modE (apply_decision d (map_option mg_id (open_text_group db channel))))
     (okE (decision_outcome d)))))"

section \<open>Text groups\<close>

definition drop_group :: "string \<Rightarrow> pc_db \<Rightarrow> pc_db" where
  "drop_group i db = db\<lparr>pd_groups := AList.delete i (pd_groups db), pd_commits := filter (\<lambda>(_, c). cm_group c \<noteq> i) (pd_commits db),
     pd_intents := filter (\<lambda>(_, n). ji_group n \<noteq> i) (pd_intents db), pd_queue := filter (\<lambda>(_, g). g \<noteq> Some i) (pd_queue db)\<rparr>"

definition close_superseded :: "mls_group \<Rightarrow> mls_group \<Rightarrow> mls_group" where
  "close_superseded new old =
     (if mg_open old then old\<lparr>mg_open := False, mg_closed_at := Some (mg_created_at new), mg_superseded_by := Some (mg_id new)\<rparr> else old)"

definition insert_text_group :: "seat_lib \<Rightarrow> mls_group \<Rightarrow> mls_group \<Rightarrow> string option \<Rightarrow> (pc_db, mls_group_create_outcome) eff" where
  "insert_text_group lib grp prepared supersedes =
     bindE getE (\<lambda>db.
     thenE (case map_of (pd_groups db) (mg_id prepared) of
              None \<Rightarrow> okE ()
            | Some taken \<Rightarrow>
                if mg_kind taken = Call \<and> is_derived_text_group_id lib prepared then modE (drop_group (mg_id prepared))
                else errE InvalidOperation)
     (thenE (modE (\<lambda>db.
        let groups = (case Option.bind supersedes (map_of (pd_groups db)) of
              Some old \<Rightarrow> AList.update (the supersedes) (close_superseded grp old) (pd_groups db)
            | None \<Rightarrow> pd_groups db) in
        db\<lparr>pd_groups := AList.update (mg_id prepared) prepared groups\<rparr>))
     (okE Created)))"

definition create_text_mls_group :: "seat_lib \<Rightarrow> mls_group \<Rightarrow> string option \<Rightarrow> (pc_db, mls_group_create_outcome) eff" where
  "create_text_mls_group lib grp supersedes =
     bindE getE (\<lambda>db.
     case map_of (pd_seat_lists db) (mg_channel grp) of
       None \<Rightarrow> errE (FailedValidation ''channel has no seat list'')
     | Some l \<Rightarrow>
         let found = open_text_group db (mg_channel grp) in
         thenE (case supersedes of
                  Some i \<Rightarrow>
                    (case map_of (pd_groups db) i of
                       None \<Rightarrow> errE NotFound
                     | Some old \<Rightarrow> resE (check_text_successor old grp))
                | None \<Rightarrow> resE (check_text_first_generation grp))
         (case found of
            Some g \<Rightarrow>
              if supersedes = Some (mg_id g)
              then bindE (resE (prepare_text_group lib grp l)) (\<lambda>prepared. insert_text_group lib grp prepared supersedes)
              else okE (Conflict (mg_id g) (mg_channel g))
          | None \<Rightarrow> bindE (resE (prepare_text_group lib grp l)) (\<lambda>prepared. insert_text_group lib grp prepared supersedes)))"

section \<open>Removals\<close>

definition in_scope :: "pc_db \<Rightarrow> string option \<Rightarrow> string \<Rightarrow> bool" where
  "in_scope db server channel =
     (case server of
        None \<Rightarrow> True
      | Some i \<Rightarrow> list_ex (\<lambda>e. ent_server e = i \<and> ent_channel e = channel) (rows (pd_entitlements db)))"

definition forced_seat :: "pc_db \<Rightarrow> string \<Rightarrow> string option \<Rightarrow> channel_seat \<Rightarrow> bool" where
  "forced_seat db user server s \<longleftrightarrow> se_user s = user \<and> seat_active s \<and> in_scope db server (se_channel s)"

definition forced_group :: "pc_db \<Rightarrow> string \<Rightarrow> string option \<Rightarrow> mls_group \<Rightarrow> bool" where
  "forced_group db user server g \<longleftrightarrow> mg_open g \<and> mg_kind g = Text \<and> in_scope db server (mg_channel g)
     \<and> list_ex (\<lambda>m. mm_user m = user) (mg_members g) \<and> \<not> list_ex (\<lambda>p. mp_user p = user) (mg_pending_removals g)"

definition release_channel_seats_for_user ::
    "seat_lib \<Rightarrow> string \<Rightarrow> string option \<Rightarrow> int \<Rightarrow> (pc_db, string list) eff" where
  "release_channel_seats_for_user lib user server now =
     bindE (resE (seat_cooldown_until lib now)) (\<lambda>until.
     bindE getE (\<lambda>db.
     let affected = map se_channel (filter (forced_seat db user server) (rows (pd_seats db)))
           @ map mg_channel (filter (forced_group db user server) (rows (pd_groups db))) in
     thenE (modE (\<lambda>db. db
        \<lparr>pd_seats := map (\<lambda>(k, s). (k, if forced_seat db user server s
            then s\<lparr>se_released_at := Some now, se_cooldown_until := Some until\<rparr> else s)) (pd_seats db),
         pd_groups := map (\<lambda>(k, g). (k, if forced_group db user server g
            then g\<lparr>mg_pending_removals := mg_pending_removals g @ [\<lparr>mp_user = user, mp_created_at = now\<rparr>]\<rparr> else g)) (pd_groups db)\<rparr>))
     (okE (remdups_adj (sort affected)))))"

definition delete_protected_channel_data :: "string \<Rightarrow> (pc_db, unit) eff" where
  "delete_protected_channel_data channel =
     modE (\<lambda>db.
       let gone = map mg_id (filter (\<lambda>g. mg_channel g = channel \<and> mg_kind g = Text) (rows (pd_groups db))) in db
       \<lparr>pd_entitlements := filter (\<lambda>(_, e). ent_channel e \<noteq> channel) (pd_entitlements db),
        pd_seat_lists := AList.delete channel (pd_seat_lists db),
        pd_seats := filter (\<lambda>(_, s). se_channel s \<noteq> channel) (pd_seats db),
        pd_groups := filter (\<lambda>(i, _). i \<notin> set gone) (pd_groups db),
        pd_commits := filter (\<lambda>(_, c). cm_group c \<notin> set gone) (pd_commits db),
        pd_intents := filter (\<lambda>(_, n). ji_group n \<notin> set gone) (pd_intents db)\<rparr>)"

end
