(* ===== verification/Mls_Driver.thy ===== *)
theory Mls_Driver
  imports Protected_Channels
begin

text \<open>
  The reference driver of the MLS delivery service (\<open>models/mls/ops/reference.rs\<close>) and the planner of text
  commits both drivers share (\<open>models/mls/ops.rs\<close>). As for protected channels, an operation holds its locks
  throughout and is one step. The time the driver reads itself is the argument \<open>now\<close>.
\<close>

section \<open>Key packages\<close>

definition one_time_of :: "string \<Rightarrow> string \<Rightarrow> mls_key_package \<Rightarrow> bool" where
  "one_time_of user device p \<longleftrightarrow> kp_user p = user \<and> kp_device p = device \<and> \<not> kp_last_resort p"

definition store_key_packages :: "mls_key_package list \<Rightarrow> (string, mls_key_package) table \<Rightarrow> (string, mls_key_package) table" where
  "store_key_packages ps t = foldl (\<lambda>t p. AList.update (kp_id p) p t) t ps"

definition insert_mls_key_packages :: "mls_key_package list \<Rightarrow> (pc_db, unit) eff" where
  "insert_mls_key_packages packages = modE (\<lambda>db. db\<lparr>pd_key_packages := store_key_packages packages (pd_key_packages db)\<rparr>)"

definition count_mls_key_packages :: "string \<Rightarrow> string \<Rightarrow> (pc_db, nat) eff" where
  "count_mls_key_packages user device = bindE getE (\<lambda>db.
     okE (length (filter (one_time_of user device) (rows (pd_key_packages db)))))"

text \<open>Oldest first: by creation, then by id.\<close>

definition prunable :: "string \<Rightarrow> string \<Rightarrow> string list \<Rightarrow> (string, mls_key_package) table \<Rightarrow> mls_key_package list" where
  "prunable user device batch t =
     sort_key kp_created_at (sort_key kp_id (filter (\<lambda>p. one_time_of user device p \<and> kp_id p \<notin> set batch) (rows t)))"

definition insert_mls_key_packages_capped :: "string \<Rightarrow> string \<Rightarrow> mls_key_package list \<Rightarrow> nat \<Rightarrow> (pc_db, nat) eff" where
  "insert_mls_key_packages_capped user device packages max_count = bindE getE (\<lambda>db.
     let stored = store_key_packages packages (pd_key_packages db);
         count = length (filter (one_time_of user device) (rows stored));
         gone = (if count \<le> max_count then []
                 else map kp_id (take (count - max_count) (prunable user device (map kp_id packages) stored))) in
     thenE (modE (\<lambda>db. db\<lparr>pd_key_packages := foldl (\<lambda>t i. AList.delete i t) stored gone\<rparr>))
     (okE (count - length gone)))"

definition consume_mls_key_package :: "string \<Rightarrow> string \<Rightarrow> (pc_db, mls_key_package option) eff" where
  "consume_mls_key_package user device = bindE getE (\<lambda>db.
     case sort (map kp_id (filter (one_time_of user device) (rows (pd_key_packages db)))) of
       [] \<Rightarrow> okE None
     | i # _ \<Rightarrow> thenE (modE (\<lambda>db. db\<lparr>pd_key_packages := AList.delete i (pd_key_packages db)\<rparr>))
         (okE (map_of (pd_key_packages db) i)))"

definition fetch_one_mls_key_package :: "string \<Rightarrow> string \<Rightarrow> (pc_db, mls_key_package option) eff" where
  "fetch_one_mls_key_package user device = bindE getE (\<lambda>db.
     okE (List.find (\<lambda>p. kp_user p = user \<and> kp_device p = device) (rows (pd_key_packages db))))"

definition fetch_mls_last_resort_key_package :: "string \<Rightarrow> string \<Rightarrow> int \<Rightarrow> (pc_db, mls_key_package option) eff" where
  "fetch_mls_last_resort_key_package user device now = bindE getE (\<lambda>db.
     okE (List.find (\<lambda>p. kp_user p = user \<and> kp_device p = device \<and> kp_last_resort p \<and> now < kp_expires_at p) (rows (pd_key_packages db))))"

definition replace_mls_last_resort_key_package :: "mls_key_package \<Rightarrow> (pc_db, unit) eff" where
  "replace_mls_last_resort_key_package package = modE (\<lambda>db. db\<lparr>pd_key_packages := AList.update (kp_id package) package
     (filter (\<lambda>(_, p). \<not> (kp_user p = kp_user package \<and> kp_device p = kp_device package \<and> kp_last_resort p)) (pd_key_packages db))\<rparr>)"

definition retain_key_packages :: "(mls_key_package \<Rightarrow> bool) \<Rightarrow> (pc_db, nat) eff" where
  "retain_key_packages keep = bindE getE (\<lambda>db.
     let left = filter (\<lambda>(_, p). keep p) (pd_key_packages db) in
     thenE (modE (\<lambda>db. db\<lparr>pd_key_packages := left\<rparr>)) (okE (length (pd_key_packages db) - length left)))"

definition delete_mls_key_packages :: "string \<Rightarrow> string \<Rightarrow> (pc_db, nat) eff" where
  "delete_mls_key_packages user device = retain_key_packages (\<lambda>p. \<not> (kp_user p = user \<and> kp_device p = device))"

definition delete_expired_mls_key_packages :: "int \<Rightarrow> (pc_db, nat) eff" where
  "delete_expired_mls_key_packages now = retain_key_packages (\<lambda>p. now < kp_expires_at p)"

section \<open>Call groups\<close>

definition open_group :: "pc_db \<Rightarrow> string \<Rightarrow> mls_group_kind \<Rightarrow> mls_group option" where
  "open_group db channel kind = List.find (\<lambda>g. mg_channel g = channel \<and> mg_kind g = kind \<and> mg_open g) (rows (pd_groups db))"

definition put_group :: "string \<Rightarrow> mls_group \<Rightarrow> (pc_db, unit) eff" where
  "put_group i g = modE (\<lambda>db. db\<lparr>pd_groups := AList.update i g (pd_groups db)\<rparr>)"

text \<open>The end of the create: the channel's open group conflicts, an id is never overwritten.\<close>

definition create_fresh_group :: "mls_group \<Rightarrow> (pc_db, mls_group_create_outcome) eff" where
  "create_fresh_group g = bindE getE (\<lambda>db.
     case open_group db (mg_channel g) (mg_kind g) of
       Some found \<Rightarrow> okE (Conflict (mg_id found) (mg_channel found))
     | None \<Rightarrow>
         if map_of (pd_groups db) (mg_id g) \<noteq> None then errE InvalidOperation
         else thenE (put_group (mg_id g) g) (okE Created))"

definition create_mls_group :: "mls_group \<Rightarrow> string option \<Rightarrow> (pc_db, mls_group_create_outcome) eff" where
  "create_mls_group g supersedes =
     (if mg_kind g \<noteq> Call then errE InvalidOperation
      else bindE getE (\<lambda>db.
        case supersedes of
          None \<Rightarrow> create_fresh_group g
        | Some i \<Rightarrow>
            (case map_of (pd_groups db) i of
               None \<Rightarrow> errE NotFound
             | Some old \<Rightarrow>
                 if mg_channel old \<noteq> mg_channel g then errE (FailedValidation ''superseded group belongs to another channel'')
                 else if mg_kind old \<noteq> mg_kind g then errE (FailedValidation ''superseded group is of another kind'')
                 else if \<not> mg_open old then create_fresh_group g
                 else if map_of (pd_groups db) (mg_id g) \<noteq> None then errE InvalidOperation
                 else
                   thenE (put_group i (old\<lparr>mg_open := False, mg_closed_at := Some (mg_created_at g), mg_superseded_by := Some (mg_id g)\<rparr>))
                   (thenE (put_group (mg_id g) g) (okE Created)))))"

definition fetch_mls_group :: "string \<Rightarrow> (pc_db, mls_group) eff" where
  "fetch_mls_group i = bindE getE (\<lambda>db. case map_of (pd_groups db) i of Some g \<Rightarrow> okE g | None \<Rightarrow> errE NotFound)"

definition fetch_open_mls_group_for_channel :: "string \<Rightarrow> mls_group_kind \<Rightarrow> (pc_db, mls_group option) eff" where
  "fetch_open_mls_group_for_channel channel kind = bindE getE (\<lambda>db. okE (open_group db channel kind))"

definition close_mls_group :: "string \<Rightarrow> int \<Rightarrow> (pc_db, bool) eff" where
  "close_mls_group i now =
     bindE (fetch_mls_group i) (\<lambda>g.
     if mg_kind g \<noteq> Call then errE InvalidOperation
     else if \<not> mg_open g then okE False
     else thenE (put_group i (g\<lparr>mg_open := False, mg_closed_at := Some now\<rparr>)) (okE True))"

section \<open>Call commits\<close>

definition drop_intents :: "string list \<Rightarrow> (pc_db, unit) eff" where
  "drop_intents ids = modE (\<lambda>db. db\<lparr>pd_intents := foldl (\<lambda>t i. AList.delete i t) (pd_intents db) ids\<rparr>)"

definition intents_of_added :: "string \<Rightarrow> mls_commit \<Rightarrow> string list" where
  "intents_of_added i c = map (\<lambda>a. intent_composite_id i (mm_user a) (mm_device a)) (cm_added c)"

text \<open>The first added device whose user has a leaf already.\<close>

fun check_call_added :: "mls_group \<Rightarrow> mls_member_device list \<Rightarrow> error + unit" where
  "check_call_added g [] = Inr ()"
| "check_call_added g (a # as) =
     (case member_device_of g (mm_user a) of
        Some m \<Rightarrow> invalid (if mm_device m = mm_device a then ''added device is already a member''
                           else ''user already has a live leaf from another device'')
      | None \<Rightarrow> check_call_added g as)"

text \<open>The size after the commit is computed in \<open>usize\<close>, which wraps in a release build when the list of
  removed devices repeats.\<close>

definition call_roster_size :: "mls_group \<Rightarrow> mls_commit \<Rightarrow> nat" where
  "call_roster_size g c =
     (let real_removals = length (filter (\<lambda>r. has_member g (mm_user r) (mm_device r)) (cm_removed c)) in
      nat ((int (length (mg_members g)) + int (length (cm_added c)) - int real_removals) mod 2 ^ 64))"

definition call_roster :: "mls_group \<Rightarrow> mls_commit \<Rightarrow> mls_member_device list" where
  "call_roster g c = filter (\<lambda>m. m \<notin> set (cm_removed c)) (mg_members g) @ cm_added c"

text \<open>Where the successor of the current epoch is compared, the epoch of the commit is above the
  current one, which is then below the largest \<open>i64\<close>.\<close>

definition insert_mls_commit :: "mls_commit \<Rightarrow> (pc_db, mls_commit_outcome) eff" where
  "insert_mls_commit c =
     bindE getE (\<lambda>db.
     bindE (fetch_mls_group (cm_group c)) (\<lambda>g.
     let id = commit_composite_id (cm_group c) (cm_epoch c); found = map_of (pd_commits db) id in
     if mg_kind g \<noteq> Call then errE InvalidOperation
     else if \<not> mg_open g then errE (FailedValidation ''group is closed'')
     else if \<not> has_member g (mm_user (cm_committer c)) (mm_device (cm_committer c)) then errE NotFound
     else if cm_epoch c \<le> mg_current_epoch g then (case found of Some w \<Rightarrow> okE (Lost w) | None \<Rightarrow> errE NotFound)
     else if cm_epoch c \<noteq> mg_current_epoch g + 1 then errE (FailedValidation ''commit epoch must be exactly current_epoch + 1'')
     else
       thenE (resE (check_call_added g (cm_added c)))
       (if call_roster_size g c > MAX_MLS_GROUP_MEMBERS then errE (FailedValidation ''group is at the E2EE roster ceiling'')
        else (case found of
          Some w \<Rightarrow> okE (Lost w)
        | None \<Rightarrow>
            thenE (modE (\<lambda>db. db\<lparr>pd_commits := AList.update id c (pd_commits db)\<rparr>))
            (thenE (put_group (cm_group c) (g\<lparr>mg_current_epoch := cm_epoch c, mg_members := call_roster g c\<rparr>))
            (thenE (drop_intents (intents_of_added (cm_group c) c)) (okE Won)))))))"

end
