(* ===== verification/Mls_Text.thy ===== *)
theory Mls_Text
  imports Mls_Driver
begin

text \<open>
  Text commits: the planner of \<open>models/mls/ops.rs\<close> and the operations of the reference driver on text
  groups, join intents and stored commits.
\<close>

section \<open>The planner\<close>

record mls_text_commit_plan =
  tp_stored :: mls_commit
  tp_members :: "mls_member_device list"
  tp_member_added :: "mls_member_added list"
  tp_cleared_pending :: "string list"
  tp_consumed_intents :: "string list"

definition resecuring :: "string \<Rightarrow> error + 'a" where
  "resecuring reason = Inl (ProtectedChannelResecuring reason)"

definition identity_composite_id :: "string \<Rightarrow> string \<Rightarrow> string" where
  "identity_composite_id user device = user @ '':'' @ device"

text \<open>The stored list, read by the one parser and matched with its row.\<close>

definition signed_list_of :: "mls_group \<Rightarrow> seat_list option \<Rightarrow> error + seat_list_body" where
  "signed_list_of g stored =
     (case stored of
        None \<Rightarrow> invalid ''channel has no seat list''
      | Some l \<Rightarrow>
          (case seat_list_parse (sl_body l) of
             Inl _ \<Rightarrow> invalid ''stored seat list is malformed''
           | Inr b \<Rightarrow>
               if bo_channel b \<noteq> mg_channel g \<or> sl_id l \<noteq> mg_channel g \<or> bo_signer_user b \<noteq> sl_signer_user l
                 \<or> bo_signer_device b \<noteq> sl_signer_device l
               then invalid ''stored seat list does not match its channel or signer''
               else Inr b))"

fun check_fan_out :: "mls_commit \<Rightarrow> mls_member_device list \<Rightarrow> mls_member_device list \<Rightarrow> error + unit" where
  "check_fan_out c seen [] = Inr ()"
| "check_fan_out c seen (d # ds) =
     (if d \<in> set seen
      then invalid (if d \<in> set (cm_added c) \<and> d \<in> set (cm_removed c) then ''device is both added and removed''
                    else ''duplicate device in fan-out lists'')
      else check_fan_out c (d # seen) ds)"

text \<open>Rules 2 to 5 of the removals.\<close>

definition other_rule :: "mls_group \<Rightarrow> mls_commit \<Rightarrow> seat_list_body \<Rightarrow> string list \<Rightarrow> mls_member_device \<Rightarrow> bool" where
  "other_rule g c signed_list revoked r \<longleftrightarrow>
     \<not> (mm_user r = bo_signer_user signed_list \<and> mm_device r = bo_signer_device signed_list)
     \<and> (mm_user r = mm_user (cm_committer c)
        \<or> has_pending_removal g (mm_user r)
        \<or> identity_composite_id (mm_user r) (mm_device r) \<in> set revoked
        \<or> (mm_user (cm_committer c) = bo_signer_user signed_list \<and> mm_device (cm_committer c) = bo_signer_device signed_list)
          \<and> mm_user r \<notin> set (bo_seats signed_list))"

text \<open>Rule 6: an outstanding rejoin intent of the device itself, newer than its latest add.\<close>

definition rejoin_intent :: "mls_group \<Rightarrow> int \<Rightarrow> mls_join_intent list \<Rightarrow> mls_member_device \<Rightarrow> mls_join_intent option" where
  "rejoin_intent g window_start intents r =
     (case (List.find (\<lambda>n. ji_id n = intent_composite_id (mg_id g) (mm_user r) (mm_device r) \<and> ji_group n = mg_id g
              \<and> ji_user n = mm_user r \<and> ji_device n = mm_device r) intents,
            List.find (\<lambda>a. ma_user a = mm_user r \<and> ma_device a = mm_device r) (mg_member_added g)) of
        (Some n, Some a) \<Rightarrow> if window_start \<le> ji_created_at n \<and> ma_at a < ji_created_at n then Some n else None
      | _ \<Rightarrow> None)"

fun check_removed :: "mls_group \<Rightarrow> mls_commit \<Rightarrow> seat_list_body \<Rightarrow> string list \<Rightarrow> int \<Rightarrow> mls_join_intent list
    \<Rightarrow> mls_member_device list \<Rightarrow> error + mls_join_intent list" where
  "check_removed g c signed_list revoked window_start intents [] = Inr []"
| "check_removed g c signed_list revoked window_start intents (r # rs) =
     (if \<not> has_member g (mm_user r) (mm_device r) then invalid ''removed device is not a member''
      else if mm_user r = mm_user (cm_committer c) \<and> mm_device r = mm_device (cm_committer c)
        then invalid ''a device cannot remove itself''
      else if other_rule g c signed_list revoked r then check_removed g c signed_list revoked window_start intents rs
      else (case rejoin_intent g window_start intents r of
        None \<Rightarrow> invalid ''removal not permitted''
      | Some n \<Rightarrow> andR (check_removed g c signed_list revoked window_start intents rs) (\<lambda>ns. Inr (n # ns))))"

fun check_added :: "mls_group \<Rightarrow> string list \<Rightarrow> string list \<Rightarrow> mls_member_device list \<Rightarrow> error + unit" where
  "check_added g active seats [] = Inr ()"
| "check_added g active seats (a # as) =
     (if has_member g (mm_user a) (mm_device a) then invalid ''added device is already a member''
      else if mm_user a \<notin> set active then Inl NotSeated
      else if mm_user a \<notin> set seats then invalid ''added user is not seated''
      else check_added g active seats as)"

definition text_roster :: "mls_group \<Rightarrow> mls_commit \<Rightarrow> mls_member_device list" where
  "text_roster g c = filter (\<lambda>m. m \<notin> set (cm_removed c)) (mg_members g) @ cm_added c"

fun check_device_cap :: "nat \<Rightarrow> mls_member_device list \<Rightarrow> mls_member_device list \<Rightarrow> error + unit" where
  "check_device_cap cap members [] = Inr ()"
| "check_device_cap cap members (a # as) =
     (if length (filter (\<lambda>m. mm_user m = mm_user a) members) > cap then Inl (DeviceCapReached cap)
      else check_device_cap cap members as)"

definition text_member_added :: "mls_group \<Rightarrow> mls_commit \<Rightarrow> mls_member_added list" where
  "text_member_added g c =
     filter (\<lambda>e. \<not> list_ex (\<lambda>r. mm_user r = ma_user e \<and> mm_device r = ma_device e) (cm_removed c)) (mg_member_added g)
     @ map (\<lambda>a. \<lparr>ma_user = mm_user a, ma_device = mm_device a, ma_epoch = cm_epoch c, ma_at = cm_created_at c\<rparr>) (cm_added c)"

definition text_commit_effects :: "mls_group \<Rightarrow> mls_commit \<Rightarrow> mls_join_intent list \<Rightarrow> mls_text_commit_plan" where
  "text_commit_effects g c rejoins =
     \<lparr>tp_stored = c\<lparr>cm_id := commit_composite_id (cm_group c) (cm_epoch c), cm_rejoin_intents := rejoins\<rparr>,
      tp_members = text_roster g c,
      tp_member_added = text_member_added g c,
      tp_cleared_pending = map mp_user
        (filter (\<lambda>p. \<not> list_ex (\<lambda>m. mm_user m = mp_user p) (text_roster g c)) (mg_pending_removals g)),
      tp_consumed_intents = intents_of_added (mg_id g) c @ map ji_id rejoins\<rparr>"

definition plan_mls_text_commit ::
    "seat_lib \<Rightarrow> mls_group \<Rightarrow> mls_commit \<Rightarrow> string \<Rightarrow> seat_list option \<Rightarrow> nat \<Rightarrow> mls_join_intent list \<Rightarrow> string list \<Rightarrow> string list
     \<Rightarrow> error + mls_text_commit_plan" where
  "plan_mls_text_commit lib g c ad_sha256 stored_list entitlement_device_cap intents revoked active =
     (if mg_kind g \<noteq> Text then Inl InvalidOperation
      else if cm_group c \<noteq> mg_id g then invalid ''commit targets another group''
      else if \<not> mg_open g then invalid ''group is closed''
      else if \<not> has_member g (mm_user (cm_committer c)) (mm_device (cm_committer c)) then resecuring ''not_member''
      else if cm_epoch c \<le> mg_current_epoch g then Inl NotFound
      else if cm_epoch c \<noteq> mg_current_epoch g + 1 then invalid ''commit epoch must be exactly current_epoch + 1''
      else if mg_seat_list_ad g \<noteq> Some ad_sha256 then resecuring ''stale_seat_list''
      else
        andR (signed_list_of g stored_list) (\<lambda>signed_list.
        andR (check_fan_out c [] (cm_added c @ cm_removed c)) (\<lambda>_.
        if cm_added c \<noteq> [] \<and> mg_pending_removals g \<noteq> [] then resecuring ''pending_removal''
        else (case lib_sub_seconds lib (cm_created_at c) MLS_REJOIN_OUTSTANDING_WINDOW_SECONDS of
          None \<Rightarrow> invalid ''invalid commit time''
        | Some window_start \<Rightarrow>
            andR (check_removed g c signed_list revoked window_start intents (cm_removed c)) (\<lambda>rejoins.
            andR (check_added g active (bo_seats signed_list) (cm_added c)) (\<lambda>_.
            if length (text_roster g c) > MAX_MLS_TEXT_GROUP_MEMBERS then Inl (MlsCallFull MAX_MLS_TEXT_GROUP_MEMBERS)
            else
              let cap = mls_text_enforced_device_cap (bo_device_cap signed_list) entitlement_device_cap in
              andR (if cap \<noteq> 0 then check_device_cap cap (text_roster g c) (cm_added c) else Inr ()) (\<lambda>_.
              Inr (text_commit_effects g c rejoins))))))))"

section \<open>The driver\<close>

definition TEXT_COMMIT_KEY_PREFIX :: string where "TEXT_COMMIT_KEY_PREFIX = ''text:''"

definition text_commit_key :: "string \<Rightarrow> string" where
  "text_commit_key i = TEXT_COMMIT_KEY_PREFIX @ i"

text \<open>What the transaction reads for the planner.\<close>

definition stored_intents :: "pc_db \<Rightarrow> mls_group \<Rightarrow> mls_commit \<Rightarrow> mls_join_intent list" where
  "stored_intents db g c = List.map_filter
     (\<lambda>r. map_of (pd_intents db) (intent_composite_id (mg_id g) (mm_user r) (mm_device r))) (cm_removed c)"

definition revoked_identities :: "pc_db \<Rightarrow> mls_commit \<Rightarrow> string list" where
  "revoked_identities db c = filter (\<lambda>i. i \<notin> set (pd_identities db))
     (map (\<lambda>r. identity_composite_id (mm_user r) (mm_device r)) (cm_removed c))"

definition active_seat_users :: "pc_db \<Rightarrow> mls_group \<Rightarrow> mls_commit \<Rightarrow> string list" where
  "active_seat_users db g c = map mm_user (filter
     (\<lambda>a. is_some_and seat_active (map_of (pd_seats db) (composite_id (mg_channel g) (mm_user a)))) (cm_added c))"

definition text_committed :: "mls_text_commit_plan \<Rightarrow> mls_commit \<Rightarrow> mls_group \<Rightarrow> mls_group" where
  "text_committed p c g = g\<lparr>mg_current_epoch := cm_epoch c, mg_members := tp_members p, mg_member_added := tp_member_added p,
     mg_pending_removals := filter (\<lambda>r. mp_user r \<notin> set (tp_cleared_pending p)) (mg_pending_removals g)\<rparr>"

definition insert_mls_text_commit :: "seat_lib \<Rightarrow> mls_commit \<Rightarrow> string \<Rightarrow> nat \<Rightarrow> (pc_db, mls_commit_outcome) eff" where
  "insert_mls_text_commit lib c ad_sha256 entitlement_device_cap =
     bindE getE (\<lambda>db.
     let id = commit_composite_id (cm_group c) (cm_epoch c) in
     case map_of (pd_commits db) (text_commit_key id) of
       Some w \<Rightarrow> okE (Lost w)
     | None \<Rightarrow>
         bindE (fetch_mls_group (cm_group c)) (\<lambda>g.
         bindE (resE (plan_mls_text_commit lib g c ad_sha256 (map_of (pd_seat_lists db) (mg_channel g)) entitlement_device_cap
             (stored_intents db g c) (revoked_identities db c) (active_seat_users db g c))) (\<lambda>p.
         thenE (modE (\<lambda>db. db\<lparr>pd_commits := AList.update (text_commit_key id) (tp_stored p) (AList.delete id (pd_commits db))\<rparr>))
         (thenE (put_group (cm_group c) (text_committed p c g))
         (thenE (drop_intents (tp_consumed_intents p)) (okE Won))))))"

definition from_epoch :: "string \<Rightarrow> int \<Rightarrow> mls_commit \<Rightarrow> bool" where
  "from_epoch i e c \<longleftrightarrow> cm_group c = i \<and> e \<le> cm_epoch c"

definition fetch_mls_commits_from :: "string \<Rightarrow> int \<Rightarrow> int \<Rightarrow> (pc_db, mls_commit list) eff" where
  "fetch_mls_commits_from i e limit = bindE getE (\<lambda>db.
     okE (take (nat limit) (sort_key cm_epoch (filter (from_epoch i e) (rows (pd_commits db))))))"

definition fetch_mls_text_commits_from :: "string \<Rightarrow> int \<Rightarrow> int \<Rightarrow> (pc_db, mls_commit list) eff" where
  "fetch_mls_text_commits_from i e limit = bindE getE (\<lambda>db.
     okE (take (nat limit) (sort_key cm_epoch (rows
       (filter (\<lambda>(k, c). strip_prefix TEXT_COMMIT_KEY_PREFIX k \<noteq> None \<and> from_epoch i e c) (pd_commits db))))))"

definition upsert_mls_join_intent :: "mls_join_intent \<Rightarrow> (pc_db, mls_join_intent option) eff" where
  "upsert_mls_join_intent n = bindE getE (\<lambda>db.
     thenE (modE (\<lambda>db. db\<lparr>pd_intents := AList.update (ji_id n) n (pd_intents db)\<rparr>)) (okE (map_of (pd_intents db) (ji_id n))))"

definition fetch_mls_join_intents_for_group :: "string \<Rightarrow> (pc_db, mls_join_intent list) eff" where
  "fetch_mls_join_intents_for_group i = bindE getE (\<lambda>db. okE (filter (\<lambda>n. ji_group n = i) (rows (pd_intents db))))"

definition sweepable :: "int \<Rightarrow> int \<Rightarrow> mls_group \<Rightarrow> bool" where
  "sweepable closed_threshold created_threshold g \<longleftrightarrow>
     mg_kind g = Call \<and> (is_some_and (\<lambda>t. t < closed_threshold) (mg_closed_at g) \<or> mg_created_at g < created_threshold)"

definition sweep_mls_groups :: "int \<Rightarrow> int \<Rightarrow> (pc_db, nat) eff" where
  "sweep_mls_groups closed_threshold created_threshold = bindE getE (\<lambda>db.
     let swept = map mg_id (filter (sweepable closed_threshold created_threshold) (rows (pd_groups db))) in
     thenE (modE (\<lambda>db. db
       \<lparr>pd_groups := foldl (\<lambda>t i. AList.delete i t) (pd_groups db) swept,
        pd_commits := filter (\<lambda>(_, c). cm_group c \<notin> set swept) (pd_commits db),
        pd_intents := filter (\<lambda>(_, n). ji_group n \<notin> set swept) (pd_intents db)\<rparr>))
     (okE (length swept)))"

definition prune_mls_text_commits :: "int \<Rightarrow> (pc_db, nat) eff" where
  "prune_mls_text_commits older_than = bindE getE (\<lambda>db.
     let text_groups = map mg_id (filter (\<lambda>g. mg_kind g = Text) (rows (pd_groups db)));
         left = filter (\<lambda>(_, c). \<not> (cm_group c \<in> set text_groups \<and> cm_created_at c < older_than)) (pd_commits db) in
     thenE (modE (\<lambda>db. db\<lparr>pd_commits := left\<rparr>)) (okE (length (pd_commits db) - length left)))"

end
