(* ===== verification/Secure_Steps.thy ===== *)
theory Secure_Steps
  imports Mls_Text
begin

text \<open>
  Protected channels and the MLS delivery service as one state machine: every operation that
  writes, in any order, at times that do not go back. The other collections (channels, messages,
  servers, members, identities, queued envelopes) change between operations in any way.
\<close>

section \<open>Operations\<close>

datatype secure_op =
    UpsertEntitlement channel_entitlement
  | ProtectChannel string seat_list_submission
  | PutSeatList string seat_list_submission bool
  | CreateTextGroup mls_group "string option"
  | ReleaseSeats string "string option"
  | DeleteChannelData string
  | CreateCallGroup mls_group "string option"
  | CloseGroup string
  | CallCommit mls_commit
  | TextCommit mls_commit string nat
  | JoinIntent mls_join_intent
  | SweepGroups int int
  | PruneCommits int
  | PublishKeyPackages "mls_key_package list"
  | PublishCapped string string "mls_key_package list" nat
  | ConsumeKeyPackage string string
  | ReplaceLastResort mls_key_package
  | DeleteKeyPackages string string
  | DeleteExpired
  | Elsewhere pc_db

text \<open>The collections these components do not write.\<close>

definition elsewhere :: "pc_db \<Rightarrow> pc_db \<Rightarrow> pc_db" where
  "elsewhere other db = db\<lparr>pd_channels := pd_channels other, pd_messages := pd_messages other, pd_servers := pd_servers other,
     pd_members := pd_members other, pd_identities := pd_identities other, pd_queue := pd_queue other\<rparr>"

fun secure_step :: "seat_lib \<Rightarrow> int \<Rightarrow> secure_op \<Rightarrow> pc_db \<Rightarrow> pc_db" where
  "secure_step lib t (UpsertEntitlement e) = (\<lambda>db. snd (upsert_channel_entitlement e t db))"
| "secure_step lib t (ProtectChannel channel sub) = (\<lambda>db. snd (protect_channel lib channel sub t db))"
| "secure_step lib t (PutSeatList channel sub allow) = (\<lambda>db. snd (put_seat_list lib channel sub allow t db))"
| "secure_step lib t (CreateTextGroup g supersedes) = (\<lambda>db. snd (create_text_mls_group lib g supersedes db))"
| "secure_step lib t (ReleaseSeats user server) = (\<lambda>db. snd (release_channel_seats_for_user lib user server t db))"
| "secure_step lib t (DeleteChannelData channel) = (\<lambda>db. snd (delete_protected_channel_data channel db))"
| "secure_step lib t (CreateCallGroup g supersedes) = (\<lambda>db. snd (create_mls_group g supersedes db))"
| "secure_step lib t (CloseGroup i) = (\<lambda>db. snd (close_mls_group i t db))"
| "secure_step lib t (CallCommit c) = (\<lambda>db. snd (insert_mls_commit c db))"
| "secure_step lib t (TextCommit c ad cap) = (\<lambda>db. snd (insert_mls_text_commit lib c ad cap db))"
| "secure_step lib t (JoinIntent n) = (\<lambda>db. snd (upsert_mls_join_intent n db))"
| "secure_step lib t (SweepGroups closed created) = (\<lambda>db. snd (sweep_mls_groups closed created db))"
| "secure_step lib t (PruneCommits older) = (\<lambda>db. snd (prune_mls_text_commits older db))"
| "secure_step lib t (PublishKeyPackages ps) = (\<lambda>db. snd (insert_mls_key_packages ps db))"
| "secure_step lib t (PublishCapped user device ps n) = (\<lambda>db. snd (insert_mls_key_packages_capped user device ps n db))"
| "secure_step lib t (ConsumeKeyPackage user device) = (\<lambda>db. snd (consume_mls_key_package user device db))"
| "secure_step lib t (ReplaceLastResort p) = (\<lambda>db. snd (replace_mls_last_resort_key_package p db))"
| "secure_step lib t (DeleteKeyPackages user device) = (\<lambda>db. snd (delete_mls_key_packages user device db))"
| "secure_step lib t DeleteExpired = (\<lambda>db. snd (delete_expired_mls_key_packages t db))"
| "secure_step lib t (Elsewhere other) = elsewhere other"

text \<open>What the routes check before they call: the id of a new group is one (\<open>routes/mls/groups_create.rs\<close>), a
  call starts with its creator, and the lists of a commit are short and name no device twice
  (\<open>routes/mls/commits_submit.rs\<close>).\<close>

fun route_checked :: "secure_op \<Rightarrow> bool" where
  "route_checked (CreateTextGroup g supersedes) \<longleftrightarrow> is_valid_group_id (mg_id g)"
| "route_checked (CreateCallGroup g supersedes) \<longleftrightarrow> is_valid_group_id (mg_id g) \<and> mg_members g = [mg_created_by g]"
| "route_checked (CallCommit c) \<longleftrightarrow> distinct (cm_added c @ cm_removed c) \<and> length (cm_added c) \<le> MAX_MLS_GROUP_MEMBERS"
| "route_checked _ \<longleftrightarrow> True"

section \<open>Reachable states\<close>

text \<open>The collections of these components start empty.\<close>

definition secure_start :: "pc_db \<Rightarrow> bool" where
  "secure_start db \<longleftrightarrow> pd_entitlements db = [] \<and> pd_seat_lists db = [] \<and> pd_seats db = [] \<and> pd_groups db = []
     \<and> pd_commits db = [] \<and> pd_intents db = [] \<and> pd_key_packages db = []"

inductive reach :: "seat_lib \<Rightarrow> int \<Rightarrow> pc_db \<Rightarrow> bool" for lib where
  reach_start: "secure_start db \<Longrightarrow> reach lib t db"
| reach_step: "reach lib t db \<Longrightarrow> t \<le> t' \<Longrightarrow> route_checked op \<Longrightarrow> reach lib t' (secure_step lib t' op db)"

inductive_cases reach_cases: "reach lib t db"

text \<open>The contract of an invariant of the machine: it holds at the start, does not expire, and no
  operation breaks it.\<close>

locale secure_invariant =
  fixes lib :: seat_lib and I :: "int \<Rightarrow> pc_db \<Rightarrow> bool"
  assumes start: "secure_start db \<Longrightarrow> I t db"
    and later: "I t db \<Longrightarrow> t \<le> t' \<Longrightarrow> I t' db"
    and kept: "I t db \<Longrightarrow> route_checked op \<Longrightarrow> I t (secure_step lib t op db)"
begin

lemma holds: "reach lib t db \<Longrightarrow> I t db"
  by (induction rule: reach.induct) (auto intro: start later kept)

end

text \<open>A run of several operations, with their times.\<close>

fun secure_run :: "seat_lib \<Rightarrow> (int \<times> secure_op) list \<Rightarrow> pc_db \<Rightarrow> pc_db" where
  "secure_run lib [] db = db"
| "secure_run lib ((t, op) # ops) db = secure_run lib ops (secure_step lib t op db)"

fun run_time :: "int \<Rightarrow> (int \<times> secure_op) list \<Rightarrow> int" where
  "run_time t [] = t"
| "run_time t ((t', op) # ops) = run_time t' ops"

fun run_ok :: "int \<Rightarrow> (int \<times> secure_op) list \<Rightarrow> bool" where
  "run_ok t [] \<longleftrightarrow> True"
| "run_ok t ((t', op) # ops) \<longleftrightarrow> t \<le> t' \<and> route_checked op \<and> run_ok t' ops"

lemma reach_run: "reach lib t db \<Longrightarrow> run_ok t ops \<Longrightarrow> reach lib (run_time t ops) (secure_run lib ops db)"
proof (induction ops arbitrary: t db)
  case (Cons x ops)
  obtain t' op where x: "x = (t', op)" by (cases x)
  then have "reach lib t' (secure_step lib t' op db)" using Cons.prems by (auto intro: reach_step)
  then show ?case using Cons x by simp
qed simp

end
