(* ===== verification/Seat_Text_Props.thy ===== *)
theory Seat_Text_Props
  imports Seat_Lists
begin

text \<open>
  The canonical texts of protected channels: a seat list has one text and a text one seat list,
  and the data of a commit determines what it was made of.
\<close>

section \<open>Numbers and labels\<close>

lemma read_digits_snoc: "read_digits (ds @ [c]) = 10 * read_digits ds + ((of_char c :: nat) - 48)"
  by (simp add: read_digits_def)

lemma digit_char_of: "ascii_digit c \<Longrightarrow> digit_char ((of_char c :: nat) - 48) = c"
  by (simp add: ascii_digit_def digit_char_def)

lemma digit_value_less: "ascii_digit c \<Longrightarrow> (of_char c :: nat) - 48 < 10"
  by (auto simp: ascii_digit_def)

lemma read_digits_pos: "list_all ascii_digit ds \<Longrightarrow> ds \<noteq> [] \<Longrightarrow> hd ds \<noteq> CHR ''0'' \<Longrightarrow> 0 < read_digits ds"
proof (induction ds rule: rev_induct)
  case (snoc c ds)
  show ?case
  proof (cases ds)
    case Nil
    have "(of_char (CHR ''0'') :: nat) = 48" by simp
    then have "of_char c \<noteq> (48 :: nat)" using snoc.prems Nil of_char_eq_iff [of c "CHR ''0''"] by auto
    then show ?thesis using snoc.prems Nil by (auto simp: read_digits_def ascii_digit_def)
  next
    case (Cons d ds')
    then have "0 < read_digits ds" using snoc by auto
    then show ?thesis by (simp add: read_digits_snoc)
  qed
qed simp

text \<open>A text without a leading zero is the decimal of its value.\<close>

lemma decimal_read: "list_all ascii_digit ds \<Longrightarrow> ds \<noteq> [] \<Longrightarrow> length ds = 1 \<or> hd ds \<noteq> CHR ''0'' \<Longrightarrow> decimal (read_digits ds) = ds"
proof (induction ds rule: rev_induct)
  case (snoc c ds)
  show ?case
  proof (cases "ds = []")
    case True
    then show ?thesis
      using snoc.prems by (subst decimal.simps) (simp add: read_digits_def digit_value_less digit_char_of)
  next
    case False
    then have hd0: "hd ds \<noteq> CHR ''0''" using snoc.prems by auto
    have pos: "0 < read_digits ds" using read_digits_pos snoc.prems False hd0 by auto
    have "decimal (read_digits (ds @ [c])) = decimal (read_digits ds) @ [c]"
      using snoc.prems pos by (subst decimal.simps) (simp add: read_digits_snoc digit_value_less digit_char_of)
    then show ?thesis using snoc False hd0 by auto
  qed
qed simp

lemma parse_decimal_iff: "parse_canonical_decimal v = Some n \<longleftrightarrow> v = decimal n \<and> n < 2 ^ 64"
proof
  assume "parse_canonical_decimal v = Some n"
  then show "v = decimal n \<and> n < 2 ^ 64"
    using decimal_read [of v] by (cases v) (auto simp: parse_canonical_decimal_def split: if_splits)
next
  have no_zero: "1 < length (decimal n) \<Longrightarrow> hd (decimal n) \<noteq> CHR ''0''" for n
  proof (induction n rule: decimal.induct)
    case (1 n)
    show ?case
    proof (cases "n < 10")
      case True
      then show ?thesis using "1.prems" by (subst (asm) decimal.simps) simp
    next
      case False
      have dn: "decimal n = decimal (n div 10) @ [digit_char (n mod 10)]"
        using False by (subst decimal.simps) simp
      show ?thesis
      proof (cases "n div 10 < 10")
        case True
        have "decimal (n div 10) = [digit_char (n div 10)]" using True by (subst decimal.simps) simp
        moreover have "digit_char (n div 10) \<noteq> CHR ''0''"
        proof
          assume "digit_char (n div 10) = CHR ''0''"
          then have "(of_char (digit_char (n div 10)) :: nat) = 48" by simp
          then show False using True False by (simp add: digit_char_def of_char_of)
        qed
        ultimately show ?thesis using dn by simp
      next
        case big: False
        have "1 < length (decimal (n div 10))"
          using big decimal_not_Nil [of "n div 10 div 10"] by (subst decimal.simps) simp
        then show ?thesis using 1 False dn decimal_not_Nil [of "n div 10"] by simp
      qed
    qed
  qed
  assume "v = decimal n \<and> n < 2 ^ 64"
  then show "parse_canonical_decimal v = Some n"
    using no_zero [of n] by (auto simp: parse_canonical_decimal_def decimal_digits decimal_not_Nil read_decimal)
qed

lemma labeled_iff: "labeled line label = Some v \<longleftrightarrow> line = label @ '':'' @ v"
  by (auto simp: labeled_def strip_prefix_iff Option.bind_eq_Some_conv)

lemma field_iff: "field what lines i label = Inr v \<longleftrightarrow> lines ! i = label @ '':'' @ v"
  using labeled_iff [of "lines ! i" label v] by (auto simp: field_def invalid_def split: option.split)

lemma checked_field_iff:
  "checked_field what lines i label ok msg = Inr v \<longleftrightarrow> lines ! i = label @ '':'' @ v \<and> ok v"
  by (auto simp: checked_field_def andR_Inr field_iff invalid_def)

lemma number_field_iff:
  "number_field what lines i label ok msg = Inr n \<longleftrightarrow> lines ! i = label @ '':'' @ decimal n \<and> n < 2 ^ 64 \<and> ok n"
proof -
  have "(case parse_canonical_decimal v of Some n \<Rightarrow> if ok n then Inr n else invalid msg | None \<Rightarrow> invalid msg) = Inr n
      \<longleftrightarrow> v = decimal n \<and> n < 2 ^ 64 \<and> ok n" for v
    using parse_decimal_iff [of v n] by (auto simp: invalid_def split: option.split)
  then show ?thesis by (auto simp: number_field_def andR_Inr field_iff)
qed

lemmas field_iffs = field_iff checked_field_iff number_field_iff

section \<open>The seat list\<close>

text \<open>What a seat list must satisfy, as a condition on its contents.\<close>

definition seat_list_valid :: "seat_list_body \<Rightarrow> bool" where
  "seat_list_valid b \<longleftrightarrow> is_valid_ulid_id (bo_channel b) \<and> is_valid_ulid_id (bo_signer_user b)
     \<and> is_valid_device_id_hex (bo_signer_device b)
     \<and> 1 \<le> bo_version b \<and> bo_version b \<le> MAX_CANONICAL_INT \<and> bo_device_cap b < 2 ^ 32
     \<and> 0 \<le> bo_issued_at b \<and> bo_issued_at b \<le> MAX_CANONICAL_INT
     \<and> length (bo_seats b) \<le> MAX_SEAT_LIST_SEATS \<and> (\<forall>v\<in>set (bo_seats b). is_valid_ulid_id v)
     \<and> sorted_wrt (<) (bo_seats b) \<and> bo_signer_user b \<in> set (bo_seats b)"

lemma ascending_sorted: "ascending xs \<longleftrightarrow> sorted_wrt (<) xs"
proof (induction xs rule: ascending.induct)
  case (1 x y ys)
  then show ?case by (auto intro: less_trans)
qed auto

lemma canonical_seats: "sorted_wrt (<) xs \<Longrightarrow> remdups_adj (sort xs) = xs" for xs :: "string list"
  by (metis remdups_adj_distinct sorted_sort_id strict_sorted_iff)

lemma strict_remdups_adj: "sorted xs \<Longrightarrow> sorted_wrt (<) (remdups_adj xs)" for xs :: "string list"
proof (induction xs rule: remdups_adj.induct)
  case (3 x y xs)
  then show ?case by (auto simp: less_le dest: order.antisym)
qed auto

lemma sorted_canonical: "sorted_wrt (<) (remdups_adj (sort xs))" for xs :: "string list"
  by (simp add: strict_remdups_adj)

lemma ulid_chars: "is_valid_ulid_id v \<Longrightarrow> c \<in> set v \<Longrightarrow> ulid_char c"
  by (auto simp: is_valid_ulid_id_def list_all_iff)

lemma ulid_plain: "is_valid_ulid_id v \<Longrightarrow> CHR '','' \<notin> set v \<and> CHR '':'' \<notin> set v \<and> CHR 0x0A \<notin> set v \<and> CHR 0x0D \<notin> set v"
  using ulid_chars [of v "CHR '',''"] ulid_chars [of v "CHR '':''"] ulid_chars [of v "CHR 0x0A"] ulid_chars [of v "CHR 0x0D"]
  by (auto simp: ulid_char_def)

lemma device_plain: "is_valid_device_id_hex v \<Longrightarrow> CHR 0x0A \<notin> set v \<and> CHR 0x0D \<notin> set v"
  by (auto simp: is_valid_device_id_hex_def list_all_iff hex_char_def Let_def)

lemma decimal_plain: "CHR 0x0A \<notin> set (decimal n) \<and> CHR 0x0D \<notin> set (decimal n)"
  using decimal_digits [of n] by (auto simp: list_all_iff ascii_digit_def)

lemma decimal_length: "n < 10 ^ Suc k \<Longrightarrow> length (decimal n) \<le> Suc k"
proof (induction k arbitrary: n)
  case 0
  then show ?case by (subst decimal.simps) simp
next
  case (Suc k)
  have "length (decimal (n div 10)) \<le> Suc k" using Suc.prems by (intro Suc.IH) simp
  then show ?case by (subst decimal.simps) simp
qed

lemma join_ulids_length: "\<forall>v\<in>set vs. is_valid_ulid_id v \<Longrightarrow> length (join_on c vs) \<le> 27 * length vs"
  by (induction c vs rule: join_on.induct) (auto simp: is_valid_ulid_id_def)

lemma split_seats:
  "vs \<noteq> [] \<Longrightarrow> \<forall>v\<in>set vs. is_valid_ulid_id v \<Longrightarrow> split_on CHR '','' (join_on CHR '','' vs) = vs"
  using ulid_plain by (intro split_join) (auto simp: list_all_iff)

lemma parse_seats_iff:
  "parse_seats line signer = Inr vs \<longleftrightarrow> line = join_on CHR '','' vs \<and> length vs \<le> MAX_SEAT_LIST_SEATS
     \<and> (\<forall>v\<in>set vs. is_valid_ulid_id v) \<and> sorted_wrt (<) vs \<and> signer \<in> set vs" (is "?l \<longleftrightarrow> ?r")
proof
  assume ?l
  then have "vs = split_on CHR '','' line"
    by (auto simp: parse_seats_def invalid_def Let_def split: if_splits)
  then show ?r using \<open>?l\<close>
    by (auto simp: parse_seats_def invalid_def Let_def list_all_iff list_ex_iff ascending_sorted split: if_splits)
next
  assume r: ?r
  then have ne: "vs \<noteq> []" by auto
  then have "line \<noteq> []" using r by (cases vs; cases "tl vs") (auto simp: is_valid_ulid_id_def)
  then show ?l using r split_seats [OF ne]
    by (simp add: parse_seats_def Let_def list_all_iff list_ex_iff ascending_sorted)
qed


lemma canonical_seats_set: "set (remdups_adj (sort xs)) = set xs" for xs :: "string list"
  by simp

lemma seat_list_text_lines:
  assumes "seat_list_valid b"
  defines "lines \<equiv> [CONTEXT_SEAT_LIST, ''v:1'', ''channel_id:'' @ bo_channel b, ''version:'' @ decimal (nat (bo_version b)),
      ''device_cap:'' @ decimal (bo_device_cap b), ''issued_at:'' @ decimal (nat (bo_issued_at b)),
      ''signer_user_id:'' @ bo_signer_user b, ''signer_device_id:'' @ bo_signer_device b,
      ''seats:'' @ join_on CHR '','' (bo_seats b)]"
  shows "seat_list_text b = join_on CHR 0x0A lines" and "split_on CHR 0x0A (seat_list_text b) = lines"
    and "CHR 0x0D \<notin> set (seat_list_text b)" and "length (seat_list_text b) \<le> MAX_SEAT_LIST_BODY_LEN"
proof -
  have seats: "CHR 0x0A \<notin> set (join_on CHR '','' (bo_seats b))" "CHR 0x0D \<notin> set (join_on CHR '','' (bo_seats b))"
    using assms(1) ulid_plain set_join [of "CHR '',''" "bo_seats b"] by (auto simp: seat_list_valid_def)
  note plain = seats ulid_plain device_plain decimal_plain
  show joined: "seat_list_text b = join_on CHR 0x0A lines"
    using assms(1) by (simp add: seat_list_text_def lines_def seat_list_valid_def show_i64_def canonical_seats)
  have lf: "list_all (\<lambda>p. CHR 0x0A \<notin> set p) lines" and cr: "list_all (\<lambda>p. CHR 0x0D \<notin> set p) lines"
    using assms(1) plain by (simp_all add: lines_def seat_list_valid_def CONTEXT_SEAT_LIST_def)
  show "split_on CHR 0x0A (seat_list_text b) = lines"
    using lf unfolding joined by (intro split_join) (simp_all add: lines_def)
  show "CHR 0x0D \<notin> set (seat_list_text b)"
    using cr set_join [of "CHR 0x0A" lines] unfolding joined by (auto simp: list_all_iff)
  have "length (decimal (nat (bo_version b))) \<le> Suc 15" "length (decimal (bo_device_cap b)) \<le> Suc 9"
    "length (decimal (nat (bo_issued_at b))) \<le> Suc 15"
    using assms(1) decimal_length [of "nat (bo_version b)" 15] decimal_length [of "bo_device_cap b" 9]
      decimal_length [of "nat (bo_issued_at b)" 15]
    by (simp_all add: seat_list_valid_def seat_limits nat_less_iff)
  moreover have "length (join_on CHR '','' (bo_seats b)) \<le> 27 * 100"
    using assms(1) join_ulids_length [of "bo_seats b" "CHR '',''"] by (auto simp: seat_list_valid_def seat_limits)
  ultimately show "length (seat_list_text b) \<le> MAX_SEAT_LIST_BODY_LEN"
    using assms(1) unfolding joined
    by (simp add: lines_def seat_list_valid_def seat_limits CONTEXT_SEAT_LIST_def is_valid_ulid_id_def is_valid_device_id_hex_def)
qed

lemma decimal_eq [simp]: "decimal m = decimal n \<longleftrightarrow> m = n"
  by (metis read_decimal)

lemma seat_list_parse_text:
  assumes "seat_list_valid b"
  shows "seat_list_parse (seat_list_text b) = Inr b"
proof -
  have "parse_seats (join_on CHR '','' (bo_seats b)) (bo_signer_user b) = Inr (bo_seats b)"
    using assms by (simp add: parse_seats_iff seat_list_valid_def)
  then show ?thesis
    using assms seat_list_text_lines(2-4) [OF assms]
    by (simp add: seat_list_parse_def Let_def andR_Inr field_iffs seat_list_valid_def seat_limits nat_less_iff nat_le_iff Suc_le_eq)
qed

lemma seat_list_parse_iff: "seat_list_parse body = Inr b \<longleftrightarrow> seat_list_valid b \<and> body = seat_list_text b"
proof
  assume p: "seat_list_parse body = Inr b"
  define lines where "lines = split_on CHR 0x0A body"
  have n: "length lines = 9" using p by (auto simp: seat_list_parse_def lines_def invalid_def Let_def split: if_splits)
  then obtain l0 l1 l2 l3 l4 l5 l6 l7 l8 where ls: "lines = [l0, l1, l2, l3, l4, l5, l6, l7, l8]"
    by (auto simp: length_Suc_conv eval_nat_numeral)
  have valid: "seat_list_valid b" and fs: "l0 = CONTEXT_SEAT_LIST" "l1 = ''v:1''" "l2 = ''channel_id:'' @ bo_channel b"
    "l3 = ''version:'' @ decimal (nat (bo_version b))" "l4 = ''device_cap:'' @ decimal (bo_device_cap b)"
    "l5 = ''issued_at:'' @ decimal (nat (bo_issued_at b))" "l6 = ''signer_user_id:'' @ bo_signer_user b"
    "l7 = ''signer_device_id:'' @ bo_signer_device b" "l8 = ''seats:'' @ join_on CHR '','' (bo_seats b)"
    using p unfolding seat_list_parse_def Let_def lines_def [symmetric] ls
    by (auto simp: invalid_def andR_Inr field_iffs parse_seats_iff seat_list_valid_def split: if_splits)
  have "body = join_on CHR 0x0A lines" by (simp add: lines_def)
  then show "seat_list_valid b \<and> body = seat_list_text b"
    using valid seat_list_text_lines(1) [OF valid] by (simp add: ls fs)
qed (auto simp: seat_list_parse_text)

text \<open>C22: A text is accepted as a seat list exactly when it is the text of a valid seat list, which
  is then the value read: a valid list has one text, and a text at most one list. A valid list
  is never refused for its length.\<close>

theorem seat_list_canonical: "seat_list_parse body = Inr b \<longleftrightarrow> seat_list_valid b \<and> body = seat_list_text b"
  by (rule seat_list_parse_iff)

section \<open>The data of a commit\<close>

text \<open>A field is its length in two bytes and its bytes, so that what follows it starts at a known
  place.\<close>

definition ad_field :: "string \<Rightarrow> string" where
  "ad_field bytes = u16_be (length bytes) @ bytes"

definition handover_fields :: "seat_lib \<Rightarrow> signed_handover \<Rightarrow> string" where
  "handover_fields lib h = ad_field (sh_body h) @ ad_field (the (lib_b64 lib (sh_signature h)))"

definition handover_ok :: "seat_lib \<Rightarrow> signed_handover \<Rightarrow> bool" where
  "handover_ok lib h \<longleftrightarrow> length (sh_body h) \<le> MAX_HANDOVER_BODY_LEN
     \<and> is_some_and (\<lambda>raw. length raw = 64) (lib_b64 lib (sh_signature h))"

lemma u16_be_eq: "m < 65536 \<Longrightarrow> n < 65536 \<Longrightarrow> u16_be m = u16_be n \<longleftrightarrow> m = n"
proof -
  assume "m < 65536" "n < 65536"
  moreover have "(char_of a :: char) = char_of b \<longleftrightarrow> a = b" if "a < 256" "b < 256" for a b :: nat
  proof -
    have "(of_char (char_of a :: char) :: nat) = a" "(of_char (char_of b :: char) :: nat) = b"
      using that by (simp_all add: of_char_of)
    then show ?thesis by metis
  qed
  ultimately show ?thesis by (auto simp: u16_be_def) (metis div_mult_mod_eq)
qed

lemma ad_field_append:
  "length x < 65536 \<Longrightarrow> length y < 65536 \<Longrightarrow> ad_field x @ r = ad_field y @ r' \<longleftrightarrow> x = y \<and> r = r'"
  using u16_be_eq [of "length x" "length y"] by (auto simp: ad_field_def u16_be_def)

lemma push_ad_field_iff: "push_ad_field out bytes = Inr ad \<longleftrightarrow> length bytes < 65536 \<and> ad = out @ ad_field bytes"
  by (auto simp: push_ad_field_def ad_field_def invalid_def)

lemma decode_signature_iff:
  "decode_signature_b64 lib s = Inr raw \<longleftrightarrow> length s = SIGNATURE_B64_LEN \<and> lib_b64 lib s = Some raw \<and> length raw = 64"
  by (auto simp: decode_signature_b64_def invalid_def split: option.split)

lemma push_handovers_Inr:
  "push_handovers lib hs out = Inr ad \<Longrightarrow> list_all (handover_ok lib) hs \<and> ad = out @ concat (map (handover_fields lib) hs)"
proof (induction hs arbitrary: out)
  case (Cons h hs)
  then obtain raw where "length (sh_body h) \<le> MAX_HANDOVER_BODY_LEN" "lib_b64 lib (sh_signature h) = Some raw" "length raw = 64"
      and rest: "push_handovers lib hs (out @ ad_field (sh_body h) @ ad_field raw) = Inr ad"
    by (auto simp: andR_Inr push_ad_field_iff decode_signature_iff invalid_def split: if_splits)
  then show ?case using Cons.IH [OF rest] by (simp add: handover_ok_def handover_fields_def)
qed simp

lemma handover_fields_append:
  assumes "handover_ok lib h" "handover_ok lib h'" "handover_fields lib h @ r = handover_fields lib h' @ r'"
  shows "sh_body h = sh_body h' \<and> lib_b64 lib (sh_signature h) = lib_b64 lib (sh_signature h') \<and> r = r'"
  using assms by (auto simp: handover_ok_def handover_fields_def ad_field_append is_some_and_iff seat_limits)

lemma handover_chain_eq:
  "\<lbrakk>list_all (handover_ok lib) hs; list_all (handover_ok lib) hs'; length hs = length hs';
    concat (map (handover_fields lib) hs) = concat (map (handover_fields lib) hs')\<rbrakk>
   \<Longrightarrow> map (\<lambda>h. (sh_body h, lib_b64 lib (sh_signature h))) hs = map (\<lambda>h. (sh_body h, lib_b64 lib (sh_signature h))) hs'"
proof (induction hs arbitrary: hs')
  case (Cons h hs)
  then obtain h' hs'' where "hs' = h' # hs''" by (cases hs') auto
  then show ?case using Cons handover_fields_append [of lib h h'] by auto
qed simp

lemma commit_ad_Inr:
  assumes "commit_ad lib l = Inr ad"
  obtains raw where "lib_b64 lib (sl_signature l) = Some raw" "length raw = 64" "length (sl_body l) < 65536"
    "length (sl_handovers l) < 65536" "list_all (handover_ok lib) (sl_handovers l)" "length ad \<le> MAX_COMMIT_AD_LEN"
    "ad = ad_field CONTEXT_COMMIT_AD @ ad_field (sl_body l) @ ad_field raw @ u16_be (length (sl_handovers l))
       @ concat (map (handover_fields lib) (sl_handovers l))"
  using assms
  by (auto simp: commit_ad_def andR_Inr push_ad_field_iff decode_signature_iff invalid_def seat_limits
      dest!: push_handovers_Inr split: if_splits)

text \<open>C21: The data a commit carries determines the seat list it was made of, to the byte: the body,
  the raw signature and, in order, the body and the raw signature of every handover; so two
  different histories of a channel never share it. It fits the length the commit allows.\<close>

theorem commit_ad_injective:
  assumes "commit_ad lib l = Inr ad" and "commit_ad lib l' = Inr ad"
  shows "sl_body l = sl_body l' \<and> lib_b64 lib (sl_signature l) = lib_b64 lib (sl_signature l')
    \<and> map (\<lambda>h. (sh_body h, lib_b64 lib (sh_signature h))) (sl_handovers l)
        = map (\<lambda>h. (sh_body h, lib_b64 lib (sh_signature h))) (sl_handovers l')
    \<and> length ad \<le> MAX_COMMIT_AD_LEN"
proof -
  from assms(1) obtain raw where r: "lib_b64 lib (sl_signature l) = Some raw" "length raw = 64" "length (sl_body l) < 65536"
    "length (sl_handovers l) < 65536" "list_all (handover_ok lib) (sl_handovers l)" "length ad \<le> MAX_COMMIT_AD_LEN"
    "ad = ad_field CONTEXT_COMMIT_AD @ ad_field (sl_body l) @ ad_field raw @ u16_be (length (sl_handovers l))
       @ concat (map (handover_fields lib) (sl_handovers l))"
    by (rule commit_ad_Inr)
  from assms(2) obtain raw' where r': "lib_b64 lib (sl_signature l') = Some raw'" "length raw' = 64" "length (sl_body l') < 65536"
    "length (sl_handovers l') < 65536" "list_all (handover_ok lib) (sl_handovers l')"
    "ad = ad_field CONTEXT_COMMIT_AD @ ad_field (sl_body l') @ ad_field raw' @ u16_be (length (sl_handovers l'))
       @ concat (map (handover_fields lib) (sl_handovers l'))"
    by (rule commit_ad_Inr)
  have "ad_field CONTEXT_COMMIT_AD @ ad_field (sl_body l) @ ad_field raw @ u16_be (length (sl_handovers l))
       @ concat (map (handover_fields lib) (sl_handovers l))
     = ad_field CONTEXT_COMMIT_AD @ ad_field (sl_body l') @ ad_field raw' @ u16_be (length (sl_handovers l'))
       @ concat (map (handover_fields lib) (sl_handovers l'))"
    using r(7) r'(6) by simp
  then have "u16_be (length (sl_handovers l)) @ concat (map (handover_fields lib) (sl_handovers l))
      = u16_be (length (sl_handovers l')) @ concat (map (handover_fields lib) (sl_handovers l'))"
    and bodies: "sl_body l = sl_body l'" "raw = raw'"
    using r(2,3) r'(2,3) by (simp_all add: ad_field_append)
  then have "length (sl_handovers l) = length (sl_handovers l')"
    and "concat (map (handover_fields lib) (sl_handovers l)) = concat (map (handover_fields lib) (sl_handovers l'))"
    using u16_be_eq [of "length (sl_handovers l)" "length (sl_handovers l')"] r(4) r'(4) by (simp_all add: u16_be_def)
  then show ?thesis using handover_chain_eq [OF r(5) r'(5)] r(1,6) r'(1) bodies by simp
qed

definition plain_list :: "int \<Rightarrow> seat_list" where
  "plain_list t = \<lparr>sl_id = [], sl_version = 1, sl_body = ''b'', sl_signer_user = [], sl_signer_device = [],
     sl_signature = replicate 86 CHR ''A'', sl_handovers = [], sl_updated_at = t\<rparr>"

theorem commit_ad_injective_witness:
  "\<exists>lib ad. commit_ad lib (plain_list 0) = Inr ad \<and> commit_ad lib (plain_list 9) = Inr ad \<and> length ad \<le> MAX_COMMIT_AD_LEN"
proof -
  let ?lib = "\<lparr>lib_b64 = (\<lambda>s. Some (take 64 s)), lib_sha256 = take 32, lib_add_days = (\<lambda>t d. Some (t + d * 86400000)),
     lib_sub_seconds = (\<lambda>t n. Some (t - n * 1000))\<rparr>"
  have "\<exists>ad. commit_ad ?lib (plain_list t) = Inr ad" for t
    by (simp add: commit_ad_def plain_list_def push_ad_field_def decode_signature_b64_def SIGNATURE_B64_LEN_def seat_limits
        CONTEXT_COMMIT_AD_def u16_be_def andR_Inr)
  then obtain ad where "commit_ad ?lib (plain_list 0) = Inr ad" by blast
  moreover have "commit_ad ?lib (plain_list 9) = commit_ad ?lib (plain_list 0)" by (simp add: commit_ad_def plain_list_def)
  ultimately show ?thesis using commit_ad_injective [of ?lib "plain_list 0" ad "plain_list 9"] by auto
qed

end
