(* ===== verification/Seat_Invariants.thy ===== *)
theory Seat_Invariants
  imports Secure_Steps Seat_Text_Props
begin

text \<open>
  The invariants of seats and entitlements, and what a plan writes.
\<close>

section \<open>Tables\<close>

lemma keyed_filter: "keyed key t \<Longrightarrow> keyed key (filter P t)"
  by (auto simp: keyed_def distinct_map_filter)

lemma keyed_map_rows: "keyed key t \<Longrightarrow> (\<And>r. key (f r) = key r) \<Longrightarrow> keyed key (map (\<lambda>(k, r). (k, f r)) t)"
  by (auto simp: keyed_def case_prod_unfold comp_def)

lemma map_of_map_rows: "map_of (map (\<lambda>(k, r). (k, f r)) t) k = map_option f (map_of t k)"
  by (induction t) auto

lemma map_of_filter_rows: "distinct (map fst t) \<Longrightarrow> map_of (filter (\<lambda>(k, r). P k r) t) k = (case map_of t k of Some r \<Rightarrow> if P k r then Some r else None | None \<Rightarrow> None)"
  by (induction t) (auto split: option.split simp: map_of_eq_None_iff image_iff)

lemma keyed_distinct: "keyed key t \<Longrightarrow> distinct (map fst t)"
  by (simp add: keyed_def)

lemma keyed_foldl_update: "keyed key t \<Longrightarrow> keyed key (foldl (\<lambda>t r. AList.update (key r) r t) t rs)"
  by (induction rs arbitrary: t) (auto intro: keyed_update)

lemma keyed_foldl_delete: "keyed key t \<Longrightarrow> keyed key (foldl (\<lambda>t i. AList.delete i t) t is)"
  by (induction "is" arbitrary: t) (auto intro: keyed_delete)

lemma map_of_foldl_delete: "map_of (foldl (\<lambda>t i. AList.delete i t) t is) k = (if k \<in> set is then None else map_of t k)"
  by (induction "is" arbitrary: t) (auto simp: table_simps)

lemma map_of_foldl_update:
  "map_of (foldl (\<lambda>t r. AList.update (key r) r t) t rs) k = Some r \<Longrightarrow>
     r \<in> set rs \<and> key r = k \<or> k \<notin> key ` set rs \<and> map_of t k = Some r"
  by (induction rs arbitrary: t) (fastforce simp: table_simps split: if_splits)+

lemma map_of_foldl_update_old:
  "k \<notin> key ` set rs \<Longrightarrow> map_of (foldl (\<lambda>t r. AList.update (key r) r t) t rs) k = map_of t k"
  by (induction rs arbitrary: t) (auto simp: table_simps)

lemma map_of_foldl_update_new:
  "r \<in> set rs \<Longrightarrow> \<exists>r'\<in>set rs. key r' = key r \<and> map_of (foldl (\<lambda>t r. AList.update (key r) r t) t rs) (key r) = Some r'"
proof (induction rs arbitrary: t r)
  case (Cons x rs)
  show ?case
  proof (cases "key r \<in> key ` set rs")
    case True
    then obtain r' where "r' \<in> set rs" "key r = key r'" by auto
    then show ?thesis using Cons.IH [OF \<open>r' \<in> set rs\<close>, of "AList.update (key x) x t"] by auto
  next
    case False
    then have "r = x" using Cons.prems by auto
    then show ?thesis using map_of_foldl_update_old [OF False] by (auto simp: table_simps)
  qed
qed simp

text \<open>The rows that satisfy a condition, counted by their keys.\<close>

definition keys_where :: "('r \<Rightarrow> bool) \<Rightarrow> ('k, 'r) table \<Rightarrow> 'k set" where
  "keys_where P t = {k. is_some_and P (map_of t k)}"

lemma finite_keys_where [simp]: "finite (keys_where P t)"
proof -
  have "keys_where P t \<subseteq> dom (map_of t)" by (auto simp: keys_where_def is_some_and_iff)
  then show ?thesis using finite_dom_map_of finite_subset by blast
qed

lemma count_keys: "keyed key t \<Longrightarrow> length (filter P (rows t)) = card (keys_where P t)"
proof (induction t)
  case (Cons p t)
  obtain k r where p: "p = (k, r)" by (cases p)
  have k: "keyed key t" and new: "map_of t k = None"
    using Cons.prems p by (auto simp: keyed_def map_of_eq_None_iff image_iff)
  have "keys_where P (p # t) = (if P r then insert k (keys_where P t) else keys_where P t)"
    using new p by (auto simp: keys_where_def is_some_and_iff)
  moreover have "k \<notin> keys_where P t" using new by (simp add: keys_where_def)
  ultimately show ?case using Cons.IH [OF k] p by (auto simp: rows_def)
qed (simp add: keys_where_def rows_def)

section \<open>Seats\<close>

text \<open>A seat is stored under the text of its channel and its user, both valid ids, so there is at
  most one per channel and user; a channel has at most one entitlement; and the seats that
  count are within its slots.\<close>

definition seats_wf :: "pc_db \<Rightarrow> bool" where
  "seats_wf db \<longleftrightarrow> keyed se_id (pd_seats db) \<and> (\<forall>k s. map_of (pd_seats db) k = Some s \<longrightarrow>
     is_valid_ulid_id (se_channel s) \<and> is_valid_ulid_id (se_user s) \<and> k = composite_id (se_channel s) (se_user s))"

definition entitlements_wf :: "pc_db \<Rightarrow> bool" where
  "entitlements_wf db \<longleftrightarrow> keyed ent_id (pd_entitlements db) \<and> (\<forall>k k' e e'. map_of (pd_entitlements db) k = Some e \<longrightarrow>
     map_of (pd_entitlements db) k' = Some e' \<longrightarrow> ent_channel e = ent_channel e' \<longrightarrow> e = e')"

definition seats_used :: "pc_db \<Rightarrow> string \<Rightarrow> int \<Rightarrow> nat" where
  "seats_used db channel now = channel_seats_used (channel_seats db channel) now"

definition within_cap :: "int \<Rightarrow> pc_db \<Rightarrow> bool" where
  "within_cap now db \<longleftrightarrow> (\<forall>channel e. entitlement_of db channel = Some e \<longrightarrow> seats_used db channel now \<le> ent_slot_cap e)"

definition seat_inv :: "int \<Rightarrow> pc_db \<Rightarrow> bool" where
  "seat_inv now db \<longleftrightarrow> seats_wf db \<and> entitlements_wf db \<and> within_cap now db"

definition counted :: "pc_db \<Rightarrow> string \<Rightarrow> int \<Rightarrow> string set" where
  "counted db channel now = keys_where (\<lambda>s. se_channel s = channel \<and> counts_against_cap now s) (pd_seats db)"

lemma seats_used_card: "seats_wf db \<Longrightarrow> seats_used db channel now = card (counted db channel now)"
  using count_keys [of se_id "pd_seats db"]
  by (simp add: seats_wf_def seats_used_def counted_def channel_seats_def channel_seats_used_def conj_commute)

lemma finite_counted [simp]: "finite (counted db channel now)"
  by (simp add: counted_def)

lemma composite_id_eq:
  "is_valid_ulid_id c \<Longrightarrow> is_valid_ulid_id c' \<Longrightarrow> composite_id c v = composite_id c' v' \<longleftrightarrow> c = c' \<and> v = v'"
  by (auto simp: composite_id_def is_valid_ulid_id_def)

lemma entitlement_of_iff:
  "entitlements_wf db \<Longrightarrow> entitlement_of db channel = Some e \<longleftrightarrow> map_of (pd_entitlements db) (ent_id e) = Some e \<and> ent_channel e = channel"
proof -
  assume wf: "entitlements_wf db"
  then have k: "keyed ent_id (pd_entitlements db)" by (simp add: entitlements_wf_def)
  show ?thesis
  proof
    assume "entitlement_of db channel = Some e"
    then show "map_of (pd_entitlements db) (ent_id e) = Some e \<and> ent_channel e = channel"
      using keyed_find_key [OF k] by (auto simp: entitlement_of_def dest: find_Some_P)
  next
    assume e: "map_of (pd_entitlements db) (ent_id e) = Some e \<and> ent_channel e = channel"
    then have "\<exists>e'. entitlement_of db channel = Some e'"
      using rows_lookup [of "pd_entitlements db" "ent_id e" e] find_None_ex [of "\<lambda>e. ent_channel e = channel" "rows (pd_entitlements db)"]
      by (cases "entitlement_of db channel") (auto simp: entitlement_of_def)
    then obtain e' where e': "entitlement_of db channel = Some e'" by blast
    then have "map_of (pd_entitlements db) (ent_id e') = Some e'" "ent_channel e' = channel"
      using keyed_find_key [OF k] by (auto simp: entitlement_of_def dest: find_Some_P)
    then have "e' = e" using e wf unfolding entitlements_wf_def by metis
    then show "entitlement_of db channel = Some e" using e' by simp
  qed
qed

text \<open>The row of a user among the seats of a channel.\<close>

lemma seat_lookup:
  assumes "seats_wf db" "is_valid_ulid_id channel" "is_valid_ulid_id v"
  shows "List.find (\<lambda>s. se_user s = v) (channel_seats db channel) = map_of (pd_seats db) (composite_id channel v)"
proof -
  have k: "keyed se_id (pd_seats db)" using assms(1) by (simp add: seats_wf_def)
  have in_rows: "s \<in> set (channel_seats db channel) \<and> se_user s = v \<longleftrightarrow> map_of (pd_seats db) (composite_id channel v) = Some s" for s
  proof -
    have row: "s \<in> set (rows (pd_seats db)) \<longleftrightarrow> map_of (pd_seats db) (se_id s) = Some s" by (rule keyed_rows_iff [OF k])
    have id: "i = se_id s \<and> i = composite_id (se_channel s) (se_user s) \<and> is_valid_ulid_id (se_channel s)"
      if "map_of (pd_seats db) i = Some s" for i
      using that assms(1) keyed_lookup_key [OF k that] unfolding seats_wf_def by blast
    show ?thesis
    proof
      assume "s \<in> set (channel_seats db channel) \<and> se_user s = v"
      then show "map_of (pd_seats db) (composite_id channel v) = Some s"
        using row id [of "se_id s"] by (auto simp: channel_seats_def)
    next
      assume s: "map_of (pd_seats db) (composite_id channel v) = Some s"
      then show "s \<in> set (channel_seats db channel) \<and> se_user s = v"
        using row id [OF s] composite_id_eq [OF assms(2), of "se_channel s" v "se_user s"] by (auto simp: channel_seats_def)
    qed
  qed
  show ?thesis
  proof (cases "map_of (pd_seats db) (composite_id channel v)")
    case None
    then show ?thesis using in_rows by (auto simp: find_None_ex)
  next
    case (Some s)
    then have "List.find (\<lambda>s. se_user s = v) (channel_seats db channel) \<noteq> None"
      using in_rows [of s] by (auto simp: find_None_ex)
    then obtain s' where s': "List.find (\<lambda>s. se_user s = v) (channel_seats db channel) = Some s'" by blast
    then have "map_of (pd_seats db) (composite_id channel v) = Some s'" using in_rows [of s'] find_Some_P [OF s'] by blast
    then show ?thesis using s' by simp
  qed
qed

section \<open>Plans\<close>

definition new_slot :: "channel_seat list \<Rightarrow> int \<Rightarrow> string \<Rightarrow> bool" where
  "new_slot seats now v = (case List.find (\<lambda>s. se_user s = v) seats of Some s \<Rightarrow> \<not> counts_against_cap now s | None \<Rightarrow> True)"

definition claimable :: "channel_seat list \<Rightarrow> string \<Rightarrow> bool" where
  "claimable seats v = (case List.find (\<lambda>s. se_user s = v) seats of Some s \<Rightarrow> \<not> seat_active s | None \<Rightarrow> True)"

definition claim_row :: "string \<Rightarrow> channel_seat list \<Rightarrow> int \<Rightarrow> string \<Rightarrow> channel_seat" where
  "claim_row channel seats now v = (case List.find (\<lambda>s. se_user s = v) seats of
     Some s \<Rightarrow> seat_reactivate now s
   | None \<Rightarrow> \<lparr>se_id = composite_id channel v, se_channel = channel, se_user = v, se_seated_at = now,
       se_released_at = None, se_cooldown_until = None\<rparr>)"

lemma claim_seats_eq:
  "claim_seats channel seats now vs =
     (map (claim_row channel seats now) (filter (claimable seats) vs), filter (claimable seats) vs, length (filter (new_slot seats now) vs))"
  by (induction vs)
    (auto simp: claim_row_def claimable_def new_slot_def counts_against_cap_def split: option.split)

definition leaving :: "string list \<Rightarrow> channel_seat \<Rightarrow> bool" where
  "leaving desired s \<longleftrightarrow> seat_active s \<and> se_user s \<notin> set desired"

lemma release_seats_Inr:
  "release_seats lib now desired ss = Inr (rs, released) \<Longrightarrow>
     list_all2 (\<lambda>s r. seat_release lib now s = Inr r) (filter (leaving desired) ss) rs \<and> released = map se_user (filter (leaving desired) ss)"
  by (induction ss arbitrary: rs released) (fastforce simp: leaving_def andR_Inr split: if_splits)+

lemma seat_release_Inr:
  "seat_release lib now s = Inr r \<Longrightarrow> \<exists>until. r = s\<lparr>se_released_at := Some now, se_cooldown_until := Some until\<rparr>"
  by (auto simp: seat_release_def andR_Inr)

definition planned_row :: "seat_list_write_input \<Rightarrow> seat_list_body \<Rightarrow> signed_handover list \<Rightarrow> seat_list" where
  "planned_row w body handovers = \<lparr>sl_id = wi_channel w, sl_version = bo_version body, sl_body = ss_body (wi_submission w),
     sl_signer_user = bo_signer_user body, sl_signer_device = bo_signer_device body,
     sl_signature = ss_signature (wi_submission w), sl_handovers = handovers, sl_updated_at = wi_now w\<rparr>"

text \<open>Everything an accepted change says, over the users of the list itself.\<close>

lemma plan_Apply:
  assumes "plan_seat_list_write lib w = Inr (Apply p)"
  obtains body rs handovers where
    "seat_list_parse (ss_body (wi_submission w)) = Inr body" "bo_channel body = wi_channel w"
    "version_rule (wi_kind w) (wi_stored w) (wi_submission w) body = Inr None"
    "seat_list_removed_users body (wi_stored w) (wi_seats w) = Inr []"
    "list_all2 (\<lambda>s r. seat_release lib (wi_now w) s = Inr r) (filter (leaving (bo_seats body)) (wi_seats w)) rs"
    "check_claims w (filter (claimable (wi_seats w)) (bo_seats body)) (length (filter (new_slot (wi_seats w) (wi_now w)) (bo_seats body))) = Inr ()"
    "pending_added w (bo_seats body) = Inr (wp_pending_added p)"
    "wp_row p = planned_row w body handovers"
    "wp_seat_rows p = sort_key se_id (map (claim_row (wi_channel w) (wi_seats w) (wi_now w)) (filter (claimable (wi_seats w)) (bo_seats body)) @ rs)"
    "wp_claimed p = sort (filter (claimable (wi_seats w)) (bo_seats body))"
    "commit_ad_sha256 lib (wp_row p) = Inr (wp_seat_list_ad p)"
proof -
  from assms obtain body where b: "seat_list_parse (ss_body (wi_submission w)) = Inr body" "bo_channel body = wi_channel w"
      "version_rule (wi_kind w) (wi_stored w) (wi_submission w) body = Inr None"
      "seat_list_removed_users body (wi_stored w) (wi_seats w) = Inr []" and a: "plan_apply lib w body = Inr (Apply p)"
    by (auto simp: plan_seat_list_write_def Let_def andR_Inr invalid_def split: if_splits option.splits)
  have seats: "remdups_adj (sort (bo_seats body)) = bo_seats body"
    using b(1) by (simp add: seat_list_parse_iff seat_list_valid_def canonical_seats)
  show ?thesis
    using a b unfolding plan_apply_def seats claim_seats_eq Let_def
    by (auto simp: andR_Inr invalid_def planned_row_def dest!: release_seats_Inr split: if_splits prod.splits intro!: that)
qed

end
