(* ===== verification/Seat_Writes.thy ===== *)
theory Seat_Writes
  imports Seat_Invariants
begin

text \<open>
  What an accepted change of the seat list does to the seats of its channel and of the others.
\<close>

definition plan_for :: "pc_db \<Rightarrow> seat_lib \<Rightarrow> seat_list_write_input \<Rightarrow> seat_list_write_plan \<Rightarrow> seat_list_body \<Rightarrow> bool" where
  "plan_for db lib w p body \<longleftrightarrow> seats_wf db \<and> wi_seats w = channel_seats db (wi_channel w)
     \<and> plan_seat_list_write lib w = Inr (Apply p) \<and> seat_list_parse (ss_body (wi_submission w)) = Inr body"

lemma plan_for_parts:
  assumes "plan_for db lib w p body"
  obtains rs where
    "bo_channel body = wi_channel w" "is_valid_ulid_id (wi_channel w)" "\<forall>v\<in>set (bo_seats body). is_valid_ulid_id v"
    "distinct (bo_seats body)"
    "list_all2 (\<lambda>s r. seat_release lib (wi_now w) s = Inr r) (filter (leaving (bo_seats body)) (wi_seats w)) rs"
    "check_claims w (filter (claimable (wi_seats w)) (bo_seats body)) (length (filter (new_slot (wi_seats w) (wi_now w)) (bo_seats body))) = Inr ()"
    "set (wp_seat_rows p) = claim_row (wi_channel w) (wi_seats w) (wi_now w) ` {v \<in> set (bo_seats body). claimable (wi_seats w) v} \<union> set rs"
proof -
  have parsed: "seat_list_parse (ss_body (wi_submission w)) = Inr body" and "plan_seat_list_write lib w = Inr (Apply p)"
    using assms by (simp_all add: plan_for_def)
  from this(2) obtain body' rs handovers where b: "seat_list_parse (ss_body (wi_submission w)) = Inr body'" "bo_channel body' = wi_channel w"
    "list_all2 (\<lambda>s r. seat_release lib (wi_now w) s = Inr r) (filter (leaving (bo_seats body')) (wi_seats w)) rs"
    "check_claims w (filter (claimable (wi_seats w)) (bo_seats body')) (length (filter (new_slot (wi_seats w) (wi_now w)) (bo_seats body'))) = Inr ()"
    "wp_seat_rows p = sort_key se_id (map (claim_row (wi_channel w) (wi_seats w) (wi_now w)) (filter (claimable (wi_seats w)) (bo_seats body')) @ rs)"
    by (rule plan_Apply)
  have "body' = body" using parsed b(1) by simp
  moreover have "seat_list_valid body" using parsed by (simp add: seat_list_parse_iff)
  ultimately show ?thesis using b that [of rs] by (auto simp: seat_list_valid_def strict_sorted_iff)
qed

lemma released_row:
  assumes "list_all2 (\<lambda>s r. seat_release lib now s = Inr r) ss rs" "r \<in> set rs"
  obtains s until where "s \<in> set ss" "r = s\<lparr>se_released_at := Some now, se_cooldown_until := Some until\<rparr>"
  using assms seat_release_Inr by (fastforce simp: list_all2_conv_all_nth in_set_conv_nth)

lemma released_of:
  assumes "list_all2 (\<lambda>s r. seat_release lib now s = Inr r) ss rs" "s \<in> set ss"
  obtains until where "s\<lparr>se_released_at := Some now, se_cooldown_until := Some until\<rparr> \<in> set rs"
proof -
  obtain i where i: "i < length ss" "s = ss ! i" using assms(2) by (auto simp: in_set_conv_nth)
  then have "seat_release lib now s = Inr (rs ! i)" using list_all2_nthD [OF assms(1)] by simp
  moreover have "rs ! i \<in> set rs" using i list_all2_lengthD [OF assms(1)] by simp
  ultimately show ?thesis using that seat_release_Inr by metis
qed

lemma channel_seat_row:
  assumes "seats_wf db" "s \<in> set (channel_seats db channel)"
  shows "se_channel s = channel" "is_valid_ulid_id (se_user s)" "is_valid_ulid_id channel" "se_id s = composite_id channel (se_user s)"
    "map_of (pd_seats db) (se_id s) = Some s"
proof -
  show m: "map_of (pd_seats db) (se_id s) = Some s"
    using assms keyed_rows_iff [of se_id "pd_seats db" s] by (simp add: seats_wf_def channel_seats_def)
  then show "se_channel s = channel" "is_valid_ulid_id (se_user s)" "is_valid_ulid_id channel" "se_id s = composite_id channel (se_user s)"
    using assms unfolding seats_wf_def channel_seats_def by auto
qed

text \<open>A row the plan writes: an active seat of a listed user who had none, or the released seat of
  a user who is not listed.\<close>

lemma planned_row_cases:
  assumes pf: "plan_for db lib w p body" and r: "r \<in> set (wp_seat_rows p)"
  shows "se_channel r = wi_channel w \<and> is_valid_ulid_id (se_user r) \<and> se_id r = composite_id (wi_channel w) (se_user r) \<and>
    (se_user r \<in> set (bo_seats body) \<and> seat_active r \<and> claimable (wi_seats w) (se_user r)
     \<or> se_user r \<notin> set (bo_seats body) \<and> \<not> seat_active r \<and> is_some_and seat_active (map_of (pd_seats db) (se_id r)))"
proof -
  have wf: "seats_wf db" and ws: "wi_seats w = channel_seats db (wi_channel w)" using pf by (simp_all add: plan_for_def)
  from pf obtain rs where rs: "is_valid_ulid_id (wi_channel w)" "\<forall>v\<in>set (bo_seats body). is_valid_ulid_id v"
    "list_all2 (\<lambda>s r. seat_release lib (wi_now w) s = Inr r) (filter (leaving (bo_seats body)) (wi_seats w)) rs"
    "set (wp_seat_rows p) = claim_row (wi_channel w) (wi_seats w) (wi_now w) ` {v \<in> set (bo_seats body). claimable (wi_seats w) v} \<union> set rs"
    by (rule plan_for_parts)
  from r rs(4) consider v where "r = claim_row (wi_channel w) (wi_seats w) (wi_now w) v" "v \<in> set (bo_seats body)" "claimable (wi_seats w) v"
    | "r \<in> set rs" by auto
  then show ?thesis
  proof cases
    case (1 v)
    show ?thesis
    proof (cases "List.find (\<lambda>s. se_user s = v) (wi_seats w)")
      case None
      then show ?thesis using 1 rs(2) by (simp add: claim_row_def seat_active_def)
    next
      case (Some s)
      then have s: "s \<in> set (channel_seats db (wi_channel w))" "se_user s = v" using ws find_Some_P [OF Some] by auto
      then show ?thesis using 1 Some channel_seat_row [OF wf s(1)] rs(2) by (simp add: claim_row_def seat_reactivate_def seat_active_def)
    qed
  next
    case 2
    then obtain s until where s: "s \<in> set (filter (leaving (bo_seats body)) (wi_seats w))"
        "r = s\<lparr>se_released_at := Some (wi_now w), se_cooldown_until := Some until\<rparr>"
      using released_row [OF rs(3)] by blast
    then have "s \<in> set (channel_seats db (wi_channel w))" using ws by simp
    then show ?thesis using s channel_seat_row [OF wf] by (auto simp: leaving_def seat_active_def)
  qed
qed

text \<open>The seats after the change.\<close>

lemma written_row:
  assumes pf: "plan_for db lib w p body" and s: "map_of (write_seats (wp_seat_rows p) (pd_seats db)) k = Some s"
  shows "s \<in> set (wp_seat_rows p) \<and> se_id s = k \<or> k \<notin> se_id ` set (wp_seat_rows p) \<and> map_of (pd_seats db) k = Some s"
  using map_of_foldl_update [of se_id] s by (simp add: write_seats_def)

lemma seats_wf_written:
  assumes pf: "plan_for db lib w p body"
  shows "seats_wf (db'\<lparr>pd_seats := write_seats (wp_seat_rows p) (pd_seats db)\<rparr>)"
proof -
  have wf: "seats_wf db" using pf by (simp add: plan_for_def)
  have ch: "is_valid_ulid_id (wi_channel w)" using pf by (rule plan_for_parts)
  have "keyed se_id (write_seats (wp_seat_rows p) (pd_seats db))"
    using wf keyed_foldl_update by (auto simp: write_seats_def seats_wf_def)
  moreover have "is_valid_ulid_id (se_channel s) \<and> is_valid_ulid_id (se_user s) \<and> k = composite_id (se_channel s) (se_user s)"
    if "map_of (write_seats (wp_seat_rows p) (pd_seats db)) k = Some s" for k s
    using written_row [OF pf that] planned_row_cases [OF pf, of s] wf ch unfolding seats_wf_def by auto
  ultimately show ?thesis by (simp add: seats_wf_def)
qed

text \<open>Afterwards exactly the listed users have an active seat.\<close>

lemma written_active:
  assumes pf: "plan_for db lib w p body" and v: "is_valid_ulid_id v"
  shows "is_some_and seat_active (map_of (write_seats (wp_seat_rows p) (pd_seats db)) (composite_id (wi_channel w) v)) \<longleftrightarrow> v \<in> set (bo_seats body)"
proof -
  let ?t = "write_seats (wp_seat_rows p) (pd_seats db)" and ?k = "composite_id (wi_channel w) v"
  have wf: "seats_wf db" and ws: "wi_seats w = channel_seats db (wi_channel w)" using pf by (simp_all add: plan_for_def)
  from pf obtain rs where rs: "is_valid_ulid_id (wi_channel w)"
    "list_all2 (\<lambda>s r. seat_release lib (wi_now w) s = Inr r) (filter (leaving (bo_seats body)) (wi_seats w)) rs"
    "set (wp_seat_rows p) = claim_row (wi_channel w) (wi_seats w) (wi_now w) ` {v \<in> set (bo_seats body). claimable (wi_seats w) v} \<union> set rs"
    by (rule plan_for_parts)
  have find: "List.find (\<lambda>s. se_user s = v) (wi_seats w) = map_of (pd_seats db) ?k"
    unfolding ws by (rule seat_lookup [OF wf rs(1) v])
  have same_user: "se_user r = v" if "r \<in> set (wp_seat_rows p)" "se_id r = ?k" for r
    using that planned_row_cases [OF pf that(1)] composite_id_eq [OF rs(1) rs(1)] by auto
  have new: "\<exists>r'\<in>set (wp_seat_rows p). se_id r' = ?k \<and> map_of ?t ?k = Some r'" if "r \<in> set (wp_seat_rows p)" "se_id r = ?k" for r
    using map_of_foldl_update_new [OF that(1), of se_id "pd_seats db"] that(2) by (auto simp: write_seats_def)
  show ?thesis
  proof (cases "\<exists>r\<in>set (wp_seat_rows p). se_id r = ?k")
    case True
    then obtain r' where r': "r' \<in> set (wp_seat_rows p)" "se_id r' = ?k" "map_of ?t ?k = Some r'" using new by blast
    then show ?thesis using planned_row_cases [OF pf r'(1)] same_user [OF r'(1,2)] by auto
  next
    case False
    have "map_of ?t ?k = map_of (pd_seats db) ?k"
      unfolding write_seats_def by (rule map_of_foldl_update_old) (use False in force)
    moreover have "is_some_and seat_active (map_of (pd_seats db) ?k)" if "v \<in> set (bo_seats body)"
    proof (rule ccontr)
      assume "\<not> ?thesis"
      then have "claimable (wi_seats w) v" using find by (auto simp: claimable_def split: option.split)
      then have "claim_row (wi_channel w) (wi_seats w) (wi_now w) v \<in> set (wp_seat_rows p)" using rs(3) that by auto
      moreover have "se_id (claim_row (wi_channel w) (wi_seats w) (wi_now w) v) = ?k"
        using find keyed_lookup_key [of se_id "pd_seats db" ?k] wf
        by (auto simp: claim_row_def seat_reactivate_def seats_wf_def split: option.split)
      ultimately show False using False by blast
    qed
    moreover have "v \<in> set (bo_seats body)" if act: "is_some_and seat_active (map_of (pd_seats db) ?k)"
    proof (rule ccontr)
      assume out: "v \<notin> set (bo_seats body)"
      obtain s where s: "map_of (pd_seats db) ?k = Some s" "seat_active s" using act by (auto simp: is_some_and_iff)
      then have "List.find (\<lambda>s. se_user s = v) (wi_seats w) = Some s" using find by simp
      then have "s \<in> set (wi_seats w)" "se_user s = v" by (auto dest: find_Some_P)
      then have "s \<in> set (filter (leaving (bo_seats body)) (wi_seats w))" using out s(2) by (simp add: leaving_def)
      then obtain until where "s\<lparr>se_released_at := Some (wi_now w), se_cooldown_until := Some until\<rparr> \<in> set (wp_seat_rows p)"
        using released_of [OF rs(2)] rs(3) by blast
      moreover have "se_id s = ?k" using s(1) keyed_lookup_key [of se_id "pd_seats db" ?k] wf by (auto simp: seats_wf_def)
      ultimately show False using False by force
    qed
    ultimately show ?thesis by auto
  qed
qed

text \<open>The seats that count afterwards counted before, up to the new slots; those of other channels
  are the same.\<close>

lemma counted_written:
  assumes pf: "plan_for db lib w p body"
  shows "counted (db'\<lparr>pd_seats := write_seats (wp_seat_rows p) (pd_seats db)\<rparr>) (wi_channel w) (wi_now w)
    \<subseteq> counted db (wi_channel w) (wi_now w)
      \<union> composite_id (wi_channel w) ` set (filter (new_slot (wi_seats w) (wi_now w)) (bo_seats body))"
proof
  fix k
  assume "k \<in> counted (db'\<lparr>pd_seats := write_seats (wp_seat_rows p) (pd_seats db)\<rparr>) (wi_channel w) (wi_now w)"
  then obtain s where s: "map_of (write_seats (wp_seat_rows p) (pd_seats db)) k = Some s" "se_channel s = wi_channel w"
      "counts_against_cap (wi_now w) s"
    by (auto simp: counted_def keys_where_def is_some_and_iff)
  have wf: "seats_wf db" and ws: "wi_seats w = channel_seats db (wi_channel w)" using pf by (simp_all add: plan_for_def)
  have ch: "is_valid_ulid_id (wi_channel w)" using pf by (rule plan_for_parts)
  have old: "k \<in> counted db (wi_channel w) (wi_now w)"
    if "map_of (pd_seats db) k = Some s0" "counts_against_cap (wi_now w) s0" "k = composite_id (wi_channel w) v" for s0 v
  proof -
    have "k = composite_id (se_channel s0) (se_user s0)" "is_valid_ulid_id (se_channel s0)"
      using wf that(1) unfolding seats_wf_def by blast+
    then have "se_channel s0 = wi_channel w" using that(3) composite_id_eq ch by metis
    then show ?thesis using that by (simp add: counted_def keys_where_def)
  qed
  from written_row [OF pf s(1)] show "k \<in> counted db (wi_channel w) (wi_now w)
      \<union> composite_id (wi_channel w) ` set (filter (new_slot (wi_seats w) (wi_now w)) (bo_seats body))"
  proof
    assume r: "s \<in> set (wp_seat_rows p) \<and> se_id s = k"
    then have id: "k = composite_id (wi_channel w) (se_user s)" and u: "is_valid_ulid_id (se_user s)"
      using planned_row_cases [OF pf, of s] by auto
    have find: "List.find (\<lambda>x. se_user x = se_user s) (wi_seats w) = map_of (pd_seats db) k"
      unfolding ws id by (rule seat_lookup [OF wf ch u])
    show ?thesis
    proof (cases "new_slot (wi_seats w) (wi_now w) (se_user s)")
      case True
      then show ?thesis using id planned_row_cases [OF pf, of s] r old find
        by (auto simp: new_slot_def is_some_and_iff counts_against_cap_def split: option.splits)
    next
      case False
      then obtain s0 where "map_of (pd_seats db) k = Some s0" "counts_against_cap (wi_now w) s0"
        using find by (auto simp: new_slot_def split: option.splits)
      then show ?thesis using old id by blast
    qed
  next
    assume "k \<notin> se_id ` set (wp_seat_rows p) \<and> map_of (pd_seats db) k = Some s"
    then show ?thesis using s by (auto simp: counted_def keys_where_def)
  qed
qed

lemma counted_written_other:
  assumes pf: "plan_for db lib w p body" and other: "channel \<noteq> wi_channel w"
  shows "counted (db'\<lparr>pd_seats := write_seats (wp_seat_rows p) (pd_seats db)\<rparr>) channel now \<subseteq> counted db channel now"
  using other planned_row_cases [OF pf]
  by (auto simp: counted_def keys_where_def is_some_and_iff dest!: written_row [OF pf])

text \<open>The slots of the entitlement hold.\<close>

lemma used_written:
  assumes pf: "plan_for db lib w p body" and e: "wi_entitlement w = Some e"
    and fits: "seats_used db (wi_channel w) (wi_now w) \<le> ent_slot_cap e"
  shows "seats_used (db'\<lparr>pd_seats := write_seats (wp_seat_rows p) (pd_seats db)\<rparr>) (wi_channel w) (wi_now w) \<le> ent_slot_cap e"
proof -
  let ?db = "db'\<lparr>pd_seats := write_seats (wp_seat_rows p) (pd_seats db)\<rparr>"
  let ?new = "filter (new_slot (wi_seats w) (wi_now w)) (bo_seats body)"
  have wf: "seats_wf db" and ws: "wi_seats w = channel_seats db (wi_channel w)" using pf by (simp_all add: plan_for_def)
  have checked: "check_claims w (filter (claimable (wi_seats w)) (bo_seats body)) (length ?new) = Inr ()"
    using pf by (rule plan_for_parts)
  have "claimable (wi_seats w) v" if "new_slot (wi_seats w) (wi_now w) v" for v
    using that by (auto simp: new_slot_def claimable_def counts_against_cap_def split: option.splits)
  then have "?new \<noteq> [] \<Longrightarrow> filter (claimable (wi_seats w)) (bo_seats body) \<noteq> []" by (auto simp: filter_empty_conv)
  then have room: "seats_used db (wi_channel w) (wi_now w) + length ?new \<le> ent_slot_cap e"
    using checked e fits by (cases "?new = []") (auto simp: check_claims_def seats_used_def ws split: if_splits)
  have "seats_used ?db (wi_channel w) (wi_now w) = card (counted ?db (wi_channel w) (wi_now w))"
    by (rule seats_used_card [OF seats_wf_written [OF pf]])
  also have "\<dots> \<le> card (counted db (wi_channel w) (wi_now w) \<union> composite_id (wi_channel w) ` set ?new)"
    by (rule card_mono [OF _ counted_written [OF pf]]) simp
  also have "\<dots> \<le> card (counted db (wi_channel w) (wi_now w)) + card (composite_id (wi_channel w) ` set ?new)"
    by (rule card_Un_le)
  also have "\<dots> \<le> seats_used db (wi_channel w) (wi_now w) + length ?new"
    using order_trans [OF card_image_le card_length, of ?new "composite_id (wi_channel w)"] seats_used_card [OF wf] by simp
  finally show ?thesis using room by simp
qed

end
