(* ===== verification/Seat_Props.thy ===== *)
theory Seat_Props
  imports Seat_Writes
begin

text \<open>
  Seats of protected channels: the slots hold in every reachable state, a change of the list seats
  exactly the listed users, and what a released user can expect.
\<close>

section \<open>The invariant of the seats\<close>

lemma seat_inv_cong: "pd_seats db' = pd_seats db \<Longrightarrow> pd_entitlements db' = pd_entitlements db \<Longrightarrow> seat_inv t db' = seat_inv t db"
  by (simp add: seat_inv_def seats_wf_def entitlements_wf_def within_cap_def seats_used_def channel_seats_def entitlement_of_def)

lemma seats_wf_cong: "pd_seats db' = pd_seats db \<Longrightarrow> seats_wf db' = seats_wf db"
  by (simp add: seats_wf_def)

lemma counted_cong: "pd_seats db' = pd_seats db \<Longrightarrow> counted db' channel t = counted db channel t"
  by (simp add: counted_def)

lemma seats_used_cong: "pd_seats db' = pd_seats db \<Longrightarrow> seats_used db' channel t = seats_used db channel t"
  by (simp add: seats_used_def channel_seats_def)

text \<open>A change that keeps the entitlements and counts no more seats keeps the invariant.\<close>

lemma seat_inv_fewer:
  assumes "seat_inv t db" "seats_wf db'"
    and ents: "entitlements_wf db'" "\<And>channel e. entitlement_of db' channel = Some e \<Longrightarrow> entitlement_of db channel = Some e"
    and fewer: "\<And>channel e. entitlement_of db' channel = Some e \<Longrightarrow> counted db' channel t \<subseteq> counted db channel t"
  shows "seat_inv t db'"
proof -
  have "seats_used db' channel t \<le> ent_slot_cap e" if "entitlement_of db' channel = Some e" for channel e
  proof -
    have "seats_used db' channel t \<le> seats_used db channel t"
      using assms(1,2) fewer [OF that] by (simp add: seat_inv_def seats_used_card card_mono)
    also have "\<dots> \<le> ent_slot_cap e" using assms(1) ents(2) [OF that] by (simp add: seat_inv_def within_cap_def)
    finally show ?thesis .
  qed
  then show ?thesis using assms(2) ents(1) by (simp add: seat_inv_def within_cap_def)
qed

lemma seat_inv_later:
  assumes "seat_inv t db" "t \<le> t'"
  shows "seat_inv t' db"
proof -
  have "seats_used db channel t' \<le> seats_used db channel t" for channel
    using assms unfolding seats_used_def channel_seats_used_def channel_seats_def
    by (auto simp: counts_against_cap_def seat_cooling_def is_some_and_iff length_filter_conv_card intro!: card_mono)
  then show ?thesis using assms unfolding seat_inv_def within_cap_def by (meson order_trans)
qed

lemma seat_inv_written:
  assumes inv: "seat_inv (wi_now w) db" and pf: "plan_for db lib w p body" and e: "wi_entitlement w = entitlement_of db (wi_channel w)"
    and db': "pd_seats db' = write_seats (wp_seat_rows p) (pd_seats db)" "pd_entitlements db' = pd_entitlements db"
  shows "seat_inv (wi_now w) db'"
proof -
  let ?w = "db'\<lparr>pd_seats := write_seats (wp_seat_rows p) (pd_seats db)\<rparr>"
  have same: "?w = db'" using db'(1) by simp
  have ents: "entitlement_of db' channel = entitlement_of db channel" for channel using db'(2) by (simp add: entitlement_of_def)
  have wf: "seats_wf db'" using seats_wf_written [OF pf, of db'] same by simp
  have "seats_used db' channel (wi_now w) \<le> ent_slot_cap x" if x: "entitlement_of db channel = Some x" for channel x
  proof (cases "channel = wi_channel w")
    case True
    then show ?thesis using used_written [OF pf, of x db'] inv e x same by (simp add: seat_inv_def within_cap_def)
  next
    case False
    have "seats_used db' channel (wi_now w) \<le> seats_used db channel (wi_now w)"
      using counted_written_other [OF pf False, of db' "wi_now w"] same wf inv by (simp add: seats_used_card seat_inv_def card_mono)
    also have "\<dots> \<le> ent_slot_cap x" using inv x by (simp add: seat_inv_def within_cap_def)
    finally show ?thesis .
  qed
  then show ?thesis using wf inv ents db'(2) by (simp add: seat_inv_def within_cap_def entitlements_wf_def)
qed

section \<open>Outcomes of a change\<close>

lemma write_input_simps [simp]:
  "wi_kind (write_input db kind channel sub allow now) = kind" "wi_channel (write_input db kind channel sub allow now) = channel"
  "wi_submission (write_input db kind channel sub allow now) = sub" "wi_now (write_input db kind channel sub allow now) = now"
  "wi_stored (write_input db kind channel sub allow now) = map_of (pd_seat_lists db) channel"
  "wi_entitlement (write_input db kind channel sub allow now) = entitlement_of db channel"
  "wi_seats (write_input db kind channel sub allow now) = channel_seats db channel"
  "wi_text_group (write_input db kind channel sub allow now) = open_text_group db channel"
  "wi_allow_claims (write_input db kind channel sub allow now) = allow"
  by (simp_all add: write_input_def)

text \<open>The plan a change applied, when it wrote anything.\<close>

definition plan_applied :: "seat_lib \<Rightarrow> pc_db \<Rightarrow> seat_list_write_kind \<Rightarrow> string \<Rightarrow> seat_list_submission \<Rightarrow> bool \<Rightarrow> int \<Rightarrow> seat_list_write_plan \<Rightarrow> bool" where
  "plan_applied lib db kind channel sub allow now p \<longleftrightarrow> plan_seat_list_write lib (write_input db kind channel sub allow now) = Inr (Apply p)"

lemma put_cases:
  assumes "put_seat_list lib channel sub allow now db = (r, db')"
  obtains (fails) e where "r = Inl e" "db' = db"
  | (same) l where "plan_seat_list_write lib (write_input db Put channel sub allow now) = Inr (Unchanged l)"
      "r = Inr (decision_outcome (Unchanged l))" "db' = db"
  | (applies) p where "plan_applied lib db Put channel sub allow now p" "r = Inr (decision_outcome (Apply p))"
      "db' = apply_decision (Apply p) (map_option mg_id (open_text_group db channel)) db"
  using assms unfolding put_seat_list_def
  by (auto simp: eff_simps plan_applied_def apply_decision_def check_members_def split: sum.splits seat_list_write_decision.splits)

lemma protect_cases:
  assumes "protect_channel lib channel sub now db = (r, db')"
  obtains (same) "db' = db"
  | (applies) p where "plan_applied lib db Protect channel sub True now p" "r = Inr (decision_outcome (Apply p))"
      "db' = (apply_decision (Apply p) (map_option mg_id (open_text_group db channel)) db)
         \<lparr>pd_channels := map (\<lambda>(k, c). (k, if k = channel then set_protected c else c)) (pd_channels db)\<rparr>"
proof (cases "plan_seat_list_write lib (write_input db Protect channel sub True now)")
  case (Inl e)
  then show ?thesis using assms same unfolding protect_channel_def protect_first_def
    by (auto simp: eff_simps split: sum.splits if_splits option.splits)
next
  case (Inr d)
  have "version_rule Protect (map_of (pd_seat_lists db) channel) sub body \<noteq> Inr (Some l)" for body l
    by (auto simp: version_rule_def invalid_def split: option.splits)
  then obtain p where "d = Apply p"
    using Inr by (cases d) (auto simp: plan_seat_list_write_def Let_def andR_Inr invalid_def plan_apply_def split: if_splits option.splits prod.splits)
  then show ?thesis using assms same applies Inr unfolding protect_channel_def protect_first_def plan_applied_def
    by (auto simp: eff_simps split: sum.splits if_splits option.splits)
qed

lemma applied_plan_for:
  assumes "plan_applied lib db kind channel sub allow now p" "seats_wf db"
  obtains body where "plan_for db lib (write_input db kind channel sub allow now) p body"
proof -
  have plan: "plan_seat_list_write lib (write_input db kind channel sub allow now) = Inr (Apply p)" using assms(1) by (simp add: plan_applied_def)
  then obtain body where "seat_list_parse (ss_body sub) = Inr body" by (rule plan_Apply) simp
  then show ?thesis using that plan assms(2) by (simp add: plan_for_def)
qed

end
