(* ===== verification/Seat_Reach.thy ===== *)
theory Seat_Reach
  imports Seat_Props
begin

text \<open>
  The operations keep the invariant of the seats, and what follows in reachable states.
\<close>

section \<open>Operations that do not write seats\<close>

definition seat_data :: "pc_db \<Rightarrow> (string, channel_seat) table \<times> (string, channel_entitlement) table" where
  "seat_data db = (pd_seats db, pd_entitlements db)"

lemma seat_inv_data: "seat_data db' = seat_data db \<Longrightarrow> seat_inv t db' = seat_inv t db"
  by (rule seat_inv_cong) (simp_all add: seat_data_def)

lemma group_ops_seat_data:
  "keeps (\<lambda>db. seat_data db = x) (create_text_mls_group lib g supersedes)"
  "keeps (\<lambda>db. seat_data db = x) (create_mls_group g supersedes)"
  "keeps (\<lambda>db. seat_data db = x) (close_mls_group i t)"
  unfolding create_text_mls_group_def insert_text_group_def create_mls_group_def create_fresh_group_def close_mls_group_def
    put_group_def fetch_mls_group_def Let_def
  by (intro keeps_intros keeps_modE; simp add: seat_data_def drop_group_def)+

lemma commit_ops_seat_data:
  "keeps (\<lambda>db. seat_data db = x) (insert_mls_commit c)"
  "keeps (\<lambda>db. seat_data db = x) (insert_mls_text_commit lib c ad cap)"
  "keeps (\<lambda>db. seat_data db = x) (upsert_mls_join_intent n)"
  "keeps (\<lambda>db. seat_data db = x) (sweep_mls_groups closed created)"
  "keeps (\<lambda>db. seat_data db = x) (prune_mls_text_commits older)"
  unfolding insert_mls_commit_def insert_mls_text_commit_def upsert_mls_join_intent_def sweep_mls_groups_def prune_mls_text_commits_def
    put_group_def fetch_mls_group_def drop_intents_def Let_def
  by (intro keeps_intros keeps_modE; simp add: seat_data_def)+

lemma keeps_case_list [keeps_intros]:
  "keeps I m \<Longrightarrow> (\<And>x xs. keeps I (f x xs)) \<Longrightarrow> keeps I (case l of [] \<Rightarrow> m | x # xs \<Rightarrow> f x xs)"
  by (cases l) simp_all

lemma key_package_ops_seat_data:
  "keeps (\<lambda>db. seat_data db = x) (insert_mls_key_packages ps)"
  "keeps (\<lambda>db. seat_data db = x) (insert_mls_key_packages_capped user device ps n)"
  "keeps (\<lambda>db. seat_data db = x) (consume_mls_key_package user device)"
  "keeps (\<lambda>db. seat_data db = x) (replace_mls_last_resort_key_package p)"
  "keeps (\<lambda>db. seat_data db = x) (delete_mls_key_packages user device)"
  "keeps (\<lambda>db. seat_data db = x) (delete_expired_mls_key_packages t)"
  unfolding insert_mls_key_packages_def insert_mls_key_packages_capped_def consume_mls_key_package_def
    replace_mls_last_resort_key_package_def delete_mls_key_packages_def delete_expired_mls_key_packages_def retain_key_packages_def Let_def
  by (intro keeps_intros keeps_modE; simp add: seat_data_def)+

lemmas others_keep_seats = group_ops_seat_data commit_ops_seat_data key_package_ops_seat_data

section \<open>Operations on seats and entitlements\<close>

lemma seat_inv_upsert:
  assumes inv: "seat_inv t db"
  shows "seat_inv t (snd (upsert_channel_entitlement e t db))"
proof -
  have wf: "entitlements_wf db" using inv by (simp add: seat_inv_def)
  define stored where "stored = (case entitlement_of db (ent_channel e) of
      Some old \<Rightarrow> old\<lparr>ent_slot_cap := ent_slot_cap e, ent_device_cap := ent_device_cap e, ent_granted_by := ent_granted_by e\<rparr>
    | None \<Rightarrow> e)"
  let ?db = "db\<lparr>pd_entitlements := AList.update (ent_id stored) stored (pd_entitlements db)\<rparr>"
  have stored: "ent_channel stored = ent_channel e" "ent_slot_cap stored = ent_slot_cap e"
    using entitlement_of_iff [OF wf, of "ent_channel e"] by (auto simp: stored_def split: option.split)
  have alone: "k = ent_id stored" if "map_of (pd_entitlements db) k = Some x" "ent_channel x = ent_channel e" for k x
  proof -
    have "k = ent_id x" using keyed_lookup_key [OF _ that(1), of ent_id] wf by (auto simp: entitlements_wf_def)
    then have "entitlement_of db (ent_channel e) = Some x" using entitlement_of_iff [OF wf] that by simp
    then show ?thesis using \<open>k = ent_id x\<close> by (simp add: stored_def)
  qed
  have wf': "entitlements_wf ?db"
    using wf alone stored(1) unfolding entitlements_wf_def by (auto simp: table_simps split: if_splits)
  have used: "seats_used ?db channel t = seats_used db channel t" for channel by (rule seats_used_cong) simp
  have "seats_used ?db channel t \<le> ent_slot_cap x"
    if x: "entitlement_of ?db channel = Some x" and room: "seats_used db (ent_channel e) t \<le> ent_slot_cap e" for channel x
  proof (cases "x = stored")
    case True
    then show ?thesis using x room entitlement_of_iff [OF wf', of channel x] stored by (simp add: used)
  next
    case False
    then have "entitlement_of db channel = Some x"
      using x entitlement_of_iff [OF wf', of channel x] entitlement_of_iff [OF wf, of channel x] by (auto simp: table_simps split: if_splits)
    then show ?thesis using inv by (simp add: used seat_inv_def within_cap_def)
  qed
  then have "seats_used db (ent_channel e) t \<le> ent_slot_cap e \<Longrightarrow> seat_inv t ?db"
    using inv wf' by (simp add: seat_inv_def within_cap_def seats_wf_def)
  then show ?thesis using inv
    by (auto simp: upsert_channel_entitlement_def eff_simps Let_def stored_def [symmetric] seats_used_def)
qed

lemma seat_inv_put: "seat_inv t db \<Longrightarrow> seat_inv t (snd (put_seat_list lib channel sub allow t db))"
proof -
  assume inv: "seat_inv t db"
  obtain r db' where run: "put_seat_list lib channel sub allow t db = (r, db')" by fastforce
  then show ?thesis
  proof (cases rule: put_cases)
    case (applies p)
    moreover have "seats_wf db" using inv by (simp add: seat_inv_def)
    ultimately obtain body where "plan_for db lib (write_input db Put channel sub allow t) p body" using applied_plan_for by blast
    then have "seat_inv t db'" using seat_inv_written [of "write_input db Put channel sub allow t"] inv applies
      by (simp add: apply_decision_def)
    then show ?thesis using run by simp
  qed (use inv run in simp_all)
qed

lemma seat_inv_protect: "seat_inv t db \<Longrightarrow> seat_inv t (snd (protect_channel lib channel sub t db))"
proof -
  assume inv: "seat_inv t db"
  obtain r db' where run: "protect_channel lib channel sub t db = (r, db')" by fastforce
  then show ?thesis
  proof (cases rule: protect_cases)
    case (applies p)
    moreover have "seats_wf db" using inv by (simp add: seat_inv_def)
    ultimately obtain body where "plan_for db lib (write_input db Protect channel sub True t) p body" using applied_plan_for by blast
    then have "seat_inv t db'" using seat_inv_written [of "write_input db Protect channel sub True t"] inv applies
      by (simp add: apply_decision_def)
    then show ?thesis using run by simp
  qed (use inv run in simp)
qed

lemma seat_inv_release:
  assumes inv: "seat_inv t db"
  shows "seat_inv t (snd (release_channel_seats_for_user lib user server t db))"
proof (cases "seat_cooldown_until lib t")
  case (Inr until)
  let ?f = "\<lambda>s. if forced_seat db user server s then s\<lparr>se_released_at := Some t, se_cooldown_until := Some until\<rparr> else s"
  define db' where "db' = snd (release_channel_seats_for_user lib user server t db)"
  have seats: "pd_seats db' = map (\<lambda>(k, s). (k, ?f s)) (pd_seats db)" and ents: "pd_entitlements db' = pd_entitlements db"
    by (simp_all add: db'_def release_channel_seats_for_user_def eff_simps Inr Let_def)
  have wf: "seats_wf db" using inv by (simp add: seat_inv_def)
  have "keyed se_id (pd_seats db')"
    unfolding seats using wf by (intro keyed_map_rows) (simp_all add: seats_wf_def)
  then have "seats_wf db'" using wf by (auto simp: seats_wf_def seats map_of_map_rows)
  moreover have "counted db' channel t \<subseteq> counted db channel t" for channel
    by (auto simp: counted_def keys_where_def is_some_and_iff seats map_of_map_rows counts_against_cap_def forced_seat_def split: if_splits)
  ultimately have "seat_inv t db'"
    using inv ents by (intro seat_inv_fewer [OF inv]) (simp_all add: entitlement_of_def entitlements_wf_def seat_inv_def)
  then show ?thesis by (simp add: db'_def)
qed (use inv in \<open>simp add: release_channel_seats_for_user_def eff_simps\<close>)

lemma seat_inv_delete:
  assumes inv: "seat_inv t db"
  shows "seat_inv t (snd (delete_protected_channel_data channel db))"
proof -
  define db' where "db' = snd (delete_protected_channel_data channel db)"
  have seats: "pd_seats db' = filter (\<lambda>(k, s). se_channel s \<noteq> channel) (pd_seats db)"
    and ents: "pd_entitlements db' = filter (\<lambda>(k, e). ent_channel e \<noteq> channel) (pd_entitlements db)"
    by (simp_all add: db'_def delete_protected_channel_data_def eff_simps Let_def)
  have ks: "keyed se_id (pd_seats db)" and ke: "keyed ent_id (pd_entitlements db)"
    using inv by (simp_all add: seat_inv_def seats_wf_def entitlements_wf_def)
  have row: "map_of (pd_seats db') k = Some s \<Longrightarrow> map_of (pd_seats db) k = Some s" for k s
    unfolding seats map_of_filter_rows [OF keyed_distinct [OF ks]] by (auto split: option.splits if_splits)
  have ent: "map_of (pd_entitlements db') k = Some e \<Longrightarrow> map_of (pd_entitlements db) k = Some e" for k e
    unfolding ents map_of_filter_rows [OF keyed_distinct [OF ke]] by (auto split: option.splits if_splits)
  have ks': "keyed se_id (pd_seats db')" and ke': "keyed ent_id (pd_entitlements db')"
    unfolding seats ents by (rule keyed_filter [OF ks], rule keyed_filter [OF ke])
  have swf: "seats_wf db'"
    using inv row ks' unfolding seat_inv_def seats_wf_def by blast
  have ewf: "entitlements_wf db'"
    using inv ent ke' unfolding seat_inv_def entitlements_wf_def by blast
  have "seat_inv t db'"
  proof (rule seat_inv_fewer [OF inv swf ewf])
    fix ch e
    assume "entitlement_of db' ch = Some e"
    then show "entitlement_of db ch = Some e"
      using entitlement_of_iff [OF ewf] entitlement_of_iff [of db ch e] ent inv by (auto simp: seat_inv_def)
    show "counted db' ch t \<subseteq> counted db ch t" using row by (auto simp: counted_def keys_where_def is_some_and_iff)
  qed
  then show ?thesis by (simp add: db'_def)
qed

lemma seat_inv_step: "seat_inv t db \<Longrightarrow> seat_inv t (secure_step lib t op db)"
proof (cases op)
  case (Elsewhere other)
  assume "seat_inv t db"
  moreover have "seat_inv t (elsewhere other db) = seat_inv t db" by (rule seat_inv_cong) (simp_all add: elsewhere_def)
  ultimately show ?thesis using Elsewhere by simp
qed (simp_all add: seat_inv_upsert seat_inv_protect seat_inv_put seat_inv_release seat_inv_delete
    seat_inv_data [OF keepsD [OF others_keep_seats(1) refl]] seat_inv_data [OF keepsD [OF others_keep_seats(2) refl]]
    seat_inv_data [OF keepsD [OF others_keep_seats(3) refl]] seat_inv_data [OF keepsD [OF others_keep_seats(4) refl]]
    seat_inv_data [OF keepsD [OF others_keep_seats(5) refl]] seat_inv_data [OF keepsD [OF others_keep_seats(6) refl]]
    seat_inv_data [OF keepsD [OF others_keep_seats(7) refl]] seat_inv_data [OF keepsD [OF others_keep_seats(8) refl]]
    seat_inv_data [OF keepsD [OF others_keep_seats(9) refl]] seat_inv_data [OF keepsD [OF others_keep_seats(10) refl]]
    seat_inv_data [OF keepsD [OF others_keep_seats(11) refl]] seat_inv_data [OF keepsD [OF others_keep_seats(12) refl]]
    seat_inv_data [OF keepsD [OF others_keep_seats(13) refl]] seat_inv_data [OF keepsD [OF others_keep_seats(14) refl]])

interpretation seats: secure_invariant lib seat_inv for lib
proof
  show "seat_inv t db" if "secure_start db" for t db
    using that by (simp add: secure_start_def seat_inv_def seats_wf_def entitlements_wf_def within_cap_def entitlement_of_def rows_def)
qed (auto intro: seat_inv_later seat_inv_step)

section \<open>Seated users\<close>

definition seated :: "pc_db \<Rightarrow> string \<Rightarrow> string set" where
  "seated db channel = se_user ` {s \<in> set (channel_seats db channel). seat_active s}"

lemma seated_iff:
  assumes "seats_wf db" "is_valid_ulid_id channel"
  shows "v \<in> seated db channel \<longleftrightarrow> is_valid_ulid_id v \<and> is_some_and seat_active (map_of (pd_seats db) (composite_id channel v))"
proof
  assume "v \<in> seated db channel"
  then obtain s where "s \<in> set (channel_seats db channel)" "seat_active s" "v = se_user s" by (auto simp: seated_def)
  then show "is_valid_ulid_id v \<and> is_some_and seat_active (map_of (pd_seats db) (composite_id channel v))"
    using channel_seat_row [OF assms(1)] by (metis is_some_and_simps(2))
next
  assume v: "is_valid_ulid_id v \<and> is_some_and seat_active (map_of (pd_seats db) (composite_id channel v))"
  then obtain s where "map_of (pd_seats db) (composite_id channel v) = Some s" "seat_active s" by (auto simp: is_some_and_iff)
  then have "List.find (\<lambda>s. se_user s = v) (channel_seats db channel) = Some s" using seat_lookup [OF assms] v by simp
  then show "v \<in> seated db channel" using \<open>seat_active s\<close> by (auto simp: seated_def dest: find_Some_P)
qed

lemma seated_written:
  assumes pf: "plan_for db lib w p body" and db': "pd_seats db' = write_seats (wp_seat_rows p) (pd_seats db)"
  shows "seated db' = (seated db)(wi_channel w := set (bo_seats body))"
proof
  fix channel
  have same: "db'\<lparr>pd_seats := write_seats (wp_seat_rows p) (pd_seats db)\<rparr> = db'" using db' by simp
  have wf: "seats_wf db" using pf by (simp add: plan_for_def)
  have wf': "seats_wf db'" using seats_wf_written [OF pf, of db'] same by simp
  have ch: "is_valid_ulid_id (wi_channel w)" using pf by (rule plan_for_parts)
  have us: "\<forall>v\<in>set (bo_seats body). is_valid_ulid_id v" using pf by (rule plan_for_parts)
  show "seated db' channel = ((seated db)(wi_channel w := set (bo_seats body))) channel"
  proof (cases "channel = wi_channel w")
    case True
    have "v \<in> seated db' (wi_channel w) \<longleftrightarrow> v \<in> set (bo_seats body)" for v
      using seated_iff [OF wf' ch, of v] written_active [OF pf, of v] us db' by auto
    then show ?thesis using True by auto
  next
    case False
    have "map_of (pd_seats db') k = Some s \<longleftrightarrow> map_of (pd_seats db) k = Some s" if "se_channel s = channel" for k s
    proof
      assume "map_of (pd_seats db') k = Some s"
      then show "map_of (pd_seats db) k = Some s"
        using written_row [OF pf, of k s] planned_row_cases [OF pf, of s] db' that False by auto
    next
      assume s: "map_of (pd_seats db) k = Some s"
      then have k: "k = composite_id channel (se_user s)" "is_valid_ulid_id channel" using wf that unfolding seats_wf_def by auto
      have "k \<notin> se_id ` set (wp_seat_rows p)"
      proof
        assume "k \<in> se_id ` set (wp_seat_rows p)"
        then obtain r where "r \<in> set (wp_seat_rows p)" "k = se_id r" by blast
        then have "composite_id (wi_channel w) (se_user r) = composite_id channel (se_user s)"
          using planned_row_cases [OF pf] k(1) by auto
        then show False using composite_id_eq [OF ch k(2)] False by auto
      qed
      then show "map_of (pd_seats db') k = Some s" using s db' by (simp add: write_seats_def map_of_foldl_update_old)
    qed
    then have "set (channel_seats db' channel) = set (channel_seats db channel)"
      using keyed_rows_iff [of se_id "pd_seats db"] keyed_rows_iff [of se_id "pd_seats db'"] wf wf'
      by (auto simp: channel_seats_def seats_wf_def)
    then show ?thesis using False by (simp add: seated_def)
  qed
qed

lemma put_applied:
  assumes "put_seat_list lib channel sub allow now db = (Inr out, db')" "\<not> so_unchanged out" "seats_wf db"
    "seat_list_parse (ss_body sub) = Inr body"
  obtains p where "plan_applied lib db Put channel sub allow now p" "plan_for db lib (write_input db Put channel sub allow now) p body"
    "out = decision_outcome (Apply p)" "db' = apply_decision (Apply p) (map_option mg_id (open_text_group db channel)) db"
  using assms(1)
proof (cases rule: put_cases)
  case (applies p)
  then show ?thesis using that assms(3,4) by (auto simp: plan_applied_def plan_for_def)
qed (use assms(2) in auto)

section \<open>Retries\<close>

lemma plan_put_retry:
  assumes "seat_list_parse (ss_body sub) = Inr body" "bo_channel body = channel" "bo_signer_device body = ss_signer_device sub"
    "decode_signature_b64 lib (ss_signature sub) = Inr raw" "map_of (pd_seat_lists db) channel = Some l"
    "sl_version l = bo_version body" "sl_body l = ss_body sub" "sl_signature l = ss_signature sub"
  shows "plan_seat_list_write lib (write_input db Put channel sub allow now) = Inr (Unchanged l)"
  using assms by (simp add: plan_seat_list_write_def version_rule_def)

lemma plan_apply_not_Unchanged: "plan_apply lib w body \<noteq> Inr (Unchanged l)"
  by (simp add: plan_apply_def Let_def andR_Inr invalid_def split: prod.split)

lemma plan_Unchanged:
  assumes "plan_seat_list_write lib w = Inr (Unchanged l)"
  obtains body raw where "seat_list_parse (ss_body (wi_submission w)) = Inr body" "bo_channel body = wi_channel w"
    "bo_signer_device body = ss_signer_device (wi_submission w)" "decode_signature_b64 lib (ss_signature (wi_submission w)) = Inr raw"
    "version_rule (wi_kind w) (wi_stored w) (wi_submission w) body = Inr (Some l)"
  using assms plan_apply_not_Unchanged
  by (auto simp: plan_seat_list_write_def andR_Inr invalid_def Let_def split: if_splits option.splits)

text \<open>After a change that was accepted, the stored list is the submitted one.\<close>

lemma put_stored:
  assumes "put_seat_list lib channel sub allow now db = (Inr out, db')"
  obtains body raw where "seat_list_parse (ss_body sub) = Inr body" "bo_channel body = channel" "bo_signer_device body = ss_signer_device sub"
    "decode_signature_b64 lib (ss_signature sub) = Inr raw" "map_of (pd_seat_lists db') channel = Some (so_list out)"
    "sl_version (so_list out) = bo_version body" "sl_body (so_list out) = ss_body sub" "sl_signature (so_list out) = ss_signature sub"
  using assms
proof (cases rule: put_cases)
  case (same l)
  then obtain body raw where b: "seat_list_parse (ss_body sub) = Inr body" "bo_channel body = channel" "bo_signer_device body = ss_signer_device sub"
      "decode_signature_b64 lib (ss_signature sub) = Inr raw" "version_rule Put (map_of (pd_seat_lists db) channel) sub body = Inr (Some l)"
    by (elim plan_Unchanged) simp
  then have "map_of (pd_seat_lists db) channel = Some l" "sl_version l = bo_version body" "sl_body l = ss_body sub" "sl_signature l = ss_signature sub"
    by (auto simp: version_rule_def invalid_def split: option.splits if_splits)
  then show ?thesis using that b(1-4) same by simp
next
  case (applies p)
  then have plan: "plan_seat_list_write lib (write_input db Put channel sub allow now) = Inr (Apply p)" by (simp add: plan_applied_def)
  from plan obtain body raw where "seat_list_parse (ss_body sub) = Inr body" "bo_channel body = channel"
      "bo_signer_device body = ss_signer_device sub" "decode_signature_b64 lib (ss_signature sub) = Inr raw"
    by (auto simp: plan_seat_list_write_def andR_Inr invalid_def Let_def split: if_splits)
  moreover from plan obtain handovers where "wp_row p = planned_row (write_input db Put channel sub allow now) body handovers"
    using calculation(1) by (elim plan_Apply) simp
  ultimately show ?thesis using that applies by (simp add: apply_decision_def planned_row_def table_simps)
qed simp

end
