(* ===== verification/Group_Invariants.thy ===== *)
theory Group_Invariants
  imports Seat_Reach
begin

text \<open>
  The invariants of seat lists, groups and stored commits, and how the single writes keep them.
\<close>

section \<open>Groups\<close>

text \<open>A group is stored under its id, a channel has at most one open group of a kind, and a roster
  has no device twice and at most a hundred of them.\<close>

definition roster_ok :: "mls_group \<Rightarrow> bool" where
  "roster_ok g \<longleftrightarrow> distinct (mg_members g) \<and> length (mg_members g) \<le> MAX_MLS_GROUP_MEMBERS"

definition groups_ok :: "(string, mls_group) table \<Rightarrow> bool" where
  "groups_ok t \<longleftrightarrow> keyed mg_id t \<and> (\<forall>k g. map_of t k = Some g \<longrightarrow> is_valid_group_id k \<and> roster_ok g)
     \<and> (\<forall>k k' g g'. map_of t k = Some g \<longrightarrow> map_of t k' = Some g' \<longrightarrow> mg_open g \<longrightarrow> mg_open g' \<longrightarrow>
          mg_channel g = mg_channel g' \<longrightarrow> mg_kind g = mg_kind g' \<longrightarrow> k = k')"

lemma groups_ok_id: "groups_ok t \<Longrightarrow> map_of t k = Some g \<Longrightarrow> mg_id g = k"
  unfolding groups_ok_def by (blast dest: keyed_lookup_key)

lemma groups_ok_one_open:
  "groups_ok t \<Longrightarrow> map_of t k = Some g \<Longrightarrow> map_of t k' = Some g' \<Longrightarrow> mg_open g \<Longrightarrow> mg_open g' \<Longrightarrow>
     mg_channel g = mg_channel g' \<Longrightarrow> mg_kind g = mg_kind g' \<Longrightarrow> k = k'"
  unfolding groups_ok_def by blast

text \<open>A row of the same group that does not open it.\<close>

definition same_group :: "mls_group \<Rightarrow> mls_group \<Rightarrow> bool" where
  "same_group g g' \<longleftrightarrow> mg_id g' = mg_id g \<and> mg_channel g' = mg_channel g \<and> mg_kind g' = mg_kind g \<and> (mg_open g' \<longrightarrow> mg_open g)"

lemma groups_ok_sub:
  assumes ok: "groups_ok t" and keyed: "keyed mg_id t'"
    and sub: "\<And>k g'. map_of t' k = Some g' \<Longrightarrow> \<exists>g. map_of t k = Some g \<and> same_group g g' \<and> roster_ok g'"
  shows "groups_ok t'"
  unfolding groups_ok_def
proof (intro conjI allI impI)
  show "keyed mg_id t'" by (rule keyed)
  show "is_valid_group_id k" "roster_ok g" if "map_of t' k = Some g" for k g
    using sub [OF that] ok unfolding groups_ok_def by blast+
  show "k = k'" if m: "map_of t' k = Some g" "map_of t' k' = Some g'" and o: "mg_open g" "mg_open g'" "mg_channel g = mg_channel g'" "mg_kind g = mg_kind g'"
    for k k' g g'
  proof -
    obtain h h' where "map_of t k = Some h" "same_group h g" "map_of t k' = Some h'" "same_group h' g'" using sub m by blast
    then show ?thesis using groups_ok_one_open [OF ok] o by (simp add: same_group_def)
  qed
qed

lemma groups_ok_replace:
  assumes "groups_ok t" "map_of t i = Some g" "same_group g g'" "roster_ok g'"
  shows "groups_ok (AList.update i g' t)"
proof (rule groups_ok_sub [OF assms(1)])
  show "keyed mg_id (AList.update i g' t)"
    using assms groups_ok_id [OF assms(1,2)] by (auto simp: groups_ok_def same_group_def)
  show "\<exists>g. map_of t k = Some g \<and> same_group g h \<and> roster_ok h" if "map_of (AList.update i g' t) k = Some h" for k h
    using that assms by (auto simp: table_simps groups_ok_def same_group_def split: if_splits)
qed

lemma groups_ok_map:
  assumes "groups_ok t" "\<And>g. same_group g (f g)" "\<And>g. roster_ok g \<Longrightarrow> roster_ok (f g)"
  shows "groups_ok (map (\<lambda>(k, g). (k, f g)) t)"
proof (rule groups_ok_sub [OF assms(1)])
  show "keyed mg_id (map (\<lambda>(k, g). (k, f g)) t)"
    using assms(1,2) by (intro keyed_map_rows) (auto simp: groups_ok_def same_group_def)
  show "\<exists>g. map_of t k = Some g \<and> same_group g h \<and> roster_ok h" if "map_of (map (\<lambda>(k, g). (k, f g)) t) k = Some h" for k h
    using that assms by (auto simp: map_of_map_rows groups_ok_def)
qed

lemma groups_ok_subtable:
  assumes "groups_ok t" "keyed mg_id t'" "\<And>k g. map_of t' k = Some g \<Longrightarrow> map_of t k = Some g"
  shows "groups_ok t'"
  using assms(3) assms(1) by (intro groups_ok_sub [OF assms(1,2)]) (fastforce simp: same_group_def groups_ok_def)

lemma groups_ok_filter: "groups_ok t \<Longrightarrow> groups_ok (filter (\<lambda>(k, g). P k g) t)"
proof -
  assume ok: "groups_ok t"
  then have k: "keyed mg_id t" by (simp add: groups_ok_def)
  show ?thesis
    using map_of_filter_rows [OF keyed_distinct [OF k], of P]
    by (intro groups_ok_subtable [OF ok keyed_filter [OF k]]) (auto split: option.splits if_splits)
qed

lemma groups_ok_delete: "groups_ok t \<Longrightarrow> groups_ok (AList.delete i t)"
  by (rule groups_ok_subtable) (auto simp: table_simps groups_ok_def split: if_splits)

lemma groups_ok_foldl_delete: "groups_ok t \<Longrightarrow> groups_ok (foldl (\<lambda>t i. AList.delete i t) t is)"
  by (induction "is" arbitrary: t) (auto intro: groups_ok_delete)

lemma groups_ok_insert:
  assumes ok: "groups_ok t" and i: "is_valid_group_id (mg_id g)" "roster_ok g" and new: "map_of t (mg_id g) = None"
    and alone: "\<And>k h. map_of t k = Some h \<Longrightarrow> mg_open h \<Longrightarrow> mg_channel h = mg_channel g \<Longrightarrow> mg_kind h = mg_kind g \<Longrightarrow> False"
  shows "groups_ok (AList.update (mg_id g) g t)"
  unfolding groups_ok_def
proof (intro conjI allI impI)
  show "keyed mg_id (AList.update (mg_id g) g t)" using ok by (auto simp: groups_ok_def)
  show "is_valid_group_id k" "roster_ok h" if "map_of (AList.update (mg_id g) g t) k = Some h" for k h
    using that ok i unfolding groups_ok_def by (auto simp: table_simps split: if_splits)
  show "k = k'" if "map_of (AList.update (mg_id g) g t) k = Some h" "map_of (AList.update (mg_id g) g t) k' = Some h'"
    "mg_open h" "mg_open h'" "mg_channel h = mg_channel h'" "mg_kind h = mg_kind h'" for k k' h h'
    using that alone groups_ok_one_open [OF ok] by (auto simp: table_simps split: if_splits)
qed

section \<open>Seat lists\<close>

text \<open>A stored list is one that was accepted: its text is a seat list of its channel with its version
  and signer, and the data of its commits fits.\<close>

definition list_ok :: "seat_lib \<Rightarrow> seat_list \<Rightarrow> bool" where
  "list_ok lib l \<longleftrightarrow> (\<exists>b ad. seat_list_parse (sl_body l) = Inr b \<and> bo_channel b = sl_id l \<and> bo_version b = sl_version l
     \<and> bo_signer_user b = sl_signer_user l \<and> bo_signer_device b = sl_signer_device l \<and> commit_ad_sha256 lib l = Inr ad)"

definition lists_ok :: "seat_lib \<Rightarrow> (string, seat_list) table \<Rightarrow> bool" where
  "lists_ok lib t \<longleftrightarrow> (\<forall>k l. map_of t k = Some l \<longrightarrow> sl_id l = k \<and> list_ok lib l)"

text \<open>An open text group carries the hash of the stored list of its channel.\<close>

definition bound_to_list :: "seat_lib \<Rightarrow> (string, seat_list) table \<Rightarrow> mls_group \<Rightarrow> bool" where
  "bound_to_list lib stored g \<longleftrightarrow> (mg_open g \<longrightarrow> mg_kind g = Text \<longrightarrow>
     (\<exists>l ad. map_of stored (mg_channel g) = Some l \<and> commit_ad_sha256 lib l = Inr ad \<and> mg_seat_list_ad g = Some ad))"

definition groups_bound :: "seat_lib \<Rightarrow> (string, seat_list) table \<Rightarrow> (string, mls_group) table \<Rightarrow> bool" where
  "groups_bound lib stored t \<longleftrightarrow> (\<forall>k g. map_of t k = Some g \<longrightarrow> bound_to_list lib stored g)"

section \<open>Commits\<close>

text \<open>A stored commit is under the text of its group and epoch, with the prefix when the text
  transaction wrote it; then its group is a text group that has reached the epoch.\<close>

definition commit_ok :: "(string, mls_group) table \<Rightarrow> string \<Rightarrow> mls_commit \<Rightarrow> bool" where
  "commit_ok groups k c \<longleftrightarrow> is_valid_group_id (cm_group c) \<and>
     (k = commit_composite_id (cm_group c) (cm_epoch c) \<or>
      k = text_commit_key (commit_composite_id (cm_group c) (cm_epoch c))
        \<and> (\<exists>g. map_of groups (cm_group c) = Some g \<and> mg_kind g = Text \<and> cm_epoch c \<le> mg_current_epoch g))"

definition commits_ok :: "(string, mls_group) table \<Rightarrow> (string, mls_commit) table \<Rightarrow> bool" where
  "commits_ok groups t \<longleftrightarrow> distinct (map fst t) \<and> (\<forall>k c. map_of t k = Some c \<longrightarrow> commit_ok groups k c)"

lemma commits_ok_filter: "commits_ok groups t \<Longrightarrow> commits_ok groups (filter (\<lambda>(k, c). P k c) t)"
  using map_of_filter_rows [of t P] by (auto simp: commits_ok_def distinct_map_filter split: option.splits if_splits)

lemma commits_ok_groups:
  assumes "commits_ok groups t"
    and "\<And>k c g. map_of t k = Some c \<Longrightarrow> map_of groups (cm_group c) = Some g \<Longrightarrow> mg_kind g = Text \<Longrightarrow>
      \<exists>g'. map_of groups' (cm_group c) = Some g' \<and> mg_kind g' = Text \<and> mg_current_epoch g \<le> mg_current_epoch g'"
  shows "commits_ok groups' t"
  using assms unfolding commits_ok_def commit_ok_def by (meson order_trans)

lemma commit_id_inject:
  assumes "is_valid_group_id i" "is_valid_group_id j" "commit_composite_id i e = commit_composite_id j e'"
  shows "i = j \<and> e = e'"
proof -
  have "i = j" and s: "show_i64 e = show_i64 e'" using assms by (auto simp: commit_composite_id_def is_valid_group_id_def)
  have digits: "CHR ''-'' \<notin> set (decimal n)" for n using decimal_digits [of n] by (auto simp: list_all_iff ascii_digit_def)
  have "e = e'"
  proof (cases "e < 0"; cases "e' < 0")
    assume "e < 0" "\<not> e' < 0"
    then show ?thesis using s digits [of "nat e'"] by (metis append.simps abs_of_nonneg append_Cons list.set_intros(1) not_le show_i64_def)
  next
    assume "\<not> e < 0" "e' < 0"
    then show ?thesis using s digits [of "nat e"] by (metis append.simps abs_of_nonneg append_Cons list.set_intros(1) not_le show_i64_def)
  qed (use s in \<open>auto simp: show_i64_def nat_eq_iff\<close>)
  then show ?thesis using \<open>i = j\<close> by simp
qed

lemma text_key_not_call: "is_valid_group_id i \<Longrightarrow> text_commit_key k \<noteq> commit_composite_id i e"
  by (cases i) (auto simp: text_commit_key_def TEXT_COMMIT_KEY_PREFIX_def commit_composite_id_def is_valid_group_id_def hex_char_def)

end
