(* ===== verification/Group_Writes.thy ===== *)
theory Group_Writes
  imports Group_Invariants
begin

text \<open>
  The operations keep the invariant of seat lists, groups and commits.
\<close>

definition group_inv :: "seat_lib \<Rightarrow> pc_db \<Rightarrow> bool" where
  "group_inv lib db \<longleftrightarrow> groups_ok (pd_groups db) \<and> lists_ok lib (pd_seat_lists db)
     \<and> groups_bound lib (pd_seat_lists db) (pd_groups db) \<and> commits_ok (pd_groups db) (pd_commits db)"

definition group_data :: "pc_db \<Rightarrow> (string, mls_group) table \<times> (string, seat_list) table \<times> (string, mls_commit) table" where
  "group_data db = (pd_groups db, pd_seat_lists db, pd_commits db)"

lemma group_inv_data: "group_data db' = group_data db \<Longrightarrow> group_inv lib db' = group_inv lib db"
  by (simp add: group_data_def group_inv_def)

lemma open_text_group_row:
  "groups_ok (pd_groups db) \<Longrightarrow> open_text_group db channel = Some g \<Longrightarrow>
     map_of (pd_groups db) (mg_id g) = Some g \<and> mg_open g \<and> mg_kind g = Text \<and> mg_channel g = channel"
  using keyed_find_key [of mg_id "pd_groups db"]
  by (auto simp: open_text_group_def groups_ok_def is_open_text_group_of_def dest: find_Some_P)

lemma open_text_group_none:
  "open_text_group db channel = None \<Longrightarrow> map_of (pd_groups db) k = Some g \<Longrightarrow> mg_open g \<Longrightarrow> mg_kind g = Text \<Longrightarrow> mg_channel g \<noteq> channel"
  using rows_lookup [of "pd_groups db" k g] by (auto simp: open_text_group_def find_None_ex is_open_text_group_of_def)

section \<open>Changes of the seat list\<close>

lemma planned_list_ok:
  assumes "plan_seat_list_write lib w = Inr (Apply p)"
  shows "sl_id (wp_row p) = wi_channel w \<and> list_ok lib (wp_row p) \<and> commit_ad_sha256 lib (wp_row p) = Inr (wp_seat_list_ad p)"
  using assms by (elim plan_Apply) (simp add: list_ok_def planned_row_def)

lemma note_plan_facts:
  "same_group g (note_plan p g)" "roster_ok (note_plan p g) = roster_ok g" "mg_seat_list_ad (note_plan p g) = Some (wp_seat_list_ad p)"
  "mg_current_epoch (note_plan p g) = mg_current_epoch g" "mg_kind (note_plan p g) = mg_kind g" "mg_channel (note_plan p g) = mg_channel g"
  "mg_open (note_plan p g) = mg_open g"
  by (simp_all add: note_plan_def same_group_def roster_ok_def)

lemma lists_ok_update: "lists_ok lib t \<Longrightarrow> sl_id l = k \<Longrightarrow> list_ok lib l \<Longrightarrow> lists_ok lib (AList.update k l t)"
  by (auto simp: lists_ok_def table_simps)

lemma group_inv_applied:
  assumes inv: "group_inv lib db" and p: "plan_applied lib db kind channel sub allow now p"
    and db': "group_data db' = group_data (apply_decision (Apply p) (map_option mg_id (open_text_group db channel)) db)"
  shows "group_inv lib db'"
proof -
  let ?t = "pd_groups db" and ?lists = "AList.update channel (wp_row p) (pd_seat_lists db)"
  have row: "sl_id (wp_row p) = channel" "list_ok lib (wp_row p)" "commit_ad_sha256 lib (wp_row p) = Inr (wp_seat_list_ad p)"
    using planned_list_ok p by (auto simp: plan_applied_def)
  have ok: "groups_ok ?t" "lists_ok lib (pd_seat_lists db)" "groups_bound lib (pd_seat_lists db) ?t" "commits_ok ?t (pd_commits db)"
    using inv by (simp_all add: group_inv_def)
  have lists: "lists_ok lib ?lists" using lists_ok_update [OF ok(2) row(1,2)] by simp
  have elsewhere: "bound_to_list lib ?lists g" if "map_of ?t k = Some g" "mg_channel g \<noteq> channel \<or> \<not> mg_open g \<or> mg_kind g \<noteq> Text" for k g
    using ok(3) that by (auto simp: groups_bound_def bound_to_list_def table_simps)
  show ?thesis
  proof (cases "open_text_group db channel")
    case None
    then have "groups_bound lib ?lists ?t"
      unfolding groups_bound_def using elsewhere open_text_group_none [OF None] by blast
    then show ?thesis using db' None ok lists row(1) by (simp add: group_data_def apply_decision_def group_inv_def)
  next
    case (Some g)
    have g: "map_of ?t (mg_id g) = Some g" "mg_open g" "mg_kind g = Text" "mg_channel g = channel"
      using open_text_group_row [OF ok(1) Some] by blast+
    let ?t' = "AList.update (mg_id g) (note_plan p g) ?t"
    have "roster_ok g" using ok(1) g(1) unfolding groups_ok_def by blast
    then have "groups_ok ?t'" using groups_ok_replace [OF ok(1) g(1)] by (simp add: note_plan_facts)
    moreover have "bound_to_list lib ?lists h" if h: "map_of ?t' k = Some h" for k h
    proof (cases "k = mg_id g")
      case True
      then have "h = note_plan p g" using h by (simp add: table_simps)
      then show ?thesis using row(3) g by (simp add: table_simps bound_to_list_def note_plan_facts)
    next
      case False
      then have "map_of ?t k = Some h" using h by (simp add: table_simps)
      moreover have "mg_channel h \<noteq> channel \<or> \<not> mg_open h \<or> mg_kind h \<noteq> Text"
        using False groups_ok_one_open [OF ok(1) \<open>map_of ?t k = Some h\<close> g(1)] g by auto
      ultimately show ?thesis by (rule elsewhere)
    qed
    moreover have "commits_ok ?t' (pd_commits db)"
      using g by (intro commits_ok_groups [OF ok(4)]) (auto simp: table_simps note_plan_facts)
    ultimately show ?thesis using db' Some g lists row(1) by (simp add: group_data_def apply_decision_def group_inv_def groups_bound_def)
  qed
qed

lemma group_inv_put: "group_inv lib db \<Longrightarrow> group_inv lib (snd (put_seat_list lib channel sub allow t db))"
proof -
  assume inv: "group_inv lib db"
  obtain r db' where run: "put_seat_list lib channel sub allow t db = (r, db')" by fastforce
  then show ?thesis
  proof (cases rule: put_cases)
    case (applies p)
    then show ?thesis using group_inv_applied [OF inv applies(1), of db'] run by simp
  qed (use inv run in simp_all)
qed

lemma group_inv_protect: "group_inv lib db \<Longrightarrow> group_inv lib (snd (protect_channel lib channel sub t db))"
proof -
  assume inv: "group_inv lib db"
  obtain r db' where run: "protect_channel lib channel sub t db = (r, db')" by fastforce
  then show ?thesis
  proof (cases rule: protect_cases)
    case (applies p)
    then show ?thesis using group_inv_applied [OF inv applies(1), of db'] run by (simp add: group_data_def)
  qed (use inv run in simp)
qed

section \<open>Removals\<close>

lemma group_inv_release:
  assumes inv: "group_inv lib db"
  shows "group_inv lib (snd (release_channel_seats_for_user lib user server t db))"
proof (cases "seat_cooldown_until lib t")
  case (Inr until)
  let ?f = "\<lambda>g. if forced_group db user server g
    then g\<lparr>mg_pending_removals := mg_pending_removals g @ [\<lparr>mp_user = user, mp_created_at = t\<rparr>]\<rparr> else g"
  let ?t = "map (\<lambda>(k, g). (k, ?f g)) (pd_groups db)"
  have ok: "groups_ok (pd_groups db)" "groups_bound lib (pd_seat_lists db) (pd_groups db)" "commits_ok (pd_groups db) (pd_commits db)"
    using inv by (simp_all add: group_inv_def)
  have "groups_ok ?t" by (rule groups_ok_map [OF ok(1)]) (simp_all add: same_group_def roster_ok_def)
  moreover have "groups_bound lib (pd_seat_lists db) ?t"
    using ok(2) by (fastforce simp: groups_bound_def bound_to_list_def map_of_map_rows)
  moreover have "commits_ok ?t (pd_commits db)" by (rule commits_ok_groups [OF ok(3)]) (simp add: map_of_map_rows)
  ultimately show ?thesis using inv
    by (simp add: release_channel_seats_for_user_def eff_simps Inr Let_def group_inv_def)
qed (use inv in \<open>simp add: release_channel_seats_for_user_def eff_simps\<close>)

lemma group_inv_delete:
  assumes inv: "group_inv lib db"
  shows "group_inv lib (snd (delete_protected_channel_data channel db))"
proof -
  define gone where "gone = map mg_id (filter (\<lambda>g. mg_channel g = channel \<and> mg_kind g = Text) (rows (pd_groups db)))"
  let ?t = "filter (\<lambda>(i, g). i \<notin> set gone) (pd_groups db)" and ?lists = "AList.delete channel (pd_seat_lists db)"
  let ?commits = "filter (\<lambda>(k, c). cm_group c \<notin> set gone) (pd_commits db)"
  have ok: "groups_ok (pd_groups db)" "lists_ok lib (pd_seat_lists db)" "groups_bound lib (pd_seat_lists db) (pd_groups db)"
      "commits_ok (pd_groups db) (pd_commits db)"
    using inv by (simp_all add: group_inv_def)
  have k: "keyed mg_id (pd_groups db)" using ok(1) by (simp add: groups_ok_def)
  have lookup: "map_of ?t i = (if i \<in> set gone then None else map_of (pd_groups db) i)" for i
    using map_of_filter_rows [OF keyed_distinct [OF k], of "\<lambda>i _. i \<notin> set gone" i] by (auto split: option.split)
  have "bound_to_list lib ?lists g" if g: "map_of ?t i = Some g" for i g
  proof -
    have i: "map_of (pd_groups db) i = Some g" "i \<notin> set gone" using g lookup by (auto split: if_splits)
    have "g \<in> set (rows (pd_groups db))" "mg_id g = i" using rows_lookup [OF i(1)] groups_ok_id [OF ok(1) i(1)] by simp_all
    then have "\<not> (mg_channel g = channel \<and> mg_kind g = Text)" using i(2) by (auto simp: gone_def)
    then show ?thesis using ok(3) i(1) by (auto simp: groups_bound_def bound_to_list_def table_simps)
  qed
  moreover have "commits_ok ?t ?commits"
  proof -
    have c: "cm_group c \<notin> set gone" if "map_of ?commits j = Some c" for j c using that by (auto dest: map_of_SomeD)
    show ?thesis
    proof (rule commits_ok_groups [OF commits_ok_filter [OF ok(4)]])
      fix j c g
      assume "map_of ?commits j = Some c" "map_of (pd_groups db) (cm_group c) = Some g" "mg_kind g = Text"
      then show "\<exists>g'. map_of ?t (cm_group c) = Some g' \<and> mg_kind g' = Text \<and> mg_current_epoch g \<le> mg_current_epoch g'"
        using c [of j c] lookup [of "cm_group c"] by simp
    qed
  qed
  ultimately show ?thesis
    using ok(2) groups_ok_filter [OF ok(1), of "\<lambda>i _. i \<notin> set gone"]
    unfolding delete_protected_channel_data_def modE_run Let_def gone_def [symmetric]
    by (simp add: group_inv_def groups_bound_def lists_ok_def table_simps)
qed

end
