(* ===== verification/Group_Commits.thy ===== *)
theory Group_Commits
  imports Group_Writes
begin

text \<open>
  Creating and closing groups, and the commits of both planes, keep the invariant.
\<close>

section \<open>Single writes\<close>

text \<open>A group row replaced by one of the same group, with the same hash, at the same epoch or a later
  one.\<close>

lemma commits_ok_replace:
  assumes "commits_ok groups t" "map_of groups i = Some g" "mg_kind g' = mg_kind g" "mg_current_epoch g \<le> mg_current_epoch g'"
  shows "commits_ok (AList.update i g' groups) t"
  using assms by (intro commits_ok_groups [OF assms(1)]) (auto simp: table_simps)

lemma group_inv_replace:
  assumes inv: "group_inv lib db" and g: "map_of (pd_groups db) i = Some g" "same_group g g'" "roster_ok g'"
    and kept: "mg_seat_list_ad g' = mg_seat_list_ad g"
    and db': "pd_groups db' = AList.update i g' (pd_groups db)" "pd_seat_lists db' = pd_seat_lists db"
      "commits_ok (AList.update i g' (pd_groups db)) (pd_commits db')"
  shows "group_inv lib db'"
proof -
  have ok: "groups_ok (pd_groups db)" "groups_bound lib (pd_seat_lists db) (pd_groups db)" using inv by (simp_all add: group_inv_def)
  have "bound_to_list lib (pd_seat_lists db) g" using ok(2) g(1) by (simp add: groups_bound_def)
  then have "bound_to_list lib (pd_seat_lists db) g'" using g(2) kept by (auto simp: bound_to_list_def same_group_def)
  then have "groups_bound lib (pd_seat_lists db') (pd_groups db')" using ok(2) db' by (auto simp: groups_bound_def table_simps)
  then show ?thesis using inv db' groups_ok_replace [OF ok(1) g] by (simp add: group_inv_def)
qed

lemma close_group_facts:
  "roster_ok (g\<lparr>mg_open := False, mg_closed_at := a, mg_superseded_by := b\<rparr>) = roster_ok g"
  "same_group g (g\<lparr>mg_open := False, mg_closed_at := a, mg_superseded_by := b\<rparr>)"
  "roster_ok (g\<lparr>mg_open := False, mg_closed_at := a\<rparr>) = roster_ok g" "same_group g (g\<lparr>mg_open := False, mg_closed_at := a\<rparr>)"
  by (simp_all add: roster_ok_def same_group_def)

lemma group_inv_close_row:
  assumes inv: "group_inv lib db" and g: "map_of (pd_groups db) i = Some g" "same_group g g'" "roster_ok g' = roster_ok g"
    "mg_seat_list_ad g' = mg_seat_list_ad g" "mg_current_epoch g' = mg_current_epoch g"
  shows "group_inv lib (db\<lparr>pd_groups := AList.update i g' (pd_groups db)\<rparr>)"
proof (rule group_inv_replace [OF inv g(1,2)])
  show "roster_ok g'" using inv g(1,3) unfolding group_inv_def groups_ok_def by blast
  show "commits_ok (AList.update i g' (pd_groups db)) (pd_commits (db\<lparr>pd_groups := AList.update i g' (pd_groups db)\<rparr>))"
    using inv g(1,2,5) by (intro commits_ok_replace) (auto simp: group_inv_def same_group_def)
qed (use g(4) in simp_all)

text \<open>A new group, when the channel has no open group of its kind.\<close>

lemma group_inv_insert:
  assumes inv: "group_inv lib db" and g: "is_valid_group_id (mg_id g)" "roster_ok g" "map_of (pd_groups db) (mg_id g) = None"
    and alone: "\<And>k h. map_of (pd_groups db) k = Some h \<Longrightarrow> mg_open h \<Longrightarrow> mg_channel h = mg_channel g \<Longrightarrow> mg_kind h = mg_kind g \<Longrightarrow> False"
    and bound: "bound_to_list lib (pd_seat_lists db) g"
  shows "group_inv lib (db\<lparr>pd_groups := AList.update (mg_id g) g (pd_groups db)\<rparr>)"
proof -
  have ok: "groups_ok (pd_groups db)" "commits_ok (pd_groups db) (pd_commits db)" using inv by (simp_all add: group_inv_def)
  have "commits_ok (AList.update (mg_id g) g (pd_groups db)) (pd_commits db)"
    using g(3) by (intro commits_ok_groups [OF ok(2)]) (auto simp: table_simps)
  then show ?thesis using inv groups_ok_insert [OF ok(1) g alone] bound
    by (simp add: group_inv_def groups_bound_def table_simps)
qed

section \<open>Call groups\<close>

lemma open_group_none:
  "open_group db channel kind = None \<Longrightarrow> map_of (pd_groups db) k = Some h \<Longrightarrow> mg_open h \<Longrightarrow> mg_channel h = channel \<Longrightarrow> mg_kind h = kind \<Longrightarrow> False"
  using rows_lookup [of "pd_groups db" k h] by (auto simp: open_group_def find_None_ex)

lemma one_member_roster: "mg_members g = [m] \<Longrightarrow> roster_ok g"
  by (simp add: roster_ok_def MAX_MLS_GROUP_MEMBERS_def)

lemma group_inv_create_fresh:
  assumes inv: "group_inv lib db" and g: "is_valid_group_id (mg_id g)" "mg_members g = [mg_created_by g]" "mg_kind g = Call"
  shows "group_inv lib (snd (create_fresh_group g db))"
proof (cases "open_group db (mg_channel g) (mg_kind g) = None \<and> map_of (pd_groups db) (mg_id g) = None")
  case True
  then have "group_inv lib (db\<lparr>pd_groups := AList.update (mg_id g) g (pd_groups db)\<rparr>)"
    using g one_member_roster open_group_none by (intro group_inv_insert [OF inv]) (auto simp: bound_to_list_def)
  then show ?thesis using True by (simp add: create_fresh_group_def put_group_def eff_simps)
qed (use inv in \<open>auto simp: create_fresh_group_def put_group_def eff_simps split: option.splits\<close>)

lemma group_inv_create_call:
  assumes inv: "group_inv lib db" and g: "is_valid_group_id (mg_id g)" "mg_members g = [mg_created_by g]"
  shows "group_inv lib (snd (create_mls_group g supersedes db))"
proof (cases "\<exists>i old. mg_kind g = Call \<and> supersedes = Some i \<and> map_of (pd_groups db) i = Some old \<and> mg_channel old = mg_channel g
    \<and> mg_kind old = mg_kind g \<and> mg_open old \<and> map_of (pd_groups db) (mg_id g) = None")
  case True
  then obtain i old where o: "mg_kind g = Call" "supersedes = Some i" "map_of (pd_groups db) i = Some old" "mg_channel old = mg_channel g"
    "mg_kind old = mg_kind g" "mg_open old" "map_of (pd_groups db) (mg_id g) = None" by blast
  let ?old = "old\<lparr>mg_open := False, mg_closed_at := Some (mg_created_at g), mg_superseded_by := Some (mg_id g)\<rparr>"
  let ?db = "db\<lparr>pd_groups := AList.update i ?old (pd_groups db)\<rparr>"
  have ok: "groups_ok (pd_groups db)" using inv by (simp add: group_inv_def)
  have closed: "group_inv lib ?db" by (rule group_inv_close_row [OF inv o(3)]) (simp_all add: close_group_facts)
  have "i \<noteq> mg_id g" using o by auto
  then have "group_inv lib (?db\<lparr>pd_groups := AList.update (mg_id g) g (pd_groups ?db)\<rparr>)"
  proof (intro group_inv_insert [OF closed])
    show "False" if "map_of (pd_groups ?db) k = Some h" "mg_open h" "mg_channel h = mg_channel g" "mg_kind h = mg_kind g" for k h
      using that o groups_ok_one_open [OF ok _ o(3), of k h] by (auto simp: table_simps split: if_splits)
  qed (use g o one_member_roster in \<open>auto simp: table_simps bound_to_list_def\<close>)
  then show ?thesis using o by (simp add: create_mls_group_def put_group_def eff_simps)
next
  case False
  then show ?thesis using inv group_inv_create_fresh [OF inv g]
    by (auto simp: create_mls_group_def eff_simps split: option.splits)
qed

lemma group_inv_close: "group_inv lib db \<Longrightarrow> group_inv lib (snd (close_mls_group i t db))"
  using group_inv_close_row [of lib db i]
  by (auto simp: close_mls_group_def fetch_mls_group_def put_group_def eff_simps close_group_facts split: option.splits)

section \<open>Text groups\<close>

lemma prepare_text_group_Inr:
  "prepare_text_group lib g l = Inr h \<Longrightarrow> mg_id h = mg_id g \<and> mg_channel h = mg_channel g \<and> mg_kind h = Text \<and> mg_open h
     \<and> mg_members h = [mg_created_by g] \<and> (\<exists>ad. commit_ad_sha256 lib l = Inr ad \<and> mg_seat_list_ad h = Some ad)"
  by (auto simp: prepare_text_group_def andR_Inr invalid_def split: if_splits)

text \<open>The writes of a successful creation: an evicted call, the superseded group, the new group.\<close>

definition text_group_base :: "pc_db \<Rightarrow> string \<Rightarrow> pc_db" where
  "text_group_base db i = (if map_of (pd_groups db) i = None then db else drop_group i db)"

definition superseding :: "mls_group \<Rightarrow> string option \<Rightarrow> pc_db \<Rightarrow> pc_db" where
  "superseding g supersedes db = (case Option.bind supersedes (map_of (pd_groups db)) of
     Some old \<Rightarrow> db\<lparr>pd_groups := AList.update (the supersedes) (close_superseded g old) (pd_groups db)\<rparr> | None \<Rightarrow> db)"

lemma close_superseded_closed: "\<not> mg_open (close_superseded g old)"
  by (simp add: close_superseded_def)

lemma superseding_lookup:
  "map_of (pd_groups (superseding g supersedes db)) k =
     (if supersedes = Some k then map_option (close_superseded g) (map_of (pd_groups db) k) else map_of (pd_groups db) k)"
  by (cases supersedes) (auto simp: superseding_def table_simps split: option.split)

lemma create_text_cases:
  assumes "create_text_mls_group lib g supersedes db = (r, db')"
  obtains (same) "db' = db"
  | (created) l h where "map_of (pd_seat_lists db) (mg_channel g) = Some l" "prepare_text_group lib g l = Inr h"
      "open_text_group db (mg_channel g) = None \<or> (\<exists>found. open_text_group db (mg_channel g) = Some found \<and> supersedes = Some (mg_id found))"
      "\<And>taken. map_of (pd_groups db) (mg_id h) = Some taken \<Longrightarrow> mg_kind taken = Call"
      "db' = (superseding g supersedes (text_group_base db (mg_id h)))
         \<lparr>pd_groups := AList.update (mg_id h) h (pd_groups (superseding g supersedes (text_group_base db (mg_id h))))\<rparr>"
proof (cases "map_of (pd_seat_lists db) (mg_channel g)")
  case None
  then show ?thesis using assms same by (simp add: create_text_mls_group_def eff_simps)
next
  case (Some l)
  let ?found = "open_text_group db (mg_channel g)"
  show ?thesis
  proof (cases "prepare_text_group lib g l")
    case (Inl e)
    then show ?thesis using assms same Some
      by (auto simp: create_text_mls_group_def eff_simps Let_def split: option.splits sum.splits if_splits)
  next
    case (Inr h)
    have ins: "insert_text_group lib g h supersedes db = (r', db'') \<Longrightarrow> db'' = db \<or>
        (\<forall>taken. map_of (pd_groups db) (mg_id h) = Some taken \<longrightarrow> mg_kind taken = Call) \<and>
        db'' = (superseding g supersedes (text_group_base db (mg_id h)))
         \<lparr>pd_groups := AList.update (mg_id h) h (pd_groups (superseding g supersedes (text_group_base db (mg_id h))))\<rparr>" for r' db''
      by (auto simp: insert_text_group_def eff_simps Let_def superseding_def text_group_base_def split: option.splits if_splits)
    consider "db' = db" | "insert_text_group lib g h supersedes db = (r, db')"
        "?found = None \<or> (\<exists>found. ?found = Some found \<and> supersedes = Some (mg_id found))"
      using assms Some Inr by (auto simp: create_text_mls_group_def eff_simps Let_def split: option.splits sum.splits if_splits)
    then show ?thesis
    proof cases
      case 2
      then show ?thesis using ins [OF 2(1)] same created [OF Some Inr] by blast
    qed (rule same)
  qed
qed

lemma group_inv_drop:
  assumes inv: "group_inv lib db"
  shows "group_inv lib (drop_group i db)"
proof -
  have ok: "groups_ok (pd_groups db)" "commits_ok (pd_groups db) (pd_commits db)" using inv by (simp_all add: group_inv_def)
  have c: "cm_group c \<noteq> i" if "map_of (filter (\<lambda>(k, c). cm_group c \<noteq> i) (pd_commits db)) j = Some c" for j c
    using that by (auto dest: map_of_SomeD)
  have "commits_ok (AList.delete i (pd_groups db)) (filter (\<lambda>(k, c). cm_group c \<noteq> i) (pd_commits db))"
  proof (rule commits_ok_groups [OF commits_ok_filter [OF ok(2)]])
    fix k c g
    assume "map_of (filter (\<lambda>(k, c). cm_group c \<noteq> i) (pd_commits db)) k = Some c" "map_of (pd_groups db) (cm_group c) = Some g" "mg_kind g = Text"
    then show "\<exists>g'. map_of (AList.delete i (pd_groups db)) (cm_group c) = Some g' \<and> mg_kind g' = Text \<and> mg_current_epoch g \<le> mg_current_epoch g'"
      using c [of k c] by (simp add: table_simps)
  qed
  then show ?thesis using inv groups_ok_delete [OF ok(1)]
    by (auto simp: group_inv_def drop_group_def groups_bound_def table_simps)
qed

lemma group_inv_create_text:
  assumes inv: "group_inv lib db" and g: "is_valid_group_id (mg_id g)"
  shows "group_inv lib (snd (create_text_mls_group lib g supersedes db))"
proof -
  obtain r db' where run: "create_text_mls_group lib g supersedes db = (r, db')" by fastforce
  then show ?thesis
  proof (cases rule: create_text_cases)
    case (created l h)
    note h = prepare_text_group_Inr [OF created(2)]
    let ?base = "text_group_base db (mg_id h)" and ?db = "superseding g supersedes (text_group_base db (mg_id h))"
    have ok: "groups_ok (pd_groups db)" using inv by (simp add: group_inv_def)
    have base: "group_inv lib ?base" using inv group_inv_drop by (simp add: text_group_base_def)
    have lists: "pd_seat_lists ?base = pd_seat_lists db" by (simp add: text_group_base_def drop_group_def)
    have lookup: "map_of (pd_groups ?base) k = (if k = mg_id h then None else map_of (pd_groups db) k)" for k
      by (auto simp: text_group_base_def drop_group_def table_simps)
    have closed: "group_inv lib ?db"
    proof (cases "Option.bind supersedes (map_of (pd_groups ?base))")
      case (Some old)
      then obtain i where i: "supersedes = Some i" "map_of (pd_groups ?base) i = Some old" by (auto simp: Option.bind_eq_Some_conv)
      have "group_inv lib (?base\<lparr>pd_groups := AList.update i (close_superseded g old) (pd_groups ?base)\<rparr>)"
        by (rule group_inv_close_row [OF base i(2)]) (simp_all add: close_superseded_def same_group_def roster_ok_def)
      then show ?thesis using i by (simp add: superseding_def)
    qed (use base in \<open>simp add: superseding_def\<close>)
    have alone: False
      if k: "map_of (pd_groups ?db) k = Some x" and x: "mg_open x" "mg_channel x = mg_channel g" "mg_kind x = Text" for k x
    proof -
      obtain y where y: "map_of (pd_groups db) k = Some y" "mg_open y" "mg_channel y = mg_channel g" "mg_kind y = Text" "supersedes \<noteq> Some k"
        using k x unfolding superseding_lookup lookup by (auto simp: close_superseded_closed split: if_splits)
      then have "open_text_group db (mg_channel g) \<noteq> None" using open_text_group_none by blast
      then obtain found where found: "open_text_group db (mg_channel g) = Some found" "supersedes = Some (mg_id found)"
        using created(3) by auto
      then have "k = mg_id found" using groups_ok_one_open [OF ok y(1), of "mg_id found" found] y open_text_group_row [OF ok found(1)] by auto
      then show False using y(5) found(2) by simp
    qed
    have new: "map_of (pd_groups ?db) (mg_id h) = None"
      using lookup [of "mg_id h"] by (simp add: superseding_lookup)
    have "pd_seat_lists ?db = pd_seat_lists db" using lists by (simp add: superseding_def split: option.split)
    then have "bound_to_list lib (pd_seat_lists ?db) h" using h created(1) by (auto simp: bound_to_list_def)
    then have "group_inv lib db'" unfolding created(5)
      using h g new alone one_member_roster by (intro group_inv_insert [OF closed]) auto
    then show ?thesis using run by simp
  qed (use inv run in simp)
qed

end
