(* ===== verification/Group_Reach.thy ===== *)
theory Group_Reach
  imports Group_Commits
begin

text \<open>
  Commits keep the invariant of the groups; it holds in every reachable state.
\<close>

section \<open>Rosters\<close>

lemma has_member_iff [simp]: "has_member g (mm_user m) (mm_device m) \<longleftrightarrow> m \<in> set (mg_members g)"
proof -
  have same: "mm_user m' = mm_user m \<and> mm_device m' = mm_device m \<longleftrightarrow> m' = m" for m'
    by (auto intro: mls_member_device.equality)
  show ?thesis unfolding has_member_def list_ex_iff same by blast
qed

lemma length_roster:
  assumes "distinct members" "distinct removed"
  shows "length (filter (\<lambda>m. m \<notin> set removed) members) + length (filter (\<lambda>r. r \<in> set members) removed) = length members"
proof -
  have "length (filter (\<lambda>r. r \<in> set members) removed) = card (set members \<inter> set removed)"
    using assms(2) distinct_card [of "filter (\<lambda>r. r \<in> set members) removed"] by (simp add: Int_def conj_commute)
  also have "\<dots> = length (filter (\<lambda>m. m \<in> set removed) members)"
    using assms(1) distinct_card [of "filter (\<lambda>m. m \<in> set removed) members"] by (simp add: Int_def)
  finally show ?thesis using sum_length_filter_compl [of "\<lambda>m. m \<in> set removed" members] by simp
qed

lemma check_call_added_Inr: "check_call_added g as = Inr () \<Longrightarrow> a \<in> set as \<Longrightarrow> member_device_of g (mm_user a) = None"
  by (induction as) (auto simp: invalid_def split: option.splits)

lemma call_roster_ok:
  assumes g: "roster_ok g" and c: "distinct (cm_added c @ cm_removed c)" "length (cm_added c) \<le> MAX_MLS_GROUP_MEMBERS"
    and added: "check_call_added g (cm_added c) = Inr ()" and size: "\<not> call_roster_size g c > MAX_MLS_GROUP_MEMBERS"
  shows "distinct (call_roster g c) \<and> length (call_roster g c) \<le> MAX_MLS_GROUP_MEMBERS"
proof -
  have "a \<notin> set (mg_members g)" if "a \<in> set (cm_added c)" for a
    using check_call_added_Inr [OF added that] by (auto simp: member_device_of_def find_None_iff)
  then have d: "distinct (call_roster g c)" using g c(1) by (auto simp: call_roster_def roster_ok_def)
  let ?real = "length (filter (\<lambda>r. r \<in> set (mg_members g)) (cm_removed c))"
  have len: "length (call_roster g c) + ?real = length (mg_members g) + length (cm_added c)"
    using length_roster [of "mg_members g" "cm_removed c"] g c(1) by (simp add: call_roster_def roster_ok_def)
  then have "int (length (mg_members g)) + int (length (cm_added c)) - int ?real = int (length (call_roster g c))" by linarith
  moreover have "length (call_roster g c) \<le> 200"
    using len g c(2) by (simp add: roster_ok_def MAX_MLS_GROUP_MEMBERS_def)
  ultimately have "call_roster_size g c = length (call_roster g c)" by (simp add: call_roster_size_def Let_def)
  then show ?thesis using d size by simp
qed

section \<open>Call commits\<close>

lemma call_commit_same: "insert_mls_commit c db = (r, db') \<Longrightarrow> r \<noteq> Inr Won \<Longrightarrow> db' = db"
  unfolding insert_mls_commit_def fetch_mls_group_def
  by (auto simp: eff_simps Let_def put_group_def drop_intents_def split: option.splits if_split_asm sum.splits)

lemma call_commit_won:
  assumes "insert_mls_commit c db = (Inr Won, db')"
  obtains g where "map_of (pd_groups db) (cm_group c) = Some g" "mg_kind g = Call" "mg_open g"
      "cm_committer c \<in> set (mg_members g)" "cm_epoch c = mg_current_epoch g + 1"
      "check_call_added g (cm_added c) = Inr ()" "\<not> call_roster_size g c > MAX_MLS_GROUP_MEMBERS"
      "map_of (pd_commits db) (commit_composite_id (cm_group c) (cm_epoch c)) = None"
      "db' = db\<lparr>pd_commits := AList.update (commit_composite_id (cm_group c) (cm_epoch c)) c (pd_commits db),
         pd_groups := AList.update (cm_group c) (g\<lparr>mg_current_epoch := cm_epoch c, mg_members := call_roster g c\<rparr>) (pd_groups db),
         pd_intents := foldl (\<lambda>t i. AList.delete i t) (pd_intents db) (intents_of_added (cm_group c) c)\<rparr>"
proof (cases "map_of (pd_groups db) (cm_group c)")
  case (Some g)
  note run = insert_mls_commit_def fetch_mls_group_def eff_simps Let_def
  have k: "mg_kind g = Call" by (rule ccontr) (use assms Some in \<open>simp add: run\<close>)
  have o: "mg_open g" by (rule ccontr) (use assms Some k in \<open>simp add: run\<close>)
  have m: "cm_committer c \<in> set (mg_members g)" by (rule ccontr) (use assms Some k o in \<open>simp add: run\<close>)
  have l: "\<not> cm_epoch c \<le> mg_current_epoch g" by (rule notI) (use assms Some k o m in \<open>simp add: run split: option.splits\<close>)
  have e: "cm_epoch c = mg_current_epoch g + 1" by (rule ccontr) (use assms Some k o m l in \<open>simp add: run\<close>)
  have a: "check_call_added g (cm_added c) = Inr ()"
    by (cases "check_call_added g (cm_added c)") (use assms Some k o m l e in \<open>simp_all add: run\<close>)
  have n: "\<not> call_roster_size g c > MAX_MLS_GROUP_MEMBERS" by (rule notI) (use assms Some k o m l e a in \<open>simp add: run\<close>)
  have f: "map_of (pd_commits db) (commit_composite_id (cm_group c) (cm_epoch c)) = None"
    by (rule ccontr) (use assms Some k o m l e a n in \<open>auto simp: run\<close>)
  have "db' = db\<lparr>pd_commits := AList.update (commit_composite_id (cm_group c) (cm_epoch c)) c (pd_commits db),
         pd_groups := AList.update (cm_group c) (g\<lparr>mg_current_epoch := cm_epoch c, mg_members := call_roster g c\<rparr>) (pd_groups db),
         pd_intents := foldl (\<lambda>t i. AList.delete i t) (pd_intents db) (intents_of_added (cm_group c) c)\<rparr>"
    using assms Some k o m l e a n f by (simp add: run put_group_def drop_intents_def)
  then show ?thesis using that [OF Some k o m e a n f] by blast
qed (use assms in \<open>simp add: insert_mls_commit_def fetch_mls_group_def eff_simps\<close>)

lemma group_inv_call_commit:
  assumes inv: "group_inv lib db" and c: "distinct (cm_added c @ cm_removed c)" "length (cm_added c) \<le> MAX_MLS_GROUP_MEMBERS"
  shows "group_inv lib (snd (insert_mls_commit c db))"
proof -
  obtain r db' where run: "insert_mls_commit c db = (r, db')" by fastforce
  show ?thesis
  proof (cases "r = Inr Won")
    case True
    then obtain g where won: "map_of (pd_groups db) (cm_group c) = Some g" "mg_kind g = Call" "mg_open g"
        "cm_committer c \<in> set (mg_members g)" "cm_epoch c = mg_current_epoch g + 1"
        "check_call_added g (cm_added c) = Inr ()" "\<not> call_roster_size g c > MAX_MLS_GROUP_MEMBERS"
        "db' = db\<lparr>pd_commits := AList.update (commit_composite_id (cm_group c) (cm_epoch c)) c (pd_commits db),
           pd_groups := AList.update (cm_group c) (g\<lparr>mg_current_epoch := cm_epoch c, mg_members := call_roster g c\<rparr>) (pd_groups db),
           pd_intents := foldl (\<lambda>t i. AList.delete i t) (pd_intents db) (intents_of_added (cm_group c) c)\<rparr>"
      using call_commit_won run by blast
    let ?g = "g\<lparr>mg_current_epoch := cm_epoch c, mg_members := call_roster g c\<rparr>"
    have ok: "groups_ok (pd_groups db)" "commits_ok (pd_groups db) (pd_commits db)" using inv by (simp_all add: group_inv_def)
    have g: "is_valid_group_id (cm_group c)" "roster_ok g" using ok(1) won(1) unfolding groups_ok_def by blast+
    have "commits_ok (pd_groups db) (pd_commits db')"
      using ok(2) g(1) won(8) by (auto simp: commits_ok_def commit_ok_def table_simps distinct_update)
    then have "commits_ok (AList.update (cm_group c) ?g (pd_groups db)) (pd_commits db')"
      using won(1,5) by (intro commits_ok_replace) auto
    then have "group_inv lib db'"
      using call_roster_ok [OF g(2) c won(6,7)] won(8)
      by (intro group_inv_replace [OF inv won(1), of ?g]) (simp_all add: same_group_def roster_ok_def)
    then show ?thesis using run by simp
  qed (use inv call_commit_same run in force)
qed

section \<open>Text commits\<close>

lemma check_fan_out_Inr: "check_fan_out c seen ds = Inr () \<Longrightarrow> distinct ds \<and> set ds \<inter> set seen = {}"
proof (induction ds arbitrary: seen)
  case (Cons d ds)
  then have "d \<notin> set seen" "check_fan_out c (d # seen) ds = Inr ()" by (auto simp: invalid_def split: if_splits)
  then show ?case using Cons.IH [of "d # seen"] by auto
qed simp

lemma check_added_Inr:
  "check_added g active seats as = Inr () \<Longrightarrow> a \<in> set as \<Longrightarrow> a \<notin> set (mg_members g) \<and> mm_user a \<in> set active \<and> mm_user a \<in> set seats"
  by (induction as) (auto simp: invalid_def split: if_splits)

lemma plan_text_Inr:
  assumes "plan_mls_text_commit lib g c ad stored cap intents revoked active = Inr p"
  obtains b window rejoins where "mg_kind g = Text" "cm_group c = mg_id g" "mg_open g" "cm_committer c \<in> set (mg_members g)"
    "cm_epoch c = mg_current_epoch g + 1" "mg_seat_list_ad g = Some ad" "signed_list_of g stored = Inr b"
    "check_fan_out c [] (cm_added c @ cm_removed c) = Inr ()" "cm_added c = [] \<or> mg_pending_removals g = []"
    "check_removed g c b revoked window intents (cm_removed c) = Inr rejoins"
    "check_added g active (bo_seats b) (cm_added c) = Inr ()" "length (text_roster g c) \<le> MAX_MLS_TEXT_GROUP_MEMBERS"
    "mls_text_enforced_device_cap (bo_device_cap b) cap = 0 \<or>
       check_device_cap (mls_text_enforced_device_cap (bo_device_cap b) cap) (text_roster g c) (cm_added c) = Inr ()"
    "p = text_commit_effects g c rejoins" "lib_sub_seconds lib (cm_created_at c) MLS_REJOIN_OUTSTANDING_WINDOW_SECONDS = Some window"
  using assms unfolding plan_mls_text_commit_def Let_def
  by (auto simp: andR_Inr invalid_def resecuring_def split: if_splits option.splits)

lemma text_commit_cases:
  assumes "insert_mls_text_commit lib c ad cap db = (r, db')"
  obtains (fails) e where "r = Inl e" "db' = db"
  | (lost) w where "r = Inr (Lost w)" "db' = db" "map_of (pd_commits db) (text_commit_key (commit_composite_id (cm_group c) (cm_epoch c))) = Some w"
  | (won) g p where "r = Inr Won" "map_of (pd_groups db) (cm_group c) = Some g"
      "map_of (pd_commits db) (text_commit_key (commit_composite_id (cm_group c) (cm_epoch c))) = None"
      "plan_mls_text_commit lib g c ad (map_of (pd_seat_lists db) (mg_channel g)) cap
         (stored_intents db g c) (revoked_identities db c) (active_seat_users db g c) = Inr p"
      "db' = db\<lparr>pd_commits := AList.update (text_commit_key (commit_composite_id (cm_group c) (cm_epoch c))) (tp_stored p)
           (AList.delete (commit_composite_id (cm_group c) (cm_epoch c)) (pd_commits db)),
         pd_groups := AList.update (cm_group c) (text_committed p c g) (pd_groups db),
         pd_intents := foldl (\<lambda>t i. AList.delete i t) (pd_intents db) (tp_consumed_intents p)\<rparr>"
proof (cases "map_of (pd_commits db) (text_commit_key (commit_composite_id (cm_group c) (cm_epoch c)))")
  case None
  note run = insert_mls_text_commit_def fetch_mls_group_def put_group_def drop_intents_def eff_simps Let_def
  show ?thesis
  proof (cases "map_of (pd_groups db) (cm_group c)")
    case (Some g)
    let ?plan = "plan_mls_text_commit lib g c ad (map_of (pd_seat_lists db) (mg_channel g)) cap
        (stored_intents db g c) (revoked_identities db c) (active_seat_users db g c)"
    show ?thesis
    proof (cases ?plan)
      case (Inl e)
      then have "r = Inl e \<and> db' = db" using assms None Some by (simp add: run)
      then show ?thesis using fails by blast
    next
      case (Inr p)
      have "r = Inr Won \<and> db' = db\<lparr>pd_commits := AList.update (text_commit_key (commit_composite_id (cm_group c) (cm_epoch c))) (tp_stored p)
           (AList.delete (commit_composite_id (cm_group c) (cm_epoch c)) (pd_commits db)),
         pd_groups := AList.update (cm_group c) (text_committed p c g) (pd_groups db),
         pd_intents := foldl (\<lambda>t i. AList.delete i t) (pd_intents db) (tp_consumed_intents p)\<rparr>"
        using assms None Some Inr by (simp add: run)
      then show ?thesis using won [OF _ Some None Inr] by blast
    qed
  next
    case absent: None
    then have "r = Inl NotFound \<and> db' = db" using assms None by (simp add: run)
    then show ?thesis using fails by blast
  qed
next
  case (Some w)
  then have "r = Inr (Lost w) \<and> db' = db" using assms by (simp add: insert_mls_text_commit_def eff_simps Let_def)
  then show ?thesis using lost Some by blast
qed

lemma text_roster_distinct:
  assumes "roster_ok g" "check_fan_out c [] (cm_added c @ cm_removed c) = Inr ()" "check_added g active seats (cm_added c) = Inr ()"
  shows "distinct (text_roster g c)"
  using assms check_fan_out_Inr [OF assms(2)] check_added_Inr [OF assms(3)] by (auto simp: text_roster_def roster_ok_def)

lemma text_committed_facts:
  "mg_kind (text_committed p c g) = mg_kind g" "mg_current_epoch (text_committed p c g) = cm_epoch c"
  "mg_members (text_committed p c g) = tp_members p" "same_group g (text_committed p c g)"
  "mg_seat_list_ad (text_committed p c g) = mg_seat_list_ad g"
  by (simp_all add: text_committed_def same_group_def)

lemma group_inv_text_commit:
  assumes inv: "group_inv lib db"
  shows "group_inv lib (snd (insert_mls_text_commit lib c ad cap db))"
proof -
  obtain r db' where run: "insert_mls_text_commit lib c ad cap db = (r, db')" by fastforce
  then show ?thesis
  proof (cases rule: text_commit_cases)
    case (won g p)
    let ?g = "text_committed p c g" and ?id = "commit_composite_id (cm_group c) (cm_epoch c)"
    have ok: "groups_ok (pd_groups db)" "commits_ok (pd_groups db) (pd_commits db)" using inv by (simp_all add: group_inv_def)
    have g: "is_valid_group_id (cm_group c)" "roster_ok g" using ok(1) won(2) unfolding groups_ok_def by blast+
    have "\<exists>(b :: seat_list_body) rejoins. mg_kind g = Text \<and> cm_epoch c = mg_current_epoch g + 1 \<and> check_fan_out c [] (cm_added c @ cm_removed c) = Inr ()
        \<and> check_added g (active_seat_users db g c) (bo_seats b) (cm_added c) = Inr ()
        \<and> length (text_roster g c) \<le> MAX_MLS_TEXT_GROUP_MEMBERS \<and> p = text_commit_effects g c rejoins"
      using won(4) by (rule plan_text_Inr) (intro exI conjI; assumption)
    then obtain b :: seat_list_body and rejoins where p: "mg_kind g = Text" "cm_epoch c = mg_current_epoch g + 1"
        "check_fan_out c [] (cm_added c @ cm_removed c) = Inr ()" "check_added g (active_seat_users db g c) (bo_seats b) (cm_added c) = Inr ()"
        "length (text_roster g c) \<le> MAX_MLS_TEXT_GROUP_MEMBERS" "p = text_commit_effects g c rejoins"
      by blast
    have stored: "cm_group (tp_stored p) = cm_group c" "cm_epoch (tp_stored p) = cm_epoch c" "tp_members p = text_roster g c"
      using p(6) by (simp_all add: text_commit_effects_def)
    have "commits_ok (AList.update (cm_group c) ?g (pd_groups db)) (pd_commits db)"
      using won(2) p(2) by (intro commits_ok_replace [OF ok(2)]) (auto simp: text_committed_facts)
    then have "commits_ok (AList.update (cm_group c) ?g (pd_groups db)) (pd_commits db')"
      using g(1) p(1) stored won(5)
      by (auto simp: commits_ok_def commit_ok_def table_simps distinct_update distinct_delete text_committed_facts split: if_splits)
    moreover have "roster_ok ?g"
      using text_roster_distinct [OF g(2) p(3,4)] p(5) stored
      by (simp add: roster_ok_def text_committed_facts MAX_MLS_TEXT_GROUP_MEMBERS_def MAX_MLS_GROUP_MEMBERS_def)
    ultimately have "group_inv lib db'"
      using won(5) by (intro group_inv_replace [OF inv won(2), of ?g]) (simp_all add: text_committed_facts)
    then show ?thesis using run by simp
  qed (use inv run in simp_all)
qed

text \<open>A removed device is a member other than the committer's, and is removed by a rule or by its own
  intent to rejoin.\<close>

lemma check_removed_Inr:
  "check_removed g c b revoked window intents rs = Inr ns \<Longrightarrow> r \<in> set rs \<Longrightarrow>
     r \<in> set (mg_members g) \<and> r \<noteq> cm_committer c \<and> (other_rule g c b revoked r \<or> rejoin_intent g window intents r \<noteq> None)"
  by (induction rs arbitrary: ns) (auto simp: invalid_def andR_Inr split: if_splits option.splits)

lemma rejoin_intent_Some:
  assumes "rejoin_intent g window intents r = Some n"
  shows "n \<in> set intents \<and> ji_group n = mg_id g \<and> ji_user n = mm_user r \<and> ji_device n = mm_device r \<and> window \<le> ji_created_at n
    \<and> (\<exists>a\<in>set (mg_member_added g). ma_user a = mm_user r \<and> ma_device a = mm_device r \<and> ma_at a < ji_created_at n)"
  using assms by (auto simp: rejoin_intent_def dest!: find_Some_P split: option.splits if_splits)

lemma stored_intents_rows: "n \<in> set (stored_intents db g c) \<Longrightarrow> n \<in> set (rows (pd_intents db))"
  by (auto simp: stored_intents_def map_filter_def intro: rows_lookup)

section \<open>Sweeps\<close>

lemma group_inv_sweep:
  assumes inv: "group_inv lib db"
  shows "group_inv lib (snd (sweep_mls_groups closed created db))"
proof -
  define swept where "swept = map mg_id (filter (sweepable closed created) (rows (pd_groups db)))"
  let ?t = "foldl (\<lambda>t i. AList.delete i t) (pd_groups db) swept" and ?commits = "filter (\<lambda>(k, c). cm_group c \<notin> set swept) (pd_commits db)"
  have ok: "groups_ok (pd_groups db)" "groups_bound lib (pd_seat_lists db) (pd_groups db)" "commits_ok (pd_groups db) (pd_commits db)"
    using inv by (simp_all add: group_inv_def)
  have c: "cm_group c \<notin> set swept" if "map_of ?commits j = Some c" for j c using that by (auto dest: map_of_SomeD)
  have "commits_ok ?t ?commits"
  proof (rule commits_ok_groups [OF commits_ok_filter [OF ok(3)]])
    fix k c g
    assume "map_of ?commits k = Some c" "map_of (pd_groups db) (cm_group c) = Some g" "mg_kind g = Text"
    then show "\<exists>g'. map_of ?t (cm_group c) = Some g' \<and> mg_kind g' = Text \<and> mg_current_epoch g \<le> mg_current_epoch g'"
      using c [of k c] by (simp add: map_of_foldl_delete)
  qed
  then show ?thesis using inv groups_ok_foldl_delete [OF ok(1), of swept]
    unfolding sweep_mls_groups_def bindE_run getE_run Let_def
    by (auto simp: eff_simps swept_def [symmetric] group_inv_def groups_bound_def map_of_foldl_delete simp del: set_map)
qed

lemma group_inv_prune: "group_inv lib db \<Longrightarrow> group_inv lib (snd (prune_mls_text_commits older db))"
  by (simp add: prune_mls_text_commits_def eff_simps Let_def group_inv_def commits_ok_filter)

section \<open>Operations that write none of this\<close>

lemma upsert_group_data: "keeps (\<lambda>db. group_data db = x) (upsert_channel_entitlement e t)"
  unfolding upsert_channel_entitlement_def Let_def by (intro keeps_intros keeps_modE; simp add: group_data_def)

lemma intent_group_data: "keeps (\<lambda>db. group_data db = x) (upsert_mls_join_intent n)"
  unfolding upsert_mls_join_intent_def by (intro keeps_intros keeps_modE; simp add: group_data_def)

lemma key_package_ops_group_data:
  "keeps (\<lambda>db. group_data db = x) (insert_mls_key_packages ps)"
  "keeps (\<lambda>db. group_data db = x) (insert_mls_key_packages_capped user device ps n)"
  "keeps (\<lambda>db. group_data db = x) (consume_mls_key_package user device)"
  "keeps (\<lambda>db. group_data db = x) (replace_mls_last_resort_key_package p)"
  "keeps (\<lambda>db. group_data db = x) (delete_mls_key_packages user device)"
  "keeps (\<lambda>db. group_data db = x) (delete_expired_mls_key_packages t)"
  unfolding insert_mls_key_packages_def insert_mls_key_packages_capped_def consume_mls_key_package_def
    replace_mls_last_resort_key_package_def delete_mls_key_packages_def delete_expired_mls_key_packages_def retain_key_packages_def Let_def
  by (intro keeps_intros keeps_modE; simp add: group_data_def)+

lemmas others_keep_groups = upsert_group_data intent_group_data key_package_ops_group_data

lemma group_inv_elsewhere: "group_inv lib db \<Longrightarrow> group_inv lib (elsewhere other db)"
  by (simp add: elsewhere_def group_inv_def)

lemma group_inv_step: "group_inv lib db \<Longrightarrow> route_checked op \<Longrightarrow> group_inv lib (secure_step lib t op db)"
  by (cases op)
    (simp_all add: group_inv_put group_inv_protect group_inv_create_text group_inv_release group_inv_delete group_inv_create_call
      group_inv_close group_inv_call_commit group_inv_text_commit group_inv_sweep group_inv_prune
      group_inv_data [OF keepsD [OF others_keep_groups(1) refl]] group_inv_data [OF keepsD [OF others_keep_groups(2) refl]]
      group_inv_data [OF keepsD [OF others_keep_groups(3) refl]] group_inv_data [OF keepsD [OF others_keep_groups(4) refl]]
      group_inv_data [OF keepsD [OF others_keep_groups(5) refl]] group_inv_data [OF keepsD [OF others_keep_groups(6) refl]]
      group_inv_data [OF keepsD [OF others_keep_groups(7) refl]] group_inv_data [OF keepsD [OF others_keep_groups(8) refl]]
      group_inv_elsewhere)

interpretation groups: secure_invariant lib "\<lambda>t db. group_inv lib db" for lib
proof
  show "group_inv lib db" if "secure_start db" for db
    using that by (simp add: secure_start_def group_inv_def groups_ok_def lists_ok_def groups_bound_def commits_ok_def)
qed (auto intro: group_inv_step)

end
