(* ===== verification/Group_Kept.thy ===== *)
theory Group_Kept
  imports Group_Reach
begin

text \<open>
  A stored text commit stays until it is pruned or its channel is deleted.
\<close>

section \<open>Operations that do not write commits\<close>

lemma create_call_commits: "pd_commits (snd (create_mls_group g supersedes db)) = pd_commits db"
  by (auto simp: create_mls_group_def create_fresh_group_def put_group_def eff_simps split: option.splits)

lemma close_commits: "pd_commits (snd (close_mls_group i t db)) = pd_commits db"
  by (auto simp: close_mls_group_def fetch_mls_group_def put_group_def eff_simps split: option.splits)

lemma release_commits: "pd_commits (snd (release_channel_seats_for_user lib user server t db)) = pd_commits db"
  by (cases "seat_cooldown_until lib t") (simp_all add: release_channel_seats_for_user_def eff_simps Let_def)

lemma put_commits: "pd_commits (snd (put_seat_list lib channel sub allow t db)) = pd_commits db"
proof -
  obtain r db' where run: "put_seat_list lib channel sub allow t db = (r, db')" by fastforce
  then have "pd_commits db' = pd_commits db" by (cases rule: put_cases) (simp_all add: apply_decision_def)
  then show ?thesis using run by simp
qed

lemma protect_commits: "pd_commits (snd (protect_channel lib channel sub t db)) = pd_commits db"
proof -
  obtain r db' where run: "protect_channel lib channel sub t db = (r, db')" by fastforce
  then have "pd_commits db' = pd_commits db" by (cases rule: protect_cases) (simp_all add: apply_decision_def)
  then show ?thesis using run by simp
qed

lemma group_data_commits: "group_data db' = group_data db \<Longrightarrow> pd_commits db' = pd_commits db"
  by (simp add: group_data_def)

lemmas commits_unwritten = create_call_commits close_commits release_commits put_commits protect_commits
  group_data_commits [OF keepsD [OF others_keep_groups(1) refl]] group_data_commits [OF keepsD [OF others_keep_groups(2) refl]]
  group_data_commits [OF keepsD [OF others_keep_groups(3) refl]] group_data_commits [OF keepsD [OF others_keep_groups(4) refl]]
  group_data_commits [OF keepsD [OF others_keep_groups(5) refl]] group_data_commits [OF keepsD [OF others_keep_groups(6) refl]]
  group_data_commits [OF keepsD [OF others_keep_groups(7) refl]] group_data_commits [OF keepsD [OF others_keep_groups(8) refl]]

section \<open>Operations that do\<close>

definition stored_text :: "pc_db \<Rightarrow> string \<Rightarrow> mls_commit \<Rightarrow> bool" where
  "stored_text db k w \<longleftrightarrow> map_of (pd_commits db) (text_commit_key k) = Some w"

lemma stored_text_group:
  assumes "group_inv lib db" "stored_text db k w"
  obtains g where "map_of (pd_groups db) (cm_group w) = Some g" "mg_kind g = Text" "is_valid_group_id (cm_group w)"
proof -
  have "commit_ok (pd_groups db) (text_commit_key k) w"
    using assms by (simp add: group_inv_def commits_ok_def stored_text_def)
  then show ?thesis using that text_key_not_call [of "cm_group w" k] by (auto simp: commit_ok_def)
qed

lemma commit_filter_lookup:
  assumes "group_inv lib db" "stored_text db k w" "P (text_commit_key k) w"
  shows "map_of (filter (\<lambda>(k, c). P k c) (pd_commits db)) (text_commit_key k) = Some w"
  using assms map_of_filter_rows [of "pd_commits db" P] by (simp add: group_inv_def commits_ok_def stored_text_def)

lemma create_text_keeps:
  assumes inv: "group_inv lib db" and w: "stored_text db k w"
  shows "stored_text (snd (create_text_mls_group lib g supersedes db)) k w"
proof -
  obtain r db' where run: "create_text_mls_group lib g supersedes db = (r, db')" by fastforce
  then show ?thesis
  proof (cases rule: create_text_cases)
    case (created l h)
    obtain x where x: "map_of (pd_groups db) (cm_group w) = Some x" "mg_kind x = Text" using inv w by (rule stored_text_group)
    have "cm_group w \<noteq> mg_id h" if "map_of (pd_groups db) (mg_id h) \<noteq> None" using created(4) x that by auto
    then have "map_of (pd_commits (text_group_base db (mg_id h))) (text_commit_key k) = Some w"
      using w commit_filter_lookup [OF inv w, of "\<lambda>_ c. cm_group c \<noteq> mg_id h"]
      by (auto simp: text_group_base_def drop_group_def stored_text_def)
    then show ?thesis using run unfolding created(5) by (simp add: stored_text_def superseding_def split: option.split)
  qed (use w run in simp)
qed

lemma call_commit_keeps:
  assumes inv: "group_inv lib db" and w: "stored_text db k w"
  shows "stored_text (snd (insert_mls_commit c db)) k w"
proof -
  obtain r db' where run: "insert_mls_commit c db = (r, db')" by fastforce
  show ?thesis
  proof (cases "r = Inr Won")
    case True
    then obtain g where g: "map_of (pd_groups db) (cm_group c) = Some g"
        "pd_commits db' = AList.update (commit_composite_id (cm_group c) (cm_epoch c)) c (pd_commits db)"
      using run by (auto elim!: call_commit_won)
    then have "is_valid_group_id (cm_group c)" using inv unfolding group_inv_def groups_ok_def by blast
    then show ?thesis using w g(2) run text_key_not_call [of "cm_group c" k] by (simp add: stored_text_def table_simps)
  qed (use w call_commit_same run in force)
qed

lemma text_commit_keeps:
  assumes inv: "group_inv lib db" and w: "stored_text db k w"
  shows "stored_text (snd (insert_mls_text_commit lib c ad cap db)) k w"
proof -
  obtain r db' where run: "insert_mls_text_commit lib c ad cap db = (r, db')" by fastforce
  then show ?thesis
  proof (cases rule: text_commit_cases)
    case (won g p)
    have "is_valid_group_id (cm_group c)" using inv won(2) unfolding group_inv_def groups_ok_def by blast
    then show ?thesis using w won(3,5) run text_key_not_call [of "cm_group c" k] by (auto simp: stored_text_def table_simps)
  qed (use w run in simp_all)
qed

lemma sweep_keeps:
  assumes inv: "group_inv lib db" and w: "stored_text db k w"
  shows "stored_text (snd (sweep_mls_groups closed created db)) k w"
proof -
  define swept where "swept = map mg_id (filter (sweepable closed created) (rows (pd_groups db)))"
  obtain x where x: "map_of (pd_groups db) (cm_group w) = Some x" "mg_kind x = Text" using inv w by (rule stored_text_group)
  have ok: "keyed mg_id (pd_groups db)" using inv by (simp add: group_inv_def groups_ok_def)
  have "cm_group w \<notin> set swept"
  proof
    assume "cm_group w \<in> set swept"
    then obtain y where y: "y \<in> set (rows (pd_groups db))" "mg_id y = cm_group w" "mg_kind y = Call" by (auto simp: swept_def sweepable_def)
    then show False using keyed_rows_iff [OF ok] x by auto
  qed
  then show ?thesis
    using commit_filter_lookup [OF inv w, of "\<lambda>_ c. cm_group c \<notin> set swept"]
    unfolding sweep_mls_groups_def bindE_run getE_run Let_def swept_def [symmetric] by (simp add: eff_simps stored_text_def swept_def [symmetric])
qed

fun discards_text :: "secure_op \<Rightarrow> bool" where
  "discards_text (PruneCommits older) \<longleftrightarrow> True"
| "discards_text (DeleteChannelData channel) \<longleftrightarrow> True"
| "discards_text _ \<longleftrightarrow> False"

lemma step_keeps_text:
  assumes "group_inv lib db" "stored_text db k w" "\<not> discards_text op"
  shows "stored_text (secure_step lib t op db) k w"
  using assms
  by (cases op)
    (simp_all add: create_text_keeps call_commit_keeps text_commit_keeps sweep_keeps,
     simp_all add: stored_text_def commits_unwritten elsewhere_def)

lemma run_keeps_text:
  "group_inv lib db \<Longrightarrow> stored_text db k w \<Longrightarrow> run_ok t ops \<Longrightarrow> \<forall>(t', op)\<in>set ops. \<not> discards_text op \<Longrightarrow>
     stored_text (secure_run lib ops db) k w"
proof (induction ops arbitrary: t db)
  case (Cons x ops)
  obtain t' op where x: "x = (t', op)" by (cases x)
  then show ?case using Cons.IH [of "secure_step lib t' op db" t'] Cons.prems group_inv_step step_keeps_text by auto
qed simp

end
