(* ===== verification/Seat_Theorems.thy ===== *)
theory Seat_Theorems
  imports Seat_Reach "HOL-Library.Code_Target_Nat"
begin

text \<open>
  The properties of seats and seat lists in reachable states. The witnesses run a channel from its
  entitlement on, with a library that decodes and hashes by cutting.
\<close>

section \<open>A channel\<close>

definition ulid_of :: "char \<Rightarrow> string" where
  "ulid_of c = replicate 25 CHR ''0'' @ [c]"

definition sample_lib :: seat_lib where
  "sample_lib = \<lparr>lib_b64 = (\<lambda>s. Some (take (length s * 3 div 4) s)), lib_sha256 = take 32,
     lib_add_days = (\<lambda>t d. Some (t + d * 86400000)), lib_sub_seconds = (\<lambda>t n. Some (t - n * 1000))\<rparr>"

definition sample_body :: "int \<Rightarrow> string list \<Rightarrow> seat_list_body" where
  "sample_body version seats = \<lparr>bo_channel = ulid_of CHR ''C'', bo_version = version, bo_device_cap = 0, bo_issued_at = version,
     bo_signer_user = ulid_of CHR ''A'', bo_signer_device = replicate 32 CHR ''a'', bo_seats = seats\<rparr>"

definition sample_submission :: "int \<Rightarrow> string list \<Rightarrow> seat_list_submission" where
  "sample_submission version seats = \<lparr>ss_body = seat_list_text (sample_body version seats), ss_signature = replicate 86 CHR ''S'',
     ss_signer_device = replicate 32 CHR ''a'', ss_handover = None\<rparr>"

definition sample_entitlement :: channel_entitlement where
  "sample_entitlement = \<lparr>ent_id = ''E'', ent_channel = ulid_of CHR ''C'', ent_server = ''S'', ent_source = AdminGrant,
     ent_slot_cap = 2, ent_device_cap = None, ent_state = EntActive, ent_granted_by = ''G'', ent_created_at = 0\<rparr>"

definition sample_start :: pc_db where
  "sample_start = \<lparr>pd_channels = [(ulid_of CHR ''C'', PText ''S'' False None False None)], pd_messages = [], pd_entitlements = [],
     pd_servers = [(''S'', ulid_of CHR ''A'')], pd_members = [(''S'', ulid_of CHR ''A''), (''S'', ulid_of CHR ''B'')],
     pd_seat_lists = [], pd_seats = [], pd_groups = [], pd_commits = [], pd_intents = [],
     pd_identities = [], pd_queue = [], pd_key_packages = []\<rparr>"

definition sample_ops :: "(int \<times> secure_op) list" where
  "sample_ops = [(0, UpsertEntitlement sample_entitlement),
     (10, ProtectChannel (ulid_of CHR ''C'') (sample_submission 1 [ulid_of CHR ''A'', ulid_of CHR ''B'']))]"

definition sample_db :: pc_db where
  "sample_db = secure_run sample_lib sample_ops sample_start"

lemma sample_reach: "reach sample_lib 10 sample_db"
proof -
  have "reach sample_lib 0 sample_start" by (rule reach_start) (simp add: secure_start_def sample_start_def)
  from reach_run [OF this, of sample_ops] show ?thesis by (simp add: sample_ops_def sample_db_def)
qed

text \<open>The state it reaches, as values.\<close>

definition sample_list :: seat_list where
  "sample_list = \<lparr>sl_id = ulid_of CHR ''C'', sl_version = 1, sl_body = ss_body (sample_submission 1 [ulid_of CHR ''A'', ulid_of CHR ''B'']),
     sl_signer_user = ulid_of CHR ''A'', sl_signer_device = replicate 32 CHR ''a'', sl_signature = replicate 86 CHR ''S'',
     sl_handovers = [], sl_updated_at = 10\<rparr>"

definition sample_seat :: "char \<Rightarrow> string \<times> channel_seat" where
  "sample_seat c = (composite_id (ulid_of CHR ''C'') (ulid_of c), \<lparr>se_id = composite_id (ulid_of CHR ''C'') (ulid_of c),
     se_channel = ulid_of CHR ''C'', se_user = ulid_of c, se_seated_at = 10, se_released_at = None, se_cooldown_until = None\<rparr>)"

lemma sample_db_value [code]:
  "sample_db = sample_start\<lparr>pd_channels := [(ulid_of CHR ''C'', PText ''S'' True None False None)],
     pd_entitlements := [(''E'', sample_entitlement)], pd_seat_lists := [(ulid_of CHR ''C'', sample_list)],
     pd_seats := [sample_seat CHR ''A'', sample_seat CHR ''B'']\<rparr>"
  by code_simp

section \<open>The slots of a channel\<close>

text \<open>C9: In every reachable state, and at every later time, the seats of a channel that count
  (active, or released and still cooling down) are within the slots of its entitlement.\<close>

theorem seats_within_slots:
  assumes "reach lib t db" and "t \<le> t'" and "entitlement_of db channel = Some e"
  shows "channel_seats_used (channel_seats db channel) t' \<le> ent_slot_cap e"
proof -
  have "seat_inv t' db" using seats.holds [OF assms(1)] assms(2) by (rule seat_inv_later)
  then show ?thesis using assms(3) by (simp add: seat_inv_def within_cap_def seats_used_def)
qed

theorem seats_within_slots_witness:
  "entitlement_of sample_db (ulid_of CHR ''C'') = Some sample_entitlement
   \<and> channel_seats_used (channel_seats sample_db (ulid_of CHR ''C'')) 20 \<le> ent_slot_cap sample_entitlement"
proof -
  have "entitlement_of sample_db (ulid_of CHR ''C'') = Some sample_entitlement" by code_simp
  then show ?thesis using seats_within_slots [OF sample_reach, of 20] by simp
qed

section \<open>Changes of the seat list\<close>

text \<open>C11: Over the users seated in each channel, a change of the seat list that lands is an
  assignment: in its channel exactly the listed users are seated afterwards and no other
  channel changes. The stored list is the one submitted, one version on.\<close>

theorem put_seats_the_listed:
  assumes "reach lib t db" and "put_seat_list lib channel sub allow now db = (Inr out, db')" and "\<not> so_unchanged out"
    and "seat_list_parse (ss_body sub) = Inr body" and "map_of (pd_seat_lists db) channel = Some l"
  shows "seated db' = (seated db)(channel := set (bo_seats body))
    \<and> pd_seat_lists db' = AList.update channel (so_list out) (pd_seat_lists db)
    \<and> sl_body (so_list out) = ss_body sub \<and> sl_signature (so_list out) = ss_signature sub
    \<and> sl_version (so_list out) = sl_version l + 1"
proof -
  have wf: "seats_wf db" using seats.holds [OF assms(1)] by (simp add: seat_inv_def)
  obtain p where p: "plan_applied lib db Put channel sub allow now p" "plan_for db lib (write_input db Put channel sub allow now) p body"
    "out = decision_outcome (Apply p)" "db' = apply_decision (Apply p) (map_option mg_id (open_text_group db channel)) db"
    using put_applied [OF assms(2,3) wf assms(4)] .
  from p(1) obtain handovers where row: "wp_row p = planned_row (write_input db Put channel sub allow now) body handovers"
      and "version_rule Put (Some l) sub body = Inr None"
    unfolding plan_applied_def using assms(4,5) by (elim plan_Apply) simp
  then have "bo_version body = sl_version l + 1" by (auto simp: version_rule_def invalid_def split: if_splits)
  moreover have "seated db' = (seated db)(channel := set (bo_seats body))"
    using seated_written [OF p(2), of db'] p(4) by (simp add: apply_decision_def)
  ultimately show ?thesis using p(3,4) row by (simp add: apply_decision_def planned_row_def)
qed

definition sample_put :: "(error + seat_list_outcome) \<times> pc_db" where
  "sample_put = put_seat_list sample_lib (ulid_of CHR ''C'') (sample_submission 2 [ulid_of CHR ''A'']) False 30 sample_db"

lemma sample_put_run:
  "put_seat_list sample_lib (ulid_of CHR ''C'') (sample_submission 2 [ulid_of CHR ''A'']) False 30 sample_db
     = (Inr (projr (fst sample_put)), snd sample_put)"
  "\<not> so_unchanged (projr (fst sample_put))"
  "seat_list_parse (ss_body (sample_submission 2 [ulid_of CHR ''A''])) = Inr (sample_body 2 [ulid_of CHR ''A''])"
  "map_of (pd_seat_lists sample_db) (ulid_of CHR ''C'') = Some (the (map_of (pd_seat_lists sample_db) (ulid_of CHR ''C'')))"
proof -
  have "isl (fst sample_put) = False" by code_simp
  then show "put_seat_list sample_lib (ulid_of CHR ''C'') (sample_submission 2 [ulid_of CHR ''A'']) False 30 sample_db
     = (Inr (projr (fst sample_put)), snd sample_put)"
    unfolding sample_put_def by (simp add: prod_eq_iff)
  show "\<not> so_unchanged (projr (fst sample_put))" by code_simp
  show "seat_list_parse (ss_body (sample_submission 2 [ulid_of CHR ''A''])) = Inr (sample_body 2 [ulid_of CHR ''A''])" by code_simp
  have "map_of (pd_seat_lists sample_db) (ulid_of CHR ''C'') \<noteq> None" by code_simp
  then show "map_of (pd_seat_lists sample_db) (ulid_of CHR ''C'') = Some (the (map_of (pd_seat_lists sample_db) (ulid_of CHR ''C'')))"
    by simp
qed

theorem put_seats_the_listed_witness:
  "seated (snd sample_put) (ulid_of CHR ''C'') = {ulid_of CHR ''A''} \<and> sl_version (so_list (projr (fst sample_put))) = 2"
proof -
  have "sl_version (the (map_of (pd_seat_lists sample_db) (ulid_of CHR ''C''))) = 1" by code_simp
  then show ?thesis using put_seats_the_listed [OF sample_reach sample_put_run] by (simp add: sample_body_def)
qed

text \<open>C13: A user the stored list still names but whose seat the server released is not seated by a
  list that names them again: a change that lands leaves them out, unless they sign it
  themselves, and they stay without a seat.\<close>

theorem released_user_stays_out:
  assumes "reach lib t db" and "put_seat_list lib channel sub allow now db = (Inr out, db')" and "\<not> so_unchanged out"
    and "seat_list_parse (ss_body sub) = Inr body" and "v \<noteq> bo_signer_user body"
    and "map_of (pd_seat_lists db) channel = Some l" and "seat_list_parse (sl_body l) = Inr old" and "v \<in> set (bo_seats old)"
    and "v \<notin> seated db channel"
  shows "v \<notin> set (bo_seats body) \<and> v \<notin> seated db' channel"
proof -
  have wf: "seats_wf db" using seats.holds [OF assms(1)] by (simp add: seat_inv_def)
  obtain p where p: "plan_applied lib db Put channel sub allow now p" "plan_for db lib (write_input db Put channel sub allow now) p body"
    "out = decision_outcome (Apply p)" "db' = apply_decision (Apply p) (map_option mg_id (open_text_group db channel)) db"
    using put_applied [OF assms(2,3) wf assms(4)] .
  from p(1) have "seat_list_removed_users body (Some l) (channel_seats db channel) = Inr []"
    unfolding plan_applied_def using assms(4,6) by (elim plan_Apply) simp
  then have "v \<notin> set (bo_seats body)"
    using assms(5,7-9) by (auto simp: seat_list_removed_users_def filter_empty_conv list_ex_iff seated_def)
  then show ?thesis using seated_written [OF p(2), of db'] p(4) by (simp add: apply_decision_def)
qed

definition sample_forced :: pc_db where
  "sample_forced = secure_step sample_lib 20 (ReleaseSeats (ulid_of CHR ''B'') (Some ''S'')) sample_db"

lemma sample_forced_reach: "reach sample_lib 20 sample_forced"
  unfolding sample_forced_def by (rule reach_step [OF sample_reach]) simp_all

definition sample_put_forced :: "(error + seat_list_outcome) \<times> pc_db" where
  "sample_put_forced = put_seat_list sample_lib (ulid_of CHR ''C'') (sample_submission 2 [ulid_of CHR ''A'']) True 30 sample_forced"

theorem released_user_stays_out_witness:
  "put_seat_list sample_lib (ulid_of CHR ''C'') (sample_submission 2 [ulid_of CHR ''A'', ulid_of CHR ''B'']) True 30 sample_forced
     = (Inl (SeatListNamesRemovedUsers [ulid_of CHR ''B'']), sample_forced)
   \<and> ulid_of CHR ''B'' \<notin> seated (snd sample_put_forced) (ulid_of CHR ''C'')"
proof -
  let ?l = "the (map_of (pd_seat_lists sample_forced) (ulid_of CHR ''C''))"
  have "isl (fst sample_put_forced) = False" by code_simp
  then have run: "put_seat_list sample_lib (ulid_of CHR ''C'') (sample_submission 2 [ulid_of CHR ''A'']) True 30 sample_forced
     = (Inr (projr (fst sample_put_forced)), snd sample_put_forced)"
    unfolding sample_put_forced_def by (simp add: prod_eq_iff)
  have new: "\<not> so_unchanged (projr (fst sample_put_forced))" by code_simp
  have "map_of (pd_seat_lists sample_forced) (ulid_of CHR ''C'') \<noteq> None" by code_simp
  then have l: "map_of (pd_seat_lists sample_forced) (ulid_of CHR ''C'') = Some ?l" by simp
  have old: "seat_list_parse (sl_body ?l) = Inr (sample_body 1 [ulid_of CHR ''A'', ulid_of CHR ''B''])" by code_simp
  have "ulid_of CHR ''B'' \<noteq> ulid_of CHR ''A''" by code_simp
  then have signer: "ulid_of CHR ''B'' \<noteq> bo_signer_user (sample_body 2 [ulid_of CHR ''A''])" by (simp add: sample_body_def)
  have out: "ulid_of CHR ''B'' \<notin> seated sample_forced (ulid_of CHR ''C'')" by code_simp
  have "put_seat_list sample_lib (ulid_of CHR ''C'') (sample_submission 2 [ulid_of CHR ''A'', ulid_of CHR ''B'']) True 30 sample_forced
     = (Inl (SeatListNamesRemovedUsers [ulid_of CHR ''B'']), sample_forced)" by code_simp
  then show ?thesis
    using released_user_stays_out [OF sample_forced_reach run new sample_put_run(3) signer l old _ out] by (simp add: sample_body_def)
qed



end
