(* ===== verification/Group_Theorems.thy ===== *)
theory Group_Theorems
  imports Group_Kept Seat_Theorems
begin

text \<open>
  The properties of the groups of protected channels, and of calls, in reachable states.
\<close>

section \<open>A text group\<close>

definition device_of :: "char \<Rightarrow> mls_member_device" where
  "device_of c = \<lparr>mm_user = ulid_of c, mm_device = replicate 32 CHR ''a''\<rparr>"

definition sample_group :: mls_group where
  "sample_group = \<lparr>mg_id = replicate 64 CHR ''1'', mg_channel = ulid_of CHR ''C'', mg_open = True, mg_created_by = device_of CHR ''A'',
     mg_created_at = 20, mg_current_epoch = 0, mg_members = [device_of CHR ''A''], mg_closed_at = None, mg_superseded_by = None,
     mg_kind = Call, mg_generation = Some 0, mg_seat_list_ad = None, mg_pending_removals = [], mg_member_added = []\<rparr>"

definition sample_grouped :: pc_db where
  "sample_grouped = secure_step sample_lib 20 (CreateTextGroup sample_group None) sample_db"

lemma sample_grouped_reach: "reach sample_lib 20 sample_grouped"
proof -
  have "route_checked (CreateTextGroup sample_group None)" by code_simp
  then show ?thesis unfolding sample_grouped_def by (intro reach_step [OF sample_reach]) simp_all
qed

definition sample_ad :: string where
  "sample_ad = projr (commit_ad_sha256 sample_lib sample_list)"

definition sample_text_group :: mls_group where
  "sample_text_group = sample_group\<lparr>mg_kind := Text, mg_seat_list_ad := Some sample_ad,
     mg_member_added := [\<lparr>ma_user = ulid_of CHR ''A'', ma_device = replicate 32 CHR ''a'', ma_epoch = 0, ma_at = 20\<rparr>]\<rparr>"

lemma sample_grouped_value [code]:
  "sample_grouped = sample_db\<lparr>pd_groups := [(replicate 64 CHR ''1'', sample_text_group)]\<rparr>"
  by code_simp

definition sample_commit :: "int \<Rightarrow> mls_member_device list \<Rightarrow> mls_member_device list \<Rightarrow> mls_commit" where
  "sample_commit epoch added removed = \<lparr>cm_id = [], cm_group = replicate 64 CHR ''1'', cm_epoch = epoch, cm_committer = device_of CHR ''A'',
     cm_commit = ''c'', cm_size = 1, cm_added = added, cm_removed = removed, cm_created_at = 30, cm_rejoin_intents = [], cm_removed_reasons = []\<rparr>"

definition sample_committed :: "(error + mls_commit_outcome) \<times> pc_db" where
  "sample_committed = insert_mls_text_commit sample_lib (sample_commit 1 [device_of CHR ''B''] []) sample_ad 0 sample_grouped"

lemma sample_committed_value [code]:
  "sample_committed = (Inr Won, sample_grouped
     \<lparr>pd_groups := [(replicate 64 CHR ''1'', sample_text_group\<lparr>mg_current_epoch := 1, mg_members := [device_of CHR ''A'', device_of CHR ''B''],
        mg_member_added := mg_member_added sample_text_group
          @ [\<lparr>ma_user = ulid_of CHR ''B'', ma_device = replicate 32 CHR ''a'', ma_epoch = 1, ma_at = 30\<rparr>]\<rparr>)],
      pd_commits := [(text_commit_key (commit_composite_id (replicate 64 CHR ''1'') 1),
        (sample_commit 1 [device_of CHR ''B''] [])\<lparr>cm_id := commit_composite_id (replicate 64 CHR ''1'') 1\<rparr>)]\<rparr>)"
  by code_simp

lemma sample_committed_run:
  "insert_mls_text_commit sample_lib (sample_commit 1 [device_of CHR ''B''] []) sample_ad 0 sample_grouped = (Inr Won, snd sample_committed)"
proof -
  have "fst sample_committed = Inr Won" by (simp add: sample_committed_value)
  then show ?thesis by (simp add: sample_committed_def prod_eq_iff)
qed

section \<open>The group of a channel\<close>

text \<open>C8: In every reachable state an open text group carries the hash of the seat list stored for its
  channel now, and is the only open text group of the channel.\<close>

theorem text_group_follows_list:
  assumes "reach lib t db" and "map_of (pd_groups db) k = Some g" and "mg_open g" and "mg_kind g = Text"
  shows "(\<exists>l ad. map_of (pd_seat_lists db) (mg_channel g) = Some l \<and> commit_ad_sha256 lib l = Inr ad \<and> mg_seat_list_ad g = Some ad)
    \<and> (\<forall>k' g'. map_of (pd_groups db) k' = Some g' \<and> mg_open g' \<and> mg_kind g' = Text \<and> mg_channel g' = mg_channel g \<longrightarrow> k' = k)"
proof -
  have inv: "group_inv lib db" by (rule groups.holds [OF assms(1)])
  then have "bound_to_list lib (pd_seat_lists db) g" using assms(2) by (simp add: group_inv_def groups_bound_def)
  moreover have "k' = k" if "map_of (pd_groups db) k' = Some g'" "mg_open g'" "mg_kind g' = Text" "mg_channel g' = mg_channel g" for k' g'
    using inv groups_ok_one_open [OF _ that(1) assms(2) that(2) assms(3)] that assms(4) by (simp add: group_inv_def)
  ultimately show ?thesis using assms(3,4) by (auto simp: bound_to_list_def)
qed

theorem text_group_follows_list_witness:
  "\<exists>l ad. map_of (pd_seat_lists sample_grouped) (ulid_of CHR ''C'') = Some l \<and> commit_ad_sha256 sample_lib l = Inr ad
     \<and> map_option mg_seat_list_ad (map_of (pd_groups sample_grouped) (replicate 64 CHR ''1'')) = Some (Some ad)"
proof -
  let ?g = "the (map_of (pd_groups sample_grouped) (replicate 64 CHR ''1''))"
  have "map_of (pd_groups sample_grouped) (replicate 64 CHR ''1'') \<noteq> None \<and> mg_open ?g \<and> mg_kind ?g = Text \<and> mg_channel ?g = ulid_of CHR ''C''"
    by code_simp
  then show ?thesis using text_group_follows_list [OF sample_grouped_reach, of "replicate 64 CHR ''1''" ?g] by auto
qed

section \<open>Text commits\<close>

text \<open>C10: A text commit that wins was made by a member for the next epoch, over the data of the seat
  list stored at that moment; every device it adds belongs to a user that list names and who
  has an active seat, and it adds none while a removal is pending.\<close>

theorem text_commit_adds_seated:
  assumes "reach lib t db" and "insert_mls_text_commit lib c ad cap db = (Inr Won, db')"
  shows "\<exists>g l b. map_of (pd_groups db) (cm_group c) = Some g \<and> map_of (pd_seat_lists db) (mg_channel g) = Some l
    \<and> commit_ad_sha256 lib l = Inr ad \<and> seat_list_parse (sl_body l) = Inr b
    \<and> cm_committer c \<in> set (mg_members g) \<and> cm_epoch c = mg_current_epoch g + 1
    \<and> (\<forall>a\<in>set (cm_added c). mm_user a \<in> set (bo_seats b) \<and> mm_user a \<in> seated db (mg_channel g))
    \<and> (cm_added c \<noteq> [] \<longrightarrow> mg_pending_removals g = [])"
  using assms(2)
proof (cases rule: text_commit_cases)
  case (won g p)
  have inv: "group_inv lib db" by (rule groups.holds [OF assms(1)])
  have wf: "seats_wf db" using seats.holds [OF assms(1)] by (simp add: seat_inv_def)
  from won(4) obtain b window rejoins where plan: "mg_kind g = Text" "cm_group c = mg_id g" "mg_open g" "cm_committer c \<in> set (mg_members g)"
    "cm_epoch c = mg_current_epoch g + 1" "mg_seat_list_ad g = Some ad"
    "signed_list_of g (map_of (pd_seat_lists db) (mg_channel g)) = Inr b"
    "check_fan_out c [] (cm_added c @ cm_removed c) = Inr ()" "cm_added c = [] \<or> mg_pending_removals g = []"
    "check_removed g c b (revoked_identities db c) window (stored_intents db g c) (cm_removed c) = Inr rejoins"
    "check_added g (active_seat_users db g c) (bo_seats b) (cm_added c) = Inr ()" "length (text_roster g c) \<le> MAX_MLS_TEXT_GROUP_MEMBERS"
    "mls_text_enforced_device_cap (bo_device_cap b) cap = 0 \<or>
       check_device_cap (mls_text_enforced_device_cap (bo_device_cap b) cap) (text_roster g c) (cm_added c) = Inr ()"
    "p = text_commit_effects g c rejoins" "lib_sub_seconds lib (cm_created_at c) MLS_REJOIN_OUTSTANDING_WINDOW_SECONDS = Some window"
    by (rule plan_text_Inr)
  have "bound_to_list lib (pd_seat_lists db) g" using inv won(2) by (simp add: group_inv_def groups_bound_def)
  then obtain l where l: "map_of (pd_seat_lists db) (mg_channel g) = Some l" "commit_ad_sha256 lib l = Inr ad"
    using plan(1,3,6) by (auto simp: bound_to_list_def)
  have b: "seat_list_parse (sl_body l) = Inr b" "bo_channel b = mg_channel g"
    using plan(7) l(1) by (auto simp: signed_list_of_def invalid_def split: sum.splits if_splits)
  then have valid: "is_valid_ulid_id (mg_channel g)" "\<forall>v\<in>set (bo_seats b). is_valid_ulid_id v"
    by (auto simp: seat_list_parse_iff seat_list_valid_def)
  have "mm_user a \<in> set (bo_seats b) \<and> mm_user a \<in> seated db (mg_channel g)" if "a \<in> set (cm_added c)" for a
    using check_added_Inr [OF plan(11) that] valid seated_iff [OF wf valid(1)] by (auto simp: active_seat_users_def)
  then show ?thesis using won(2) l b plan(4,5,9) by blast
qed simp_all

theorem text_commit_adds_seated_witness:
  "ulid_of CHR ''B'' \<in> seated sample_grouped (ulid_of CHR ''C'')"
proof -
  have "map_option mg_channel (map_of (pd_groups sample_grouped) (replicate 64 CHR ''1'')) = Some (ulid_of CHR ''C'')" by code_simp
  then show ?thesis using text_commit_adds_seated [OF sample_grouped_reach sample_committed_run]
    by (auto simp: sample_commit_def device_of_def)
qed

text \<open>C12: One commit wins an epoch of a text group. After it, whatever operations run except pruning
  and deleting the channel, every submission for that epoch loses and is answered the winner.\<close>

theorem one_winner_per_epoch:
  assumes "reach lib t db" and "insert_mls_text_commit lib c ad cap db = (Inr Won, db')" and "run_ok t ops"
    and "\<forall>(t', op)\<in>set ops. \<not> discards_text op" and "cm_group c' = cm_group c" and "cm_epoch c' = cm_epoch c"
  shows "\<exists>w. insert_mls_text_commit lib c' ad' cap' (secure_run lib ops db') = (Inr (Lost w), secure_run lib ops db')
    \<and> cm_group w = cm_group c \<and> cm_epoch w = cm_epoch c \<and> cm_commit w = cm_commit c \<and> cm_committer w = cm_committer c"
  using assms(2)
proof (cases rule: text_commit_cases)
  case (won g p)
  let ?id = "commit_composite_id (cm_group c) (cm_epoch c)"
  have inv: "group_inv lib db'" using group_inv_text_commit [OF groups.holds [OF assms(1)], of c ad cap] assms(2) by simp
  have "stored_text db' ?id (tp_stored p)" using won(5) by (simp add: stored_text_def table_simps)
  then have "stored_text (secure_run lib ops db') ?id (tp_stored p)" by (rule run_keeps_text [OF inv _ assms(3,4)])
  then have "insert_mls_text_commit lib c' ad' cap' (secure_run lib ops db') = (Inr (Lost (tp_stored p)), secure_run lib ops db')"
    using assms(5,6) by (simp add: insert_mls_text_commit_def eff_simps stored_text_def)
  moreover have "\<exists>rejoins. p = text_commit_effects g c rejoins" using won(4) by (rule plan_text_Inr) blast
  ultimately show ?thesis by (auto simp: text_commit_effects_def)
qed simp_all

theorem one_winner_per_epoch_witness:
  "\<exists>w. insert_mls_text_commit sample_lib (sample_commit 1 [] []) [] 0
     (secure_run sample_lib [(40, ReleaseSeats (ulid_of CHR ''B'') None)] (snd sample_committed))
     = (Inr (Lost w), secure_run sample_lib [(40, ReleaseSeats (ulid_of CHR ''B'') None)] (snd sample_committed))
   \<and> cm_commit w = ''c''"
proof -
  have "run_ok 20 [(40, ReleaseSeats (ulid_of CHR ''B'') None)]"
    "\<forall>(t', op)\<in>set [(40 :: int, ReleaseSeats (ulid_of CHR ''B'') None)]. \<not> discards_text op" by simp_all
  from one_winner_per_epoch [OF sample_grouped_reach sample_committed_run this, of "sample_commit 1 [] []"]
  show ?thesis by (fastforce simp: sample_commit_def)
qed

text \<open>C20: A text commit cannot evict a device in good standing: the device of the list's signer, and any
  device with a registered identity of another user whom the stored list names and who is not
  pending removal, is removed only on its own intent to rejoin, stored for this group, newer
  than its last admission and at most thirty seconds old.\<close>

theorem eviction_needs_rejoin:
  assumes "insert_mls_text_commit lib c ad cap db = (Inr Won, db')" and "r \<in> set (cm_removed c)"
    and "map_of (pd_groups db) (cm_group c) = Some g" and "map_of (pd_seat_lists db) (mg_channel g) = Some l"
    and "seat_list_parse (sl_body l) = Inr b"
    and "mm_user r = bo_signer_user b \<and> mm_device r = bo_signer_device b \<or>
      mm_user r \<noteq> mm_user (cm_committer c) \<and> mm_user r \<in> set (bo_seats b) \<and> \<not> has_pending_removal g (mm_user r)
      \<and> identity_composite_id (mm_user r) (mm_device r) \<in> set (pd_identities db)"
  shows "\<exists>n a window. n \<in> set (rows (pd_intents db)) \<and> ji_group n = mg_id g \<and> ji_user n = mm_user r \<and> ji_device n = mm_device r
    \<and> a \<in> set (mg_member_added g) \<and> ma_user a = mm_user r \<and> ma_device a = mm_device r \<and> ma_at a < ji_created_at n
    \<and> lib_sub_seconds lib (cm_created_at c) 30 = Some window \<and> window \<le> ji_created_at n"
  using assms(1)
proof (cases rule: text_commit_cases)
  case (won g' p)
  then have g': "g' = g" using assms(3) by simp
  from won(4) obtain b' window rejoins where signed: "signed_list_of g' (map_of (pd_seat_lists db) (mg_channel g')) = Inr b'"
    and removed: "check_removed g' c b' (revoked_identities db c) window (stored_intents db g' c) (cm_removed c) = Inr rejoins"
    and window: "lib_sub_seconds lib (cm_created_at c) MLS_REJOIN_OUTSTANDING_WINDOW_SECONDS = Some window"
    by (elim plan_text_Inr) blast
  have "b' = b" using signed assms(4,5) g' by (auto simp: signed_list_of_def invalid_def split: if_splits)
  then have "\<not> other_rule g c b' (revoked_identities db c) r"
    using assms(6) by (auto simp: other_rule_def revoked_identities_def)
  then obtain n where "rejoin_intent g window (stored_intents db g c) r = Some n"
    using check_removed_Inr [OF removed assms(2)] g' by auto
  then show ?thesis
    using rejoin_intent_Some [of g window "stored_intents db g c" r n] stored_intents_rows [of n db g c] window
    by (auto simp: MLS_REJOIN_OUTSTANDING_WINDOW_SECONDS_def)
qed simp_all

definition sample_rejoin :: mls_join_intent where
  "sample_rejoin = \<lparr>ji_id = intent_composite_id (replicate 64 CHR ''1'') (ulid_of CHR ''A'') (replicate 32 CHR ''a''),
     ji_group = replicate 64 CHR ''1'', ji_user = ulid_of CHR ''A'', ji_device = replicate 32 CHR ''a'',
     ji_key_package_ref = ''k'', ji_signature = ''s'', ji_created_at = 35\<rparr>"

definition sample_rejoining :: pc_db where
  "sample_rejoining = secure_step sample_lib 35 (JoinIntent sample_rejoin) (snd sample_committed)"

definition sample_eviction :: mls_commit where
  "sample_eviction = (sample_commit 2 [] [device_of CHR ''A''])\<lparr>cm_committer := device_of CHR ''B'', cm_created_at := 40\<rparr>"

theorem eviction_needs_rejoin_witness:
  "fst (insert_mls_text_commit sample_lib sample_eviction sample_ad 0 sample_rejoining) = Inr Won
   \<and> (\<exists>n\<in>set (rows (pd_intents sample_rejoining)). ji_user n = ulid_of CHR ''A'' \<and> - 29960 \<le> ji_created_at n)"
proof -
  let ?g = "the (map_of (pd_groups sample_rejoining) (replicate 64 CHR ''1''))" and ?l = "the (map_of (pd_seat_lists sample_rejoining) (ulid_of CHR ''C''))"
  have won: "fst (insert_mls_text_commit sample_lib sample_eviction sample_ad 0 sample_rejoining) = Inr Won" by code_simp
  then have run: "insert_mls_text_commit sample_lib sample_eviction sample_ad 0 sample_rejoining
      = (Inr Won, snd (insert_mls_text_commit sample_lib sample_eviction sample_ad 0 sample_rejoining))"
    by (simp add: prod_eq_iff)
  have "map_of (pd_groups sample_rejoining) (replicate 64 CHR ''1'') \<noteq> None \<and> mg_channel ?g = ulid_of CHR ''C''
      \<and> map_of (pd_seat_lists sample_rejoining) (ulid_of CHR ''C'') \<noteq> None" by code_simp
  then have g: "map_of (pd_groups sample_rejoining) (cm_group sample_eviction) = Some ?g"
    and l: "map_of (pd_seat_lists sample_rejoining) (mg_channel ?g) = Some ?l"
    by (auto simp: sample_eviction_def sample_commit_def)
  have b: "seat_list_parse (sl_body ?l) = Inr (sample_body 1 [ulid_of CHR ''A'', ulid_of CHR ''B''])" by code_simp
  have r: "device_of CHR ''A'' \<in> set (cm_removed sample_eviction)" by (simp add: sample_eviction_def sample_commit_def)
  show ?thesis
    using won eviction_needs_rejoin [OF run r g l b]
    by (auto simp: device_of_def sample_body_def sample_eviction_def sample_commit_def sample_lib_def)
qed

section \<open>Rosters\<close>

text \<open>C23: In every reachable state the roster of every group, of a call or of a text channel, names no
  device twice and holds at most a hundred of them.\<close>

theorem rosters_bounded:
  assumes "reach lib t db" and "map_of (pd_groups db) k = Some g"
  shows "distinct (mg_members g) \<and> length (mg_members g) \<le> MAX_MLS_GROUP_MEMBERS"
  using groups.holds [OF assms(1)] assms(2) unfolding group_inv_def groups_ok_def roster_ok_def by blast

theorem rosters_bounded_witness:
  "\<exists>g. map_of (pd_groups sample_grouped) (replicate 64 CHR ''1'') = Some g \<and> length (mg_members g) \<le> MAX_MLS_GROUP_MEMBERS"
proof -
  have "map_of (pd_groups sample_grouped) (replicate 64 CHR ''1'') \<noteq> None" by code_simp
  then obtain g where g: "map_of (pd_groups sample_grouped) (replicate 64 CHR ''1'') = Some g" by blast
  then show ?thesis using rosters_bounded [OF sample_grouped_reach g] by blast
qed






end
