(* ===== verification/Removal_Lands.thy ===== *)
theory Removal_Lands
  imports Group_Theorems
begin

text \<open>
  A list that only removes users is always accepted.
\<close>

lemma release_seats_total: "seat_cooldown_until lib now = Inr until \<Longrightarrow> \<exists>rs. release_seats lib now desired ss = Inr rs"
  by (induction ss) (auto simp: seat_release_def)

lemma commit_ad_chain: "commit_ad lib l = Inr ad \<Longrightarrow> length (sl_handovers l) \<le> MAX_SEAT_LIST_HANDOVERS"
  by (auto simp: commit_ad_def invalid_def split: if_splits)

text \<open>C19: Removing users is never blocked. A correctly signed list of the next version that names only
  users who are seated lands, whatever the state of the channel's entitlement, its slots and
  the flag for new seats, and whether or not the channel has one, provided its signer has a
  leaf in the open group, the time can be advanced by the cooldown and the data of a commit
  fits; afterwards exactly the listed users are seated.\<close>

theorem removal_lands:
  assumes "reach lib t db" and "map_of (pd_seat_lists db) channel = Some l"
    and "seat_list_parse (ss_body sub) = Inr body" and "bo_channel body = channel" and "bo_signer_device body = ss_signer_device sub"
    and "bo_version body = sl_version l + 1" and "set (bo_seats body) \<subseteq> seated db channel"
    and "decode_signature_b64 lib (ss_signature sub) = Inr raw" and "ss_handover sub = None"
    and "\<forall>g. open_text_group db channel = Some g \<longrightarrow> has_member g (bo_signer_user body) (bo_signer_device body)"
    and "lib_add_days lib now SEAT_COOLDOWN_DAYS = Some until"
    and "commit_ad lib \<lparr>sl_id = channel, sl_version = bo_version body, sl_body = ss_body sub, sl_signer_user = bo_signer_user body,
      sl_signer_device = bo_signer_device body, sl_signature = ss_signature sub, sl_handovers = sl_handovers l, sl_updated_at = now\<rparr> = Inr ad"
  shows "\<exists>out db'. put_seat_list lib channel sub allow now db = (Inr out, db') \<and> \<not> so_unchanged out
    \<and> seated db' channel = set (bo_seats body)"
proof -
  let ?w = "write_input db Put channel sub allow now"
  have wf: "seats_wf db" using seats.holds [OF assms(1)] by (simp add: seat_inv_def)
  obtain old where old: "seat_list_parse (sl_body l) = Inr old"
    using groups.holds [OF assms(1)] assms(2) by (auto simp: group_inv_def lists_ok_def list_ok_def)
  have valid: "seat_list_valid body" using assms(3) by (simp add: seat_list_parse_iff)
  then have seats: "remdups_adj (sort (bo_seats body)) = bo_seats body" by (simp add: seat_list_valid_def canonical_seats)
  have kept: "\<not> claimable (channel_seats db channel) v" "list_ex (\<lambda>s. se_user s = v \<and> seat_active s) (channel_seats db channel)"
    if v: "v \<in> set (bo_seats body)" for v
  proof -
    have u: "is_valid_ulid_id channel" "is_valid_ulid_id v" using valid v assms(4) by (auto simp: seat_list_valid_def)
    have "is_some_and seat_active (map_of (pd_seats db) (composite_id channel v))"
      using seated_iff [OF wf u(1)] assms(7) v by auto
    then show "\<not> claimable (channel_seats db channel) v" using seat_lookup [OF wf u] by (auto simp: claimable_def is_some_and_iff)
    show "list_ex (\<lambda>s. se_user s = v \<and> seat_active s) (channel_seats db channel)"
      using assms(7) v by (auto simp: seated_def list_ex_iff)
  qed
  have none: "filter (claimable (channel_seats db channel)) (bo_seats body) = []" using kept(1) by (simp add: filter_empty_conv)
  have version: "version_rule Put (Some l) sub body = Inr None"
    using assms(6) valid by (auto simp: version_rule_def seat_list_valid_def seat_limits i64_max_def)
  have removed: "seat_list_removed_users body (Some l) (channel_seats db channel) = Inr []"
    using kept(2) old by (auto simp: seat_list_removed_users_def filter_empty_conv)
  obtain rs released where released: "release_seats lib now (bo_seats body) (channel_seats db channel) = Inr (rs, released)"
    using release_seats_total assms(11) by (fastforce simp: seat_cooldown_until_def)
  obtain pending where pending: "pending_added ?w (bo_seats body) = Inr pending"
    using old assms(2) by (cases "open_text_group db channel") (auto simp: pending_added_def)
  have chain: "append_handover lib (Some l) None = Inr (sl_handovers l)"
    using commit_ad_chain [OF assms(12)] by (simp add: append_handover_def)
  have "\<exists>p. plan_apply lib ?w body = Inr (Apply p) \<and> wp_claimed p = []"
    using assms(2,9,10,12) released pending chain none unfolding plan_apply_def Let_def seats claim_seats_eq
    by (auto simp: check_claims_def commit_ad_sha256_def is_some_and_iff)
  then obtain p where p: "plan_seat_list_write lib ?w = Inr (Apply p)" "wp_claimed p = []"
    using assms(2-5,8) version removed by (auto simp: plan_seat_list_write_def Let_def)
  then have "put_seat_list lib channel sub allow now db
      = (Inr (decision_outcome (Apply p)), apply_decision (Apply p) (map_option mg_id (open_text_group db channel)) db)"
    by (simp add: put_seat_list_def eff_simps check_members_def)
  moreover have "plan_for db lib ?w p body" using p(1) wf assms(3) by (simp add: plan_for_def)
  ultimately show ?thesis using seated_written [of db lib ?w p body] by (auto simp: apply_decision_def)
qed

theorem removal_lands_witness:
  "\<exists>out db'. put_seat_list sample_lib (ulid_of CHR ''C'') (sample_submission 2 [ulid_of CHR ''A'']) False 30 sample_db = (Inr out, db')
     \<and> seated db' (ulid_of CHR ''C'') = {ulid_of CHR ''A''}"
proof -
  let ?l = "the (map_of (pd_seat_lists sample_db) (ulid_of CHR ''C''))" and ?sub = "sample_submission 2 [ulid_of CHR ''A'']"
    and ?b = "sample_body 2 [ulid_of CHR ''A'']"
  let ?row = "\<lparr>sl_id = ulid_of CHR ''C'', sl_version = bo_version ?b, sl_body = ss_body ?sub, sl_signer_user = bo_signer_user ?b,
      sl_signer_device = bo_signer_device ?b, sl_signature = ss_signature ?sub, sl_handovers = sl_handovers ?l, sl_updated_at = 30\<rparr>"
  have b: "bo_channel ?b = ulid_of CHR ''C''" "bo_signer_device ?b = ss_signer_device ?sub" "ss_handover ?sub = None"
    by (simp_all add: sample_body_def sample_submission_def)
  have version: "bo_version ?b = sl_version ?l + 1" by (simp add: sample_db_value sample_start_def sample_list_def sample_body_def)
  have "ulid_of CHR ''A'' \<in> seated sample_db (ulid_of CHR ''C'')" by code_simp
  then have seated: "set (bo_seats ?b) \<subseteq> seated sample_db (ulid_of CHR ''C'')" by (simp add: sample_body_def)
  have "isl (decode_signature_b64 sample_lib (ss_signature ?sub)) = False" by code_simp
  then have raw: "decode_signature_b64 sample_lib (ss_signature ?sub) = Inr (projr (decode_signature_b64 sample_lib (ss_signature ?sub)))" by simp
  have leaf: "\<forall>g. open_text_group sample_db (ulid_of CHR ''C'') = Some g \<longrightarrow> has_member g (bo_signer_user ?b) (bo_signer_device ?b)"
    by (simp add: sample_db_value sample_start_def open_text_group_def rows_def)
  have days: "lib_add_days sample_lib 30 SEAT_COOLDOWN_DAYS = Some (30 + SEAT_COOLDOWN_DAYS * 86400000)" by (simp add: sample_lib_def)
  have "isl (commit_ad sample_lib ?row) = False" by code_simp
  then have ad: "commit_ad sample_lib ?row = Inr (projr (commit_ad sample_lib ?row))" by simp
  have "set (bo_seats ?b) = {ulid_of CHR ''A''}" by (simp add: sample_body_def)
  then show ?thesis
    using removal_lands [OF sample_reach sample_put_run(4,3) b(1,2) version seated raw b(3) leaf days ad, of False] by metis
qed

end
