(* ===== verification/Key_Packages.thy ===== *)
theory Key_Packages
  imports Group_Theorems
begin

text \<open>
  One-time key packages are handed out once.
\<close>

section \<open>The store\<close>

definition package_inv :: "pc_db \<Rightarrow> bool" where
  "package_inv db \<longleftrightarrow> keyed kp_id (pd_key_packages db)"

lemma group_ops_packages:
  "keeps (\<lambda>db. pd_key_packages db = x) (create_text_mls_group lib g supersedes)"
  "keeps (\<lambda>db. pd_key_packages db = x) (create_mls_group g supersedes)"
  "keeps (\<lambda>db. pd_key_packages db = x) (close_mls_group i t)"
  unfolding create_text_mls_group_def insert_text_group_def create_mls_group_def create_fresh_group_def close_mls_group_def
    put_group_def fetch_mls_group_def Let_def
  by (intro keeps_intros keeps_modE; simp add: drop_group_def)+

lemma commit_ops_packages:
  "keeps (\<lambda>db. pd_key_packages db = x) (insert_mls_commit c)"
  "keeps (\<lambda>db. pd_key_packages db = x) (insert_mls_text_commit lib c ad cap)"
  "keeps (\<lambda>db. pd_key_packages db = x) (upsert_mls_join_intent n)"
  "keeps (\<lambda>db. pd_key_packages db = x) (sweep_mls_groups closed created)"
  "keeps (\<lambda>db. pd_key_packages db = x) (prune_mls_text_commits older)"
  unfolding insert_mls_commit_def insert_mls_text_commit_def upsert_mls_join_intent_def sweep_mls_groups_def prune_mls_text_commits_def
    put_group_def fetch_mls_group_def drop_intents_def Let_def
  by (intro keeps_intros keeps_modE; simp)+

lemma channel_ops_packages:
  "keeps (\<lambda>db. pd_key_packages db = x) (upsert_channel_entitlement e t)"
  "keeps (\<lambda>db. pd_key_packages db = x) (release_channel_seats_for_user lib user server t)"
  "keeps (\<lambda>db. pd_key_packages db = x) (delete_protected_channel_data channel)"
  unfolding upsert_channel_entitlement_def release_channel_seats_for_user_def delete_protected_channel_data_def Let_def
  by (intro keeps_intros keeps_modE; simp)+

lemma put_packages: "pd_key_packages (snd (put_seat_list lib channel sub allow t db)) = pd_key_packages db"
proof -
  obtain r db' where run: "put_seat_list lib channel sub allow t db = (r, db')" by fastforce
  then have "pd_key_packages db' = pd_key_packages db" by (cases rule: put_cases) (simp_all add: apply_decision_def)
  then show ?thesis using run by simp
qed

lemma protect_packages: "pd_key_packages (snd (protect_channel lib channel sub t db)) = pd_key_packages db"
proof -
  obtain r db' where run: "protect_channel lib channel sub t db = (r, db')" by fastforce
  then have "pd_key_packages db' = pd_key_packages db" by (cases rule: protect_cases) (simp_all add: apply_decision_def)
  then show ?thesis using run by simp
qed

lemmas packages_unwritten = put_packages protect_packages group_ops_packages [THEN keepsD, OF refl]
  commit_ops_packages [THEN keepsD, OF refl] channel_ops_packages [THEN keepsD, OF refl]

section \<open>Publishing and consuming\<close>

fun publishes :: "secure_op \<Rightarrow> string \<Rightarrow> bool" where
  "publishes (PublishKeyPackages ps) i \<longleftrightarrow> i \<in> kp_id ` set ps"
| "publishes (PublishCapped user device ps n) i \<longleftrightarrow> i \<in> kp_id ` set ps"
| "publishes (ReplaceLastResort p) i \<longleftrightarrow> i = kp_id p"
| "publishes _ i \<longleftrightarrow> False"

lemma store_keyed: "keyed kp_id t \<Longrightarrow> keyed kp_id (store_key_packages ps t)"
  unfolding store_key_packages_def by (rule keyed_foldl_update)

lemma store_absent: "map_of t i = None \<Longrightarrow> i \<notin> kp_id ` set ps \<Longrightarrow> map_of (store_key_packages ps t) i = None"
  unfolding store_key_packages_def by (simp add: map_of_foldl_update_old)

lemma filter_absent: "map_of t i = None \<Longrightarrow> map_of (filter P t) i = None"
  by (auto simp: map_of_eq_None_iff)

lemma package_inv_step: "package_inv db \<Longrightarrow> package_inv (secure_step lib t op db)"
  by (cases op)
    (auto simp: package_inv_def packages_unwritten elsewhere_def insert_mls_key_packages_def insert_mls_key_packages_capped_def
      consume_mls_key_package_def replace_mls_last_resort_key_package_def delete_mls_key_packages_def delete_expired_mls_key_packages_def
      retain_key_packages_def eff_simps Let_def store_keyed keyed_filter keyed_delete keyed_foldl_delete keyed_update split: list.split)

lemma absent_step: "map_of (pd_key_packages db) i = None \<Longrightarrow> \<not> publishes op i \<Longrightarrow> map_of (pd_key_packages (secure_step lib t op db)) i = None"
  by (cases op)
    (auto simp: packages_unwritten elsewhere_def insert_mls_key_packages_def insert_mls_key_packages_capped_def
      consume_mls_key_package_def replace_mls_last_resort_key_package_def delete_mls_key_packages_def delete_expired_mls_key_packages_def
      retain_key_packages_def eff_simps Let_def store_absent filter_absent map_of_foldl_delete table_simps split: list.split)

interpretation packages: secure_invariant lib "\<lambda>t db. package_inv db" for lib
proof
  show "package_inv db" if "secure_start db" for db using that by (simp add: secure_start_def package_inv_def)
qed (auto intro: package_inv_step)

lemma absent_run:
  "map_of (pd_key_packages db) i = None \<Longrightarrow> \<forall>(t, op)\<in>set ops. \<not> publishes op i \<Longrightarrow> map_of (pd_key_packages (secure_run lib ops db)) i = None"
proof (induction ops arbitrary: db)
  case (Cons x ops)
  obtain t op where x: "x = (t, op)" by (cases x)
  then show ?case using Cons absent_step by auto
qed simp

lemma consume_Some:
  assumes "package_inv db" "consume_mls_key_package user device db = (Inr (Some p), db')"
  shows "map_of (pd_key_packages db) (kp_id p) = Some p \<and> one_time_of user device p
    \<and> db' = db\<lparr>pd_key_packages := AList.delete (kp_id p) (pd_key_packages db)\<rparr>"
proof -
  have k: "keyed kp_id (pd_key_packages db)" using assms(1) by (simp add: package_inv_def)
  obtain i rest where i: "sort (map kp_id (filter (one_time_of user device) (rows (pd_key_packages db)))) = i # rest"
    "map_of (pd_key_packages db) i = Some p" "db' = db\<lparr>pd_key_packages := AList.delete i (pd_key_packages db)\<rparr>"
    using assms(2) by (auto simp: consume_mls_key_package_def eff_simps split: list.splits)
  have "i \<in> set (sort (map kp_id (filter (one_time_of user device) (rows (pd_key_packages db)))))" using i(1) by simp
  then obtain q where "q \<in> set (rows (pd_key_packages db))" "one_time_of user device q" "kp_id q = i" by auto
  then have "q = p" using keyed_rows_iff [OF k] i(2) by auto
  then show ?thesis using i \<open>one_time_of user device q\<close> \<open>kp_id q = i\<close> by simp
qed

text \<open>C24: A one-time key package is handed out at most once. What is consumed is a stored one-time
  package of the device asked for, and after it, whatever operations run that do not publish
  its id again, no request is answered with that id.\<close>

theorem key_package_handed_once:
  assumes "reach lib t db" and "consume_mls_key_package user device db = (Inr (Some p), db')"
    and "run_ok t ops" and "\<forall>(t', op)\<in>set ops. \<not> publishes op (kp_id p)"
    and "fst (consume_mls_key_package user' device' (secure_run lib ops db')) = Inr (Some q)"
  shows "one_time_of user device p \<and> kp_id q \<noteq> kp_id p"
proof -
  have p: "map_of (pd_key_packages db) (kp_id p) = Some p" "one_time_of user device p"
    "db' = db\<lparr>pd_key_packages := AList.delete (kp_id p) (pd_key_packages db)\<rparr>"
    using consume_Some [OF packages.holds [OF assms(1)] assms(2)] by auto
  then have gone: "map_of (pd_key_packages (secure_run lib ops db')) (kp_id p) = None"
    by (intro absent_run [OF _ assms(4)]) (simp add: table_simps)
  have "db' = secure_step lib t (ConsumeKeyPackage user device) db" using assms(2) by simp
  then have "reach lib t db'" using reach_step [OF assms(1) order_refl, of "ConsumeKeyPackage user device"] by simp
  then have "package_inv (secure_run lib ops db')" using packages.holds [OF reach_run [OF _ assms(3)]] by blast
  moreover obtain db'' where "consume_mls_key_package user' device' (secure_run lib ops db') = (Inr (Some q), db'')"
    using assms(5) by (metis prod.collapse)
  ultimately have "map_of (pd_key_packages (secure_run lib ops db')) (kp_id q) = Some q" using consume_Some by blast
  then show ?thesis using gone p(2) by auto
qed

definition sample_package :: "string \<Rightarrow> mls_key_package" where
  "sample_package i = \<lparr>kp_id = i, kp_user = ''U'', kp_device = ''D'', kp_ref = i, kp_package = ''p'', kp_signature_key = ''k'',
     kp_binding_signature = ''s'', kp_last_resort = False, kp_expires_at = 100, kp_created_at = 0\<rparr>"

definition sample_packages :: pc_db where
  "sample_packages = secure_step sample_lib 0 (PublishKeyPackages [sample_package ''2'', sample_package ''1'']) sample_start"

theorem key_package_handed_once_witness:
  "consume_mls_key_package ''U'' ''D'' sample_packages
     = (Inr (Some (sample_package ''1'')), snd (consume_mls_key_package ''U'' ''D'' sample_packages))
   \<and> kp_id (sample_package ''2'') \<noteq> kp_id (sample_package ''1'')"
proof -
  have "reach sample_lib 0 sample_start" by (rule reach_start) (simp add: secure_start_def sample_start_def)
  then have r: "reach sample_lib 0 sample_packages" unfolding sample_packages_def by (rule reach_step) simp_all
  have "fst (consume_mls_key_package ''U'' ''D'' sample_packages) = Inr (Some (sample_package ''1''))" by code_simp
  then have p: "consume_mls_key_package ''U'' ''D'' sample_packages
     = (Inr (Some (sample_package ''1'')), snd (consume_mls_key_package ''U'' ''D'' sample_packages))" by (simp add: prod_eq_iff)
  have q: "fst (consume_mls_key_package ''U'' ''D'' (secure_run sample_lib [] (snd (consume_mls_key_package ''U'' ''D'' sample_packages))))
     = Inr (Some (sample_package ''2''))" by code_simp
  show ?thesis using p key_package_handed_once [OF r p _ _ q] by simp
qed

end
