(* ===== verification/Spec2Isabelle.thy ===== *)
theory Spec2Isabelle
  imports Prot_Ledger_Props Checkout_Props Poll_Props Channel_Props Removal_Lands Key_Packages
begin

text \<open>
  A verification library of the Sloga backend: who may do what (permissions and roles), polls,
  who pays for what (payments), and who is in an encrypted group (protected channels and MLS).
  Paths below are under \<open>src/crates\<close>.

  \<^bold>\<open>How the parts fit.\<close> A route or the events gateway asks for the permissions of a user on a
  server or a channel; the calculation reads what it needs through a query trait, implemented
  over the database for one user and, separately, for many members at once. A purchase starts
  with a checkout, which stores an order and opens a session at Stripe; Stripe's webhook events
  and a periodic reconcile sweep then drive the order through its life cycle, claim a Cipher
  number, write the membership, credit and claw back Prot in the ledger, and publish the badge.
  Several workers do this at once and coordinate only through leases and compare-and-swap writes
  on the rows. A protected channel has a signed list of seats, kept by the server's owner and
  bounded by an entitlement; the devices of the seated users form an MLS group, whose commits the
  delivery service orders and checks against the list.

  \<^bold>\<open>Prelude.\<close> \<open>Sloga_Prelude\<close> has the errors of \<open>core/result\<close>, effects with errors over a
  state (\<open>eff\<close>, \<open>bindE\<close>, \<open>tryE\<close>, \<open>retryE\<close>), 64-bit wrap-around, saturating and checked
  arithmetic, tables as association lists, and the collections of facts the proofs draw on;
  \<open>Sloga_Text\<close> results in sequence (\<open>andR\<close>), decimal text, and splitting and joining of text.

  \<^bold>\<open>Permissions.\<close> \<open>Permission_Values\<close> holds the permission bits, overrides and permission
  values (\<open>core/permissions/src/models\<close>); \<open>Permission_Calc\<close> the calculation over the query
  trait (\<open>permissions/src/impl.rs\<close>), with the trait as a record of operations and its laws as
  the locale \<open>permission_query\<close>; \<open>Permission_Db\<close> the query over the database
  (\<open>core/database/src/util/permissions.rs\<close>) with the interpretation \<open>dbq\<close>; \<open>Permission_Bulk\<close>
  the bulk query (\<open>util/bulk_permissions.rs\<close>). \<open>Permission_Props\<close> shows that the calculation
  always answers, that the bulk query agrees with the single one, that a member in timeout keeps
  only what may be read, that the highest override decides and that an edit gives away nothing
  the editor lacks.

  \<open>Event_Visibility\<close> is who may see a calendar event (\<open>util/event_visibility.rs\<close>): the viewer
  that remembers its lookups during a request answers as the check of one channel does. Its
  debug assertion is a parameter, the one of a reorder of roles is always on.

  \<^bold>\<open>Roles.\<close> \<open>Server_Roles\<close> is the administration of the roles of a server: the routes that create,
  edit, reorder and delete them and set their permissions and the default
  (\<open>delta/src/routes/servers/roles_*.rs\<close>, \<open>permissions_set*.rs\<close>), the methods of \<open>Role\<close> and \<open>Server\<close>
  they call (\<open>core/database/src/models/servers/model.rs\<close>), the role operations of the reference
  database, the events and the audit log. A request is one function of the state (\<open>admin_db\<close>);
  what it takes from outside is its environment (\<open>admin_env\<close>). \<open>Role_Effects\<close> reads the permissions
  of a member bit by bit and shows that every request other than a reorder stores one of six
  changes, each with the checks that allowed it (\<open>stores\<close>). \<open>Role_Props\<close> concludes that these
  requests give nobody a permission the caller lacks and leave what ranks at or above the caller
  alone, and that a reorder stores exactly the order asked for.

  \<open>Channel_Permissions\<close> adds the overrides on a channel (\<open>routes/channels/permissions_set*.rs\<close>, the
  methods of \<open>Channel\<close>), with the one write in which the reference database and MongoDB differ
  modelled for both. \<open>Channel_Props\<close> shows that on text channels and forums they give nobody who sees
  the channel a permission the caller lacks, that the default of a group can be set to any value
  without such a check, and that a role override on a channel outside servers panics.

  \<^bold>\<open>Polls.\<close> \<open>Interleaving\<close> models handlers that run side by side: a program is its result or its
  next atomic step (\<open>prog\<close>), a system is a list of programs over one state, \<open>sys_step\<close> lets any
  of them step next, and every system can be run to its end (\<open>system_ends\<close>). \<open>owes\<close> keeps the
  account of what each program has yet to do to a quantity of the state. \<open>Polls\<close> has the poll and
  ballot tables with every operation (\<open>core/database/src/models/polls\<close>), recounting and closing,
  the routes (\<open>delta/src/routes/channels/poll_*.rs\<close>) and the expiry daemon
  (\<open>daemons/crond/src/tasks/poll_expiry.rs\<close>), each database call and each published event one
  step. \<open>Poll_Handlers\<close> proves in the locale \<open>poll_ledger\<close> that every handler settles what it owes,
  and interprets it for the drift between counters and ballots, for the \<open>PollClose\<close> events and
  for the shape of the tables. \<open>Poll_Props\<close> shows, for every interleaving, exact counters on an
  open poll, one \<open>PollClose\<close> per closed poll, one ballot per voter, and results hidden until one
  votes.

  \<^bold>\<open>Payment data.\<close> \<open>Payment_Catalog\<close> holds products, prices, quotes and settings
  (\<open>core/payments/src/catalog.rs\<close>, \<open>settings.rs\<close>); \<open>Payment_Orders\<close>, \<open>Cipher_Numbers\<close>,
  \<open>Cipher_Memberships\<close> and \<open>Payment_Events\<close> the collections of the reference database
  (\<open>core/database/src/models\<close>) with every operation; \<open>Prot_Ledger\<close> the double-entry ledger.
  Shown for every interleaving of their operations: no lost update and exclusive leases (through
  the locale \<open>versioned_store\<close>, interpreted as \<open>ov\<close> for the orders), numbers and badges that are
  never shared, events recorded once, balances that are the sum of the ledger's rows, postings
  applied once per key, wallets that are never overdrawn, grants and clawbacks that settle.

  \<^bold>\<open>Stripe.\<close> \<open>Stripe_Types\<close> holds the objects Stripe reports and how they are read from JSON
  (\<open>payments/src/stripe/client.rs\<close>, \<open>event.rs\<close>), the interface \<open>StripeApi\<close> as a record of
  functions, and the check of a webhook's signature (\<open>signature.rs\<close>): it accepts exactly the
  headers it should, and those Stripe signs.

  \<^bold>\<open>The engine.\<close> \<open>payments/src/engine.rs\<close> and \<open>engine/prot.rs\<close> are modelled function by
  function. \<open>Engine_Base\<close> has the state, leases, fenced writes, refunds asked for, the match of a
  session with an order, and badges; \<open>Engine_Prot\<close> credits, clawbacks and the wallet's views;
  \<open>Engine_Reverse\<close> refunds, disputes and the release of a number; \<open>Engine_Fulfil\<close> fulfilment and
  voids; \<open>Engine_Checkout\<close> checkouts, expiry, views and account deletion. \<open>Dispatch\<close> is
  \<open>payments/src/dispatch.rs\<close>: events to engine calls, and the reconcile sweep. Long functions of
  the source are several definitions here, one for each of their stages.

  The state of the engine is a \<open>world\<close>: the database, the state of the provider, and
  \<open>w_others\<close>, what other workers do to the database before each of this worker's next database
  calls. A statement about every world is a statement about every interleaving at the
  granularity of single database calls. Ghost fields keep the steps this worker made (\<open>w_steps\<close>)
  and its calls to Stripe with the database at that moment (\<open>w_calls\<close>).

  \<^bold>\<open>What is shown of the engine.\<close> \<open>Engine_Protocol\<close> is a rely-guarantee logic over worlds:
  the rely (orders do not disappear, a change moves the version, what was sold stays), the
  guarantee (the rely, and states move along the edges of the life cycle), rules for actions with
  and without a lease; the locale \<open>versioned_store\<close> gives the fencing of a lease (interpretation
  \<open>rv\<close>). \<open>Engine_Guarantee\<close> proves the judgement for every operation. \<open>Engine_Props\<close> states it of
  the webhook handler, refines the sweep to an abstract machine of life cycles, and shows when a
  void refunds, that a product is handed over only for its exact price and that settled events are
  not handled twice. \<open>Checkout_Props\<close> has the price a checkout charges, account deletion, the badge
  and the bound on stored error texts.

  \<^bold>\<open>Protected channels.\<close> \<open>Seat_Lists\<close> has entitlements, seats, the strict parser and the builder of
  the signed seat list and of the handover statement, and the data a commit carries
  (\<open>core/database/src/models/protected_channels/model.rs\<close>); \<open>Seat_Planner\<close> the planner of a change
  of the list, step by step, and the checks of a new text group; \<open>Protected_Channels\<close> the state
  (\<open>pc_db\<close>) and every operation of the reference driver (\<open>protected_channels/ops/reference.rs\<close>):
  entitlements, protecting a channel, changing its list, creating its group, forced releases and
  deletion.

  \<^bold>\<open>The MLS delivery service.\<close> \<open>Mls_Model\<close> has key packages, groups, commits and join intents
  (\<open>models/mls/model.rs\<close>), \<open>Mls_Driver\<close> the operations of the reference driver on key packages and
  call groups (\<open>mls/ops/reference.rs\<close>), \<open>Mls_Text\<close> the planner of text commits, its rules for
  removing and adding devices (\<open>mls/ops.rs\<close>), and the rest of the driver. An operation of these
  drivers holds its locks from the first read to the last write, so it is one step.

  \<^bold>\<open>What is shown of them.\<close> \<open>Secure_Steps\<close> makes the operations that write a state machine
  (\<open>secure_op\<close>, \<open>secure_step\<close>) whose reachable states are \<open>reach\<close>: any operations, at times that do not
  decrease, with what the routes check of their arguments (\<open>route_checked\<close>: a new group has a valid
  id, a call starts with its creator, a call commit names no device twice and adds at most a
  hundred), and between them any change of the channels, messages, servers, members, identities
  and queued envelopes. The locale \<open>secure_invariant\<close>
  asks of a predicate that it holds at the start and is kept by every step and by the passing of
  time, and concludes that it holds of every reachable state. It is interpreted three times:
  \<open>seats\<close> (\<open>seat_inv\<close>: rows under their ids, one entitlement per channel, seats within the
  slots; \<open>Seat_Invariants\<close>, \<open>Seat_Writes\<close>, \<open>Seat_Props\<close>,
  \<open>Seat_Reach\<close>), \<open>groups\<close> (\<open>group_inv\<close>: one open text group per channel that follows the stored list,
  rosters, epochs with their commits; \<open>Group_Invariants\<close>, \<open>Group_Writes\<close>, \<open>Group_Commits\<close>,
  \<open>Group_Reach\<close>), and \<open>packages\<close> (\<open>Key_Packages\<close>). \<open>Seat_Text_Props\<close> shows that the list has one
  text and that the data of a commit determines the list. \<open>Seat_Theorems\<close> concludes that seats stay
  within the slots, that a list that lands seats exactly its users, that users the server
  removed stay out, and that an accepted change can be sent again; \<open>Group_Kept\<close> and \<open>Group_Theorems\<close>
  that a group follows the list, that commits add seated users only, that an epoch has one
  winner, that devices in good standing are evicted on their own request only, that rosters are
  bounded, and that one call commit can bring in any number of devices of a user; \<open>Removal_Lands\<close> that
  removing users is never blocked; \<open>Key_Packages\<close> that a one-time key package is handed out once.

  \<^bold>\<open>Loops and bounds.\<close> The retry loops of the source are bounded there (five rounds for
  memberships and badges, a bounded number of passes for forfeits), and \<open>retryE\<close> takes that
  bound; loops over rows are structural recursion. There is no fuel of our own. Integers are
  unbounded where the source's values are bounded by construction; elsewhere they saturate,
  wrap or fail as the source's operation does. Text is a list of bytes (UTF-8).

  \<^bold>\<open>Parameters.\<close> Not in the source and therefore arguments: SHA-256 and HMAC, the ULID
  generator, the date parser of the settings, the implementation of \<open>StripeApi\<close> and the state it
  keeps, and the Prot section of the configuration the engine loads for itself; for the seat lists, base64
  decoding, SHA-256 and the checked arithmetic on timestamps (the record \<open>seat_lib\<close>, of which
  nothing is assumed in general); for the roles, the
  regular expression of colours and the text of a failed validation, and, as answers of parts
  that are left out, the file store, the voice servers and the cleaned reason of a request. No
  property assumes anything of the provider or of these answers.

  \<^bold>\<open>Not modelled.\<close> The MongoDB drivers (the reference implementations of the same traits are
  modelled instead), HTTP, WebSockets, queues, Redis, logging and published events; the JSON text
  parser (decoding starts at the parsed value); accounts and sessions, message content, files,
  voice, moderation, calendars and the daemons around them. Of end-to-end encryption, the protocol
  runs in the clients and the cryptography is in third-party libraries; the stores of device
  identities, prekeys and queued envelopes (\<open>models/e2ee\<close>) appear only as what the delivery service
  reads of them, and the HTTP routes of protected channels and MLS as what they guarantee of their
  arguments. The remaining code is mostly calls to these outside services, storage of rows, or
  requests whose authorization is the permission calculation modelled here.
\<close>

end
